(* ===== verification/Hub32_Prelude.thy ===== *)
theory Hub32_Prelude
  imports Main "HOL-Library.Word" "HOL-Library.Char_ord" "HOL-Library.List_Lexorder"
begin

text \<open>
  Shared vocabulary of the hub32api development: the type names the components
  use, the theorem collections their proofs draw on, and the generic facts on
  maps, lists, options and finite sets that more than one component needs.
  Nothing here models code of its own.

  Conventions: \<^verbatim>\<open>std::string\<close> is \<open>string\<close> (one \<open>char\<close> per byte), a byte is an
  \<open>8 word\<close>, a C++ \<^verbatim>\<open>int\<close> or \<^verbatim>\<open>int64_t\<close> that cannot overflow in the code's range
  is \<open>int\<close>, a container size is \<open>nat\<close>, a hash map is a partial map.
\<close>

type_synonym byte = "8 word"
type_synonym uid = string
type_synonym timestamp = int

named_theorems op_defs \<open>definitions of the operations of a component\<close>
named_theorems inv_defs \<open>definitions of invariants\<close>
named_theorems inv_intros \<open>an operation preserves an invariant\<close>

section \<open>Maps\<close>

lemma map_upd_Some_cases:
  "(m(k \<mapsto> v)) x = Some w \<longleftrightarrow> (x = k \<and> w = v) \<or> (x \<noteq> k \<and> m x = Some w)"
  by auto

lemma map_del_Some_iff [simp]:
  "(m(k := None)) x = Some w \<longleftrightarrow> x \<noteq> k \<and> m x = Some w"
  by auto

lemma card_dom_upd_le:
  assumes "finite (dom m)"
  shows "card (dom (m(k \<mapsto> v))) \<le> Suc (card (dom m))"
  using assms by (simp add: card_insert_if)

lemma card_dom_upd_fresh:
  assumes "finite (dom m)" and "m k = None"
  shows "card (dom (m(k \<mapsto> v))) = Suc (card (dom m))"
proof -
  have "k \<notin> dom m" using assms(2) by auto
  with assms(1) show ?thesis by simp
qed

lemma card_dom_upd_old:
  assumes "m k = Some w"
  shows "card (dom (m(k \<mapsto> v))) = card (dom m)"
proof -
  have "dom (m(k \<mapsto> v)) = dom m" using assms by auto
  then show ?thesis by simp
qed

text \<open>Keeping the entries that satisfy a predicate, as a loop of \<^verbatim>\<open>erase\<close> calls does.\<close>

definition map_keep :: "('k \<Rightarrow> 'v \<Rightarrow> bool) \<Rightarrow> ('k \<rightharpoonup> 'v) \<Rightarrow> ('k \<rightharpoonup> 'v)" where
  "map_keep P m = (\<lambda>k. case m k of None \<Rightarrow> None | Some v \<Rightarrow> if P k v then Some v else None)"

lemma map_keep_Some [simp]: "map_keep P m k = Some v \<longleftrightarrow> m k = Some v \<and> P k v"
  by (auto simp: map_keep_def split: option.splits)

lemma map_keep_None [simp]:
  "map_keep P m k = None \<longleftrightarrow> (\<forall>v. m k = Some v \<longrightarrow> \<not> P k v)"
  by (auto simp: map_keep_def split: option.splits)

lemma dom_map_keep_subset: "dom (map_keep P m) \<subseteq> dom m"
  by (auto simp: dom_def)

lemma finite_dom_map_keep [intro]: "finite (dom m) \<Longrightarrow> finite (dom (map_keep P m))"
  by (rule finite_subset [OF dom_map_keep_subset])

lemma card_dom_map_keep_le: "finite (dom m) \<Longrightarrow> card (dom (map_keep P m)) \<le> card (dom m)"
  by (rule card_mono [OF _ dom_map_keep_subset])

text \<open>A map that files every value under its own key.\<close>

definition filed :: "('v \<Rightarrow> 'k) \<Rightarrow> ('k \<rightharpoonup> 'v) \<Rightarrow> bool" where
  "filed f m \<longleftrightarrow> (\<forall>k v. m k = Some v \<longrightarrow> f v = k)"

lemma filedD: "filed f m \<Longrightarrow> m k = Some v \<Longrightarrow> f v = k"
  by (simp add: filed_def)

lemma filed_empty [simp]: "filed f Map.empty"
  by (simp add: filed_def)

lemma filed_upd [intro]: "filed f m \<Longrightarrow> f v = k \<Longrightarrow> filed f (m(k \<mapsto> v))"
  by (simp add: filed_def)

lemma filed_del [intro]: "filed f m \<Longrightarrow> filed f (m(k := None))"
  by (simp add: filed_def)

lemma filed_sub: "filed f m \<Longrightarrow> (\<And>k v. m' k = Some v \<Longrightarrow> m k = Some v) \<Longrightarrow> filed f m'"
  by (simp add: filed_def)

lemma filed_map_keep [intro]: "filed f m \<Longrightarrow> filed f (map_keep P m)"
  by (simp add: filed_def)

lemma filed_fold_upd:
  assumes "filed f m" and "\<And>x. x \<in> set xs \<Longrightarrow> f (g x) = key x"
  shows "filed f (fold (\<lambda>x m. m(key x \<mapsto> g x)) xs m)"
  using assms by (induction xs arbitrary: m) auto

text \<open>Entries of a map selected by a predicate on the value.\<close>

definition keys_where :: "('v \<Rightarrow> bool) \<Rightarrow> ('k \<rightharpoonup> 'v) \<Rightarrow> 'k set" where
  "keys_where P m = {k. \<exists>v. m k = Some v \<and> P v}"

lemma keys_where_subset: "keys_where P m \<subseteq> dom m"
  by (auto simp: keys_where_def)

lemma finite_keys_where [intro]: "finite (dom m) \<Longrightarrow> finite (keys_where P m)"
  by (rule finite_subset [OF keys_where_subset])

lemma keys_where_upd_fresh:
  "m k = None \<Longrightarrow> keys_where P (m(k \<mapsto> v)) = (if P v then insert k (keys_where P m) else keys_where P m)"
  by (auto simp: keys_where_def)

lemma keys_where_upd_same:
  "m k = Some w \<Longrightarrow> P v = P w \<Longrightarrow> keys_where P (m(k \<mapsto> v)) = keys_where P m"
  by (auto simp: keys_where_def)

lemma keys_where_map_keep_subset: "keys_where P (map_keep Q m) \<subseteq> keys_where P m"
  by (auto simp: keys_where_def)

section \<open>Lists\<close>

lemma filter_map_unchanged:
  assumes "\<And>x. x \<in> set xs \<Longrightarrow> P (f x) = P x" and "\<And>x. x \<in> set xs \<Longrightarrow> P x \<Longrightarrow> f x = x"
  shows "filter P (map f xs) = filter P xs"
  using assms by (induction xs) auto

lemma length_filter_map_le:
  assumes "\<And>x. x \<in> set xs \<Longrightarrow> P (f x) \<Longrightarrow> P x"
  shows "length (filter P (map f xs)) \<le> length (filter P xs)"
  using assms by (induction xs) (auto simp: le_Suc_eq)

lemma length_filter_imp_le:
  assumes "\<And>x. x \<in> set xs \<Longrightarrow> P x \<Longrightarrow> Q x"
  shows "length (filter P xs) \<le> length (filter Q xs)"
  using assms by (induction xs) (auto simp: le_Suc_eq)

lemma distinct_map_find_unique:
  assumes "distinct (map f xs)" and "x \<in> set xs" and "y \<in> set xs" and "f x = f y"
  shows "x = y"
  using assms by (auto simp: distinct_map inj_on_def)

lemma find_Some_distinct:
  assumes "distinct (map f xs)" and "x \<in> set xs" and "f x = k"
  shows "find (\<lambda>y. f y = k) xs = Some x"
  using assms
proof (induction xs)
  case Nil
  then show ?case by simp
next
  case (Cons a xs)
  then show ?case by (auto simp: image_iff)
qed

lemma find_None_iff_all: "find P xs = None \<longleftrightarrow> (\<forall>x \<in> set xs. \<not> P x)"
  by (auto simp: find_None_iff)

lemma find_SomeD: "find P xs = Some x \<Longrightarrow> x \<in> set xs \<and> P x"
  by (auto simp: find_Some_iff)

end
