(* ===== verification/Core_Types.thy ===== *)
theory Core_Types
  imports Hub32_Prelude
begin

text \<open>
  The value types every component shares: \<^verbatim>\<open>ErrorCode\<close>, \<^verbatim>\<open>ApiError\<close> and
  \<^verbatim>\<open>http_status_for\<close> (include/hub32api/core/Error.hpp), \<^verbatim>\<open>Result<T>\<close>
  (include/hub32api/core/Result.hpp) and the enumerations with their string
  conversions (src/core/Constants.cpp). The lemmas show that the HTTP status of
  an error is always one of the thirteen codes the API documents, and that an
  enumeration value survives the trip through its wire string.
\<close>

section \<open>Error codes\<close>

datatype error_code =
    ENone
  | InvalidRequest | InvalidCredentials | InvalidFeature | InvalidConnection
  | AuthMethodNotAvailable
  | Unauthorized | AuthenticationFailed | TokenExpired
  | NotFound | ComputerNotFound
  | RequestTimeout | ConnectionTimeout
  | Conflict | DuplicateResource
  | TooManyRequests | ConnectionLimitReached
  | InternalError | FramebufferEncodingError | PluginError
  | NotImplemented | ProtocolMismatch
  | PayloadTooLarge
  | UnsupportedMediaType
  | UnprocessableEntity | ValidationFailed
  | ServiceUnavailable | FramebufferNotAvailable
  | CryptoFailure | InvalidConfig | FileReadError

text \<open>The integer value each enumerator is declared with.\<close>

fun code_value :: "error_code \<Rightarrow> int" where
  "code_value ENone = 0"
| "code_value InvalidRequest = 400"
| "code_value InvalidCredentials = 4001"
| "code_value InvalidFeature = 4002"
| "code_value InvalidConnection = 4003"
| "code_value AuthMethodNotAvailable = 4004"
| "code_value Unauthorized = 401"
| "code_value AuthenticationFailed = 4011"
| "code_value TokenExpired = 4012"
| "code_value NotFound = 404"
| "code_value ComputerNotFound = 4041"
| "code_value RequestTimeout = 408"
| "code_value ConnectionTimeout = 4081"
| "code_value Conflict = 409"
| "code_value DuplicateResource = 4091"
| "code_value TooManyRequests = 429"
| "code_value ConnectionLimitReached = 4291"
| "code_value InternalError = 500"
| "code_value FramebufferEncodingError = 5001"
| "code_value PluginError = 5002"
| "code_value NotImplemented = 501"
| "code_value ProtocolMismatch = 5011"
| "code_value PayloadTooLarge = 413"
| "code_value UnsupportedMediaType = 415"
| "code_value UnprocessableEntity = 422"
| "code_value ValidationFailed = 4221"
| "code_value ServiceUnavailable = 503"
| "code_value FramebufferNotAvailable = 5031"
| "code_value CryptoFailure = 5003"
| "code_value InvalidConfig = 5004"
| "code_value FileReadError = 5005"

text \<open>The operand of the division is never negative, so \<open>div\<close> is C's division here.\<close>

definition http_status_for :: "error_code \<Rightarrow> int" where
  "http_status_for e =
     (let c = code_value e in
      if c \<ge> 4000 \<and> c < 6000 then c div 10
      else if c \<ge> 400 \<and> c < 600 then c
      else 500)"

record api_error =
  err_code :: error_code
  err_msg :: string

definition ApiError :: "error_code \<Rightarrow> string \<Rightarrow> api_error" where
  "ApiError c m = \<lparr>err_code = c, err_msg = m\<rparr>"

lemma err_ApiError [simp]: "err_code (ApiError c m) = c" "err_msg (ApiError c m) = m"
  by (simp_all add: ApiError_def)

section \<open>Result\<close>

text \<open>
  \<^verbatim>\<open>Result<T>\<close> holds either a value or an \<^verbatim>\<open>ApiError\<close>. Reading the wrong side throws
  \<^verbatim>\<open>std::logic_error\<close>; that is the outer \<open>None\<close> of \<open>result_value\<close> and \<open>result_error\<close>.
\<close>

type_synonym 'a result = "api_error + 'a"

definition ok :: "'a \<Rightarrow> 'a result" where "ok v = Inr v"

definition fail :: "error_code \<Rightarrow> string \<Rightarrow> 'a result" where
  "fail c m = Inl (ApiError c m)"

definition is_ok :: "'a result \<Rightarrow> bool" where
  "is_ok r = (case r of Inr _ \<Rightarrow> True | Inl _ \<Rightarrow> False)"

definition is_err :: "'a result \<Rightarrow> bool" where "is_err r = (\<not> is_ok r)"

definition result_value :: "'a result \<Rightarrow> 'a option" where
  "result_value r = (case r of Inr v \<Rightarrow> Some v | Inl _ \<Rightarrow> None)"

definition result_error :: "'a result \<Rightarrow> api_error option" where
  "result_error r = (case r of Inr _ \<Rightarrow> None | Inl e \<Rightarrow> Some e)"

definition result_map :: "('a \<Rightarrow> 'b) \<Rightarrow> 'a result \<Rightarrow> 'b result" where
  "result_map f r = (case r of Inr v \<Rightarrow> Inr (f v) | Inl e \<Rightarrow> Inl e)"

lemma result_simps [simp]:
  "is_ok (ok v)" "\<not> is_ok (fail c m)" "is_err (fail c m)" "\<not> is_err (ok v)"
  "result_value (ok v) = Some v" "result_value (fail c m) = None"
  "result_error (fail c m) = Some (ApiError c m)" "result_error (ok v) = None"
  "result_map f (ok v) = ok (f v)" "result_map f (fail c m) = fail c m"
  "(ok v = ok w) = (v = w)" "ok v \<noteq> fail c m" "fail c m \<noteq> ok v"
  "(fail c m = fail c' m') = (c = c' \<and> m = m')"
  "is_ok (Inr v)" "\<not> is_ok (Inl e)"
  by (auto simp: ok_def fail_def is_ok_def is_err_def result_value_def result_error_def
      result_map_def ApiError_def)

lemma result_case_simps [simp]:
  "(case ok v of Inl e \<Rightarrow> F e | Inr x \<Rightarrow> G x) = G v"
  "(case fail c m of Inl e \<Rightarrow> F e | Inr x \<Rightarrow> G x) = F (ApiError c m)"
  by (simp_all add: ok_def fail_def)

lemma is_okE:
  assumes "is_ok r"
  obtains v where "r = ok v"
  using assms by (cases r) (auto simp: ok_def)

lemma result_cases:
  obtains (Ok) v where "r = ok v" | (Err) e where "r = Inl e"
  by (cases r) (auto simp: ok_def)

lemma Inr_ok: "Inr v = ok v" by (simp add: ok_def)

section \<open>Enumerations and their wire strings\<close>

datatype user_role = Admin | Teacher | Readonly | Agent | Superadmin | Owner | Student

fun role_to_string :: "user_role \<Rightarrow> string" where
  "role_to_string Admin = ''admin''"
| "role_to_string Teacher = ''teacher''"
| "role_to_string Readonly = ''readonly''"
| "role_to_string Agent = ''agent''"
| "role_to_string Superadmin = ''superadmin''"
| "role_to_string Owner = ''owner''"
| "role_to_string Student = ''student''"

definition user_role_from_string :: "string \<Rightarrow> user_role" where
  "user_role_from_string s =
     (if s = ''admin'' then Admin
      else if s = ''teacher'' then Teacher
      else if s = ''agent'' then Agent
      else if s = ''superadmin'' then Superadmin
      else if s = ''owner'' then Owner
      else if s = ''student'' then Student
      else Readonly)"

datatype auth_method = Logon | Hub32Key

definition kAuthMethodHub32KeyUuid :: string where
  "kAuthMethodHub32KeyUuid = ''0c69b301-81b4-42d6-8fae-128cdd113314''"

definition kAuthMethodLogonUuid :: string where
  "kAuthMethodLogonUuid = ''63611f7c-b457-42c7-832e-67d0f9281085''"

fun auth_method_to_string :: "auth_method \<Rightarrow> string" where
  "auth_method_to_string Logon = ''logon''"
| "auth_method_to_string Hub32Key = ''hub32-key''"

definition auth_method_from_string :: "string \<Rightarrow> auth_method" where
  "auth_method_from_string s =
     (if s = ''hub32-key'' \<or> s = kAuthMethodHub32KeyUuid then Hub32Key
      else if s = ''logon'' \<or> s = kAuthMethodLogonUuid then Logon
      else Logon)"

datatype power_action = Shutdown | Reboot | Logoff

fun power_action_to_string :: "power_action \<Rightarrow> string" where
  "power_action_to_string Shutdown = ''shutdown''"
| "power_action_to_string Reboot = ''reboot''"
| "power_action_to_string Logoff = ''logoff''"

definition power_action_from_string :: "string \<Rightarrow> power_action" where
  "power_action_from_string s =
     (if s = ''reboot'' then Reboot
      else if s = ''logoff'' then Logoff
      else Shutdown)"

datatype media_kind = Audio | Video

fun media_kind_to_string :: "media_kind \<Rightarrow> string" where
  "media_kind_to_string Audio = ''audio''"
| "media_kind_to_string Video = ''video''"

definition media_kind_from_string :: "string \<Rightarrow> media_kind" where
  "media_kind_from_string s = (if s = ''audio'' then Audio else Video)"

text \<open>
  The contract of such an enumeration: parsing is a left inverse of printing. Whoever
  relies on it gets that printing is injective and that every value is reachable.
\<close>

locale wire_enum =
  fixes to_str :: "'e \<Rightarrow> string" and from_str :: "string \<Rightarrow> 'e"
  assumes from_to: "from_str (to_str e) = e"
begin

lemma to_str_inject: "to_str a = to_str b \<longleftrightarrow> a = b"
  by (metis from_to)

lemma from_str_surj: "\<exists>s. from_str s = e"
  by (metis from_to)

end

interpretation role_enum: wire_enum role_to_string user_role_from_string
proof
  show "user_role_from_string (role_to_string e) = e" for e
    by (cases e) (simp_all add: user_role_from_string_def)
qed

interpretation auth_method_enum: wire_enum auth_method_to_string auth_method_from_string
proof
  show "auth_method_from_string (auth_method_to_string e) = e" for e
    by (cases e)
      (simp_all add: auth_method_from_string_def kAuthMethodHub32KeyUuid_def kAuthMethodLogonUuid_def)
qed

interpretation power_enum: wire_enum power_action_to_string power_action_from_string
proof
  show "power_action_from_string (power_action_to_string e) = e" for e
    by (cases e) (simp_all add: power_action_from_string_def)
qed

interpretation media_enum: wire_enum media_kind_to_string media_kind_from_string
proof
  show "media_kind_from_string (media_kind_to_string e) = e" for e
    by (cases e) (simp_all add: media_kind_from_string_def)
qed

text \<open>
  An unknown role string never yields a privileged role: only the seven exact
  spellings map to anything but \<open>Readonly\<close>.
\<close>

lemma user_role_from_string_privileged:
  "user_role_from_string s = r \<Longrightarrow> r \<noteq> Readonly \<Longrightarrow> s = role_to_string r"
  by (auto simp: user_role_from_string_def split: if_splits)

section \<open>Status codes\<close>

lemma http_status_for_values:
  "http_status_for e \<in> {400, 401, 404, 408, 409, 413, 415, 422, 429, 500, 501, 503}"
  by (cases e) (simp_all add: http_status_for_def)

end
