(* ===== verification/Text_Utils.thy ===== *)
theory Text_Utils
  imports Hub32_Prelude
begin

text \<open>
  The string helpers every handler relies on: src/utils/string_utils.cpp,
  src/utils/validation_utils.cpp and the UUID generator of
  src/core/CryptoUtils.cpp. The character tests are those of \<^verbatim>\<open><cctype>\<close> in the
  "C" locale. The lemmas give the round trips (split and join, hex encoding), what
  \<open>trim\<close> and \<open>sanitize_input\<close> leave in a string, the range of \<open>safe_stoi\<close>, and that
  a generated UUID is one that \<open>validate_id\<close> accepts.
\<close>

unbundle bit_operations_syntax

section \<open>Characters\<close>

abbreviation char_code :: "char \<Rightarrow> nat" where "char_code c \<equiv> of_char c"

definition is_space :: "char \<Rightarrow> bool" where
  "is_space c = (let n = char_code c in n = 32 \<or> 9 \<le> n \<and> n \<le> 13)"

definition is_digit :: "char \<Rightarrow> bool" where
  "is_digit c = (let n = char_code c in 48 \<le> n \<and> n \<le> 57)"

definition is_upper :: "char \<Rightarrow> bool" where
  "is_upper c = (let n = char_code c in 65 \<le> n \<and> n \<le> 90)"

definition is_lower :: "char \<Rightarrow> bool" where
  "is_lower c = (let n = char_code c in 97 \<le> n \<and> n \<le> 122)"

definition is_alpha :: "char \<Rightarrow> bool" where
  "is_alpha c = (is_upper c \<or> is_lower c)"

definition is_alnum :: "char \<Rightarrow> bool" where
  "is_alnum c = (is_alpha c \<or> is_digit c)"

definition to_lower_char :: "char \<Rightarrow> char" where
  "to_lower_char c = (if is_upper c then char_of (char_code c + 32) else c)"

section \<open>src/utils/string\_utils.cpp\<close>

text \<open>The two index loops drop the leading and then the trailing white space.\<close>

definition trim :: "string \<Rightarrow> string" where
  "trim s = rev (dropWhile is_space (rev (dropWhile is_space s)))"

definition to_lower :: "string \<Rightarrow> string" where
  "to_lower s = map to_lower_char s"

text \<open>
  The loop of \<^verbatim>\<open>split\<close> runs one position past the end; \<open>cur\<close> is the text between
  \<^verbatim>\<open>start\<close> and the current position.
\<close>

fun split_loop :: "char \<Rightarrow> string \<Rightarrow> string \<Rightarrow> string list" where
  "split_loop d cur [] = [cur]"
| "split_loop d cur (c # cs) =
     (if c = d then cur # split_loop d [] cs else split_loop d (cur @ [c]) cs)"

definition split_on :: "string \<Rightarrow> char \<Rightarrow> string list" where
  "split_on s d = split_loop d [] s"

fun join_loop :: "string \<Rightarrow> string \<Rightarrow> string list \<Rightarrow> string" where
  "join_loop sep acc [] = acc"
| "join_loop sep acc (p # ps) = join_loop sep (acc @ sep @ p) ps"

fun join :: "string list \<Rightarrow> string \<Rightarrow> string" where
  "join [] sep = []"
| "join (p # ps) sep = join_loop sep p ps"

definition starts_with :: "string \<Rightarrow> string \<Rightarrow> bool" where
  "starts_with s pre = (length s \<ge> length pre \<and> take (length pre) s = pre)"

definition ends_with :: "string \<Rightarrow> string \<Rightarrow> bool" where
  "ends_with s suf = (length s \<ge> length suf \<and> drop (length s - length suf) s = suf)"

definition hex_chars :: string where
  "hex_chars = ''0123456789abcdef''"

definition hex2 :: "byte \<Rightarrow> string" where
  "hex2 b = [hex_chars ! unat (drop_bit 4 b AND 0x0F), hex_chars ! unat (b AND 0x0F)]"

definition bytes_to_hex :: "byte list \<Rightarrow> string" where
  "bytes_to_hex bs = concat (map hex2 bs)"

definition hex_digit :: "char \<Rightarrow> byte option" where
  "hex_digit c =
     (let n = char_code c in
      if 48 \<le> n \<and> n \<le> 57 then Some (of_nat (n - 48))
      else if 97 \<le> n \<and> n \<le> 102 then Some (of_nat (n - 97 + 10))
      else if 65 \<le> n \<and> n \<le> 70 then Some (of_nat (n - 65 + 10))
      else None)"

text \<open>The decoding loop; \<open>None\<close> is the early \<^verbatim>\<open>return {}\<close> on a character that is no hex digit.\<close>

fun hex_pairs :: "string \<Rightarrow> byte list option" where
  "hex_pairs (c1 # c2 # cs) =
     (case hex_digit c1 of None \<Rightarrow> None
      | Some hi \<Rightarrow>
         (case hex_digit c2 of None \<Rightarrow> None
          | Some lo \<Rightarrow> map_option (\<lambda>bs. (push_bit 4 hi OR lo) # bs) (hex_pairs cs)))"
| "hex_pairs _ = Some []"

definition hex_to_bytes :: "string \<Rightarrow> byte list" where
  "hex_to_bytes h =
     (if length h mod 2 \<noteq> 0 then []
      else case hex_pairs h of None \<Rightarrow> [] | Some bs \<Rightarrow> bs)"

text \<open>
  \<^verbatim>\<open>std::stoi\<close> with base 10: skip white space, an optional sign, then the longest
  run of digits. It throws when there is no digit or the value is outside the range of
  \<^verbatim>\<open>int\<close>; otherwise it reports how many characters it used. \<open>None\<close> is a throw.
\<close>

definition digits_value :: "string \<Rightarrow> int" where
  "digits_value ds = foldl (\<lambda>v c. 10 * v + (int (char_code c) - 48)) 0 ds"

definition sign_split :: "string \<Rightarrow> int \<times> string" where
  "sign_split s =
     (case s of
        c # cs \<Rightarrow> if c = CHR ''-'' then (-1, cs) else if c = CHR ''+'' then (1, cs) else (1, s)
      | [] \<Rightarrow> (1, s))"

definition stoi :: "string \<Rightarrow> (int \<times> nat) option" where
  "stoi s =
     (let r = dropWhile is_space s;
          (sg, t) = sign_split r;
          ds = takeWhile is_digit t;
          v = sg * digits_value ds
      in if ds = [] then None
         else if v < - (2 ^ 31) \<or> v > 2 ^ 31 - 1 then None
         else Some (v, length s - length t + length ds))"

definition safe_stoi :: "string \<Rightarrow> int option" where
  "safe_stoi s =
     (if s = [] \<or> length s > 20 then None
      else case stoi s of
             None \<Rightarrow> None
           | Some (v, pos) \<Rightarrow> if pos \<noteq> length s then None else Some v)"

text \<open>\<^verbatim>\<open>find\<close> of a string answers a position: the pattern occurs.\<close>

fun str_contains :: "string \<Rightarrow> string \<Rightarrow> bool" where
  "str_contains [] pat = (pat = [])"
| "str_contains (c # s) pat = (starts_with (c # s) pat \<or> str_contains s pat)"

text \<open>\<^verbatim>\<open>std::stoll\<close>, the same with the range of 64 bits; the position is not asked for.\<close>

definition stoll :: "string \<Rightarrow> int option" where
  "stoll s =
     (let (sg, t) = sign_split (dropWhile is_space s);
          ds = takeWhile is_digit t;
          v = sg * digits_value ds
      in if ds = [] then None
         else if v < - (2 ^ 63) \<or> v > 2 ^ 63 - 1 then None
         else Some v)"

text \<open>\<^verbatim>\<open>std::to_string\<close>.\<close>

fun decimal_nat :: "nat \<Rightarrow> string" where
  "decimal_nat n =
     (if n < 10 then [char_of (48 + n)] else decimal_nat (n div 10) @ [char_of (48 + n mod 10)])"

declare decimal_nat.simps [simp del]

definition decimal :: "int \<Rightarrow> string" where
  "decimal i = (if i < 0 then CHR ''-'' # decimal_nat (nat (- i)) else decimal_nat (nat i))"

section \<open>src/utils/validation\_utils.cpp\<close>

definition validate_username :: "string \<Rightarrow> bool" where
  "validate_username u =
     (if u = [] \<or> length u > 64 then False
      else list_all (\<lambda>c. is_alnum c \<or> c = CHR ''_'' \<or> c = CHR ''-'' \<or> c = CHR ''.'') u)"

definition is_hex_char :: "char \<Rightarrow> bool" where
  "is_hex_char c =
     (let n = char_code c in
      48 \<le> n \<and> n \<le> 57 \<or> 97 \<le> n \<and> n \<le> 102 \<or> 65 \<le> n \<and> n \<le> 70)"

definition validate_id_at :: "nat \<Rightarrow> char \<Rightarrow> bool" where
  "validate_id_at i c =
     (if i = 8 \<or> i = 13 \<or> i = 18 \<or> i = 23 then c = CHR ''-'' else is_hex_char c)"

definition validate_id :: "string \<Rightarrow> bool" where
  "validate_id s =
     (if length s \<noteq> 36 then False
      else list_all (\<lambda>(i, c). validate_id_at i c) (zip [0..<length s] s))"

fun strip_tags :: "bool \<Rightarrow> string \<Rightarrow> string" where
  "strip_tags inTag [] = []"
| "strip_tags inTag (c # cs) =
     (if c = CHR ''<'' then strip_tags True cs
      else if c = CHR ''>'' then strip_tags False cs
      else if \<not> inTag then c # strip_tags inTag cs
      else strip_tags inTag cs)"

definition sanitize_input :: "string \<Rightarrow> string" where
  "sanitize_input s = trim (strip_tags False s)"

definition check_length :: "string \<Rightarrow> nat \<Rightarrow> nat \<Rightarrow> bool" where
  "check_length s lo hi = (length s \<ge> lo \<and> length s \<le> hi)"

section \<open>src/core/CryptoUtils.cpp\<close>

text \<open>
  \<^verbatim>\<open>RAND_bytes\<close> is OpenSSL's: its outcome is the argument \<open>rnd\<close>, \<open>None\<close> when it
  fails and \<open>Some bs\<close> with the sixteen bytes when it succeeds. The UUID generator sets
  the version and the variant bits and prints the bytes with dashes.
\<close>

definition uuid_bytes :: "byte list \<Rightarrow> byte list" where
  "uuid_bytes bs =
     (let b6 = bs[6 := (bs ! 6 AND 0x0F) OR 0x40]
      in b6[8 := (b6 ! 8 AND 0x3F) OR 0x80])"

fun uuid_print :: "nat \<Rightarrow> byte list \<Rightarrow> string" where
  "uuid_print i [] = []"
| "uuid_print i (b # bs) =
     (if i = 4 \<or> i = 6 \<or> i = 8 \<or> i = 10 then ''-'' else []) @ hex2 b @ uuid_print (Suc i) bs"

definition generateUuid :: "byte list option \<Rightarrow> string option" where
  "generateUuid rnd =
     (case rnd of None \<Rightarrow> None | Some bs \<Rightarrow> Some (uuid_print 0 (uuid_bytes bs)))"

section \<open>Splitting and joining\<close>

lemma split_loop_nonempty: "split_loop d cur s \<noteq> []"
  by (induction s arbitrary: cur) auto

lemma join_loop_acc: "join_loop sep acc ps = acc @ join_loop sep [] ps"
  by (induction ps arbitrary: acc) (simp, metis append_assoc append_Nil join_loop.simps(2))

lemma join_Cons:
  assumes "ps \<noteq> []"
  shows "join (p # ps) sep = p @ sep @ join ps sep"
proof -
  obtain a qs where ps: "ps = a # qs" using assms by (cases ps) auto
  have "join_loop sep (p @ sep @ a) qs = (p @ sep @ a) @ join_loop sep [] qs"
    and "join_loop sep a qs = a @ join_loop sep [] qs"
    by (rule join_loop_acc)+
  then show ?thesis by (simp add: ps)
qed

lemma join_split_loop: "join (split_loop d cur s) [d] = cur @ s"
proof (induction s arbitrary: cur)
  case Nil
  then show ?case by simp
next
  case (Cons c cs)
  then show ?case
    by (auto simp: join_Cons split_loop_nonempty simp del: join.simps)
qed

lemma split_loop_no_delim:
  assumes "p \<in> set (split_loop d cur s)" and "d \<notin> set cur"
  shows "d \<notin> set p"
  using assms
proof (induction s arbitrary: cur)
  case Nil
  then show ?case by simp
next
  case (Cons c cs)
  show ?case
  proof (cases "c = d")
    case True
    with Cons.prems have "p = cur \<or> p \<in> set (split_loop d [] cs)" by simp
    with Cons.IH [of "[]"] Cons.prems(2) show ?thesis by auto
  next
    case False
    with Cons.prems have "p \<in> set (split_loop d (cur @ [c]) cs)" and "d \<notin> set (cur @ [c])"
      by simp_all
    then show ?thesis by (rule Cons.IH)
  qed
qed

lemma length_split_loop: "length (split_loop d cur s) = Suc (count_list s d)"
  by (induction s arbitrary: cur) auto

text \<open>
  Splitting a string at a delimiter and joining the parts with that delimiter
  gives the string back; no part contains the delimiter, and there is one more part
  than there are delimiters.
\<close>

theorem split_on_correct:
  "join (split_on s d) [d] = s
   \<and> list_all (\<lambda>p. d \<notin> set p) (split_on s d)
   \<and> length (split_on s d) = Suc (count_list s d)"
  by (auto simp: split_on_def join_split_loop length_split_loop list_all_iff
      dest: split_loop_no_delim)

section \<open>Hexadecimal\<close>

lemma nibble_mask: "(15 :: byte) = mask 4"
  by (simp add: mask_eq_exp_minus_1)

lemma unat_nibble: "unat (b AND 15 :: byte) < 16"
  unfolding nibble_mask take_bit_eq_mask [symmetric] unsigned_take_bit_eq
  by (rule take_bit_nat_less_exp [where n = 4, simplified])

lemma nibbles_join:
  "push_bit 4 (drop_bit 4 b AND 15) OR (b AND 15) = (b :: byte)"
  unfolding nibble_mask
  by (rule bit_word_eqI) (auto simp: bit_simps)

lemma hex_digit_hex_chars: "n < 16 \<Longrightarrow> hex_digit (hex_chars ! n) = Some (of_nat n)"
proof -
  assume "n < 16"
  moreover have "\<forall>n \<in> set [0..<16]. hex_digit (hex_chars ! n) = Some (of_nat n)"
    by code_simp
  ultimately show ?thesis by simp
qed

lemma is_hex_char_hex_chars: "n < 16 \<Longrightarrow> is_hex_char (hex_chars ! n)"
proof -
  assume "n < 16"
  moreover have "\<forall>n \<in> set [0..<16]. is_hex_char (hex_chars ! n)"
    by code_simp
  ultimately show ?thesis by simp
qed

lemma hex_pairs_hex2: "hex_pairs (hex2 b @ cs) = map_option ((#) b) (hex_pairs cs)"
proof -
  define hi lo :: byte where "hi = drop_bit 4 b AND 15" and "lo = b AND 15"
  have "hex_digit (hex_chars ! unat hi) = Some hi" "hex_digit (hex_chars ! unat lo) = Some lo"
    by (simp_all add: hi_def lo_def hex_digit_hex_chars [OF unat_nibble])
  moreover have "push_bit 4 hi OR lo = b"
    unfolding hi_def lo_def by (rule nibbles_join)
  ultimately show ?thesis by (simp add: hex2_def flip: hi_def lo_def)
qed

lemma hex_pairs_bytes: "hex_pairs (bytes_to_hex bs) = Some bs"
  by (induction bs) (simp_all add: bytes_to_hex_def hex_pairs_hex2)

lemma length_hex2 [simp]: "length (hex2 b) = 2"
  by (simp add: hex2_def)

lemma length_bytes_to_hex [simp]: "length (bytes_to_hex bs) = 2 * length bs"
  by (induction bs) (simp_all add: bytes_to_hex_def)

text \<open>
  Hexadecimal encoding loses nothing: decoding the encoding of any byte string
  gives the byte string back.
\<close>

theorem hex_roundtrip: "hex_to_bytes (bytes_to_hex bs) = bs"
  by (simp add: hex_to_bytes_def hex_pairs_bytes)

section \<open>Trimming and sanitising\<close>

lemma set_trim: "set (trim s) \<subseteq> set s"
  unfolding trim_def set_rev
  by (metis set_dropWhileD set_rev subsetI)

lemma trim_no_lead: "trim s \<noteq> [] \<Longrightarrow> \<not> is_space (hd (trim s))"
proof -
  assume ne: "trim s \<noteq> []"
  define u where "u = dropWhile is_space s"
  have u: "trim s = rev (dropWhile is_space (rev u))"
    by (simp add: trim_def u_def)
  obtain w where w: "u = trim s @ w"
    by (metis u rev_append rev_rev_ident takeWhile_dropWhile_id)
  have "u \<noteq> []" using w ne by auto
  then have "\<not> is_space (hd u)" unfolding u_def by (rule hd_dropWhile)
  moreover have "hd u = hd (trim s)" using w ne by (metis hd_append2)
  ultimately show ?thesis by simp
qed

lemma trim_no_trail: "trim s \<noteq> [] \<Longrightarrow> \<not> is_space (last (trim s))"
  unfolding trim_def last_rev by (rule hd_dropWhile) simp

lemma trim_idem_if: "\<not> is_space (hd s) \<Longrightarrow> \<not> is_space (last s) \<Longrightarrow> trim s = s"
proof (cases "s = []")
  case True
  then show ?thesis by (simp add: trim_def)
next
  case False
  assume h: "\<not> is_space (hd s)" and l: "\<not> is_space (last s)"
  from False h have 1: "dropWhile is_space s = s" by (cases s) auto
  from False l have 2: "dropWhile is_space (rev s) = rev s"
    by (cases "rev s") (auto simp: last_rev [symmetric] hd_rev)
  show ?thesis by (simp add: trim_def 1 2)
qed

lemma trim_idem [simp]: "trim (trim s) = trim s"
proof (cases "trim s = []")
  case True
  show ?thesis unfolding True by (simp add: trim_def)
next
  case False
  then show ?thesis by (intro trim_idem_if trim_no_lead trim_no_trail)
qed

lemma strip_tags_no_angle:
  "CHR ''<'' \<notin> set (strip_tags b s) \<and> CHR ''>'' \<notin> set (strip_tags b s)"
  by (induction b s rule: strip_tags.induct) auto

lemma strip_tags_id:
  "CHR ''<'' \<notin> set s \<Longrightarrow> CHR ''>'' \<notin> set s \<Longrightarrow> strip_tags False s = s"
  by (induction s) auto

text \<open>
  A sanitised string holds no angle bracket, so no markup tag, neither starts nor
  ends with white space, and sanitising it again changes nothing.
\<close>

theorem sanitize_input_safe:
  "CHR ''<'' \<notin> set (sanitize_input s) \<and> CHR ''>'' \<notin> set (sanitize_input s)
   \<and> (sanitize_input s = []
      \<or> \<not> is_space (hd (sanitize_input s)) \<and> \<not> is_space (last (sanitize_input s)))
   \<and> sanitize_input (sanitize_input s) = sanitize_input s"
proof -
  have free: "CHR ''<'' \<notin> set (sanitize_input s)" "CHR ''>'' \<notin> set (sanitize_input s)"
    using set_trim [of "strip_tags False s"] strip_tags_no_angle [of False s]
    unfolding sanitize_input_def by blast+
  moreover have "sanitize_input (sanitize_input s) = sanitize_input s"
    using free unfolding sanitize_input_def [of "sanitize_input s"]
    by (simp add: strip_tags_id) (simp add: sanitize_input_def)
  ultimately show ?thesis
    using trim_no_lead trim_no_trail unfolding sanitize_input_def by blast
qed

theorem sanitize_input_safe_witness:
  "CHR ''<'' \<notin> set (sanitize_input ''<b> x</b>'')
   \<and> sanitize_input (sanitize_input ''<b> x</b>'') = sanitize_input ''<b> x</b>''"
  using sanitize_input_safe [of "''<b> x</b>''"] by simp

section \<open>Parsing integers\<close>

lemma safe_stoi_range:
  "safe_stoi s = Some v \<Longrightarrow> - (2 ^ 31) \<le> v \<and> v \<le> 2 ^ 31 - 1"
  by (auto simp: safe_stoi_def stoi_def Let_def split: if_splits option.splits prod.splits)

section \<open>Generated UUIDs\<close>

lemma is_hex_char_hex2: "list_all is_hex_char (hex2 b)"
  by (simp add: hex2_def is_hex_char_hex_chars [OF unat_nibble])

lemma length_16_cases:
  assumes "length bs = 16"
  obtains a0 a1 a2 a3 a4 a5 a6 a7 a8 a9 a10 a11 a12 a13 a14 a15
  where "bs = [a0, a1, a2, a3, a4, a5, a6, a7, a8, a9, a10, a11, a12, a13, a14, a15]"
  using assms by (auto simp: numeral_eq_Suc length_Suc_conv)

lemma length_uuid_bytes [simp]: "length (uuid_bytes bs) = length bs"
  by (simp add: uuid_bytes_def)

lemma uuid_print_valid:
  assumes "length bs = 16"
  shows "validate_id (uuid_print 0 bs)"
proof -
  obtain a0 a1 a2 a3 a4 a5 a6 a7 a8 a9 a10 a11 a12 a13 a14 a15
    where bs: "bs = [a0, a1, a2, a3, a4, a5, a6, a7, a8, a9, a10, a11, a12, a13, a14, a15]"
    using length_16_cases [OF assms] .
  have hex: "hex2 b = [hex2 b ! 0, hex2 b ! 1]"
    "is_hex_char (hex2 b ! 0)" "is_hex_char (hex2 b ! 1)" for b
    by (simp_all add: hex2_def is_hex_char_hex_chars [OF unat_nibble])
  define h where "h b = hex2 b ! 0" for b
  define l where "l b = hex2 b ! 1" for b
  have hl: "hex2 b = [h b, l b]" "is_hex_char (h b)" "is_hex_char (l b)" for b
    using hex [of b] by (simp_all add: h_def l_def)
  show ?thesis
    by (simp add: bs hl(1) validate_id_def validate_id_at_def hl(2,3) upt_rec numeral_eq_Suc)
qed

lemma uuid_bytes_version:
  assumes "length bs = 16"
  shows "uuid_bytes bs ! 6 AND 0xF0 = 0x40 \<and> uuid_bytes bs ! 8 AND 0xC0 = 0x80"
proof -
  have "((x AND 0x0F) OR 0x40) AND 0xF0 = 0x40" "((x AND 0x3F) OR 0x80) AND 0xC0 = (0x80 :: byte)"
    for x :: byte
    by (simp_all add: bit.conj_disj_distrib2 and.assoc)
  then show ?thesis by (simp add: uuid_bytes_def assms)
qed

text \<open>
  When the random source delivers sixteen bytes, the generated UUID is one that
  the API's own identifier check accepts, and its bytes carry version 4 and the RFC 4122
  variant; when the source fails no UUID is produced.
\<close>

theorem generateUuid_valid:
  assumes "length bs = 16"
  shows "(\<exists>u. generateUuid (Some bs) = Some u \<and> validate_id u)
   \<and> uuid_bytes bs ! 6 AND 0xF0 = 0x40 \<and> uuid_bytes bs ! 8 AND 0xC0 = 0x80
   \<and> generateUuid None = None"
  using assms uuid_print_valid [of "uuid_bytes bs"] uuid_bytes_version [of bs]
  by (simp add: generateUuid_def)

theorem generateUuid_valid_witness:
  "(\<exists>u. generateUuid (Some (replicate 16 0xAB)) = Some u \<and> validate_id u)"
  using generateUuid_valid [of "replicate 16 0xAB"] by simp

section \<open>Printed numbers\<close>

lemma decimal_nat_digits: "list_all is_digit (decimal_nat n)"
proof (induction n rule: decimal_nat.induct)
  case (1 n)
  have d: "is_digit (char_of (48 + k))" if "k < 10" for k :: nat
    using that by (simp add: is_digit_def)
  show ?case
  proof (cases "n < 10")
    case True
    then show ?thesis by (subst decimal_nat.simps) (simp add: d)
  next
    case False
    with 1 show ?thesis by (subst decimal_nat.simps) (simp add: d)
  qed
qed

lemma decimal_nat_nonempty [simp]: "decimal_nat n \<noteq> []"
  by (subst decimal_nat.simps) simp

lemma digits_value_snoc: "digits_value (ds @ [c]) = 10 * digits_value ds + (int (char_code c) - 48)"
  by (simp add: digits_value_def)

lemma digits_value_decimal: "digits_value (decimal_nat n) = int n"
proof (induction n rule: decimal_nat.induct)
  case (1 n)
  show ?case
  proof (cases "n < 10")
    case True
    then show ?thesis by (subst decimal_nat.simps) (simp add: digits_value_def)
  next
    case False
    with 1 have "digits_value (decimal_nat (n div 10)) = int (n div 10)" by simp
    then show ?thesis using False
      by (subst decimal_nat.simps) (simp add: digits_value_snoc zdiv_int zmod_int)
  qed
qed

lemma digit_not_space: "is_digit c \<Longrightarrow> \<not> is_space c"
  by (auto simp: is_digit_def is_space_def Let_def)

lemma digit_not_sign: "is_digit c \<Longrightarrow> c \<noteq> CHR ''-'' \<and> c \<noteq> CHR ''+''"
  by (auto simp: is_digit_def)

text \<open>Reading a printed number back, at the width of 64 bits.\<close>

lemma stoll_decimal:
  assumes "int n < 2 ^ 63"
  shows "stoll (decimal_nat n) = Some (int n)"
proof -
  have d: "list_all is_digit (decimal_nat n)" by (rule decimal_nat_digits)
  obtain c cs where c: "decimal_nat n = c # cs" by (cases "decimal_nat n") simp_all
  have tw: "takeWhile is_digit (decimal_nat n) = decimal_nat n"
    using d by (simp add: list_all_iff)
  have dw: "dropWhile is_space (decimal_nat n) = decimal_nat n"
    using d digit_not_space by (simp add: c)
  have ss: "sign_split (decimal_nat n) = (1, decimal_nat n)"
    using d digit_not_sign by (simp add: c sign_split_def)
  show ?thesis using assms
    by (simp add: stoll_def tw dw ss digits_value_decimal)
qed

end
