(* ===== verification/User_Roles.thy ===== *)
theory User_Roles
  imports Core_Types Text_Utils
begin

text \<open>
  Password and key login: src/auth/UserRoleStore.cpp and src/auth/Hub32KeyAuth.cpp. The
  hash functions of OpenSSL and libargon2 are the fields of \<open>crypto\<close>; what the JSON
  library answers when the users file is read is the argument of \<open>loadFromFile\<close>. The
  lemmas show which file entries become users, that a login succeeds exactly for a
  loaded user whose password verifies, with one and the same error otherwise, and what
  the comparison of a stored PBKDF2 hash amounts to.
\<close>

section \<open>Hashing\<close>

text \<open>
  \<open>cr_argon2_verify\<close> takes the encoded hash, a C string, and the password;
  \<open>cr_pbkdf2\<close> gives the 32 derived bytes, or nothing when the library call fails;
  \<open>cr_argon2_hash\<close> the encoded hash or an error message.
\<close>

record crypto =
  cr_argon2_verify :: "string \<Rightarrow> string \<Rightarrow> bool"
  cr_pbkdf2 :: "string \<Rightarrow> byte list \<Rightarrow> int \<Rightarrow> byte list option"
  cr_argon2_hash :: "string \<Rightarrow> byte list \<Rightarrow> string + string"

definition kPbkdf2HashBytes :: nat where "kPbkdf2HashBytes = 32"

text \<open>Reading up to a NUL, as a C string is.\<close>

definition c_str :: "string \<Rightarrow> string" where
  "c_str s = takeWhile (\<lambda>c. c \<noteq> CHR 0x00) s"

text \<open>
  Repeated \<^verbatim>\<open>std::getline\<close>: the characters after the last delimiter are a part of their
  own only when there are any.
\<close>

fun getline_loop :: "char \<Rightarrow> string \<Rightarrow> string \<Rightarrow> string list" where
  "getline_loop d cur [] = (if cur = [] then [] else [cur])"
| "getline_loop d cur (c # cs) =
     (if c = d then cur # getline_loop d [] cs else getline_loop d (cur @ [c]) cs)"

text \<open>\<^verbatim>\<open>CRYPTO_memcmp\<close> on the first \<open>n\<close> bytes.\<close>

definition memcmp_equal :: "byte list \<Rightarrow> byte list \<Rightarrow> nat \<Rightarrow> bool" where
  "memcmp_equal xs ys n = (take n xs = take n ys)"

definition verifyPassword :: "crypto \<Rightarrow> string \<Rightarrow> string \<Rightarrow> bool" where
  "verifyPassword cr password storedHash =
     (if starts_with storedHash ''$argon2id$''
      then cr_argon2_verify cr (c_str storedHash) password
      else if starts_with storedHash ''$pbkdf2-sha256$''
      then
        let parts = getline_loop (CHR ''$'') [] storedHash in
        if length parts \<noteq> 5 then False
        else case stoi (parts ! 2) of
          None \<Rightarrow> False
        | Some (iterations, _) \<Rightarrow>
            let salt = hex_to_bytes (parts ! 3);
                expectedHash = hex_to_bytes (parts ! 4)
            in if salt = [] \<or> expectedHash = [] then False
               else case cr_pbkdf2 cr password salt iterations of
                 None \<Rightarrow> False
               | Some computed \<Rightarrow>
                   memcmp_equal computed expectedHash (min kPbkdf2HashBytes (length expectedHash))
      else False)"

definition hashPassword :: "crypto \<Rightarrow> byte list option \<Rightarrow> string \<Rightarrow> string result" where
  "hashPassword cr rnd password =
     (case rnd of
        None \<Rightarrow> fail CryptoFailure ''RAND_bytes failed for password salt''
      | Some salt \<Rightarrow>
          (case cr_argon2_hash cr password salt of
             Inl what \<Rightarrow> fail CryptoFailure (''argon2id_hash_encoded failed: '' @ what)
           | Inr encoded \<Rightarrow> ok (c_str encoded)))"

section \<open>The user store\<close>

record user_entry =
  ue_username :: string
  ue_passwordHash :: string
  ue_role :: string

type_synonym user_store = "string \<rightharpoonup> user_entry"

text \<open>
  What \<^verbatim>\<open>u.value(key, default)\<close> answers for the three keys of one element of the array,
  defaults included; \<open>None\<close> when it throws.
\<close>

record user_json =
  uj_username :: "string option"
  uj_passwordHash :: "string option"
  uj_role :: "string option"

datatype users_file =
    CannotOpen
  | ParseFails
  | NoUsersArray
  | UsersArray "user_json list"

text \<open>An exception ends the loop and keeps the entries read so far.\<close>

fun load_loop :: "user_json list \<Rightarrow> user_store \<Rightarrow> user_store" where
  "load_loop [] m = m"
| "load_loop (u # us) m =
     (case (uj_username u, uj_passwordHash u, uj_role u) of
        (Some un, Some ph, Some r) \<Rightarrow>
          if un = [] \<or> ph = [] then load_loop us m
          else load_loop us (m(un \<mapsto> \<lparr>ue_username = un, ue_passwordHash = ph, ue_role = r\<rparr>))
      | _ \<Rightarrow> m)"

fun loadFromFile :: "users_file \<Rightarrow> user_store \<Rightarrow> user_store" where
  "loadFromFile CannotOpen m = m"
| "loadFromFile ParseFails m = m"
| "loadFromFile NoUsersArray m = m"
| "loadFromFile (UsersArray us) m = load_loop us m"

definition create_role_store :: "users_file \<Rightarrow> string \<Rightarrow> user_store" where
  "create_role_store f filePath =
     (if filePath \<noteq> [] then loadFromFile f Map.empty else Map.empty)"

definition hasUsers :: "user_store \<Rightarrow> bool" where
  "hasUsers m = (m \<noteq> Map.empty)"

definition role_authenticate :: "crypto \<Rightarrow> user_store \<Rightarrow> string \<Rightarrow> string \<Rightarrow> string result" where
  "role_authenticate cr m username password =
     (case m username of
        None \<Rightarrow> fail AuthenticationFailed ''Invalid username or password''
      | Some e \<Rightarrow>
          if \<not> verifyPassword cr password (ue_passwordHash e)
          then fail AuthenticationFailed ''Invalid username or password''
          else ok (ue_role e))"

section \<open>Key login\<close>

definition key_authenticate :: "crypto \<Rightarrow> string \<Rightarrow> string \<Rightarrow> string \<Rightarrow> string result" where
  "key_authenticate cr keyHash keyName keyData =
     (if keyName = [] then fail InvalidCredentials ''keyName must not be empty''
      else if keyHash = []
      then fail AuthenticationFailed ''Hub32 key authentication is not configured''
      else if \<not> verifyPassword cr keyData keyHash
      then fail AuthenticationFailed ''Hub32 key authentication failed''
      else ok keyName)"

section \<open>Loading\<close>

text \<open>An element that yields a user, and the elements the loop gets to see.\<close>

definition readable :: "user_json \<Rightarrow> bool" where
  "readable u \<longleftrightarrow> uj_username u \<noteq> None \<and> uj_passwordHash u \<noteq> None \<and> uj_role u \<noteq> None"

definition complete :: "user_json \<Rightarrow> bool" where
  "complete u \<longleftrightarrow> uj_username u \<noteq> Some [] \<and> uj_passwordHash u \<noteq> Some []"

definition entry_of :: "user_json \<Rightarrow> user_entry" where
  "entry_of u = \<lparr>ue_username = the (uj_username u), ue_passwordHash = the (uj_passwordHash u),
                 ue_role = the (uj_role u)\<rparr>"

definition loaded_entries :: "user_json list \<Rightarrow> user_entry list" where
  "loaded_entries us = map entry_of (filter complete (takeWhile readable us))"

lemma load_loop_fold:
  "load_loop us m = fold (\<lambda>e m. m(ue_username e \<mapsto> e)) (loaded_entries us) m"
  by (induction us arbitrary: m)
    (auto simp: loaded_entries_def readable_def complete_def entry_of_def split: option.split)

lemma fold_upd_lookup:
  "fold (\<lambda>e m. m(ue_username e \<mapsto> e)) es m un =
     (case find (\<lambda>e. ue_username e = un) (rev es) of None \<Rightarrow> m un | Some e \<Rightarrow> Some e)"
  by (induction es rule: rev_induct) (auto split: option.split)

text \<open>The users of a file, in order; none when there is no readable array.\<close>

fun users_in :: "users_file \<Rightarrow> user_entry list" where
  "users_in (UsersArray us) = loaded_entries us"
| "users_in _ = []"

lemma create_role_store_lookup:
  "create_role_store f path un
   = (if path = [] then None else find (\<lambda>e. ue_username e = un) (rev (users_in f)))"
  by (cases f) (simp_all add: create_role_store_def load_loop_fold fold_upd_lookup
      split: option.split)

lemma role_authenticate_ok_iff:
  "role_authenticate cr m un pw = Inr r
   \<longleftrightarrow> (\<exists>e. m un = Some e \<and> verifyPassword cr pw (ue_passwordHash e) \<and> ue_role e = r)"
  by (auto simp: role_authenticate_def ok_def fail_def split: option.split)

text \<open>
  The role a password login yields is that of the last complete entry for the name in
  the users file, counting only the entries before the first malformed one, and only if
  the password verifies against that entry's hash; every other login, for an unknown name
  as for a wrong password and for a missing file, fails with one and the same error.
\<close>

theorem password_login_outcomes:
  "role_authenticate cr (create_role_store f path) un pw =
     (case (if path = [] then None else find (\<lambda>e. ue_username e = un) (rev (users_in f))) of
        Some e \<Rightarrow>
          if verifyPassword cr pw (ue_passwordHash e) then Inr (ue_role e)
          else Inl (ApiError AuthenticationFailed ''Invalid username or password'')
      | None \<Rightarrow> Inl (ApiError AuthenticationFailed ''Invalid username or password''))"
  by (simp add: role_authenticate_def create_role_store_lookup ok_def fail_def
      split: option.split)

section \<open>Stored PBKDF2 hashes\<close>

lemma getline_loop_plain:
  "d \<notin> set s \<Longrightarrow> getline_loop d cur (s @ d # rest) = (cur @ s) # getline_loop d [] rest"
  by (induction s arbitrary: cur) auto

lemma getline_loop_end:
  "d \<notin> set s \<Longrightarrow> s \<noteq> [] \<Longrightarrow> getline_loop d [] s = [s]"
proof -
  have "d \<notin> set s \<Longrightarrow> getline_loop d cur s = (if cur @ s = [] then [] else [cur @ s])" for cur
    by (induction s arbitrary: cur) auto
  then show "d \<notin> set s \<Longrightarrow> s \<noteq> [] \<Longrightarrow> getline_loop d [] s = [s]" by simp
qed

lemma hex_chars_no_dollar: "CHR ''$'' \<notin> set hex_chars"
  by (simp add: hex_chars_def)

lemma bytes_to_hex_no_dollar: "CHR ''$'' \<notin> set (bytes_to_hex bs)"
proof -
  have "hex_chars ! k \<noteq> CHR ''$''" if "k < 16" for k
    using that hex_chars_no_dollar nth_mem [of k hex_chars] by (auto simp: hex_chars_def)
  then have "CHR ''$'' \<notin> set (hex2 b)" for b
    by (simp add: hex2_def unat_nibble) (metis unat_nibble)
  then show ?thesis by (simp add: bytes_to_hex_def)
qed

lemma hex_to_bytes_to_hex: "hex_to_bytes (bytes_to_hex bs) = bs"
  by (simp add: hex_to_bytes_def hex_pairs_bytes)

definition pbkdf2_record :: "string \<Rightarrow> byte list \<Rightarrow> byte list \<Rightarrow> string" where
  "pbkdf2_record iter salt h =
     ''$pbkdf2-sha256$'' @ iter @ ''$'' @ bytes_to_hex salt @ ''$'' @ bytes_to_hex h"

lemma pbkdf2_record_parts:
  assumes "CHR ''$'' \<notin> set iter" and "h \<noteq> []"
  shows "getline_loop (CHR ''$'') [] (pbkdf2_record iter salt h)
         = [[], ''pbkdf2-sha256'', iter, bytes_to_hex salt, bytes_to_hex h]"
proof -
  have h: "bytes_to_hex h \<noteq> []" using assms(2) by (cases h) (simp_all add: bytes_to_hex_def hex2_def)
  have "getline_loop (CHR ''$'') [] (pbkdf2_record iter salt h)
      = [] # getline_loop (CHR ''$'') [] (''pbkdf2-sha256'' @ CHR ''$'' #
          (iter @ CHR ''$'' # (bytes_to_hex salt @ CHR ''$'' # bytes_to_hex h)))"
    by (simp add: pbkdf2_record_def)
  also have "\<dots> = [[], ''pbkdf2-sha256'', iter, bytes_to_hex salt, bytes_to_hex h]"
    by (subst getline_loop_plain; simp add: assms(1) bytes_to_hex_no_dollar
        getline_loop_plain getline_loop_end [OF bytes_to_hex_no_dollar h])
  finally show ?thesis .
qed

text \<open>
  A stored PBKDF2 record accepts a password when the derived bytes agree with the
  stored ones on the stored length, at most 32: the full hash is required when all 32
  bytes are stored, but a record whose hash was cut off after a few bytes accepts every
  password that agrees on these, one in 256 passwords for a single byte.
\<close>

theorem pbkdf2_verification:
  assumes "stoi iter = Some (n, used)" and "CHR ''$'' \<notin> set iter"
    and "salt \<noteq> []" and "h \<noteq> []"
  shows "verifyPassword cr pw (pbkdf2_record iter salt h) \<longleftrightarrow>
    (\<exists>computed. cr_pbkdf2 cr pw salt n = Some computed
       \<and> take (min 32 (length h)) computed = take 32 h)"
proof -
  have p: "getline_loop (CHR ''$'') [] (pbkdf2_record iter salt h)
      = [[], ''pbkdf2-sha256'', iter, bytes_to_hex salt, bytes_to_hex h]"
    by (rule pbkdf2_record_parts [OF assms(2,4)])
  have "take (min 32 (length h)) h = take 32 h" by (simp add: min_def)
  moreover have "\<not> starts_with (pbkdf2_record iter salt h) ''$argon2id$''"
    "starts_with (pbkdf2_record iter salt h) ''$pbkdf2-sha256$''"
    by (simp_all add: pbkdf2_record_def starts_with_def)
  ultimately show ?thesis
    by (simp add: verifyPassword_def p Let_def assms hex_to_bytes_to_hex memcmp_equal_def
        kPbkdf2HashBytes_def split: option.split)
qed

text \<open>A stand-in for the hash functions, told apart by a single password.\<close>

definition sample_crypto :: crypto where
  "sample_crypto = \<lparr>
     cr_argon2_verify = (\<lambda>h pw. h = ''$argon2id$'' @ pw),
     cr_pbkdf2 = (\<lambda>pw salt n. if pw = ''ab'' then Some (replicate 32 5)
                              else Some (5 # replicate 31 6)),
     cr_argon2_hash = (\<lambda>pw salt. Inr (''$argon2id$'' @ pw))\<rparr>"

theorem pbkdf2_verification_witness:
  "verifyPassword sample_crypto ''wrong'' (pbkdf2_record ''1000'' [1, 2] [5])
   \<and> \<not> verifyPassword sample_crypto ''wrong'' (pbkdf2_record ''1000'' [1, 2] (replicate 32 5))"
proof -
  have it: "stoi ''1000'' = Some (1000, 4)" "CHR ''$'' \<notin> set ''1000''" by code_simp+
  show ?thesis
    using pbkdf2_verification [OF it, of "[1, 2]" "[5]" sample_crypto "''wrong''"]
      pbkdf2_verification [OF it, of "[1, 2]" "replicate 32 5" sample_crypto "''wrong''"]
    by (simp add: sample_crypto_def eval_nat_numeral)
qed

end
