(* ===== verification/Http_Types.thy ===== *)
theory Http_Types
  imports Complex_Main Core_Types Text_Utils
begin

text \<open>
  What the handlers read from a request and write to a response, JSON values, and the
  error body of src/api/common/HttpErrorUtil.cpp. The HTTP and JSON libraries are not part
  of the repository: a request is the values its accessors return, a response records what
  was set on it. A JSON object is a list of members: in the order the code adds them when it
  builds one, in the library's iteration order when it was parsed.
\<close>

datatype json =
    JNull
  | JBool bool
  | JInt int
  | JDouble rat
  | JString string
  | JArray "json list"
  | JObject "(string \<times> json) list"

text \<open>
  The accessors of the JSON library the handlers use: \<^verbatim>\<open>at\<close> and \<^verbatim>\<open>get<std::string>\<close> throw,
  here \<open>None\<close>, on a value of another type and on a missing member; \<^verbatim>\<open>contains\<close> is false for
  anything that is no object.
\<close>

definition json_contains :: "json \<Rightarrow> string \<Rightarrow> bool" where
  "json_contains j k = (case j of JObject ms \<Rightarrow> k \<in> fst ` set ms | _ \<Rightarrow> False)"

definition json_at :: "json \<Rightarrow> string \<Rightarrow> json option" where
  "json_at j k = (case j of JObject ms \<Rightarrow> map_of ms k | _ \<Rightarrow> None)"

definition json_get_string :: "json \<Rightarrow> string option" where
  "json_get_string j = (case j of JString s \<Rightarrow> Some s | _ \<Rightarrow> None)"

definition json_at_string :: "json \<Rightarrow> string \<Rightarrow> string option" where
  "json_at_string j k = Option.bind (json_at j k) json_get_string"

text \<open>\<^verbatim>\<open>value(key, default)\<close> throws on anything that is no object.\<close>

definition json_value_string :: "json \<Rightarrow> string \<Rightarrow> string \<Rightarrow> string option" where
  "json_value_string j k dflt =
     (case j of
        JObject ms \<Rightarrow> (case map_of ms k of None \<Rightarrow> Some dflt | Some v \<Rightarrow> json_get_string v)
      | _ \<Rightarrow> None)"

text \<open>A member that may be missing, but not of another type.\<close>

definition json_opt_string :: "json \<Rightarrow> string \<Rightarrow> string \<Rightarrow> string option" where
  "json_opt_string j k dflt = (if json_contains j k then json_at_string j k else Some dflt)"

text \<open>
  \<open>rq_header name\<close> is the value of a header, \<open>None\<close> when it is absent;
  \<^verbatim>\<open>get_header_value\<close> answers the empty string then.
\<close>

record http_request =
  rq_method :: string
  rq_path :: string
  rq_remote_addr :: string
  rq_header :: "string \<Rightarrow> string option"
  rq_body :: string
  rq_matches :: "string list"

definition get_header_value :: "http_request \<Rightarrow> string \<Rightarrow> string" where
  "get_header_value req n = (case rq_header req n of None \<Rightarrow> [] | Some v \<Rightarrow> v)"

text \<open>\<open>rs_headers\<close> is the list of \<^verbatim>\<open>set_header\<close> calls, in order.\<close>

record http_response =
  rs_status :: int
  rs_headers :: "(string \<times> string) list"
  rs_body :: "json option"
  rs_content_type :: string

definition fresh_response :: http_response where
  "fresh_response = \<lparr>rs_status = 200, rs_headers = [], rs_body = None, rs_content_type = []\<rparr>"

definition set_header :: "string \<Rightarrow> string \<Rightarrow> http_response \<Rightarrow> http_response" where
  "set_header n v res = res\<lparr>rs_headers := rs_headers res @ [(n, v)]\<rparr>"

text \<open>
  The value whose text is the body. Whether the JSON library can print it, which it cannot if
  a string is not UTF-8, is not decided here but in \<^verbatim>\<open>Json_Text\<close>: by \<open>dump_answer\<close> in the handlers that
  model the exception, by \<open>printed\<close> applied to the answers of the others.
\<close>

definition set_json :: "json \<Rightarrow> string \<Rightarrow> http_response \<Rightarrow> http_response" where
  "set_json j ct res = res\<lparr>rs_body := Some j, rs_content_type := ct\<rparr>"

definition error_body :: "int \<Rightarrow> string \<Rightarrow> string \<Rightarrow> json" where
  "error_body st title detail =
     JObject [(''status'', JInt st), (''title'', JString title), (''detail'', JString detail)]"

definition sendError :: "int \<Rightarrow> string \<Rightarrow> string \<Rightarrow> http_response \<Rightarrow> http_response" where
  "sendError st title detail res =
     set_json (error_body st title (if detail = [] then title else detail))
       ''application/problem+json'' (res\<lparr>rs_status := st\<rparr>)"

lemma sendError_fields [simp]:
  "rs_status (sendError st t d res) = st"
  "rs_headers (sendError st t d res) = rs_headers res"
  by (simp_all add: sendError_def set_json_def)

lemma set_header_fields [simp]:
  "rs_status (set_header n v res) = rs_status res"
  "rs_body (set_header n v res) = rs_body res"
  "rs_headers (set_header n v res) = rs_headers res @ [(n, v)]"
  by (simp_all add: set_header_def)

lemma set_json_fields [simp]:
  "rs_status (set_json j ct res) = rs_status res"
  "rs_headers (set_json j ct res) = rs_headers res"
  "rs_body (set_json j ct res) = Some j"
  by (simp_all add: set_json_def)

end
