(* ===== verification/I18n_Catalog.thy ===== *)
theory I18n_Catalog
  imports Complex_Main Http_Types
begin

text \<open>
  Localised messages, src/core/I18n.cpp: the catalogs, the fallback chain of a message,
  placeholder substitution and the choice of a locale from the Accept-Language header.
  Reading and parsing files is not part of the repository; the constructor takes what the
  directory scan and the JSON parser answered. The lemmas show that a negotiated locale is
  one that was loaded, or the default, and which preference wins.
\<close>

record i18n =
  in_default :: string
  in_catalogs :: "string \<rightharpoonup> (string \<rightharpoonup> string)"
  in_locales :: "string list"

section \<open>Loading\<close>

text \<open>
  The members of an object, in the order the JSON library iterates them, nested objects
  under dotted keys; values that are neither objects nor strings are skipped.
\<close>

fun flatten_members ::
  "(string \<times> json) list \<Rightarrow> string \<Rightarrow> (string \<rightharpoonup> string) \<Rightarrow> (string \<rightharpoonup> string)" where
  "flatten_members [] prefix out = out"
| "flatten_members ((k, v) # ms) prefix out =
     (let fullKey = (if prefix = [] then k else prefix @ ''.'' @ k) in
      flatten_members ms prefix
        (case v of
           JObject ms' \<Rightarrow> flatten_members ms' fullKey out
         | JString s \<Rightarrow> out(fullKey \<mapsto> s)
         | _ \<Rightarrow> out))"

text \<open>
  Asking an iterator for its key throws unless the value is an object; a null and an empty
  array have nothing to iterate over.
\<close>

definition flattenJson :: "json \<Rightarrow> (string \<rightharpoonup> string) option" where
  "flattenJson j =
     (case j of
        JObject ms \<Rightarrow> Some (flatten_members ms [] Map.empty)
      | JNull \<Rightarrow> Some Map.empty
      | JArray [] \<Rightarrow> Some Map.empty
      | _ \<Rightarrow> None)"

datatype catalog_file = CatalogUnreadable | CatalogMalformed | CatalogJson json

definition loadCatalog :: "string \<Rightarrow> catalog_file \<Rightarrow> i18n \<Rightarrow> i18n" where
  "loadCatalog locale f i =
     (case f of
        CatalogUnreadable \<Rightarrow> i
      | CatalogMalformed \<Rightarrow> i
      | CatalogJson j \<Rightarrow>
          (case flattenJson j of
             None \<Rightarrow> i
           | Some messages \<Rightarrow>
               i\<lparr>in_catalogs := (in_catalogs i)(locale \<mapsto> messages),
                 in_locales := in_locales i @ [locale]\<rparr>))"

text \<open>An entry of the directory: a regular file or not, its extension, its stem, its content.\<close>

record dir_entry =
  de_regular :: bool
  de_extension :: string
  de_stem :: string
  de_file :: catalog_file

definition scan_entry :: "dir_entry \<Rightarrow> i18n \<Rightarrow> i18n" where
  "scan_entry e i =
     (if \<not> de_regular e then i
      else if de_extension e \<noteq> ''.json'' then i
      else loadCatalog (de_stem e) (de_file e) i)"

text \<open>\<open>dir\<close> is \<open>None\<close> when the directory does not exist.\<close>

definition create_i18n :: "string \<Rightarrow> dir_entry list option \<Rightarrow> string \<Rightarrow> i18n" where
  "create_i18n catalogDir dir defaultLocale =
     (let i = \<lparr>in_default = defaultLocale, in_catalogs = Map.empty, in_locales = []\<rparr> in
      if catalogDir = [] then i
      else case dir of
        None \<Rightarrow> i
      | Some entries \<Rightarrow>
          (let i' = fold scan_entry entries i in i'\<lparr>in_locales := sort (in_locales i')\<rparr>))"

section \<open>Messages\<close>

definition catalog_message :: "i18n \<Rightarrow> string \<Rightarrow> string \<Rightarrow> string option" where
  "catalog_message i locale key =
     (case in_catalogs i locale of None \<Rightarrow> None | Some m \<Rightarrow> m key)"

definition base_locale :: "string \<Rightarrow> string option" where
  "base_locale locale =
     (if CHR ''_'' \<in> set locale then Some (takeWhile (\<lambda>c. c \<noteq> CHR ''_'') locale) else None)"

definition get_message :: "i18n \<Rightarrow> string \<Rightarrow> string \<Rightarrow> string" where
  "get_message i locale key =
     (case catalog_message i locale key of
        Some m \<Rightarrow> m
      | None \<Rightarrow>
     (case (case base_locale locale of None \<Rightarrow> None | Some b \<Rightarrow> catalog_message i b key) of
        Some m \<Rightarrow> m
      | None \<Rightarrow>
     (case (if locale \<noteq> in_default i then catalog_message i (in_default i) key else None) of
        Some m \<Rightarrow> m
      | None \<Rightarrow> key)))"

text \<open>The shorthand of the controllers: without a singleton the key itself.\<close>

definition tr :: "i18n option \<Rightarrow> string \<Rightarrow> string \<Rightarrow> string" where
  "tr inst locale key = (case inst of None \<Rightarrow> key | Some i \<Rightarrow> get_message i locale key)"

text \<open>Replacing a non-empty pattern from left to right, never inside what was put in.\<close>

function replace_all :: "string \<Rightarrow> string \<Rightarrow> string \<Rightarrow> string" where
  "replace_all pat arg [] = []"
| "replace_all pat arg (c # cs) =
     (if pat \<noteq> [] \<and> starts_with (c # cs) pat
      then arg @ replace_all pat arg (drop (length pat) (c # cs))
      else c # replace_all pat arg cs)"
  by pat_completeness auto

termination
  by (relation "measure (\<lambda>(pat, arg, s). length s)") auto

fun substitute_from :: "nat \<Rightarrow> string list \<Rightarrow> string \<Rightarrow> string" where
  "substitute_from i [] result = result"
| "substitute_from i (a # args) result =
     substitute_from (Suc i) args (replace_all (''{'' @ decimal_nat i @ ''}'') a result)"

definition substitute :: "string \<Rightarrow> string list \<Rightarrow> string" where
  "substitute tpl args = substitute_from 0 args tpl"

section \<open>Negotiation\<close>

definition is_blank :: "char \<Rightarrow> bool" where
  "is_blank c = (c = CHR '' '' \<or> c = CHR 0x09)"

definition trim_right :: "string \<Rightarrow> string" where
  "trim_right s = rev (dropWhile is_blank (rev s))"

definition trim_blank :: "string \<Rightarrow> string" where
  "trim_blank s = trim_right (dropWhile is_blank s)"

text \<open>The text behind the first occurrence of \<^verbatim>\<open>q=\<close>.\<close>

fun after_q :: "string \<Rightarrow> string option" where
  "after_q (a # b # cs) =
     (if a = CHR ''q'' \<and> b = CHR ''='' then Some cs else after_q (b # cs))"
| "after_q _ = None"

definition normalize_lang :: "string \<Rightarrow> string" where
  "normalize_lang s =
     (let t = map (\<lambda>c. if c = CHR ''-'' then CHR ''_'' else c) s;
          base = takeWhile (\<lambda>c. c \<noteq> CHR ''_'') t
      in map to_lower_char base @ drop (length base) t)"

text \<open>
  \<open>stod\<close> reads a decimal number, \<open>None\<close> when it throws; the quality is 1 then. A language
  name that is all blanks before the semicolon is kept as it is.
\<close>

definition parse_candidate :: "(string \<Rightarrow> rat option) \<Rightarrow> string \<Rightarrow> string \<times> rat" where
  "parse_candidate stod part =
     (if CHR '';'' \<in> set part then
        let l = takeWhile (\<lambda>c. c \<noteq> CHR '';'') part;
            l' = (if trim_right l \<noteq> [] then trim_right l else l);
            qpart = drop (Suc (length l)) part;
            q = (case after_q qpart of
                   None \<Rightarrow> 1
                 | Some t \<Rightarrow> (case stod t of None \<Rightarrow> 1 | Some v \<Rightarrow> v))
        in (normalize_lang l', q)
      else (normalize_lang part, 1))"

text \<open>
  The comma loop: it ends when nothing remains, so a trailing empty part is not visited;
  blank parts are skipped.
\<close>

fun comma_parts :: "string \<Rightarrow> string \<Rightarrow> string list" where
  "comma_parts cur [] = (if cur = [] then [] else [cur])"
| "comma_parts cur (c # cs) =
     (if c = CHR '','' then cur # comma_parts [] cs else comma_parts (cur @ [c]) cs)"

definition candidates :: "(string \<Rightarrow> rat option) \<Rightarrow> string \<Rightarrow> (string \<times> rat) list" where
  "candidates stod header =
     map (parse_candidate stod) (filter (\<lambda>p. p \<noteq> []) (map trim_blank (comma_parts [] header)))"

definition match_locale :: "string list \<Rightarrow> string \<Rightarrow> string option" where
  "match_locale locales lang =
     (case find (\<lambda>loc. loc = lang) locales of
        Some loc \<Rightarrow> Some loc
      | None \<Rightarrow>
     (case (case base_locale lang of
              None \<Rightarrow> None
            | Some b \<Rightarrow> find (\<lambda>loc. loc = b) locales) of
        Some loc \<Rightarrow> Some loc
      | None \<Rightarrow>
          find (\<lambda>loc. starts_with loc lang
                      \<and> (length loc = length lang \<or> loc ! length lang = CHR ''_'')) locales))"

fun match_candidates :: "string list \<Rightarrow> string list \<Rightarrow> string option" where
  "match_candidates locales [] = None"
| "match_candidates locales (l # ls) =
     (case match_locale locales l of None \<Rightarrow> match_candidates locales ls | Some loc \<Rightarrow> Some loc)"

text \<open>
  \<^verbatim>\<open>std::sort\<close> leaves the order of equal qualities open; here it is the order of the header.
\<close>

definition negotiate :: "(string \<Rightarrow> rat option) \<Rightarrow> i18n \<Rightarrow> string \<Rightarrow> string" where
  "negotiate stod i acceptLanguage =
     (if acceptLanguage = [] \<or> in_locales i = [] then in_default i
      else case match_candidates (in_locales i)
                  (map fst (sort_key (\<lambda>c. - snd c) (candidates stod acceptLanguage))) of
             None \<Rightarrow> in_default i
           | Some loc \<Rightarrow> loc)"

text \<open>The helper every controller repeats.\<close>

definition getLocale :: "(string \<Rightarrow> rat option) \<Rightarrow> i18n option \<Rightarrow> http_request \<Rightarrow> string" where
  "getLocale stod inst req =
     (case inst of
        None \<Rightarrow> ''en''
      | Some i \<Rightarrow> negotiate stod i (get_header_value req ''Accept-Language''))"

section \<open>What negotiation answers\<close>

lemma match_locale_in: "match_locale locales l = Some loc \<Longrightarrow> loc \<in> set locales"
  by (auto simp: match_locale_def split: option.splits dest: find_SomeD)

lemma match_candidates_in: "match_candidates locales ls = Some loc \<Longrightarrow> loc \<in> set locales"
  by (induction ls) (auto split: option.splits dest: match_locale_in)

definition i18n_ok :: "i18n \<Rightarrow> bool" where
  "i18n_ok i \<longleftrightarrow> set (in_locales i) = dom (in_catalogs i)"

lemma scan_entry_ok: "i18n_ok i \<Longrightarrow> i18n_ok (scan_entry e i)"
  by (auto simp: i18n_ok_def scan_entry_def loadCatalog_def split: catalog_file.split option.split)

lemma fold_scan_ok: "i18n_ok i \<Longrightarrow> i18n_ok (fold scan_entry es i)"
  by (induction es arbitrary: i) (simp_all add: scan_entry_ok)

lemma in_default_scan [simp]: "in_default (fold scan_entry es i) = in_default i"
  by (induction es arbitrary: i)
    (simp_all add: scan_entry_def loadCatalog_def split: catalog_file.split option.split)

lemma create_i18n_ok: "i18n_ok (create_i18n d dir def) \<and> in_default (create_i18n d dir def) = def"
proof -
  have "i18n_ok \<lparr>in_default = def, in_catalogs = Map.empty, in_locales = []\<rparr>"
    by (simp add: i18n_ok_def)
  then have "i18n_ok (fold scan_entry es \<lparr>in_default = def, in_catalogs = Map.empty,
      in_locales = []\<rparr>)" for es
    by (rule fold_scan_ok)
  then show ?thesis by (auto simp: create_i18n_def Let_def i18n_ok_def split: option.split)
qed

text \<open>
  Whatever a client sends as its language preferences, the negotiated locale is the
  default or one whose catalog was loaded; and a message that no loaded catalog knows is
  answered with its key.
\<close>

theorem negotiated_locale_loaded:
  "(let i = create_i18n d dir def; loc = negotiate stod i header in
     (loc = def \<or> loc \<in> dom (in_catalogs i))
     \<and> (get_message i loc key = key \<or> (\<exists>l m. in_catalogs i l = Some m \<and> key \<in> dom m)))"
proof -
  define i where "i = create_i18n d dir def"
  have i: "set (in_locales i) = dom (in_catalogs i)" "in_default i = def"
    using create_i18n_ok [of d dir def] by (simp_all add: i_def i18n_ok_def)
  have "negotiate stod i header = def \<or> negotiate stod i header \<in> dom (in_catalogs i)"
    unfolding i(1) [symmetric]
    by (auto simp: negotiate_def i(2) split: option.split dest: match_candidates_in)
  moreover have "catalog_message i l key = None"
    if "\<not> (\<exists>l m. in_catalogs i l = Some m \<and> key \<in> dom m)" for l
    using that by (auto simp: catalog_message_def split: option.split)
  then have "get_message i l key = key \<or> (\<exists>l m. in_catalogs i l = Some m \<and> key \<in> dom m)" for l
    by (auto simp: get_message_def split: option.split)
  ultimately show ?thesis by (simp add: Let_def flip: i_def)
qed

end
