(* ===== verification/Captcha.thy ===== *)
theory Captcha
  imports User_Roles I18n_Catalog
begin

text \<open>
  The stateless captcha of src/api/v1/controllers/RegisterController.cpp: its URL-safe
  base64 coding, and the tokens that carry a time stamp and six digits under a truncated
  MAC. HMAC is OpenSSL's: it is the argument \<open>hmac\<close> that maps key and message to 32 bytes. The
  lemmas give the coding round trip, when exactly an answer is accepted, and for how long.
\<close>

section \<open>Base64\<close>

abbreviation byte_of :: "char \<Rightarrow> byte" where "byte_of c \<equiv> word_of_nat (char_code c)"

abbreviation char_of_byte :: "byte \<Rightarrow> char" where "char_of_byte w \<equiv> char_of (unat w)"

definition kAlphabet :: string where
  "kAlphabet = ''ABCDEFGHIJKLMNOPQRSTUVWXYZabcdefghijklmnopqrstuvwxyz0123456789-_''"

definition b64_char :: "byte \<Rightarrow> char" where
  "b64_char w = kAlphabet ! unat w"

fun base64Encode :: "string \<Rightarrow> string" where
  "base64Encode (ca # cb # cc # rest) =
     (let a = byte_of ca; b = byte_of cb; c = byte_of cc
      in [b64_char (drop_bit 2 a AND 0x3F),
          b64_char (push_bit 4 (a AND 0x03) OR (drop_bit 4 b AND 0x0F)),
          b64_char (push_bit 2 (b AND 0x0F) OR (drop_bit 6 c AND 0x03)),
          b64_char (c AND 0x3F)] @ base64Encode rest)"
| "base64Encode [ca, cb] =
     (let a = byte_of ca; b = byte_of cb
      in [b64_char (drop_bit 2 a AND 0x3F),
          b64_char (push_bit 4 (a AND 0x03) OR (drop_bit 4 b AND 0x0F)),
          b64_char (push_bit 2 (b AND 0x0F))])"
| "base64Encode [ca] =
     (let a = byte_of ca
      in [b64_char (drop_bit 2 a AND 0x3F), b64_char (push_bit 4 (a AND 0x03))])"
| "base64Encode [] = []"

text \<open>\<open>None\<close> is the answer -1.\<close>

definition charVal :: "char \<Rightarrow> byte option" where
  "charVal ch =
     (let n = char_code ch in
      if 65 \<le> n \<and> n \<le> 90 then Some (word_of_nat (n - 65))
      else if 97 \<le> n \<and> n \<le> 122 then Some (word_of_nat (n - 97 + 26))
      else if 48 \<le> n \<and> n \<le> 57 then Some (word_of_nat (n - 48 + 52))
      else if ch = CHR ''-'' then Some 62
      else if ch = CHR ''_'' then Some 63
      else None)"

text \<open>
  The loop works on groups of four. It ends at a bad first or second character of a group;
  a bad third or fourth one only costs its own byte and the loop goes on with the next group.
\<close>

function base64Decode :: "string \<Rightarrow> string" where
  "base64Decode [] = []"
| "base64Decode [ca] = []"
| "base64Decode (ca # cb # rest) =
     (case charVal ca of None \<Rightarrow> [] | Some a \<Rightarrow>
      (case charVal cb of None \<Rightarrow> [] | Some b \<Rightarrow>
         [char_of_byte (push_bit 2 a OR drop_bit 4 b)]
         @ (case rest of
              [] \<Rightarrow> []
            | cc # rest' \<Rightarrow>
                (case charVal cc of
                   None \<Rightarrow> []
                 | Some c \<Rightarrow>
                     [char_of_byte (push_bit 4 (b AND 0x0F) OR drop_bit 2 c)]
                     @ (case rest' of
                          [] \<Rightarrow> []
                        | cd # _ \<Rightarrow>
                            (case charVal cd of
                               None \<Rightarrow> []
                             | Some d \<Rightarrow> [char_of_byte (push_bit 6 (c AND 0x03) OR d)]))))
         @ base64Decode (drop 2 rest)))"
  by pat_completeness auto

termination
  by (relation "measure length") auto

subsection \<open>The round trip\<close>

lemma byte_eqI:
  fixes a b :: byte
  assumes "bit a 0 = bit b 0" "bit a 1 = bit b 1" "bit a 2 = bit b 2" "bit a 3 = bit b 3"
    "bit a 4 = bit b 4" "bit a 5 = bit b 5" "bit a 6 = bit b 6" "bit a 7 = bit b 7"
  shows "a = b"
proof (rule bit_word_eqI)
  fix n assume "n < LENGTH(8)"
  then have "n < 8" by simp
  then have "n = 0 \<or> n = 1 \<or> n = 2 \<or> n = 3 \<or> n = 4 \<or> n = 5 \<or> n = 6 \<or> n = 7" by linarith
  then show "bit a n = bit b n" using assms by auto
qed

lemma high_bits: "8 \<le> n \<Longrightarrow> \<not> bit (w :: byte) n"
  using bit_imp_le_length [of w n] by auto

lemma less_64_iff: "(w :: byte) < 64 \<longleftrightarrow> \<not> bit w 6 \<and> \<not> bit w 7"
proof -
  have "unat (drop_bit 6 w) = drop_bit 6 (unat w)" by (rule unat_drop_bit_eq)
  then have "unat (drop_bit 6 w) = unat w div 64" by (simp only: drop_bit_eq_div) simp
  then have "w < 64 \<longleftrightarrow> unat (drop_bit 6 w) = 0"
    by (simp add: word_less_nat_alt div_eq_0_iff del: unsigned_eq_0_iff)
  also have "\<dots> \<longleftrightarrow> drop_bit 6 w = 0" by (simp only: unsigned_eq_0_iff)
  also have "\<dots> \<longleftrightarrow> \<not> bit w 6 \<and> \<not> bit w 7"
  proof
    assume z: "drop_bit 6 w = 0"
    have "bit (drop_bit 6 w) 0 = bit w 6" "bit (drop_bit 6 w) 1 = bit w 7" by (simp_all add: bit_simps)
    with z show "\<not> bit w 6 \<and> \<not> bit w 7" by simp
  next
    assume "\<not> bit w 6 \<and> \<not> bit w 7"
    then show "drop_bit 6 w = 0" by (intro byte_eqI) (simp_all add: bit_simps high_bits)
  qed
  finally show ?thesis .
qed

lemma charVal_b64_char:
  assumes "w < 64"
  shows "charVal (b64_char w) = Some w"
proof -
  have "list_all (\<lambda>n. charVal (kAlphabet ! n) = Some (word_of_nat n)) [0..<64]"
    by (simp add: upt_rec charVal_def kAlphabet_def Let_def)
  moreover have "unat w < 64" using assms by (simp add: word_less_nat_alt)
  ultimately show ?thesis by (simp add: list_all_iff b64_char_def)
qed

lemma six_bits [simp]:
  fixes a b c :: byte
  shows "charVal (b64_char (drop_bit 2 a AND 0x3F)) = Some (drop_bit 2 a AND 0x3F)"
    and "charVal (b64_char (push_bit 4 (a AND 0x03) OR (drop_bit 4 b AND 0x0F)))
           = Some (push_bit 4 (a AND 0x03) OR (drop_bit 4 b AND 0x0F))"
    and "charVal (b64_char (push_bit 2 (b AND 0x0F) OR (drop_bit 6 c AND 0x03)))
           = Some (push_bit 2 (b AND 0x0F) OR (drop_bit 6 c AND 0x03))"
    and "charVal (b64_char (c AND 0x3F)) = Some (c AND 0x3F)"
    and "charVal (b64_char (push_bit 2 (b AND 0x0F))) = Some (push_bit 2 (b AND 0x0F))"
    and "charVal (b64_char (push_bit 4 (a AND 0x03))) = Some (push_bit 4 (a AND 0x03))"
  by (rule charVal_b64_char; simp add: less_64_iff bit_simps)+

lemma bytes_back [simp]:
  fixes a b c :: byte
  shows "push_bit 2 (drop_bit 2 a AND 0x3F)
           OR drop_bit 4 (push_bit 4 (a AND 0x03) OR (drop_bit 4 b AND 0x0F)) = a"
    and "push_bit 2 (drop_bit 2 a AND 0x3F) OR drop_bit 4 (push_bit 4 (a AND 0x03)) = a"
    and "push_bit 4 ((push_bit 4 (a AND 0x03) OR (drop_bit 4 b AND 0x0F)) AND 0x0F)
           OR drop_bit 2 (push_bit 2 (b AND 0x0F) OR (drop_bit 6 c AND 0x03)) = b"
    and "push_bit 4 ((push_bit 4 (a AND 0x03) OR (drop_bit 4 b AND 0x0F)) AND 0x0F)
           OR drop_bit 2 (push_bit 2 (b AND 0x0F)) = b"
    and "push_bit 6 ((push_bit 2 (b AND 0x0F) OR (drop_bit 6 c AND 0x03)) AND 0x03)
           OR (c AND 0x3F) = c"
  by (rule byte_eqI; simp add: bit_simps)+

lemma char_of_byte_of [simp]: "char_of_byte (byte_of c) = c"
  by (simp add: unat_of_nat)

lemma base64_back: "base64Decode (base64Encode s) = s"
proof (induction s rule: base64Encode.induct)
  case (1 ca cb cc rest)
  then show ?case
    by (simp add: Let_def del: push_bit_and push_bit_or drop_bit_and drop_bit_or)
qed (simp_all add: Let_def del: push_bit_and push_bit_or drop_bit_and drop_bit_or)

text \<open>
  Decoding the encoding of any string of bytes gives that string back, whatever its
  length modulo three.
\<close>

theorem base64_round_trip: "base64Decode (base64Encode s) = s"
  by (rule base64_back)

section \<open>Tokens\<close>

definition kCaptchaSecret :: string where "kCaptchaSecret = ''hub32-captcha-v1''"

definition kCaptchaTtlSeconds :: int where "kCaptchaTtlSeconds = 600"

type_synonym hmac_fun = "string \<Rightarrow> string \<Rightarrow> byte list"

definition hmacSha256Truncated :: "hmac_fun \<Rightarrow> string \<Rightarrow> string \<Rightarrow> string" where
  "hmacSha256Truncated hmac key message = bytes_to_hex (take 8 (hmac key message))"

text \<open>\<open>digits\<close> is what the random device drew, \<open>now\<close> the seconds since the epoch.\<close>

definition generateCaptcha :: "hmac_fun \<Rightarrow> int \<Rightarrow> string \<Rightarrow> string \<times> string" where
  "generateCaptcha hmac now digits =
     (let payload = decimal now @ '':'' @ digits
      in (base64Encode payload @ ''.'' @ hmacSha256Truncated hmac kCaptchaSecret payload, digits))"

text \<open>Cutting at the last and at the first occurrence of a character.\<close>

definition cut_first :: "char \<Rightarrow> string \<Rightarrow> (string \<times> string) option" where
  "cut_first d s =
     (case dropWhile (\<lambda>c. c \<noteq> d) s of
        [] \<Rightarrow> None
      | _ # r \<Rightarrow> Some (takeWhile (\<lambda>c. c \<noteq> d) s, r))"

definition cut_last :: "char \<Rightarrow> string \<Rightarrow> (string \<times> string) option" where
  "cut_last d s = map_option (\<lambda>(x, y). (rev y, rev x)) (cut_first d (rev s))"

definition verifyCaptcha :: "hmac_fun \<Rightarrow> int \<Rightarrow> string \<Rightarrow> string \<Rightarrow> bool" where
  "verifyCaptcha hmac now captchaId answer =
     (case cut_last CHR ''.'' captchaId of
        None \<Rightarrow> False
      | Some (encoded, macGiven) \<Rightarrow>
          let payload = base64Decode encoded in
          if payload = [] then False
          else if macGiven \<noteq> hmacSha256Truncated hmac kCaptchaSecret payload then False
          else case cut_first CHR '':'' payload of
            None \<Rightarrow> False
          | Some (stamp, digits) \<Rightarrow>
              (case stoll stamp of
                 None \<Rightarrow> False
               | Some timestamp \<Rightarrow>
                   if now - timestamp > kCaptchaTtlSeconds then False else answer = digits))"

lemma dropWhile_cut: "d \<notin> set a \<Longrightarrow> dropWhile (\<lambda>c. c \<noteq> d) (a @ d # b) = d # b"
  by (induction a) auto

lemma takeWhile_cut: "d \<notin> set a \<Longrightarrow> takeWhile (\<lambda>c. c \<noteq> d) (a @ d # b) = a"
  by (induction a) auto

lemma cut_first_append: "d \<notin> set a \<Longrightarrow> cut_first d (a @ d # b) = Some (a, b)"
  by (simp add: cut_first_def dropWhile_cut takeWhile_cut)

lemma cut_first_iff: "cut_first d s = Some (a, b) \<longleftrightarrow> s = a @ d # b \<and> d \<notin> set a"
proof
  assume c: "cut_first d s = Some (a, b)"
  have "takeWhile (\<lambda>c. c \<noteq> d) s @ dropWhile (\<lambda>c. c \<noteq> d) s = s" by simp
  with c show "s = a @ d # b \<and> d \<notin> set a"
    by (auto simp: cut_first_def dropWhile_eq_Cons_conv split: list.splits dest: set_takeWhileD)
qed (auto simp: cut_first_append)

lemma cut_last_iff: "cut_last d s = Some (a, b) \<longleftrightarrow> s = a @ d # b \<and> d \<notin> set b"
proof -
  have "cut_last d s = Some (a, b) \<longleftrightarrow> cut_first d (rev s) = Some (rev b, rev a)"
    by (cases "cut_first d (rev s)") (auto simp: cut_last_def rev_swap)
  then show ?thesis by (simp add: cut_first_iff) (metis append_Cons append_Nil append_assoc rev_append rev_rev_ident rev_singleton_conv)
qed

lemma hex_no_dot: "CHR ''.'' \<notin> set (bytes_to_hex bs)"
proof -
  have "list_all is_hex_char (bytes_to_hex bs)"
    by (induction bs) (simp_all add: bytes_to_hex_def is_hex_char_hex2)
  moreover have "\<not> is_hex_char CHR ''.''" by (simp add: is_hex_char_def)
  ultimately show ?thesis by (auto simp: list_all_iff)
qed

text \<open>
  Which answers are accepted, exactly: the token is a coding and its MAC, joined by a
  dot; the coding stands for a number, a colon and the answer; the MAC is that of the
  decoded text under the secret; and the number is a time at most ten minutes ago. Nothing
  else is looked at: the same token and answer are accepted again and again.
\<close>

theorem captcha_accepts_exactly:
  "verifyCaptcha hmac now token answer \<longleftrightarrow>
     (\<exists>encoded stamp timestamp.
        token = encoded @ ''.'' @ hmacSha256Truncated hmac kCaptchaSecret (stamp @ '':'' @ answer)
        \<and> base64Decode encoded = stamp @ '':'' @ answer
        \<and> CHR '':'' \<notin> set stamp \<and> stoll stamp = Some timestamp
        \<and> now - timestamp \<le> kCaptchaTtlSeconds)"
  (is "?L \<longleftrightarrow> ?R")
proof
  assume ?L
  then obtain encoded mac where c: "cut_last CHR ''.'' token = Some (encoded, mac)"
    by (cases "cut_last CHR ''.'' token") (auto simp: verifyCaptcha_def)
  with \<open>?L\<close> have mac: "mac = hmacSha256Truncated hmac kCaptchaSecret (base64Decode encoded)"
    and "(case cut_first CHR '':'' (base64Decode encoded) of None \<Rightarrow> False
          | Some (stamp, digits) \<Rightarrow>
              (case stoll stamp of None \<Rightarrow> False
               | Some timestamp \<Rightarrow> now - timestamp \<le> kCaptchaTtlSeconds \<and> answer = digits))"
    by (auto simp: verifyCaptcha_def Let_def split: if_splits option.splits)
  then obtain stamp timestamp where "cut_first CHR '':'' (base64Decode encoded) = Some (stamp, answer)"
      and "stoll stamp = Some timestamp" and "now - timestamp \<le> kCaptchaTtlSeconds"
    by (auto split: option.splits)
  with c mac show ?R by (auto simp: cut_last_iff cut_first_iff)
next
  assume ?R
  then obtain encoded stamp timestamp
    where t: "token = encoded @ ''.'' @ hmacSha256Truncated hmac kCaptchaSecret (stamp @ '':'' @ answer)"
      and d: "base64Decode encoded = stamp @ '':'' @ answer"
      and s: "CHR '':'' \<notin> set stamp" "stoll stamp = Some timestamp" "now - timestamp \<le> kCaptchaTtlSeconds"
    by blast
  have "cut_last CHR ''.'' token
      = Some (encoded, hmacSha256Truncated hmac kCaptchaSecret (stamp @ '':'' @ answer))"
    by (simp add: t cut_last_iff hmacSha256Truncated_def hex_no_dot)
  moreover have "cut_first CHR '':'' (stamp @ '':'' @ answer) = Some (stamp, answer)"
    by (simp add: cut_first_iff s)
  ultimately show ?L using d s by (simp add: verifyCaptcha_def)
qed

text \<open>
  A generated captcha is answered by its own digits and by nothing else, for the ten
  minutes after it was made.
\<close>

theorem captcha_round_trip:
  assumes "0 \<le> now" and "now < 2 ^ 63"
  shows "verifyCaptcha hmac now' (fst (generateCaptcha hmac now digits)) answer
     \<longleftrightarrow> answer = digits \<and> now' - now \<le> 600"
proof -
  define p where "p = decimal now @ '':'' @ digits"
  have dn: "decimal now = decimal_nat (nat now)" using assms by (simp add: decimal_def)
  have "CHR '':'' \<notin> set (decimal now)"
    using decimal_nat_digits [of "nat now"] by (auto simp: dn list_all_iff is_digit_def)
  then have f: "cut_first CHR '':'' p = Some (decimal now, digits)" by (simp add: p_def cut_first_iff)
  have st: "stoll (decimal now) = Some now" using assms by (simp add: dn stoll_decimal)
  have "cut_last CHR ''.'' (fst (generateCaptcha hmac now digits))
      = Some (base64Encode p, hmacSha256Truncated hmac kCaptchaSecret p)"
    by (simp add: generateCaptcha_def p_def cut_last_iff hmacSha256Truncated_def hex_no_dot Let_def)
  moreover have "base64Decode (base64Encode p) = p" by (rule base64_back)
  moreover have "p \<noteq> []" by (simp add: p_def)
  ultimately show ?thesis
    by (auto simp: verifyCaptcha_def f st kCaptchaTtlSeconds_def)
qed

lemma captcha_round_trip_witness:
  "verifyCaptcha (\<lambda>k m. replicate 32 0) 1000 (fst (generateCaptcha (\<lambda>k m. replicate 32 0) 700 ''123456'')) ''123456''
   \<and> \<not> verifyCaptcha (\<lambda>k m. replicate 32 0) 1301 (fst (generateCaptcha (\<lambda>k m. replicate 32 0) 700 ''123456'')) ''123456''"
  by (simp add: captcha_round_trip)

end
