(* ===== verification/Sql_Tables.thy ===== *)
theory Sql_Tables
  imports Core_Types
begin

text \<open>
  The shape that every repository method of src/db shares: prepare one statement, step it,
  map a failure of either to \<^verbatim>\<open>InternalError\<close> with SQLite's message, and for updates
  and deletes report \<^verbatim>\<open>NotFound\<close> when no row changed. SQLite is not part of the
  repository: whether a call completes is the argument \<open>oc\<close>; a statement that completes
  does to the rows what its SQL text says. A table is the list of its rows in insertion
  order, which is also the order in which equal sort keys are listed.
\<close>

text \<open>The messages are what \<^verbatim>\<open>sqlite3_errmsg\<close> reports.\<close>

datatype sql_call = Completes | PrepareError string | StepError string

section \<open>Statements on a list of rows\<close>

definition sql_update :: "('r \<Rightarrow> bool) \<Rightarrow> ('r \<Rightarrow> 'r) \<Rightarrow> 'r list \<Rightarrow> 'r list" where
  "sql_update P f rows = map (\<lambda>r. if P r then f r else r) rows"

definition sql_delete :: "('r \<Rightarrow> bool) \<Rightarrow> 'r list \<Rightarrow> 'r list" where
  "sql_delete P rows = filter (\<lambda>r. \<not> P r) rows"

definition sql_changes :: "('r \<Rightarrow> bool) \<Rightarrow> 'r list \<Rightarrow> nat" where
  "sql_changes P rows = length (filter P rows)"

section \<open>One statement, with its error paths\<close>

definition run_update ::
  "sql_call \<Rightarrow> string \<Rightarrow> ('r \<Rightarrow> bool) \<Rightarrow> ('r \<Rightarrow> 'r) \<Rightarrow> 'r list \<Rightarrow> unit result \<times> 'r list" where
  "run_update oc notFound P f rows =
     (case oc of
        PrepareError m \<Rightarrow> (fail InternalError m, rows)
      | StepError m \<Rightarrow> (fail InternalError m, rows)
      | Completes \<Rightarrow>
          if sql_changes P rows = 0 then (fail NotFound notFound, rows)
          else (ok (), sql_update P f rows))"

definition run_delete ::
  "sql_call \<Rightarrow> string \<Rightarrow> ('r \<Rightarrow> bool) \<Rightarrow> 'r list \<Rightarrow> unit result \<times> 'r list" where
  "run_delete oc notFound P rows =
     (case oc of
        PrepareError m \<Rightarrow> (fail InternalError m, rows)
      | StepError m \<Rightarrow> (fail InternalError m, rows)
      | Completes \<Rightarrow>
          if sql_changes P rows = 0 then (fail NotFound notFound, rows)
          else (ok (), sql_delete P rows))"

text \<open>\<^verbatim>\<open>SELECT ... LIMIT 1\<close>, read through \<open>g\<close>.\<close>

definition run_select_one ::
  "sql_call \<Rightarrow> string \<Rightarrow> ('r \<Rightarrow> bool) \<Rightarrow> ('r \<Rightarrow> 'a) \<Rightarrow> 'r list \<Rightarrow> 'a result" where
  "run_select_one oc notFound P g rows =
     (case oc of
        PrepareError m \<Rightarrow> fail InternalError m
      | StepError m \<Rightarrow> fail InternalError m
      | Completes \<Rightarrow>
          (case find P rows of None \<Rightarrow> fail NotFound notFound | Some r \<Rightarrow> ok (g r)))"

text \<open>\<^verbatim>\<open>SELECT ... ORDER BY\<close> the key \<open>k\<close>.\<close>

definition run_select_all ::
  "sql_call \<Rightarrow> ('r \<Rightarrow> bool) \<Rightarrow> ('r \<Rightarrow> 'k :: linorder) \<Rightarrow> ('r \<Rightarrow> 'a) \<Rightarrow> 'r list
     \<Rightarrow> 'a list result" where
  "run_select_all oc P k g rows =
     (case oc of
        PrepareError m \<Rightarrow> fail InternalError m
      | StepError m \<Rightarrow> fail InternalError m
      | Completes \<Rightarrow> ok (map g (sort_key k (filter P rows))))"

section \<open>Laws of the statements\<close>

lemma sql_changes_0_iff: "sql_changes P rows = 0 \<longleftrightarrow> (\<forall>r \<in> set rows. \<not> P r)"
  by (auto simp: sql_changes_def filter_empty_conv)

lemma set_sql_update: "set (sql_update P f rows) = (\<lambda>r. if P r then f r else r) ` set rows"
  by (simp add: sql_update_def)

lemma set_sql_delete [simp]: "set (sql_delete P rows) = {r \<in> set rows. \<not> P r}"
  by (auto simp: sql_delete_def)

lemma map_sql_update:
  "(\<And>r. P r \<Longrightarrow> k (f r) = k r) \<Longrightarrow> map k (sql_update P f rows) = map k rows"
  by (simp add: sql_update_def)

lemma distinct_map_sql_update:
  "(\<And>r. P r \<Longrightarrow> k (f r) = k r) \<Longrightarrow> distinct (map k (sql_update P f rows)) = distinct (map k rows)"
  by (simp add: map_sql_update)

lemma distinct_map_sql_delete:
  "distinct (map k rows) \<Longrightarrow> distinct (map k (sql_delete P rows))"
  by (simp add: sql_delete_def distinct_map_filter)

text \<open>Looking a row up by its key, before and after an update by the same key.\<close>

lemma find_sql_update:
  assumes "\<And>r. P r \<Longrightarrow> k (f r) = k r"
  shows "find (\<lambda>r. k r = j) (sql_update P f rows)
         = map_option (\<lambda>r. if P r then f r else r) (find (\<lambda>r. k r = j) rows)"
  using assms by (induction rows) (auto simp: sql_update_def)

text \<open>The same for an update of the rows with one key.\<close>

lemma find_key_sql_update:
  assumes "\<And>r. k (f r) = k r"
  shows "find (\<lambda>r. k r = j) (sql_update (\<lambda>r. k r = i) f rows)
         = (if j = i then map_option f (find (\<lambda>r. k r = i) rows)
            else find (\<lambda>r. k r = j) rows)"
  using assms by (induction rows) (auto simp: sql_update_def)

lemma find_sql_delete_other:
  "(\<And>r. k r = j \<Longrightarrow> \<not> P r) \<Longrightarrow>
   find (\<lambda>r. k r = j) (sql_delete P rows) = find (\<lambda>r. k r = j) rows"
  by (induction rows) (auto simp: sql_delete_def)

lemma find_append: "find P (xs @ ys) = (case find P xs of None \<Rightarrow> find P ys | Some x \<Rightarrow> Some x)"
  by (induction xs) auto

lemma run_update_rows:
  "snd (run_update oc nf P f rows)
   = (if oc = Completes then sql_update P f rows else rows)"
proof -
  have "sql_update P f rows = rows" if "sql_changes P rows = 0"
    using that by (simp add: sql_changes_0_iff sql_update_def map_idI)
  then show ?thesis by (simp add: run_update_def split: sql_call.split)
qed

lemma map_run_update:
  "(\<And>r. k (f r) = k r) \<Longrightarrow> map k (snd (run_update oc nf P f rows)) = map k rows"
  by (simp add: run_update_rows map_sql_update)

lemma keys_run_update:
  "(\<And>r. k (f r) = k r) \<Longrightarrow> k ` set (snd (run_update oc nf P f rows)) = k ` set rows"
  by (metis map_run_update list.set_map)

lemma run_update_ok_iff:
  "fst (run_update oc nf P f rows) = Inr () \<longleftrightarrow> oc = Completes \<and> (\<exists>r \<in> set rows. P r)"
  using sql_changes_0_iff [of P rows]
  by (auto simp: run_update_def ok_def fail_def split: sql_call.split)

lemma run_delete_rows:
  "snd (run_delete oc nf P rows) = (if oc = Completes then sql_delete P rows else rows)"
proof -
  have "sql_delete P rows = rows" if "sql_changes P rows = 0"
    using that by (simp add: sql_changes_0_iff sql_delete_def)
  then show ?thesis by (simp add: run_delete_def split: sql_call.split)
qed

lemma run_select_one_ok_iff:
  "run_select_one oc nf P g rows = Inr a
   \<longleftrightarrow> oc = Completes \<and> (\<exists>r. find P rows = Some r \<and> g r = a)"
  by (auto simp: run_select_one_def ok_def fail_def split: sql_call.split option.split)

lemma run_select_all_ok:
  "run_select_all oc P k g rows = Inr xs
   \<longleftrightarrow> oc = Completes \<and> xs = map g (sort_key k (filter P rows))"
  by (auto simp: run_select_all_def ok_def fail_def split: sql_call.split)

lemma is_ok_unit: "is_ok (r :: unit result) \<longleftrightarrow> r = Inr ()"
  by (cases r) (auto simp: is_ok_def)

end
