(* ===== verification/Tenant_Repository.thy ===== *)
theory Tenant_Repository
  imports Sql_Tables Text_Utils
begin

text \<open>
  The tenants table and src/db/TenantRepository.cpp. The table has three unique columns.
  When an insert breaks the uniqueness of the slug and of the e-mail address at once, SQLite
  names one of them; which one is the argument \<open>mail_first\<close>. The lemmas show that the three
  columns stay unique and which life cycle the status has.
\<close>

record tenant_row =
  tn_id :: string
  tn_slug :: string
  tn_name :: string
  tn_owner_email :: string
  tn_status :: string
  tn_plan :: string
  tn_created_at :: int
  tn_activated_at :: "int option"

record tenant_record =
  tnr_id :: string
  tnr_slug :: string
  tnr_name :: string
  tnr_ownerEmail :: string
  tnr_status :: string
  tnr_plan :: string
  tnr_createdAt :: int
  tnr_activatedAt :: int

definition tenant_from_row :: "tenant_row \<Rightarrow> tenant_record" where
  "tenant_from_row r =
     \<lparr>tnr_id = tn_id r, tnr_slug = tn_slug r, tnr_name = tn_name r,
      tnr_ownerEmail = tn_owner_email r, tnr_status = tn_status r, tnr_plan = tn_plan r,
      tnr_createdAt = tn_created_at r,
      tnr_activatedAt = (case tn_activated_at r of None \<Rightarrow> 0 | Some t \<Rightarrow> t)\<rparr>"

type_synonym tenants = "tenant_row list"

section \<open>Operations\<close>

definition email_taken :: "string \<Rightarrow> 'a result" where
  "email_taken ownerEmail = fail Conflict (''Email already registered: '' @ ownerEmail)"

definition slug_taken :: "string \<Rightarrow> 'a result" where
  "slug_taken slug = fail Conflict (''Slug already taken: '' @ slug)"

text \<open>A duplicate identifier breaks the primary key and is reported as \<open>keyErr\<close>.\<close>

definition create_tenant ::
  "byte list option \<Rightarrow> int \<Rightarrow> sql_call \<Rightarrow> string \<Rightarrow> bool \<Rightarrow> string \<Rightarrow> string \<Rightarrow> string \<Rightarrow> tenants
     \<Rightarrow> string result \<times> tenants" where
  "create_tenant rnd now oc keyErr mail_first name slug ownerEmail ts =
     (case generateUuid rnd of
        None \<Rightarrow> (fail InternalError ''UUID generation failed'', ts)
      | Some newId \<Rightarrow>
     (case oc of
        PrepareError m \<Rightarrow> (fail InternalError m, ts)
      | StepError m \<Rightarrow> (fail InternalError m, ts)
      | Completes \<Rightarrow>
          if newId \<in> tn_id ` set ts then (fail InternalError keyErr, ts)
          else if ownerEmail \<in> tn_owner_email ` set ts \<and> (mail_first \<or> slug \<notin> tn_slug ` set ts)
          then (email_taken ownerEmail, ts)
          else if slug \<in> tn_slug ` set ts then (slug_taken slug, ts)
          else (ok newId,
                ts @ [\<lparr>tn_id = newId, tn_slug = slug, tn_name = name, tn_owner_email = ownerEmail,
                       tn_status = ''pending'', tn_plan = ''trial'', tn_created_at = now,
                       tn_activated_at = None\<rparr>])))"

definition set_status :: "string \<Rightarrow> tenant_row \<Rightarrow> tenant_row" where
  "set_status v r = r\<lparr>tn_status := v\<rparr>"

definition set_active :: "int \<Rightarrow> tenant_row \<Rightarrow> tenant_row" where
  "set_active now r = r\<lparr>tn_status := ''active'', tn_activated_at := Some now\<rparr>"

definition activate_tenant :: "sql_call \<Rightarrow> int \<Rightarrow> string \<Rightarrow> tenants \<Rightarrow> unit result \<times> tenants" where
  "activate_tenant oc now tenantId ts =
     run_update oc (''Tenant not found: '' @ tenantId) (\<lambda>r. tn_id r = tenantId) (set_active now) ts"

definition find_tenant :: "sql_call \<Rightarrow> string \<Rightarrow> tenants \<Rightarrow> tenant_record result" where
  "find_tenant oc tid ts =
     run_select_one oc (''Tenant not found: '' @ tid) (\<lambda>r. tn_id r = tid) tenant_from_row ts"

definition find_tenant_by_slug :: "sql_call \<Rightarrow> string \<Rightarrow> tenants \<Rightarrow> tenant_record result" where
  "find_tenant_by_slug oc slug ts =
     run_select_one oc (''Tenant not found by slug: '' @ slug) (\<lambda>r. tn_slug r = slug) tenant_from_row ts"

definition suspend :: "sql_call \<Rightarrow> string \<Rightarrow> tenants \<Rightarrow> unit result \<times> tenants" where
  "suspend oc tid ts =
     run_update oc (''Tenant not found: '' @ tid) (\<lambda>r. tn_id r = tid) (set_status ''suspended'') ts"

definition unsuspend :: "sql_call \<Rightarrow> string \<Rightarrow> tenants \<Rightarrow> unit result \<times> tenants" where
  "unsuspend oc tid ts =
     run_update oc (''Tenant not found: '' @ tid) (\<lambda>r. tn_id r = tid) (set_status ''active'') ts"

section \<open>Uniqueness\<close>

definition status_ok :: "string \<Rightarrow> bool" where
  "status_ok v \<longleftrightarrow> v = ''pending'' \<or> v = ''active'' \<or> v = ''suspended''"

definition tenants_ok :: "tenants \<Rightarrow> bool" where
  "tenants_ok ts \<longleftrightarrow>
     distinct (map tn_id ts) \<and> distinct (map tn_slug ts) \<and> distinct (map tn_owner_email ts)
     \<and> list_all (\<lambda>r. status_ok (tn_status r)) ts"

lemma create_tenant_cases:
  obtains (err) e where "create_tenant rnd now oc keyErr mf name slug mail ts = (Inl e, ts)"
  | (new) newId where "generateUuid rnd = Some newId"
      and "newId \<notin> tn_id ` set ts" and "slug \<notin> tn_slug ` set ts" and "mail \<notin> tn_owner_email ` set ts"
      and "create_tenant rnd now oc keyErr mf name slug mail ts
        = (Inr newId, ts @ [\<lparr>tn_id = newId, tn_slug = slug, tn_name = name, tn_owner_email = mail,
             tn_status = ''pending'', tn_plan = ''trial'', tn_created_at = now,
             tn_activated_at = None\<rparr>])"
proof (cases "generateUuid rnd")
  case None
  then show ?thesis using err by (simp add: create_tenant_def fail_def)
next
  case (Some newId)
  show ?thesis
  proof (cases "oc = Completes \<and> newId \<notin> tn_id ` set ts \<and> slug \<notin> tn_slug ` set ts
      \<and> mail \<notin> tn_owner_email ` set ts")
    case True
    with Some show ?thesis using new by (simp add: create_tenant_def ok_def)
  next
    case False
    with Some have "\<exists>e. create_tenant rnd now oc keyErr mf name slug mail ts = (Inl e, ts)"
      by (auto simp: create_tenant_def fail_def email_taken_def slug_taken_def split: sql_call.split)
    then show ?thesis using err by blast
  qed
qed

lemma tenants_ok_create:
  assumes "tenants_ok ts"
  shows "tenants_ok (snd (create_tenant rnd now oc keyErr mf name slug mail ts))"
  using assms
  by (cases rule: create_tenant_cases [of rnd now oc keyErr mf name slug mail ts])
    (simp_all add: tenants_ok_def status_ok_def)

lemma tenants_ok_run_update:
  assumes "tenants_ok ts"
    and "\<And>r. tn_id (f r) = tn_id r \<and> tn_slug (f r) = tn_slug r \<and> tn_owner_email (f r) = tn_owner_email r"
    and "\<And>r. status_ok (tn_status (f r))"
  shows "tenants_ok (snd (run_update oc nf P f ts))"
proof -
  have "list_all (\<lambda>r. status_ok (tn_status r)) (sql_update P f ts)"
    using assms(1,3) by (auto simp: tenants_ok_def list_all_iff set_sql_update)
  then show ?thesis using assms(1,2)
    by (simp add: tenants_ok_def run_update_rows distinct_map_sql_update)
qed

lemma tenants_ok_updates:
  assumes "tenants_ok ts"
  shows "tenants_ok (snd (activate_tenant oc now tid ts))"
    and "tenants_ok (snd (suspend oc tid ts))"
    and "tenants_ok (snd (unsuspend oc tid ts))"
  unfolding activate_tenant_def suspend_def unsuspend_def
  by (rule tenants_ok_run_update [OF assms]; simp add: set_active_def set_status_def status_ok_def)+

definition tenant_status :: "string \<Rightarrow> tenants \<Rightarrow> string option" where
  "tenant_status tid ts = map_option tn_status (find (\<lambda>r. tn_id r = tid) ts)"

lemma tenant_status_update:
  assumes "\<And>r. tn_id (f r) = tn_id r" and "\<And>r. tn_status (f r) = v"
  shows "tenant_status j (sql_update (\<lambda>r. tn_id r = i) f ts)
    = (if j = i \<and> tenant_status i ts \<noteq> None then Some v else tenant_status j ts)"
  using assms
  by (auto simp: tenant_status_def find_key_sql_update [where k = tn_id] option.map_comp comp_def)

lemma tenant_status_None_iff: "tenant_status i ts = None \<longleftrightarrow> i \<notin> tn_id ` set ts"
  by (auto simp: tenant_status_def find_None_iff)

text \<open>The three transitions.\<close>

lemma activate_tenant_status:
  "tenant_status j (snd (activate_tenant oc now i ts))
     = (if oc = Completes \<and> j = i \<and> tenant_status i ts \<noteq> None then Some ''active'' else tenant_status j ts)"
  by (simp add: activate_tenant_def run_update_rows tenant_status_update set_active_def)

lemma suspend_status:
  "tenant_status j (snd (suspend oc i ts))
     = (if oc = Completes \<and> j = i \<and> tenant_status i ts \<noteq> None then Some ''suspended'' else tenant_status j ts)"
  by (simp add: suspend_def run_update_rows tenant_status_update set_status_def)

lemma unsuspend_status:
  "tenant_status j (snd (unsuspend oc i ts))
     = (if oc = Completes \<and> j = i \<and> tenant_status i ts \<noteq> None then Some ''active'' else tenant_status j ts)"
  by (simp add: unsuspend_def run_update_rows tenant_status_update set_status_def)

lemma activate_tenant_ok_iff:
  "fst (activate_tenant oc now i ts) = Inr () \<longleftrightarrow> oc = Completes \<and> tenant_status i ts \<noteq> None"
  by (auto simp: activate_tenant_def run_update_ok_iff tenant_status_None_iff)

lemma tenant_ids [simp]:
  "tn_id ` set (snd (activate_tenant oc now i ts)) = tn_id ` set ts"
  "tn_id ` set (snd (suspend oc i ts)) = tn_id ` set ts"
  "tn_id ` set (snd (unsuspend oc i ts)) = tn_id ` set ts"
  by (simp_all add: activate_tenant_def suspend_def unsuspend_def keys_run_update set_active_def set_status_def)

lemma tenant_mails [simp]:
  "tn_owner_email ` set (snd (activate_tenant oc now i ts)) = tn_owner_email ` set ts"
  "tn_owner_email ` set (snd (suspend oc i ts)) = tn_owner_email ` set ts"
  "tn_owner_email ` set (snd (unsuspend oc i ts)) = tn_owner_email ` set ts"
  by (simp_all add: activate_tenant_def suspend_def unsuspend_def keys_run_update set_active_def set_status_def)

end
