(* ===== verification/Interfaces.thy ===== *)
theory Interfaces
  imports Hub32_Prelude
begin

text \<open>
  The contracts between components, each a locale whose parameters are the operations a
  client calls and whose assumptions are the laws the provider keeps. The facts a client
  needs are proved here once; the theory of the component that provides the operations
  interprets the locale on the model of its code.
\<close>

section \<open>Addressed first-in first-out delivery\<close>

text \<open>
  \<open>post\<close> appends a message to the box it is addressed to, \<open>drain\<close> hands over and empties
  one box. \<open>accepts\<close> says that the box exists; \<open>norm\<close> and \<open>mark\<close> are what the provider
  does to a message on the way in and on the way out.
\<close>

locale fifo_mailbox =
  fixes accepts :: "'in \<Rightarrow> 's \<Rightarrow> bool"
    and addr :: "'in \<Rightarrow> 'b"
    and norm :: "'in \<Rightarrow> 'm"
    and mark :: "'m \<Rightarrow> 'm"
    and post :: "'in \<Rightarrow> 's \<Rightarrow> 's"
    and drain :: "'b \<Rightarrow> 's \<Rightarrow> 'm list \<times> 's"
    and box :: "'b \<Rightarrow> 's \<Rightarrow> 'm list"
  assumes post_accepts: "accepts x (post y s) = accepts x s"
    and post_box: "accepts x s \<Longrightarrow>
          box b (post x s) = (if b = addr x then box b s @ [norm x] else box b s)"
    and post_reject: "\<not> accepts x s \<Longrightarrow> post x s = s"
    and drain_out: "fst (drain b s) = map mark (box b s)"
    and drain_box: "box b' (snd (drain b s)) = (if b' = b then [] else box b' s)"
begin

lemma accepts_fold: "accepts x (fold post ys s) = accepts x s"
  by (induction ys arbitrary: s) (simp_all add: post_accepts)

text \<open>What a box holds after a batch of posts, rejected ones included.\<close>

lemma box_fold_post:
  "box b (fold post xs s) = box b s @ map norm (filter (\<lambda>x. accepts x s \<and> addr x = b) xs)"
proof (induction xs arbitrary: s)
  case Nil
  then show ?case by simp
next
  case (Cons x xs)
  show ?case
  proof (cases "accepts x s")
    case True
    then show ?thesis by (simp add: Cons.IH post_accepts post_box)
  next
    case False
    then show ?thesis by (simp add: Cons.IH post_reject)
  qed
qed

text \<open>Delivery is in order, complete and only to the addressee.\<close>

lemma deliver_in_order:
  assumes "box b s = []"
  shows "fst (drain b (fold post xs s))
         = map (mark \<circ> norm) (filter (\<lambda>x. accepts x s \<and> addr x = b) xs)"
  by (simp add: drain_out box_fold_post assms)

text \<open>A message is delivered at most once.\<close>

lemma drain_twice: "fst (drain b (snd (drain b s))) = []"
  by (simp add: drain_out drain_box)

lemma drain_other: "b' \<noteq> b \<Longrightarrow> fst (drain b' (snd (drain b s))) = fst (drain b' s)"
  by (simp add: drain_out drain_box)

end

section \<open>A denylist with expiry\<close>

text \<open>
  \<open>deny now ex j\<close> denies \<open>j\<close> until second \<open>ex\<close>, \<open>purge now\<close> drops what has run out,
  \<open>denied now j\<close> asks. \<open>holds now ex\<close> is the provider's promise: the instants at which an
  entry with expiry \<open>ex\<close> is still in force. The laws hold on the states of \<open>inv\<close>.
\<close>

datatype 'j denylist_op = Deny int int 'j | Purge int

fun denylist_step ::
  "(int \<Rightarrow> int \<Rightarrow> 'j \<Rightarrow> 's \<Rightarrow> 's) \<Rightarrow> (int \<Rightarrow> 's \<Rightarrow> 's) \<Rightarrow> 'j denylist_op \<Rightarrow> 's \<Rightarrow> 's" where
  "denylist_step deny purge (Deny now ex j) s = deny now ex j s"
| "denylist_step deny purge (Purge now) s = purge now s"

locale denylist =
  fixes inv :: "'s \<Rightarrow> bool"
    and holds :: "int \<Rightarrow> int \<Rightarrow> bool"
    and deny :: "int \<Rightarrow> int \<Rightarrow> 'j \<Rightarrow> 's \<Rightarrow> 's"
    and purge :: "int \<Rightarrow> 's \<Rightarrow> 's"
    and denied :: "int \<Rightarrow> 'j \<Rightarrow> 's \<Rightarrow> bool"
  assumes inv_deny: "inv s \<Longrightarrow> inv (deny now ex j s)"
    and inv_purge: "inv s \<Longrightarrow> inv (purge now s)"
    and denied_deny: "inv s \<Longrightarrow> denied t j (deny now ex j' s)
                       = (if j = j' then holds t ex else denied t j s)"
    and denied_purge: "inv s \<Longrightarrow> now \<le> t \<Longrightarrow> denied t j (purge now s) = denied t j s"
begin

lemma inv_fold: "inv s \<Longrightarrow> inv (fold (denylist_step deny purge) ops s)"
proof (induction ops arbitrary: s)
  case Nil
  then show ?case by simp
next
  case (Cons op ops)
  then show ?case by (cases op) (simp_all add: inv_deny inv_purge)
qed

text \<open>
  A denied key stays denied through any later purges and denials, as long as no later
  denial of the same key has an expiry that no longer holds at the time of asking.
\<close>

lemma denied_fold:
  assumes "inv s" and "denied t j s"
    and "\<And>op. op \<in> set ops \<Longrightarrow>
           (case op of Purge now \<Rightarrow> now \<le> t | Deny _ ex j' \<Rightarrow> j' = j \<longrightarrow> holds t ex)"
  shows "denied t j (fold (denylist_step deny purge) ops s)"
  using assms
proof (induction ops arbitrary: s)
  case Nil
  then show ?case by simp
next
  case (Cons op ops)
  have "inv (denylist_step deny purge op s)" using Cons.prems(1) by (cases op) (simp_all add: inv_deny inv_purge)
  moreover have "denied t j (denylist_step deny purge op s)"
    using Cons.prems(1,2) Cons.prems(3) [of op]
    by (cases op) (auto simp: denied_deny denied_purge)
  ultimately show ?case using Cons.IH Cons.prems(3) by simp
qed

lemma denied_after:
  assumes "inv s" and "holds t ex"
    and "\<And>op. op \<in> set ops \<Longrightarrow>
           (case op of Purge now \<Rightarrow> now \<le> t | Deny _ ex' j' \<Rightarrow> j' = j \<longrightarrow> holds t ex')"
  shows "denied t j (fold (denylist_step deny purge) ops (deny now ex j s))"
  by (rule denied_fold [OF inv_deny [OF assms(1)] _ assms(3)]) (simp add: denied_deny assms)

end

section \<open>Stored credentials\<close>

text \<open>
  \<open>stored i s\<close> is the password hash on file for the account \<open>i\<close>, \<open>None\<close> when there is
  no such account; \<open>put i h s\<close> replaces it and says whether there was one.
\<close>

locale credential_store =
  fixes stored :: "'i \<Rightarrow> 's \<Rightarrow> 'h option"
    and put :: "'i \<Rightarrow> 'h \<Rightarrow> 's \<Rightarrow> bool \<times> 's"
  assumes put_found: "fst (put i h s) \<longleftrightarrow> stored i s \<noteq> None"
    and put_stored: "stored j (snd (put i h s))
          = (if j = i \<and> stored i s \<noteq> None then Some h else stored j s)"
begin

text \<open>The accounts that exist stay the same.\<close>

lemma put_keeps_accounts: "stored j (snd (put i h s)) = None \<longleftrightarrow> stored j s = None"
  by (simp add: put_stored)

lemma fold_put_keeps_accounts:
  "stored j (fold (\<lambda>(i, h) s. snd (put i h s)) ps s) = None \<longleftrightarrow> stored j s = None"
  by (induction ps arbitrary: s) (simp_all add: put_keeps_accounts split_beta)

text \<open>After any series of changes an account has the last hash set for it.\<close>

lemma stored_fold_put:
  assumes "stored j s \<noteq> None"
  shows "stored j (fold (\<lambda>(i, h) s. snd (put i h s)) ps s)
         = (case find (\<lambda>(i, h). i = j) (rev ps) of None \<Rightarrow> stored j s | Some (i, h) \<Rightarrow> Some h)"
  using assms
proof (induction ps rule: rev_induct)
  case Nil
  then show ?case by simp
next
  case (snoc p ps)
  obtain i h where p: "p = (i, h)" by force
  have "stored j (fold (\<lambda>(i, h) s. snd (put i h s)) ps s) \<noteq> None"
    using snoc.prems by (simp only: fold_put_keeps_accounts not_False_eq_True)
  with snoc show ?case by (auto simp: p put_stored)
qed

lemma put_only_the_account:
  "j \<noteq> i \<Longrightarrow> stored j (snd (put i h s)) = stored j s"
  by (simp add: put_stored)

end

section \<open>Routers of a media backend\<close>

text \<open>
  \<open>open_routers\<close> is the set of routers the backend runs. \<open>create\<close> opens one for a room or
  fails and opens none; with the randomness \<open>e\<close> a new name comes out when \<open>fresh e b\<close> holds.
  \<open>close\<close> closes one.
\<close>

locale sfu_routers =
  fixes open_routers :: "'b \<Rightarrow> 'r set"
    and fresh :: "'e \<Rightarrow> 'b \<Rightarrow> bool"
    and create :: "'e \<Rightarrow> 'l \<Rightarrow> 'b \<Rightarrow> ('x + 'r) \<times> 'b"
    and close :: "'r \<Rightarrow> 'b \<Rightarrow> 'b"
  assumes create_ok: "create e l b = (Inr r, b') \<Longrightarrow> fresh e b
            \<Longrightarrow> r \<notin> open_routers b \<and> open_routers b' = insert r (open_routers b)"
    and create_err: "create e l b = (Inl x, b') \<Longrightarrow> open_routers b' = open_routers b"
    and close_open: "open_routers (close r b) = open_routers b - {r}"
begin

lemma close_all: "open_routers (fold close rs b) = open_routers b - set rs"
  by (induction rs arbitrary: b) (auto simp: close_open)

end

end
