(* ===== verification/Teacher_Repository.thy ===== *)
theory Teacher_Repository
  imports Sql_Tables Interfaces User_Roles
begin

text \<open>
  The teachers table and src/db/TeacherRepository.cpp. The column \<open>tenant_id\<close> is the one
  the migration of src/db/DatabaseManager.cpp adds, not null with the empty string as its
  default. The lemmas show that user names stay unique over all tenants, that a tenant
  given at login scopes it, and that the table is a store of credentials.
\<close>

record teacher_row =
  te_id :: string
  te_username :: string
  te_password_hash :: string
  te_full_name :: string
  te_role :: string
  te_created_at :: int
  te_tenant_id :: string

record teacher_record =
  tr_id :: string
  tr_username :: string
  tr_fullName :: string
  tr_role :: string
  tr_tenantId :: string
  tr_createdAt :: int

definition teacher_from_row :: "teacher_row \<Rightarrow> teacher_record" where
  "teacher_from_row r =
     \<lparr>tr_id = te_id r, tr_username = te_username r, tr_fullName = te_full_name r,
      tr_role = te_role r, tr_tenantId = te_tenant_id r, tr_createdAt = te_created_at r\<rparr>"

type_synonym teachers = "teacher_row list"

section \<open>Operations\<close>

text \<open>A violated constraint is a step that fails; \<open>err\<close> is SQLite's message for it.\<close>

definition create_teacher ::
  "crypto \<Rightarrow> byte list option \<Rightarrow> byte list option \<Rightarrow> int \<Rightarrow> sql_call \<Rightarrow> string
     \<Rightarrow> string \<Rightarrow> string \<Rightarrow> string \<Rightarrow> string \<Rightarrow> teachers \<Rightarrow> string result \<times> teachers" where
  "create_teacher cr salt rnd now oc err username password fullName role ts =
     (case generateUuid rnd of
        None \<Rightarrow> (fail InternalError ''UUID generation failed'', ts)
      | Some newId \<Rightarrow>
     (case hashPassword cr salt password of
        Inl e \<Rightarrow> (Inl e, ts)
      | Inr passwordHash \<Rightarrow>
     (case oc of
        PrepareError m \<Rightarrow> (fail InternalError m, ts)
      | StepError m \<Rightarrow> (fail InternalError m, ts)
      | Completes \<Rightarrow>
          if newId \<in> te_id ` set ts \<or> username \<in> te_username ` set ts
          then (fail InternalError err, ts)
          else (ok newId,
                ts @ [\<lparr>te_id = newId, te_username = username, te_password_hash = passwordHash,
                       te_full_name = fullName, te_role = role, te_created_at = now,
                       te_tenant_id = []\<rparr>]))))"

definition find_teacher :: "sql_call \<Rightarrow> string \<Rightarrow> teachers \<Rightarrow> teacher_record result" where
  "find_teacher oc tid ts =
     run_select_one oc (''Teacher not found: '' @ tid) (\<lambda>r. te_id r = tid) teacher_from_row ts"

definition find_teacher_by_username :: "sql_call \<Rightarrow> string \<Rightarrow> teachers \<Rightarrow> teacher_record result" where
  "find_teacher_by_username oc username ts =
     run_select_one oc (''Teacher not found: '' @ username) (\<lambda>r. te_username r = username)
       teacher_from_row ts"

text \<open>A step that fails is treated like a name that is not there.\<close>

definition authenticate_teacher ::
  "crypto \<Rightarrow> sql_call \<Rightarrow> string \<Rightarrow> string \<Rightarrow> string \<Rightarrow> teachers \<Rightarrow> teacher_record result" where
  "authenticate_teacher cr oc username password tenantId ts =
     (case oc of
        PrepareError m \<Rightarrow> fail InternalError m
      | StepError _ \<Rightarrow> fail AuthenticationFailed ''Invalid username or password''
      | Completes \<Rightarrow>
          (case find (\<lambda>r. te_username r = username \<and> (tenantId = [] \<or> te_tenant_id r = tenantId)) ts of
             None \<Rightarrow> fail AuthenticationFailed ''Invalid username or password''
           | Some r \<Rightarrow>
               if verifyPassword cr password (te_password_hash r) then ok (teacher_from_row r)
               else fail AuthenticationFailed ''Invalid username or password''))"

definition list_teachers :: "sql_call \<Rightarrow> string \<Rightarrow> teachers \<Rightarrow> teacher_record list result" where
  "list_teachers oc tenantId ts =
     run_select_all oc (\<lambda>r. tenantId = [] \<or> te_tenant_id r = tenantId) te_username
       teacher_from_row ts"

definition update_teacher ::
  "sql_call \<Rightarrow> string \<Rightarrow> string \<Rightarrow> string \<Rightarrow> teachers \<Rightarrow> unit result \<times> teachers" where
  "update_teacher oc tid fullName role ts =
     run_update oc (''Teacher not found: '' @ tid) (\<lambda>r. te_id r = tid)
       (\<lambda>r. r\<lparr>te_full_name := fullName, te_role := role\<rparr>) ts"

definition set_teacher_hash :: "string \<Rightarrow> teacher_row \<Rightarrow> teacher_row" where
  "set_teacher_hash h r = r\<lparr>te_password_hash := h\<rparr>"

definition change_teacher_password ::
  "crypto \<Rightarrow> byte list option \<Rightarrow> sql_call \<Rightarrow> string \<Rightarrow> string \<Rightarrow> teachers
     \<Rightarrow> unit result \<times> teachers" where
  "change_teacher_password cr salt oc tid newPassword ts =
     (case hashPassword cr salt newPassword of
        Inl e \<Rightarrow> (Inl e, ts)
      | Inr newHash \<Rightarrow>
          run_update oc (''Teacher not found: '' @ tid) (\<lambda>r. te_id r = tid)
            (set_teacher_hash newHash) ts)"

definition apply_teacher_hash ::
  "sql_call \<Rightarrow> string \<Rightarrow> string \<Rightarrow> teachers \<Rightarrow> unit result \<times> teachers" where
  "apply_teacher_hash oc tid passwordHash ts =
     run_update oc (''Teacher not found: '' @ tid) (\<lambda>r. te_id r = tid)
       (set_teacher_hash passwordHash) ts"

text \<open>Removing a teacher who does not exist succeeds; the row count is not looked at.\<close>

definition remove_teacher :: "sql_call \<Rightarrow> string \<Rightarrow> teachers \<Rightarrow> unit result \<times> teachers" where
  "remove_teacher oc tid ts =
     (case oc of
        PrepareError m \<Rightarrow> (fail InternalError m, ts)
      | StepError m \<Rightarrow> (fail InternalError m, ts)
      | Completes \<Rightarrow> (ok (), sql_delete (\<lambda>r. te_id r = tid) ts))"

section \<open>Stored credentials\<close>

definition teacher_hash :: "string \<Rightarrow> teachers \<Rightarrow> string option" where
  "teacher_hash tid ts = map_option te_password_hash (find (\<lambda>r. te_id r = tid) ts)"

definition put_teacher_hash :: "string \<Rightarrow> string \<Rightarrow> teachers \<Rightarrow> bool \<times> teachers" where
  "put_teacher_hash tid h ts =
     (is_ok (fst (apply_teacher_hash Completes tid h ts)),
      snd (apply_teacher_hash Completes tid h ts))"

lemma find_teacher_key_update:
  "find (\<lambda>r. te_id r = j) (sql_update (\<lambda>r. te_id r = i) (set_teacher_hash h) ts)
   = (if j = i then map_option (set_teacher_hash h) (find (\<lambda>r. te_id r = i) ts)
      else find (\<lambda>r. te_id r = j) ts)"
  by (rule find_key_sql_update) (simp add: set_teacher_hash_def)

interpretation teacher_credentials: credential_store teacher_hash put_teacher_hash
proof
  fix i j :: string and h :: string and s :: teachers
  show "fst (put_teacher_hash i h s) \<longleftrightarrow> teacher_hash i s \<noteq> None"
    by (simp add: put_teacher_hash_def teacher_hash_def is_ok_unit apply_teacher_hash_def
        run_update_ok_iff find_None_iff_all)
  show "teacher_hash j (snd (put_teacher_hash i h s))
      = (if j = i \<and> teacher_hash i s \<noteq> None then Some h else teacher_hash j s)"
    by (auto simp: put_teacher_hash_def teacher_hash_def apply_teacher_hash_def run_update_rows
        find_teacher_key_update set_teacher_hash_def)
qed

section \<open>Login\<close>

lemma authenticate_teacher_ok_iff:
  "authenticate_teacher cr oc user pw tenant ts = Inr rec \<longleftrightarrow>
     oc = Completes
     \<and> (\<exists>r. find (\<lambda>r. te_username r = user \<and> (tenant = [] \<or> te_tenant_id r = tenant)) ts = Some r
           \<and> verifyPassword cr pw (te_password_hash r) \<and> rec = teacher_from_row r)"
  by (auto simp: authenticate_teacher_def ok_def fail_def split: sql_call.split option.split)

lemma authenticate_teacher_tenant:
  assumes "authenticate_teacher cr oc user pw tenant ts = Inr rec"
  shows "tr_username rec = user \<and> (tenant = [] \<or> tr_tenantId rec = tenant)"
  using assms by (auto simp: authenticate_teacher_ok_iff teacher_from_row_def dest: find_SomeD)

definition teachers_ok :: "teachers \<Rightarrow> bool" where
  "teachers_ok ts \<longleftrightarrow> distinct (map te_id ts) \<and> distinct (map te_username ts)"

lemma teachers_ok_create:
  assumes "teachers_ok ts"
  shows "teachers_ok (snd (create_teacher cr salt rnd now oc err user pw name role ts))"
  using assms
  by (auto simp: create_teacher_def teachers_ok_def split: option.split sum.split sql_call.split)

lemma teachers_ok_update:
  assumes "teachers_ok ts" and "\<And>r. te_id (f r) = te_id r \<and> te_username (f r) = te_username r"
  shows "teachers_ok (snd (run_update oc nf P f ts))"
  using assms by (auto simp: teachers_ok_def run_update_rows distinct_map_sql_update)

lemma teachers_ok_remove: "teachers_ok ts \<Longrightarrow> teachers_ok (snd (remove_teacher oc tid ts))"
  by (auto simp: remove_teacher_def teachers_ok_def distinct_map_sql_delete split: sql_call.split)

end
