(* ===== verification/Registration.thy ===== *)
theory Registration
  imports Captcha Tenant_Repository Teacher_Repository Http_Types
begin

text \<open>
  Public registration, src/api/v1/controllers/RegisterController.cpp: an organisation
  registers, which makes a pending tenant, an owner account and a token, and the token sent
  by e-mail activates the tenant. What the JSON parser, the random generator, the clocks and
  SQLite answer are fields of the environment; sending the e-mail changes nothing of the state
  or the response and is left out. The lemmas show what a registration leaves behind in every
  outcome and what exactly a verification does.
\<close>

section \<open>Names and addresses\<close>

definition slug_step :: "char \<Rightarrow> string \<Rightarrow> string" where
  "slug_step c slug =
     (if is_alpha c then slug @ [to_lower_char c]
      else if is_digit c \<or> c = CHR ''-'' then slug @ [c]
      else if slug \<noteq> [] \<and> last slug \<noteq> CHR ''-'' then slug @ [CHR ''-'']
      else slug)"

definition makeSlug :: "string \<Rightarrow> string" where
  "makeSlug name = rev (dropWhile (\<lambda>c. c = CHR ''-'') (rev (fold slug_step name [])))"

definition isValidEmail :: "string \<Rightarrow> bool" where
  "isValidEmail email =
     (case cut_first CHR ''@'' email of
        None \<Rightarrow> False
      | Some (user, host) \<Rightarrow>
          user \<noteq> [] \<and> host \<noteq> []
          \<and> (case cut_last CHR ''.'' email of
                None \<Rightarrow> False
              | Some (before, after) \<Rightarrow> length before > length user + 1 \<and> after \<noteq> []))"

section \<open>Registration tokens\<close>

record token_row =
  rt_token :: string
  rt_tenant_id :: string
  rt_expires_at :: int
  rt_used :: int

record reg_db =
  rd_tenants :: tenants
  rd_teachers :: teachers
  rd_tokens :: "token_row list"

text \<open>The token is the primary key, the tenant a foreign key.\<close>

definition insertToken :: "sql_call \<Rightarrow> string \<Rightarrow> string \<Rightarrow> int \<Rightarrow> reg_db \<Rightarrow> bool \<times> reg_db" where
  "insertToken oc token tenantId expiresAt db =
     (if oc = Completes \<and> token \<notin> rt_token ` set (rd_tokens db) \<and> tenantId \<in> tn_id ` set (rd_tenants db)
      then (True, db\<lparr>rd_tokens := rd_tokens db @
              [\<lparr>rt_token = token, rt_tenant_id = tenantId, rt_expires_at = expiresAt, rt_used = 0\<rparr>]\<rparr>)
      else (False, db))"

text \<open>The status, and the tenant where there is one.\<close>

definition checkToken :: "sql_call \<Rightarrow> int \<Rightarrow> string \<Rightarrow> reg_db \<Rightarrow> int \<times> string" where
  "checkToken oc now token db =
     (case oc of
        Completes \<Rightarrow>
          (case find (\<lambda>r. rt_token r = token) (rd_tokens db) of
             None \<Rightarrow> (0, [])
           | Some r \<Rightarrow>
               if rt_used r \<noteq> 0 then (-2, rt_tenant_id r)
               else if now > rt_expires_at r then (-1, rt_tenant_id r)
               else (1, rt_tenant_id r))
      | _ \<Rightarrow> (0, []))"

definition markTokenUsed :: "sql_call \<Rightarrow> string \<Rightarrow> reg_db \<Rightarrow> reg_db" where
  "markTokenUsed oc token db =
     (if oc = Completes
      then db\<lparr>rd_tokens := sql_update (\<lambda>r. rt_token r = token) (\<lambda>r. r\<lparr>rt_used := 1\<rparr>) (rd_tokens db)\<rparr>
      else db)"

section \<open>The request\<close>

record register_request =
  dq_orgName :: string
  dq_username :: string
  dq_email :: string
  dq_password :: string
  dq_captchaId :: string
  dq_captchaAnswer :: string

text \<open>A member that is missing or no string is read as the empty string.\<close>

definition string_or_empty :: "json \<Rightarrow> string \<Rightarrow> string" where
  "string_or_empty j k = (case json_at j k of Some (JString s) \<Rightarrow> s | _ \<Rightarrow> [])"

definition register_request_from_json :: "json \<Rightarrow> register_request" where
  "register_request_from_json j =
     \<lparr>dq_orgName = string_or_empty j ''orgName'', dq_username = string_or_empty j ''username'',
      dq_email = string_or_empty j ''email'', dq_password = string_or_empty j ''password'',
      dq_captchaId = string_or_empty j ''captchaId'',
      dq_captchaAnswer = string_or_empty j ''captchaAnswer''\<rparr>"

text \<open>What one insert into the tenants meets.\<close>

record tenant_env =
  ti_rnd :: "byte list option"
  ti_now :: int
  ti_oc :: sql_call
  ti_keyErr :: string
  ti_mail_first :: bool

record reg_env =
  re_parse :: "string \<Rightarrow> json option"
  re_what :: string
  re_production :: bool
  re_hmac :: hmac_fun
  re_captcha_now :: int
  re_tenant :: tenant_env
  re_suffix_rnd :: "byte list option"
  re_retry :: tenant_env
  re_crypto :: crypto
  re_salt :: "byte list option"
  re_teacher_rnd :: "byte list option"
  re_teacher_now :: int
  re_teacher_oc :: sql_call
  re_teacher_err :: string
  re_bind_oc :: sql_call
  re_token_rnd :: "byte list option"
  re_token_now :: int
  re_token_oc :: sql_call

text \<open>The checks before anything is written; \<open>Some\<close> is the refusal, answered with 400.\<close>

definition register_checks :: "reg_env \<Rightarrow> register_request \<Rightarrow> string option" where
  "register_checks env d =
     (if dq_orgName d = [] \<or> length (dq_orgName d) > 100
      then Some ''orgName must be between 1 and 100 characters''
      else if dq_username d = [] \<or> length (dq_username d) > 50
      then Some ''username must be between 1 and 50 characters''
      else if \<not> list_all (\<lambda>c. is_alnum c \<or> c = CHR ''.'' \<or> c = CHR ''_'' \<or> c = CHR ''-'') (dq_username d)
      then Some ''username may only contain letters, digits, dot, underscore, hyphen''
      else if \<not> isValidEmail (dq_email d) then Some ''Invalid email format''
      else if length (dq_password d) < 8 then Some ''Password must be at least 8 characters''
      else if re_production env \<or> dq_captchaId d \<noteq> []
      then (if dq_captchaId d = [] \<or> dq_captchaAnswer d = [] then Some ''Captcha required''
            else if \<not> verifyCaptcha (re_hmac env) (re_captcha_now env) (dq_captchaId d) (dq_captchaAnswer d)
            then Some ''Invalid or expired captcha''
            else None)
      else None)"

definition try_tenant :: "tenant_env \<Rightarrow> register_request \<Rightarrow> string \<Rightarrow> tenants \<Rightarrow> string result \<times> tenants" where
  "try_tenant e d slug ts =
     create_tenant (ti_rnd e) (ti_now e) (ti_oc e) (ti_keyErr e) (ti_mail_first e)
       (dq_orgName d) slug (dq_email d) ts"

text \<open>Either the status, title and detail of an error, or the identifier of the tenant.\<close>

definition obtain_tenant ::
  "reg_env \<Rightarrow> register_request \<Rightarrow> tenants \<Rightarrow> ((int \<times> string \<times> string) + string) \<times> tenants" where
  "obtain_tenant env d ts =
     (let slug = (if makeSlug (dq_orgName d) = [] then ''org'' else makeSlug (dq_orgName d))
      in case try_tenant (re_tenant env) d slug ts of
           (Inr tid, ts1) \<Rightarrow> (Inr tid, ts1)
         | (Inl e, ts1) \<Rightarrow>
             if err_code e = Conflict then
               if \<not> str_contains (err_msg e) ''owner_email'' then
                 (let suffix = (case generateUuid (re_suffix_rnd env) of
                                  Some u \<Rightarrow> take 4 u | None \<Rightarrow> ''rand'')
                  in case try_tenant (re_retry env) d (slug @ ''-'' @ suffix) ts1 of
                       (Inr tid, ts2) \<Rightarrow> (Inr tid, ts2)
                     | (Inl e2, ts2) \<Rightarrow>
                         if err_code e2 = Conflict
                         then (Inl (409, ''Email already registered or slug conflict'', []), ts2)
                         else (Inl (500, ''Failed to create tenant'', err_msg e2), ts2))
               else (Inl (409, ''Email already registered'', []), ts1)
             else (Inl (500, ''Failed to create tenant'', err_msg e), ts1))"

definition kTtlSeconds :: int where "kTtlSeconds = 24 * 60 * 60"

definition bind_tenant :: "sql_call \<Rightarrow> string \<Rightarrow> string \<Rightarrow> teachers \<Rightarrow> teachers" where
  "bind_tenant oc tenantId teacherId ts =
     (if oc = Completes
      then sql_update (\<lambda>r. te_id r = teacherId) (\<lambda>r. r\<lparr>te_tenant_id := tenantId\<rparr>) ts
      else ts)"

text \<open>From the tenant on.\<close>

definition register_owner ::
  "reg_env \<Rightarrow> register_request \<Rightarrow> string \<Rightarrow> http_response \<Rightarrow> reg_db \<Rightarrow> http_response \<times> reg_db" where
  "register_owner env d tenantId res db =
     (case create_teacher (re_crypto env) (re_salt env) (re_teacher_rnd env) (re_teacher_now env)
             (re_teacher_oc env) (re_teacher_err env) (dq_username d) (dq_password d)
             (dq_orgName d) ''owner'' (rd_teachers db) of
        (Inl e, _) \<Rightarrow> (sendError 500 ''Failed to create owner account'' (err_msg e) res, db)
      | (Inr teacherId, ts1) \<Rightarrow>
          let db1 = db\<lparr>rd_teachers := bind_tenant (re_bind_oc env) tenantId teacherId ts1\<rparr>
          in case generateUuid (re_token_rnd env) of
               None \<Rightarrow> (sendError 500 ''Failed to generate registration token'' [] res, db1)
             | Some regToken \<Rightarrow>
                 (case insertToken (re_token_oc env) regToken tenantId
                         (re_token_now env + kTtlSeconds) db1 of
                    (False, db2) \<Rightarrow> (sendError 500 ''Failed to store registration token'' [] res, db2)
                  | (True, db2) \<Rightarrow>
                      (set_json (JObject
                         [(''message'', JString ''check email''),
                          (''debugToken'', JString (if re_production env then [] else regToken))])
                         ''application/json'' (res\<lparr>rs_status := 201\<rparr>), db2)))"

definition handleRegister ::
  "reg_env \<Rightarrow> http_request \<Rightarrow> http_response \<Rightarrow> reg_db \<Rightarrow> http_response \<times> reg_db" where
  "handleRegister env req res db =
     (case re_parse env (rq_body req) of
        None \<Rightarrow> (sendError 400 ''Invalid request body'' (re_what env) res, db)
      | Some j \<Rightarrow>
          let d = register_request_from_json j
          in case register_checks env d of
               Some why \<Rightarrow> (sendError 400 why [] res, db)
             | None \<Rightarrow>
                 (case obtain_tenant env d (rd_tenants db) of
                    (Inl (st, title, detail), ts) \<Rightarrow>
                      (sendError st title detail res, db\<lparr>rd_tenants := ts\<rparr>)
                  | (Inr tenantId, ts) \<Rightarrow>
                      register_owner env d tenantId res (db\<lparr>rd_tenants := ts\<rparr>)))"

section \<open>Verification\<close>

record verify_env =
  vy_check_oc :: sql_call
  vy_check_now :: int
  vy_activate_oc :: sql_call
  vy_now :: int
  vy_mark_oc :: sql_call

text \<open>\<open>token\<close> is the query parameter, empty when it is missing.\<close>

definition handleVerify ::
  "verify_env \<Rightarrow> string \<Rightarrow> http_response \<Rightarrow> reg_db \<Rightarrow> http_response \<times> reg_db" where
  "handleVerify env token res db =
     (if token = [] then (sendError 400 ''Missing required query parameter: token'' [] res, db)
      else let (status, tenantId) = checkToken (vy_check_oc env) (vy_check_now env) token db
      in if status = 0 then (sendError 404 ''Token not found'' [] res, db)
         else if status = -1 then (sendError 410 ''Token has expired'' [] res, db)
         else if status = -2 then (sendError 409 ''Token has already been used'' [] res, db)
         else case activate_tenant (vy_activate_oc env) (vy_now env) tenantId (rd_tenants db) of
           (Inl e, ts) \<Rightarrow> (sendError 500 ''Failed to activate tenant'' (err_msg e) res, db\<lparr>rd_tenants := ts\<rparr>)
         | (Inr _, ts) \<Rightarrow>
             (set_json (JObject [(''message'', JString ''account activated'')]) ''application/json''
                (res\<lparr>rs_status := 200\<rparr>),
              markTokenUsed (vy_mark_oc env) token (db\<lparr>rd_tenants := ts\<rparr>)))"

section \<open>What a registration leaves behind\<close>

definition new_tenant :: "register_request \<Rightarrow> tenants \<Rightarrow> tenant_row \<Rightarrow> bool" where
  "new_tenant d ts row \<longleftrightarrow>
     tn_id row \<notin> tn_id ` set ts \<and> tn_slug row \<notin> tn_slug ` set ts
     \<and> tn_owner_email row \<notin> tn_owner_email ` set ts
     \<and> tn_owner_email row = dq_email d \<and> tn_name row = dq_orgName d
     \<and> tn_status row = ''pending'' \<and> tn_activated_at row = None"

lemma try_tenant_cases:
  obtains (err) e where "try_tenant e' d slug ts = (Inl e, ts)"
  | (new) row where "try_tenant e' d slug ts = (Inr (tn_id row), ts @ [row])" and "new_tenant d ts row"
proof (cases rule: create_tenant_cases [of "ti_rnd e'" "ti_now e'" "ti_oc e'" "ti_keyErr e'"
      "ti_mail_first e'" "dq_orgName d" slug "dq_email d" ts])
  case (err e)
  then show ?thesis using that(1) by (simp add: try_tenant_def)
next
  case (new newId)
  show ?thesis
  proof (rule that(2))
    let ?row = "\<lparr>tn_id = newId, tn_slug = slug, tn_name = dq_orgName d, tn_owner_email = dq_email d,
      tn_status = ''pending'', tn_plan = ''trial'', tn_created_at = ti_now e', tn_activated_at = None\<rparr>"
    show "try_tenant e' d slug ts = (Inr (tn_id ?row), ts @ [?row])" by (simp add: try_tenant_def new(5))
    show "new_tenant d ts ?row" using new by (simp add: new_tenant_def)
  qed
qed

lemma obtain_tenant_cases:
  obtains (err) st title detail where "obtain_tenant env d ts = (Inl (st, title, detail), ts)"
      and "st = 409 \<or> st = 500"
  | (new) row where "obtain_tenant env d ts = (Inr (tn_id row), ts @ [row])" and "new_tenant d ts row"
proof -
  define slug where "slug = (if makeSlug (dq_orgName d) = [] then ''org'' else makeSlug (dq_orgName d))"
  define alt where "alt = slug @ ''-'' @ (case generateUuid (re_suffix_rnd env) of
                                  Some u \<Rightarrow> take 4 u | None \<Rightarrow> ''rand'')"
  have o: "obtain_tenant env d ts =
      (case try_tenant (re_tenant env) d slug ts of
           (Inr tid, ts1) \<Rightarrow> (Inr tid, ts1)
         | (Inl e, ts1) \<Rightarrow>
             if err_code e \<noteq> Conflict then (Inl (500, ''Failed to create tenant'', err_msg e), ts1)
             else if str_contains (err_msg e) ''owner_email''
             then (Inl (409, ''Email already registered'', []), ts1)
             else (case try_tenant (re_retry env) d alt ts1 of
                       (Inr tid, ts2) \<Rightarrow> (Inr tid, ts2)
                     | (Inl e2, ts2) \<Rightarrow>
                         if err_code e2 = Conflict
                         then (Inl (409, ''Email already registered or slug conflict'', []), ts2)
                         else (Inl (500, ''Failed to create tenant'', err_msg e2), ts2)))"
    unfolding obtain_tenant_def Let_def slug_def [symmetric] alt_def [symmetric]
    by (auto split: prod.split sum.split)
  show ?thesis
  proof (cases rule: try_tenant_cases [of "re_tenant env" d slug ts])
    case (new row)
    then show ?thesis using that(2) by (simp add: o)
  next
    case (err e)
    show ?thesis
    proof (cases rule: try_tenant_cases [of "re_retry env" d alt ts])
      case r: (err e2)
      have "\<exists>st title detail. obtain_tenant env d ts = (Inl (st, title, detail), ts) \<and> (st = 409 \<or> st = 500)"
        by (simp add: o err r)
      then show ?thesis using that(1) by blast
    next
      case r: (new row)
      have "(\<exists>st title detail. obtain_tenant env d ts = (Inl (st, title, detail), ts) \<and> (st = 409 \<or> st = 500))
          \<or> obtain_tenant env d ts = (Inr (tn_id row), ts @ [row])"
        by (simp add: o err r)
      then show ?thesis using that r(2) by blast
    qed
  qed
qed

lemma create_teacher_cases:
  obtains (err) e where "create_teacher cr salt rnd now oc er user pw name role ts = (Inl e, ts)"
  | (new) row where "create_teacher cr salt rnd now oc er user pw name role ts = (Inr (te_id row), ts @ [row])"
      and "te_id row \<notin> te_id ` set ts" and "te_username row \<notin> te_username ` set ts"
      and "te_username row = user" and "te_role row = role" and "te_tenant_id row = []"
      and "hashPassword cr salt pw = Inr (te_password_hash row)"
proof (cases "fst (create_teacher cr salt rnd now oc er user pw name role ts)")
  case (Inl e)
  then show ?thesis using that(1)
    by (auto simp: create_teacher_def fail_def ok_def
        split: option.splits sum.splits sql_call.splits if_splits)
next
  case (Inr t)
  then obtain h where "generateUuid rnd = Some t" "hashPassword cr salt pw = Inr h" "oc = Completes"
      "t \<notin> te_id ` set ts" "user \<notin> te_username ` set ts"
    by (auto simp: create_teacher_def fail_def ok_def
        split: option.splits sum.splits sql_call.splits if_splits)
  then show ?thesis
    by (intro that(2) [of "\<lparr>te_id = t, te_username = user, te_password_hash = h, te_full_name = name,
          te_role = role, te_created_at = now, te_tenant_id = []\<rparr>"])
      (simp_all add: create_teacher_def ok_def)
qed

lemma bind_tenant_new:
  assumes "te_id row \<notin> te_id ` set ts"
  shows "bind_tenant oc tid (te_id row) (ts @ [row])
     = ts @ [if oc = Completes then row\<lparr>te_tenant_id := tid\<rparr> else row]"
proof -
  have "sql_update (\<lambda>r. te_id r = te_id row) f ts = ts" for f
    using assms by (auto simp: sql_update_def image_iff intro!: map_idI)
  then show ?thesis by (simp add: bind_tenant_def sql_update_def)
qed

definition new_teacher :: "teachers \<Rightarrow> teacher_row \<Rightarrow> bool" where
  "new_teacher ts row \<longleftrightarrow> te_id row \<notin> te_id ` set ts \<and> te_username row \<notin> te_username ` set ts"

text \<open>The row of the owner as a registration leaves it.\<close>

definition owner_row :: "reg_env \<Rightarrow> register_request \<Rightarrow> string \<Rightarrow> teacher_row \<Rightarrow> bool" where
  "owner_row env d tid row \<longleftrightarrow>
     te_username row = dq_username d \<and> te_role row = ''owner''
     \<and> te_tenant_id row = (if re_bind_oc env = Completes then tid else [])
     \<and> hashPassword (re_crypto env) (re_salt env) (dq_password d) = Inr (te_password_hash row)"

definition fresh_token :: "reg_env \<Rightarrow> string \<Rightarrow> string \<Rightarrow> token_row" where
  "fresh_token env tid tok =
     \<lparr>rt_token = tok, rt_tenant_id = tid, rt_expires_at = re_token_now env + kTtlSeconds, rt_used = 0\<rparr>"

lemma insertToken_cases:
  obtains "insertToken oc tok tid ex db = (False, db)"
  | "tok \<notin> rt_token ` set (rd_tokens db)" and "tid \<in> tn_id ` set (rd_tenants db)"
    and "insertToken oc tok tid ex db = (True, db\<lparr>rd_tokens := rd_tokens db @
              [\<lparr>rt_token = tok, rt_tenant_id = tid, rt_expires_at = ex, rt_used = 0\<rparr>]\<rparr>)"
  by (cases "fst (insertToken oc tok tid ex db)") (auto simp: insertToken_def split: if_splits)

lemma register_owner_cases:
  obtains (stays) "snd (register_owner env d tid res db) = db"
      and "rs_status (fst (register_owner env d tid res db)) = 500"
  | (half) t where "snd (register_owner env d tid res db) = db\<lparr>rd_teachers := rd_teachers db @ [t]\<rparr>"
      and "new_teacher (rd_teachers db) t"
      and "rs_status (fst (register_owner env d tid res db)) = 500"
  | (registered) t tok where "generateUuid (re_token_rnd env) = Some tok"
      and "snd (register_owner env d tid res db)
        = db\<lparr>rd_teachers := rd_teachers db @ [t], rd_tokens := rd_tokens db @ [fresh_token env tid tok]\<rparr>"
      and "new_teacher (rd_teachers db) t" and "owner_row env d tid t"
      and "tok \<notin> rt_token ` set (rd_tokens db)" and "tid \<in> tn_id ` set (rd_tenants db)"
      and "rs_status (fst (register_owner env d tid res db)) = 201"
proof (cases rule: create_teacher_cases [of "re_crypto env" "re_salt env" "re_teacher_rnd env"
      "re_teacher_now env" "re_teacher_oc env" "re_teacher_err env" "dq_username d" "dq_password d"
      "dq_orgName d" "''owner''" "rd_teachers db"])
  case (err e)
  then show ?thesis using stays by (simp add: register_owner_def)
next
  case (new t)
  define t' where "t' = (if re_bind_oc env = Completes then t\<lparr>te_tenant_id := tid\<rparr> else t)"
  let ?db1 = "db\<lparr>rd_teachers := rd_teachers db @ [t']\<rparr>"
  have b: "bind_tenant (re_bind_oc env) tid (te_id t) (rd_teachers db @ [t]) = rd_teachers db @ [t']"
    by (simp add: bind_tenant_new new t'_def)
  have t': "new_teacher (rd_teachers db) t'" "owner_row env d tid t'"
    using new by (simp_all add: new_teacher_def owner_row_def t'_def)
  show ?thesis
  proof (cases "generateUuid (re_token_rnd env)")
    case None
    then show ?thesis using half t' by (simp add: register_owner_def new b Let_def)
  next
    case (Some tok)
    note o = register_owner_def new(1) b Some Let_def
    show ?thesis
    proof (cases rule: insertToken_cases [of "re_token_oc env" tok tid "re_token_now env + kTtlSeconds" ?db1])
      case 1
      then show ?thesis using half t' by (simp add: o)
    next
      case 2
      then show ?thesis using registered [OF Some] t' by (simp add: o fresh_token_def)
    qed
  qed
qed

lemma handleRegister_cases:
  obtains (refused) "snd (handleRegister env req res db) = db"
      and "rs_status (fst (handleRegister env req res db)) \<in> {400, 409, 500}"
  | (half) j row ts where "re_parse env (rq_body req) = Some j"
      and "new_tenant (register_request_from_json j) (rd_tenants db) row"
      and "snd (handleRegister env req res db) = db\<lparr>rd_tenants := rd_tenants db @ [row], rd_teachers := ts\<rparr>"
      and "ts = rd_teachers db \<or> (\<exists>t. ts = rd_teachers db @ [t] \<and> new_teacher (rd_teachers db) t)"
      and "rs_status (fst (handleRegister env req res db)) = 500"
  | (registered) j row t tok where "re_parse env (rq_body req) = Some j"
      and "new_tenant (register_request_from_json j) (rd_tenants db) row"
      and "generateUuid (re_token_rnd env) = Some tok"
      and "snd (handleRegister env req res db)
        = db\<lparr>rd_tenants := rd_tenants db @ [row], rd_teachers := rd_teachers db @ [t],
             rd_tokens := rd_tokens db @ [fresh_token env (tn_id row) tok]\<rparr>"
      and "new_teacher (rd_teachers db) t"
      and "owner_row env (register_request_from_json j) (tn_id row) t"
      and "tok \<notin> rt_token ` set (rd_tokens db)"
      and "rs_status (fst (handleRegister env req res db)) = 201"
proof (cases "\<exists>j. re_parse env (rq_body req) = Some j
    \<and> register_checks env (register_request_from_json j) = None")
  case False
  then have "snd (handleRegister env req res db) = db
      \<and> rs_status (fst (handleRegister env req res db)) = 400"
    by (auto simp: handleRegister_def Let_def split: option.split)
  then show ?thesis by (intro refused) simp_all
next
  case True
  then obtain j where j: "re_parse env (rq_body req) = Some j"
    and c: "register_checks env (register_request_from_json j) = None" by blast
  define d where "d = register_request_from_json j"
  note h = handleRegister_def j c d_def [symmetric] Let_def
  from c have c': "register_checks env d = None" by (simp add: d_def)
  show ?thesis
  proof (cases rule: obtain_tenant_cases [of env d "rd_tenants db"])
    case (err st title detail)
    then show ?thesis using refused by (auto simp: h c')
  next
    case (new row)
    then have r: "handleRegister env req res db
        = register_owner env d (tn_id row) res (db\<lparr>rd_tenants := rd_tenants db @ [row]\<rparr>)"
      by (simp add: h c')
    have n: "new_tenant (register_request_from_json j) (rd_tenants db) row"
      using new by (simp add: d_def)
    show ?thesis
    proof (cases rule: register_owner_cases
        [of env d "tn_id row" res "db\<lparr>rd_tenants := rd_tenants db @ [row]\<rparr>"])
      case stays
      show ?thesis by (rule half [OF j n, of "rd_teachers db"]) (simp_all add: r stays)
    next
      case h': (half t)
      show ?thesis
        by (rule half [OF j n, of "rd_teachers db @ [t]"]) (use h' in \<open>simp_all add: r\<close>)
    next
      case g: (registered t tok)
      show ?thesis
        by (rule registered [OF j n g(1), of t]) (use g in \<open>simp_all add: r d_def\<close>)
    qed
  qed
qed

section \<open>The database over time\<close>

inductive reg_step :: "reg_db \<Rightarrow> reg_db \<Rightarrow> bool" where
  step_register: "reg_step db (snd (handleRegister env req res db))"
| step_verify: "reg_step db (snd (handleVerify venv token res db))"
| step_suspend: "reg_step db (db\<lparr>rd_tenants := snd (suspend oc i (rd_tenants db))\<rparr>)"
| step_unsuspend: "reg_step db (db\<lparr>rd_tenants := snd (unsuspend oc i (rd_tenants db))\<rparr>)"

inductive_cases reg_stepE: "reg_step db db'"

definition reg_ok :: "reg_db \<Rightarrow> bool" where
  "reg_ok db \<longleftrightarrow> tenants_ok (rd_tenants db) \<and> teachers_ok (rd_teachers db)
     \<and> distinct (map rt_token (rd_tokens db))
     \<and> rt_tenant_id ` set (rd_tokens db) \<subseteq> tn_id ` set (rd_tenants db)"

lemma tenants_ok_new: "tenants_ok ts \<Longrightarrow> new_tenant d ts row \<Longrightarrow> tenants_ok (ts @ [row])"
  by (auto simp: tenants_ok_def new_tenant_def status_ok_def)

lemma teachers_ok_new: "teachers_ok ts \<Longrightarrow> new_teacher ts t \<Longrightarrow> teachers_ok (ts @ [t])"
  by (auto simp: teachers_ok_def new_teacher_def)

lemma reg_ok_register: "reg_ok db \<Longrightarrow> reg_ok (snd (handleRegister env req res db))"
proof (cases rule: handleRegister_cases [of env req res db])
  case (half j row ts)
  moreover assume "reg_ok db"
  ultimately show ?thesis by (auto simp: reg_ok_def intro: tenants_ok_new teachers_ok_new)
next
  case (registered j row t tok)
  moreover assume "reg_ok db"
  ultimately show ?thesis
    by (auto simp: reg_ok_def fresh_token_def intro: tenants_ok_new teachers_ok_new)
qed simp

text \<open>What a verification does to the three tables.\<close>

definition token_valid :: "verify_env \<Rightarrow> string \<Rightarrow> reg_db \<Rightarrow> token_row \<Rightarrow> bool" where
  "token_valid ve token db r \<longleftrightarrow>
     token \<noteq> [] \<and> vy_check_oc ve = Completes \<and> find (\<lambda>r. rt_token r = token) (rd_tokens db) = Some r
     \<and> rt_used r = 0 \<and> vy_check_now ve \<le> rt_expires_at r"

lemma token_valid_unique: "token_valid ve token db r \<Longrightarrow> token_valid ve token db r' \<Longrightarrow> r' = r"
  by (simp add: token_valid_def)

lemma handleVerify_cases:
  obtains (refused) "\<And>r. \<not> token_valid ve token db r" and "snd (handleVerify ve token res db) = db"
      and "rs_status (fst (handleVerify ve token res db)) \<in> {400, 404, 409, 410}"
  | (failed) r where "token_valid ve token db r"
      and "fst (activate_tenant (vy_activate_oc ve) (vy_now ve) (rt_tenant_id r) (rd_tenants db)) \<noteq> Inr ()"
      and "snd (handleVerify ve token res db)
        = db\<lparr>rd_tenants := snd (activate_tenant (vy_activate_oc ve) (vy_now ve) (rt_tenant_id r) (rd_tenants db))\<rparr>"
      and "rs_status (fst (handleVerify ve token res db)) = 500"
  | (activated) r where "token_valid ve token db r"
      and "fst (activate_tenant (vy_activate_oc ve) (vy_now ve) (rt_tenant_id r) (rd_tenants db)) = Inr ()"
      and "snd (handleVerify ve token res db) = markTokenUsed (vy_mark_oc ve) token
        (db\<lparr>rd_tenants := snd (activate_tenant (vy_activate_oc ve) (vy_now ve) (rt_tenant_id r) (rd_tenants db))\<rparr>)"
      and "rs_status (fst (handleVerify ve token res db)) = 200"
proof (cases "\<exists>r. token_valid ve token db r")
  case False
  then have "snd (handleVerify ve token res db) = db
      \<and> rs_status (fst (handleVerify ve token res db)) \<in> {400, 404, 409, 410}"
    by (auto simp: handleVerify_def checkToken_def token_valid_def Let_def
        split: sql_call.split option.split)
  with False show ?thesis by (intro refused) auto
next
  case True
  then obtain r where v: "token_valid ve token db r" by blast
  then have c: "token \<noteq> []" "checkToken (vy_check_oc ve) (vy_check_now ve) token db = (1, rt_tenant_id r)"
    by (auto simp: token_valid_def checkToken_def)
  define a where "a = activate_tenant (vy_activate_oc ve) (vy_now ve) (rt_tenant_id r) (rd_tenants db)"
  note h = handleVerify_def c Let_def a_def [symmetric]
  show ?thesis
  proof (cases "fst a")
    case (Inl e)
    then show ?thesis using failed [OF v] by (cases a) (simp add: h)
  next
    case (Inr u)
    then show ?thesis using activated [OF v] by (cases a) (simp add: h)
  qed
qed

lemma markTokenUsed_fields [simp]:
  "rd_tenants (markTokenUsed oc token db) = rd_tenants db"
  "rd_teachers (markTokenUsed oc token db) = rd_teachers db"
  "map rt_token (rd_tokens (markTokenUsed oc token db)) = map rt_token (rd_tokens db)"
  "map rt_tenant_id (rd_tokens (markTokenUsed oc token db)) = map rt_tenant_id (rd_tokens db)"
  by (simp_all add: markTokenUsed_def map_sql_update)

lemma handleVerify_fields:
  "tn_id ` set (rd_tenants (snd (handleVerify ve token res db))) = tn_id ` set (rd_tenants db)"
  "tn_owner_email ` set (rd_tenants (snd (handleVerify ve token res db))) = tn_owner_email ` set (rd_tenants db)"
  "rd_teachers (snd (handleVerify ve token res db)) = rd_teachers db"
  "map rt_token (rd_tokens (snd (handleVerify ve token res db))) = map rt_token (rd_tokens db)"
  "map rt_tenant_id (rd_tokens (snd (handleVerify ve token res db))) = map rt_tenant_id (rd_tokens db)"
  by (cases rule: handleVerify_cases [of ve token db res]; simp)+

lemma reg_ok_verify:
  assumes "reg_ok db"
  shows "reg_ok (snd (handleVerify ve token res db))"
proof -
  have "tenants_ok (rd_tenants (snd (handleVerify ve token res db)))"
    using assms
    by (cases rule: handleVerify_cases [of ve token db res]) (simp_all add: reg_ok_def tenants_ok_updates)
  moreover have "rt_tenant_id ` set (rd_tokens (snd (handleVerify ve token res db)))
      = rt_tenant_id ` set (rd_tokens db)"
    by (metis handleVerify_fields(5) list.set_map)
  ultimately show ?thesis using assms by (simp add: reg_ok_def handleVerify_fields)
qed

lemma reg_ok_step: "reg_step db db' \<Longrightarrow> reg_ok db \<Longrightarrow> reg_ok db'"
  by (erule reg_stepE) (simp_all add: reg_ok_register reg_ok_verify, simp_all add: reg_ok_def tenants_ok_updates)

text \<open>Names and addresses are never freed, and no token is made for a tenant that is there.\<close>

definition no_token :: "string \<Rightarrow> reg_db \<Rightarrow> bool" where
  "no_token tid db \<longleftrightarrow> tid \<in> tn_id ` set (rd_tenants db) \<and> tid \<notin> rt_tenant_id ` set (rd_tokens db)"

lemma reg_step_keeps:
  assumes "reg_step db db'"
  shows "m \<in> tn_owner_email ` set (rd_tenants db) \<Longrightarrow> m \<in> tn_owner_email ` set (rd_tenants db')"
    and "no_token tid db \<Longrightarrow> no_token tid db'"
proof -
  have v: "rt_tenant_id ` set (rd_tokens (snd (handleVerify ve token res db)))
      = rt_tenant_id ` set (rd_tokens db)" for ve token res
    by (metis handleVerify_fields(5) list.set_map)
  have "(m \<in> tn_owner_email ` set (rd_tenants db) \<longrightarrow> m \<in> tn_owner_email ` set (rd_tenants db'))
      \<and> (no_token tid db \<longrightarrow> no_token tid db')"
    using assms
  proof (cases rule: reg_step.cases)
    case (step_register env req res)
    then show ?thesis
      by (cases rule: handleRegister_cases [of env req res db])
        (auto simp: no_token_def new_tenant_def fresh_token_def image_iff)
  qed (simp_all add: no_token_def handleVerify_fields v)
  then show "m \<in> tn_owner_email ` set (rd_tenants db) \<Longrightarrow> m \<in> tn_owner_email ` set (rd_tenants db')"
    and "no_token tid db \<Longrightarrow> no_token tid db'" by simp_all
qed

lemma reg_steps_keep:
  assumes "reg_step\<^sup>*\<^sup>* db db'"
  shows "m \<in> tn_owner_email ` set (rd_tenants db) \<Longrightarrow> m \<in> tn_owner_email ` set (rd_tenants db')"
    and "no_token tid db \<Longrightarrow> no_token tid db'"
  using assms by (induction rule: rtranclp_induct) (auto dest: reg_step_keeps)

lemma register_taken_mail:
  assumes "re_parse env (rq_body req) = Some j"
    and "string_or_empty j ''email'' \<in> tn_owner_email ` set (rd_tenants db)"
  shows "rs_status (fst (handleRegister env req res db)) \<in> {400, 409, 500}"
  using assms
  by (cases rule: handleRegister_cases [of env req res db])
    (auto simp: new_tenant_def register_request_from_json_def)

section \<open>A sample registration\<close>

definition registration_json :: json where
  "registration_json = JObject [(''orgName'', JString ''Org''), (''username'', JString ''bob''),
     (''email'', JString ''b@x.y''), (''password'', JString ''12345678'')]"

definition sample_tenant_env :: tenant_env where
  "sample_tenant_env = \<lparr>ti_rnd = Some (replicate 16 1), ti_now = 0, ti_oc = Completes,
     ti_keyErr = [], ti_mail_first = True\<rparr>"

definition registration_env :: reg_env where
  "registration_env = \<lparr>re_parse = (\<lambda>_. Some registration_json), re_what = [], re_production = False,
     re_hmac = (\<lambda>_ _. []), re_captcha_now = 0, re_tenant = sample_tenant_env,
     re_suffix_rnd = None, re_retry = sample_tenant_env,
     re_crypto = \<lparr>cr_argon2_verify = (\<lambda>_ _. False), cr_pbkdf2 = (\<lambda>_ _ _. None),
                  cr_argon2_hash = (\<lambda>p _. Inr p)\<rparr>,
     re_salt = Some [], re_teacher_rnd = Some (replicate 16 2), re_teacher_now = 0,
     re_teacher_oc = Completes, re_teacher_err = ''UNIQUE constraint failed'',
     re_bind_oc = Completes, re_token_rnd = Some (replicate 16 3), re_token_now = 1000,
     re_token_oc = Completes\<rparr>"

definition verification_env :: verify_env where
  "verification_env = \<lparr>vy_check_oc = Completes, vy_check_now = 2000, vy_activate_oc = Completes,
     vy_now = 2000, vy_mark_oc = Completes\<rparr>"

definition sample_registration :: http_request where
  "sample_registration = \<lparr>rq_method = ''POST'', rq_path = ''/api/v1/register'', rq_remote_addr = [],
     rq_header = Map.empty, rq_body = [], rq_matches = []\<rparr>"

definition empty_reg_db :: reg_db where
  "empty_reg_db = \<lparr>rd_tenants = [], rd_teachers = [], rd_tokens = []\<rparr>"

lemma reg_ok_empty: "reg_ok empty_reg_db"
  by (simp add: reg_ok_def tenants_ok_def teachers_ok_def empty_reg_db_def)

definition taken_reg_db :: reg_db where
  "taken_reg_db = empty_reg_db\<lparr>rd_teachers := [\<lparr>te_id = ''t1'', te_username = ''bob'',
     te_password_hash = [], te_full_name = [], te_role = ''teacher'', te_created_at = 0,
     te_tenant_id = []\<rparr>]\<rparr>"

lemma reg_ok_taken: "reg_ok taken_reg_db"
  by (simp add: taken_reg_db_def reg_ok_def tenants_ok_def teachers_ok_def empty_reg_db_def)

lemma sample_checks: "register_checks registration_env (register_request_from_json registration_json) = None"
  by (simp add: register_checks_def register_request_from_json_def registration_json_def string_or_empty_def
      json_at_def registration_env_def isValidEmail_def cut_first_def cut_last_def is_alnum_def is_alpha_def
      is_lower_def is_upper_def)

lemma sample_obtained:
  obtains row where "obtain_tenant registration_env d [] = (Inr (tn_id row), [row])"
proof (cases "makeSlug (dq_orgName d)")
qed (fastforce simp: obtain_tenant_def Let_def try_tenant_def create_tenant_def registration_env_def
    sample_tenant_env_def generateUuid_def ok_def intro: that)+

lemma sample_register:
  "rs_status (fst (handleRegister registration_env sample_registration fresh_response empty_reg_db)) = 201"
proof -
  obtain row where "obtain_tenant registration_env (register_request_from_json registration_json) [] = (Inr (tn_id row), [row])"
    by (rule sample_obtained)
  moreover have "re_parse registration_env b = Some registration_json" for b by (simp add: registration_env_def)
  ultimately have "handleRegister registration_env sample_registration fresh_response empty_reg_db
      = register_owner registration_env (register_request_from_json registration_json) (tn_id row) fresh_response
          (empty_reg_db\<lparr>rd_tenants := [row]\<rparr>)"
    by (simp add: handleRegister_def sample_checks empty_reg_db_def Let_def)
  then show ?thesis
    by (simp add: empty_reg_db_def register_owner_def create_teacher_def
        hashPassword_def ok_def generateUuid_def insertToken_def registration_env_def)
qed

section \<open>Properties\<close>

text \<open>
  Registrations, verifications, suspensions and their ends keep the database well formed:
  tenant identifiers, slugs and addresses, teacher identifiers and user names, and tokens are
  unique, every status is one of the three, and every token belongs to a tenant that exists.
\<close>

theorem registration_keeps_tables:
  assumes "reg_step\<^sup>*\<^sup>* db db'" and "reg_ok db"
  shows "reg_ok db'"
  using assms by (induction rule: rtranclp_induct) (auto intro: reg_ok_step)

lemma registration_keeps_tables_witness:
  "reg_ok (snd (handleRegister registration_env sample_registration fresh_response empty_reg_db))"
proof (rule registration_keeps_tables)
  show "reg_step\<^sup>*\<^sup>* empty_reg_db (snd (handleRegister registration_env sample_registration fresh_response empty_reg_db))"
    by (rule r_into_rtranclp) (rule step_register)
qed (rule reg_ok_empty)

text \<open>
  What a verification changes, in every case: it makes a tenant active exactly when the
  given token exists, belongs to that tenant, is unused and not expired, the update runs
  and the tenant exists. It does so whatever the status was, so that a token nobody has used
  also ends a suspension. All other tenants keep their status, the teachers do not change, and
  the answer is 200 exactly when the tenant of the token was made active.
\<close>

theorem verification_activates_exactly:
  "tenant_status j (rd_tenants (snd (handleVerify ve token res db)))
     = (if (\<exists>r. token_valid ve token db r \<and> rt_tenant_id r = j)
           \<and> vy_activate_oc ve = Completes \<and> tenant_status j (rd_tenants db) \<noteq> None
        then Some ''active'' else tenant_status j (rd_tenants db))
   \<and> rd_teachers (snd (handleVerify ve token res db)) = rd_teachers db
   \<and> (rs_status (fst (handleVerify ve token res db)) = 200
       \<longleftrightarrow> (\<exists>r. token_valid ve token db r \<and> vy_activate_oc ve = Completes
             \<and> tenant_status (rt_tenant_id r) (rd_tenants db) \<noteq> None))"
proof (cases rule: handleVerify_cases [of ve token db res])
  case refused
  then show ?thesis by auto
next
  case (failed r)
  then show ?thesis
    by (auto simp: activate_tenant_ok_iff activate_tenant_status dest: token_valid_unique)
next
  case (activated r)
  then show ?thesis
    by (auto simp: activate_tenant_ok_iff activate_tenant_status dest: token_valid_unique)
qed

text \<open>
  C25: What an accepted registration promises is kept: after the answer 201 there is a new pending
  tenant, an owner account with the name and the password of the request, and a token that
  answers 200 within a day and makes this tenant active, and 409 once it was used.
\<close>

theorem register_then_verify:
  assumes "rs_status (fst (handleRegister env req res db)) = 201"
    and "snd (handleRegister env req res db) = db1"
    and "re_token_rnd env = Some bs" and "length bs = 16"
    and "vy_check_oc ve = Completes" and "vy_activate_oc ve = Completes" and "vy_mark_oc ve = Completes"
    and "vy_check_now ve \<le> re_token_now env + 86400"
    and "vy_check_oc ve2 = Completes"
  shows "\<exists>j d tid tok t db2. re_parse env (rq_body req) = Some j \<and> d = register_request_from_json j
     \<and> tenant_status tid (rd_tenants db) = None
     \<and> tenant_status tid (rd_tenants db1) = Some ''pending''
     \<and> t \<in> set (rd_teachers db1) \<and> te_username t = dq_username d \<and> te_role t = ''owner''
     \<and> hashPassword (re_crypto env) (re_salt env) (dq_password d) = Inr (te_password_hash t)
     \<and> db2 = snd (handleVerify ve tok res2 db1) \<and> rs_status (fst (handleVerify ve tok res2 db1)) = 200
     \<and> tenant_status tid (rd_tenants db2) = Some ''active''
     \<and> rs_status (fst (handleVerify ve2 tok res3 db2)) = 409"
proof (cases rule: handleRegister_cases [of env req res db])
  case (registered j row t tok)
  let ?tid = "tn_id row" and ?r = "fresh_token env (tn_id row) tok"
  have db1: "db1 = db\<lparr>rd_tenants := rd_tenants db @ [row], rd_teachers := rd_teachers db @ [t],
             rd_tokens := rd_tokens db @ [?r]\<rparr>"
    using registered assms(2) by simp
  have new: "?tid \<notin> tn_id ` set (rd_tenants db)" "tn_status row = ''pending''"
    using registered by (simp_all add: new_tenant_def)
  have none: "find (\<lambda>r. rt_token r = tok) (rd_tokens db) = None"
    using registered by (auto simp: find_None_iff image_iff)
  have gone: "find (\<lambda>r. tn_id r = ?tid) (rd_tenants db) = None"
    using new by (auto simp: find_None_iff image_iff)
  have "uuid_bytes bs \<noteq> []" using assms(4) by (auto simp: uuid_bytes_def Let_def)
  then have tok: "tok \<noteq> []"
    using registered(3) assms(3) by (cases "uuid_bytes bs") (auto simp: generateUuid_def hex2_def)
  have st: "tenant_status ?tid (rd_tenants db) = None" "tenant_status ?tid (rd_tenants db1) = Some ''pending''"
    using new by (simp_all add: tenant_status_def db1 find_append gone)
  have fr: "rt_token ?r = tok" "rt_tenant_id ?r = ?tid" "rt_used ?r = 0"
      "rt_expires_at ?r = re_token_now env + 86400"
    by (simp_all add: fresh_token_def kTtlSeconds_def)
  have v: "token_valid ve tok db1 ?r"
    using assms tok by (simp add: token_valid_def db1 find_append none fr)
  show ?thesis
  proof (cases rule: handleVerify_cases [of ve tok db1 res2])
    case (activated r)
    with v have r: "r = ?r" by (auto dest: token_valid_unique)
    let ?db2 = "snd (handleVerify ve tok res2 db1)"
    have "tenant_status ?tid (rd_tenants ?db2) = Some ''active''"
      using assms activated r st by (simp add: fr activate_tenant_status)
    moreover have "find (\<lambda>r. rt_token r = tok) (rd_tokens ?db2) = Some (?r\<lparr>rt_used := 1\<rparr>)"
      using assms activated
      by (simp add: markTokenUsed_def find_key_sql_update [where k = rt_token] db1 find_append none fr)
    then have "rs_status (fst (handleVerify ve2 tok res3 ?db2)) = 409"
      using assms tok by (simp add: handleVerify_def checkToken_def)
    moreover have "t \<in> set (rd_teachers db1)" by (simp add: db1)
    moreover note registered(1,6) activated(4) st
    ultimately show ?thesis
      by (intro exI [of _ j] exI [of _ "register_request_from_json j"] exI [of _ ?tid]
          exI [of _ tok] exI [of _ t] exI [of _ ?db2] conjI) (simp_all add: owner_row_def)
  next
    case (failed r)
    then show ?thesis using v assms st
      by (auto simp: activate_tenant_ok_iff fr dest: token_valid_unique)
  qed (use v in simp)
qed (use assms in auto)

text \<open>
  A registration whose user name is taken answers 500 and leaves its tenant behind. From
  then on, through any registrations, verifications and suspensions, no registration with this
  e-mail address is accepted, and the tenant has no token that could make it active.
\<close>

theorem failed_registration_burns_email:
  assumes "re_parse env (rq_body req) = Some j" and "d = register_request_from_json j"
    and "register_checks env d = None" and "fst (obtain_tenant env d (rd_tenants db)) = Inr tid"
    and "dq_username d \<in> te_username ` set (rd_teachers db)"
    and "reg_ok db" and "reg_step\<^sup>*\<^sup>* (snd (handleRegister env req res db)) db'"
    and "re_parse env' (rq_body req') = Some j'"
    and "string_or_empty j' ''email'' = string_or_empty j ''email''"
  shows "rs_status (fst (handleRegister env req res db)) = 500
    \<and> rs_status (fst (handleRegister env' req' res' db')) \<in> {400, 409, 500}
    \<and> tid \<in> tn_id ` set (rd_tenants db') \<and> tid \<notin> rt_tenant_id ` set (rd_tokens db')"
proof (cases rule: obtain_tenant_cases [of env d "rd_tenants db"])
  case (new row)
  have t: "tn_id row = tid" using assms(4) new by simp
  obtain e where "create_teacher (re_crypto env) (re_salt env) (re_teacher_rnd env) (re_teacher_now env)
      (re_teacher_oc env) (re_teacher_err env) (dq_username d) (dq_password d) (dq_orgName d)
      ''owner'' (rd_teachers db) = (Inl e, rd_teachers db)"
    by (rule create_teacher_cases) (use assms(5) in auto)
  then have h: "handleRegister env req res db
      = (sendError 500 ''Failed to create owner account'' (err_msg e) res,
         db\<lparr>rd_tenants := rd_tenants db @ [row]\<rparr>)"
    using assms(1-3) new by (simp add: handleRegister_def register_owner_def)
  have "no_token tid (snd (handleRegister env req res db))"
    using assms(6) new t by (auto simp: h no_token_def reg_ok_def new_tenant_def)
  then have "no_token tid db'" using assms(7) reg_steps_keep(2) by blast
  moreover have "string_or_empty j ''email'' \<in> tn_owner_email ` set (rd_tenants (snd (handleRegister env req res db)))"
    using new assms(2) by (auto simp: h new_tenant_def register_request_from_json_def)
  then have "string_or_empty j' ''email'' \<in> tn_owner_email ` set (rd_tenants db')"
    using reg_steps_keep(1) [OF assms(7)] assms(9) by simp
  ultimately show ?thesis
    using register_taken_mail [OF assms(8)] by (simp add: no_token_def h)
qed (use assms in auto)

lemma register_then_verify_witness:
  "\<exists>j d tid tok t db2. re_parse registration_env (rq_body sample_registration) = Some j
     \<and> d = register_request_from_json j
     \<and> tenant_status tid (rd_tenants empty_reg_db) = None
     \<and> tenant_status tid (rd_tenants (snd (handleRegister registration_env sample_registration fresh_response empty_reg_db)))
         = Some ''pending''
     \<and> t \<in> set (rd_teachers (snd (handleRegister registration_env sample_registration fresh_response empty_reg_db)))
     \<and> te_username t = dq_username d \<and> te_role t = ''owner''
     \<and> hashPassword (re_crypto registration_env) (re_salt registration_env) (dq_password d) = Inr (te_password_hash t)
     \<and> db2 = snd (handleVerify verification_env tok fresh_response
          (snd (handleRegister registration_env sample_registration fresh_response empty_reg_db)))
     \<and> rs_status (fst (handleVerify verification_env tok fresh_response
          (snd (handleRegister registration_env sample_registration fresh_response empty_reg_db)))) = 200
     \<and> tenant_status tid (rd_tenants db2) = Some ''active''
     \<and> rs_status (fst (handleVerify verification_env tok fresh_response db2)) = 409"
proof (rule register_then_verify)
  show "rs_status (fst (handleRegister registration_env sample_registration fresh_response empty_reg_db)) = 201"
    by (simp add: sample_register)
  show "re_token_rnd registration_env = Some (replicate 16 3)" by (simp add: registration_env_def)
qed (simp_all add: registration_env_def verification_env_def)

lemma failed_registration_burns_email_witness:
  "rs_status (fst (handleRegister registration_env sample_registration fresh_response taken_reg_db)) = 500
   \<and> rs_status (fst (handleRegister registration_env sample_registration fresh_response
        (snd (handleRegister registration_env sample_registration fresh_response taken_reg_db)))) \<in> {400, 409, 500}"
proof -
  obtain row where o: "obtain_tenant registration_env (register_request_from_json registration_json) [] = (Inr (tn_id row), [row])"
    by (rule sample_obtained)
  have e: "re_parse registration_env b = Some registration_json" for b by (simp add: registration_env_def)
  have u: "dq_username (register_request_from_json registration_json) \<in> te_username ` set (rd_teachers taken_reg_db)"
    by (simp add: taken_reg_db_def registration_json_def register_request_from_json_def string_or_empty_def json_at_def)
  have "fst (obtain_tenant registration_env (register_request_from_json registration_json) (rd_tenants taken_reg_db))
      = Inr (tn_id row)"
    by (simp add: taken_reg_db_def empty_reg_db_def o)
  from failed_registration_burns_email [OF e refl sample_checks this u reg_ok_taken rtranclp.rtrancl_refl e refl]
  show ?thesis by blast
qed

end
