(* ===== verification/Route_Patterns.thy ===== *)
theory Route_Patterns
  imports Hub32_Prelude
begin

text \<open>
  The path patterns of src/src/server/Router.cpp. A route is registered with a regular
  expression over the whole path; the ones the program uses are made of plain characters,
  the capture \<^verbatim>\<open>([^/]+)\<close>, \<^verbatim>\<open>.*\<close> and the single dot. \<open>compile_pattern\<close> reads such an expression,
  \<open>pattern_match\<close> matches it with backtracking, longest capture first, and gives the captures.
  The lemmas relate matching with filling captures into a pattern.
\<close>

datatype token = Chr char | AnyChar | Capture | Rest

text \<open>A line terminator is matched by no dot.\<close>

definition line_end :: "char \<Rightarrow> bool" where
  "line_end c \<longleftrightarrow> c = CHR 0x0A \<or> c = CHR 0x0D"

fun compile_pattern :: "string \<Rightarrow> token list" where
  "compile_pattern [] = []"
| "compile_pattern (c # cs) =
     (if c = CHR ''('' then
        (if take 6 cs = ''[^/]+)'' then Capture # compile_pattern (drop 6 cs)
         else Chr c # compile_pattern cs)
      else if c = CHR ''.'' then
        (if take 1 cs = ''*'' then Rest # compile_pattern (drop 1 cs)
         else AnyChar # compile_pattern cs)
      else Chr c # compile_pattern cs)"

text \<open>The prefixes a greedy repetition tries, the longest first.\<close>

fun first_some :: "('a \<Rightarrow> 'b option) \<Rightarrow> 'a list \<Rightarrow> 'b option" where
  "first_some f [] = None"
| "first_some f (x # xs) = (case f x of None \<Rightarrow> first_some f xs | Some y \<Rightarrow> Some y)"

definition tries :: "nat \<Rightarrow> (char \<Rightarrow> bool) \<Rightarrow> string \<Rightarrow> nat list" where
  "tries low P s = rev [low..<Suc (length (takeWhile P s))]"

fun pattern_match :: "token list \<Rightarrow> string \<Rightarrow> string list option" where
  "pattern_match [] s = (if s = [] then Some [] else None)"
| "pattern_match (Chr c # ts) s =
     (case s of [] \<Rightarrow> None | x # s' \<Rightarrow> if x = c then pattern_match ts s' else None)"
| "pattern_match (AnyChar # ts) s =
     (case s of [] \<Rightarrow> None | x # s' \<Rightarrow> if \<not> line_end x then pattern_match ts s' else None)"
| "pattern_match (Capture # ts) s =
     first_some (\<lambda>n. map_option (\<lambda>cs. take n s # cs) (pattern_match ts (drop n s)))
       (tries 1 (\<lambda>c. c \<noteq> CHR ''/'') s)"
| "pattern_match (Rest # ts) s =
     first_some (\<lambda>n. pattern_match ts (drop n s)) (tries 0 (\<lambda>c. \<not> line_end c) s)"

section \<open>Filling a pattern\<close>

definition segment :: "string \<Rightarrow> bool" where
  "segment s \<longleftrightarrow> s \<noteq> [] \<and> CHR ''/'' \<notin> set s"

fun captures :: "token list \<Rightarrow> nat" where
  "captures [] = 0"
| "captures (Capture # ts) = Suc (captures ts)"
| "captures (t # ts) = captures ts"

fun fill :: "token list \<Rightarrow> string list \<Rightarrow> string" where
  "fill [] cs = []"
| "fill (Chr c # ts) cs = c # fill ts cs"
| "fill (Capture # ts) (v # cs) = v @ fill ts cs"
| "fill (t # ts) cs = fill ts cs"

text \<open>A pattern of plain characters and captures that end at a slash or at the end.\<close>

fun plain_pattern :: "token list \<Rightarrow> bool" where
  "plain_pattern [] = True"
| "plain_pattern (Chr c # ts) = plain_pattern ts"
| "plain_pattern (Capture # ts) =
     ((ts = [] \<or> hd ts = Chr (CHR ''/'')) \<and> plain_pattern ts)"
| "plain_pattern (t # ts) = False"

lemma first_some_Some:
  "first_some f xs = Some y \<Longrightarrow> \<exists>x \<in> set xs. f x = Some y"
  by (induction xs) (auto split: option.splits)

lemma set_tries: "n \<in> set (tries low P s) \<longleftrightarrow> low \<le> n \<and> n \<le> length (takeWhile P s)"
  by (auto simp: tries_def)

lemma take_within_takeWhile:
  "n \<le> length (takeWhile P s) \<Longrightarrow> x \<in> set (take n s) \<Longrightarrow> P x"
  by (metis takeWhile_eq_take set_takeWhileD set_take_subset_set_take subsetD)

theorem pattern_match_fill:
  assumes "plain_pattern ts" and "pattern_match ts s = Some cs"
  shows "s = fill ts cs \<and> length cs = captures ts \<and> (\<forall>v \<in> set cs. segment v)"
  using assms
proof (induction ts s arbitrary: cs rule: pattern_match.induct)
  case (4 ts s)
  then obtain n cs' where n: "1 \<le> n" "n \<le> length (takeWhile (\<lambda>c. c \<noteq> CHR ''/'') s)"
    and m: "pattern_match ts (drop n s) = Some cs'" and cs: "cs = take n s # cs'"
    by (auto dest!: first_some_Some simp: set_tries)
  have len: "n \<le> length s" using n(2) length_takeWhile_le by (rule order_trans)
  have "segment (take n s)"
    using n len take_within_takeWhile [OF n(2)] by (auto simp: segment_def)
  moreover have "drop n s = fill ts cs' \<and> length cs' = captures ts \<and> (\<forall>v \<in> set cs'. segment v)"
    using 4 n m by (auto simp: set_tries)
  ultimately show ?case
    unfolding cs by simp (metis append_take_drop_id)
qed (auto split: list.splits if_splits)

lemma tries_longest:
  "low \<le> length (takeWhile P s) \<Longrightarrow>
   tries low P s = length (takeWhile P s) # rev [low..<length (takeWhile P s)]"
  by (simp add: tries_def)

lemma takeWhile_segment:
  assumes "CHR ''/'' \<notin> set v" and "w = [] \<or> hd w = CHR ''/''"
  shows "takeWhile (\<lambda>c. c \<noteq> CHR ''/'') (v @ w) = v" and "dropWhile (\<lambda>c. c \<noteq> CHR ''/'') (v @ w) = w"
proof -
  have v: "\<forall>c \<in> set v. c \<noteq> CHR ''/''" using assms(1) by auto
  show "takeWhile (\<lambda>c. c \<noteq> CHR ''/'') (v @ w) = v"
    using v assms(2) by (cases w) (simp_all add: takeWhile_append2)
  show "dropWhile (\<lambda>c. c \<noteq> CHR ''/'') (v @ w) = w"
    using v assms(2) by (cases w) (simp_all add: dropWhile_append2)
qed

lemma fill_next:
  "ts = [] \<or> hd ts = Chr (CHR ''/'') \<Longrightarrow> fill ts cs = [] \<or> hd (fill ts cs) = CHR ''/''"
  by (cases ts) auto

theorem pattern_match_fills:
  assumes "plain_pattern ts" and "length cs = captures ts" and "\<forall>v \<in> set cs. segment v"
  shows "pattern_match ts (fill ts cs) = Some cs"
  using assms
proof (induction ts cs rule: fill.induct)
  case (3 ts v cs)
  then have v: "segment v" and rest: "pattern_match ts (fill ts cs) = Some cs"
    and next_char: "fill ts cs = [] \<or> hd (fill ts cs) = CHR ''/''"
    using fill_next [of ts cs] by auto
  have "takeWhile (\<lambda>c. c \<noteq> CHR ''/'') (v @ fill ts cs) = v"
    by (rule takeWhile_segment) (use v next_char in \<open>auto simp: segment_def\<close>)
  moreover have "1 \<le> length v" using v by (cases v) (auto simp: segment_def)
  ultimately show ?case by (simp add: tries_longest rest)
qed auto

section \<open>Patterns without a common path\<close>

definition after_segment :: "token list \<Rightarrow> token list" where
  "after_segment ts = dropWhile (\<lambda>t. t \<noteq> Chr (CHR ''/'')) ts"

lemma length_after_segment [simp]: "length (after_segment ts) \<le> length ts"
  by (simp add: after_segment_def length_dropWhile_le)

function apart :: "token list \<Rightarrow> token list \<Rightarrow> bool" where
  "apart [] us = (us \<noteq> [])"
| "apart (t # ts) [] = True"
| "apart (Chr c # ts) (Chr d # us) = (c \<noteq> d \<or> apart ts us)"
| "apart (Capture # ts) (u # us) = apart ts (after_segment (u # us))"
| "apart (Chr c # ts) (Capture # us) = apart (after_segment (Chr c # ts)) us"
| "apart (AnyChar # ts) (u # us) = False"
| "apart (Rest # ts) (u # us) = False"
| "apart (Chr c # ts) (AnyChar # us) = False"
| "apart (Chr c # ts) (Rest # us) = False"
  by pat_completeness auto
termination
  by (relation "measure (\<lambda>(ts, us). length ts + length us)")
     (auto intro!: le_imp_less_Suc le_trans [OF length_after_segment])

lemma plain_after_segment: "plain_pattern ts \<Longrightarrow> plain_pattern (after_segment ts)"
  by (induction ts rule: plain_pattern.induct) (auto simp: after_segment_def)

lemma fill_after_segment:
  assumes "plain_pattern ts" and "length cs = captures ts" and "\<forall>v \<in> set cs. segment v"
  shows "\<exists>cs'. dropWhile (\<lambda>c. c \<noteq> CHR ''/'') (fill ts cs) = fill (after_segment ts) cs'
           \<and> length cs' = captures (after_segment ts) \<and> (\<forall>v \<in> set cs'. segment v)"
  using assms
proof (induction ts cs rule: fill.induct)
  case (2 c ts cs)
  then show ?case
    by (cases "c = CHR ''/''") (auto simp: after_segment_def intro: exI [of _ cs])
next
  case (3 ts v cs)
  then have v: "\<forall>c \<in> set v. c \<noteq> CHR ''/''" by (auto simp: segment_def)
  have "dropWhile (\<lambda>c. c \<noteq> CHR ''/'') (v @ fill ts cs) = dropWhile (\<lambda>c. c \<noteq> CHR ''/'') (fill ts cs)"
    using v by (simp add: dropWhile_append2)
  with 3 show ?case by (auto simp: after_segment_def)
qed (auto simp: after_segment_def)

definition fills :: "token list \<Rightarrow> string \<Rightarrow> bool" where
  "fills ts s \<longleftrightarrow> (\<exists>cs. s = fill ts cs \<and> length cs = captures ts \<and> (\<forall>v \<in> set cs. segment v))"

lemma fills_after_segment:
  assumes "plain_pattern ts" and "fills ts s"
  shows "fills (after_segment ts) (dropWhile (\<lambda>c. c \<noteq> CHR ''/'') s)"
  using assms fill_after_segment unfolding fills_def by metis

lemma fills_simps [simp]:
  "fills [] s \<longleftrightarrow> s = []"
  "fills (Chr c # ts) s \<longleftrightarrow> (\<exists>s'. s = c # s' \<and> fills ts s')"
  by (auto simp: fills_def)

lemma fills_Capture_nonempty: "fills (Capture # ts) s \<Longrightarrow> s \<noteq> []"
  unfolding fills_def by (metis append_is_Nil_conv captures.simps(2) fill.simps(3) length_Suc_conv
      list.set_intros(1) segment_def)

lemma after_capture:
  "plain_pattern (Capture # ts) \<Longrightarrow> after_segment (Capture # ts) = ts"
  by (cases ts) (auto simp: after_segment_def)

lemma apart_no_common_path:
  assumes "apart ts us" and "plain_pattern ts" "plain_pattern us" and "fills ts s"
  shows "\<not> fills us s"
  using assms
proof (induction ts us arbitrary: s rule: apart.induct)
  case (1 us)
  then show ?case by (cases us; cases "hd us") (auto dest: fills_Capture_nonempty)
next
  case (2 t ts)
  then show ?case by (cases t) (auto dest: fills_Capture_nonempty)
next
  case (4 ts u us)
  let ?s = "dropWhile (\<lambda>c. c \<noteq> CHR ''/'') s"
  have "fills ts ?s" using fills_after_segment [OF 4(3,5)] after_capture [OF 4(3)] by simp
  then have "\<not> fills (after_segment (u # us)) ?s"
    using 4(1) 4(2,3) plain_after_segment [OF 4(4)] by (auto simp del: apart.simps(1))
  then show ?case using fills_after_segment [OF 4(4)] by blast
next
  case (5 c ts us)
  let ?s = "dropWhile (\<lambda>c. c \<noteq> CHR ''/'') s"
  have "fills (after_segment (Chr c # ts)) ?s" by (rule fills_after_segment [OF 5(3,5)])
  then have "\<not> fills us ?s"
    using 5(1) 5(2,4) plain_after_segment [OF 5(3)] by (auto simp del: apart.simps(1))
  then show ?case using fills_after_segment [OF 5(4)] after_capture [OF 5(4)] by metis
qed auto

theorem apart_patterns:
  assumes "apart ts us" and "plain_pattern ts" "plain_pattern us"
    and "pattern_match ts s = Some cs"
  shows "pattern_match us s = None"
proof (rule ccontr)
  assume "pattern_match us s \<noteq> None"
  then obtain ds where "pattern_match us s = Some ds" by auto
  then have "fills us s" and "fills ts s"
    using assms(2-4) pattern_match_fill unfolding fills_def by blast+
  then show False using apart_no_common_path [OF assms(1-3)] by blast
qed

text \<open>Patterns that differ before anything but plain characters.\<close>

fun diverge :: "token list \<Rightarrow> token list \<Rightarrow> bool" where
  "diverge (Chr c # ts) (Chr d # us) = (c \<noteq> d \<or> diverge ts us)"
| "diverge _ _ = False"

lemma diverge_patterns:
  "diverge ts us \<Longrightarrow> pattern_match ts s = Some cs \<Longrightarrow> pattern_match us s = None"
  by (induction ts us arbitrary: s rule: diverge.induct) (auto split: list.splits if_splits)

definition exclusive :: "token list \<Rightarrow> token list \<Rightarrow> bool" where
  "exclusive ts us =
     (if diverge ts us then True else plain_pattern ts \<and> plain_pattern us \<and> apart ts us)"

lemma exclusive_patterns:
  "exclusive ts us \<Longrightarrow> pattern_match ts s = Some cs \<Longrightarrow> pattern_match us s = None"
  using diverge_patterns [of ts us] apart_patterns [of ts us] by (auto simp: exclusive_def split: if_splits)

end
