(* ===== verification/Student_Repository.thy ===== *)
theory Student_Repository
  imports Sql_Tables Interfaces User_Roles
begin

text \<open>
  The students table and src/db/StudentRepository.cpp: a row is what the schema of
  src/db/DatabaseManager.cpp declares, with SQL NULL as \<open>None\<close>; every operation is the one
  SQL statement it runs, or the two that \<open>activate\<close> runs. The lemmas show the table
  invariant, the life cycle of the binding of a student to a machine, and that a login
  succeeds exactly for the stored password.
\<close>

section \<open>Rows and records\<close>

record student_row =
  st_id :: string
  st_tenant_id :: string
  st_class_id :: string
  st_full_name :: string
  st_username :: string
  st_password_hash :: string
  st_machine_id :: "string option"
  st_is_activated :: int
  st_activated_at :: "int option"
  st_created_at :: int

text \<open>The public record, without the hash.\<close>

record student_record =
  sr_id :: string
  sr_tenantId :: string
  sr_classId :: string
  sr_fullName :: string
  sr_username :: string
  sr_machineId :: string
  sr_isActivated :: bool
  sr_activatedAt :: int
  sr_createdAt :: int

definition student_from_row :: "student_row \<Rightarrow> student_record" where
  "student_from_row r =
     \<lparr>sr_id = st_id r, sr_tenantId = st_tenant_id r, sr_classId = st_class_id r,
      sr_fullName = st_full_name r, sr_username = st_username r,
      sr_machineId = (case st_machine_id r of None \<Rightarrow> [] | Some m \<Rightarrow> m),
      sr_isActivated = (st_is_activated r \<noteq> 0),
      sr_activatedAt = (case st_activated_at r of None \<Rightarrow> 0 | Some t \<Rightarrow> t),
      sr_createdAt = st_created_at r\<rparr>"

type_synonym students = "student_row list"

section \<open>Operations\<close>

text \<open>
  \<open>uniqueErr\<close> and \<open>keyErr\<close> are SQLite's messages for the two constraints of the table; a
  foreign key that does not resolve is a failing step. \<open>now\<close> is in seconds.
\<close>

definition create_student ::
  "crypto \<Rightarrow> byte list option \<Rightarrow> byte list option \<Rightarrow> int \<Rightarrow> sql_call \<Rightarrow> string
     \<Rightarrow> string \<Rightarrow> string \<Rightarrow> string \<Rightarrow> string \<Rightarrow> string \<Rightarrow> students
     \<Rightarrow> string result \<times> students" where
  "create_student cr salt rnd now oc keyErr tenantId classId fullName username password ss =
     (case hashPassword cr salt password of
        Inl _ \<Rightarrow> (fail InternalError ''Password hash failed'', ss)
      | Inr passwordHash \<Rightarrow>
     (case generateUuid rnd of
        None \<Rightarrow> (fail InternalError ''UUID generation failed'', ss)
      | Some newId \<Rightarrow>
     (case oc of
        PrepareError m \<Rightarrow> (fail InternalError m, ss)
      | StepError m \<Rightarrow> (fail InternalError m, ss)
      | Completes \<Rightarrow>
          if newId \<in> st_id ` set ss then (fail InternalError keyErr, ss)
          else if (tenantId, username) \<in> (\<lambda>r. (st_tenant_id r, st_username r)) ` set ss
          then (fail Conflict (''Username already taken in this tenant: '' @ username), ss)
          else (ok newId,
                ss @ [\<lparr>st_id = newId, st_tenant_id = tenantId, st_class_id = classId,
                       st_full_name = fullName, st_username = username,
                       st_password_hash = passwordHash, st_machine_id = None,
                       st_is_activated = 0, st_activated_at = None,
                       st_created_at = now\<rparr>]))))"

definition findByUsernameWithHash ::
  "sql_call \<Rightarrow> string \<Rightarrow> string \<Rightarrow> students \<Rightarrow> (student_record \<times> string) result" where
  "findByUsernameWithHash oc tenantId username ss =
     run_select_one oc ''Student not found''
       (\<lambda>r. st_tenant_id r = tenantId \<and> st_username r = username)
       (\<lambda>r. (student_from_row r, st_password_hash r)) ss"

definition authenticate_student ::
  "crypto \<Rightarrow> sql_call \<Rightarrow> string \<Rightarrow> string \<Rightarrow> string \<Rightarrow> students \<Rightarrow> student_record result" where
  "authenticate_student cr oc username password tenantId ss =
     (case findByUsernameWithHash oc tenantId username ss of
        Inl _ \<Rightarrow> fail AuthenticationFailed ''Invalid credentials''
      | Inr (rec, passwordHash) \<Rightarrow>
          if \<not> verifyPassword cr password passwordHash
          then fail AuthenticationFailed ''Invalid credentials''
          else ok rec)"

definition bind_machine :: "string \<Rightarrow> int \<Rightarrow> student_row \<Rightarrow> student_row" where
  "bind_machine machineId now r =
     r\<lparr>st_machine_id := Some machineId, st_is_activated := 1, st_activated_at := Some now\<rparr>"

text \<open>The check and the update are two statements; the update's row count is not looked at.\<close>

definition activate ::
  "sql_call \<Rightarrow> sql_call \<Rightarrow> int \<Rightarrow> string \<Rightarrow> string \<Rightarrow> students \<Rightarrow> unit result \<times> students" where
  "activate ocCheck ocUpd now studentId machineId ss =
     (case run_select_one ocCheck (''Student not found: '' @ studentId)
             (\<lambda>r. st_id r = studentId) (\<lambda>r. st_is_activated r \<noteq> 0) ss of
        Inl e \<Rightarrow> (Inl e, ss)
      | Inr alreadyActivated \<Rightarrow>
          if alreadyActivated
          then (fail Conflict ''Machine already activated for this student'', ss)
          else case ocUpd of
            PrepareError m \<Rightarrow> (fail InternalError m, ss)
          | StepError m \<Rightarrow> (fail InternalError m, ss)
          | Completes \<Rightarrow>
              (ok (), sql_update (\<lambda>r. st_id r = studentId) (bind_machine machineId now) ss))"

definition clear_machine :: "student_row \<Rightarrow> student_row" where
  "clear_machine r = r\<lparr>st_machine_id := None, st_is_activated := 0, st_activated_at := None\<rparr>"

definition resetMachine :: "sql_call \<Rightarrow> string \<Rightarrow> students \<Rightarrow> unit result \<times> students" where
  "resetMachine oc studentId ss =
     run_update oc (''Student not found: '' @ studentId)
       (\<lambda>r. st_id r = studentId) clear_machine ss"

definition set_student_hash :: "string \<Rightarrow> student_row \<Rightarrow> student_row" where
  "set_student_hash h r = (clear_machine r)\<lparr>st_password_hash := h\<rparr>"

definition apply_student_hash ::
  "sql_call \<Rightarrow> string \<Rightarrow> string \<Rightarrow> students \<Rightarrow> unit result \<times> students" where
  "apply_student_hash oc studentId passwordHash ss =
     run_update oc (''Student not found: '' @ studentId)
       (\<lambda>r. st_id r = studentId) (set_student_hash passwordHash) ss"

definition change_student_password ::
  "crypto \<Rightarrow> byte list option \<Rightarrow> sql_call \<Rightarrow> string \<Rightarrow> string \<Rightarrow> students
     \<Rightarrow> unit result \<times> students" where
  "change_student_password cr salt oc studentId newPassword ss =
     (case hashPassword cr salt newPassword of
        Inl _ \<Rightarrow> (fail InternalError ''Password hash failed'', ss)
      | Inr newHash \<Rightarrow>
          run_update oc (''Student not found: '' @ studentId)
            (\<lambda>r. st_id r = studentId) (set_student_hash newHash) ss)"

definition find_student :: "sql_call \<Rightarrow> string \<Rightarrow> students \<Rightarrow> student_record result" where
  "find_student oc sid ss =
     run_select_one oc (''Student not found: '' @ sid) (\<lambda>r. st_id r = sid) student_from_row ss"

definition find_student_by_username ::
  "sql_call \<Rightarrow> string \<Rightarrow> string \<Rightarrow> students \<Rightarrow> student_record result" where
  "find_student_by_username oc tenantId username ss =
     run_select_one oc ''Student not found''
       (\<lambda>r. st_tenant_id r = tenantId \<and> st_username r = username) student_from_row ss"

definition listByClass :: "sql_call \<Rightarrow> string \<Rightarrow> students \<Rightarrow> student_record list result" where
  "listByClass oc classId ss =
     run_select_all oc (\<lambda>r. st_class_id r = classId) st_full_name student_from_row ss"

definition update_student ::
  "sql_call \<Rightarrow> string \<Rightarrow> string \<Rightarrow> students \<Rightarrow> unit result \<times> students" where
  "update_student oc sid fullName ss =
     run_update oc (''Student not found: '' @ sid) (\<lambda>r. st_id r = sid)
       (\<lambda>r. r\<lparr>st_full_name := fullName\<rparr>) ss"

definition remove_student :: "sql_call \<Rightarrow> string \<Rightarrow> students \<Rightarrow> unit result \<times> students" where
  "remove_student oc sid ss =
     run_delete oc (''Student not found: '' @ sid) (\<lambda>r. st_id r = sid) ss"

section \<open>The table invariant\<close>

definition binding_ok :: "student_row \<Rightarrow> bool" where
  "binding_ok r \<longleftrightarrow>
     (st_is_activated r = 1 \<and> st_machine_id r \<noteq> None \<and> st_activated_at r \<noteq> None)
     \<or> (st_is_activated r = 0 \<and> st_machine_id r = None \<and> st_activated_at r = None)"

definition students_ok :: "students \<Rightarrow> bool" where
  "students_ok ss \<longleftrightarrow>
     distinct (map st_id ss)
     \<and> distinct (map (\<lambda>r. (st_tenant_id r, st_username r)) ss)
     \<and> (\<forall>r \<in> set ss. binding_ok r)"

text \<open>Every operation that writes the table, with what its environment answered.\<close>

datatype student_op =
    SCreate "byte list option" "byte list option" int sql_call string string string string string string
  | SActivate sql_call sql_call int string string
  | SReset sql_call string
  | SChangePassword "byte list option" sql_call string string
  | SApplyHash sql_call string string
  | SUpdate sql_call string string
  | SRemove sql_call string

fun student_step :: "crypto \<Rightarrow> student_op \<Rightarrow> students \<Rightarrow> students" where
  "student_step cr (SCreate salt rnd now oc err tenant cls name user pw) ss =
     snd (create_student cr salt rnd now oc err tenant cls name user pw ss)"
| "student_step cr (SActivate oc oc' now sid mid) ss = snd (activate oc oc' now sid mid ss)"
| "student_step cr (SReset oc sid) ss = snd (resetMachine oc sid ss)"
| "student_step cr (SChangePassword salt oc sid pw) ss =
     snd (change_student_password cr salt oc sid pw ss)"
| "student_step cr (SApplyHash oc sid h) ss = snd (apply_student_hash oc sid h ss)"
| "student_step cr (SUpdate oc sid name) ss = snd (update_student oc sid name ss)"
| "student_step cr (SRemove oc sid) ss = snd (remove_student oc sid ss)"

text \<open>What an operation may do to an existing row, under any outcome of its statements.\<close>

definition keeps_keys :: "(student_row \<Rightarrow> student_row) \<Rightarrow> bool" where
  "keeps_keys f \<longleftrightarrow>
     (\<forall>r. st_id (f r) = st_id r \<and> st_tenant_id (f r) = st_tenant_id r
          \<and> st_username (f r) = st_username r \<and> (binding_ok r \<longrightarrow> binding_ok (f r)))"

lemma keeps_keys_ops [simp, intro]:
  "keeps_keys (bind_machine m t)" "keeps_keys clear_machine" "keeps_keys (set_student_hash h)"
  "keeps_keys (\<lambda>r. r\<lparr>st_full_name := n\<rparr>)"
  by (simp_all add: keeps_keys_def bind_machine_def clear_machine_def set_student_hash_def
      binding_ok_def)

lemma students_ok_update:
  assumes "students_ok ss" and "keeps_keys f"
  shows "students_ok (sql_update P f ss)"
  using assms
  by (auto simp: students_ok_def keeps_keys_def set_sql_update distinct_map_sql_update)

lemma students_ok_delete: "students_ok ss \<Longrightarrow> students_ok (sql_delete P ss)"
  by (auto simp: students_ok_def distinct_map_sql_delete)

lemma activate_rows:
  "snd (activate oc oc' now sid mid ss) = ss
   \<or> snd (activate oc oc' now sid mid ss)
       = sql_update (\<lambda>r. st_id r = sid) (bind_machine mid now) ss"
  by (auto simp: activate_def split: sum.split sql_call.split)

lemma change_student_password_rows:
  "snd (change_student_password cr salt oc sid pw ss) = ss
   \<or> (\<exists>h. snd (change_student_password cr salt oc sid pw ss)
           = sql_update (\<lambda>r. st_id r = sid) (set_student_hash h) ss)"
  by (auto simp: change_student_password_def run_update_rows split: sum.split)

lemma create_student_rows:
  "snd (create_student cr salt rnd now oc err tenant cls name user pw ss) = ss
   \<or> (\<exists>r. snd (create_student cr salt rnd now oc err tenant cls name user pw ss) = ss @ [r]
          \<and> st_id r \<notin> st_id ` set ss \<and> binding_ok r
          \<and> (st_tenant_id r, st_username r) \<notin> (\<lambda>r. (st_tenant_id r, st_username r)) ` set ss)"
  by (auto simp: create_student_def binding_ok_def split: sum.split option.split sql_call.split)

lemma student_step_ok: "students_ok ss \<Longrightarrow> students_ok (student_step cr op ss)"
proof (cases op)
  case (SCreate salt rnd now oc err tenant cls name user pw)
  assume "students_ok ss"
  with create_student_rows [of cr salt rnd now oc err tenant cls name user pw ss]
  show ?thesis by (auto simp: SCreate students_ok_def)
next
  case (SActivate oc oc' now sid mid)
  assume "students_ok ss"
  with activate_rows [of oc oc' now sid mid ss]
  show ?thesis by (auto simp: SActivate students_ok_update)
next
  case (SChangePassword salt oc sid pw)
  assume "students_ok ss"
  with change_student_password_rows [of cr salt oc sid pw ss]
  show ?thesis by (auto simp: SChangePassword students_ok_update)
qed (auto simp: resetMachine_def apply_student_hash_def update_student_def remove_student_def
    run_update_rows run_delete_rows students_ok_update students_ok_delete)

lemma students_ok_fold: "students_ok ss \<Longrightarrow> students_ok (fold (student_step cr) ops ss)"
  by (induction ops arbitrary: ss) (simp_all add: student_step_ok)

text \<open>
  Starting from the empty table and under any outcome of every statement, no series
  of repository calls produces two students with the same identifier, or two students of
  one tenant with the same user name, or a half-made machine binding: a student is either
  activated with a machine and a time, or not activated with neither.
\<close>

theorem students_table_invariant: "students_ok (fold (student_step cr) ops [])"
  by (rule students_ok_fold) (simp add: students_ok_def)

section \<open>The binding to a machine\<close>

text \<open>The operations that take the binding of a student away.\<close>

fun releases :: "string \<Rightarrow> student_op \<Rightarrow> bool" where
  "releases sid (SReset oc i) = (i = sid)"
| "releases sid (SChangePassword salt oc i pw) = (i = sid)"
| "releases sid (SApplyHash oc i h) = (i = sid)"
| "releases sid (SRemove oc i) = (i = sid)"
| "releases sid op = False"

definition bound :: "string \<Rightarrow> string \<Rightarrow> students \<Rightarrow> bool" where
  "bound sid mid ss \<longleftrightarrow>
     (case find (\<lambda>r. st_id r = sid) ss of
        None \<Rightarrow> False
      | Some r \<Rightarrow> st_machine_id r = Some mid \<and> st_is_activated r \<noteq> 0)"

lemma find_student_update:
  "keeps_keys f \<Longrightarrow>
   find (\<lambda>r. st_id r = j) (sql_update P f ss)
   = map_option (\<lambda>r. if P r then f r else r) (find (\<lambda>r. st_id r = j) ss)"
  by (rule find_sql_update) (simp add: keeps_keys_def)

lemma find_student_key_update:
  "keeps_keys f \<Longrightarrow>
   find (\<lambda>r. st_id r = j) (sql_update (\<lambda>r. st_id r = i) f ss)
   = (if j = i then map_option f (find (\<lambda>r. st_id r = i) ss) else find (\<lambda>r. st_id r = j) ss)"
  by (rule find_key_sql_update) (simp add: keeps_keys_def)

lemma bound_update:
  assumes "bound sid mid ss" and "keeps_keys f"
    and "\<And>r. P r \<Longrightarrow> st_id r = sid \<Longrightarrow>
           st_machine_id (f r) = st_machine_id r \<and> st_is_activated (f r) = st_is_activated r"
  shows "bound sid mid (sql_update P f ss)"
proof -
  obtain r where r: "find (\<lambda>r. st_id r = sid) ss = Some r" "st_machine_id r = Some mid"
    "st_is_activated r \<noteq> 0"
    using assms(1) by (auto simp: bound_def split: option.splits)
  then have "st_id r = sid" by (blast dest: find_SomeD)
  with r assms(2,3) show ?thesis by (simp add: bound_def find_student_update)
qed

lemma activate_bound:
  assumes "bound sid mid ss"
  shows "activate Completes oc' now sid m ss
         = (fail Conflict ''Machine already activated for this student'', ss)"
  using assms
  by (auto simp: bound_def activate_def run_select_one_def ok_def split: option.splits)

lemma activate_bound_rows:
  assumes "bound sid mid ss"
  shows "snd (activate oc oc' now sid m ss) = ss"
  using activate_bound [OF assms]
  by (cases oc) (simp_all add: activate_def run_select_one_def fail_def)

lemma bound_step:
  assumes "bound sid mid ss" and "\<not> releases sid op"
  shows "bound sid mid (student_step cr op ss)"
proof (cases op)
  case (SCreate salt rnd now oc err tenant cls name user pw)
  with create_student_rows [of cr salt rnd now oc err tenant cls name user pw ss] assms(1)
  show ?thesis by (auto simp: bound_def find_append split: option.splits)
next
  case (SActivate oc oc' now i m)
  show ?thesis
  proof (cases "i = sid")
    case True
    with SActivate assms(1) show ?thesis by (simp add: activate_bound_rows)
  next
    case False
    with SActivate activate_rows [of oc oc' now i m ss] assms(1) show ?thesis
      by (auto simp: bound_update)
  qed
next
  case (SChangePassword salt oc i pw)
  with change_student_password_rows [of cr salt oc i pw ss] assms show ?thesis
    by (auto simp: bound_update)
next
  case (SRemove oc i)
  with assms have "find (\<lambda>r. st_id r = sid) (sql_delete (\<lambda>r. st_id r = i) ss)
      = find (\<lambda>r. st_id r = sid) ss"
    by (intro find_sql_delete_other) auto
  with SRemove assms show ?thesis
    by (auto simp: remove_student_def run_delete_rows bound_def)
qed (use assms in \<open>auto simp: resetMachine_def apply_student_hash_def update_student_def
    run_update_rows bound_update\<close>)

lemma bound_fold:
  "bound sid mid ss \<Longrightarrow> list_all (\<lambda>op. \<not> releases sid op) ops
   \<Longrightarrow> bound sid mid (fold (student_step cr) ops ss)"
  by (induction ops arbitrary: ss) (simp_all add: bound_step)

lemma activate_binds:
  assumes "fst (activate oc oc' now sid mid ss) = Inr ()"
  shows "bound sid mid (snd (activate oc oc' now sid mid ss))"
proof -
  obtain r where r: "find (\<lambda>r. st_id r = sid) ss = Some r" and "oc' = Completes"
    and rows: "snd (activate oc oc' now sid mid ss)
               = sql_update (\<lambda>r. st_id r = sid) (bind_machine mid now) ss"
    using assms
    by (cases oc; cases oc')
      (auto simp: activate_def run_select_one_def ok_def fail_def
        split: option.splits if_splits)
  from r have "st_id r = sid" by (blast dest: find_SomeD)
  with r show ?thesis by (simp add: rows bound_def find_student_update bind_machine_def)
qed

text \<open>
  C34: A student who has been activated on a machine stays bound to that machine through
  every operation that is not a reset, a password change or a removal of this student, and
  every further activation, from the same machine or another, is refused with a conflict
  and changes nothing.
\<close>

theorem machine_binding_lasts:
  assumes "fst (activate oc oc' now sid mid ss) = Inr ()"
    and "list_all (\<lambda>op. \<not> releases sid op) ops"
    and "ss' = fold (student_step cr) ops (snd (activate oc oc' now sid mid ss))"
  shows "bound sid mid ss'
    \<and> activate Completes oc'' t sid mid' ss'
        = (fail Conflict ''Machine already activated for this student'', ss')"
  using bound_fold [OF activate_binds [OF assms(1)] assms(2), of cr]
  by (simp add: assms(3) activate_bound)

definition sample_student :: student_row where
  "sample_student = \<lparr>st_id = ''s1'', st_tenant_id = ''t1'', st_class_id = ''c1'',
     st_full_name = ''Ann Lee'', st_username = ''ann'', st_password_hash = ''$argon2id$pw'',
     st_machine_id = None, st_is_activated = 0, st_activated_at = None, st_created_at = 5\<rparr>"

theorem machine_binding_lasts_witness:
  "bound ''s1'' ''pc7''
     (fold (student_step sample_crypto) [SUpdate Completes ''s1'' ''Ann'', SReset Completes ''s2'']
        (snd (activate Completes Completes 9 ''s1'' ''pc7'' [sample_student])))"
  using machine_binding_lasts [of Completes Completes 9 "''s1''" "''pc7''" "[sample_student]"
      "[SUpdate Completes ''s1'' ''Ann'', SReset Completes ''s2'']", OF _ _ refl]
  by (simp add: activate_def run_select_one_def sample_student_def ok_def)

section \<open>Passwords\<close>

definition student_hash :: "string \<Rightarrow> students \<Rightarrow> string option" where
  "student_hash sid ss = map_option st_password_hash (find (\<lambda>r. st_id r = sid) ss)"

definition put_student_hash :: "string \<Rightarrow> string \<Rightarrow> students \<Rightarrow> bool \<times> students" where
  "put_student_hash sid h ss =
     (is_ok (fst (apply_student_hash Completes sid h ss)),
      snd (apply_student_hash Completes sid h ss))"

interpretation student_credentials: credential_store student_hash put_student_hash
proof
  fix i j :: string and h :: string and s :: students
  show "fst (put_student_hash i h s) \<longleftrightarrow> student_hash i s \<noteq> None"
    by (simp add: put_student_hash_def student_hash_def is_ok_unit apply_student_hash_def
        run_update_ok_iff find_None_iff_all)
  show "student_hash j (snd (put_student_hash i h s))
      = (if j = i \<and> student_hash i s \<noteq> None then Some h else student_hash j s)"
    by (auto simp: put_student_hash_def student_hash_def apply_student_hash_def run_update_rows
        find_student_key_update set_student_hash_def)
qed

lemma authenticate_student_ok_iff:
  "authenticate_student cr oc user pw tenant ss = Inr rec \<longleftrightarrow>
     oc = Completes
     \<and> (\<exists>r. find (\<lambda>r. st_tenant_id r = tenant \<and> st_username r = user) ss = Some r
           \<and> verifyPassword cr pw (st_password_hash r) \<and> rec = student_from_row r)"
  by (auto simp: authenticate_student_def findByUsernameWithHash_def run_select_one_def
      ok_def fail_def split: sql_call.split option.split)

lemma authenticate_student_error:
  "authenticate_student cr oc user pw tenant ss = Inl e
   \<Longrightarrow> e = ApiError AuthenticationFailed ''Invalid credentials''"
  by (auto simp: authenticate_student_def ok_def fail_def split: sum.splits if_splits)

text \<open>In a table that satisfies the invariant both keys find the row itself.\<close>

lemma students_ok_find:
  assumes "students_ok ss" and "r \<in> set ss"
  shows "find (\<lambda>x. st_id x = st_id r) ss = Some r"
    and "find (\<lambda>x. st_tenant_id x = st_tenant_id r \<and> st_username x = st_username r) ss = Some r"
proof -
  from assms show "find (\<lambda>x. st_id x = st_id r) ss = Some r"
    by (auto simp: students_ok_def intro: find_Some_distinct)
  have "find (\<lambda>x. (st_tenant_id x, st_username x) = (st_tenant_id r, st_username r)) ss = Some r"
    using assms by (intro find_Some_distinct) (auto simp: students_ok_def)
  then show "find (\<lambda>x. st_tenant_id x = st_tenant_id r \<and> st_username x = st_username r) ss = Some r"
    by simp
qed

lemma change_student_password_result:
  assumes "students_ok ss" and "r \<in> set ss" and "hashPassword cr salt pw = Inr h"
    and "ss' = snd (change_student_password cr salt Completes (st_id r) pw ss)"
  shows "fst (change_student_password cr salt Completes (st_id r) pw ss) = Inr ()
    \<and> authenticate_student cr Completes (st_username r) pw' (st_tenant_id r) ss'
        = (if verifyPassword cr pw' h then Inr (student_from_row (clear_machine r))
           else Inl (ApiError AuthenticationFailed ''Invalid credentials''))
    \<and> filter (\<lambda>x. st_id x \<noteq> st_id r) ss' = filter (\<lambda>x. st_id x \<noteq> st_id r) ss"
proof -
  have ss': "ss' = sql_update (\<lambda>x. st_id x = st_id r) (set_student_hash h) ss"
    by (simp add: assms(3,4) change_student_password_def run_update_rows)
  have "find (\<lambda>x. st_tenant_id x = st_tenant_id r \<and> st_username x = st_username r) ss'
      = map_option (\<lambda>x. if st_id x = st_id r then set_student_hash h x else x)
          (find (\<lambda>x. st_tenant_id x = st_tenant_id r \<and> st_username x = st_username r) ss)"
    unfolding ss'
    using find_sql_update [where k = "\<lambda>x. (st_tenant_id x, st_username x)"
        and j = "(st_tenant_id r, st_username r)" and P = "\<lambda>x. st_id x = st_id r"
        and f = "set_student_hash h" and rows = ss]
    by (simp add: set_student_hash_def clear_machine_def)
  then have "find (\<lambda>x. st_tenant_id x = st_tenant_id r \<and> st_username x = st_username r) ss'
      = Some (set_student_hash h r)"
    by (simp add: students_ok_find [OF assms(1,2)])
  then have "authenticate_student cr Completes (st_username r) pw' (st_tenant_id r) ss'
      = (if verifyPassword cr pw' h then Inr (student_from_row (clear_machine r))
         else Inl (ApiError AuthenticationFailed ''Invalid credentials''))"
    by (simp add: authenticate_student_def findByUsernameWithHash_def run_select_one_def
        set_student_hash_def clear_machine_def student_from_row_def ok_def fail_def)
  moreover have "fst (change_student_password cr salt Completes (st_id r) pw ss) = Inr ()"
    using assms(2,3) by (auto simp: change_student_password_def run_update_ok_iff)
  moreover have "filter (\<lambda>x. st_id x \<noteq> st_id r) ss' = filter (\<lambda>x. st_id x \<noteq> st_id r) ss"
    unfolding ss' sql_update_def
    by (rule filter_map_unchanged) (simp_all add: set_student_hash_def clear_machine_def)
  ultimately show ?thesis by blast
qed

text \<open>
  After a password change that the database carries out, the student logs in with
  exactly the passwords that verify against the new hash, as a student without a machine
  binding; every other password meets the one error of a failed login, and no other row of
  the table has changed.
\<close>

theorem password_change_effect:
  assumes "students_ok ss" and "r \<in> set ss" and "hashPassword cr salt pw = Inr h"
    and "ss' = snd (change_student_password cr salt Completes (st_id r) pw ss)"
  shows "fst (change_student_password cr salt Completes (st_id r) pw ss) = Inr ()
    \<and> authenticate_student cr Completes (st_username r) pw' (st_tenant_id r) ss'
        = (if verifyPassword cr pw' h then Inr (student_from_row (clear_machine r))
           else Inl (ApiError AuthenticationFailed ''Invalid credentials''))
    \<and> filter (\<lambda>x. st_id x \<noteq> st_id r) ss' = filter (\<lambda>x. st_id x \<noteq> st_id r) ss"
  using assms by (rule change_student_password_result)

theorem password_change_effect_witness:
  "authenticate_student sample_crypto Completes ''ann'' ''new'' ''t1''
     (snd (change_student_password sample_crypto (Some []) Completes ''s1'' ''new'' [sample_student]))
   = Inr (student_from_row (clear_machine sample_student))
   \<and> authenticate_student sample_crypto Completes ''ann'' ''pw'' ''t1''
     (snd (change_student_password sample_crypto (Some []) Completes ''s1'' ''new'' [sample_student]))
   = Inl (ApiError AuthenticationFailed ''Invalid credentials'')"
proof -
  have wf: "students_ok [sample_student]"
    by (simp add: students_ok_def binding_ok_def sample_student_def)
  have h: "hashPassword sample_crypto (Some []) ''new'' = Inr ''$argon2id$new''"
    by (simp add: hashPassword_def sample_crypto_def ok_def c_str_def)
  have "verifyPassword sample_crypto ''new'' ''$argon2id$new''"
    "\<not> verifyPassword sample_crypto ''pw'' ''$argon2id$new''"
    by (simp_all add: verifyPassword_def starts_with_def sample_crypto_def c_str_def)
  then show ?thesis
    using password_change_effect [OF wf _ h refl, of sample_student "''new''"]
      password_change_effect [OF wf _ h refl, of sample_student "''pw''"]
    by (simp add: sample_student_def)
qed

end
