(* ===== verification/Request_Tickets.thy ===== *)
theory Request_Tickets
  imports Student_Repository Teacher_Repository
begin

text \<open>
  The tickets by which a student or teacher asks for a new password and a superior
  accepts or rejects: src/db/PendingRequestRepository.cpp on the tables of the school
  database. A call that spans several statements takes the outcome of each. The lemmas
  show that accepting is atomic under every failure, that a resolved ticket is never
  touched again, and when there is at most one open ticket of a kind.
\<close>

section \<open>The database\<close>

record request_row =
  pr_id :: string
  pr_tenant_id :: string
  pr_from_id :: string
  pr_from_role :: string
  pr_to_id :: string
  pr_to_role :: string
  pr_type :: string
  pr_payload :: string
  pr_status :: string
  pr_created_at :: int
  pr_resolved_at :: "int option"

record class_row =
  cl_row_id :: string
  cl_tenant_id :: string
  cl_school_id :: "string option"
  cl_name :: string
  cl_teacher_id :: "string option"
  cl_created_at :: int

record school_db =
  sd_students :: students
  sd_teachers :: teachers
  sd_classes :: "class_row list"
  sd_requests :: "request_row list"

text \<open>The record handed out has 0 for a resolution time that is not set.\<close>

record request_record =
  rr_id :: string
  rr_tenantId :: string
  rr_fromId :: string
  rr_fromRole :: string
  rr_toId :: string
  rr_toRole :: string
  rr_type :: string
  rr_payload :: string
  rr_status :: string
  rr_createdAt :: int
  rr_resolvedAt :: int

definition rowToRecord :: "request_row \<Rightarrow> request_record" where
  "rowToRecord r =
     \<lparr>rr_id = pr_id r, rr_tenantId = pr_tenant_id r, rr_fromId = pr_from_id r,
      rr_fromRole = pr_from_role r, rr_toId = pr_to_id r, rr_toRole = pr_to_role r,
      rr_type = pr_type r, rr_payload = pr_payload r, rr_status = pr_status r,
      rr_createdAt = pr_created_at r,
      rr_resolvedAt = (case pr_resolved_at r of None \<Rightarrow> 0 | Some t \<Rightarrow> t)\<rparr>"

section \<open>Operations\<close>

definition resolve :: "string \<Rightarrow> int \<Rightarrow> request_row \<Rightarrow> request_row" where
  "resolve status now r = r\<lparr>pr_status := status, pr_resolved_at := Some now\<rparr>"

definition open_request :: "string \<Rightarrow> string \<Rightarrow> request_row \<Rightarrow> bool" where
  "open_request fromId type r \<longleftrightarrow>
     pr_from_id r = fromId \<and> pr_type r = type \<and> pr_status r = ''pending''"

text \<open>
  The cancelling statement's step result is not looked at: a step that fails leaves the
  rows as they are and the insertion goes ahead. There is no transaction around the two.
\<close>

definition submit ::
  "byte list option \<Rightarrow> int \<Rightarrow> sql_call \<Rightarrow> sql_call \<Rightarrow> string
     \<Rightarrow> string \<Rightarrow> string \<Rightarrow> string \<Rightarrow> string \<Rightarrow> string \<Rightarrow> string \<Rightarrow> string
     \<Rightarrow> request_row list \<Rightarrow> string result \<times> request_row list" where
  "submit rnd now ocCancel ocInsert keyErr tenantId fromId fromRole toId toRole type payload rs =
     (case generateUuid rnd of
        None \<Rightarrow> (fail InternalError ''UUID generation failed'', rs)
      | Some newId \<Rightarrow>
     (case ocCancel of
        PrepareError m \<Rightarrow> (fail InternalError m, rs)
      | _ \<Rightarrow>
          let rs' = (if ocCancel = Completes
                     then sql_update (open_request fromId type) (resolve ''rejected'' now) rs
                     else rs)
          in case ocInsert of
               PrepareError m \<Rightarrow> (fail InternalError m, rs')
             | StepError m \<Rightarrow> (fail InternalError m, rs')
             | Completes \<Rightarrow>
                 if newId \<in> pr_id ` set rs' then (fail InternalError keyErr, rs')
                 else (ok newId,
                       rs' @ [\<lparr>pr_id = newId, pr_tenant_id = tenantId, pr_from_id = fromId,
                               pr_from_role = fromRole, pr_to_id = toId, pr_to_role = toRole,
                               pr_type = type, pr_payload = payload, pr_status = ''pending'',
                               pr_created_at = now, pr_resolved_at = None\<rparr>])))"

definition listPendingForRecipient ::
  "sql_call \<Rightarrow> string \<Rightarrow> request_row list \<Rightarrow> request_record list result" where
  "listPendingForRecipient oc toId rs =
     run_select_all oc (\<lambda>r. pr_to_id r = toId \<and> pr_status r = ''pending'')
       (\<lambda>r. - pr_created_at r) rowToRecord rs"

definition listBySubmitter ::
  "sql_call \<Rightarrow> string \<Rightarrow> request_row list \<Rightarrow> request_record list result" where
  "listBySubmitter oc fromId rs =
     run_select_all oc (\<lambda>r. pr_from_id r = fromId) (\<lambda>r. - pr_created_at r) rowToRecord rs"

definition find_request :: "sql_call \<Rightarrow> string \<Rightarrow> request_row list \<Rightarrow> request_record result" where
  "find_request oc rid rs =
     run_select_one oc (''Request not found: '' @ rid) (\<lambda>r. pr_id r = rid) rowToRecord rs"

definition accept :: "int \<Rightarrow> sql_call \<Rightarrow> string \<Rightarrow> request_row list \<Rightarrow> unit result \<times> request_row list" where
  "accept now oc rid rs =
     run_update oc (''Request not found or not pending: '' @ rid)
       (\<lambda>r. pr_id r = rid \<and> pr_status r = ''pending'') (resolve ''accepted'' now) rs"

definition reject :: "int \<Rightarrow> sql_call \<Rightarrow> string \<Rightarrow> request_row list \<Rightarrow> unit result \<times> request_row list" where
  "reject now oc rid rs =
     run_update oc (''Request not found or not pending: '' @ rid)
       (\<lambda>r. pr_id r = rid \<and> pr_status r = ''pending'') (resolve ''rejected'' now) rs"

text \<open>
  The transaction: the message of a failing BEGIN or COMMIT, and the outcomes of the two
  updates. \<open>rollback\<close> gives back the database as it was at BEGIN.
\<close>

record tx_env =
  tx_begin :: "string option"
  tx_password :: sql_call
  tx_accept :: sql_call
  tx_commit :: "string option"

definition rollback :: "school_db \<Rightarrow> school_db \<Rightarrow> school_db" where
  "rollback at_begin db = at_begin"

definition update_password :: "string \<Rightarrow> string \<Rightarrow> string \<Rightarrow> school_db \<Rightarrow> nat \<times> school_db" where
  "update_password fromRole fromId h db =
     (if fromRole = ''student''
      then (sql_changes (\<lambda>r. st_id r = fromId) (sd_students db),
            db\<lparr>sd_students := sql_update (\<lambda>r. st_id r = fromId) (set_student_hash h) (sd_students db)\<rparr>)
      else (sql_changes (\<lambda>r. te_id r = fromId) (sd_teachers db),
            db\<lparr>sd_teachers := sql_update (\<lambda>r. te_id r = fromId) (set_teacher_hash h) (sd_teachers db)\<rparr>))"

definition acceptAndApplyPassword ::
  "int \<Rightarrow> tx_env \<Rightarrow> string \<Rightarrow> string \<Rightarrow> string \<Rightarrow> string \<Rightarrow> school_db \<Rightarrow> unit result \<times> school_db" where
  "acceptAndApplyPassword now tx rid fromRole fromId passwordHash db =
     (if \<not> starts_with passwordHash ''$argon2id$''
      then (fail InvalidRequest ''password_hash is not a valid argon2id encoded string'', db)
      else case tx_begin tx of
        Some m \<Rightarrow> (fail InternalError m, db)
      | None \<Rightarrow>
     (case tx_password tx of
        PrepareError m \<Rightarrow> (fail InternalError m, rollback db db)
      | StepError m \<Rightarrow> (fail InternalError m, rollback db db)
      | Completes \<Rightarrow>
          let (changed, db1) = update_password fromRole fromId passwordHash db in
          if changed = 0
          then (fail NotFound (''Subject not found: '' @ fromId), rollback db db1)
          else case tx_accept tx of
            PrepareError m \<Rightarrow> (fail InternalError m, rollback db db1)
          | StepError m \<Rightarrow> (fail InternalError m, rollback db db1)
          | Completes \<Rightarrow>
              let P = (\<lambda>r. pr_id r = rid \<and> pr_status r = ''pending'');
                  db2 = db1\<lparr>sd_requests := sql_update P (resolve ''accepted'' now) (sd_requests db1)\<rparr>
              in if sql_changes P (sd_requests db1) = 0
                 then (fail NotFound (''Request not found or already resolved: '' @ rid),
                       rollback db db2)
                 else case tx_commit tx of
                   Some m \<Rightarrow> (fail InternalError m, rollback db db2)
                 | None \<Rightarrow> (ok (), db2)))"

section \<open>Accepting is atomic\<close>

definition account_hash :: "string \<Rightarrow> string \<Rightarrow> school_db \<Rightarrow> string option" where
  "account_hash role i db =
     (if role = ''student'' then student_hash i (sd_students db) else teacher_hash i (sd_teachers db))"

lemma account_hash_requests [simp]:
  "account_hash r j (db\<lparr>sd_requests := rs\<rparr>) = account_hash r j db"
  by (simp add: account_hash_def)

lemma accept_error_keeps:
  "fst (acceptAndApplyPassword now tx rid role i h db) = Inl e
   \<Longrightarrow> snd (acceptAndApplyPassword now tx rid role i h db) = db"
  by (auto simp: acceptAndApplyPassword_def Let_def rollback_def ok_def
      split: option.splits sql_call.splits prod.splits if_splits)

lemma accept_ok_db:
  assumes "fst (acceptAndApplyPassword now tx rid role i h db) = Inr u"
  shows "snd (acceptAndApplyPassword now tx rid role i h db)
      = (snd (update_password role i h db))
          \<lparr>sd_requests := sql_update (\<lambda>r. pr_id r = rid \<and> pr_status r = ''pending'')
             (resolve ''accepted'' now) (sd_requests db)\<rparr>
    \<and> starts_with h ''$argon2id$'' \<and> fst (update_password role i h db) \<noteq> 0
    \<and> (\<exists>r \<in> set (sd_requests db). pr_id r = rid \<and> pr_status r = ''pending'')"
proof -
  have "sd_requests (snd (update_password role i h db)) = sd_requests db"
    by (simp add: update_password_def)
  with assms show ?thesis
    by (auto simp: acceptAndApplyPassword_def Let_def fail_def sql_changes_def filter_empty_conv
        split: option.splits sql_call.splits prod.splits if_splits)
qed

lemma update_password_effect:
  assumes "fst (update_password role i h db) \<noteq> 0"
  shows "account_hash role i (snd (update_password role i h db)) = Some h"
    and "j \<noteq> i \<or> (role' = ''student'') \<noteq> (role = ''student'') \<Longrightarrow>
         account_hash role' j (snd (update_password role i h db)) = account_hash role' j db"
proof -
  have c: "student_hash i (sd_students db) \<noteq> None" if "role = ''student''"
    using assms that by (auto simp: update_password_def sql_changes_0_iff student_hash_def find_None_iff)
  have t: "teacher_hash i (sd_teachers db) \<noteq> None" if "role \<noteq> ''student''"
    using assms that by (auto simp: update_password_def sql_changes_0_iff teacher_hash_def find_None_iff)
  have s: "snd (put_student_hash i h ss) = sql_update (\<lambda>r. st_id r = i) (set_student_hash h) ss" for ss
    by (simp add: put_student_hash_def apply_student_hash_def run_update_rows)
  have t': "snd (put_teacher_hash i h ts) = sql_update (\<lambda>r. te_id r = i) (set_teacher_hash h) ts" for ts
    by (simp add: put_teacher_hash_def apply_teacher_hash_def run_update_rows)
  show "account_hash role i (snd (update_password role i h db)) = Some h"
    using c t student_credentials.put_stored [of i i h "sd_students db", unfolded s]
      teacher_credentials.put_stored [of i i h "sd_teachers db", unfolded t']
    by (simp add: account_hash_def update_password_def)
  show "j \<noteq> i \<or> (role' = ''student'') \<noteq> (role = ''student'') \<Longrightarrow>
      account_hash role' j (snd (update_password role i h db)) = account_hash role' j db"
    using student_credentials.put_only_the_account [of j i h "sd_students db", unfolded s]
      teacher_credentials.put_only_the_account [of j i h "sd_teachers db", unfolded t']
    by (auto simp: account_hash_def update_password_def)
qed

text \<open>
  C1: Accepting a ticket happens completely or not at all, whichever statement of the
  transaction fails: an error leaves the whole database as it was; success means that the
  ticket was open and is now accepted, that the account of the submitter has exactly the
  given argon2id hash, and that no other account's hash, no other ticket and no class has
  changed.
\<close>

theorem accept_atomic:
  "(case acceptAndApplyPassword now tx rid role i h db of
      (Inl e, db') \<Rightarrow> db' = db
    | (Inr u, db') \<Rightarrow>
        starts_with h ''$argon2id$''
        \<and> account_hash role i db' = Some h
        \<and> (\<exists>r \<in> set (sd_requests db). pr_id r = rid \<and> pr_status r = ''pending'')
        \<and> sd_requests db' = map (\<lambda>r. if pr_id r = rid \<and> pr_status r = ''pending''
                                     then resolve ''accepted'' now r else r) (sd_requests db)
        \<and> sd_classes db' = sd_classes db
        \<and> (\<forall>role' j. account_hash role' j db' = account_hash role' j db
              \<or> j = i \<and> (role' = ''student'' \<longleftrightarrow> role = ''student'')))"
proof (cases "fst (acceptAndApplyPassword now tx rid role i h db)")
  case (Inl e)
  then show ?thesis using accept_error_keeps [OF Inl] by (simp add: split_beta)
next
  case (Inr u)
  note db' = accept_ok_db [OF Inr]
  then have n: "fst (update_password role i h db) \<noteq> 0" by blast
  have [simp]: "sd_classes (snd (update_password role i h db)) = sd_classes db"
    by (simp add: update_password_def)
  have "account_hash role' j (snd (update_password role i h db)) = account_hash role' j db
      \<or> j = i \<and> (role' = ''student'' \<longleftrightarrow> role = ''student'')" for role' j
    using update_password_effect(2) [OF n] by blast
  with Inr db' update_password_effect(1) [OF n] show ?thesis
    by (simp add: split_beta sql_update_def)
qed

section \<open>The life of a ticket\<close>

datatype ticket_op =
    TSubmit "byte list option" int sql_call sql_call string string string string string string string string
  | TAccept int tx_env string string string string
  | TMark int sql_call string
  | TReject int sql_call string

fun ticket_step :: "ticket_op \<Rightarrow> school_db \<Rightarrow> school_db" where
  "ticket_step (TSubmit rnd now ocC ocI err tenant sender fromRole to toRole type payload) db =
     db\<lparr>sd_requests := snd (submit rnd now ocC ocI err tenant sender fromRole to toRole type payload
                             (sd_requests db))\<rparr>"
| "ticket_step (TAccept now tx rid role i h) db = snd (acceptAndApplyPassword now tx rid role i h db)"
| "ticket_step (TMark now oc rid) db = db\<lparr>sd_requests := snd (accept now oc rid (sd_requests db))\<rparr>"
| "ticket_step (TReject now oc rid) db = db\<lparr>sd_requests := snd (reject now oc rid (sd_requests db))\<rparr>"

text \<open>Each operation on the tickets is a resolution of open ones, an insertion, or both.\<close>

lemma accept_requests:
  "sd_requests (snd (acceptAndApplyPassword now tx rid role i h db)) = sd_requests db
   \<or> sd_requests (snd (acceptAndApplyPassword now tx rid role i h db))
       = sql_update (\<lambda>r. pr_id r = rid \<and> pr_status r = ''pending'') (resolve ''accepted'' now)
           (sd_requests db)"
proof (cases "fst (acceptAndApplyPassword now tx rid role i h db)")
  case (Inl e)
  then show ?thesis by (simp add: accept_error_keeps [OF Inl])
next
  case (Inr u)
  then show ?thesis using accept_ok_db [OF Inr] by simp
qed

lemma keeps_resolved_update:
  assumes "x \<in> set rs" and "pr_status x \<noteq> ''pending''"
    and "\<And>r. P r \<Longrightarrow> pr_status r = ''pending''"
  shows "x \<in> set (sql_update P f rs)"
  using assms by (force simp: set_sql_update)

lemma submit_rows:
  "\<exists>rs'. (rs' = rs \<or> rs' = sql_update (open_request sender type) (resolve ''rejected'' now) rs)
     \<and> (snd (submit rnd now ocC ocI err tenant sender fromRole to toRole type payload rs) = rs'
        \<or> (\<exists>r. snd (submit rnd now ocC ocI err tenant sender fromRole to toRole type payload rs) = rs' @ [r]))"
  by (auto simp: submit_def Let_def split: option.split sql_call.split)

lemma ticket_step_keeps_resolved:
  assumes x: "x \<in> set (sd_requests db)" "pr_status x \<noteq> ''pending''"
  shows "x \<in> set (sd_requests (ticket_step op db))"
proof (cases op)
  case (TSubmit rnd now ocC ocI err tenant sender fromRole to toRole type payload)
  have "x \<in> set (sql_update (open_request sender type) (resolve ''rejected'' now) (sd_requests db))"
    by (rule keeps_resolved_update [OF x]) (simp add: open_request_def)
  with x submit_rows [of "sd_requests db" sender type now rnd ocC ocI err tenant fromRole to toRole payload]
  show ?thesis by (auto simp: TSubmit)
next
  case (TAccept now tx rid role i h)
  with accept_requests [of now tx rid role i h db] x show ?thesis
    by (auto intro: keeps_resolved_update)
qed (use x in \<open>auto simp: accept_def reject_def run_update_rows intro: keeps_resolved_update\<close>)

lemma tickets_keep_resolved:
  "x \<in> set (sd_requests db) \<Longrightarrow> pr_status x \<noteq> ''pending''
   \<Longrightarrow> x \<in> set (sd_requests (fold ticket_step ops db))"
  by (induction ops arbitrary: db) (simp_all add: ticket_step_keeps_resolved)

text \<open>
  A ticket that has been accepted or rejected is final: through any later submissions,
  acceptances and rejections, with any failures, its row stays exactly as it is.
\<close>

theorem resolved_ticket_is_final:
  assumes "x \<in> set (sd_requests db)" and "pr_status x \<noteq> ''pending''"
  shows "x \<in> set (sd_requests (fold ticket_step ops db))"
  using assms by (rule tickets_keep_resolved)

definition sample_ticket :: "string \<Rightarrow> string \<Rightarrow> request_row" where
  "sample_ticket i status = \<lparr>pr_id = i, pr_tenant_id = ''t1'', pr_from_id = ''s1'',
     pr_from_role = ''student'', pr_to_id = ''te1'', pr_to_role = ''teacher'',
     pr_type = ''change_password'', pr_payload = ''p'', pr_status = status,
     pr_created_at = 1, pr_resolved_at = None\<rparr>"

definition sample_db :: "request_row list \<Rightarrow> school_db" where
  "sample_db rs = \<lparr>sd_students = [sample_student], sd_teachers = [], sd_classes = [],
                   sd_requests = rs\<rparr>"

theorem resolved_ticket_is_final_witness:
  "sample_ticket ''q1'' ''rejected''
     \<in> set (sd_requests (fold ticket_step [TMark 5 Completes ''q1'', TReject 6 Completes ''q1'']
                            (sample_db [sample_ticket ''q1'' ''rejected''])))"
  by (rule resolved_ticket_is_final) (simp_all add: sample_db_def sample_ticket_def)

section \<open>Open tickets\<close>

definition open_tickets :: "string \<Rightarrow> string \<Rightarrow> request_row list \<Rightarrow> nat" where
  "open_tickets sender type rs = length (filter (open_request sender type) rs)"

text \<open>The cancelling statement did not fail in its step.\<close>

fun cancel_effective :: "ticket_op \<Rightarrow> bool" where
  "cancel_effective (TSubmit rnd now ocC ocI err tenant sender fromRole to toRole type payload) =
     (case ocC of StepError _ \<Rightarrow> False | _ \<Rightarrow> True)"
| "cancel_effective _ = True"

lemma open_tickets_resolve:
  assumes "status \<noteq> ''pending''"
  shows "open_tickets sender type (sql_update P (resolve status now) rs) \<le> open_tickets sender type rs"
  unfolding open_tickets_def sql_update_def
  by (rule length_filter_map_le) (use assms in \<open>auto simp: open_request_def resolve_def split: if_splits\<close>)

lemma open_tickets_resolve_one:
  "open_tickets f t rs \<le> Suc 0 \<Longrightarrow> status \<noteq> ''pending''
   \<Longrightarrow> open_tickets f t (sql_update P (resolve status now) rs) \<le> Suc 0"
  by (rule order_trans [OF open_tickets_resolve])

lemma open_tickets_cancelled:
  "open_tickets sender type (sql_update (open_request sender type) (resolve ''rejected'' now) rs) = 0"
proof -
  have "\<not> open_request sender type (resolve ''rejected'' now r)" for r
    by (simp add: open_request_def resolve_def)
  then show ?thesis by (auto simp: open_tickets_def filter_empty_conv set_sql_update)
qed

lemma open_tickets_append:
  "open_tickets sender type (rs @ [r])
   = open_tickets sender type rs + (if open_request sender type r then 1 else 0)"
  by (simp add: open_tickets_def)

lemma submit_open_tickets:
  assumes "\<And>m. ocC \<noteq> StepError m" and "\<And>f t. open_tickets f t rs \<le> 1"
  shows "open_tickets f t (snd (submit rnd now ocC ocI err tenant sender fromRole to toRole type payload rs)) \<le> 1"
proof -
  define rs' where "rs' = sql_update (open_request sender type) (resolve ''rejected'' now) rs"
  have le: "open_tickets f t rs' \<le> 1"
    using open_tickets_resolve [of "''rejected''" f t "open_request sender type" now rs] assms(2) [of f t]
    by (simp add: rs'_def)
  have "open_tickets f t (rs' @ [r]) \<le> 1"
    if "pr_from_id r = sender" and "pr_type r = type" for r
    using le that open_tickets_cancelled [of sender type now rs]
    by (auto simp: open_tickets_append rs'_def open_request_def)
  with le assms show ?thesis
    by (cases ocC) (auto simp: submit_def Let_def simp flip: rs'_def
        split: option.split sql_call.split)
qed

lemma ticket_step_open:
  assumes "cancel_effective op" and "\<And>f t. open_tickets f t (sd_requests db) \<le> 1"
  shows "open_tickets f t (sd_requests (ticket_step op db)) \<le> 1"
proof (cases op)
  case (TSubmit rnd now ocC ocI err tenant sender fromRole to toRole type payload)
  then have "\<And>m. ocC \<noteq> StepError m" using assms(1) by auto
  then show ?thesis using submit_open_tickets [OF _ assms(2)] by (simp add: TSubmit)
next
  case (TAccept now tx rid role i h)
  with accept_requests [of now tx rid role i h db] assms(2) show ?thesis
    by (auto simp: open_tickets_resolve_one)
qed (use assms(2) in \<open>auto simp: accept_def reject_def run_update_rows
      open_tickets_resolve_one\<close>)

lemma tickets_open_fold:
  assumes "list_all cancel_effective ops" and "\<And>f t. open_tickets f t (sd_requests db) \<le> 1"
  shows "open_tickets f t (sd_requests (fold ticket_step ops db)) \<le> 1"
  using assms
proof (induction ops arbitrary: db)
  case Nil
  then show ?case by simp
next
  case (Cons op ops)
  have "open_tickets f t (sd_requests (fold ticket_step ops (ticket_step op db))) \<le> 1"
    using Cons.prems by (intro Cons.IH ticket_step_open) simp_all
  then show ?case by simp
qed

text \<open>
  As long as no cancelling statement fails in its step, an account never has more
  than one open ticket of a type. The one guard is that statement, and its result is
  discarded: when it fails, the new ticket is filed all the same and two are open.
\<close>

theorem one_open_ticket:
  assumes "list_all cancel_effective ops" and "sd_requests db = []"
  shows "open_tickets f t (sd_requests (fold ticket_step ops db)) \<le> 1
    \<and> (\<exists>rnd. open_tickets ''s1'' ''change_password''
         (snd (submit rnd 9 (StepError m) Completes err tenant ''s1'' role to toRole ''change_password''
                 payload [sample_ticket ''q1'' ''pending''])) = 2)"
proof
  show "open_tickets f t (sd_requests (fold ticket_step ops db)) \<le> 1"
    by (rule tickets_open_fold [OF assms(1)]) (simp add: assms(2) open_tickets_def)
  have "length (uuid_print 0 (uuid_bytes (replicate 16 0))) = 36" by code_simp
  then have "uuid_print 0 (uuid_bytes (replicate 16 0)) \<noteq> ''q1''" by auto
  then have "open_tickets ''s1'' ''change_password''
      (snd (submit (Some (replicate 16 0)) 9 (StepError m) Completes err tenant ''s1'' role to toRole
             ''change_password'' payload [sample_ticket ''q1'' ''pending''])) = 2"
    by (simp add: submit_def generateUuid_def sample_ticket_def open_tickets_def open_request_def)
  then show "\<exists>rnd. open_tickets ''s1'' ''change_password''
      (snd (submit rnd 9 (StepError m) Completes err tenant ''s1'' role to toRole ''change_password''
             payload [sample_ticket ''q1'' ''pending''])) = 2" by blast
qed

theorem one_open_ticket_witness:
  "open_tickets ''s1'' ''change_password''
     (sd_requests (fold ticket_step
        [TSubmit (Some (replicate 16 1)) 1 Completes Completes [] ''t1'' ''s1'' ''student'' ''te1''
           ''teacher'' ''change_password'' ''p'',
         TSubmit (Some (replicate 16 2)) 2 Completes Completes [] ''t1'' ''s1'' ''student'' ''te1''
           ''teacher'' ''change_password'' ''q''] (sample_db []))) \<le> 1"
  using one_open_ticket [of "[TSubmit (Some (replicate 16 1)) 1 Completes Completes [] ''t1'' ''s1''
      ''student'' ''te1'' ''teacher'' ''change_password'' ''p'',
      TSubmit (Some (replicate 16 2)) 2 Completes Completes [] ''t1'' ''s1'' ''student'' ''te1''
      ''teacher'' ''change_password'' ''q'']" "sample_db []" "''s1''" "''change_password''"]
  by (simp add: sample_db_def)

end
