(* ===== verification/Org_Tables.thy ===== *)
theory Org_Tables
  imports Request_Tickets Tenant_Repository "HOL-Library.Product_Lexorder"
begin

text \<open>
  The tables of an organisation and their repositories: src/db/SchoolRepository.cpp,
  LocationRepository.cpp, ComputerRepository.cpp, ClassRepository.cpp and
  TeacherLocationRepository.cpp, with the foreign keys and cascades that
  src/db/DatabaseManager.cpp declares. The table of active sessions and the tenant columns of
  locations and computers are never written by the program and left out. A statement that
  breaks a constraint fails with SQLite's message \<open>err\<close>. The lemmas show that every operation
  of every repository keeps all keys unique and all references valid.
\<close>

section \<open>Rows\<close>

record school_row =
  so_id :: string
  so_name :: string
  so_address :: string
  so_created_at :: int
  so_tenant_id :: "string option"

record location_row =
  lo_id :: string
  lo_school_id :: string
  lo_name :: string
  lo_building :: string
  lo_floor :: int
  lo_capacity :: int
  lo_type :: string

record computer_row =
  co_id :: string
  co_location_id :: "string option"
  co_hostname :: string
  co_mac_address :: string
  co_ip_last_seen :: string
  co_agent_version :: string
  co_last_heartbeat :: int
  co_state :: string
  co_position_x :: int
  co_position_y :: int

text \<open>\<open>od_access\<close> is the table of teachers and the locations they may use.\<close>

record org_db =
  od_school :: school_db
  od_tenants :: tenants
  od_schools :: "school_row list"
  od_locations :: "location_row list"
  od_computers :: "computer_row list"
  od_access :: "(string \<times> string) list"

abbreviation od_students where "od_students db \<equiv> sd_students (od_school db)"
abbreviation od_teachers where "od_teachers db \<equiv> sd_teachers (od_school db)"
abbreviation od_classes where "od_classes db \<equiv> sd_classes (od_school db)"

definition set_students :: "students \<Rightarrow> org_db \<Rightarrow> org_db" where
  "set_students ss db = db\<lparr>od_school := (od_school db)\<lparr>sd_students := ss\<rparr>\<rparr>"

definition set_teachers :: "teachers \<Rightarrow> org_db \<Rightarrow> org_db" where
  "set_teachers ts db = db\<lparr>od_school := (od_school db)\<lparr>sd_teachers := ts\<rparr>\<rparr>"

definition set_classes :: "class_row list \<Rightarrow> org_db \<Rightarrow> org_db" where
  "set_classes cs db = db\<lparr>od_school := (od_school db)\<lparr>sd_classes := cs\<rparr>\<rparr>"

text \<open>An optional reference, as it is bound to a statement and read from a column.\<close>

definition null_if_empty :: "string \<Rightarrow> string option" where
  "null_if_empty s = (if s = [] then None else Some s)"

definition col_text :: "string option \<Rightarrow> string" where
  "col_text v = (case v of None \<Rightarrow> [] | Some s \<Rightarrow> s)"

section \<open>Cascades\<close>

text \<open>What \<^verbatim>\<open>ON DELETE CASCADE\<close> and \<^verbatim>\<open>ON DELETE SET NULL\<close> do when rows go.\<close>

definition delete_locations :: "(location_row \<Rightarrow> bool) \<Rightarrow> org_db \<Rightarrow> org_db" where
  "delete_locations P db =
     (let gone = map lo_id (filter P (od_locations db)) in
      db\<lparr>od_locations := sql_delete P (od_locations db),
         od_computers := sql_update (\<lambda>c. case co_location_id c of None \<Rightarrow> False | Some l \<Rightarrow> l \<in> set gone)
                           (\<lambda>c. c\<lparr>co_location_id := None\<rparr>) (od_computers db),
         od_access := sql_delete (\<lambda>(t, l). l \<in> set gone) (od_access db)\<rparr>)"

definition delete_classes :: "(class_row \<Rightarrow> bool) \<Rightarrow> org_db \<Rightarrow> org_db" where
  "delete_classes P db =
     (let gone = map cl_row_id (filter P (od_classes db)) in
      set_students (sql_delete (\<lambda>s. st_class_id s \<in> set gone) (od_students db))
        (set_classes (sql_delete P (od_classes db)) db))"

definition delete_school_row :: "string \<Rightarrow> org_db \<Rightarrow> org_db" where
  "delete_school_row sid db =
     delete_classes (\<lambda>c. cl_school_id c = Some sid)
       (delete_locations (\<lambda>l. lo_school_id l = sid)
          (db\<lparr>od_schools := sql_delete (\<lambda>r. so_id r = sid) (od_schools db)\<rparr>))"

definition delete_teacher_row :: "string \<Rightarrow> org_db \<Rightarrow> org_db" where
  "delete_teacher_row tid db =
     set_classes (sql_update (\<lambda>c. cl_teacher_id c = Some tid) (\<lambda>c. c\<lparr>cl_teacher_id := None\<rparr>) (od_classes db))
       (set_teachers (sql_delete (\<lambda>r. te_id r = tid) (od_teachers db))
         (db\<lparr>od_access := sql_delete (\<lambda>(t, l). t = tid) (od_access db)\<rparr>))"

section \<open>One insert\<close>

text \<open>The statement shared by the insertions: a constraint that is broken fails the step.\<close>

definition run_insert :: "sql_call \<Rightarrow> string \<Rightarrow> bool \<Rightarrow> string \<Rightarrow> 'd \<Rightarrow> 'd \<Rightarrow> string result \<times> 'd" where
  "run_insert oc err good newId new old =
     (case oc of
        PrepareError m \<Rightarrow> (fail InternalError m, old)
      | StepError m \<Rightarrow> (fail InternalError m, old)
      | Completes \<Rightarrow> if good then (ok newId, new) else (fail InternalError err, old))"

definition with_uuid :: "byte list option \<Rightarrow> (string \<Rightarrow> string result \<times> 'd) \<Rightarrow> 'd \<Rightarrow> string result \<times> 'd" where
  "with_uuid rnd f db =
     (case generateUuid rnd of
        None \<Rightarrow> (fail InternalError ''UUID generation failed'', db)
      | Some newId \<Rightarrow> f newId)"

section \<open>Schools\<close>

record school_record =
  sc_id :: string
  sc_name :: string
  sc_address :: string
  sc_createdAt :: int

definition school_from_row :: "school_row \<Rightarrow> school_record" where
  "school_from_row r =
     \<lparr>sc_id = so_id r, sc_name = so_name r, sc_address = so_address r, sc_createdAt = so_created_at r\<rparr>"

text \<open>The tenant of a new school is not among the columns of the insert.\<close>

definition create_school ::
  "byte list option \<Rightarrow> int \<Rightarrow> sql_call \<Rightarrow> string \<Rightarrow> string \<Rightarrow> string \<Rightarrow> org_db \<Rightarrow> string result \<times> org_db" where
  "create_school rnd now oc err name address db =
     with_uuid rnd (\<lambda>newId.
       run_insert oc err (newId \<notin> so_id ` set (od_schools db)) newId
         (db\<lparr>od_schools := od_schools db @
            [\<lparr>so_id = newId, so_name = name, so_address = address, so_created_at = now,
              so_tenant_id = None\<rparr>]\<rparr>) db) db"

definition find_school :: "sql_call \<Rightarrow> string \<Rightarrow> org_db \<Rightarrow> school_record result" where
  "find_school oc sid db =
     run_select_one oc (''School not found: '' @ sid) (\<lambda>r. so_id r = sid) school_from_row (od_schools db)"

definition list_schools :: "sql_call \<Rightarrow> org_db \<Rightarrow> school_record list result" where
  "list_schools oc db = run_select_all oc (\<lambda>_. True) so_created_at school_from_row (od_schools db)"

definition list_schools_by_tenant :: "sql_call \<Rightarrow> string \<Rightarrow> org_db \<Rightarrow> school_record list result" where
  "list_schools_by_tenant oc tid db =
     run_select_all oc (\<lambda>r. so_tenant_id r = Some tid) so_created_at school_from_row (od_schools db)"

definition update_school ::
  "sql_call \<Rightarrow> string \<Rightarrow> string \<Rightarrow> string \<Rightarrow> org_db \<Rightarrow> unit result \<times> org_db" where
  "update_school oc sid name address db =
     (let (r, rows) = run_update oc (''School not found: '' @ sid) (\<lambda>r. so_id r = sid)
                        (\<lambda>r. r\<lparr>so_name := name, so_address := address\<rparr>) (od_schools db)
      in (r, db\<lparr>od_schools := rows\<rparr>))"

definition remove_school :: "sql_call \<Rightarrow> string \<Rightarrow> org_db \<Rightarrow> unit result \<times> org_db" where
  "remove_school oc sid db =
     (let r = fst (run_delete oc (''School not found: '' @ sid) (\<lambda>r. so_id r = sid) (od_schools db))
      in (r, if is_ok r then delete_school_row sid db else db))"

section \<open>Locations\<close>

record location_record =
  lc_id :: string
  lc_schoolId :: string
  lc_name :: string
  lc_building :: string
  lc_floor :: int
  lc_capacity :: int
  lc_type :: string

definition location_from_row :: "location_row \<Rightarrow> location_record" where
  "location_from_row r =
     \<lparr>lc_id = lo_id r, lc_schoolId = lo_school_id r, lc_name = lo_name r, lc_building = lo_building r,
      lc_floor = lo_floor r, lc_capacity = lo_capacity r, lc_type = lo_type r\<rparr>"

definition create_location ::
  "byte list option \<Rightarrow> sql_call \<Rightarrow> string \<Rightarrow> string \<Rightarrow> string \<Rightarrow> string \<Rightarrow> int \<Rightarrow> int \<Rightarrow> string
     \<Rightarrow> org_db \<Rightarrow> string result \<times> org_db" where
  "create_location rnd oc err schoolId name building floor capacity type db =
     with_uuid rnd (\<lambda>newId.
       run_insert oc err
         (newId \<notin> lo_id ` set (od_locations db) \<and> schoolId \<in> so_id ` set (od_schools db)) newId
         (db\<lparr>od_locations := od_locations db @
            [\<lparr>lo_id = newId, lo_school_id = schoolId, lo_name = name, lo_building = building,
              lo_floor = floor, lo_capacity = capacity, lo_type = type\<rparr>]\<rparr>) db) db"

definition find_location :: "sql_call \<Rightarrow> string \<Rightarrow> org_db \<Rightarrow> location_record result" where
  "find_location oc lid db =
     run_select_one oc (''Location not found: '' @ lid) (\<lambda>r. lo_id r = lid) location_from_row (od_locations db)"

definition list_locations_by_school :: "sql_call \<Rightarrow> string \<Rightarrow> org_db \<Rightarrow> location_record list result" where
  "list_locations_by_school oc sid db =
     run_select_all oc (\<lambda>r. lo_school_id r = sid) lo_name location_from_row (od_locations db)"

definition list_locations :: "sql_call \<Rightarrow> org_db \<Rightarrow> location_record list result" where
  "list_locations oc db =
     run_select_all oc (\<lambda>_. True) (\<lambda>r. (lo_school_id r, lo_name r)) location_from_row (od_locations db)"

definition update_location ::
  "sql_call \<Rightarrow> string \<Rightarrow> string \<Rightarrow> string \<Rightarrow> int \<Rightarrow> int \<Rightarrow> string \<Rightarrow> org_db \<Rightarrow> unit result \<times> org_db" where
  "update_location oc lid name building floor capacity type db =
     (let (r, rows) = run_update oc (''Location not found: '' @ lid) (\<lambda>r. lo_id r = lid)
                        (\<lambda>r. r\<lparr>lo_name := name, lo_building := building, lo_floor := floor,
                              lo_capacity := capacity, lo_type := type\<rparr>) (od_locations db)
      in (r, db\<lparr>od_locations := rows\<rparr>))"

text \<open>Here and for computers the count of the removed rows is not looked at.\<close>

definition remove_location :: "sql_call \<Rightarrow> string \<Rightarrow> org_db \<Rightarrow> unit result \<times> org_db" where
  "remove_location oc lid db =
     (case oc of
        PrepareError m \<Rightarrow> (fail InternalError m, db)
      | StepError m \<Rightarrow> (fail InternalError m, db)
      | Completes \<Rightarrow> (ok (), delete_locations (\<lambda>r. lo_id r = lid) db))"

section \<open>Computers\<close>

record computer_record =
  cp_id :: string
  cp_locationId :: string
  cp_hostname :: string
  cp_macAddress :: string
  cp_ipLastSeen :: string
  cp_agentVersion :: string
  cp_lastHeartbeat :: int
  cp_state :: string
  cp_positionX :: int
  cp_positionY :: int

definition recordFromStmt :: "computer_row \<Rightarrow> computer_record" where
  "recordFromStmt r =
     \<lparr>cp_id = co_id r, cp_locationId = col_text (co_location_id r), cp_hostname = co_hostname r,
      cp_macAddress = co_mac_address r, cp_ipLastSeen = co_ip_last_seen r,
      cp_agentVersion = co_agent_version r, cp_lastHeartbeat = co_last_heartbeat r,
      cp_state = co_state r, cp_positionX = co_position_x r, cp_positionY = co_position_y r\<rparr>"

text \<open>A reference that is null or names a row.\<close>

definition refers :: "string option \<Rightarrow> string list \<Rightarrow> bool" where
  "refers v keys = (case v of None \<Rightarrow> True | Some k \<Rightarrow> k \<in> set keys)"

definition create_computer ::
  "byte list option \<Rightarrow> sql_call \<Rightarrow> string \<Rightarrow> string \<Rightarrow> string \<Rightarrow> string \<Rightarrow> org_db \<Rightarrow> string result \<times> org_db" where
  "create_computer rnd oc err locationId hostname macAddress db =
     with_uuid rnd (\<lambda>newId.
       run_insert oc err
         (newId \<notin> co_id ` set (od_computers db)
          \<and> refers (null_if_empty locationId) (map lo_id (od_locations db))) newId
         (db\<lparr>od_computers := od_computers db @
            [\<lparr>co_id = newId, co_location_id = null_if_empty locationId, co_hostname = hostname,
              co_mac_address = macAddress, co_ip_last_seen = [], co_agent_version = [],
              co_last_heartbeat = 0, co_state = ''offline'', co_position_x = 0,
              co_position_y = 0\<rparr>]\<rparr>) db) db"

definition create_unassigned_computer ::
  "byte list option \<Rightarrow> sql_call \<Rightarrow> string \<Rightarrow> string \<Rightarrow> string \<Rightarrow> org_db \<Rightarrow> string result \<times> org_db" where
  "create_unassigned_computer rnd oc err hostname macAddress db =
     create_computer rnd oc err [] hostname macAddress db"

definition find_computer :: "sql_call \<Rightarrow> string \<Rightarrow> org_db \<Rightarrow> computer_record result" where
  "find_computer oc cid db =
     run_select_one oc (''Computer not found: '' @ cid) (\<lambda>r. co_id r = cid) recordFromStmt (od_computers db)"

definition find_computer_by_hostname :: "sql_call \<Rightarrow> string \<Rightarrow> org_db \<Rightarrow> computer_record result" where
  "find_computer_by_hostname oc hostname db =
     run_select_one oc (''Computer not found with hostname: '' @ hostname)
       (\<lambda>r. co_hostname r = hostname) recordFromStmt (od_computers db)"

definition find_computer_by_mac :: "sql_call \<Rightarrow> string \<Rightarrow> org_db \<Rightarrow> computer_record result" where
  "find_computer_by_mac oc mac db =
     run_select_one oc (''Computer not found with MAC: '' @ mac)
       (\<lambda>r. co_mac_address r = mac) recordFromStmt (od_computers db)"

definition list_computers_by_location :: "sql_call \<Rightarrow> string \<Rightarrow> org_db \<Rightarrow> computer_record list result" where
  "list_computers_by_location oc lid db =
     run_select_all oc (\<lambda>r. co_location_id r = Some lid) co_hostname recordFromStmt (od_computers db)"

definition list_computers :: "sql_call \<Rightarrow> org_db \<Rightarrow> computer_record list result" where
  "list_computers oc db = run_select_all oc (\<lambda>_. True) co_hostname recordFromStmt (od_computers db)"

text \<open>An update whose new reference must resolve, which is checked only when a row changes.\<close>

definition run_update_ref ::
  "sql_call \<Rightarrow> string \<Rightarrow> string \<Rightarrow> bool \<Rightarrow> ('r \<Rightarrow> bool) \<Rightarrow> ('r \<Rightarrow> 'r) \<Rightarrow> 'r list \<Rightarrow> unit result \<times> 'r list" where
  "run_update_ref oc notFound err good P f rows =
     (if oc = Completes \<and> sql_changes P rows \<noteq> 0 \<and> \<not> good then (fail InternalError err, rows)
      else run_update oc notFound P f rows)"

definition update_computer ::
  "sql_call \<Rightarrow> string \<Rightarrow> string \<Rightarrow> string \<Rightarrow> string \<Rightarrow> int \<Rightarrow> int \<Rightarrow> org_db \<Rightarrow> unit result \<times> org_db" where
  "update_computer oc err cid locationId hostname posX posY db =
     (let (r, rows) = run_update_ref oc (''Computer not found: '' @ cid) err
                        (refers (null_if_empty locationId) (map lo_id (od_locations db)))
                        (\<lambda>r. co_id r = cid)
                        (\<lambda>r. r\<lparr>co_location_id := null_if_empty locationId, co_hostname := hostname,
                              co_position_x := posX, co_position_y := posY\<rparr>) (od_computers db)
      in (r, db\<lparr>od_computers := rows\<rparr>))"

definition update_computer_state :: "sql_call \<Rightarrow> string \<Rightarrow> string \<Rightarrow> org_db \<Rightarrow> unit result \<times> org_db" where
  "update_computer_state oc cid state db =
     (let (r, rows) = run_update oc (''Computer not found: '' @ cid) (\<lambda>r. co_id r = cid)
                        (\<lambda>r. r\<lparr>co_state := state\<rparr>) (od_computers db)
      in (r, db\<lparr>od_computers := rows\<rparr>))"

definition update_computer_heartbeat ::
  "sql_call \<Rightarrow> int \<Rightarrow> string \<Rightarrow> string \<Rightarrow> string \<Rightarrow> org_db \<Rightarrow> unit result \<times> org_db" where
  "update_computer_heartbeat oc now cid ip agentVersion db =
     (let (r, rows) = run_update oc (''Computer not found: '' @ cid) (\<lambda>r. co_id r = cid)
                        (\<lambda>r. r\<lparr>co_last_heartbeat := now, co_ip_last_seen := ip,
                              co_agent_version := agentVersion, co_state := ''online''\<rparr>) (od_computers db)
      in (r, db\<lparr>od_computers := rows\<rparr>))"

definition remove_computer :: "sql_call \<Rightarrow> string \<Rightarrow> org_db \<Rightarrow> unit result \<times> org_db" where
  "remove_computer oc cid db =
     (case oc of
        PrepareError m \<Rightarrow> (fail InternalError m, db)
      | StepError m \<Rightarrow> (fail InternalError m, db)
      | Completes \<Rightarrow> (ok (), db\<lparr>od_computers := sql_delete (\<lambda>r. co_id r = cid) (od_computers db)\<rparr>))"

section \<open>Classes\<close>

record class_record =
  cr_id :: string
  cr_tenantId :: string
  cr_schoolId :: string
  cr_name :: string
  cr_teacherId :: string
  cr_createdAt :: int

definition class_from_row :: "class_row \<Rightarrow> class_record" where
  "class_from_row r =
     \<lparr>cr_id = cl_row_id r, cr_tenantId = cl_tenant_id r, cr_schoolId = col_text (cl_school_id r),
      cr_name = cl_name r, cr_teacherId = col_text (cl_teacher_id r), cr_createdAt = cl_created_at r\<rparr>"

text \<open>The school is bound as it is given, the teacher as null when it is empty.\<close>

definition create_class ::
  "byte list option \<Rightarrow> int \<Rightarrow> sql_call \<Rightarrow> string \<Rightarrow> string \<Rightarrow> string \<Rightarrow> string \<Rightarrow> string
     \<Rightarrow> org_db \<Rightarrow> string result \<times> org_db" where
  "create_class rnd now oc err tenantId schoolId name teacherId db =
     with_uuid rnd (\<lambda>newId.
       run_insert oc err
         (newId \<notin> cl_row_id ` set (od_classes db) \<and> tenantId \<in> tn_id ` set (od_tenants db)
          \<and> schoolId \<in> so_id ` set (od_schools db)
          \<and> refers (null_if_empty teacherId) (map te_id (od_teachers db))) newId
         (set_classes (od_classes db @
            [\<lparr>cl_row_id = newId, cl_tenant_id = tenantId, cl_school_id = Some schoolId, cl_name = name,
              cl_teacher_id = null_if_empty teacherId, cl_created_at = now\<rparr>]) db) db) db"

definition find_class :: "sql_call \<Rightarrow> string \<Rightarrow> class_row list \<Rightarrow> class_record result" where
  "find_class oc cid cs =
     run_select_one oc (''Class not found: '' @ cid) (\<lambda>c. cl_row_id c = cid) class_from_row cs"

definition list_classes_by_tenant :: "sql_call \<Rightarrow> string \<Rightarrow> org_db \<Rightarrow> class_record list result" where
  "list_classes_by_tenant oc tid db =
     run_select_all oc (\<lambda>r. cl_tenant_id r = tid) cl_name class_from_row (od_classes db)"

definition list_classes_by_teacher :: "sql_call \<Rightarrow> string \<Rightarrow> org_db \<Rightarrow> class_record list result" where
  "list_classes_by_teacher oc tid db =
     run_select_all oc (\<lambda>r. cl_teacher_id r = Some tid) cl_name class_from_row (od_classes db)"

definition update_class ::
  "sql_call \<Rightarrow> string \<Rightarrow> string \<Rightarrow> string \<Rightarrow> string \<Rightarrow> org_db \<Rightarrow> unit result \<times> org_db" where
  "update_class oc err cid name teacherId db =
     (let (r, rows) = run_update_ref oc (''Class not found: '' @ cid) err
                        (refers (null_if_empty teacherId) (map te_id (od_teachers db)))
                        (\<lambda>r. cl_row_id r = cid)
                        (\<lambda>r. r\<lparr>cl_name := name, cl_teacher_id := null_if_empty teacherId\<rparr>) (od_classes db)
      in (r, set_classes rows db))"

definition remove_class :: "sql_call \<Rightarrow> string \<Rightarrow> org_db \<Rightarrow> unit result \<times> org_db" where
  "remove_class oc cid db =
     (let r = fst (run_delete oc (''Class not found: '' @ cid) (\<lambda>r. cl_row_id r = cid) (od_classes db))
      in (r, if is_ok r then delete_classes (\<lambda>r. cl_row_id r = cid) db else db))"

section \<open>Teachers and their locations\<close>

text \<open>A pair that is there already is ignored; an unknown teacher or location fails.\<close>

definition assign :: "sql_call \<Rightarrow> string \<Rightarrow> string \<Rightarrow> string \<Rightarrow> org_db \<Rightarrow> unit result \<times> org_db" where
  "assign oc err teacherId locationId db =
     (case oc of
        PrepareError m \<Rightarrow> (fail InternalError m, db)
      | StepError m \<Rightarrow> (fail InternalError m, db)
      | Completes \<Rightarrow>
          if (teacherId, locationId) \<in> set (od_access db) then (ok (), db)
          else if teacherId \<in> te_id ` set (od_teachers db) \<and> locationId \<in> lo_id ` set (od_locations db)
          then (ok (), db\<lparr>od_access := od_access db @ [(teacherId, locationId)]\<rparr>)
          else (fail InternalError err, db))"

definition revoke_location :: "sql_call \<Rightarrow> string \<Rightarrow> string \<Rightarrow> org_db \<Rightarrow> unit result \<times> org_db" where
  "revoke_location oc teacherId locationId db =
     (case oc of
        PrepareError m \<Rightarrow> (fail InternalError m, db)
      | StepError m \<Rightarrow> (fail InternalError m, db)
      | Completes \<Rightarrow> (ok (), db\<lparr>od_access := sql_delete (\<lambda>p. p = (teacherId, locationId)) (od_access db)\<rparr>))"

text \<open>A lookup whose execution fails answers that there is no access.\<close>

definition hasAccess :: "sql_call \<Rightarrow> string \<Rightarrow> string \<Rightarrow> org_db \<Rightarrow> bool result" where
  "hasAccess oc teacherId locationId db =
     (case oc of
        PrepareError m \<Rightarrow> fail InternalError m
      | StepError _ \<Rightarrow> ok False
      | Completes \<Rightarrow> ok ((teacherId, locationId) \<in> set (od_access db)))"

definition getLocationIdsForTeacher :: "sql_call \<Rightarrow> string \<Rightarrow> org_db \<Rightarrow> string list result" where
  "getLocationIdsForTeacher oc tid db =
     run_select_all oc (\<lambda>(t, l). t = tid) snd snd (od_access db)"

definition getTeacherIdsForLocation :: "sql_call \<Rightarrow> string \<Rightarrow> org_db \<Rightarrow> string list result" where
  "getTeacherIdsForLocation oc lid db =
     run_select_all oc (\<lambda>(t, l). l = lid) fst fst (od_access db)"

section \<open>Students and teachers\<close>

text \<open>The insert of a student also needs its tenant and its class to be there.\<close>

definition insert_student ::
  "crypto \<Rightarrow> byte list option \<Rightarrow> byte list option \<Rightarrow> int \<Rightarrow> sql_call \<Rightarrow> string
     \<Rightarrow> string \<Rightarrow> string \<Rightarrow> string \<Rightarrow> string \<Rightarrow> string \<Rightarrow> org_db \<Rightarrow> string result \<times> org_db" where
  "insert_student cr salt rnd now oc err tenantId classId fullName username password db =
     (case create_student cr salt rnd now oc err tenantId classId fullName username password (od_students db) of
        (Inl e, _) \<Rightarrow> (Inl e, db)
      | (Inr newId, ss) \<Rightarrow>
          if tenantId \<in> tn_id ` set (od_tenants db) \<and> classId \<in> cl_row_id ` set (od_classes db)
          then (ok newId, set_students ss db)
          else (fail InternalError err, db))"

definition delete_teacher :: "sql_call \<Rightarrow> string \<Rightarrow> org_db \<Rightarrow> unit result \<times> org_db" where
  "delete_teacher oc tid db =
     (let r = fst (remove_teacher oc tid (od_teachers db))
      in (r, if is_ok r then delete_teacher_row tid db else db))"

section \<open>Well-formed tables\<close>

text \<open>One predicate per table, over the keys that its references may name.\<close>

definition locations_ok :: "string list \<Rightarrow> location_row list \<Rightarrow> bool" where
  "locations_ok schools ls \<longleftrightarrow>
     distinct (map lo_id ls) \<and> (\<forall>l \<in> set ls. lo_school_id l \<in> set schools)"

definition computers_ok :: "string list \<Rightarrow> computer_row list \<Rightarrow> bool" where
  "computers_ok locations cs \<longleftrightarrow>
     distinct (map co_id cs) \<and> (\<forall>c \<in> set cs. refers (co_location_id c) locations)"

definition access_ok :: "string list \<Rightarrow> string list \<Rightarrow> (string \<times> string) list \<Rightarrow> bool" where
  "access_ok teachers locations ps \<longleftrightarrow>
     distinct ps \<and> (\<forall>p \<in> set ps. fst p \<in> set teachers \<and> snd p \<in> set locations)"

definition classes_ok :: "string list \<Rightarrow> string list \<Rightarrow> string list \<Rightarrow> class_row list \<Rightarrow> bool" where
  "classes_ok tenants schools teachers cs \<longleftrightarrow>
     distinct (map cl_row_id cs)
     \<and> (\<forall>c \<in> set cs. cl_tenant_id c \<in> set tenants \<and> refers (cl_school_id c) schools
                     \<and> refers (cl_teacher_id c) teachers)"

definition student_refs :: "string list \<Rightarrow> string list \<Rightarrow> students \<Rightarrow> bool" where
  "student_refs tenants classes ss \<longleftrightarrow>
     (\<forall>s \<in> set ss. st_tenant_id s \<in> set tenants \<and> st_class_id s \<in> set classes)"

abbreviation school_keys where "school_keys db \<equiv> map so_id (od_schools db)"
abbreviation location_keys where "location_keys db \<equiv> map lo_id (od_locations db)"
abbreviation teacher_keys where "teacher_keys db \<equiv> map te_id (od_teachers db)"
abbreviation tenant_keys where "tenant_keys db \<equiv> map tn_id (od_tenants db)"
abbreviation class_keys where "class_keys db \<equiv> map cl_row_id (od_classes db)"

text \<open>\<open>ks\<close> and \<open>ks'\<close> are the schools that locations and classes may name.\<close>

definition org_ok_for :: "string list \<Rightarrow> string list \<Rightarrow> org_db \<Rightarrow> bool" where
  "org_ok_for ks ks' db \<longleftrightarrow>
     tenants_ok (od_tenants db) \<and> teachers_ok (od_teachers db) \<and> students_ok (od_students db)
     \<and> distinct (school_keys db)
     \<and> locations_ok ks (od_locations db)
     \<and> computers_ok (location_keys db) (od_computers db)
     \<and> access_ok (teacher_keys db) (location_keys db) (od_access db)
     \<and> classes_ok (tenant_keys db) ks' (teacher_keys db) (od_classes db)
     \<and> student_refs (tenant_keys db) (class_keys db) (od_students db)"

definition org_ok :: "org_db \<Rightarrow> bool" where
  "org_ok db = org_ok_for (school_keys db) (school_keys db) db"

text \<open>Every operation that writes the tables, with any outcome of its statements.\<close>

inductive org_step :: "org_db \<Rightarrow> org_db \<Rightarrow> bool" where
  create_school: "org_step db (snd (create_school rnd now oc err name addr db))"
| update_school: "org_step db (snd (update_school oc sid name addr db))"
| remove_school: "org_step db (snd (remove_school oc sid db))"
| create_location: "org_step db (snd (create_location rnd oc err sid name b fl cap ty db))"
| update_location: "org_step db (snd (update_location oc lid name b fl cap ty db))"
| remove_location: "org_step db (snd (remove_location oc lid db))"
| create_computer: "org_step db (snd (create_computer rnd oc err lid host mac db))"
| update_computer: "org_step db (snd (update_computer oc err cid lid host x y db))"
| computer_state: "org_step db (snd (update_computer_state oc cid state db))"
| computer_heartbeat: "org_step db (snd (update_computer_heartbeat oc now cid ip ver db))"
| remove_computer: "org_step db (snd (remove_computer oc cid db))"
| create_class: "org_step db (snd (create_class rnd now oc err tenant sid name tid db))"
| update_class: "org_step db (snd (update_class oc err cid name tid db))"
| remove_class: "org_step db (snd (remove_class oc cid db))"
| assign: "org_step db (snd (assign oc err tid lid db))"
| revoke: "org_step db (snd (revoke_location oc tid lid db))"
| insert_student: "org_step db (snd (insert_student cr salt rnd now oc err tenant cid name user pw db))"
| student: "(\<And>salt rnd now oc err tenant cls name user pw. op \<noteq> SCreate salt rnd now oc err tenant cls name user pw)
    \<Longrightarrow> org_step db (set_students (student_step cr op (od_students db)) db)"
| create_teacher: "org_step db (set_teachers (snd (create_teacher cr salt rnd now oc err user pw name role (od_teachers db))) db)"
| update_teacher: "org_step db (set_teachers (snd (update_teacher oc tid name role (od_teachers db))) db)"
| teacher_password: "org_step db (set_teachers (snd (change_teacher_password cr salt oc tid pw (od_teachers db))) db)"
| teacher_hash: "org_step db (set_teachers (snd (apply_teacher_hash oc tid h (od_teachers db))) db)"
| delete_teacher: "org_step db (snd (delete_teacher oc tid db))"
| create_tenant: "org_step db (db\<lparr>od_tenants := snd (create_tenant rnd now oc err mf name slug mail (od_tenants db))\<rparr>)"
| activate_tenant: "org_step db (db\<lparr>od_tenants := snd (activate_tenant oc now tid (od_tenants db))\<rparr>)"
| suspend: "org_step db (db\<lparr>od_tenants := snd (suspend oc tid (od_tenants db))\<rparr>)"
| unsuspend: "org_step db (db\<lparr>od_tenants := snd (unsuspend oc tid (od_tenants db))\<rparr>)"

lemma set_fields [simp]:
  "od_school (set_students ss db) = (od_school db)\<lparr>sd_students := ss\<rparr>"
  "od_school (set_teachers ts db) = (od_school db)\<lparr>sd_teachers := ts\<rparr>"
  "od_school (set_classes cs db) = (od_school db)\<lparr>sd_classes := cs\<rparr>"
  "od_tenants (set_students ss db) = od_tenants db" "od_tenants (set_teachers ts db) = od_tenants db"
  "od_tenants (set_classes cs db) = od_tenants db"
  "od_schools (set_students ss db) = od_schools db" "od_schools (set_teachers ts db) = od_schools db"
  "od_schools (set_classes cs db) = od_schools db"
  "od_locations (set_students ss db) = od_locations db" "od_locations (set_teachers ts db) = od_locations db"
  "od_locations (set_classes cs db) = od_locations db"
  "od_computers (set_students ss db) = od_computers db" "od_computers (set_teachers ts db) = od_computers db"
  "od_computers (set_classes cs db) = od_computers db"
  "od_access (set_students ss db) = od_access db" "od_access (set_teachers ts db) = od_access db"
  "od_access (set_classes cs db) = od_access db"
  by (simp_all add: set_students_def set_teachers_def set_classes_def)

lemma refers_simps [simp]: "refers None ks" "refers (Some k) ks \<longleftrightarrow> k \<in> set ks"
  by (simp_all add: refers_def)

lemma refers_mono: "refers v ks \<Longrightarrow> set ks \<subseteq> set ks' \<Longrightarrow> refers v ks'"
  by (cases v) auto

text \<open>More keys do no harm.\<close>

lemma refs_mono:
  "locations_ok ks ls \<Longrightarrow> set ks \<subseteq> set ks' \<Longrightarrow> locations_ok ks' ls"
  "computers_ok ks cs \<Longrightarrow> set ks \<subseteq> set ks' \<Longrightarrow> computers_ok ks' cs"
  "access_ok ts ks ps \<Longrightarrow> set ts \<subseteq> set ts' \<Longrightarrow> set ks \<subseteq> set ks' \<Longrightarrow> access_ok ts' ks' ps"
  "classes_ok us ks ts rs \<Longrightarrow> set us \<subseteq> set us' \<Longrightarrow> set ks \<subseteq> set ks' \<Longrightarrow> set ts \<subseteq> set ts'
     \<Longrightarrow> classes_ok us' ks' ts' rs"
  "student_refs us ks ss \<Longrightarrow> set us \<subseteq> set us' \<Longrightarrow> set ks \<subseteq> set ks' \<Longrightarrow> student_refs us' ks' ss"
  by (auto simp: locations_ok_def)
    (auto simp: computers_ok_def access_ok_def classes_ok_def student_refs_def intro: refers_mono)

lemma refs_append:
  "locations_ok ks (ls @ [l]) \<longleftrightarrow>
     locations_ok ks ls \<and> lo_id l \<notin> lo_id ` set ls \<and> lo_school_id l \<in> set ks"
  "computers_ok ks (cs @ [c]) \<longleftrightarrow>
     computers_ok ks cs \<and> co_id c \<notin> co_id ` set cs \<and> refers (co_location_id c) ks"
  "access_ok ts ks (ps @ [p]) \<longleftrightarrow>
     access_ok ts ks ps \<and> p \<notin> set ps \<and> fst p \<in> set ts \<and> snd p \<in> set ks"
  "classes_ok us ks ts (rs @ [r]) \<longleftrightarrow>
     classes_ok us ks ts rs \<and> cl_row_id r \<notin> cl_row_id ` set rs \<and> cl_tenant_id r \<in> set us
     \<and> refers (cl_school_id r) ks \<and> refers (cl_teacher_id r) ts"
  "student_refs us ks (ss @ [s]) \<longleftrightarrow>
     student_refs us ks ss \<and> st_tenant_id s \<in> set us \<and> st_class_id s \<in> set ks"
  by (auto simp: locations_ok_def computers_ok_def access_ok_def classes_ok_def student_refs_def)

subsection \<open>Insertions\<close>

lemma org_ok_insert:
  assumes "org_ok db" and "\<And>newId. good newId \<Longrightarrow> org_ok (new newId)"
  shows "org_ok (snd (with_uuid rnd (\<lambda>newId. run_insert oc err (good newId) newId (new newId) db) db))"
  using assms by (auto simp: with_uuid_def run_insert_def split: option.split sql_call.split)

lemma org_ok_creates:
  assumes "org_ok db"
  shows "org_ok (snd (create_school rnd now oc err name addr db))"
    and "org_ok (snd (create_location rnd oc err sid name b fl cap ty db))"
    and "org_ok (snd (create_computer rnd oc err lid host mac db))"
    and "org_ok (snd (create_class rnd now oc err tenant sid name tid db))"
proof -
  note i = org_ok_insert [OF assms]
  note p = org_ok_def org_ok_for_def refs_append
  show "org_ok (snd (create_school rnd now oc err name addr db))"
    unfolding create_school_def by (rule i) (use assms in \<open>auto simp: p intro: refs_mono\<close>)
  show "org_ok (snd (create_location rnd oc err sid name b fl cap ty db))"
    unfolding create_location_def by (rule i) (use assms in \<open>auto simp: p intro: refs_mono\<close>)
  show "org_ok (snd (create_computer rnd oc err lid host mac db))"
    unfolding create_computer_def by (rule i) (use assms in \<open>auto simp: p intro: refs_mono\<close>)
  show "org_ok (snd (create_class rnd now oc err tenant sid name tid db))"
    unfolding create_class_def by (rule i) (use assms in \<open>auto simp: p intro: refs_mono\<close>)
qed

subsection \<open>Deletions\<close>

lemma keys_sql_delete [simp]: "k \<in> f ` {x \<in> A. f x \<noteq> i} \<longleftrightarrow> k \<in> f ` A \<and> k \<noteq> i"
  by auto

lemma refers_sql_delete [simp]:
  "refers v (map f (sql_delete (\<lambda>r. f r = i) xs)) \<longleftrightarrow> refers v (map f xs) \<and> v \<noteq> Some i"
  by (cases v) auto

lemma locations_ok_delete:
  "locations_ok ks ls \<Longrightarrow> (\<And>l. l \<in> set ls \<Longrightarrow> \<not> P l \<Longrightarrow> lo_school_id l \<in> set ks')
     \<Longrightarrow> locations_ok ks' (sql_delete P ls)"
  by (auto simp: locations_ok_def distinct_map_sql_delete)

lemma kept_key: "k \<in> f ` set xs \<Longrightarrow> k \<notin> f ` {x \<in> set xs. P x} \<Longrightarrow> k \<in> f ` {x \<in> set xs. \<not> P x}"
  by auto

lemma computers_ok_delete_locations:
  assumes "computers_ok (map lo_id ls) cs"
  shows "computers_ok (map lo_id (sql_delete P ls))
     (sql_update (\<lambda>c. case co_location_id c of None \<Rightarrow> False | Some l \<Rightarrow> l \<in> set (map lo_id (filter P ls)))
        (\<lambda>c. c\<lparr>co_location_id := None\<rparr>) cs)"
  using assms kept_key [of _ lo_id ls P]
  by (auto simp: computers_ok_def distinct_map_sql_update set_sql_update refers_def split: option.splits)

lemma access_ok_delete_locations:
  assumes "access_ok ts (map lo_id ls) ps"
  shows "access_ok ts (map lo_id (sql_delete P ls))
     (sql_delete (\<lambda>(t, l). l \<in> set (map lo_id (filter P ls))) ps)"
  using assms kept_key [of _ lo_id ls P] by (fastforce simp: access_ok_def sql_delete_def)

lemma classes_ok_delete:
  "classes_ok us ks ts rs \<Longrightarrow> (\<And>r. r \<in> set rs \<Longrightarrow> \<not> P r \<Longrightarrow> refers (cl_school_id r) ks')
     \<Longrightarrow> classes_ok us ks' ts (sql_delete P rs)"
  by (auto simp: classes_ok_def distinct_map_sql_delete)

lemma student_refs_delete_classes:
  assumes "student_refs us (map cl_row_id rs) ss"
  shows "student_refs us (map cl_row_id (sql_delete P rs))
     (sql_delete (\<lambda>s. st_class_id s \<in> set (map cl_row_id (filter P rs))) ss)"
  using assms kept_key [of _ cl_row_id rs P] by (auto simp: student_refs_def)

lemma org_ok_for_delete_locations:
  assumes "org_ok_for ks ks' db" and "\<And>l. l \<in> set (od_locations db) \<Longrightarrow> \<not> P l \<Longrightarrow> lo_school_id l \<in> set ks2"
  shows "org_ok_for ks2 ks' (delete_locations P db)"
proof -
  have l: "locations_ok ks (od_locations db)" and c: "computers_ok (location_keys db) (od_computers db)"
    and a: "access_ok (teacher_keys db) (location_keys db) (od_access db)"
    using assms(1) by (simp_all add: org_ok_for_def)
  show ?thesis
    using assms(1) locations_ok_delete [OF l assms(2)] computers_ok_delete_locations [OF c, of P]
      access_ok_delete_locations [OF a, of P]
    by (simp add: org_ok_for_def delete_locations_def Let_def)
qed

lemma org_ok_for_delete_classes:
  assumes "org_ok_for ks ks' db" and "\<And>r. r \<in> set (od_classes db) \<Longrightarrow> \<not> P r \<Longrightarrow> refers (cl_school_id r) ks2"
  shows "org_ok_for ks ks2 (delete_classes P db)"
proof -
  have c: "classes_ok (tenant_keys db) ks' (teacher_keys db) (od_classes db)"
    and s: "student_refs (tenant_keys db) (class_keys db) (od_students db)"
    using assms(1) by (simp_all add: org_ok_for_def)
  show ?thesis
    using assms(1) classes_ok_delete [OF c assms(2)] student_refs_delete_classes [OF s, of P]
    by (simp add: org_ok_for_def delete_classes_def Let_def students_ok_delete)
qed

lemma delete_rows_schools [simp]:
  "od_schools (delete_locations P db) = od_schools db" "od_schools (delete_classes Q db) = od_schools db"
  "od_classes (delete_locations P db) = od_classes db" "od_locations (delete_classes Q db) = od_locations db"
  by (simp_all add: delete_locations_def delete_classes_def Let_def)

lemma org_ok_remove_location: "org_ok db \<Longrightarrow> org_ok (snd (remove_location oc lid db))"
  by (auto simp: remove_location_def org_ok_def split: sql_call.split
      intro!: org_ok_for_delete_locations) (auto simp: org_ok_for_def locations_ok_def)

lemma org_ok_remove_class: "org_ok db \<Longrightarrow> org_ok (snd (remove_class oc cid db))"
  by (auto simp: remove_class_def org_ok_def Let_def intro!: org_ok_for_delete_classes)
    (auto simp: org_ok_for_def classes_ok_def)

lemma org_ok_delete_school: "org_ok db \<Longrightarrow> org_ok (delete_school_row sid db)"
proof -
  assume ok: "org_ok db"
  let ?db = "db\<lparr>od_schools := sql_delete (\<lambda>r. so_id r = sid) (od_schools db)\<rparr>"
  have keys: "set (school_keys ?db) = set (school_keys db) - {sid}" by auto
  have "org_ok_for (school_keys db) (school_keys db) ?db"
    using ok by (simp add: org_ok_def org_ok_for_def distinct_map_sql_delete)
  then have "org_ok_for (school_keys ?db) (school_keys db) (delete_locations (\<lambda>l. lo_school_id l = sid) ?db)"
    by (rule org_ok_for_delete_locations) (use ok in \<open>auto simp: org_ok_def org_ok_for_def locations_ok_def\<close>)
  then have "org_ok_for (school_keys ?db) (school_keys ?db) (delete_school_row sid db)"
    unfolding delete_school_row_def
  proof (rule org_ok_for_delete_classes)
    fix r assume "r \<in> set (od_classes (delete_locations (\<lambda>l. lo_school_id l = sid) ?db))" "cl_school_id r \<noteq> Some sid"
    then show "refers (cl_school_id r) (school_keys ?db)"
      using ok by (simp add: org_ok_def org_ok_for_def classes_ok_def)
  qed
  then show ?thesis by (simp add: org_ok_def delete_school_row_def)
qed

lemma org_ok_remove_school: "org_ok db \<Longrightarrow> org_ok (snd (remove_school oc sid db))"
  by (simp add: remove_school_def Let_def org_ok_delete_school)

lemma access_ok_delete_teacher:
  assumes "access_ok (map te_id ts) ks ps"
  shows "access_ok (map te_id (sql_delete (\<lambda>r. te_id r = tid) ts)) ks (sql_delete (\<lambda>(t, l). t = tid) ps)"
  using assms by (fastforce simp: access_ok_def sql_delete_def)

lemma classes_ok_delete_teacher:
  assumes "classes_ok us ks (map te_id ts) rs"
  shows "classes_ok us ks (map te_id (sql_delete (\<lambda>r. te_id r = tid) ts))
     (sql_update (\<lambda>c. cl_teacher_id c = Some tid) (\<lambda>c. c\<lparr>cl_teacher_id := None\<rparr>) rs)"
  using assms
  by (auto simp: classes_ok_def distinct_map_sql_update set_sql_update)

lemma org_ok_delete_teacher: "org_ok db \<Longrightarrow> org_ok (snd (delete_teacher oc tid db))"
proof -
  assume ok: "org_ok db"
  then have a: "access_ok (teacher_keys db) (location_keys db) (od_access db)"
    and c: "classes_ok (tenant_keys db) (school_keys db) (teacher_keys db) (od_classes db)"
    by (simp_all add: org_ok_def org_ok_for_def)
  have "org_ok (delete_teacher_row tid db)"
    using ok access_ok_delete_teacher [OF a, of tid] classes_ok_delete_teacher [OF c, of tid]
    by (simp add: org_ok_def org_ok_for_def delete_teacher_row_def map_sql_update
        teachers_ok_def distinct_map_sql_delete)
  with ok show ?thesis by (simp add: delete_teacher_def Let_def)
qed

subsection \<open>Updates\<close>

lemma run_update_ref_rows:
  "snd (run_update_ref oc nf err good P f rows) = rows
   \<or> (\<exists>r \<in> set rows. P r) \<and> good \<and> snd (run_update_ref oc nf err good P f rows) = sql_update P f rows"
  using sql_changes_0_iff [of P rows]
  by (auto simp: run_update_ref_def run_update_def split: sql_call.split)

lemma locations_ok_update:
  "locations_ok ks ls \<Longrightarrow> (\<And>r. lo_id (f r) = lo_id r \<and> lo_school_id (f r) = lo_school_id r)
     \<Longrightarrow> locations_ok ks (sql_update P f ls)"
  by (auto simp: locations_ok_def set_sql_update distinct_map_sql_update)

lemma computers_ok_update:
  "computers_ok ks cs \<Longrightarrow> (\<And>r. co_id (f r) = co_id r)
     \<Longrightarrow> (\<And>r. refers (co_location_id r) ks \<Longrightarrow> refers (co_location_id (f r)) ks)
     \<Longrightarrow> computers_ok ks (sql_update P f cs)"
  by (auto simp: computers_ok_def set_sql_update distinct_map_sql_update)

lemma classes_ok_update:
  "classes_ok us ks ts rs
     \<Longrightarrow> (\<And>r. cl_row_id (f r) = cl_row_id r \<and> cl_tenant_id (f r) = cl_tenant_id r \<and> cl_school_id (f r) = cl_school_id r)
     \<Longrightarrow> (\<And>r. refers (cl_teacher_id (f r)) ts) \<Longrightarrow> classes_ok us ks ts (sql_update P f rs)"
  by (auto simp: classes_ok_def set_sql_update distinct_map_sql_update)

lemma org_ok_updates:
  assumes "org_ok db"
  shows "org_ok (snd (update_school oc sid name addr db))"
    and "org_ok (snd (update_location oc lid name b fl cap ty db))"
    and "org_ok (snd (update_computer_state oc cid state db))"
    and "org_ok (snd (update_computer_heartbeat oc now cid ip ver db))"
  using assms
  by (simp_all add: update_school_def update_location_def update_computer_state_def
      update_computer_heartbeat_def org_ok_def org_ok_for_def split_beta map_run_update)
    (simp_all add: run_update_rows locations_ok_update computers_ok_update)

lemma org_ok_update_computer:
  assumes "org_ok db"
  shows "org_ok (snd (update_computer oc err cid lid host x y db))"
  using assms run_update_ref_rows [of oc "''Computer not found: '' @ cid" err
      "refers (null_if_empty lid) (location_keys db)" "\<lambda>r. co_id r = cid"
      "\<lambda>r. r\<lparr>co_location_id := null_if_empty lid, co_hostname := host, co_position_x := x, co_position_y := y\<rparr>"
      "od_computers db"]
  by (auto simp: update_computer_def org_ok_def org_ok_for_def split_beta intro!: computers_ok_update)

lemma org_ok_update_class:
  assumes "org_ok db"
  shows "org_ok (snd (update_class oc err cid name tid db))"
  using assms run_update_ref_rows [of oc "''Class not found: '' @ cid" err
      "refers (null_if_empty tid) (teacher_keys db)" "\<lambda>r. cl_row_id r = cid"
      "\<lambda>r. r\<lparr>cl_name := name, cl_teacher_id := null_if_empty tid\<rparr>" "od_classes db"]
  by (auto simp: update_class_def org_ok_def org_ok_for_def split_beta map_sql_update
      intro!: classes_ok_update)

lemma org_ok_access:
  assumes "org_ok db"
  shows "org_ok (snd (assign oc err tid lid db))" and "org_ok (snd (revoke_location oc tid lid db))"
    and "org_ok (snd (remove_computer oc cid db))"
  using assms
  by (auto simp: assign_def revoke_location_def remove_computer_def org_ok_def org_ok_for_def refs_append
      split: sql_call.split)
    (auto simp: access_ok_def computers_ok_def sql_delete_def distinct_map_filter)

subsection \<open>People\<close>

lemma student_step_refs:
  assumes "\<And>salt rnd now oc err tenant cls name user pw. op \<noteq> SCreate salt rnd now oc err tenant cls name user pw"
    and "student_refs us ks ss"
  shows "student_refs us ks (student_step cr op ss)"
proof -
  have u: "student_refs us ks (sql_update P f ss)"
    if "\<And>r. st_tenant_id (f r) = st_tenant_id r \<and> st_class_id (f r) = st_class_id r" for P f
    using assms(2) that by (auto simp: student_refs_def set_sql_update)
  have d: "student_refs us ks (sql_delete P ss)" for P
    using assms(2) by (auto simp: student_refs_def)
  show ?thesis
  proof (cases op)
    case (SActivate oc oc' now sid mid)
    with activate_rows [of oc oc' now sid mid ss] u assms(2) show ?thesis by (auto simp: bind_machine_def)
  next
    case (SChangePassword salt oc sid pw)
    with change_student_password_rows [of cr salt oc sid pw ss] u assms(2)
    show ?thesis by (auto simp: set_student_hash_def clear_machine_def)
  qed (use assms u d in \<open>auto simp: resetMachine_def apply_student_hash_def update_student_def
      remove_student_def run_update_rows run_delete_rows clear_machine_def set_student_hash_def\<close>)
qed

lemma org_ok_students:
  assumes "org_ok db"
    and "\<And>salt rnd now oc err tenant cls name user pw. op \<noteq> SCreate salt rnd now oc err tenant cls name user pw"
  shows "org_ok (set_students (student_step cr op (od_students db)) db)"
  using assms by (simp add: org_ok_def org_ok_for_def student_step_ok student_step_refs)

lemma org_ok_insert_student:
  assumes "org_ok db"
  shows "org_ok (snd (insert_student cr salt rnd now oc err tenant cid name user pw db))"
proof (cases "create_student cr salt rnd now oc err tenant cid name user pw (od_students db)")
  case (Pair r ss)
  have ok: "students_ok ss"
    using assms student_step_ok [of "od_students db" cr "SCreate salt rnd now oc err tenant cid name user pw"] Pair
    by (simp add: org_ok_def org_ok_for_def)
  have "\<exists>s. ss = od_students db @ [s] \<and> st_tenant_id s = tenant \<and> st_class_id s = cid" if "r = Inr newId" for newId
    using Pair that by (auto simp: create_student_def ok_def fail_def
        split: sum.splits option.splits sql_call.splits if_splits)
  with ok assms Pair show ?thesis
    by (cases r) (auto simp: insert_student_def org_ok_def org_ok_for_def refs_append)
qed

lemma org_ok_teachers:
  assumes "org_ok db" and "teachers_ok ts" and "set (teacher_keys db) \<subseteq> set (map te_id ts)"
  shows "org_ok (set_teachers ts db)"
  using assms refs_mono(3) [of "teacher_keys db" "location_keys db" "od_access db" "map te_id ts" "location_keys db"]
    refs_mono(4) [of "tenant_keys db" "school_keys db" "teacher_keys db" "od_classes db"
      "tenant_keys db" "school_keys db" "map te_id ts"]
  by (simp add: org_ok_def org_ok_for_def)

lemma teacher_ops_ok:
  assumes "teachers_ok ts"
  shows "teachers_ok (snd (create_teacher cr salt rnd now oc err user pw name role ts))"
    and "teachers_ok (snd (update_teacher oc tid name role ts))"
    and "teachers_ok (snd (change_teacher_password cr salt oc tid pw ts))"
    and "teachers_ok (snd (apply_teacher_hash oc tid h ts))"
    and "te_id ` set ts \<subseteq> te_id ` set (snd (create_teacher cr salt rnd now oc err user pw name role ts))"
    and "te_id ` set (snd (update_teacher oc tid name role ts)) = te_id ` set ts"
    and "te_id ` set (snd (change_teacher_password cr salt oc tid pw ts)) = te_id ` set ts"
    and "te_id ` set (snd (apply_teacher_hash oc tid h ts)) = te_id ` set ts"
  using assms
  by (simp_all add: teachers_ok_create update_teacher_def change_teacher_password_def apply_teacher_hash_def
      teachers_ok_update keys_run_update set_teacher_hash_def split: sum.split)
    (auto simp: create_teacher_def split: option.split sum.split sql_call.split)

lemma org_ok_tenants:
  assumes "org_ok db" and "tenants_ok ts" and "set (tenant_keys db) \<subseteq> set (map tn_id ts)"
  shows "org_ok (db\<lparr>od_tenants := ts\<rparr>)"
  using assms refs_mono(5) [of "tenant_keys db" "class_keys db" "od_students db" "map tn_id ts" "class_keys db"]
    refs_mono(4) [of "tenant_keys db" "school_keys db" "teacher_keys db" "od_classes db"
      "map tn_id ts" "school_keys db" "teacher_keys db"]
  by (simp add: org_ok_def org_ok_for_def)

section \<open>Properties\<close>

lemma org_step_ok: "org_step db db' \<Longrightarrow> org_ok db \<Longrightarrow> org_ok db'"
proof (induction rule: org_step.induct)
  case (create_tenant db rnd now oc err mf name slug mail)
  then have "set (tenant_keys db) \<subseteq> set (map tn_id (snd (create_tenant rnd now oc err mf name slug mail (od_tenants db))))"
    by (cases rule: create_tenant_cases [of rnd now oc err mf name slug mail "od_tenants db"]) auto
  moreover have "tenants_ok (od_tenants db)" using create_tenant by (simp add: org_ok_def org_ok_for_def)
  ultimately show ?case using create_tenant by (intro org_ok_tenants tenants_ok_create)
next
  case (activate_tenant db oc now tid)
  then have "tenants_ok (od_tenants db)" by (simp add: org_ok_def org_ok_for_def)
  with activate_tenant show ?case by (intro org_ok_tenants) (simp_all add: tenants_ok_updates)
next
  case (suspend db oc tid)
  then have "tenants_ok (od_tenants db)" by (simp add: org_ok_def org_ok_for_def)
  with suspend show ?case by (intro org_ok_tenants) (simp_all add: tenants_ok_updates)
next
  case (unsuspend db oc tid)
  then have "tenants_ok (od_tenants db)" by (simp add: org_ok_def org_ok_for_def)
  with unsuspend show ?case by (intro org_ok_tenants) (simp_all add: tenants_ok_updates)
next
  case (create_teacher db cr salt rnd now oc err user pw name role)
  then have "teachers_ok (od_teachers db)" by (simp add: org_ok_def org_ok_for_def)
  with create_teacher show ?case by (intro org_ok_teachers) (simp_all add: teacher_ops_ok)
next
  case (update_teacher db oc tid name role)
  then have "teachers_ok (od_teachers db)" by (simp add: org_ok_def org_ok_for_def)
  with update_teacher show ?case by (intro org_ok_teachers) (simp_all add: teacher_ops_ok)
next
  case (teacher_password db cr salt oc tid pw)
  then have "teachers_ok (od_teachers db)" by (simp add: org_ok_def org_ok_for_def)
  with teacher_password show ?case by (intro org_ok_teachers) (simp_all add: teacher_ops_ok)
next
  case (teacher_hash db oc tid h)
  then have "teachers_ok (od_teachers db)" by (simp add: org_ok_def org_ok_for_def)
  with teacher_hash show ?case by (intro org_ok_teachers) (simp_all add: teacher_ops_ok)
qed (simp_all add: org_ok_creates org_ok_updates org_ok_remove_school org_ok_remove_location
    org_ok_update_computer org_ok_access org_ok_update_class org_ok_remove_class
    org_ok_insert_student org_ok_students org_ok_delete_teacher)

definition empty_org_db :: org_db where
  "empty_org_db = \<lparr>od_school = \<lparr>sd_students = [], sd_teachers = [], sd_classes = [], sd_requests = []\<rparr>,
     od_tenants = [], od_schools = [], od_locations = [], od_computers = [], od_access = []\<rparr>"

lemma org_ok_empty: "org_ok empty_org_db"
  by (simp add: org_ok_def org_ok_for_def empty_org_db_def locations_ok_def computers_ok_def access_ok_def
      classes_ok_def student_refs_def tenants_ok_def teachers_ok_def students_ok_def)

text \<open>
  C26: No sequence of repository calls, whatever each statement answers, leaves the tables of an
  organisation with a duplicate key or a dangling reference: every location has its school,
  every computer its location or none, every access right its teacher and location, every
  class its tenant, school and teacher or none, every student its tenant and class.
\<close>

theorem tables_stay_well_formed:
  assumes "org_step\<^sup>*\<^sup>* empty_org_db db"
  shows "org_ok db"
  using assms by (induction rule: rtranclp_induct) (auto intro: org_step_ok org_ok_empty)

lemma tables_stay_well_formed_witness:
  "org_ok (snd (create_school (Some (replicate 16 0)) 7 Completes [] ''School'' [] empty_org_db))"
  by (rule tables_stay_well_formed, rule r_into_rtranclp, rule org_step.create_school)

text \<open>
  What removing a school takes with it: its locations and the access rights to them, its
  classes and their students; the computers of its locations stay and are unassigned. All other
  rows, of whatever tenant, stay as they are.
\<close>

theorem remove_school_cascade:
  assumes "sid \<in> so_id ` set (od_schools db)"
  shows "fst (remove_school Completes sid db) = Inr ()
    \<and> (let db' = snd (remove_school Completes sid db); gone = {l \<in> set (od_locations db). lo_school_id l = sid};
           left = {c \<in> set (od_classes db). cl_school_id c = Some sid} in
       set (od_schools db') = {r \<in> set (od_schools db). so_id r \<noteq> sid}
       \<and> set (od_locations db') = set (od_locations db) - gone
       \<and> set (od_access db') = {(t, l) \<in> set (od_access db). l \<notin> lo_id ` gone}
       \<and> set (od_classes db') = set (od_classes db) - left
       \<and> set (od_students db') = {s \<in> set (od_students db). st_class_id s \<notin> cl_row_id ` left}
       \<and> od_computers db' = map (\<lambda>c. if co_location_id c \<in> Some ` lo_id ` gone
                                     then c\<lparr>co_location_id := None\<rparr> else c) (od_computers db)
       \<and> od_teachers db' = od_teachers db \<and> od_tenants db' = od_tenants db)"
proof -
  have ok: "fst (run_delete Completes nf (\<lambda>r. so_id r = sid) (od_schools db)) = Inr ()" for nf
    using assms sql_changes_0_iff [of "\<lambda>r. so_id r = sid" "od_schools db"]
    by (auto simp: run_delete_def ok_def)
  then have r: "remove_school Completes sid db = (Inr (), delete_school_row sid db)"
    by (simp add: remove_school_def Let_def)
  have loc: "(case v of None \<Rightarrow> False | Some l \<Rightarrow> l \<in> set (map lo_id (filter (\<lambda>l. lo_school_id l = sid) (od_locations db))))
      \<longleftrightarrow> v \<in> Some ` lo_id ` {l \<in> set (od_locations db). lo_school_id l = sid}" for v
    by (cases v) auto
  show ?thesis
    unfolding r
    by (auto simp: Let_def delete_school_row_def delete_classes_def delete_locations_def
        sql_update_def loc [simplified])
qed

lemma remove_school_cascade_witness:
  "fst (remove_school Completes ''s''
     (empty_org_db\<lparr>od_schools := [\<lparr>so_id = ''s'', so_name = ''S'', so_address = [], so_created_at = 0,
                                   so_tenant_id = None\<rparr>]\<rparr>)) = Inr ()"
  by (rule conjunct1 [OF remove_school_cascade]) (simp add: empty_org_db_def)

end
