(* ===== verification/Token_Store.thy ===== *)
theory Token_Store
  imports Core_Types Interfaces
begin

text \<open>
  The denylist of revoked tokens, src/auth/internal/TokenStore.cpp, in its two modes: rows
  of the SQLite table \<^verbatim>\<open>revoked_tokens\<close> when a database path is configured, an in-memory
  set otherwise. SQLite is not part of the repository: what a call of it returned is the
  argument \<open>oc\<close>, and a statement that completes does what its SQL text says to the rows.
  The clock counts nanoseconds. The lemmas show that both modes are denylists, that
  purging is invisible, and how the store behaves when the database fails.
\<close>

datatype sql_outcome = SqlDone | PrepareFails | StepFails

record token_store =
  ts_useSqlite :: bool
  ts_rows :: "string \<rightharpoonup> int \<times> int"
  ts_memRevoked :: "string set"

text \<open>\<^verbatim>\<open>duration_cast<seconds>\<close> truncates towards zero.\<close>

definition toEpochSeconds :: "timestamp \<Rightarrow> int" where
  "toEpochSeconds tp = (if tp \<ge> 0 then tp div 1000000000 else - ((- tp) div 1000000000))"

definition k_defaultRevocationTtl :: int where
  "k_defaultRevocationTtl = 3600 * 1000000000"

text \<open>The outcome of opening the database and of creating the table.\<close>

definition initDb :: "bool \<Rightarrow> bool \<Rightarrow> (string \<rightharpoonup> int \<times> int) \<Rightarrow> token_store \<Rightarrow> token_store" where
  "initDb open_ok create_ok rows s =
     (if \<not> open_ok then s
      else if \<not> create_ok then s
      else s\<lparr>ts_useSqlite := True, ts_rows := rows\<rparr>)"

definition create_store ::
  "bool \<Rightarrow> bool \<Rightarrow> (string \<rightharpoonup> int \<times> int) \<Rightarrow> string \<Rightarrow> token_store result" where
  "create_store open_ok create_ok rows dbPath =
     (let store = \<lparr>ts_useSqlite = False, ts_rows = Map.empty, ts_memRevoked = {}\<rparr> in
      if dbPath \<noteq> [] then
        let store' = initDb open_ok create_ok rows store in
        if \<not> ts_useSqlite store'
        then fail InternalError (''[TokenStore] Failed to open revocation database: '' @ dbPath)
        else ok store'
      else ok store)"

definition revokeWithExpiry ::
  "sql_outcome \<Rightarrow> timestamp \<Rightarrow> string \<Rightarrow> timestamp \<Rightarrow> token_store \<Rightarrow> token_store" where
  "revokeWithExpiry oc now jti expiresAt s =
     (if ts_useSqlite s then
        (case oc of
           PrepareFails \<Rightarrow> s
         | StepFails \<Rightarrow> s
         | SqlDone \<Rightarrow>
             s\<lparr>ts_rows := (ts_rows s)(jti \<mapsto> (toEpochSeconds now, toEpochSeconds expiresAt))\<rparr>)
      else s\<lparr>ts_memRevoked := insert jti (ts_memRevoked s)\<rparr>)"

text \<open>The clock is read once for the default expiry and once more when the row is written.\<close>

definition revoke ::
  "sql_outcome \<Rightarrow> timestamp \<Rightarrow> timestamp \<Rightarrow> string \<Rightarrow> token_store \<Rightarrow> token_store" where
  "revoke oc now now' jti s = revokeWithExpiry oc now' jti (now + k_defaultRevocationTtl) s"

definition isRevoked :: "sql_outcome \<Rightarrow> timestamp \<Rightarrow> string \<Rightarrow> token_store \<Rightarrow> bool" where
  "isRevoked oc now jti s =
     (if ts_useSqlite s then
        (case oc of
           PrepareFails \<Rightarrow> True
         | StepFails \<Rightarrow> False
         | SqlDone \<Rightarrow>
             (case ts_rows s jti of
                None \<Rightarrow> False
              | Some (_, expires_at) \<Rightarrow> expires_at > toEpochSeconds now))
      else jti \<in> ts_memRevoked s)"

definition purgeExpired :: "sql_outcome \<Rightarrow> timestamp \<Rightarrow> token_store \<Rightarrow> token_store" where
  "purgeExpired oc now s =
     (if \<not> ts_useSqlite s then s
      else case oc of
             PrepareFails \<Rightarrow> s
           | StepFails \<Rightarrow> s
           | SqlDone \<Rightarrow>
               s\<lparr>ts_rows := map_keep (\<lambda>_ (_, expires_at). \<not> expires_at \<le> toEpochSeconds now)
                              (ts_rows s)\<rparr>)"

lemma toEpochSeconds_mono: "a \<le> b \<Longrightarrow> toEpochSeconds a \<le> toEpochSeconds b"
  by (auto simp: toEpochSeconds_def intro: zdiv_mono1)
    (meson dual_order.trans le_minus_iff neg_0_le_iff_le nle_le pos_imp_zdiv_nonneg_iff
      zero_less_numeral minus_le_iff neg_le_0_iff_le)

lemma useSqlite_ops [simp]:
  "ts_useSqlite (revokeWithExpiry oc now j e s) = ts_useSqlite s"
  "ts_useSqlite (revoke oc now now' j s) = ts_useSqlite s"
  "ts_useSqlite (purgeExpired oc now s) = ts_useSqlite s"
  by (simp_all add: revoke_def revokeWithExpiry_def purgeExpired_def split: sql_outcome.split)

section \<open>Both modes are denylists\<close>

text \<open>
  With a database that answers, an entry holds while its expiry second lies in the
  future; in memory it holds for ever.
\<close>

interpretation sqlite_store: denylist
  ts_useSqlite
  "\<lambda>t ex. toEpochSeconds ex > toEpochSeconds t"
  "\<lambda>now ex j s. revokeWithExpiry SqlDone now j ex s"
  "purgeExpired SqlDone"
  "isRevoked SqlDone"
proof
  fix s :: token_store and now t ex :: int and j j' :: string
  assume db: "ts_useSqlite s"
  then show "ts_useSqlite (revokeWithExpiry SqlDone now j ex s)" by simp
  from db show "ts_useSqlite (purgeExpired SqlDone now s)" by simp
  from db show "isRevoked SqlDone t j (revokeWithExpiry SqlDone now j' ex s)
      = (if j = j' then toEpochSeconds t < toEpochSeconds ex else isRevoked SqlDone t j s)"
    by (simp add: isRevoked_def revokeWithExpiry_def)
  assume "now \<le> t"
  then have "toEpochSeconds now \<le> toEpochSeconds t" by (rule toEpochSeconds_mono)
  with db show "isRevoked SqlDone t j (purgeExpired SqlDone now s) = isRevoked SqlDone t j s"
    by (auto simp: isRevoked_def purgeExpired_def map_keep_def split: option.splits)
qed

interpretation memory_store: denylist
  "\<lambda>s. \<not> ts_useSqlite s"
  "\<lambda>_ _. True"
  "\<lambda>now ex j s. revokeWithExpiry oc now j ex s"
  "purgeExpired oc"
  "isRevoked oc"
  for oc
  by standard (simp_all add: isRevoked_def revokeWithExpiry_def purgeExpired_def)

lemma revoke_as_deny:
  "revoke oc now now' j s = revokeWithExpiry oc now' j (now + k_defaultRevocationTtl) s"
  by (simp add: revoke_def)

lemma epoch_plus_ttl:
  "0 \<le> now \<Longrightarrow> toEpochSeconds (now + k_defaultRevocationTtl) = toEpochSeconds now + 3600"
  by (simp add: toEpochSeconds_def k_defaultRevocationTtl_def)

lemma isRevoked_purge:
  assumes "now \<le> t"
  shows "isRevoked oc' t j (purgeExpired oc now s) = isRevoked oc' t j s"
proof (cases "ts_useSqlite s \<and> oc = SqlDone")
  case False
  then show ?thesis by (cases oc) (auto simp: purgeExpired_def)
next
  case True
  then show ?thesis
    using sqlite_store.denied_purge [of s now t j] assms
    by (cases oc') (simp_all add: isRevoked_def)
qed

text \<open>Once the hour is over a revocation no longer holds.\<close>

lemma revocation_over:
  assumes "ts_useSqlite s" and "0 \<le> now" and "toEpochSeconds now + 3600 \<le> toEpochSeconds t"
  shows "\<not> isRevoked SqlDone t j (revoke SqlDone now now' j s)"
  using assms by (simp add: isRevoked_def revoke_def revokeWithExpiry_def epoch_plus_ttl)

text \<open>What other requests do to the store in the meantime: purges and revocations.\<close>

abbreviation store_step :: "string denylist_op \<Rightarrow> token_store \<Rightarrow> token_store" where
  "store_step \<equiv> denylist_step (\<lambda>now ex j s. revokeWithExpiry SqlDone now j ex s)
                              (purgeExpired SqlDone)"

lemma revoke_lasts:
  assumes "ts_useSqlite s" and "0 \<le> now"
    and "toEpochSeconds t < toEpochSeconds now + 3600"
    and "\<And>op. op \<in> set ops \<Longrightarrow>
           (case op of Purge n \<Rightarrow> n \<le> t
            | Deny n ex j' \<Rightarrow> j' = j \<longrightarrow> toEpochSeconds t < toEpochSeconds ex)"
  shows "isRevoked SqlDone t j
           (fold store_step ops (revoke SqlDone now now' j s))"
  unfolding revoke_as_deny
  by (rule sqlite_store.denied_after) (use assms in \<open>simp_all add: epoch_plus_ttl\<close>)

text \<open>
  A revoked token identifier is reported as revoked for the whole hour that follows
  the revocation, through any purges that happen before the question is asked and any
  other revocations, including later revocations of the same token whose expiry is not
  sooner; this holds for the database-backed store when the database answers.
\<close>

theorem revoked_for_an_hour:
  assumes "ts_useSqlite s" and "0 \<le> now"
    and "toEpochSeconds t < toEpochSeconds now + 3600"
    and "\<And>op. op \<in> set ops \<Longrightarrow>
           (case op of Purge n \<Rightarrow> n \<le> t
            | Deny n ex j' \<Rightarrow> j' = j \<longrightarrow> toEpochSeconds t < toEpochSeconds ex)"
  shows "isRevoked SqlDone t j
           (fold store_step ops (revoke SqlDone now now' j s))"
  using assms by (rule revoke_lasts)

definition sqlite_empty :: token_store where
  "sqlite_empty = \<lparr>ts_useSqlite = True, ts_rows = Map.empty, ts_memRevoked = {}\<rparr>"

theorem revoked_for_an_hour_witness:
  "isRevoked SqlDone 3000000000000 ''jti''
     (fold store_step [Purge 2000000000000, Deny 5 9 ''other'']
        (revoke SqlDone 0 0 ''jti'' sqlite_empty))"
  by (rule revoked_for_an_hour) (auto simp: sqlite_empty_def toEpochSeconds_def)

text \<open>
  Purging expired entries cannot be observed: in either mode and whatever the
  database answers to the purge, every later question has the answer it would have had
  without the purge.
\<close>

theorem purge_unobservable:
  assumes "now \<le> t"
  shows "isRevoked oc' t j (purgeExpired oc now s) = isRevoked oc' t j s"
  using assms by (rule isRevoked_purge)

theorem purge_unobservable_witness:
  "isRevoked SqlDone 5000000000 ''j''
     (purgeExpired SqlDone 4000000000 (revoke SqlDone 0 0 ''j'' sqlite_empty))
   = isRevoked SqlDone 5000000000 ''j'' (revoke SqlDone 0 0 ''j'' sqlite_empty)"
  by (rule purge_unobservable) simp

text \<open>
  The database-backed store fails closed only half of the time. When the lookup
  cannot be prepared every token counts as revoked; when the prepared lookup fails while
  it runs, no token does, not even one that was revoked a moment ago.
\<close>

theorem lookup_failure_modes:
  assumes "ts_useSqlite s"
  shows "isRevoked PrepareFails t j s
    \<and> \<not> isRevoked StepFails t j (revoke SqlDone now now' j s)"
  using assms by (simp add: isRevoked_def)

theorem lookup_failure_modes_witness:
  "isRevoked PrepareFails 0 ''j'' sqlite_empty
   \<and> \<not> isRevoked StepFails 0 ''j'' (revoke SqlDone 0 0 ''j'' sqlite_empty)"
  by (rule lookup_failure_modes) (simp add: sqlite_empty_def)

end
