(* ===== verification/Jwt_Auth.thy ===== *)
theory Jwt_Auth
  imports Token_Store Text_Utils
begin

text \<open>
  Bearer tokens: src/auth/internal/JwtValidator.cpp, src/auth/JwtAuth.cpp and the claims
  and context types include/hub32api/auth/JwtToken.hpp and AuthContext.hpp. The library
  jwt-cpp is not part of the repository; its calls are the fields of \<open>jwt_lib\<close>, a value
  every operation takes as an argument, and \<open>faithful_token\<close> is what its documentation
  promises of a token it has signed itself. An exception that leaves a function is the
  outer \<open>None\<close>. The lemmas show what a validated token is known to satisfy, that an issued
  token authenticates as what it was issued for until it expires, and how long a
  revocation lasts.
\<close>

section \<open>The JWT library\<close>

text \<open>The claims the issuing code hands to the builder.\<close>

record jwt_claims =
  cl_type :: string
  cl_issuer :: string
  cl_audience :: string
  cl_subject :: string
  cl_issued_at :: timestamp
  cl_expires_at :: timestamp
  cl_id :: string
  cl_role :: string
  cl_tid :: "string option"

text \<open>The \<open>alg\<close> member of a decoded header: missing, a string, or another JSON value.\<close>

datatype alg_member = AlgMissing | AlgString string | AlgOther

datatype verify_outcome = Verified | VerificationError string | OtherError string

text \<open>
  \<open>jl_string d n\<close> is the string accessor of claim \<open>n\<close>, \<open>None\<close> when it throws;
  \<open>jl_date d n\<close> that of a date claim.
\<close>

record 'd jwt_lib =
  jl_decode :: "string \<Rightarrow> string + 'd"
  jl_alg :: "'d \<Rightarrow> alg_member"
  jl_verify :: "string \<Rightarrow> string \<Rightarrow> string \<Rightarrow> timestamp \<Rightarrow> 'd \<Rightarrow> verify_outcome"
  jl_string :: "'d \<Rightarrow> string \<Rightarrow> string option"
  jl_has :: "'d \<Rightarrow> string \<Rightarrow> bool"
  jl_date :: "'d \<Rightarrow> string \<Rightarrow> timestamp option"
  jl_sign :: "string \<Rightarrow> string \<Rightarrow> jwt_claims \<Rightarrow> string + string"

section \<open>Tokens and contexts\<close>

record jwt_token =
  tk_subject :: string
  tk_issuer :: string
  tk_role :: string
  tk_tenant_id :: string
  tk_jti :: string
  tk_issuedAt :: timestamp
  tk_expiresAt :: timestamp

definition has_role :: "jwt_token \<Rightarrow> string \<Rightarrow> bool" where
  "has_role t required = (tk_role t = required)"

definition is_expired :: "timestamp \<Rightarrow> jwt_token \<Rightarrow> bool" where
  "is_expired now t = (now > tk_expiresAt t)"

record auth_context =
  ac_authenticated :: bool
  ac_token :: "jwt_token option"
  ac_tenant_id :: string

definition anonymous :: auth_context where
  "anonymous = \<lparr>ac_authenticated = False, ac_token = None, ac_tenant_id = []\<rparr>"

definition ctx_has_role :: "string \<Rightarrow> auth_context \<Rightarrow> bool" where
  "ctx_has_role r ctx = (case ac_token ctx of None \<Rightarrow> False | Some t \<Rightarrow> has_role t r)"

definition is_admin :: "auth_context \<Rightarrow> bool" where "is_admin = ctx_has_role ''admin''"
definition is_superadmin :: "auth_context \<Rightarrow> bool" where "is_superadmin = ctx_has_role ''superadmin''"
definition is_owner :: "auth_context \<Rightarrow> bool" where "is_owner = ctx_has_role ''owner''"
definition is_student :: "auth_context \<Rightarrow> bool" where "is_student = ctx_has_role ''student''"
definition is_teacher :: "auth_context \<Rightarrow> bool" where "is_teacher = ctx_has_role ''teacher''"

definition ctx_subject :: "auth_context \<Rightarrow> string" where
  "ctx_subject ctx = (case ac_token ctx of None \<Rightarrow> [] | Some t \<Rightarrow> tk_subject t)"

definition kBearerPrefix :: string where "kBearerPrefix = ''Bearer ''"
definition kBearerPrefixLen :: nat where "kBearerPrefixLen = 7"
definition kJwtIssuer :: string where "kJwtIssuer = ''hub32api''"
definition kJwtAudience :: string where "kJwtAudience = ''hub32api-clients''"
definition kTokenPurgeIntervalCalls :: int where "kTokenPurgeIntervalCalls = 100"

text \<open>The one algorithm of \<^verbatim>\<open>to_string(JwtAlgorithm)\<close>.\<close>

definition alg_RS256 :: string where "alg_RS256 = ''RS256''"

section \<open>Validation\<close>

definition strip_bearer :: "string \<Rightarrow> string" where
  "strip_bearer raw =
     (if starts_with raw kBearerPrefix then drop kBearerPrefixLen raw else raw)"

text \<open>
  Reading the claims, the steps from the subject on. A missing \<open>tid\<close> leaves the tenant
  empty; a date claim that is present and is no date throws out of the function.
\<close>

definition extract_claims :: "'d jwt_lib \<Rightarrow> 'd \<Rightarrow> jwt_token result option" where
  "extract_claims lib d =
     (case jl_string lib d ''sub'' of
        None \<Rightarrow> Some (fail Unauthorized ''Token missing 'sub' claim'')
      | Some sub \<Rightarrow>
     (case jl_string lib d ''role'' of
        None \<Rightarrow> Some (fail Unauthorized ''Token missing 'role' claim'')
      | Some role \<Rightarrow>
     (case jl_string lib d ''jti'' of
        None \<Rightarrow> Some (fail Unauthorized ''Token missing 'jti' claim'')
      | Some jti \<Rightarrow>
        let iss = (case jl_string lib d ''iss'' of None \<Rightarrow> kJwtIssuer | Some i \<Rightarrow> i);
            tid = (case jl_string lib d ''tid'' of None \<Rightarrow> [] | Some t \<Rightarrow> t);
            date = (\<lambda>n. if jl_has lib d n then jl_date lib d n else Some 0)
        in case date ''iat'' of
             None \<Rightarrow> None
           | Some iat \<Rightarrow>
          (case date ''exp'' of
             None \<Rightarrow> None
           | Some ex \<Rightarrow>
               Some (ok \<lparr>tk_subject = sub, tk_issuer = iss, tk_role = role, tk_tenant_id = tid,
                         tk_jti = jti, tk_issuedAt = iat, tk_expiresAt = ex\<rparr>)))))"

text \<open>
  The algorithm check: a header whose \<open>alg\<close> is no string throws, and this block stands
  outside every \<^verbatim>\<open>try\<close>.
\<close>

definition check_alg :: "'d jwt_lib \<Rightarrow> 'd \<Rightarrow> unit result option" where
  "check_alg lib d =
     (case jl_alg lib d of
        AlgOther \<Rightarrow> None
      | m \<Rightarrow>
          let tokenAlg = (case m of AlgString a \<Rightarrow> a | _ \<Rightarrow> []) in
          if to_lower tokenAlg = ''none''
          then Some (fail Unauthorized ''Token algorithm 'none' is not permitted'')
          else if tokenAlg \<noteq> alg_RS256
          then Some (fail Unauthorized
                 (''Token algorithm mismatch: expected '' @ alg_RS256 @ '', got '' @ tokenAlg))
          else Some (ok ()))"

text \<open>\<open>t1\<close> is the clock \<^verbatim>\<open>verify\<close> reads, \<open>t2\<close> the one of the explicit expiry check.\<close>

definition validate ::
  "'d jwt_lib \<Rightarrow> string \<Rightarrow> timestamp \<Rightarrow> timestamp \<Rightarrow> string \<Rightarrow> jwt_token result option" where
  "validate lib publicKey t1 t2 rawToken =
     (let tokenStr = strip_bearer rawToken in
      if tokenStr = [] then Some (fail Unauthorized ''Token is empty'')
      else case jl_decode lib tokenStr of
        Inl what \<Rightarrow> Some (fail Unauthorized (''Token decode failed: '' @ what))
      | Inr d \<Rightarrow>
     (case check_alg lib d of
        None \<Rightarrow> None
      | Some (Inl e) \<Rightarrow> Some (Inl e)
      | Some (Inr _) \<Rightarrow>
     (case jl_verify lib publicKey kJwtIssuer kJwtAudience t1 d of
        VerificationError what \<Rightarrow>
          Some (fail Unauthorized (''Token verification failed: '' @ what))
      | OtherError what \<Rightarrow>
          Some (fail Unauthorized (''Token validation error: '' @ what))
      | Verified \<Rightarrow>
          if jl_has lib d ''exp''
          then (case jl_date lib d ''exp'' of
                  None \<Rightarrow> None
                | Some ex \<Rightarrow>
                    if t2 > ex then Some (fail TokenExpired ''Token has expired'')
                    else extract_claims lib d)
          else extract_claims lib d)))"

section \<open>Issuing and authenticating\<close>

record jwt_config =
  jc_jwtAlgorithm :: string
  jc_jwtExpirySeconds :: int
  jc_jwtPrivateKeyFile :: string
  jc_jwtPublicKeyFile :: string
  jc_tokenRevocationFile :: string

text \<open>\<open>ja_authCount\<close> is the static call counter, an atomic 32-bit integer that wraps.\<close>

record jwt_auth =
  ja_algorithm :: string
  ja_privateKey :: string
  ja_publicKey :: string
  ja_expirySeconds :: int
  ja_store :: token_store
  ja_authCount :: "32 word"

text \<open>
  \<open>readFile\<close> answers the contents of a file, empty when it cannot be opened;
  \<open>open_store\<close> is \<^verbatim>\<open>TokenStore::create\<close> with the outcomes of its SQLite calls.
\<close>

definition create_auth ::
  "(string \<Rightarrow> string) \<Rightarrow> (string \<Rightarrow> token_store result) \<Rightarrow> 32 word \<Rightarrow> jwt_config
     \<Rightarrow> jwt_auth result" where
  "create_auth readFile open_store count cfg =
     (if jc_jwtAlgorithm cfg \<noteq> alg_RS256
      then fail InvalidConfig
             (''[JwtAuth] Only RS256 algorithm is supported (got '' @ [CHR 0x22]
                @ jc_jwtAlgorithm cfg @ [CHR 0x22] @ '')'')
      else if jc_jwtPrivateKeyFile cfg = [] \<or> jc_jwtPublicKeyFile cfg = []
      then fail InvalidConfig
             ''[JwtAuth] RS256 algorithm requires both private and public key files''
      else
        let priv = readFile (jc_jwtPrivateKeyFile cfg);
            pub = readFile (jc_jwtPublicKeyFile cfg)
        in if priv = []
           then fail FileReadError (''[JwtAuth] Cannot read RS256 private key file: ''
                                      @ jc_jwtPrivateKeyFile cfg)
           else if pub = []
           then fail FileReadError (''[JwtAuth] Cannot read RS256 public key file: ''
                                      @ jc_jwtPublicKeyFile cfg)
           else case open_store (jc_tokenRevocationFile cfg) of
                  Inl e \<Rightarrow> Inl e
                | Inr store \<Rightarrow>
                    ok \<lparr>ja_algorithm = jc_jwtAlgorithm cfg, ja_privateKey = priv,
                        ja_publicKey = pub, ja_expirySeconds = jc_jwtExpirySeconds cfg,
                        ja_store = store, ja_authCount = count\<rparr>)"

definition issue_claims ::
  "timestamp \<Rightarrow> int \<Rightarrow> string \<Rightarrow> string \<Rightarrow> string \<Rightarrow> string \<Rightarrow> jwt_claims" where
  "issue_claims now expirySeconds jti subject role tenant_id =
     \<lparr>cl_type = ''JWT'', cl_issuer = kJwtIssuer, cl_audience = kJwtAudience,
      cl_subject = subject, cl_issued_at = now,
      cl_expires_at = now + expirySeconds * 1000000000,
      cl_id = jti, cl_role = role,
      cl_tid = (if tenant_id \<noteq> [] then Some tenant_id else None)\<rparr>"

definition issueToken ::
  "'d jwt_lib \<Rightarrow> timestamp \<Rightarrow> byte list option \<Rightarrow> jwt_auth \<Rightarrow> string \<Rightarrow> string \<Rightarrow> string
     \<Rightarrow> string result" where
  "issueToken lib now rnd a subject role tenant_id =
     (case generateUuid rnd of
        None \<Rightarrow> fail InternalError
                  (''JWT ID generation failed: '' @ ''RAND_bytes failed for UUID generation'')
      | Some jti \<Rightarrow>
          (case jl_sign lib (ja_publicKey a) (ja_privateKey a)
                  (issue_claims now (ja_expirySeconds a) jti subject role tenant_id) of
             Inl what \<Rightarrow> fail InternalError (''Token signing failed: '' @ what)
           | Inr token \<Rightarrow> ok token))"

text \<open>What the environment answers during one call of \<^verbatim>\<open>authenticate\<close>.\<close>

record auth_env =
  ae_purge_oc :: sql_outcome
  ae_purge_now :: timestamp
  ae_verify_now :: timestamp
  ae_expiry_now :: timestamp
  ae_lookup_oc :: sql_outcome
  ae_lookup_now :: timestamp

definition count_and_purge :: "auth_env \<Rightarrow> jwt_auth \<Rightarrow> jwt_auth" where
  "count_and_purge env a =
     (let n = ja_authCount a + 1;
          a' = a\<lparr>ja_authCount := n\<rparr>
      in if sint n mod kTokenPurgeIntervalCalls = 0
         then a'\<lparr>ja_store := purgeExpired (ae_purge_oc env) (ae_purge_now env) (ja_store a)\<rparr>
         else a')"

definition authenticate ::
  "'d jwt_lib \<Rightarrow> auth_env \<Rightarrow> string \<Rightarrow> jwt_auth \<Rightarrow> auth_context result option \<times> jwt_auth" where
  "authenticate lib env bearerToken a =
     (let a' = count_and_purge env a in
      (case validate lib (ja_publicKey a) (ae_verify_now env) (ae_expiry_now env) bearerToken of
         None \<Rightarrow> None
       | Some (Inl e) \<Rightarrow> Some (Inl e)
       | Some (Inr token) \<Rightarrow>
           if isRevoked (ae_lookup_oc env) (ae_lookup_now env) (tk_jti token) (ja_store a')
           then Some (fail Unauthorized ''Token has been revoked'')
           else Some (ok \<lparr>ac_authenticated = True, ac_token = Some token,
                          ac_tenant_id = tk_tenant_id token\<rparr>),
       a'))"

definition revokeToken ::
  "sql_outcome \<Rightarrow> timestamp \<Rightarrow> timestamp \<Rightarrow> string \<Rightarrow> jwt_auth \<Rightarrow> jwt_auth" where
  "revokeToken oc now now' jti a = a\<lparr>ja_store := revoke oc now now' jti (ja_store a)\<rparr>"

section \<open>What a validated token satisfies\<close>

lemma strip_bearer_prefix [simp]: "strip_bearer (kBearerPrefix @ s) = s"
  by (simp add: strip_bearer_def starts_with_def kBearerPrefix_def kBearerPrefixLen_def)

lemma strip_bearer_plain [simp]: "\<not> starts_with s kBearerPrefix \<Longrightarrow> strip_bearer s = s"
  by (simp add: strip_bearer_def)

lemma check_alg_ok_iff:
  "check_alg lib d = Some (Inr u) \<longleftrightarrow> jl_alg lib d = AlgString alg_RS256"
proof (cases "jl_alg lib d")
  case (AlgString a)
  have "to_lower alg_RS256 \<noteq> ''none''"
    by (simp add: alg_RS256_def to_lower_def to_lower_char_def is_upper_def)
  with AlgString show ?thesis by (auto simp: check_alg_def fail_def ok_def Let_def)
qed (auto simp: check_alg_def fail_def ok_def alg_RS256_def to_lower_def Let_def)

text \<open>A date claim that is absent reads as the epoch.\<close>

definition claim_date :: "'d jwt_lib \<Rightarrow> 'd \<Rightarrow> string \<Rightarrow> timestamp option" where
  "claim_date lib d n = (if jl_has lib d n then jl_date lib d n else Some 0)"

definition token_of :: "'d jwt_lib \<Rightarrow> 'd \<Rightarrow> jwt_token \<Rightarrow> bool" where
  "token_of lib d t \<longleftrightarrow>
     jl_string lib d ''sub'' = Some (tk_subject t)
     \<and> jl_string lib d ''role'' = Some (tk_role t)
     \<and> jl_string lib d ''jti'' = Some (tk_jti t)
     \<and> tk_issuer t = (case jl_string lib d ''iss'' of None \<Rightarrow> kJwtIssuer | Some i \<Rightarrow> i)
     \<and> tk_tenant_id t = (case jl_string lib d ''tid'' of None \<Rightarrow> [] | Some i \<Rightarrow> i)
     \<and> claim_date lib d ''iat'' = Some (tk_issuedAt t)
     \<and> claim_date lib d ''exp'' = Some (tk_expiresAt t)"

lemma extract_claims_ok_iff: "extract_claims lib d = Some (Inr t) \<longleftrightarrow> token_of lib d t"
  by (cases t)
    (auto simp: extract_claims_def token_of_def claim_date_def fail_def ok_def Let_def
      split: option.splits)

text \<open>\<open>trusted\<close>: what must hold of the decoded token before its claims are believed.\<close>

definition trusted :: "'d jwt_lib \<Rightarrow> string \<Rightarrow> timestamp \<Rightarrow> timestamp \<Rightarrow> 'd \<Rightarrow> bool" where
  "trusted lib pub t1 t2 d \<longleftrightarrow>
     jl_alg lib d = AlgString alg_RS256
     \<and> jl_verify lib pub kJwtIssuer kJwtAudience t1 d = Verified
     \<and> (\<not> jl_has lib d ''exp'' \<or> (case jl_date lib d ''exp'' of None \<Rightarrow> False | Some e \<Rightarrow> t2 \<le> e))"

lemma validate_ok_iff:
  "validate lib pub t1 t2 raw = Some (Inr t) \<longleftrightarrow>
     strip_bearer raw \<noteq> []
     \<and> (\<exists>d. jl_decode lib (strip_bearer raw) = Inr d \<and> trusted lib pub t1 t2 d \<and> token_of lib d t)"
proof (cases "strip_bearer raw = []")
  case True
  then show ?thesis by (simp add: validate_def fail_def)
next
  case raw: False
  show ?thesis
  proof (cases "jl_decode lib (strip_bearer raw)")
    case (Inl what)
    with raw show ?thesis by (simp add: validate_def fail_def Let_def)
  next
    case (Inr d)
    show ?thesis
    proof (cases "\<exists>u. check_alg lib d = Some (Inr u)")
      case True
      then have alg: "check_alg lib d = Some (Inr ())" by simp
      then have "jl_alg lib d = AlgString alg_RS256" by (simp add: check_alg_ok_iff)
      with raw Inr alg show ?thesis
        by (auto simp: validate_def trusted_def fail_def Let_def not_less
            simp flip: extract_claims_ok_iff split: verify_outcome.splits option.splits)
    next
      case False
      then have "\<not> trusted lib pub t1 t2 d" by (simp add: trusted_def check_alg_ok_iff)
      moreover have "validate lib pub t1 t2 raw \<noteq> Some (Inr t)"
        using raw Inr False
        by (auto simp: validate_def Let_def split: option.splits sum.splits)
      ultimately show ?thesis using Inr by simp
    qed
  qed
qed

lemma authenticate_keeps [simp]:
  "ja_publicKey (snd (authenticate lib env b a)) = ja_publicKey a"
  "ja_privateKey (snd (authenticate lib env b a)) = ja_privateKey a"
  by (simp_all add: authenticate_def count_and_purge_def Let_def)

text \<open>The periodic purge never changes an answer.\<close>

lemma isRevoked_count_and_purge:
  assumes "ae_purge_now env \<le> t"
  shows "isRevoked oc t j (ja_store (count_and_purge env a)) = isRevoked oc t j (ja_store a)"
  using isRevoked_purge [OF assms] by (simp add: count_and_purge_def Let_def)

lemma authenticate_ok_iff:
  assumes "ae_purge_now env \<le> ae_lookup_now env"
  shows "fst (authenticate lib env b a) = Some (Inr ctx) \<longleftrightarrow>
    (\<exists>t. validate lib (ja_publicKey a) (ae_verify_now env) (ae_expiry_now env) b = Some (Inr t)
         \<and> \<not> isRevoked (ae_lookup_oc env) (ae_lookup_now env) (tk_jti t) (ja_store a)
         \<and> ctx = \<lparr>ac_authenticated = True, ac_token = Some t, ac_tenant_id = tk_tenant_id t\<rparr>)"
  by (auto simp: authenticate_def Let_def isRevoked_count_and_purge [OF assms] ok_def fail_def
      split: option.splits sum.splits)

text \<open>
  C2: A request is authenticated exactly when its token decodes, is marked RS256 and
  nothing else, is verified by the library under the configured public key for issuer
  \<^verbatim>\<open>hub32api\<close> and audience \<^verbatim>\<open>hub32api-clients\<close>, has not expired, carries subject, role
  and identifier, and is not on the denylist; the context then holds precisely the claims
  of that token. The periodic purge has no influence.
\<close>

theorem authenticates_exactly:
  assumes "ae_purge_now env \<le> ae_lookup_now env"
  shows "fst (authenticate lib env b a) = Some (Inr ctx) \<longleftrightarrow>
    strip_bearer b \<noteq> []
    \<and> (\<exists>d t. jl_decode lib (strip_bearer b) = Inr d
         \<and> trusted lib (ja_publicKey a) (ae_verify_now env) (ae_expiry_now env) d
         \<and> token_of lib d t
         \<and> \<not> isRevoked (ae_lookup_oc env) (ae_lookup_now env) (tk_jti t) (ja_store a)
         \<and> ctx = \<lparr>ac_authenticated = True, ac_token = Some t, ac_tenant_id = tk_tenant_id t\<rparr>)"
  using authenticate_ok_iff [OF assms, of lib b a ctx] by (auto simp: validate_ok_iff)

section \<open>Issued tokens\<close>

text \<open>jwt-cpp stores dates as whole seconds.\<close>

definition whole_seconds :: "timestamp \<Rightarrow> timestamp" where
  "whole_seconds t = toEpochSeconds t * 1000000000"

text \<open>
  The documented behaviour of jwt-cpp for a token it has signed: it decodes to the claims
  that went in, and verification under the matching public key succeeds between its dates.
\<close>

definition faithful_token :: "'d jwt_lib \<Rightarrow> string \<Rightarrow> jwt_claims \<Rightarrow> string \<Rightarrow> bool" where
  "faithful_token lib pub c tok \<longleftrightarrow>
     tok \<noteq> [] \<and> \<not> starts_with tok kBearerPrefix
     \<and> (\<exists>d. jl_decode lib tok = Inr d
          \<and> jl_alg lib d = AlgString alg_RS256
          \<and> (\<forall>t. whole_seconds (cl_issued_at c) \<le> t \<and> t \<le> whole_seconds (cl_expires_at c)
                 \<longrightarrow> jl_verify lib pub (cl_issuer c) (cl_audience c) t d = Verified)
          \<and> jl_string lib d ''iss'' = Some (cl_issuer c)
          \<and> jl_string lib d ''sub'' = Some (cl_subject c)
          \<and> jl_string lib d ''jti'' = Some (cl_id c)
          \<and> jl_string lib d ''role'' = Some (cl_role c)
          \<and> jl_string lib d ''tid'' = cl_tid c
          \<and> jl_has lib d ''iat'' \<and> jl_date lib d ''iat'' = Some (whole_seconds (cl_issued_at c))
          \<and> jl_has lib d ''exp'' \<and> jl_date lib d ''exp'' = Some (whole_seconds (cl_expires_at c)))"

definition signs_faithfully :: "'d jwt_lib \<Rightarrow> jwt_auth \<Rightarrow> bool" where
  "signs_faithfully lib a \<longleftrightarrow>
     (\<forall>c tok. jl_sign lib (ja_publicKey a) (ja_privateKey a) c = Inr tok
        \<longrightarrow> faithful_token lib (ja_publicKey a) c tok)"

text \<open>\<open>in_date\<close>: both clocks of the validation lie within the life of the token.\<close>

definition in_date :: "auth_env \<Rightarrow> timestamp \<Rightarrow> int \<Rightarrow> bool" where
  "in_date env issued expirySeconds \<longleftrightarrow>
     (let ex = whole_seconds (issued + expirySeconds * 1000000000)
      in whole_seconds issued \<le> ae_verify_now env \<and> ae_verify_now env \<le> ex
         \<and> ae_expiry_now env \<le> ex)"

definition token_issued :: "int \<Rightarrow> timestamp \<Rightarrow> string \<Rightarrow> string \<Rightarrow> string \<Rightarrow> string \<Rightarrow> jwt_token" where
  "token_issued expirySeconds now jti subject role tenant_id =
     \<lparr>tk_subject = subject, tk_issuer = kJwtIssuer, tk_role = role, tk_tenant_id = tenant_id,
      tk_jti = jti, tk_issuedAt = whole_seconds now,
      tk_expiresAt = whole_seconds (now + expirySeconds * 1000000000)\<rparr>"

lemma issueToken_okD:
  assumes "issueToken lib now rnd a subject role tenant_id = Inr tok"
  obtains jti where "generateUuid rnd = Some jti"
    "jl_sign lib (ja_publicKey a) (ja_privateKey a)
       (issue_claims now (ja_expirySeconds a) jti subject role tenant_id) = Inr tok"
  using assms by (auto simp: issueToken_def fail_def ok_def split: option.splits sum.splits)

lemma issued_token_validates:
  assumes issued: "issueToken lib now rnd a subject role tenant_id = Inr tok"
    and jti: "generateUuid rnd = Some jti"
    and lib: "signs_faithfully lib a"
    and dates: "in_date env now (ja_expirySeconds a)"
    and bearer: "b = tok \<or> b = kBearerPrefix @ tok"
  shows "validate lib (ja_publicKey a) (ae_verify_now env) (ae_expiry_now env) b
         = Some (Inr (token_issued (ja_expirySeconds a) now jti subject role tenant_id))"
proof -
  define c where "c = issue_claims now (ja_expirySeconds a) jti subject role tenant_id"
  have c [simp]: "cl_issuer c = kJwtIssuer" "cl_audience c = kJwtAudience"
    "cl_subject c = subject" "cl_id c = jti" "cl_role c = role" "cl_issued_at c = now"
    "cl_expires_at c = now + ja_expirySeconds a * 1000000000"
    "cl_tid c = (if tenant_id \<noteq> [] then Some tenant_id else None)"
    by (simp_all add: c_def issue_claims_def)
  from issued jti have "jl_sign lib (ja_publicKey a) (ja_privateKey a) c = Inr tok"
    by (auto elim!: issueToken_okD simp: c_def)
  with lib have f: "faithful_token lib (ja_publicKey a) c tok"
    by (simp add: signs_faithfully_def)
  then obtain d where d: "jl_decode lib tok = Inr d"
    and "trusted lib (ja_publicKey a) (ae_verify_now env) (ae_expiry_now env) d"
    and "token_of lib d (token_issued (ja_expirySeconds a) now jti subject role tenant_id)"
    using dates
    by (auto simp: faithful_token_def trusted_def token_of_def token_issued_def claim_date_def
        in_date_def Let_def split: if_splits)
  moreover have "strip_bearer b = tok" "tok \<noteq> []"
    using f bearer by (auto simp: faithful_token_def)
  ultimately show ?thesis by (auto simp: validate_ok_iff)
qed

lemma issued_token_authenticates:
  assumes "issueToken lib now rnd a subject role tenant_id = Inr tok"
    and "generateUuid rnd = Some jti"
    and "signs_faithfully lib a"
    and "in_date env now (ja_expirySeconds a)"
    and "b = tok \<or> b = kBearerPrefix @ tok"
    and "ae_purge_now env \<le> ae_lookup_now env"
    and "ja_publicKey a' = ja_publicKey a"
    and "\<not> isRevoked (ae_lookup_oc env) (ae_lookup_now env) jti (ja_store a')"
  shows "fst (authenticate lib env b a') = Some (Inr
           \<lparr>ac_authenticated = True,
            ac_token = Some (token_issued (ja_expirySeconds a) now jti subject role tenant_id),
            ac_tenant_id = tenant_id\<rparr>)"
  using issued_token_validates [OF assms(1-5)] assms(6-8)
  by (auto simp: authenticate_ok_iff token_issued_def)

text \<open>
  A library with the documented behaviour: the claims, written one after the other with
  every character marked, under the name of the public key.
\<close>

fun esc :: "string \<Rightarrow> string" where
  "esc [] = ''e''"
| "esc (x # xs) = CHR ''c'' # x # esc xs"

fun unesc :: "string \<Rightarrow> string \<times> string" where
  "unesc (m # x # xs) =
     (if m = CHR ''c'' then (x # fst (unesc xs), snd (unesc xs)) else ([], x # xs))"
| "unesc xs = ([], [])"

fun unesc_all :: "nat \<Rightarrow> string \<Rightarrow> string list" where
  "unesc_all 0 xs = []"
| "unesc_all (Suc n) xs = fst (unesc xs) # unesc_all n (snd (unesc xs))"

definition esc_all :: "string list \<Rightarrow> string" where
  "esc_all ps = concat (map esc ps)"

definition show_seconds :: "int \<Rightarrow> string" where
  "show_seconds n = (if n < 0 then CHR ''-'' # replicate (nat (- n)) (CHR ''1'')
                     else replicate (nat n) (CHR ''1''))"

definition read_seconds :: "string \<Rightarrow> int" where
  "read_seconds s = (case s of x # xs \<Rightarrow> if x = CHR ''-'' then - int (length xs) else int (length s)
                             | [] \<Rightarrow> 0)"

definition plain_fields :: "string \<Rightarrow> jwt_claims \<Rightarrow> string list" where
  "plain_fields pub c =
     [pub, cl_issuer c, cl_audience c, cl_subject c, cl_id c, cl_role c,
      show_seconds (toEpochSeconds (cl_issued_at c)),
      show_seconds (toEpochSeconds (cl_expires_at c)),
      (case cl_tid c of None \<Rightarrow> [] | Some t \<Rightarrow> CHR ''t'' # t)]"

definition plain_date :: "string list \<Rightarrow> string \<Rightarrow> int option" where
  "plain_date d n =
     (if n = ''iat'' then Some (read_seconds (d ! 6) * 1000000000)
      else if n = ''exp'' then Some (read_seconds (d ! 7) * 1000000000) else None)"

definition plain_string :: "string list \<Rightarrow> string \<Rightarrow> string option" where
  "plain_string d n =
     (if n = ''iss'' then Some (d ! 1) else if n = ''sub'' then Some (d ! 3)
      else if n = ''jti'' then Some (d ! 4) else if n = ''role'' then Some (d ! 5)
      else if n = ''tid'' then (case d ! 8 of [] \<Rightarrow> None | _ # t \<Rightarrow> Some t) else None)"

definition plain_lib :: "string list jwt_lib" where
  "plain_lib = \<lparr>
     jl_decode = (\<lambda>s. Inr (unesc_all 9 (s @ ''e''))),
     jl_alg = (\<lambda>_. AlgString alg_RS256),
     jl_verify = (\<lambda>pub iss aud t d.
        if d ! 0 = pub \<and> d ! 1 = iss \<and> d ! 2 = aud
           \<and> the (plain_date d ''iat'') \<le> t \<and> t \<le> the (plain_date d ''exp'')
        then Verified else VerificationError ''invalid''),
     jl_string = plain_string,
     jl_has = (\<lambda>d n. plain_date d n \<noteq> None \<or> plain_string d n \<noteq> None),
     jl_date = plain_date,
     jl_sign = (\<lambda>pub priv c. Inr (esc_all (plain_fields pub c)))\<rparr>"

lemma unesc_esc: "r \<noteq> [] \<Longrightarrow> unesc (esc s @ r) = (s, r)"
  by (induction s) (auto simp: neq_Nil_conv)

lemma unesc_all_esc_all:
  "r \<noteq> [] \<Longrightarrow> unesc_all (length ps) (esc_all ps @ r) = ps"
  by (induction ps) (simp_all add: esc_all_def unesc_esc)

lemma read_show_seconds [simp]: "read_seconds (show_seconds n) = n"
proof (cases "nat n")
  case 0
  then show ?thesis by (simp add: read_seconds_def show_seconds_def)
next
  case (Suc k)
  then have "n = int (Suc k)" by arith
  then show ?thesis by (simp add: read_seconds_def show_seconds_def nat_add_distrib)
qed

lemma plain_decode:
  "jl_decode plain_lib (esc_all (plain_fields pub c)) = Inr (plain_fields pub c)"
proof -
  have "length (plain_fields pub c) = 9" by (simp add: plain_fields_def)
  then show ?thesis using unesc_all_esc_all [of "''e''" "plain_fields pub c"] by (simp add: plain_lib_def)
qed

lemma esc_head: "hd (esc s @ r) \<noteq> CHR ''B'' \<and> esc s \<noteq> []"
  by (cases s) simp_all

lemma plain_lib_faithful: "signs_faithfully plain_lib a"
proof -
  have head: "\<not> starts_with (esc_all (plain_fields pub c)) kBearerPrefix
      \<and> esc_all (plain_fields pub c) \<noteq> []" for pub c
    by (cases pub) (simp_all add: esc_all_def plain_fields_def starts_with_def kBearerPrefix_def)
  have "faithful_token plain_lib pub c (esc_all (plain_fields pub c))" for pub c
    using head [of pub c] plain_decode [of pub c]
    by (auto simp: faithful_token_def plain_lib_def plain_string_def plain_date_def
        plain_fields_def whole_seconds_def eval_nat_numeral split: option.split)
  then show ?thesis by (simp add: signs_faithfully_def plain_lib_def)
qed

definition sample_auth :: jwt_auth where
  "sample_auth = \<lparr>ja_algorithm = alg_RS256, ja_privateKey = ''priv'', ja_publicKey = ''pub'',
     ja_expirySeconds = 7200, ja_store = sqlite_empty, ja_authCount = 99\<rparr>"

definition sample_jti :: string where
  "sample_jti = uuid_print 0 (uuid_bytes (replicate 16 7))"

definition sample_token :: string where
  "sample_token = esc_all (plain_fields ''pub''
     (issue_claims 1000000000000 7200 sample_jti ''ann'' ''teacher'' ''t1''))"

text \<open>An environment in which the database answers and every clock reads \<open>t\<close>.\<close>

definition env_at :: "timestamp \<Rightarrow> auth_env" where
  "env_at t = \<lparr>ae_purge_oc = SqlDone, ae_purge_now = t, ae_verify_now = t, ae_expiry_now = t,
     ae_lookup_oc = SqlDone, ae_lookup_now = t\<rparr>"

lemma sample_jti_generated: "generateUuid (Some (replicate 16 7)) = Some sample_jti"
  by (simp add: generateUuid_def sample_jti_def)

lemma sample_token_issued:
  "issueToken plain_lib 1000000000000 (Some (replicate 16 7)) sample_auth
     ''ann'' ''teacher'' ''t1'' = Inr sample_token"
  by (simp add: issueToken_def sample_jti_generated sample_auth_def sample_token_def
      plain_lib_def ok_def)

theorem authenticates_exactly_witness:
  "\<not> (\<exists>ctx. fst (authenticate plain_lib (env_at 0) ''Bearer '' sample_auth) = Some (Inr ctx))"
proof -
  have "strip_bearer ''Bearer '' = []"
    by (simp add: strip_bearer_def starts_with_def kBearerPrefix_def kBearerPrefixLen_def)
  moreover have "ae_purge_now (env_at 0) \<le> ae_lookup_now (env_at 0)" by (simp add: env_at_def)
  ultimately show ?thesis by (simp add: authenticates_exactly)
qed

text \<open>
  C32: A token the service issues authenticates, with or without the Bearer prefix, until
  it expires or is revoked: the resulting context carries exactly the subject, the role
  and the tenant it was issued for, given that jwt-cpp keeps its documented behaviour.
\<close>

theorem issued_token_round_trip:
  assumes "issueToken lib now rnd a subject role tenant_id = Inr tok"
    and "generateUuid rnd = Some jti"
    and "signs_faithfully lib a"
    and "in_date env now (ja_expirySeconds a)"
    and "b = tok \<or> b = kBearerPrefix @ tok"
    and "ae_purge_now env \<le> ae_lookup_now env"
    and "ja_publicKey a' = ja_publicKey a"
    and "\<not> isRevoked (ae_lookup_oc env) (ae_lookup_now env) jti (ja_store a')"
  shows "\<exists>ctx. fst (authenticate lib env b a') = Some (Inr ctx)
    \<and> ac_authenticated ctx \<and> ctx_subject ctx = subject \<and> ac_tenant_id ctx = tenant_id
    \<and> (\<forall>r. ctx_has_role r ctx \<longleftrightarrow> r = role)"
  using issued_token_authenticates [OF assms]
  by (auto simp: ctx_subject_def ctx_has_role_def has_role_def token_issued_def)

lemma sample_in_date:
  "1000000000000 \<le> t \<Longrightarrow> t \<le> 8200000000000
   \<Longrightarrow> in_date (env_at t) 1000000000000 (ja_expirySeconds sample_auth)"
  by (simp add: in_date_def env_at_def sample_auth_def whole_seconds_def toEpochSeconds_def Let_def)

theorem issued_token_round_trip_witness:
  "\<exists>ctx. fst (authenticate plain_lib (env_at 5000000000000) (kBearerPrefix @ sample_token)
                sample_auth) = Some (Inr ctx)
    \<and> ac_authenticated ctx \<and> ctx_subject ctx = ''ann'' \<and> ac_tenant_id ctx = ''t1''
    \<and> (\<forall>r. ctx_has_role r ctx \<longleftrightarrow> r = ''teacher'')"
  by (rule issued_token_round_trip [OF sample_token_issued sample_jti_generated
        plain_lib_faithful sample_in_date])
    (simp_all add: env_at_def sample_auth_def sqlite_empty_def isRevoked_def)

section \<open>Logging out\<close>

text \<open>
  C33: For an hour after a token has been revoked no request is authenticated with it,
  through any traffic on the denylist in between, as long as the database answers.
\<close>

theorem revoked_token_rejected:
  assumes "ts_useSqlite (ja_store a)" and "0 \<le> now"
    and "toEpochSeconds (ae_lookup_now env) < toEpochSeconds now + 3600"
    and "ae_purge_now env \<le> ae_lookup_now env" and "ae_lookup_oc env = SqlDone"
    and "\<And>op. op \<in> set ops \<Longrightarrow>
           (case op of Purge n \<Rightarrow> n \<le> ae_lookup_now env
            | Deny n ex j \<Rightarrow> j = jti \<longrightarrow> toEpochSeconds (ae_lookup_now env) < toEpochSeconds ex)"
    and "ja_store a' = fold store_step ops (ja_store (revokeToken SqlDone now now' jti a))"
    and "fst (authenticate lib env b a') = Some (Inr ctx)"
  shows "\<exists>t. ac_token ctx = Some t \<and> tk_jti t \<noteq> jti"
proof -
  obtain t where "\<not> isRevoked SqlDone (ae_lookup_now env) (tk_jti t) (ja_store a')"
    and "ac_token ctx = Some t"
    using assms(5,8) by (auto simp: authenticate_ok_iff [OF assms(4)])
  moreover have "isRevoked SqlDone (ae_lookup_now env) jti (ja_store a')"
    unfolding assms(7) by (simp add: revokeToken_def) (rule revoke_lasts [OF assms(1-3,6)])
  ultimately show ?thesis by auto
qed

text \<open>
  A revocation does not outlive one hour, whatever the lifetime of the token: a token
  issued for longer than that, revoked at once, authenticates again as soon as the hour is
  over.
\<close>

theorem revoked_token_returns:
  assumes "issueToken lib now rnd a subject role tenant_id = Inr tok"
    and "generateUuid rnd = Some jti"
    and "signs_faithfully lib a"
    and "in_date env now (ja_expirySeconds a)"
    and "ts_useSqlite (ja_store a)" and "0 \<le> now"
    and "toEpochSeconds now + 3600 \<le> toEpochSeconds (ae_lookup_now env)"
    and "ae_purge_now env \<le> ae_lookup_now env" and "ae_lookup_oc env = SqlDone"
  shows "\<exists>ctx. fst (authenticate lib env (kBearerPrefix @ tok)
                     (revokeToken SqlDone now now' jti a)) = Some (Inr ctx)
    \<and> ctx_subject ctx = subject"
proof -
  have "\<not> isRevoked (ae_lookup_oc env) (ae_lookup_now env) jti
          (ja_store (revokeToken SqlDone now now' jti a))"
    using revocation_over [OF assms(5-7)] by (simp add: revokeToken_def assms(9))
  then show ?thesis
    using issued_token_authenticates [OF assms(1-4) disjI2 [OF refl] assms(8)]
    by (simp add: revokeToken_def ctx_subject_def token_issued_def)
qed

theorem revoked_token_returns_witness:
  "\<exists>ctx. fst (authenticate plain_lib (env_at 5000000000000) (kBearerPrefix @ sample_token)
                (revokeToken SqlDone 1000000000000 1000000000000 sample_jti sample_auth))
          = Some (Inr ctx)
    \<and> ctx_subject ctx = ''ann''"
  by (rule revoked_token_returns [OF sample_token_issued sample_jti_generated
        plain_lib_faithful sample_in_date])
    (simp_all add: env_at_def sample_auth_def sqlite_empty_def toEpochSeconds_def)

definition other_jti :: string where
  "other_jti = uuid_print 0 (uuid_bytes (replicate 16 8))"

definition other_token :: string where
  "other_token = esc_all (plain_fields ''pub''
     (issue_claims 1000000000000 7200 other_jti ''bob'' ''student'' []))"

lemma other_jti_generated: "generateUuid (Some (replicate 16 8)) = Some other_jti"
  by (simp add: generateUuid_def other_jti_def)

lemma other_token_issued:
  "issueToken plain_lib 1000000000000 (Some (replicate 16 8)) sample_auth
     ''bob'' ''student'' [] = Inr other_token"
  by (simp add: issueToken_def other_jti_generated sample_auth_def other_token_def
      plain_lib_def ok_def)

lemma other_jti_differs: "other_jti \<noteq> sample_jti"
  by code_simp

lemma other_token_authenticates:
  "fst (authenticate plain_lib (env_at 2000000000000) other_token
     (revokeToken SqlDone 1000000000000 1000000000000 sample_jti sample_auth))
   = Some (Inr \<lparr>ac_authenticated = True,
        ac_token = Some (token_issued 7200 1000000000000 other_jti ''bob'' ''student'' []),
        ac_tenant_id = []\<rparr>)"
  using issued_token_authenticates [OF other_token_issued other_jti_generated
      plain_lib_faithful sample_in_date disjI1 [OF refl], of 2000000000000
      "revokeToken SqlDone 1000000000000 1000000000000 sample_jti sample_auth"]
  by (simp add: env_at_def sample_auth_def sqlite_empty_def isRevoked_def revokeToken_def
      revoke_def revokeWithExpiry_def other_jti_differs)

theorem revoked_token_rejected_witness:
  "\<exists>t. Some (token_issued 7200 1000000000000 other_jti ''bob'' ''student'' []) = Some t
       \<and> tk_jti t \<noteq> sample_jti"
  using revoked_token_rejected [OF _ _ _ _ _ _ _ other_token_authenticates,
      of sample_auth 1000000000000 "[]" sample_jti 1000000000000]
  by (simp add: env_at_def sample_auth_def sqlite_empty_def toEpochSeconds_def)

end
