(* ===== verification/Auth_Requests.thy ===== *)
theory Auth_Requests
  imports Jwt_Auth User_Roles Student_Repository Teacher_Repository I18n_Catalog
begin

text \<open>
  Login, logout and the guard of the protected routes:
  src/api/v1/controllers/AuthController.cpp, src/api/v1/dto/AuthDto.hpp and
  src/api/v1/middleware/AuthMiddleware.cpp, composed from the user store, the key login,
  the two account tables, the JWT service and its denylist. The JSON parser is the
  argument \<open>parse\<close>. The lemmas show where the identity in an issued token comes from,
  for each of the login methods, and what a logout revokes.
\<close>

section \<open>Login\<close>

record auth_request =
  ar_method :: string
  ar_username :: string
  ar_password :: string
  ar_keyName :: string
  ar_keyData :: string

definition auth_request_from_json :: "json \<Rightarrow> auth_request option" where
  "auth_request_from_json j =
     (case (json_at_string j ''method'', json_opt_string j ''username'' [],
            json_opt_string j ''password'' [], json_opt_string j ''keyName'' [],
            json_opt_string j ''keyData'' []) of
        (Some m, Some u, Some p, Some kn, Some kd) \<Rightarrow>
          Some \<lparr>ar_method = m, ar_username = u, ar_password = p, ar_keyName = kn, ar_keyData = kd\<rparr>
      | _ \<Rightarrow> None)"

text \<open>The services the controller refers to.\<close>

record services =
  sv_jwt :: jwt_auth
  sv_keyHash :: string
  sv_users :: user_store
  sv_teachers :: teachers
  sv_students :: students
  sv_i18n :: "i18n option"

text \<open>What the environment of one request answers; \<open>le_what\<close> is the text of an exception.\<close>

record 'd request_env =
  le_lib :: "'d jwt_lib"
  le_crypto :: crypto
  le_stod :: "string \<Rightarrow> rat option"
  le_parse :: "string \<Rightarrow> json option"
  le_what :: string
  le_now :: timestamp
  le_rnd :: "byte list option"
  le_teacher_oc :: sql_call
  le_student_oc :: sql_call

text \<open>The identity to be put into the token: subject, role and tenant, or the error.\<close>

definition logon_identity ::
  "'d request_env \<Rightarrow> services \<Rightarrow> auth_request \<Rightarrow> string \<Rightarrow> (string \<times> string \<times> string) result" where
  "logon_identity env sv r tenantId =
     (let cr = le_crypto env;
          (s1, r1, t1) =
            (case authenticate_teacher cr (le_teacher_oc env) (ar_username r) (ar_password r)
                    tenantId (sv_teachers sv) of
               Inr rec \<Rightarrow> (tr_id rec, tr_role rec, if tenantId = [] then tr_tenantId rec else tenantId)
             | Inl _ \<Rightarrow> ([], [], []));
          (s2, r2, t2) =
            (if s1 = [] \<and> tenantId \<noteq> [] then
               (case authenticate_student cr (le_student_oc env) (ar_username r) (ar_password r)
                       tenantId (sv_students sv) of
                  Inr rec \<Rightarrow> (sr_username rec, role_to_string Student, tenantId)
                | Inl _ \<Rightarrow> (s1, r1, t1))
             else (s1, r1, t1))
      in if s2 = [] then
           (case role_authenticate cr (sv_users sv) (ar_username r) (ar_password r) of
              Inl e \<Rightarrow> Inl e
            | Inr role \<Rightarrow> Inr (ar_username r, role, t2))
         else Inr (s2, r2, t2))"

definition login_identity ::
  "'d request_env \<Rightarrow> services \<Rightarrow> auth_request \<Rightarrow> string \<Rightarrow> (string \<times> string \<times> string) result" where
  "login_identity env sv r tenantId =
     (case auth_method_from_string (ar_method r) of
        Logon \<Rightarrow> logon_identity env sv r tenantId
      | Hub32Key \<Rightarrow>
          (case key_authenticate (le_crypto env) (sv_keyHash sv) (ar_keyName r) (ar_keyData r) of
             Inl e \<Rightarrow> Inl e
           | Inr _ \<Rightarrow> Inr (ar_username r, role_to_string Teacher, [])))"

definition kDefaultTokenExpirySec :: int where "kDefaultTokenExpirySec = 3600"

definition auth_response_json :: "string \<Rightarrow> json" where
  "auth_response_json token =
     JObject [(''token'', JString token), (''tokenType'', JString ''Bearer''),
              (''expiresIn'', JInt kDefaultTokenExpirySec)]"

text \<open>The branch for a method that is neither of the two cannot be reached.\<close>

definition handleLogin ::
  "'d request_env \<Rightarrow> services \<Rightarrow> http_request \<Rightarrow> http_response \<Rightarrow> http_response" where
  "handleLogin env sv req res =
     (let lang = getLocale (le_stod env) (sv_i18n sv) req in
      case Option.bind (le_parse env (rq_body req)) auth_request_from_json of
        None \<Rightarrow> sendError 400 (tr (sv_i18n sv) lang ''error.invalid_request_body'') (le_what env) res
      | Some r \<Rightarrow>
          (case login_identity env sv r (get_header_value req ''X-Tenant-ID'') of
             Inl e \<Rightarrow> sendError 401 (tr (sv_i18n sv) lang ''error.auth_failed'') (err_msg e) res
           | Inr (subject, role, tid) \<Rightarrow>
               (case issueToken (le_lib env) (le_now env) (le_rnd env) (sv_jwt sv) subject role tid of
                  Inl e \<Rightarrow> sendError 401 (tr (sv_i18n sv) lang ''error.auth_failed'') (err_msg e) res
                | Inr token \<Rightarrow>
                    set_json (auth_response_json token) ''application/json''
                      (res\<lparr>rs_status := 200\<rparr>))))"

section \<open>Logout\<close>

text \<open>
  An exception that escapes leaves no response, the outer \<open>None\<close>; the outcome of the
  revocation's own SQL is \<open>roc\<close>, its two clock readings \<open>rt\<close> and \<open>rt'\<close>.
\<close>

definition handleLogout ::
  "'d jwt_lib \<Rightarrow> auth_env \<Rightarrow> sql_outcome \<Rightarrow> timestamp \<Rightarrow> timestamp \<Rightarrow> (string \<Rightarrow> rat option)
     \<Rightarrow> i18n option \<Rightarrow> http_request \<Rightarrow> http_response \<Rightarrow> jwt_auth
     \<Rightarrow> http_response option \<times> jwt_auth" where
  "handleLogout lib env roc rt rt' stod inst req res a =
     (let lang = getLocale stod inst req;
          authHeader = get_header_value req ''Authorization''
      in if authHeader = [] \<or> take kBearerPrefixLen authHeader \<noteq> kBearerPrefix
         then (Some (sendError 401 (tr inst lang ''error.unauthorized'')
                       (tr inst lang ''error.missing_auth_header'') res), a)
         else
           let token = drop kBearerPrefixLen authHeader in
           if token = []
           then (Some (sendError 401 (tr inst lang ''error.unauthorized'')
                         (tr inst lang ''error.empty_bearer_token'') res), a)
           else
             let (authResult, a') = authenticate lib env token a in
             case authResult of
               None \<Rightarrow> (None, a')
             | Some (Inr ctx) \<Rightarrow>
                 (case ac_token ctx of
                    Some t \<Rightarrow> (Some (res\<lparr>rs_status := 204\<rparr>), revokeToken roc rt rt' (tk_jti t) a')
                  | None \<Rightarrow> (Some (res\<lparr>rs_status := 204\<rparr>), revokeToken roc rt rt' token a'))
             | Some (Inl _) \<Rightarrow>
                 (Some (res\<lparr>rs_status := 204\<rparr>), revokeToken roc rt rt' token a'))"

section \<open>The middleware\<close>

text \<open>The first component is what \<^verbatim>\<open>process\<close> returns, \<open>None\<close> when it throws.\<close>

definition auth_process ::
  "'d jwt_lib \<Rightarrow> auth_env \<Rightarrow> (string \<Rightarrow> rat option) \<Rightarrow> i18n option
     \<Rightarrow> http_request \<Rightarrow> http_response \<Rightarrow> auth_context \<Rightarrow> jwt_auth
     \<Rightarrow> bool option \<times> http_response \<times> auth_context \<times> jwt_auth" where
  "auth_process lib env stod inst req res ctx a =
     (let lang = getLocale stod inst req;
          authHeader = get_header_value req ''Authorization''
      in if authHeader = []
         then (Some False, sendError 401 (tr inst lang ''error.unauthorized'')
                             (tr inst lang ''error.missing_auth_header'') res, ctx, a)
         else if take kBearerPrefixLen authHeader \<noteq> kBearerPrefix
         then (Some False, sendError 401 (tr inst lang ''error.unauthorized'')
                             (tr inst lang ''error.bearer_scheme_required'') res, ctx, a)
         else
           let (result, a') = authenticate lib env authHeader a in
           case result of
             None \<Rightarrow> (None, res, ctx, a')
           | Some (Inl e) \<Rightarrow>
               (Some False, sendError 401 (tr inst lang ''error.unauthorized'') (err_msg e) res,
                ctx, a')
           | Some (Inr c) \<Rightarrow> (Some True, res, c, a'))"

section \<open>Where an identity comes from\<close>

definition accounts_named :: "services \<Rightarrow> bool" where
  "accounts_named sv \<longleftrightarrow>
     list_all (\<lambda>t. te_id t \<noteq> []) (sv_teachers sv)
     \<and> list_all (\<lambda>s. st_username s \<noteq> []) (sv_students sv)"

definition teacher_login :: "crypto \<Rightarrow> services \<Rightarrow> auth_request \<Rightarrow> string \<Rightarrow> teacher_row \<Rightarrow> bool" where
  "teacher_login cr sv r tenant t \<longleftrightarrow>
     t \<in> set (sv_teachers sv) \<and> te_username t = ar_username r
     \<and> (tenant = [] \<or> te_tenant_id t = tenant)
     \<and> verifyPassword cr (ar_password r) (te_password_hash t)"

definition student_login :: "crypto \<Rightarrow> services \<Rightarrow> auth_request \<Rightarrow> string \<Rightarrow> student_row \<Rightarrow> bool" where
  "student_login cr sv r tenant s \<longleftrightarrow>
     s \<in> set (sv_students sv) \<and> st_username s = ar_username r
     \<and> tenant \<noteq> [] \<and> st_tenant_id s = tenant
     \<and> verifyPassword cr (ar_password r) (st_password_hash s)"

definition store_login :: "crypto \<Rightarrow> services \<Rightarrow> auth_request \<Rightarrow> user_entry \<Rightarrow> bool" where
  "store_login cr sv r e \<longleftrightarrow>
     sv_users sv (ar_username r) = Some e \<and> verifyPassword cr (ar_password r) (ue_passwordHash e)"

lemma authenticate_teacher_login:
  assumes "authenticate_teacher cr oc (ar_username r) (ar_password r) tenant (sv_teachers sv) = Inr rec"
  shows "\<exists>t. teacher_login cr sv r tenant t \<and> rec = teacher_from_row t"
  using assms
  by (auto simp: authenticate_teacher_ok_iff teacher_login_def dest: find_SomeD)

lemma authenticate_student_login:
  assumes "authenticate_student cr oc (ar_username r) (ar_password r) tenant (sv_students sv) = Inr rec"
    and "tenant \<noteq> []"
  shows "\<exists>s. student_login cr sv r tenant s \<and> rec = student_from_row s"
  using assms
  by (auto simp: authenticate_student_ok_iff student_login_def dest: find_SomeD)

lemma teacher_login_named: "accounts_named sv \<Longrightarrow> teacher_login cr sv r tenant t \<Longrightarrow> te_id t \<noteq> []"
  by (simp add: accounts_named_def teacher_login_def list_all_iff)

lemma student_login_named:
  "accounts_named sv \<Longrightarrow> student_login cr sv r tenant s \<Longrightarrow> st_username s \<noteq> []"
  by (auto simp: accounts_named_def student_login_def list_all_iff)

lemma logon_identity_cases:
  assumes "logon_identity env sv r tenant = Inr (sub, role, tid)" and "accounts_named sv"
  shows "(\<exists>t. teacher_login (le_crypto env) sv r tenant t
              \<and> sub = te_id t \<and> role = te_role t \<and> tid = te_tenant_id t)
    \<or> (\<exists>s. student_login (le_crypto env) sv r tenant s
              \<and> sub = st_username s \<and> role = ''student'' \<and> tid = st_tenant_id s)
    \<or> (\<exists>e. store_login (le_crypto env) sv r e
              \<and> sub = ar_username r \<and> role = ue_role e \<and> tid = [])"
proof -
  define cr where "cr = le_crypto env"
  define T where "T = authenticate_teacher cr (le_teacher_oc env) (ar_username r) (ar_password r)
    tenant (sv_teachers sv)"
  define S where "S = authenticate_student cr (le_student_oc env) (ar_username r) (ar_password r)
    tenant (sv_students sv)"
  define R where "R = role_authenticate cr (sv_users sv) (ar_username r) (ar_password r)"
  note defs = assms(1) [unfolded logon_identity_def Let_def, folded cr_def, folded T_def S_def R_def]
  show ?thesis
  proof (cases T)
    case (Inr rec)
    then obtain t where t: "teacher_login cr sv r tenant t" "rec = teacher_from_row t"
      using authenticate_teacher_login unfolding T_def by blast
    with defs Inr teacher_login_named [OF assms(2) t(1)] show ?thesis
      by (auto simp: teacher_from_row_def teacher_login_def simp flip: cr_def)
  next
    case no_teacher: (Inl e)
    show ?thesis
    proof (cases "tenant \<noteq> [] \<and> (\<exists>rec. S = Inr rec)")
      case True
      then obtain rec s where "S = Inr rec" and s: "student_login cr sv r tenant s"
        "rec = student_from_row s"
        using authenticate_student_login unfolding S_def by blast
      with defs no_teacher True student_login_named [OF assms(2) s(1)] show ?thesis
        by (auto simp: student_from_row_def student_login_def simp flip: cr_def)
    next
      case False
      with defs no_teacher show ?thesis
        by (auto simp: R_def role_authenticate_ok_iff store_login_def simp flip: cr_def
            split: if_splits sum.splits)
    qed
  qed
qed

text \<open>
  C3: Whatever identity a login puts into a token, the caller has shown a secret for it:
  a teacher's identifier, role and tenant come from a teacher row whose password verified
  and, when a tenant was named, belongs to it; a student's come from a student row of the
  named tenant; a role without a tenant comes from the user store; and the key login gives
  nothing but the role of a teacher without a tenant. No role is derived from a name.
\<close>

theorem login_requires_secret:
  assumes "login_identity env sv r tenant = Inr (sub, role, tid)" and "accounts_named sv"
  shows "(\<exists>t. teacher_login (le_crypto env) sv r tenant t
              \<and> sub = te_id t \<and> role = te_role t \<and> tid = te_tenant_id t)
    \<or> (\<exists>s. student_login (le_crypto env) sv r tenant s
              \<and> sub = st_username s \<and> role = ''student'' \<and> tid = st_tenant_id s)
    \<or> (\<exists>e. store_login (le_crypto env) sv r e
              \<and> sub = ar_username r \<and> role = ue_role e \<and> tid = [])
    \<or> (auth_method_from_string (ar_method r) = Hub32Key
       \<and> verifyPassword (le_crypto env) (ar_keyData r) (sv_keyHash sv)
       \<and> sub = ar_username r \<and> role = ''teacher'' \<and> tid = [])"
proof (cases "auth_method_from_string (ar_method r)")
  case Logon
  with assms show ?thesis using logon_identity_cases [of env sv r tenant] by (auto simp: login_identity_def)
next
  case Hub32Key
  with assms(1) show ?thesis
    by (auto simp: login_identity_def key_authenticate_def fail_def ok_def split: if_splits)
qed

text \<open>An environment on the plain token library, and services with one account of each kind.\<close>

definition sample_json_parse :: "string \<Rightarrow> json option" where
  "sample_json_parse body =
     (if body = ''logon'' then Some (JObject [(''method'', JString ''logon''),
         (''username'', JString ''ann''), (''password'', JString ''pw'')])
      else if body = ''key'' then Some (JObject [(''keyData'', JString ''k''),
         (''keyName'', JString ''lab''), (''method'', JString ''hub32-key''),
         (''username'', JString ''headmaster'')])
      else None)"

definition sample_request_env :: "string list request_env" where
  "sample_request_env = \<lparr>le_lib = plain_lib, le_crypto = sample_crypto, le_stod = (\<lambda>_. None),
     le_parse = sample_json_parse, le_what = ''parse error'', le_now = 1000000000000,
     le_rnd = Some (replicate 16 7), le_teacher_oc = Completes, le_student_oc = Completes\<rparr>"

definition sample_services :: services where
  "sample_services = \<lparr>sv_jwt = sample_auth, sv_keyHash = ''$argon2id$k'',
     sv_users = Map.empty, sv_teachers = [], sv_students = [sample_student], sv_i18n = None\<rparr>"

definition sample_request :: "string \<Rightarrow> (string \<Rightarrow> string option) \<Rightarrow> http_request" where
  "sample_request body hdr = \<lparr>rq_method = ''POST'', rq_path = ''/api/v1/auth'',
     rq_remote_addr = ''10.0.0.1'', rq_header = hdr, rq_body = body, rq_matches = []\<rparr>"

definition ann_login :: auth_request where
  "ann_login = \<lparr>ar_method = ''logon'', ar_username = ''ann'', ar_password = ''pw'',
     ar_keyName = [], ar_keyData = []\<rparr>"

definition key_login :: auth_request where
  "key_login = \<lparr>ar_method = ''hub32-key'', ar_username = ''headmaster'', ar_password = [],
     ar_keyName = ''lab'', ar_keyData = ''k''\<rparr>"

lemma sample_verify:
  assumes "CHR 0x00 \<notin> set q"
  shows "verifyPassword sample_crypto p (''$argon2id$'' @ q) \<longleftrightarrow> p = q"
proof -
  have "c_str (''$argon2id$'' @ q) = ''$argon2id$'' @ q"
    using assms by (auto simp: c_str_def takeWhile_eq_all_conv)
  then show ?thesis by (auto simp: verifyPassword_def starts_with_def sample_crypto_def)
qed

lemma ann_login_identity:
  "login_identity sample_request_env sample_services ann_login ''t1''
   = Inr (''ann'', ''student'', ''t1'')"
proof -
  have "verifyPassword sample_crypto ''pw'' ''$argon2id$pw''"
    using sample_verify [of "''pw''" "''pw''"] by simp
  then show ?thesis
    by (simp add: login_identity_def logon_identity_def ann_login_def auth_method_from_string_def
        kAuthMethodHub32KeyUuid_def authenticate_teacher_def authenticate_student_def
        findByUsernameWithHash_def run_select_one_def sample_request_env_def sample_services_def
        sample_student_def student_from_row_def ok_def fail_def)
qed

theorem login_requires_secret_witness:
  "\<exists>s. student_login sample_crypto sample_services ann_login ''t1'' s \<and> st_username s = ''ann''"
  using login_requires_secret [OF ann_login_identity]
  by (auto simp: accounts_named_def sample_services_def sample_student_def sample_request_env_def
      store_login_def ann_login_def auth_method_from_string_def kAuthMethodHub32KeyUuid_def
      teacher_login_def)

text \<open>
  The subject of a key login is the user name in the request body, which nothing
  ties to the key: whoever holds the shared key obtains a token that authenticates as a
  teacher under any subject at all, the identifier of another teacher included.
\<close>

theorem key_login_names_anyone:
  assumes "Option.bind (le_parse env (rq_body req)) auth_request_from_json = Some r"
    and "auth_method_from_string (ar_method r) = Hub32Key"
    and "ar_keyName r \<noteq> []" and "sv_keyHash sv \<noteq> []"
    and "verifyPassword (le_crypto env) (ar_keyData r) (sv_keyHash sv)"
    and "issueToken (le_lib env) (le_now env) (le_rnd env) (sv_jwt sv) (ar_username r) ''teacher'' []
         = Inr token"
    and "generateUuid (le_rnd env) = Some jti" and "signs_faithfully (le_lib env) (sv_jwt sv)"
    and "in_date aenv (le_now env) (ja_expirySeconds (sv_jwt sv))"
    and "ae_purge_now aenv \<le> ae_lookup_now aenv"
    and "\<not> isRevoked (ae_lookup_oc aenv) (ae_lookup_now aenv) jti (ja_store (sv_jwt sv))"
  shows "rs_body (handleLogin env sv req res) = Some (auth_response_json token)
    \<and> (\<exists>ctx. fst (authenticate (le_lib env) aenv token (sv_jwt sv)) = Some (Inr ctx)
         \<and> ctx_subject ctx = ar_username r \<and> is_teacher ctx)"
proof -
  have "login_identity env sv r t = Inr (ar_username r, ''teacher'', [])" for t
    using assms(2-5) by (simp add: login_identity_def key_authenticate_def ok_def)
  with assms(1,6) have "rs_body (handleLogin env sv req res) = Some (auth_response_json token)"
    by (simp add: handleLogin_def Let_def)
  moreover have "fst (authenticate (le_lib env) aenv token (sv_jwt sv)) = Some (Inr
      \<lparr>ac_authenticated = True,
       ac_token = Some (token_issued (ja_expirySeconds (sv_jwt sv)) (le_now env) jti
                          (ar_username r) ''teacher'' []),
       ac_tenant_id = []\<rparr>)"
    by (rule issued_token_authenticates [OF assms(6-9) disjI1 [OF refl] assms(10) refl assms(11)])
  ultimately show ?thesis
    by (simp add: ctx_subject_def is_teacher_def ctx_has_role_def has_role_def token_issued_def)
qed

theorem key_login_names_anyone_witness:
  "\<exists>token ctx. rs_body (handleLogin sample_request_env sample_services
                 (sample_request ''key'' Map.empty) fresh_response) = Some (auth_response_json token)
    \<and> fst (authenticate plain_lib (env_at 2000000000000) token sample_auth) = Some (Inr ctx)
    \<and> ctx_subject ctx = ''headmaster'' \<and> is_teacher ctx"
proof -
  define tok where "tok = esc_all (plain_fields ''pub''
     (issue_claims 1000000000000 7200 sample_jti ''headmaster'' ''teacher'' []))"
  have tok: "issueToken plain_lib 1000000000000 (Some (replicate 16 7)) sample_auth
      ''headmaster'' ''teacher'' [] = Inr tok"
    by (simp add: issueToken_def sample_jti_generated sample_auth_def tok_def plain_lib_def ok_def)
  have r: "Option.bind (sample_json_parse ''key'') auth_request_from_json = Some key_login"
    by (simp add: sample_json_parse_def auth_request_from_json_def json_at_string_def json_at_def
        json_get_string_def json_opt_string_def json_contains_def key_login_def)
  show ?thesis
    using key_login_names_anyone [of sample_request_env "sample_request ''key'' Map.empty" key_login
        sample_services tok sample_jti "env_at 2000000000000" fresh_response]
      r tok sample_jti_generated plain_lib_faithful [of sample_auth]
      sample_in_date [of 2000000000000] sample_verify [of "''k''" "''k''"]
    by (auto simp: sample_request_env_def sample_services_def sample_request_def key_login_def
        auth_method_from_string_def env_at_def isRevoked_def sample_auth_def sqlite_empty_def)
qed

section \<open>What a logout revokes\<close>

lemma validate_same_jti:
  assumes "validate lib pub t1 t2 b = Some (Inr x)" and "validate lib pub t1' t2' b = Some (Inr y)"
  shows "tk_jti x = tk_jti y"
  using assms by (auto simp: validate_ok_iff token_of_def)

lemma revokeToken_keeps [simp]:
  "ja_publicKey (revokeToken roc rt rt' j a) = ja_publicKey a"
  by (simp add: revokeToken_def)

lemma authenticate_store:
  "ts_useSqlite (ja_store (snd (authenticate lib env b a))) = ts_useSqlite (ja_store a)"
  by (simp add: authenticate_def count_and_purge_def Let_def)

text \<open>A revoked identifier is on the denylist for the hour after the revocation.\<close>

lemma revokeToken_lasts:
  assumes "ts_useSqlite (ja_store a)" and "0 \<le> rt" and "toEpochSeconds t < toEpochSeconds rt + 3600"
  shows "isRevoked SqlDone t j (ja_store (revokeToken SqlDone rt rt' j a))"
  using revoke_lasts [OF assms(1-3), of "[]" j] by (simp add: revokeToken_def)

lemma handleLogout_bearer:
  assumes "get_header_value req ''Authorization'' = kBearerPrefix @ token" and "token \<noteq> []"
    and "authenticate lib env token a = (Some r, a')"
  shows "handleLogout lib env roc rt rt' stod inst req res a =
    (Some (res\<lparr>rs_status := 204\<rparr>),
     revokeToken roc rt rt'
       (case r of Inl _ \<Rightarrow> token
        | Inr ctx \<Rightarrow> (case ac_token ctx of None \<Rightarrow> token | Some t \<Rightarrow> tk_jti t)) a')"
proof -
  have "take kBearerPrefixLen (kBearerPrefix @ token) = kBearerPrefix"
    "drop kBearerPrefixLen (kBearerPrefix @ token) = token"
    "kBearerPrefix @ token \<noteq> []"
    by (simp_all add: kBearerPrefixLen_def kBearerPrefix_def)
  with assms show ?thesis
    by (simp add: handleLogout_def Let_def split: sum.split option.split)
qed

text \<open>
  After a logout with a valid token, which answers 204, that token authenticates
  nothing for an hour, as long as the database answers.
\<close>

theorem logout_takes_effect:
  assumes "get_header_value req ''Authorization'' = kBearerPrefix @ token" and "token \<noteq> []"
    and "fst (authenticate lib env token a) = Some (Inr ctx)"
    and "ae_purge_now env \<le> ae_lookup_now env"
    and "ts_useSqlite (ja_store a)" and "0 \<le> rt"
    and "toEpochSeconds (ae_lookup_now env') < toEpochSeconds rt + 3600"
    and "ae_purge_now env' \<le> ae_lookup_now env'" and "ae_lookup_oc env' = SqlDone"
  shows "map_option rs_status (fst (handleLogout lib env SqlDone rt rt' stod inst req res a)) = Some 204
    \<and> \<not> (\<exists>c. fst (authenticate lib env' token
                     (snd (handleLogout lib env SqlDone rt rt' stod inst req res a)))
                = Some (Inr c))"
proof -
  obtain t where t: "validate lib (ja_publicKey a) (ae_verify_now env) (ae_expiry_now env) token
      = Some (Inr t)" and ctx: "ac_token ctx = Some t"
    using assms(3) by (auto simp: authenticate_ok_iff [OF assms(4)])
  define a' where "a' = snd (authenticate lib env token a)"
  have auth: "authenticate lib env token a = (Some (Inr ctx), a')"
    using assms(3) by (simp add: a'_def prod_eq_iff)
  have out: "handleLogout lib env SqlDone rt rt' stod inst req res a
      = (Some (res\<lparr>rs_status := 204\<rparr>), revokeToken SqlDone rt rt' (tk_jti t) a')"
    using handleLogout_bearer [OF assms(1,2) auth] by (simp add: ctx)
  have "isRevoked SqlDone (ae_lookup_now env') (tk_jti t)
      (ja_store (revokeToken SqlDone rt rt' (tk_jti t) a'))"
    using assms(5-7) by (intro revokeToken_lasts) (simp_all add: a'_def authenticate_store)
  moreover have "tk_jti x = tk_jti t"
    if "validate lib (ja_publicKey a) (ae_verify_now env') (ae_expiry_now env') token = Some (Inr x)"
    for x
    using validate_same_jti [OF that t] .
  ultimately have "\<not> (\<exists>c. fst (authenticate lib env' token
      (revokeToken SqlDone rt rt' (tk_jti t) a')) = Some (Inr c))"
    by (auto simp: authenticate_ok_iff [OF assms(8)] assms(9) a'_def)
  with out show ?thesis by simp
qed

definition bearer_request :: "string \<Rightarrow> http_request" where
  "bearer_request token = sample_request []
     (\<lambda>n. if n = ''Authorization'' then Some (kBearerPrefix @ token) else None)"

lemma bearer_request_header [simp]:
  "get_header_value (bearer_request token) ''Authorization'' = kBearerPrefix @ token"
  by (simp add: bearer_request_def sample_request_def get_header_value_def)

lemma sample_token_authenticates:
  "fst (authenticate plain_lib (env_at 2000000000000) sample_token sample_auth) = Some (Inr
     \<lparr>ac_authenticated = True,
      ac_token = Some (token_issued 7200 1000000000000 sample_jti ''ann'' ''teacher'' ''t1''),
      ac_tenant_id = ''t1''\<rparr>)"
  using issued_token_authenticates [OF sample_token_issued sample_jti_generated
      plain_lib_faithful sample_in_date disjI1 [OF refl], of 2000000000000 sample_auth]
  by (simp add: env_at_def sample_auth_def sqlite_empty_def isRevoked_def)

lemma sample_token_nonempty: "sample_token \<noteq> []"
  by (simp add: sample_token_def esc_all_def plain_fields_def)

theorem logout_takes_effect_witness:
  "\<not> (\<exists>c. fst (authenticate plain_lib (env_at 3000000000000) sample_token
      (snd (handleLogout plain_lib (env_at 2000000000000) SqlDone 2000000000000 2000000000000
              (\<lambda>_. None) None (bearer_request sample_token) fresh_response sample_auth)))
    = Some (Inr c))"
  using logout_takes_effect [OF bearer_request_header sample_token_nonempty
      sample_token_authenticates, of 2000000000000 "env_at 3000000000000"]
  by (simp add: env_at_def sample_auth_def sqlite_empty_def toEpochSeconds_def)

text \<open>
  A logout needs no valid token to revoke: when what follows the Bearer prefix is not
  a token at all, the text itself goes on the denylist, so that anyone who knows the
  identifier of somebody else's token can end that session without being logged in.
\<close>

theorem logout_revokes_any_identifier:
  assumes "get_header_value req ''Authorization'' = kBearerPrefix @ victim" and "victim \<noteq> []"
    and "jl_decode lib (strip_bearer victim) = Inl what" and "strip_bearer victim \<noteq> []"
    and "ts_useSqlite (ja_store a)" and "0 \<le> rt"
    and "toEpochSeconds t < toEpochSeconds rt + 3600"
  shows "map_option rs_status (fst (handleLogout lib env SqlDone rt rt' stod inst req res a)) = Some 204
    \<and> isRevoked SqlDone t victim
        (ja_store (snd (handleLogout lib env SqlDone rt rt' stod inst req res a)))"
proof -
  have "validate lib (ja_publicKey a) (ae_verify_now env) (ae_expiry_now env) victim
      = Some (Inl (ApiError Unauthorized (''Token decode failed: '' @ what)))"
    using assms(3,4) by (simp add: validate_def Let_def fail_def)
  then have "fst (authenticate lib env victim a)
      = Some (Inl (ApiError Unauthorized (''Token decode failed: '' @ what)))"
    by (simp add: authenticate_def Let_def)
  then have auth: "authenticate lib env victim a
      = (Some (Inl (ApiError Unauthorized (''Token decode failed: '' @ what))),
         snd (authenticate lib env victim a))"
    by (simp add: prod_eq_iff)
  have "isRevoked SqlDone t victim
      (ja_store (revokeToken SqlDone rt rt' victim (snd (authenticate lib env victim a))))"
    using assms(5-7) by (intro revokeToken_lasts) (simp_all add: authenticate_store)
  then show ?thesis by (simp add: handleLogout_bearer [OF assms(1,2) auth])
qed

text \<open>The plain library, rejecting what does not begin with a marked character.\<close>

definition strict_lib :: "string list jwt_lib" where
  "strict_lib = plain_lib\<lparr>jl_decode := (\<lambda>s. if starts_with s ''c'' then Inr (unesc_all 9 (s @ ''e''))
                                             else Inl ''invalid token'')\<rparr>"

theorem logout_revokes_any_identifier_witness:
  "isRevoked SqlDone 3000000000000 ''1f-victim''
     (ja_store (snd (handleLogout strict_lib (env_at 2000000000000) SqlDone 2000000000000
        2000000000000 (\<lambda>_. None) None (bearer_request ''1f-victim'') fresh_response sample_auth)))"
  using logout_revokes_any_identifier [OF bearer_request_header, of "''1f-victim''" strict_lib
      "''invalid token''" sample_auth 2000000000000 3000000000000]
  by (simp add: strict_lib_def strip_bearer_def starts_with_def kBearerPrefix_def sample_auth_def
      sqlite_empty_def toEpochSeconds_def)

end
