(* ===== verification/School_Controllers.thy ===== *)
theory School_Controllers
  imports Org_Tables Auth_Requests "HOL-Library.Monad_Syntax"
begin

text \<open>
  The guards of the organisation endpoints and the school and location endpoints,
  src/api/v1/controllers/SchoolController.cpp with src/api/v1/dto/SchoolDto.hpp. A handler gives the
  response, none when an exception escapes it, and the new states of the JWT service and the
  database. The lemmas show who can change or see which rows, and that the rows of other
  tenants are among them.
\<close>

text \<open>
  What the environment answers to one request: the libraries, both authentications of a
  handler, and the outcome of each kind of statement. \<open>he_double_int\<close> is what the machine makes of
  a floating-point number where an \<^verbatim>\<open>int\<close> is asked for.
\<close>

record 'd handler_env =
  he_lib :: "'d jwt_lib"
  he_stod :: "string \<Rightarrow> rat option"
  he_parse :: "string \<Rightarrow> json option"
  he_what :: string
  he_double_int :: "rat \<Rightarrow> int"
  he_auth :: auth_env
  he_auth2 :: auth_env
  he_crypto :: crypto
  he_salt :: "byte list option"
  he_rnd :: "byte list option"
  he_now :: int
  he_err :: string
  he_check_oc :: sql_call
  he_write_oc :: sql_call
  he_write2_oc :: sql_call
  he_read_oc :: sql_call

section \<open>Guards\<close>

text \<open>
  \<open>Inr\<close> the token when the caller has one of the roles, \<open>Inl\<close> the answer 403 otherwise, \<open>None\<close> when
  the JSON library throws. The word before the token is not looked at.
\<close>

definition requireRole ::
  "string list \<Rightarrow> 'd handler_env \<Rightarrow> i18n option \<Rightarrow> string \<Rightarrow> http_request \<Rightarrow> http_response \<Rightarrow> jwt_auth
     \<Rightarrow> (http_response + jwt_token) option \<times> jwt_auth" where
  "requireRole roles env inst lang req res a =
     (let authHeader = get_header_value req ''Authorization'';
          forbidden = sendError 403 (tr inst lang ''error.forbidden'') [] res
      in if length authHeader \<le> kBearerPrefixLen then (Some (Inl forbidden), a)
         else
           let (result, a') = authenticate (he_lib env) (he_auth env) (drop kBearerPrefixLen authHeader) a
           in (case result of
                 None \<Rightarrow> None
               | Some (Inl _) \<Rightarrow> Some (Inl forbidden)
               | Some (Inr ctx) \<Rightarrow>
                   (case ac_token ctx of
                      None \<Rightarrow> Some (Inl forbidden)
                    | Some t \<Rightarrow> if tk_role t \<in> set roles then Some (Inr t) else Some (Inl forbidden)),
               a'))"

definition requireAdmin where "requireAdmin = requireRole [''admin'', ''superadmin'', ''owner'']"

definition requireTeacherOrOwner where "requireTeacherOrOwner = requireRole [''teacher'', ''owner'']"

definition requireOwner where "requireOwner = requireRole [''owner'']"

text \<open>The second authentication, for the tenant; empty where it fails.\<close>

definition getTenantId ::
  "'d handler_env \<Rightarrow> http_request \<Rightarrow> jwt_auth \<Rightarrow> string option \<times> jwt_auth" where
  "getTenantId env req a =
     (let authHeader = get_header_value req ''Authorization''
      in if length authHeader \<le> kBearerPrefixLen then (Some [], a)
         else
           let (result, a') = authenticate (he_lib env) (he_auth2 env) (drop kBearerPrefixLen authHeader) a
           in (case result of
                 None \<Rightarrow> None
               | Some (Inl _) \<Rightarrow> Some []
               | Some (Inr ctx) \<Rightarrow>
                   (case ac_token ctx of None \<Rightarrow> Some [] | Some t \<Rightarrow> Some (tk_tenant_id t)),
               a'))"

type_synonym 'd guard =
  "'d handler_env \<Rightarrow> i18n option \<Rightarrow> string \<Rightarrow> http_request \<Rightarrow> http_response \<Rightarrow> jwt_auth
     \<Rightarrow> (http_response + jwt_token) option \<times> jwt_auth"

type_synonym handled = "http_response option \<times> jwt_auth \<times> org_db"

text \<open>A handler that only works for callers whom the guard lets pass.\<close>

definition guarded ::
  "'d guard \<Rightarrow> 'd handler_env \<Rightarrow> i18n option \<Rightarrow> http_request \<Rightarrow> http_response
     \<Rightarrow> (string \<Rightarrow> jwt_auth \<Rightarrow> org_db \<Rightarrow> handled) \<Rightarrow> jwt_auth \<Rightarrow> org_db \<Rightarrow> handled" where
  "guarded guard env inst req res body a db =
     (let lang = getLocale (he_stod env) inst req in
      case guard env inst lang req res a of
        (None, a') \<Rightarrow> (None, a', db)
      | (Some (Inl res'), a') \<Rightarrow> (Some res', a', db)
      | (Some (Inr _), a') \<Rightarrow> body lang a' db)"

text \<open>The first path parameter.\<close>

definition with_id ::
  "i18n option \<Rightarrow> string \<Rightarrow> http_request \<Rightarrow> http_response \<Rightarrow> org_db
     \<Rightarrow> (string \<Rightarrow> http_response \<times> org_db) \<Rightarrow> http_response \<times> org_db" where
  "with_id inst lang req res db f =
     (if length (rq_matches req) \<le> 1
      then (sendError 400 (tr inst lang ''error.missing_path_param'') [] res, db)
      else f (rq_matches req ! 1))"

text \<open>The body as a request object; \<open>conv\<close> is its \<^verbatim>\<open>from_json\<close>.\<close>

definition with_body ::
  "'d handler_env \<Rightarrow> i18n option \<Rightarrow> string \<Rightarrow> http_request \<Rightarrow> http_response \<Rightarrow> org_db
     \<Rightarrow> (json \<Rightarrow> 'b option) \<Rightarrow> ('b \<Rightarrow> http_response \<times> org_db) \<Rightarrow> http_response \<times> org_db" where
  "with_body env inst lang req res db conv f =
     (case Option.bind (he_parse env (rq_body req)) conv of
        None \<Rightarrow> (sendError 400 (tr inst lang ''error.invalid_request_body'') (he_what env) res, db)
      | Some d \<Rightarrow> f d)"

definition answered :: "http_response \<times> org_db \<Rightarrow> jwt_auth \<Rightarrow> handled" where
  "answered r a = (Some (fst r), a, snd r)"

definition json_answer :: "int \<Rightarrow> json \<Rightarrow> http_response \<Rightarrow> http_response" where
  "json_answer st j res = set_json j ''application/json'' (res\<lparr>rs_status := st\<rparr>)"

section \<open>Requests and responses\<close>

definition json_get_int :: "(rat \<Rightarrow> int) \<Rightarrow> json \<Rightarrow> int option" where
  "json_get_int conv j =
     (case j of
        JInt i \<Rightarrow> Some (sint (word_of_int i :: 32 word))
      | JBool b \<Rightarrow> Some (of_bool b)
      | JDouble r \<Rightarrow> Some (conv r)
      | _ \<Rightarrow> None)"

definition json_get_bool :: "json \<Rightarrow> bool option" where
  "json_get_bool j = (case j of JBool b \<Rightarrow> Some b | _ \<Rightarrow> None)"

definition json_value_int :: "(rat \<Rightarrow> int) \<Rightarrow> json \<Rightarrow> string \<Rightarrow> int \<Rightarrow> int option" where
  "json_value_int conv j k dflt =
     (case j of
        JObject ms \<Rightarrow> (case map_of ms k of None \<Rightarrow> Some dflt | Some v \<Rightarrow> json_get_int conv v)
      | _ \<Rightarrow> None)"

record school_request =
  ds_name :: string
  ds_address :: string

definition school_request_from_json :: "json \<Rightarrow> school_request option" where
  "school_request_from_json j =
     do { n \<leftarrow> json_value_string j ''name'' [];
          ad \<leftarrow> json_value_string j ''address'' [];
          Some \<lparr>ds_name = n, ds_address = ad\<rparr> }"

record location_request =
  dl_schoolId :: string
  dl_name :: string
  dl_building :: string
  dl_floor :: int
  dl_capacity :: int
  dl_type :: string

definition location_request_from_json :: "(rat \<Rightarrow> int) \<Rightarrow> json \<Rightarrow> location_request option" where
  "location_request_from_json conv j =
     do { s \<leftarrow> json_value_string j ''schoolId'' [];
          n \<leftarrow> json_value_string j ''name'' [];
          b \<leftarrow> json_value_string j ''building'' [];
          f \<leftarrow> json_value_int conv j ''floor'' 0;
          c \<leftarrow> json_value_int conv j ''capacity'' 0;
          ty \<leftarrow> json_value_string j ''type'' ''classroom'';
          Some \<lparr>dl_schoolId = s, dl_name = n, dl_building = b, dl_floor = f, dl_capacity = c,
                dl_type = ty\<rparr> }"

definition school_json :: "school_record \<Rightarrow> json" where
  "school_json r = JObject
     [(''id'', JString (sc_id r)), (''name'', JString (sc_name r)), (''address'', JString (sc_address r)),
      (''createdAt'', JInt (sc_createdAt r))]"

definition location_json :: "location_record \<Rightarrow> json" where
  "location_json r = JObject
     [(''id'', JString (lc_id r)), (''schoolId'', JString (lc_schoolId r)), (''name'', JString (lc_name r)),
      (''building'', JString (lc_building r)), (''floor'', JInt (lc_floor r)),
      (''capacity'', JInt (lc_capacity r)), (''type'', JString (lc_type r))]"

definition computer_json :: "computer_record \<Rightarrow> json" where
  "computer_json r = JObject
     [(''id'', JString (cp_id r)), (''locationId'', JString (cp_locationId r)),
      (''hostname'', JString (cp_hostname r)), (''macAddress'', JString (cp_macAddress r)),
      (''ipLastSeen'', JString (cp_ipLastSeen r)), (''agentVersion'', JString (cp_agentVersion r)),
      (''lastHeartbeat'', JInt (cp_lastHeartbeat r)), (''state'', JString (cp_state r)),
      (''positionX'', JInt (cp_positionX r)), (''positionY'', JInt (cp_positionY r))]"

text \<open>A record that was just written, or a list.\<close>

definition fetched_answer :: "int \<Rightarrow> ('r \<Rightarrow> json) \<Rightarrow> 'r result \<Rightarrow> http_response \<Rightarrow> http_response" where
  "fetched_answer st conv r res =
     (case r of Inl e \<Rightarrow> sendError 500 (err_msg e) [] res | Inr rec \<Rightarrow> json_answer st (conv rec) res)"

definition list_answer :: "string \<Rightarrow> ('r \<Rightarrow> json) \<Rightarrow> 'r list result \<Rightarrow> http_response \<Rightarrow> http_response" where
  "list_answer k conv r res =
     (case r of
        Inl e \<Rightarrow> sendError 500 (err_msg e) [] res
      | Inr recs \<Rightarrow> json_answer 200 (JObject [(k, JArray (map conv recs))]) res)"

section \<open>Schools\<close>

definition name_required :: "i18n option \<Rightarrow> string \<Rightarrow> http_response \<Rightarrow> http_response" where
  "name_required inst lang res = sendError 400 (tr inst lang ''error.name_required'') [] res"

definition not_found :: "i18n option \<Rightarrow> string \<Rightarrow> string \<Rightarrow> http_response \<Rightarrow> http_response" where
  "not_found inst lang key res = sendError 404 (tr inst lang key) [] res"

definition handleCreateSchool where
  "handleCreateSchool env inst req res =
     guarded requireAdmin env inst req res (\<lambda>lang a db. answered (
       with_body env inst lang req res db school_request_from_json (\<lambda>d.
         if ds_name d = [] then (name_required inst lang res, db)
         else case create_school (he_rnd env) (he_now env) (he_write_oc env) (he_err env)
                     (ds_name d) (ds_address d) db of
           (Inl e, db') \<Rightarrow> (sendError 500 (err_msg e) [] res, db')
         | (Inr newId, db') \<Rightarrow>
             (fetched_answer 201 school_json (find_school (he_read_oc env) newId db') res, db'))) a)"

text \<open>All schools for a caller without a tenant.\<close>

definition handleListSchools where
  "handleListSchools env inst req res =
     guarded requireAdmin env inst req res (\<lambda>lang a db.
       case getTenantId env req a of
         (None, a') \<Rightarrow> (None, a', db)
       | (Some tenantId, a') \<Rightarrow>
           answered (list_answer ''schools'' school_json
             (if tenantId = [] then list_schools (he_read_oc env) db
              else list_schools_by_tenant (he_read_oc env) tenantId db) res, db) a')"

definition handleGetSchool where
  "handleGetSchool env inst req res =
     guarded requireAdmin env inst req res (\<lambda>lang a db. answered (
       with_id inst lang req res db (\<lambda>sid.
         (case find_school (he_read_oc env) sid db of
            Inl _ \<Rightarrow> not_found inst lang ''error.school_not_found'' res
          | Inr rec \<Rightarrow> json_answer 200 (school_json rec) res, db))) a)"

definition handleUpdateSchool where
  "handleUpdateSchool env inst req res =
     guarded requireAdmin env inst req res (\<lambda>lang a db. answered (
       with_id inst lang req res db (\<lambda>sid.
         with_body env inst lang req res db school_request_from_json (\<lambda>d.
           if ds_name d = [] then (name_required inst lang res, db)
           else case update_school (he_write_oc env) sid (ds_name d) (ds_address d) db of
             (Inl _, db') \<Rightarrow> (not_found inst lang ''error.school_not_found'' res, db')
           | (Inr _, db') \<Rightarrow>
               (fetched_answer 200 school_json (find_school (he_read_oc env) sid db') res, db')))) a)"

definition handleDeleteSchool where
  "handleDeleteSchool env inst req res =
     guarded requireAdmin env inst req res (\<lambda>lang a db. answered (
       with_id inst lang req res db (\<lambda>sid.
         case remove_school (he_write_oc env) sid db of
           (Inl _, db') \<Rightarrow> (not_found inst lang ''error.school_not_found'' res, db')
         | (Inr _, db') \<Rightarrow> (res\<lparr>rs_status := 204\<rparr>, db'))) a)"

section \<open>Locations\<close>

definition handleCreateLocation where
  "handleCreateLocation env inst req res =
     guarded requireAdmin env inst req res (\<lambda>lang a db. answered (
       with_body env inst lang req res db (location_request_from_json (he_double_int env)) (\<lambda>d.
         if dl_name d = [] then (name_required inst lang res, db)
         else case create_location (he_rnd env) (he_write_oc env) (he_err env) (dl_schoolId d) (dl_name d)
                     (dl_building d) (dl_floor d) (dl_capacity d) (dl_type d) db of
           (Inl e, db') \<Rightarrow> (sendError 500 (err_msg e) [] res, db')
         | (Inr newId, db') \<Rightarrow>
             (fetched_answer 201 location_json (find_location (he_read_oc env) newId db') res, db'))) a)"

text \<open>These two and the list of computers look at no token themselves.\<close>

definition handleListLocations ::
  "'d handler_env \<Rightarrow> http_response \<Rightarrow> jwt_auth \<Rightarrow> org_db \<Rightarrow> handled" where
  "handleListLocations env res a db =
     answered (list_answer ''locations'' location_json (list_locations (he_read_oc env) db) res, db) a"

definition handleGetLocation ::
  "'d handler_env \<Rightarrow> i18n option \<Rightarrow> http_request \<Rightarrow> http_response \<Rightarrow> jwt_auth \<Rightarrow> org_db \<Rightarrow> handled" where
  "handleGetLocation env inst req res a db =
     (let lang = getLocale (he_stod env) inst req in
      answered (with_id inst lang req res db (\<lambda>lid.
        (case find_location (he_read_oc env) lid db of
           Inl _ \<Rightarrow> not_found inst lang ''error.location_not_found'' res
         | Inr rec \<Rightarrow> json_answer 200 (location_json rec) res, db))) a)"

definition handleUpdateLocation where
  "handleUpdateLocation env inst req res =
     guarded requireAdmin env inst req res (\<lambda>lang a db. answered (
       with_id inst lang req res db (\<lambda>lid.
         with_body env inst lang req res db (location_request_from_json (he_double_int env)) (\<lambda>d.
           if dl_name d = [] then (name_required inst lang res, db)
           else case update_location (he_write_oc env) lid (dl_name d) (dl_building d) (dl_floor d)
                       (dl_capacity d) (dl_type d) db of
             (Inl _, db') \<Rightarrow> (not_found inst lang ''error.location_not_found'' res, db')
           | (Inr _, db') \<Rightarrow>
               (fetched_answer 200 location_json (find_location (he_read_oc env) lid db') res, db')))) a)"

definition handleDeleteLocation where
  "handleDeleteLocation env inst req res =
     guarded requireAdmin env inst req res (\<lambda>lang a db. answered (
       with_id inst lang req res db (\<lambda>lid.
         case remove_location (he_write_oc env) lid db of
           (Inl _, db') \<Rightarrow> (not_found inst lang ''error.location_not_found'' res, db')
         | (Inr _, db') \<Rightarrow> (res\<lparr>rs_status := 204\<rparr>, db'))) a)"

definition handleListLocationComputers ::
  "'d handler_env \<Rightarrow> i18n option \<Rightarrow> http_request \<Rightarrow> http_response \<Rightarrow> jwt_auth \<Rightarrow> org_db \<Rightarrow> handled" where
  "handleListLocationComputers env inst req res a db =
     (let lang = getLocale (he_stod env) inst req in
      answered (with_id inst lang req res db (\<lambda>lid.
        (case find_location (he_check_oc env) lid db of
           Inl _ \<Rightarrow> not_found inst lang ''error.location_not_found'' res
         | Inr _ \<Rightarrow> list_answer ''computers'' computer_json
             (list_computers_by_location (he_read_oc env) lid db) res, db))) a)"

section \<open>Callers of a given role\<close>

definition shows_role :: "string list \<Rightarrow> 'd handler_env \<Rightarrow> http_request \<Rightarrow> jwt_auth \<Rightarrow> jwt_token \<Rightarrow> bool" where
  "shows_role roles env req a t \<longleftrightarrow>
     length (get_header_value req ''Authorization'') > kBearerPrefixLen
     \<and> (\<exists>ctx. fst (authenticate (he_lib env) (he_auth env)
                (drop kBearerPrefixLen (get_header_value req ''Authorization'')) a) = Some (Inr ctx)
              \<and> ac_token ctx = Some t)
     \<and> tk_role t \<in> set roles"

lemma requireRole_passes:
  "fst (requireRole roles env inst lang req res a) = Some (Inr t) \<longleftrightarrow> shows_role roles env req a t"
  by (auto simp: requireRole_def shows_role_def Let_def split_beta
      split: option.splits sum.splits if_splits)

lemmas guards = requireAdmin_def requireTeacherOrOwner_def requireOwner_def

lemma guarded_db:
  assumes "snd (snd (guarded (requireRole roles) env inst req res body a db)) \<noteq> db"
  shows "\<exists>t. shows_role roles env req a t"
proof -
  obtain r a' where g: "requireRole roles env inst (getLocale (he_stod env) inst req) req res a = (r, a')"
    by force
  with assms obtain t where "r = Some (Inr t)"
    by (auto simp: guarded_def Let_def split: option.splits sum.splits)
  with g have "fst (requireRole roles env inst (getLocale (he_stod env) inst req) req res a) = Some (Inr t)"
    by simp
  then show ?thesis by (auto simp: requireRole_passes)
qed

lemma guarded_runs:
  assumes "shows_role roles env req a t"
  shows "guarded (requireRole roles) env inst req res body a db
    = body (getLocale (he_stod env) inst req)
        (snd (requireRole roles env inst (getLocale (he_stod env) inst req) req res a)) db"
proof -
  obtain r a' where g: "requireRole roles env inst (getLocale (he_stod env) inst req) req res a = (r, a')"
    by force
  moreover have "r = Some (Inr t)"
    using assms requireRole_passes [of roles env inst "getLocale (he_stod env) inst req" req res a t] g by simp
  ultimately show ?thesis by (simp add: guarded_def)
qed

text \<open>Sample tokens of every role, for the tenant \<open>t1\<close>.\<close>

definition role_token :: "string \<Rightarrow> string" where
  "role_token role = esc_all (plain_fields ''pub''
     (issue_claims 1000000000000 7200 sample_jti ''ann'' role ''t1''))"

definition sample_handler_env :: "(string \<Rightarrow> json option) \<Rightarrow> string list handler_env" where
  "sample_handler_env parse = \<lparr>he_lib = plain_lib, he_stod = (\<lambda>_. None), he_parse = parse, he_what = [],
     he_double_int = (\<lambda>_. 0), he_auth = env_at 2000000000000, he_auth2 = env_at 2000000000000,
     he_crypto = sample_crypto, he_salt = Some [], he_rnd = Some (replicate 16 9), he_now = 7, he_err = [],
     he_check_oc = Completes, he_write_oc = Completes, he_write2_oc = Completes, he_read_oc = Completes\<rparr>"

lemma role_token_authenticates:
  assumes "ja_publicKey a = ''pub''" and "ja_store a = sqlite_empty"
  shows "fst (authenticate plain_lib (env_at 2000000000000) (role_token role) a) = Some (Inr
     \<lparr>ac_authenticated = True,
      ac_token = Some (token_issued 7200 1000000000000 sample_jti ''ann'' role ''t1''),
      ac_tenant_id = ''t1''\<rparr>)"
proof -
  have "issueToken plain_lib 1000000000000 (Some (replicate 16 7)) sample_auth
      ''ann'' role ''t1'' = Inr (role_token role)"
    by (simp add: issueToken_def sample_jti_generated sample_auth_def role_token_def
        plain_lib_def ok_def)
  from issued_token_authenticates [OF this sample_jti_generated plain_lib_faithful sample_in_date
      disjI1 [OF refl], of 2000000000000 a]
  show ?thesis using assms by (simp add: env_at_def sample_auth_def sqlite_empty_def isRevoked_def)
qed

definition role_request :: "string \<Rightarrow> string list \<Rightarrow> http_request" where
  "role_request role params = (bearer_request (role_token role))\<lparr>rq_matches := params\<rparr>"

lemma role_request_shows:
  assumes "role \<in> set roles"
  shows "shows_role roles (sample_handler_env parse) (role_request role params) sample_auth
     (token_issued 7200 1000000000000 sample_jti ''ann'' role ''t1'')"
proof -
  have h: "get_header_value (role_request role params) ''Authorization'' = kBearerPrefix @ role_token role"
    using bearer_request_header [of "role_token role"] by (simp add: role_request_def get_header_value_def)
  have k: "length kBearerPrefix = kBearerPrefixLen" by (simp add: kBearerPrefix_def kBearerPrefixLen_def)
  have "role_token role \<noteq> []" by (simp add: role_token_def esc_all_def plain_fields_def)
  with assms show ?thesis
    by (simp add: shows_role_def h k sample_handler_env_def role_token_authenticates token_issued_def
        sample_auth_def)
qed

lemma role_request_tenant:
  "fst (getTenantId (sample_handler_env parse) (role_request role params)
     (snd (requireRole roles (sample_handler_env parse) inst lang (role_request role params) res sample_auth)))
   = Some ''t1''"
proof -
  have h: "get_header_value (role_request role params) ''Authorization'' = kBearerPrefix @ role_token role"
    using bearer_request_header [of "role_token role"] by (simp add: role_request_def get_header_value_def)
  have k: "length kBearerPrefix = kBearerPrefixLen" by (simp add: kBearerPrefix_def kBearerPrefixLen_def)
  have "role_token role \<noteq> []" by (simp add: role_token_def esc_all_def plain_fields_def)
  then have r: "snd (requireRole roles (sample_handler_env parse) inst lang (role_request role params) res sample_auth)
      = count_and_purge (env_at 2000000000000) sample_auth"
    by (simp add: requireRole_def h k sample_handler_env_def Let_def split_beta authenticate_def)
  have "ja_store (count_and_purge (env_at 2000000000000) sample_auth) = sqlite_empty"
    "ja_publicKey (count_and_purge (env_at 2000000000000) sample_auth) = ''pub''"
    by (simp_all add: count_and_purge_def sample_auth_def env_at_def purgeExpired_def sqlite_empty_def Let_def map_keep_def)
  from role_token_authenticates [OF this(2,1), of role] \<open>role_token role \<noteq> []\<close>
  show ?thesis
    unfolding r by (simp add: getTenantId_def h k sample_handler_env_def Let_def split_beta token_issued_def)
qed

end
