(* ===== verification/People_Controllers.thy ===== *)
theory People_Controllers
  imports School_Controllers
begin

text \<open>
  The endpoints for classes, students and teachers: src/api/v1/controllers/ClassController.cpp,
  StudentController.cpp and TeacherController.cpp with their request objects under
  src/api/v1/dto. The lemmas show which roles a change needs, that it needs nothing else, and
  what follows from that for other tenants.
\<close>

section \<open>Classes\<close>

definition class_json :: "class_record \<Rightarrow> json" where
  "class_json r = JObject
     [(''id'', JString (cr_id r)), (''tenantId'', JString (cr_tenantId r)),
      (''schoolId'', JString (cr_schoolId r)), (''name'', JString (cr_name r)),
      (''teacherId'', JString (cr_teacherId r)), (''createdAt'', JInt (cr_createdAt r))]"

record class_request =
  dc_schoolId :: string
  dc_name :: string
  dc_teacherId :: string

definition class_request_from_json :: "json \<Rightarrow> class_request option" where
  "class_request_from_json j =
     do { s \<leftarrow> json_value_string j ''schoolId'' [];
          n \<leftarrow> json_value_string j ''name'' [];
          t \<leftarrow> json_value_string j ''teacherId'' [];
          Some \<lparr>dc_schoolId = s, dc_name = n, dc_teacherId = t\<rparr> }"

definition class_update_from_json :: "json \<Rightarrow> (string \<times> string) option" where
  "class_update_from_json j =
     do { n \<leftarrow> json_value_string j ''name'' [];
          t \<leftarrow> json_value_string j ''teacherId'' [];
          Some (n, t) }"

definition handleCreateClass where
  "handleCreateClass env inst req res =
     guarded requireOwner env inst req res (\<lambda>lang a db.
       case getTenantId env req a of
         (None, a') \<Rightarrow> (None, a', db)
       | (Some tenantId, a') \<Rightarrow> answered (
           if tenantId = [] then (sendError 403 (tr inst lang ''error.forbidden'') [] res, db)
           else with_body env inst lang req res db class_request_from_json (\<lambda>d.
             if dc_schoolId d = [] then (sendError 400 ''schoolId is required'' [] res, db)
             else if dc_name d = [] then (sendError 400 ''name is required'' [] res, db)
             else case create_class (he_rnd env) (he_now env) (he_write_oc env) (he_err env) tenantId
                         (dc_schoolId d) (dc_name d) (dc_teacherId d) db of
               (Inl e, db') \<Rightarrow>
                 (sendError (if err_code e = Conflict then 409 else 500) (err_msg e) [] res, db')
             | (Inr newId, db') \<Rightarrow>
                 (fetched_answer 201 class_json (find_class (he_read_oc env) newId (od_classes db')) res,
                  db'))) a')"

text \<open>
  The token is authenticated again to read the role; should it no longer be valid then,
  reading the value of the failed result throws.
\<close>

definition handleListClasses where
  "handleListClasses env inst req res =
     guarded requireTeacherOrOwner env inst req res (\<lambda>lang a db.
       let (result, a') = authenticate (he_lib env) (he_auth2 env)
             (drop kBearerPrefixLen (get_header_value req ''Authorization'')) a
       in case result of
            Some (Inr ctx) \<Rightarrow>
              (case ac_token ctx of
                 None \<Rightarrow> (None, a', db)
               | Some t \<Rightarrow> answered (list_answer ''classes'' class_json
                   (if tk_role t = ''owner'' then list_classes_by_tenant (he_read_oc env) (tk_tenant_id t) db
                    else list_classes_by_teacher (he_read_oc env) (tk_subject t) db) res, db) a')
          | _ \<Rightarrow> (None, a', db))"

definition handleGetClass where
  "handleGetClass env inst req res =
     guarded requireTeacherOrOwner env inst req res (\<lambda>lang a db. answered (
       with_id inst lang req res db (\<lambda>cid.
         (case find_class (he_read_oc env) cid (od_classes db) of
            Inl _ \<Rightarrow> sendError 404 ''Class not found'' [] res
          | Inr rec \<Rightarrow> json_answer 200 (class_json rec) res, db))) a)"

definition handleUpdateClass where
  "handleUpdateClass env inst req res =
     guarded requireOwner env inst req res (\<lambda>lang a db. answered (
       with_id inst lang req res db (\<lambda>cid.
         with_body env inst lang req res db class_update_from_json (\<lambda>(name, teacherId).
           if name = [] then (sendError 400 ''name is required'' [] res, db)
           else case update_class (he_write_oc env) (he_err env) cid name teacherId db of
             (Inl e, db') \<Rightarrow>
               (if err_code e = NotFound then sendError 404 ''Class not found'' [] res
                else sendError 500 (err_msg e) [] res, db')
           | (Inr _, db') \<Rightarrow>
               (case find_class (he_read_oc env) cid (od_classes db') of
                  Inl _ \<Rightarrow> sendError 404 ''Class not found'' [] res
                | Inr rec \<Rightarrow> json_answer 200 (class_json rec) res, db')))) a)"

definition handleDeleteClass where
  "handleDeleteClass env inst req res =
     guarded requireOwner env inst req res (\<lambda>lang a db. answered (
       with_id inst lang req res db (\<lambda>cid.
         case remove_class (he_write_oc env) cid db of
           (Inl _, db') \<Rightarrow> (sendError 404 ''Class not found'' [] res, db')
         | (Inr _, db') \<Rightarrow> (res\<lparr>rs_status := 204\<rparr>, db'))) a)"

section \<open>Students\<close>

definition student_json :: "student_record \<Rightarrow> json" where
  "student_json r = JObject
     [(''id'', JString (sr_id r)), (''tenantId'', JString (sr_tenantId r)),
      (''classId'', JString (sr_classId r)), (''fullName'', JString (sr_fullName r)),
      (''username'', JString (sr_username r)), (''isActivated'', JBool (sr_isActivated r)),
      (''machineId'', JString (sr_machineId r)), (''createdAt'', JInt (sr_createdAt r))]"

record student_request =
  dt_classId :: string
  dt_fullName :: string
  dt_username :: string
  dt_password :: string

definition student_request_from_json :: "json \<Rightarrow> student_request option" where
  "student_request_from_json j =
     do { c \<leftarrow> json_value_string j ''classId'' [];
          f \<leftarrow> json_value_string j ''fullName'' [];
          u \<leftarrow> json_value_string j ''username'' [];
          p \<leftarrow> json_value_string j ''password'' [];
          Some \<lparr>dt_classId = c, dt_fullName = f, dt_username = u, dt_password = p\<rparr> }"

definition student_update_from_json :: "json \<Rightarrow> (string \<times> string) option" where
  "student_update_from_json j =
     do { f \<leftarrow> json_value_string j ''fullName'' [];
          p \<leftarrow> json_value_string j ''password'' [];
          Some (f, p) }"

definition handleCreateStudent where
  "handleCreateStudent env inst req res =
     guarded requireTeacherOrOwner env inst req res (\<lambda>lang a db.
       case getTenantId env req a of
         (None, a') \<Rightarrow> (None, a', db)
       | (Some tenantId, a') \<Rightarrow> answered (
           if tenantId = [] then (sendError 403 (tr inst lang ''error.forbidden'') [] res, db)
           else with_body env inst lang req res db student_request_from_json (\<lambda>d.
             if dt_classId d = [] then (sendError 400 ''classId is required'' [] res, db)
             else if dt_username d = []
             then (sendError 400 (tr inst lang ''error.username_required'') [] res, db)
             else if dt_password d = []
             then (sendError 400 (tr inst lang ''error.password_required'') [] res, db)
             else if is_ok (find_student_by_username (he_check_oc env) tenantId (dt_username d) (od_students db))
             then (sendError 409 ''Username already taken in this tenant'' [] res, db)
             else case insert_student (he_crypto env) (he_salt env) (he_rnd env) (he_now env) (he_write_oc env)
                         (he_err env) tenantId (dt_classId d) (dt_fullName d) (dt_username d)
                         (dt_password d) db of
               (Inl e, db') \<Rightarrow>
                 (sendError (if err_code e = Conflict then 409 else 500) (err_msg e) [] res, db')
             | (Inr newId, db') \<Rightarrow>
                 (fetched_answer 201 student_json (find_student (he_read_oc env) newId (od_students db')) res,
                  db'))) a')"

text \<open>\<open>classId\<close> is the query parameter, empty when it is missing.\<close>

definition handleListStudents where
  "handleListStudents env inst classId req res =
     guarded requireTeacherOrOwner env inst req res (\<lambda>lang a db. answered (
       if classId = [] then (sendError 400 ''classId query param required'' [] res, db)
       else (list_answer ''students'' student_json (listByClass (he_read_oc env) classId (od_students db)) res,
             db)) a)"

definition student_answer :: "'d handler_env \<Rightarrow> string \<Rightarrow> org_db \<Rightarrow> http_response \<Rightarrow> http_response" where
  "student_answer env sid db res =
     (case find_student (he_read_oc env) sid (od_students db) of
        Inl _ \<Rightarrow> sendError 404 ''Student not found'' [] res
      | Inr rec \<Rightarrow> json_answer 200 (student_json rec) res)"

definition handleGetStudent where
  "handleGetStudent env inst req res =
     guarded requireTeacherOrOwner env inst req res (\<lambda>lang a db. answered (
       with_id inst lang req res db (\<lambda>sid. (student_answer env sid db res, db))) a)"

definition student_update_error :: "api_error \<Rightarrow> http_response \<Rightarrow> http_response" where
  "student_update_error e res =
     (if err_code e = NotFound then sendError 404 ''Student not found'' [] res
      else sendError 500 (err_msg e) [] res)"

text \<open>The two updates are two statements; the first stays when the second fails.\<close>

definition handleUpdateStudent where
  "handleUpdateStudent env inst req res =
     guarded requireTeacherOrOwner env inst req res (\<lambda>lang a db. answered (
       with_id inst lang req res db (\<lambda>sid.
         with_body env inst lang req res db student_update_from_json (\<lambda>(fullName, password).
           let (r1, s1) = (if fullName = [] then (ok (), od_students db)
                           else update_student (he_write_oc env) sid fullName (od_students db))
           in case r1 of
                Inl e \<Rightarrow> (student_update_error e res, set_students s1 db)
              | Inr _ \<Rightarrow>
                  let (r2, s2) = (if password = [] then (ok (), s1)
                                  else change_student_password (he_crypto env) (he_salt env)
                                         (he_write2_oc env) sid password s1)
                  in case r2 of
                       Inl e \<Rightarrow> (student_update_error e res, set_students s2 db)
                     | Inr _ \<Rightarrow> (student_answer env sid (set_students s2 db) res, set_students s2 db)))) a)"

definition handleDeleteStudent where
  "handleDeleteStudent env inst req res =
     guarded requireTeacherOrOwner env inst req res (\<lambda>lang a db. answered (
       with_id inst lang req res db (\<lambda>sid.
         case remove_student (he_write_oc env) sid (od_students db) of
           (Inl _, ss) \<Rightarrow> (sendError 404 ''Student not found'' [] res, set_students ss db)
         | (Inr _, ss) \<Rightarrow> (res\<lparr>rs_status := 204\<rparr>, set_students ss db))) a)"

definition handleResetMachine where
  "handleResetMachine env inst req res =
     guarded requireTeacherOrOwner env inst req res (\<lambda>lang a db. answered (
       with_id inst lang req res db (\<lambda>sid.
         case resetMachine (he_write_oc env) sid (od_students db) of
           (Inl _, ss) \<Rightarrow> (sendError 404 ''Student not found'' [] res, set_students ss db)
         | (Inr _, ss) \<Rightarrow>
             (json_answer 200 (JObject [(''studentId'', JString sid), (''status'', JString ''machine_reset'')]) res,
              set_students ss db))) a)"

text \<open>
  A student binds the machine: the user name of the token is looked up in its tenant, the row
  is updated by its identifier.
\<close>

definition activate_body ::
  "'d handler_env \<Rightarrow> i18n option \<Rightarrow> string \<Rightarrow> http_request \<Rightarrow> http_response \<Rightarrow> jwt_token \<Rightarrow> org_db
     \<Rightarrow> http_response \<times> org_db" where
  "activate_body env inst lang req res t db =
     (if tk_tenant_id t = [] \<or> tk_subject t = []
      then (sendError 403 (tr inst lang ''error.forbidden'') [] res, db)
      else with_body env inst lang req res db (\<lambda>j. json_value_string j ''machineFingerprint'' []) (\<lambda>fp.
        if fp = [] then (sendError 400 ''machineFingerprint is required'' [] res, db)
        else case find_student_by_username (he_check_oc env) (tk_tenant_id t) (tk_subject t) (od_students db) of
          Inl _ \<Rightarrow> (sendError 404 ''Student not found'' [] res, db)
        | Inr s \<Rightarrow>
            (case activate (he_read_oc env) (he_write_oc env) (he_now env) (sr_id s) fp (od_students db) of
               (Inl e, ss) \<Rightarrow>
                 (if err_code e = Conflict
                  then sendError 409 ''Machine already activated for this student'' [] res
                  else student_update_error e res, set_students ss db)
             | (Inr _, ss) \<Rightarrow>
                 (json_answer 200 (JObject [(''studentId'', JString (sr_id s)),
                    (''machineFingerprint'', JString fp), (''status'', JString ''activated'')]) res,
                  set_students ss db))))"

definition handleActivateMachine ::
  "'d handler_env \<Rightarrow> i18n option \<Rightarrow> http_request \<Rightarrow> http_response \<Rightarrow> jwt_auth \<Rightarrow> org_db \<Rightarrow> handled" where
  "handleActivateMachine env inst req res a db =
     (let lang = getLocale (he_stod env) inst req in
      case requireRole [''student''] env inst lang req res a of
        (None, a') \<Rightarrow> (None, a', db)
      | (Some (Inl res'), a') \<Rightarrow> (Some res', a', db)
      | (Some (Inr t), a') \<Rightarrow> answered (activate_body env inst lang req res t db) a')"

section \<open>Teachers\<close>

definition teacher_json :: "teacher_record \<Rightarrow> json" where
  "teacher_json r = JObject
     [(''id'', JString (tr_id r)), (''username'', JString (tr_username r)),
      (''fullName'', JString (tr_fullName r)), (''role'', JString (tr_role r)),
      (''createdAt'', JInt (tr_createdAt r))]"

record teacher_request =
  dh_username :: string
  dh_password :: string
  dh_fullName :: string
  dh_role :: string

definition teacher_request_from_json :: "json \<Rightarrow> teacher_request option" where
  "teacher_request_from_json j =
     do { u \<leftarrow> json_value_string j ''username'' [];
          p \<leftarrow> json_value_string j ''password'' [];
          f \<leftarrow> json_value_string j ''fullName'' [];
          r \<leftarrow> json_value_string j ''role'' ''teacher'';
          Some \<lparr>dh_username = u, dh_password = p, dh_fullName = f, dh_role = r\<rparr> }"

definition handleCreateTeacher where
  "handleCreateTeacher env inst req res =
     guarded requireAdmin env inst req res (\<lambda>lang a db. answered (
       with_body env inst lang req res db teacher_request_from_json (\<lambda>d.
         if dh_username d = [] then (sendError 400 (tr inst lang ''error.username_required'') [] res, db)
         else if dh_password d = [] then (sendError 400 (tr inst lang ''error.password_required'') [] res, db)
         else if is_ok (find_teacher_by_username (he_check_oc env) (dh_username d) (od_teachers db))
         then (sendError 409 (tr inst lang ''error.teacher_exists'') [] res, db)
         else case create_teacher (he_crypto env) (he_salt env) (he_rnd env) (he_now env) (he_write_oc env)
                     (he_err env) (dh_username d) (dh_password d) (dh_fullName d) (dh_role d)
                     (od_teachers db) of
           (Inl e, ts) \<Rightarrow> (sendError 500 (err_msg e) [] res, set_teachers ts db)
         | (Inr newId, ts) \<Rightarrow>
             (fetched_answer 201 teacher_json (find_teacher (he_read_oc env) newId ts) res,
              set_teachers ts db))) a)"

definition handleListTeachers where
  "handleListTeachers env inst req res =
     guarded requireAdmin env inst req res (\<lambda>lang a db.
       case getTenantId env req a of
         (None, a') \<Rightarrow> (None, a', db)
       | (Some tenantId, a') \<Rightarrow>
           answered (list_answer ''teachers'' teacher_json
             (list_teachers (he_read_oc env) tenantId (od_teachers db)) res, db) a')"

text \<open>This one looks at no token itself.\<close>

definition handleGetTeacher ::
  "'d handler_env \<Rightarrow> i18n option \<Rightarrow> http_request \<Rightarrow> http_response \<Rightarrow> jwt_auth \<Rightarrow> org_db \<Rightarrow> handled" where
  "handleGetTeacher env inst req res a db =
     (let lang = getLocale (he_stod env) inst req in
      answered (with_id inst lang req res db (\<lambda>tid.
        (case find_teacher (he_read_oc env) tid (od_teachers db) of
           Inl _ \<Rightarrow> not_found inst lang ''error.teacher_not_found'' res
         | Inr rec \<Rightarrow> json_answer 200 (teacher_json rec) res, db))) a)"

text \<open>Reading the members of the body is outside the \<^verbatim>\<open>try\<close> block: the exception escapes.\<close>

definition handleUpdateTeacher where
  "handleUpdateTeacher env inst req res =
     guarded requireAdmin env inst req res (\<lambda>lang a db.
       if length (rq_matches req) \<le> 1
       then (Some (sendError 400 (tr inst lang ''error.missing_path_param'') [] res), a, db)
       else case he_parse env (rq_body req) of
         None \<Rightarrow> (Some (sendError 400 (tr inst lang ''error.invalid_request_body'') (he_what env) res), a, db)
       | Some j \<Rightarrow>
           (case (json_value_string j ''fullName'' [], json_value_string j ''role'' []) of
              (Some fullName, Some role) \<Rightarrow>
                (case update_teacher (he_write_oc env) (rq_matches req ! 1) fullName role (od_teachers db) of
                   (Inl _, ts) \<Rightarrow>
                     (Some (not_found inst lang ''error.teacher_not_found'' res), a, set_teachers ts db)
                 | (Inr _, ts) \<Rightarrow>
                     (Some (fetched_answer 200 teacher_json
                              (find_teacher (he_read_oc env) (rq_matches req ! 1) ts) res),
                      a, set_teachers ts db))
            | _ \<Rightarrow> (None, a, db)))"

definition handleDeleteTeacher where
  "handleDeleteTeacher env inst req res =
     guarded requireAdmin env inst req res (\<lambda>lang a db. answered (
       with_id inst lang req res db (\<lambda>tid.
         case delete_teacher (he_write_oc env) tid db of
           (Inl _, db') \<Rightarrow> (not_found inst lang ''error.teacher_not_found'' res, db')
         | (Inr _, db') \<Rightarrow> (res\<lparr>rs_status := 204\<rparr>, db'))) a)"

definition handleAssignLocation where
  "handleAssignLocation env inst req res =
     guarded requireAdmin env inst req res (\<lambda>lang a db. answered (
       with_id inst lang req res db (\<lambda>tid.
         with_body env inst lang req res db (\<lambda>j. json_value_string j ''locationId'' []) (\<lambda>lid.
           if \<not> is_ok (find_teacher (he_check_oc env) tid (od_teachers db))
           then (not_found inst lang ''error.teacher_not_found'' res, db)
           else if \<not> is_ok (find_location (he_read_oc env) lid db)
           then (not_found inst lang ''error.location_not_found'' res, db)
           else case assign (he_write_oc env) (he_err env) tid lid db of
             (Inl e, db') \<Rightarrow> (sendError 500 (err_msg e) [] res, db')
           | (Inr _, db') \<Rightarrow>
               (json_answer 201 (JObject [(''teacherId'', JString tid), (''locationId'', JString lid),
                  (''status'', JString ''assigned'')]) res, db')))) a)"

definition handleRevokeLocation where
  "handleRevokeLocation env inst req res =
     guarded requireAdmin env inst req res (\<lambda>lang a db. answered (
       if length (rq_matches req) \<le> 2
       then (sendError 400 (tr inst lang ''error.missing_path_param'') [] res, db)
       else case revoke_location (he_write_oc env) (rq_matches req ! 1) (rq_matches req ! 2) db of
         (Inl _, db') \<Rightarrow> (not_found inst lang ''error.location_not_found'' res, db')
       | (Inr _, db') \<Rightarrow> (res\<lparr>rs_status := 204\<rparr>, db')) a)"

section \<open>All endpoints\<close>

datatype org_endpoint =
    CreateSchool | ListSchools | GetSchool | UpdateSchool | DeleteSchool
  | CreateLocation | ListLocations | GetLocation | UpdateLocation | DeleteLocation | ListLocationComputers
  | CreateClass | ListClasses | GetClass | UpdateClass | DeleteClass
  | CreateStudent | ListStudents | GetStudent | UpdateStudent | DeleteStudent | ResetStudentMachine
  | ActivateMachine
  | CreateTeacher | ListTeachers | GetTeacher | UpdateTeacher | DeleteTeacher | AssignLocation
  | RevokeLocation

text \<open>\<open>param\<close> is the query parameter that one of them reads.\<close>

fun org_run ::
  "org_endpoint \<Rightarrow> 'd handler_env \<Rightarrow> i18n option \<Rightarrow> string \<Rightarrow> http_request \<Rightarrow> http_response
     \<Rightarrow> jwt_auth \<Rightarrow> org_db \<Rightarrow> handled" where
  "org_run CreateSchool env inst param req res a db = handleCreateSchool env inst req res a db"
| "org_run ListSchools env inst param req res a db = handleListSchools env inst req res a db"
| "org_run GetSchool env inst param req res a db = handleGetSchool env inst req res a db"
| "org_run UpdateSchool env inst param req res a db = handleUpdateSchool env inst req res a db"
| "org_run DeleteSchool env inst param req res a db = handleDeleteSchool env inst req res a db"
| "org_run CreateLocation env inst param req res a db = handleCreateLocation env inst req res a db"
| "org_run ListLocations env inst param req res a db = handleListLocations env res a db"
| "org_run GetLocation env inst param req res a db = handleGetLocation env inst req res a db"
| "org_run UpdateLocation env inst param req res a db = handleUpdateLocation env inst req res a db"
| "org_run DeleteLocation env inst param req res a db = handleDeleteLocation env inst req res a db"
| "org_run ListLocationComputers env inst param req res a db = handleListLocationComputers env inst req res a db"
| "org_run CreateClass env inst param req res a db = handleCreateClass env inst req res a db"
| "org_run ListClasses env inst param req res a db = handleListClasses env inst req res a db"
| "org_run GetClass env inst param req res a db = handleGetClass env inst req res a db"
| "org_run UpdateClass env inst param req res a db = handleUpdateClass env inst req res a db"
| "org_run DeleteClass env inst param req res a db = handleDeleteClass env inst req res a db"
| "org_run CreateStudent env inst param req res a db = handleCreateStudent env inst req res a db"
| "org_run ListStudents env inst param req res a db = handleListStudents env inst param req res a db"
| "org_run GetStudent env inst param req res a db = handleGetStudent env inst req res a db"
| "org_run UpdateStudent env inst param req res a db = handleUpdateStudent env inst req res a db"
| "org_run DeleteStudent env inst param req res a db = handleDeleteStudent env inst req res a db"
| "org_run ResetStudentMachine env inst param req res a db = handleResetMachine env inst req res a db"
| "org_run ActivateMachine env inst param req res a db = handleActivateMachine env inst req res a db"
| "org_run CreateTeacher env inst param req res a db = handleCreateTeacher env inst req res a db"
| "org_run ListTeachers env inst param req res a db = handleListTeachers env inst req res a db"
| "org_run GetTeacher env inst param req res a db = handleGetTeacher env inst req res a db"
| "org_run UpdateTeacher env inst param req res a db = handleUpdateTeacher env inst req res a db"
| "org_run DeleteTeacher env inst param req res a db = handleDeleteTeacher env inst req res a db"
| "org_run AssignLocation env inst param req res a db = handleAssignLocation env inst req res a db"
| "org_run RevokeLocation env inst param req res a db = handleRevokeLocation env inst req res a db"

text \<open>The roles that may write through an endpoint; none for those that only read.\<close>

fun writer_roles :: "org_endpoint \<Rightarrow> string list" where
  "writer_roles CreateSchool = [''admin'', ''superadmin'', ''owner'']"
| "writer_roles UpdateSchool = [''admin'', ''superadmin'', ''owner'']"
| "writer_roles DeleteSchool = [''admin'', ''superadmin'', ''owner'']"
| "writer_roles CreateLocation = [''admin'', ''superadmin'', ''owner'']"
| "writer_roles UpdateLocation = [''admin'', ''superadmin'', ''owner'']"
| "writer_roles DeleteLocation = [''admin'', ''superadmin'', ''owner'']"
| "writer_roles CreateClass = [''owner'']"
| "writer_roles UpdateClass = [''owner'']"
| "writer_roles DeleteClass = [''owner'']"
| "writer_roles CreateStudent = [''teacher'', ''owner'']"
| "writer_roles UpdateStudent = [''teacher'', ''owner'']"
| "writer_roles DeleteStudent = [''teacher'', ''owner'']"
| "writer_roles ResetStudentMachine = [''teacher'', ''owner'']"
| "writer_roles ActivateMachine = [''student'']"
| "writer_roles CreateTeacher = [''admin'', ''superadmin'', ''owner'']"
| "writer_roles UpdateTeacher = [''admin'', ''superadmin'', ''owner'']"
| "writer_roles DeleteTeacher = [''admin'', ''superadmin'', ''owner'']"
| "writer_roles AssignLocation = [''admin'', ''superadmin'', ''owner'']"
| "writer_roles RevokeLocation = [''admin'', ''superadmin'', ''owner'']"
| "writer_roles _ = []"

section \<open>Every request is a series of steps\<close>

text \<open>Every body of a handler goes through the tables by steps of the repositories.\<close>

abbreviation org_steps :: "org_db \<Rightarrow> org_db \<Rightarrow> bool" where "org_steps \<equiv> org_step\<^sup>*\<^sup>*"

lemma guarded_steps:
  assumes "\<And>lang a. org_steps db (snd (snd (body lang a db)))"
  shows "org_steps db (snd (snd (guarded g env inst req res body a db)))"
  using assms by (auto simp: guarded_def Let_def split: prod.split option.split sum.split)

lemma guarded_same:
  assumes "\<And>lang a. snd (snd (body lang a db)) = db"
  shows "snd (snd (guarded g env inst req res body a db)) = db"
  using assms by (auto simp: guarded_def Let_def split: prod.split option.split sum.split)

lemma answered_db [simp]: "snd (snd (answered r a)) = snd r"
  by (simp add: answered_def)

lemma with_id_steps:
  "(\<And>i. org_steps db (snd (f i))) \<Longrightarrow> org_steps db (snd (with_id inst lang req res db f))"
  by (simp add: with_id_def)

lemma with_body_steps:
  "(\<And>d. org_steps db (snd (f d))) \<Longrightarrow> org_steps db (snd (with_body env inst lang req res db conv f))"
  by (simp add: with_body_def split: option.split)

lemma with_id_same: "(\<And>i. snd (f i) = db) \<Longrightarrow> snd (with_id inst lang req res db f) = db"
  by (simp add: with_id_def)

lemma snd_case_result [simp]:
  "snd (case p of (Inl e, d) \<Rightarrow> (f e d, d) | (Inr v, d) \<Rightarrow> (g v d, d)) = snd p"
  "snd (case q of (Inl e, d) \<Rightarrow> (f' e d, h d) | (Inr v, d) \<Rightarrow> (g' v d, h d)) = h (snd q)"
  by (cases p, cases q, auto split: sum.split)+

lemma student_steps:
  "org_steps db (set_students (snd (remove_student oc sid (od_students db))) db)"
  "org_steps db (set_students (snd (resetMachine oc sid (od_students db))) db)"
  "org_steps db (set_students (snd (activate oc oc' now sid m (od_students db))) db)"
  "org_steps db (set_students (snd (update_student oc sid name (od_students db))) db)"
  "org_steps db (set_students (snd (change_student_password cr salt oc sid pw (od_students db))) db)"
proof -
  note s = r_into_rtranclp [of org_step, OF org_step.student [where db = db]]
  show "org_steps db (set_students (snd (remove_student oc sid (od_students db))) db)"
    using s [of "SRemove oc sid" cr] by simp
  show "org_steps db (set_students (snd (resetMachine oc sid (od_students db))) db)"
    using s [of "SReset oc sid" cr] by simp
  show "org_steps db (set_students (snd (activate oc oc' now sid m (od_students db))) db)"
    using s [of "SActivate oc oc' now sid m" cr] by simp
  show "org_steps db (set_students (snd (update_student oc sid name (od_students db))) db)"
    using s [of "SUpdate oc sid name" cr] by simp
  show "org_steps db (set_students (snd (change_student_password cr salt oc sid pw (od_students db))) db)"
    using s [of "SChangePassword salt oc sid pw" cr] by simp
qed

lemma set_students_same [simp]: "set_students (od_students db) db = db"
  by (simp add: set_students_def)

lemma set_students_twice [simp]: "set_students s2 (set_students s1 db) = set_students s2 db"
  by (simp add: set_students_def)

text \<open>One step of a repository, as a sequence.\<close>

lemmas one_step =
  org_step.create_school [THEN r_into_rtranclp [of org_step]]
  org_step.update_school [THEN r_into_rtranclp [of org_step]]
  org_step.remove_school [THEN r_into_rtranclp [of org_step]]
  org_step.create_location [THEN r_into_rtranclp [of org_step]]
  org_step.update_location [THEN r_into_rtranclp [of org_step]]
  org_step.remove_location [THEN r_into_rtranclp [of org_step]]
  org_step.create_class [THEN r_into_rtranclp [of org_step]]
  org_step.update_class [THEN r_into_rtranclp [of org_step]]
  org_step.remove_class [THEN r_into_rtranclp [of org_step]]
  org_step.assign [THEN r_into_rtranclp [of org_step]]
  org_step.revoke [THEN r_into_rtranclp [of org_step]]
  org_step.insert_student [THEN r_into_rtranclp [of org_step]]
  org_step.create_teacher [THEN r_into_rtranclp [of org_step]]
  org_step.update_teacher [THEN r_into_rtranclp [of org_step]]
  org_step.delete_teacher [THEN r_into_rtranclp [of org_step]]
  student_steps

lemma school_handlers_steps:
  "org_steps db (snd (snd (handleCreateSchool env inst req res a db)))"
  "org_steps db (snd (snd (handleUpdateSchool env inst req res a db)))"
  "org_steps db (snd (snd (handleDeleteSchool env inst req res a db)))"
  "org_steps db (snd (snd (handleCreateLocation env inst req res a db)))"
  "org_steps db (snd (snd (handleUpdateLocation env inst req res a db)))"
  "org_steps db (snd (snd (handleDeleteLocation env inst req res a db)))"
  unfolding handleCreateSchool_def handleUpdateSchool_def handleDeleteSchool_def
    handleCreateLocation_def handleUpdateLocation_def handleDeleteLocation_def
  by (rule guarded_steps; unfold answered_db; intro with_id_steps with_body_steps; simp add: one_step)+

lemma class_handlers_steps:
  "org_steps db (snd (snd (handleUpdateClass env inst req res a db)))"
  "org_steps db (snd (snd (handleDeleteClass env inst req res a db)))"
  unfolding handleUpdateClass_def handleDeleteClass_def
  by (rule guarded_steps; unfold answered_db; intro with_id_steps with_body_steps; clarsimp simp: one_step)+

lemma create_handlers_steps:
  "org_steps db (snd (snd (handleCreateClass env inst req res a db)))"
  "org_steps db (snd (snd (handleCreateStudent env inst req res a db)))"
  unfolding handleCreateClass_def handleCreateStudent_def
  by (rule guarded_steps;
      auto split: prod.split option.split simp: one_step intro!: with_body_steps)+

lemma student_handlers_steps:
  "org_steps db (snd (snd (handleDeleteStudent env inst req res a db)))"
  "org_steps db (snd (snd (handleResetMachine env inst req res a db)))"
  unfolding handleDeleteStudent_def handleResetMachine_def
  by (rule guarded_steps; unfold answered_db; intro with_id_steps with_body_steps; simp add: one_step)+

lemma handleActivateMachine_steps: "org_steps db (snd (snd (handleActivateMachine env inst req res a db)))"
proof -
  have "org_steps db (snd (activate_body env inst lang req res t db))" for lang t
    unfolding activate_body_def
    by (auto intro!: with_body_steps split: sum.split simp: one_step)
  then show ?thesis
    by (auto simp: handleActivateMachine_def Let_def split: prod.split option.split sum.split)
qed

lemma teacher_handlers_steps:
  "org_steps db (snd (snd (handleCreateTeacher env inst req res a db)))"
  "org_steps db (snd (snd (handleDeleteTeacher env inst req res a db)))"
  "org_steps db (snd (snd (handleAssignLocation env inst req res a db)))"
  unfolding handleCreateTeacher_def handleDeleteTeacher_def handleAssignLocation_def
  by (rule guarded_steps; unfold answered_db; intro with_id_steps with_body_steps; simp add: one_step)+

lemma handleRevokeLocation_steps: "org_steps db (snd (snd (handleRevokeLocation env inst req res a db)))"
  unfolding handleRevokeLocation_def by (rule guarded_steps) (simp add: one_step)

lemma handleUpdateTeacher_steps: "org_steps db (snd (snd (handleUpdateTeacher env inst req res a db)))"
  unfolding handleUpdateTeacher_def
proof (rule guarded_steps)
  fix lang a
  have u: "org_steps db (set_teachers (snd (update_teacher oc tid name role (od_teachers db))) db)"
    for oc tid name role
    by (rule r_into_rtranclp) (rule org_step.update_teacher)
  show "org_steps db (snd (snd (
      if length (rq_matches req) \<le> 1
      then (Some (sendError 400 (tr inst lang ''error.missing_path_param'') [] res), a, db)
      else case he_parse env (rq_body req) of
         None \<Rightarrow> (Some (sendError 400 (tr inst lang ''error.invalid_request_body'') (he_what env) res), a, db)
       | Some j \<Rightarrow>
           (case (json_value_string j ''fullName'' [], json_value_string j ''role'' []) of
              (Some fullName, Some role) \<Rightarrow>
                (case update_teacher (he_write_oc env) (rq_matches req ! 1) fullName role (od_teachers db) of
                   (Inl _, ts) \<Rightarrow>
                     (Some (not_found inst lang ''error.teacher_not_found'' res), a, set_teachers ts db)
                 | (Inr _, ts) \<Rightarrow>
                     (Some (fetched_answer 200 teacher_json
                              (find_teacher (he_read_oc env) (rq_matches req ! 1) ts) res),
                      a, set_teachers ts db))
            | _ \<Rightarrow> (None, a, db)))))"
    by (auto split: option.split simp: u)
qed

lemma handleUpdateStudent_steps: "org_steps db (snd (snd (handleUpdateStudent env inst req res a db)))"
  unfolding handleUpdateStudent_def
proof (rule guarded_steps, unfold answered_db, intro with_id_steps with_body_steps, clarify)
  fix lang sid fullName password
  obtain r1 s1 where n: "(if fullName = [] then (ok (), od_students db)
         else update_student (he_write_oc env) sid fullName (od_students db)) = (r1, s1)" by force
  then have s1: "org_steps db (set_students s1 db)"
    using student_steps(4) [of db "he_write_oc env" sid fullName] by (auto split: if_splits)
  obtain r2 s2 where p: "(if password = [] then (ok (), s1)
         else change_student_password (he_crypto env) (he_salt env) (he_write2_oc env) sid password s1) = (r2, s2)"
    by force
  then have s2: "org_steps db (set_students s2 db)"
    using s1 student_steps(5) [of "set_students s1 db" "he_crypto env" "he_salt env" "he_write2_oc env" sid password]
    by (auto split: if_splits intro: rtranclp_trans [of org_step])
  show "org_steps db (snd (
          let (r1, s1) = (if fullName = [] then (ok (), od_students db)
                           else update_student (he_write_oc env) sid fullName (od_students db))
           in case r1 of
                Inl e \<Rightarrow> (student_update_error e res, set_students s1 db)
              | Inr _ \<Rightarrow>
                  let (r2, s2) = (if password = [] then (ok (), s1)
                                  else change_student_password (he_crypto env) (he_salt env)
                                         (he_write2_oc env) sid password s1)
                  in case r2 of
                       Inl e \<Rightarrow> (student_update_error e res, set_students s2 db)
                     | Inr _ \<Rightarrow> (student_answer env sid (set_students s2 db) res, set_students s2 db)))"
    unfolding Let_def n split p by (simp add: s1 s2 split: sum.split)
qed

lemma reading_handlers:
  "snd (snd (handleListSchools env inst req res a db)) = db"
  "snd (snd (handleGetSchool env inst req res a db)) = db"
  "snd (snd (handleListLocations env res a db)) = db"
  "snd (snd (handleGetLocation env inst req res a db)) = db"
  "snd (snd (handleListLocationComputers env inst req res a db)) = db"
  "snd (snd (handleListClasses env inst req res a db)) = db"
  "snd (snd (handleGetClass env inst req res a db)) = db"
  "snd (snd (handleListStudents env inst param req res a db)) = db"
  "snd (snd (handleGetStudent env inst req res a db)) = db"
  "snd (snd (handleListTeachers env inst req res a db)) = db"
  "snd (snd (handleGetTeacher env inst req res a db)) = db"
  unfolding handleListSchools_def handleGetSchool_def handleListLocations_def handleGetLocation_def
    handleListLocationComputers_def handleListClasses_def handleGetClass_def handleListStudents_def
    handleGetStudent_def handleListTeachers_def handleGetTeacher_def
  by (auto intro!: guarded_same with_id_same simp: Let_def split: prod.split option.split sum.split)

lemmas org_handlers_steps =
  school_handlers_steps class_handlers_steps create_handlers_steps student_handlers_steps
  handleActivateMachine_steps teacher_handlers_steps handleRevokeLocation_steps
  handleUpdateTeacher_steps handleUpdateStudent_steps

lemma org_run_steps: "org_steps db (snd (snd (org_run ep env inst param req res a db)))"
  by (cases ep) (simp_all add: org_handlers_steps reading_handlers)

lemma handleActivateMachine_role:
  assumes "snd (snd (handleActivateMachine env inst req res a db)) \<noteq> db"
  shows "\<exists>t. shows_role [''student''] env req a t"
proof -
  obtain r a' where g: "requireRole [''student''] env inst (getLocale (he_stod env) inst req) req res a = (r, a')"
    by force
  with assms obtain t where "r = Some (Inr t)"
    by (auto simp: handleActivateMachine_def Let_def split: option.splits sum.splits)
  with g have "fst (requireRole [''student''] env inst (getLocale (he_stod env) inst req) req res a) = Some (Inr t)"
    by simp
  then show ?thesis by (auto simp: requireRole_passes)
qed

lemma org_run_role:
  assumes "snd (snd (org_run ep env inst param req res a db)) \<noteq> db"
  shows "\<exists>t. shows_role (writer_roles ep) env req a t"
  using assms
  by (cases ep)
    (simp_all add: reading_handlers handleActivateMachine_role guards
      handleCreateSchool_def handleUpdateSchool_def handleDeleteSchool_def handleCreateLocation_def
      handleUpdateLocation_def handleDeleteLocation_def handleCreateClass_def handleUpdateClass_def
      handleDeleteClass_def handleCreateStudent_def handleUpdateStudent_def handleDeleteStudent_def
      handleResetMachine_def handleCreateTeacher_def handleUpdateTeacher_def handleDeleteTeacher_def
      handleAssignLocation_def handleRevokeLocation_def guarded_db)

lemma org_run_keeps:
  "org_ok db \<longrightarrow> org_ok (snd (snd (org_run ep env inst param req res a db)))"
proof -
  have "org_ok d" if "org_ok db" "org_steps db d" for d
    using that(2,1) by (induction rule: rtranclp_induct) (auto intro: org_step_ok)
  then show ?thesis using org_run_steps by blast
qed

section \<open>Properties\<close>

text \<open>
  C27: Whoever changes anything through one of the thirty endpoints for schools, locations,
  classes, students and teachers has shown a token that authenticates and carries a role
  allowed to write there; and whatever the request and the statements' outcomes are, the tables
  go only through steps of the repositories and stay well formed.
\<close>

theorem organisation_changes_authorised:
  "(snd (snd (org_run ep env inst param req res a db)) \<noteq> db
      \<longrightarrow> (\<exists>t. shows_role (writer_roles ep) env req a t))
   \<and> org_steps db (snd (snd (org_run ep env inst param req res a db)))
   \<and> (org_ok db \<longrightarrow> org_ok (snd (snd (org_run ep env inst param req res a db))))"
proof (intro conjI)
  show "snd (snd (org_run ep env inst param req res a db)) \<noteq> db \<longrightarrow> (\<exists>t. shows_role (writer_roles ep) env req a t)"
    using org_run_role by blast
qed (rule org_run_steps, rule org_run_keeps)

definition empty_address_body :: "string \<Rightarrow> json option" where
  "empty_address_body b = Some (JObject [(''name'', JString ''S'')])"

lemma create_school_changes:
  "snd (snd (org_run CreateSchool (sample_handler_env empty_address_body) None []
      (role_request ''owner'' []) fresh_response sample_auth empty_org_db)) \<noteq> empty_org_db"
proof -
  have "shows_role [''admin'', ''superadmin'', ''owner''] (sample_handler_env empty_address_body)
      (role_request ''owner'' []) sample_auth (token_issued 7200 1000000000000 sample_jti ''ann'' ''owner'' ''t1'')"
    by (rule role_request_shows) simp
  then show ?thesis
    by (simp add: handleCreateSchool_def guards guarded_runs with_body_def sample_handler_env_def
        empty_address_body_def school_request_from_json_def json_value_string_def json_get_string_def
        create_school_def with_uuid_def generateUuid_def run_insert_def empty_org_db_def)
qed

lemma organisation_changes_authorised_witness:
  "\<exists>t. shows_role [''admin'', ''superadmin'', ''owner''] (sample_handler_env empty_address_body)
        (role_request ''owner'' []) sample_auth t"
  using organisation_changes_authorised [of CreateSchool "sample_handler_env empty_address_body" None "[]"
      "role_request ''owner'' []" fresh_response sample_auth empty_org_db] create_school_changes by simp

text \<open>
  A teacher or owner of any tenant takes over the account of a student of any other tenant:
  the update of a student looks at the role of the caller only, so after it the student logs in
  with the password the caller chose.
\<close>

theorem foreign_student_taken_over:
  assumes "shows_role [''teacher'', ''owner''] env req a t" and "tk_tenant_id t \<noteq> st_tenant_id s"
    and "org_ok db" and "s \<in> set (od_students db)"
    and "length (rq_matches req) > 1" and "rq_matches req ! 1 = st_id s"
    and "Option.bind (he_parse env (rq_body req)) student_update_from_json = Some ([], pw)" and "pw \<noteq> []"
    and "he_write2_oc env = Completes"
    and "hashPassword (he_crypto env) (he_salt env) pw = Inr h" and "verifyPassword (he_crypto env) pw h"
  shows "\<exists>rec. authenticate_student (he_crypto env) Completes (st_username s) pw (st_tenant_id s)
      (od_students (snd (snd (handleUpdateStudent env inst req res a db)))) = Inr rec \<and> sr_id rec = st_id s"
proof -
  have ok: "students_ok (od_students db)" using assms(3) by (simp add: org_ok_def org_ok_for_def)
  let ?c = "change_student_password (he_crypto env) (he_salt env) Completes (st_id s) pw (od_students db)"
  note p = change_student_password_result [OF ok assms(4,10) refl, of pw]
  then obtain ss where c: "?c = (Inr (), ss)" by (cases ?c) auto
  have "od_students (snd (snd (handleUpdateStudent env inst req res a db))) = ss"
    using assms c
    by (simp add: handleUpdateStudent_def guards guarded_runs with_id_def with_body_def ok_def)
  with p c assms(11) show ?thesis by (simp add: student_from_row_def clear_machine_def)
qed

text \<open>
  An owner makes a superadmin: the request names the role of the new teacher freely, and
  the new account logs in with that role and no tenant, which the lists of schools and teachers
  take for the right to see everything.
\<close>

theorem owner_makes_superadmin:
  assumes "shows_role [''admin'', ''superadmin'', ''owner''] env req a t" and "tk_role t = ''owner''"
    and "Option.bind (he_parse env (rq_body req)) teacher_request_from_json
         = Some \<lparr>dh_username = user, dh_password = pw, dh_fullName = name, dh_role = ''superadmin''\<rparr>"
    and "user \<noteq> []" and "pw \<noteq> []" and "user \<notin> te_username ` set (od_teachers db)"
    and "he_rnd env = Some bs" and "length bs = 16"
    and "uuid_print 0 (uuid_bytes bs) \<notin> te_id ` set (od_teachers db)"
    and "he_write_oc env = Completes"
    and "hashPassword (he_crypto env) (he_salt env) pw = Inr h" and "verifyPassword (he_crypto env) pw h"
    and "le_crypto lenv = he_crypto env" and "le_teacher_oc lenv = Completes"
    and "sv_teachers sv = od_teachers (snd (snd (handleCreateTeacher env inst req res a db)))"
    and "ar_username r = user" and "ar_password r = pw"
  shows "logon_identity lenv sv r [] = Inr (uuid_print 0 (uuid_bytes bs), ''superadmin'', [])"
proof -
  let ?id = "uuid_print 0 (uuid_bytes bs)"
  let ?row = "\<lparr>te_id = ?id, te_username = user, te_password_hash = h, te_full_name = name,
     te_role = ''superadmin'', te_created_at = he_now env, te_tenant_id = []\<rparr>"
  have nofind: "find (\<lambda>r. te_username r = user) (od_teachers db) = None"
    using assms(6) by (auto simp: find_None_iff image_iff)
  then have none: "\<not> is_ok (find_teacher_by_username oc user (od_teachers db))" for oc
    by (auto simp: find_teacher_by_username_def run_select_one_def split: sql_call.split)
  have c: "create_teacher (he_crypto env) (he_salt env) (he_rnd env) (he_now env) Completes
      (he_err env) user pw name ''superadmin'' (od_teachers db) = (Inr ?id, od_teachers db @ [?row])"
    using assms by (simp add: create_teacher_def generateUuid_def ok_def)
  have "sv_teachers sv = od_teachers db @ [?row]"
    using assms c none by (simp add: handleCreateTeacher_def guards guarded_runs with_body_def)
  then have "find (\<lambda>r. te_username r = user) (sv_teachers sv) = Some ?row"
    by (simp add: find_append nofind)
  then have au: "authenticate_teacher (le_crypto lenv) (le_teacher_oc lenv) user pw [] (sv_teachers sv)
      = Inr (teacher_from_row ?row)"
    using assms by (simp add: authenticate_teacher_def ok_def)
  have "?id \<noteq> []"
  proof -
    have "uuid_bytes bs \<noteq> []" using assms(8) by (auto simp: uuid_bytes_def Let_def)
    then show ?thesis by (cases "uuid_bytes bs") (auto simp: hex2_def)
  qed
  with au assms(16,17) show ?thesis by (simp add: logon_identity_def teacher_from_row_def)
qed

text \<open>A student of another tenant, and the requests of the two attacks.\<close>

definition other_student :: student_row where
  "other_student = sample_student\<lparr>st_tenant_id := ''t2'', st_class_id := ''c2''\<rparr>"

definition two_tenants_db :: org_db where
  "two_tenants_db = empty_org_db\<lparr>
     od_tenants := [\<lparr>tn_id = ''t2'', tn_slug = ''s'', tn_name = ''T'', tn_owner_email = ''e'',
       tn_status = ''active'', tn_plan = ''trial'', tn_created_at = 0, tn_activated_at = None\<rparr>],
     od_school := \<lparr>sd_students = [other_student], sd_teachers = [],
       sd_classes = [\<lparr>cl_row_id = ''c2'', cl_tenant_id = ''t2'', cl_school_id = None, cl_name = ''C'',
                      cl_teacher_id = None, cl_created_at = 0\<rparr>],
       sd_requests = []\<rparr>\<rparr>"

lemma two_tenants_ok: "org_ok two_tenants_db"
  by (simp add: two_tenants_db_def org_ok_def org_ok_for_def empty_org_db_def locations_ok_def
      computers_ok_def access_ok_def classes_ok_def student_refs_def tenants_ok_def teachers_ok_def
      students_ok_def other_student_def sample_student_def binding_ok_def status_ok_def)

definition attack_body :: "string \<Rightarrow> json option" where
  "attack_body b = Some (JObject [(''password'', JString ''new''), (''role'', JString ''superadmin''),
     (''username'', JString ''eve'')])"

lemma foreign_student_taken_over_witness:
  "\<exists>rec. authenticate_student sample_crypto Completes ''ann'' ''new'' ''t2''
      (od_students (snd (snd (handleUpdateStudent (sample_handler_env attack_body) None
         (role_request ''teacher'' [''/students/s1'', ''s1'']) fresh_response sample_auth two_tenants_db)))) = Inr rec
     \<and> sr_id rec = ''s1''"
proof -
  have h: "hashPassword sample_crypto (Some []) ''new'' = Inr ''$argon2id$new''"
    by (simp add: hashPassword_def sample_crypto_def ok_def c_str_def)
  have v: "verifyPassword sample_crypto ''new'' ''$argon2id$new''"
    using sample_verify [of "''new''" "''new''"] by simp
  show ?thesis
    using foreign_student_taken_over [OF role_request_shows [of "''teacher''" _ attack_body
          "[''/students/s1'', ''s1'']"] _ two_tenants_ok, of other_student "''new''" "''$argon2id$new''" None
        fresh_response] h v
    by (simp add: token_issued_def other_student_def two_tenants_db_def role_request_def sample_student_def
        sample_handler_env_def attack_body_def student_update_from_json_def json_value_string_def json_get_string_def)
qed

lemma owner_makes_superadmin_witness:
  "logon_identity sample_request_env
     (sample_services\<lparr>sv_teachers := od_teachers (snd (snd (handleCreateTeacher
        (sample_handler_env attack_body) None (role_request ''owner'' []) fresh_response sample_auth
        empty_org_db)))\<rparr>)
     \<lparr>ar_method = ''logon'', ar_username = ''eve'', ar_password = ''new'', ar_keyName = [], ar_keyData = []\<rparr> []
   = Inr (uuid_print 0 (uuid_bytes (replicate 16 9)), ''superadmin'', [])"
proof -
  have h: "hashPassword sample_crypto (Some []) ''new'' = Inr ''$argon2id$new''"
    by (simp add: hashPassword_def sample_crypto_def ok_def c_str_def)
  have v: "verifyPassword sample_crypto ''new'' ''$argon2id$new''"
    using sample_verify [of "''new''" "''new''"] by simp
  show ?thesis
    by (rule owner_makes_superadmin [where env = "sample_handler_env attack_body"
          and req = "role_request ''owner'' []" and a = sample_auth and db = empty_org_db
          and inst = None and res = fresh_response and h = "''$argon2id$new''" and name = "[]" and user = "''eve''"
          and pw = "''new''", OF role_request_shows])
      (simp_all add: token_issued_def sample_handler_env_def attack_body_def teacher_request_from_json_def
        json_value_string_def json_get_string_def empty_org_db_def h v sample_request_env_def)
qed

definition schools_unowned :: "org_db \<Rightarrow> bool" where
  "schools_unowned db \<longleftrightarrow> (\<forall>r \<in> set (od_schools db). so_tenant_id r = None)"

lemma schools_other_ops:
  "od_schools (snd (create_location rnd oc err sid name b fl cap ty db)) = od_schools db"
  "od_schools (snd (create_computer rnd oc err lid host mac db)) = od_schools db"
  "od_schools (snd (create_class rnd now oc err tenant sid name tid db)) = od_schools db"
  "od_schools (snd (insert_student cr salt rnd now oc err tenant cid name user pw db)) = od_schools db"
  by (simp_all add: create_location_def create_computer_def create_class_def insert_student_def
      with_uuid_def run_insert_def split: option.split sql_call.split sum.split prod.split)

lemma schools_unowned_step: "org_step db db' \<Longrightarrow> schools_unowned db \<Longrightarrow> schools_unowned db'"
proof (induction rule: org_step.induct)
  case (create_school db rnd now oc err name addr)
  then show ?case
    by (auto simp: schools_unowned_def Org_Tables.create_school_def with_uuid_def run_insert_def
        split: option.split sql_call.split)
next
  case (update_school db oc sid name addr)
  then show ?case
    by (auto simp: schools_unowned_def Org_Tables.update_school_def run_update_rows set_sql_update split_beta)
next
  case (remove_school db oc sid)
  then show ?case
    by (simp add: schools_unowned_def Org_Tables.remove_school_def delete_school_row_def Let_def)
qed (simp_all add: schools_unowned_def schools_other_ops Org_Tables.update_location_def
    Org_Tables.remove_location_def Org_Tables.update_computer_def update_computer_state_def
    update_computer_heartbeat_def Org_Tables.remove_computer_def Org_Tables.update_class_def
    Org_Tables.remove_class_def Org_Tables.assign_def revoke_location_def Org_Tables.delete_teacher_def
    delete_teacher_row_def delete_locations_def delete_classes_def Let_def
    split: prod.split sql_call.split)

text \<open>
  An owner never sees a school, not even one that the same owner has created: the insert leaves the
  tenant of a school empty and nothing sets it later, while the list of a caller with a
  tenant asks for the schools of that tenant.
\<close>

theorem owner_lists_no_schools:
  assumes "org_step\<^sup>*\<^sup>* empty_org_db db" and "shows_role [''admin'', ''superadmin'', ''owner''] env req a t"
    and "fst (getTenantId env req (snd (requireAdmin env inst (getLocale (he_stod env) inst req) req res a)))
         = Some tenant" and "tenant \<noteq> []" and "he_read_oc env = Completes"
  shows "fst (handleListSchools env inst req res a db)
    = Some (json_answer 200 (JObject [(''schools'', JArray [])]) res)"
proof -
  have "schools_unowned db"
    using assms(1)
  proof (induction rule: rtranclp_induct)
    case base
    show ?case by (simp add: schools_unowned_def empty_org_db_def)
  next
    case (step db db')
    then show ?case by (blast intro: schools_unowned_step)
  qed
  then have "filter (\<lambda>r. so_tenant_id r = Some tenant) (od_schools db) = []"
    by (auto simp: schools_unowned_def filter_empty_conv)
  then have "list_schools_by_tenant Completes tenant db = Inr []"
    by (simp add: list_schools_by_tenant_def run_select_all_def ok_def)
  with assms(2-5) show ?thesis
    by (auto simp: handleListSchools_def guards guarded_runs list_answer_def answered_def split: prod.split)
qed

text \<open>
  Binding a machine touches nobody else's row: the only row an activation changes is that of the
  student whose tenant and user name the token carries, and then it binds the machine of the
  request, to a student who had none.
\<close>

theorem activation_own_row:
  assumes "org_ok db" and "db' = snd (snd (handleActivateMachine env inst req res a db))" and "db' \<noteq> db"
  shows "\<exists>t s fp. shows_role [''student''] env req a t
    \<and> s \<in> set (od_students db) \<and> st_tenant_id s = tk_tenant_id t \<and> st_username s = tk_subject t
    \<and> st_is_activated s = 0 \<and> fp \<noteq> []
    \<and> Option.bind (he_parse env (rq_body req)) (\<lambda>j. json_value_string j ''machineFingerprint'' []) = Some fp
    \<and> db' = set_students (map (\<lambda>x. if x = s then bind_machine fp (he_now env) x else x) (od_students db)) db"
proof -
  obtain r a' where g: "requireRole [''student''] env inst (getLocale (he_stod env) inst req) req res a = (r, a')"
    by force
  then obtain t where r: "r = Some (Inr t)"
    and d: "db' = snd (activate_body env inst (getLocale (he_stod env) inst req) req res t db)"
    using assms(2,3) by (auto simp: handleActivateMachine_def Let_def split: option.splits sum.splits)
  have t: "shows_role [''student''] env req a t"
    using requireRole_passes [of "[''student'']" env inst "getLocale (he_stod env) inst req" req res a t] g r by simp
  from d assms(3) obtain fp rec where fp: "fp \<noteq> []"
      "Option.bind (he_parse env (rq_body req)) (\<lambda>j. json_value_string j ''machineFingerprint'' []) = Some fp"
    and f: "find_student_by_username (he_check_oc env) (tk_tenant_id t) (tk_subject t) (od_students db) = Inr rec"
    and db': "db' = set_students (snd (activate (he_read_oc env) (he_write_oc env) (he_now env) (sr_id rec) fp
        (od_students db))) db"
    by (auto simp: activate_body_def with_body_def split: if_splits option.splits sum.splits)
  from f obtain s where s: "s \<in> set (od_students db)" "st_tenant_id s = tk_tenant_id t"
      "st_username s = tk_subject t" "sr_id rec = st_id s"
    by (auto simp: find_student_by_username_def run_select_one_ok_iff student_from_row_def dest: find_SomeD)
  have ok: "students_ok (od_students db)" using assms(1) by (simp add: org_ok_def org_ok_for_def)
  have self: "find (\<lambda>x. st_id x = st_id s) (od_students db) = Some s" by (rule students_ok_find [OF ok s(1)])
  have eq: "st_id x = st_id s \<longleftrightarrow> x = s" if "x \<in> set (od_students db)" for x
    using that s(1) ok distinct_map_find_unique [of st_id "od_students db" x s] by (auto simp: students_ok_def)
  have "snd (activate (he_read_oc env) (he_write_oc env) (he_now env) (st_id s) fp (od_students db))
      \<noteq> od_students db"
    using assms(3) db' s(4) by auto
  then have "st_is_activated s = 0"
    and rows: "snd (activate (he_read_oc env) (he_write_oc env) (he_now env) (st_id s) fp (od_students db))
      = sql_update (\<lambda>x. st_id x = st_id s) (bind_machine fp (he_now env)) (od_students db)"
    by (auto simp: activate_def run_select_one_def self ok_def fail_def split: sql_call.splits if_splits)
  moreover have "sql_update (\<lambda>x. st_id x = st_id s) (bind_machine fp (he_now env)) (od_students db)
      = map (\<lambda>x. if x = s then bind_machine fp (he_now env) x else x) (od_students db)"
    unfolding sql_update_def by (rule map_cong) (auto simp: eq)
  ultimately show ?thesis using t s fp db' by (intro exI [of _ t] exI [of _ s] exI [of _ fp]) simp
qed

text \<open>A student of tenant \<open>t1\<close> at two machines.\<close>

definition own_student_db :: org_db where
  "own_student_db = two_tenants_db\<lparr>
     od_tenants := [\<lparr>tn_id = ''t1'', tn_slug = ''s'', tn_name = ''T'', tn_owner_email = ''e'',
       tn_status = ''active'', tn_plan = ''trial'', tn_created_at = 0, tn_activated_at = None\<rparr>],
     od_school := \<lparr>sd_students = [sample_student], sd_teachers = [],
       sd_classes = [\<lparr>cl_row_id = ''c1'', cl_tenant_id = ''t1'', cl_school_id = None, cl_name = ''C'',
                      cl_teacher_id = None, cl_created_at = 0\<rparr>],
       sd_requests = []\<rparr>\<rparr>"

definition machine_body :: "string \<Rightarrow> json option" where
  "machine_body b = Some (JObject [(''machineFingerprint'', JString ''pc'')])"

lemma own_student_ok: "org_ok own_student_db"
  by (simp add: own_student_db_def two_tenants_db_def org_ok_def org_ok_for_def empty_org_db_def locations_ok_def
      computers_ok_def access_ok_def classes_ok_def student_refs_def tenants_ok_def teachers_ok_def
      students_ok_def sample_student_def binding_ok_def status_ok_def)

lemma activation_changes:
  "snd (snd (handleActivateMachine (sample_handler_env machine_body) None (role_request ''student'' [])
      fresh_response sample_auth own_student_db)) \<noteq> own_student_db"
proof -
  have "shows_role [''student''] (sample_handler_env machine_body) (role_request ''student'' []) sample_auth
      (token_issued 7200 1000000000000 sample_jti ''ann'' ''student'' ''t1'')"
    by (rule role_request_shows) simp
  then have "fst (requireRole [''student''] (sample_handler_env machine_body) None lang
      (role_request ''student'' []) fresh_response sample_auth)
      = Some (Inr (token_issued 7200 1000000000000 sample_jti ''ann'' ''student'' ''t1''))" for lang
    by (simp add: requireRole_passes)
  then obtain a' where "requireRole [''student''] (sample_handler_env machine_body) None
      (getLocale (he_stod (sample_handler_env machine_body)) None (role_request ''student'' []))
      (role_request ''student'' []) fresh_response sample_auth
      = (Some (Inr (token_issued 7200 1000000000000 sample_jti ''ann'' ''student'' ''t1'')), a')"
    by (metis prod.collapse)
  then show ?thesis
    by (simp add: handleActivateMachine_def activate_body_def token_issued_def with_body_def
        sample_handler_env_def machine_body_def json_value_string_def json_get_string_def
        find_student_by_username_def run_select_one_def own_student_db_def two_tenants_db_def
        sample_student_def ok_def student_from_row_def activate_def sql_update_def bind_machine_def
        set_students_def empty_org_db_def)
qed

lemma activation_own_row_witness:
  "\<exists>s fp. s \<in> set (od_students own_student_db) \<and> st_is_activated s = 0 \<and> fp \<noteq> []
     \<and> snd (snd (handleActivateMachine (sample_handler_env machine_body) None (role_request ''student'' [])
          fresh_response sample_auth own_student_db))
       = set_students (map (\<lambda>x. if x = s then bind_machine fp 7 x else x) (od_students own_student_db)) own_student_db"
proof -
  have now: "he_now (sample_handler_env machine_body) = 7" by (simp add: sample_handler_env_def)
  from activation_own_row [OF own_student_ok refl activation_changes, unfolded now]
  show ?thesis by blast
qed

lemma owner_lists_no_schools_witness:
  "fst (handleListSchools (sample_handler_env empty_address_body) None (role_request ''owner'' [])
      fresh_response sample_auth
      (snd (create_school (Some (replicate 16 9)) 7 Completes [] ''S'' [] empty_org_db)))
   = Some (json_answer 200 (JObject [(''schools'', JArray [])]) fresh_response)"
proof (rule owner_lists_no_schools)
  show "org_step\<^sup>*\<^sup>* empty_org_db (snd (create_school (Some (replicate 16 9)) 7 Completes [] ''S'' [] empty_org_db))"
    by (rule r_into_rtranclp) (rule org_step.create_school)
  show "shows_role [''admin'', ''superadmin'', ''owner''] (sample_handler_env empty_address_body)
      (role_request ''owner'' []) sample_auth (token_issued 7200 1000000000000 sample_jti ''ann'' ''owner'' ''t1'')"
    by (rule role_request_shows) simp
  show "he_read_oc (sample_handler_env empty_address_body) = Completes" by (simp add: sample_handler_env_def)
  show "fst (getTenantId (sample_handler_env empty_address_body) (role_request ''owner'' [])
      (snd (requireAdmin (sample_handler_env empty_address_body) None
        (getLocale (he_stod (sample_handler_env empty_address_body)) None (role_request ''owner'' []))
        (role_request ''owner'' []) fresh_response sample_auth))) = Some ''t1''"
    unfolding guards by (rule role_request_tenant)
qed simp

end
