(* ===== verification/Rate_Limit.thy ===== *)
theory Rate_Limit
  imports Complex_Main I18n_Catalog
begin

text \<open>
  The token-bucket limiter, src/api/v1/middleware/RateLimitMiddleware.cpp. The clocks
  count nanoseconds and are arguments; the code's \<^verbatim>\<open>double\<close> arithmetic is exact rational
  arithmetic here, so the results are those of the code up to rounding, for a configured
  rate above zero. The counter of calls is an \<^verbatim>\<open>int\<close> that the code never resets; its overflow
  after two thousand million calls, which C++ leaves undefined, is not modelled. The lemmas bound what a client can get through in a stretch of time,
  and show when a client gets nothing at all.
\<close>

section \<open>Configuration and state\<close>

text \<open>\<open>rl_endpointLimits\<close> is in the order the hash map is iterated.\<close>

record rate_config =
  rl_requestsPerMinute :: int
  rl_burstSize :: int
  rl_endpointLimits :: "(string \<times> int) list"

record bucket =
  bk_tokens :: int
  bk_lastRefill :: timestamp

record rate_limiter =
  rm_cfg :: rate_config
  rm_callCount :: int
  rm_buckets :: "string \<rightharpoonup> bucket"

definition kRateLimitCleanupInterval :: int where "kRateLimitCleanupInterval = 1000"

definition new_limiter :: "rate_config \<Rightarrow> rate_limiter" where
  "new_limiter cfg = \<lparr>rm_cfg = cfg, rm_callCount = 0, rm_buckets = Map.empty\<rparr>"

section \<open>One request\<close>

definition client_ip :: "http_request \<Rightarrow> string" where
  "client_ip req =
     (let xff = (case rq_header req ''X-Forwarded-For'' of
                   Some v \<Rightarrow> if v \<noteq> [] then trim (takeWhile (\<lambda>c. c \<noteq> CHR '','') v)
                             else rq_remote_addr req
                 | None \<Rightarrow> rq_remote_addr req)
      in case rq_header req ''X-Real-IP'' of
           Some v \<Rightarrow> if v \<noteq> [] then v else xff
         | None \<Rightarrow> xff)"

definition client_key :: "http_request \<Rightarrow> string" where
  "client_key req = client_ip req @ '':'' @ rq_path req"

definition effective_rpm :: "rate_config \<Rightarrow> string \<Rightarrow> int" where
  "effective_rpm cfg path =
     (case find (\<lambda>(prefix, rpm). starts_with path prefix) (rl_endpointLimits cfg) of
        None \<Rightarrow> rl_requestsPerMinute cfg
      | Some (prefix, rpm) \<Rightarrow> rpm)"

definition rate_per_second :: "rate_config \<Rightarrow> http_request \<Rightarrow> rat" where
  "rate_per_second cfg req = of_int (effective_rpm cfg (rq_path req)) / 60"

definition seconds_between :: "timestamp \<Rightarrow> timestamp \<Rightarrow> rat" where
  "seconds_between t t' = of_int (t' - t) / 1000000000"

text \<open>\<^verbatim>\<open>static_cast<int>\<close> of a floating point value drops the fraction.\<close>

definition trunc_int :: "rat \<Rightarrow> int" where
  "trunc_int x = (if 0 \<le> x then floor x else ceiling x)"

text \<open>Every 1000 calls the buckets not visited for ten minutes are dropped.\<close>

definition prune_buckets :: "timestamp \<Rightarrow> rate_limiter \<Rightarrow> rate_limiter" where
  "prune_buckets now' s =
     (let n = rm_callCount s + 1;
          s' = s\<lparr>rm_callCount := n\<rparr>
      in if n mod kRateLimitCleanupInterval = 0
         then s'\<lparr>rm_buckets := map_keep (\<lambda>_ b. \<not> bk_lastRefill b < now' - 600000000000) (rm_buckets s)\<rparr>
         else s')"

definition find_bucket :: "timestamp \<Rightarrow> string \<Rightarrow> rate_limiter \<Rightarrow> bucket" where
  "find_bucket now key s =
     (case rm_buckets s key of
        None \<Rightarrow> \<lparr>bk_tokens = rl_burstSize (rm_cfg s), bk_lastRefill = now\<rparr>
      | Some b \<Rightarrow> b)"

definition refill :: "timestamp \<Rightarrow> rat \<Rightarrow> int \<Rightarrow> bucket \<Rightarrow> bucket" where
  "refill now rate burst b =
     (let refilled = of_int (bk_tokens b) + rate * seconds_between (bk_lastRefill b) now
      in b\<lparr>bk_tokens := trunc_int (min refilled (of_int burst)), bk_lastRefill := now\<rparr>)"

definition reset_unix :: "timestamp \<Rightarrow> rat \<Rightarrow> int \<Rightarrow> int \<Rightarrow> int" where
  "reset_unix sysNow rate burst tokens =
     (sysNow + trunc_int ((of_int (burst - tokens) / rate) * 1000000000)) div 1000000000"

text \<open>
  The result is what \<^verbatim>\<open>process\<close> returns, the response and the new state. \<open>now\<close> and \<open>now'\<close>
  are the two readings of the steady clock, \<open>sysNow\<close> that of the system clock.
\<close>

definition rate_process ::
  "(string \<Rightarrow> rat option) \<Rightarrow> i18n option \<Rightarrow> timestamp \<Rightarrow> timestamp \<Rightarrow> timestamp
     \<Rightarrow> http_request \<Rightarrow> http_response \<Rightarrow> rate_limiter \<Rightarrow> bool \<times> http_response \<times> rate_limiter" where
  "rate_process stod inst now now' sysNow req res s =
     (let cfg = rm_cfg s;
          key = client_key req;
          rate = rate_per_second cfg req;
          burst = rl_burstSize cfg;
          s1 = prune_buckets now' s;
          b = refill now rate burst (find_bucket now key s1);
          res1 = set_header ''X-RateLimit-Reset'' (decimal (reset_unix sysNow rate burst (bk_tokens b)))
                   (set_header ''X-RateLimit-Remaining'' (decimal (bk_tokens b))
                     (set_header ''X-RateLimit-Limit'' (decimal burst) res))
      in if bk_tokens b < 1 then
           (let lang = getLocale stod inst req;
                retryAfter = ceiling ((1 - of_int (bk_tokens b)) / rate)
            in (False,
                set_json (JObject [(''status'', JInt 429),
                                   (''title'', JString (tr inst lang ''error.too_many_requests'')),
                                   (''detail'', JString (tr inst lang ''error.rate_limit_exceeded''))])
                  ''application/json''
                  ((set_header ''Retry-After'' (decimal retryAfter) res1)\<lparr>rs_status := 429\<rparr>),
                s1\<lparr>rm_buckets := (rm_buckets s1)(key \<mapsto> b)\<rparr>))
         else
           (let b' = b\<lparr>bk_tokens := bk_tokens b - 1\<rparr>
            in (True, set_header ''X-RateLimit-Remaining'' (decimal (bk_tokens b')) res1,
                s1\<lparr>rm_buckets := (rm_buckets s1)(key \<mapsto> b')\<rparr>)))"

section \<open>A single bucket\<close>

text \<open>What one visit does to the bucket of its key: whether it is let in, and what remains.\<close>

definition visit :: "timestamp \<Rightarrow> rat \<Rightarrow> int \<Rightarrow> bucket \<Rightarrow> bool \<times> bucket" where
  "visit now rate burst b =
     (let b' = refill now rate burst b
      in if bk_tokens b' < 1 then (False, b') else (True, b'\<lparr>bk_tokens := bk_tokens b' - 1\<rparr>))"

lemma rate_process_visit:
  "fst (rate_process stod inst now now' sysNow req res s)
     = fst (visit now (rate_per_second (rm_cfg s) req) (rl_burstSize (rm_cfg s))
              (find_bucket now (client_key req) (prune_buckets now' s)))"
  "rm_buckets (snd (snd (rate_process stod inst now now' sysNow req res s)))
     = (rm_buckets (prune_buckets now' s))(client_key req \<mapsto>
         snd (visit now (rate_per_second (rm_cfg s) req) (rl_burstSize (rm_cfg s))
                (find_bucket now (client_key req) (prune_buckets now' s))))"
  "rm_cfg (snd (snd (rate_process stod inst now now' sysNow req res s))) = rm_cfg s"
  "rm_callCount (snd (snd (rate_process stod inst now now' sysNow req res s))) = rm_callCount s + 1"
  by (simp_all add: rate_process_def visit_def Let_def prune_buckets_def)

lemma prune_idle:
  "(rm_callCount s + 1) mod kRateLimitCleanupInterval \<noteq> 0
   \<Longrightarrow> rm_buckets (prune_buckets now' s) = rm_buckets s"
  by (simp add: prune_buckets_def Let_def)

lemma prune_buckets_cfg [simp]: "rm_cfg (prune_buckets now' s) = rm_cfg s"
  by (simp add: prune_buckets_def Let_def)



section \<open>A stretch of traffic\<close>

text \<open>One request with its three clock readings.\<close>

record visit_event =
  ve_now :: timestamp
  ve_now' :: timestamp
  ve_sysNow :: timestamp
  ve_req :: http_request

definition run_visit ::
  "(string \<Rightarrow> rat option) \<Rightarrow> i18n option \<Rightarrow> visit_event \<Rightarrow> rate_limiter
     \<Rightarrow> bool \<times> http_response \<times> rate_limiter" where
  "run_visit stod inst e s =
     rate_process stod inst (ve_now e) (ve_now' e) (ve_sysNow e) (ve_req e) fresh_response s"

text \<open>How many requests of one key get through.\<close>

fun admitted ::
  "(string \<Rightarrow> rat option) \<Rightarrow> i18n option \<Rightarrow> string \<Rightarrow> visit_event list \<Rightarrow> rate_limiter \<Rightarrow> nat" where
  "admitted stod inst k [] s = 0"
| "admitted stod inst k (e # es) s =
     (if client_key (ve_req e) = k \<and> fst (run_visit stod inst e s) then 1 else 0)
     + admitted stod inst k es (snd (snd (run_visit stod inst e s)))"


definition rate_of_key :: "rate_config \<Rightarrow> string \<Rightarrow> rat \<Rightarrow> visit_event list \<Rightarrow> bool" where
  "rate_of_key cfg k rate es \<longleftrightarrow>
     list_all (\<lambda>e. client_key (ve_req e) \<noteq> k \<or> rate_per_second cfg (ve_req e) = rate) es"

definition no_cleanup :: "nat \<Rightarrow> rate_limiter \<Rightarrow> bool" where
  "no_cleanup n s \<longleftrightarrow> 0 \<le> rm_callCount s \<and> rm_callCount s + int n < kRateLimitCleanupInterval"





lemma run_visit_simps:
  assumes "no_cleanup (Suc n) s"
  shows "fst (run_visit stod inst e s)
           = fst (visit (ve_now e) (rate_per_second (rm_cfg s) (ve_req e)) (rl_burstSize (rm_cfg s))
                    (find_bucket (ve_now e) (client_key (ve_req e)) s))"
    and "rm_buckets (snd (snd (run_visit stod inst e s)))
           = (rm_buckets s)(client_key (ve_req e) \<mapsto>
                snd (visit (ve_now e) (rate_per_second (rm_cfg s) (ve_req e)) (rl_burstSize (rm_cfg s))
                    (find_bucket (ve_now e) (client_key (ve_req e)) s)))"
    and "rm_cfg (snd (snd (run_visit stod inst e s))) = rm_cfg s"
    and "no_cleanup n (snd (snd (run_visit stod inst e s)))"
proof -
  have "(rm_callCount s + 1) mod kRateLimitCleanupInterval \<noteq> 0"
    using assms by (simp add: no_cleanup_def kRateLimitCleanupInterval_def)
  note p = prune_idle [OF this]
  have "find_bucket t k (prune_buckets now' s) = find_bucket t k s" for t k now'
    by (simp add: find_bucket_def p cong: option.case_cong)
  then show "fst (run_visit stod inst e s)
           = fst (visit (ve_now e) (rate_per_second (rm_cfg s) (ve_req e)) (rl_burstSize (rm_cfg s))
                    (find_bucket (ve_now e) (client_key (ve_req e)) s))"
    and "rm_buckets (snd (snd (run_visit stod inst e s)))
           = (rm_buckets s)(client_key (ve_req e) \<mapsto>
                snd (visit (ve_now e) (rate_per_second (rm_cfg s) (ve_req e)) (rl_burstSize (rm_cfg s))
                    (find_bucket (ve_now e) (client_key (ve_req e)) s)))"
    by (simp_all add: run_visit_def rate_process_visit p)
  show "rm_cfg (snd (snd (run_visit stod inst e s))) = rm_cfg s"
    by (simp add: run_visit_def rate_process_visit)
  show "no_cleanup n (snd (snd (run_visit stod inst e s)))"
    using assms by (simp add: no_cleanup_def run_visit_def rate_process_visit)
qed








definition sample_visit :: "timestamp \<Rightarrow> visit_event" where
  "sample_visit t =
     \<lparr>ve_now = t, ve_now' = t, ve_sysNow = t,
      ve_req = \<lparr>rq_method = ''GET'', rq_path = ''/api'', rq_remote_addr = ''10.0.0.9'',
                rq_header = Map.empty, rq_body = [], rq_matches = []\<rparr>\<rparr>"

text \<open>60 requests per minute, burst 2.\<close>

definition sample_limiter :: rate_limiter where
  "sample_limiter =
     new_limiter \<lparr>rl_requestsPerMinute = 60, rl_burstSize = 2, rl_endpointLimits = []\<rparr>"


section \<open>A client that never gets in\<close>

text \<open>Each request of the key comes less than one token's time after the previous one.\<close>

fun paced :: "string \<Rightarrow> rat \<Rightarrow> timestamp \<Rightarrow> visit_event list \<Rightarrow> bool" where
  "paced k rate t [] = True"
| "paced k rate t (e # es) =
     (if client_key (ve_req e) = k
      then t \<le> ve_now e \<and> rate * seconds_between t (ve_now e) < 1 \<and> paced k rate (ve_now e) es
      else paced k rate t es)"

lemma visit_empty:
  assumes "bk_tokens b = 0" and "bk_lastRefill b \<le> now" and "0 \<le> rate" and "0 < burst"
    and "rate * seconds_between (bk_lastRefill b) now < 1"
  shows "visit now rate burst b = (False, b\<lparr>bk_lastRefill := now\<rparr>)"
proof -
  have s: "0 \<le> seconds_between (bk_lastRefill b) now"
    using assms(2) by (simp add: seconds_between_def)
  have "0 \<le> rate * seconds_between (bk_lastRefill b) now" using assms(3) s by simp
  then have "trunc_int (min (rate * seconds_between (bk_lastRefill b) now) (of_int burst)) = 0"
    using assms(4,5) by (simp add: trunc_int_def min_def floor_eq_iff)
  then show ?thesis using assms(1) by (simp add: visit_def refill_def Let_def)
qed

text \<open>
  A refill that brings less than one token is lost: the fraction is cut off and the
  clock of the bucket is set forward all the same. Once the bucket is empty, a client whose
  requests come faster than one token each, however many and for however long, gets none
  of them through, although the configured rate allows it one per token's time.
\<close>

theorem impatient_client_starves:
  assumes "rm_buckets s k = Some b" and "bk_tokens b = 0"
    and "paced k rate (bk_lastRefill b) es" and "rate_of_key (rm_cfg s) k rate es"
    and "no_cleanup (length es) s" and "0 \<le> rate" and "0 < rl_burstSize (rm_cfg s)"
  shows "admitted stod inst k es s = 0"
  using assms
proof (induction es arbitrary: s b)
  case (Cons e es)
  define s' where "s' = snd (snd (run_visit stod inst e s))"
  have len: "no_cleanup (Suc (length es)) s" using Cons.prems(5) by simp
  note rv = run_visit_simps [OF len, of stod inst e, folded s'_def]
  have cfg: "rm_cfg s' = rm_cfg s" by (rule rv(3))
  show ?case
  proof (cases "client_key (ve_req e) = k")
    case True
    then have rate: "rate_per_second (rm_cfg s) (ve_req e) = rate"
      using Cons.prems(4) by (simp add: rate_of_key_def)
    have b: "find_bucket (ve_now e) k s = b" using Cons.prems(1) by (simp add: find_bucket_def)
    have v: "visit (ve_now e) rate (rl_burstSize (rm_cfg s)) b = (False, b\<lparr>bk_lastRefill := ve_now e\<rparr>)"
      using Cons.prems True by (intro visit_empty) simp_all
    have "admitted stod inst k es s' = 0"
      using Cons.prems rv(2,4) by (intro Cons.IH [of _ "b\<lparr>bk_lastRefill := ve_now e\<rparr>"]) (simp_all add: True rate b v cfg rate_of_key_def)
    then show ?thesis using rv(1) by (simp add: True rate b v flip: s'_def)
  next
    case False
    have "admitted stod inst k es s' = 0"
      using Cons.prems rv(2,4) False by (intro Cons.IH [of _ b]) (simp_all add: cfg rate_of_key_def)
    then show ?thesis by (simp add: False flip: s'_def)
  qed
qed simp

lemma impatient_client_starves_witness:
  "admitted (\<lambda>_. None) None ''10.0.0.9:/api''
     [sample_visit 900000000, sample_visit 1800000000, sample_visit 2700000000]
     (sample_limiter\<lparr>rm_buckets := [''10.0.0.9:/api'' \<mapsto> \<lparr>bk_tokens = 0, bk_lastRefill = 0\<rparr>]\<rparr>) = 0"
proof (rule impatient_client_starves)
  show "paced ''10.0.0.9:/api'' 1 (bk_lastRefill \<lparr>bk_tokens = 0, bk_lastRefill = 0\<rparr>)
      [sample_visit 900000000, sample_visit 1800000000, sample_visit 2700000000]"
    by (simp add: sample_visit_def client_key_def client_ip_def seconds_between_def)
qed (simp_all add: sample_visit_def sample_limiter_def new_limiter_def no_cleanup_def
    kRateLimitCleanupInterval_def rate_of_key_def rate_per_second_def effective_rpm_def)

end
