(* ===== verification/Request_Filters.thy ===== *)
theory Request_Filters
  imports Rate_Limit
begin

text \<open>
  The filters every request passes before its handler: InputValidationMiddleware.cpp and
  CorsMiddleware.cpp of src/api/v1/middleware. The JSON parser is an argument; it answers a
  value, a \<^verbatim>\<open>parse_error\<close>, or another exception of the library (a number out of range), which
  the filter does not catch. The lemmas show what exactly a body that passes satisfies,
  and to whom the CORS headers are granted.
\<close>

section \<open>Limits on a JSON value\<close>

record validation_config =
  vc_maxBodySize :: nat
  vc_maxFieldLength :: nat
  vc_maxArraySize :: nat
  vc_maxPathDepth :: int

definition default_validation :: validation_config where
  "default_validation =
     \<lparr>vc_maxBodySize = 1 * 1024 * 1024, vc_maxFieldLength = 1000, vc_maxArraySize = 500,
      vc_maxPathDepth = 10\<rparr>"

definition depth_violation :: "validation_config \<Rightarrow> string" where
  "depth_violation cfg = ''JSON nesting depth exceeds maximum of '' @ decimal (vc_maxPathDepth cfg)"

definition string_violation :: "validation_config \<Rightarrow> string" where
  "string_violation cfg =
     ''String value exceeds maximum length of '' @ decimal_nat (vc_maxFieldLength cfg)"

definition array_violation :: "validation_config \<Rightarrow> string" where
  "array_violation cfg = ''Array exceeds maximum size of '' @ decimal_nat (vc_maxArraySize cfg)"

definition key_violation :: "validation_config \<Rightarrow> string \<Rightarrow> string" where
  "key_violation cfg k =
     ''Object key '' @ [CHR 0x27] @ k @ [CHR 0x27] @ '' exceeds maximum length of ''
       @ decimal_nat (vc_maxFieldLength cfg)"

text \<open>\<open>None\<close> is the answer true, \<open>Some violation\<close> the answer false.\<close>

fun validateJsonValue :: "validation_config \<Rightarrow> json \<Rightarrow> int \<Rightarrow> string option"
  and validate_elems :: "validation_config \<Rightarrow> json list \<Rightarrow> int \<Rightarrow> string option"
  and validate_members :: "validation_config \<Rightarrow> (string \<times> json) list \<Rightarrow> int \<Rightarrow> string option"
where
  "validateJsonValue cfg j depth =
     (if depth \<ge> vc_maxPathDepth cfg then Some (depth_violation cfg)
      else case j of
        JString s \<Rightarrow> if length s > vc_maxFieldLength cfg then Some (string_violation cfg) else None
      | JArray js \<Rightarrow> if length js > vc_maxArraySize cfg then Some (array_violation cfg)
                      else validate_elems cfg js depth
      | JObject ms \<Rightarrow> validate_members cfg ms depth
      | _ \<Rightarrow> None)"
| "validate_elems cfg [] depth = None"
| "validate_elems cfg (j # js) depth =
     (case validateJsonValue cfg j (depth + 1) of
        Some v \<Rightarrow> Some v
      | None \<Rightarrow> validate_elems cfg js depth)"
| "validate_members cfg [] depth = None"
| "validate_members cfg ((k, j) # ms) depth =
     (if length k > vc_maxFieldLength cfg then Some (key_violation cfg k)
      else case validateJsonValue cfg j (depth + 1) of
        Some v \<Rightarrow> Some v
      | None \<Rightarrow> validate_members cfg ms depth)"

text \<open>The values inside a value, each with its depth.\<close>

fun json_nodes :: "int \<Rightarrow> json \<Rightarrow> (int \<times> json) list" where
  "json_nodes d j =
     (d, j) # (case j of
        JArray js \<Rightarrow> concat (map (json_nodes (d + 1)) js)
      | JObject ms \<Rightarrow> concat (map (\<lambda>(k, v). json_nodes (d + 1) v) ms)
      | _ \<Rightarrow> [])"

definition node_fits :: "validation_config \<Rightarrow> int \<times> json \<Rightarrow> bool" where
  "node_fits cfg n =
     (fst n < vc_maxPathDepth cfg \<and>
      (case snd n of
         JString s \<Rightarrow> length s \<le> vc_maxFieldLength cfg
       | JArray js \<Rightarrow> length js \<le> vc_maxArraySize cfg
       | JObject ms \<Rightarrow> list_all (\<lambda>(k, v). length k \<le> vc_maxFieldLength cfg) ms
       | _ \<Rightarrow> True))"

declare json_nodes.simps [simp del] validateJsonValue.simps [simp del]

lemma validate_nodes:
  "validateJsonValue cfg j depth = None \<longleftrightarrow> list_all (node_fits cfg) (json_nodes depth j)"
  "validate_elems cfg js depth = None
     \<longleftrightarrow> list_all (node_fits cfg) (concat (map (json_nodes (depth + 1)) js))"
  "validate_members cfg ms depth = None
     \<longleftrightarrow> list_all (\<lambda>(k, v). length k \<le> vc_maxFieldLength cfg) ms
         \<and> list_all (node_fits cfg) (concat (map (\<lambda>(k, v). json_nodes (depth + 1) v) ms))"
proof (induction cfg j depth and cfg js depth and cfg ms depth
    rule: validateJsonValue_validate_elems_validate_members.induct)
  case (1 cfg j depth)
  then show ?case
    by (cases j) (simp_all add: validateJsonValue.simps [of cfg _ depth] json_nodes.simps [of depth]
        node_fits_def not_le not_less)
next
  case (3 cfg j js depth)
  then show ?case by (auto split: option.split)
next
  case (5 cfg k j ms depth)
  then show ?case by (auto split: option.split)
qed simp_all

section \<open>The filter\<close>

datatype parse_result = Parsed json | Parse_error | Parse_throws

definition reject_with :: "int \<Rightarrow> string \<Rightarrow> string \<Rightarrow> http_response \<Rightarrow> bool \<times> http_response" where
  "reject_with st title detail res =
     (False, set_json (error_body st title detail) ''application/json'' (res\<lparr>rs_status := st\<rparr>))"

definition carries_body :: "http_request \<Rightarrow> bool" where
  "carries_body req \<longleftrightarrow>
     (rq_method req = ''POST'' \<or> rq_method req = ''PUT'' \<or> rq_method req = ''PATCH'') \<and> rq_body req \<noteq> []"

definition is_json_type :: "http_request \<Rightarrow> bool" where
  "is_json_type req = str_contains (get_header_value req ''Content-Type'') ''application/json''"

definition is_octet_type :: "http_request \<Rightarrow> bool" where
  "is_octet_type req = str_contains (get_header_value req ''Content-Type'') ''application/octet-stream''"

text \<open>\<open>None\<close>: an exception leaves \<^verbatim>\<open>process\<close>.\<close>

definition validation_process ::
  "(string \<Rightarrow> rat option) \<Rightarrow> i18n option \<Rightarrow> (string \<Rightarrow> parse_result) \<Rightarrow> validation_config
     \<Rightarrow> http_request \<Rightarrow> http_response \<Rightarrow> (bool \<times> http_response) option" where
  "validation_process stod inst parse cfg req res =
     (let lang = getLocale stod inst req
      in if length (rq_body req) > vc_maxBodySize cfg then
           Some (reject_with 413 (tr inst lang ''error.payload_too_large'')
                   (tr inst lang ''error.payload_too_large'') res)
         else if carries_body req then
           (if \<not> is_json_type req \<and> \<not> is_octet_type req then
              Some (reject_with 415 (tr inst lang ''error.unsupported_media_type'')
                      (tr inst lang ''error.unsupported_media_type'') res)
            else if is_json_type req then
              (case parse (rq_body req) of
                 Parse_throws \<Rightarrow> None
               | Parse_error \<Rightarrow>
                   Some (reject_with 400 (tr inst lang ''error.bad_request'')
                           (tr inst lang ''error.invalid_json'') res)
               | Parsed j \<Rightarrow>
                   (case validateJsonValue cfg j 0 of
                      Some violation \<Rightarrow>
                        Some (reject_with 422 (tr inst lang ''error.unprocessable_entity'') violation res)
                    | None \<Rightarrow> Some (True, res)))
            else Some (True, res))
         else Some (True, res))"

text \<open>
  C40: What a request that passes the filter satisfies, exactly: its body is within the
  size limit, and if it is the nonempty body of a POST, PUT or PATCH it was declared as JSON
  and parses to a value all of whose parts, at every depth, are within the limits, or it was
  declared as an octet stream and not as JSON, in which case nothing more is checked.
\<close>

theorem filter_passes_exactly:
  "validation_process stod inst parse cfg req res = Some (True, res') \<longleftrightarrow>
     res' = res \<and> length (rq_body req) \<le> vc_maxBodySize cfg \<and>
     (if carries_body req
      then if is_json_type req
           then (case parse (rq_body req) of
                   Parsed j \<Rightarrow> list_all (node_fits cfg) (json_nodes 0 j)
                 | _ \<Rightarrow> False)
           else is_octet_type req
      else True)"
  by (auto simp: validation_process_def reject_with_def Let_def validate_nodes(1) [symmetric]
      split: parse_result.split option.split)

section \<open>CORS\<close>

record cors_config =
  cc_allowedOrigins :: "string list"
  cc_allowedMethods :: "string list"
  cc_allowedHeaders :: "string list"
  cc_allowCredentials :: bool
  cc_maxAgeSec :: int

definition default_cors :: cors_config where
  "default_cors =
     \<lparr>cc_allowedOrigins = [''*''],
      cc_allowedMethods = [''GET'', ''POST'', ''PUT'', ''DELETE'', ''OPTIONS''],
      cc_allowedHeaders = [''Authorization'', ''Content-Type'', ''X-Request-ID''],
      cc_allowCredentials = False, cc_maxAgeSec = 3600\<rparr>"

fun comma_list :: "string list \<Rightarrow> string" where
  "comma_list [] = []"
| "comma_list [m] = m"
| "comma_list (m # ms) = m @ '', '' @ comma_list ms"

definition allow_origin :: "cors_config \<Rightarrow> http_request \<Rightarrow> string" where
  "allow_origin cfg req =
     (if cc_allowedOrigins cfg = [''*''] then ''*''
      else let requestOrigin = get_header_value req ''Origin''
           in case find (\<lambda>allowed. allowed = requestOrigin) (cc_allowedOrigins cfg) of
                Some _ \<Rightarrow> requestOrigin
              | None \<Rightarrow> [])"

definition cors_process :: "cors_config \<Rightarrow> http_request \<Rightarrow> http_response \<Rightarrow> bool \<times> http_response" where
  "cors_process cfg req res =
     (let ao = allow_origin cfg req;
          res1 = (if ao \<noteq> []
                  then let r = set_header ''Access-Control-Allow-Origin'' ao res
                       in if ao \<noteq> ''*'' then set_header ''Vary'' ''Origin'' r else r
                  else res);
          res2 = (if cc_allowCredentials cfg
                  then set_header ''Access-Control-Allow-Credentials'' ''true'' res1 else res1)
      in if rq_method req = ''OPTIONS'' then
           (False, (set_header ''Access-Control-Max-Age'' (decimal (cc_maxAgeSec cfg))
              (set_header ''Access-Control-Allow-Headers'' (comma_list (cc_allowedHeaders cfg))
                (set_header ''Access-Control-Allow-Methods'' (comma_list (cc_allowedMethods cfg)) res2)))
              \<lparr>rs_status := 204\<rparr>)
         else (True, res2))"

lemma allow_origin_iff:
  "allow_origin cfg req = v \<and> v \<noteq> [] \<longleftrightarrow>
     v \<noteq> [] \<and> (if cc_allowedOrigins cfg = [''*''] then v = ''*''
               else v \<in> set (cc_allowedOrigins cfg) \<and> v = get_header_value req ''Origin'')"
proof -
  have "find (\<lambda>allowed. allowed = r) os = (if r \<in> set os then Some r else None)"
    for r :: string and os
    by (induction os) auto
  then show ?thesis by (auto simp: allow_origin_def Let_def)
qed

text \<open>
  The origin header of a response, if there is one, is the wildcard exactly when the
  policy is the wildcard alone, and otherwise an origin of the allow list that the request
  itself named; an origin that is not listed is never echoed.
\<close>

theorem cors_grants:
  "(''Access-Control-Allow-Origin'', v) \<in> set (rs_headers (snd (cors_process cfg req fresh_response)))
   \<longleftrightarrow> v \<noteq> [] \<and> (if cc_allowedOrigins cfg = [''*''] then v = ''*''
                 else v \<in> set (cc_allowedOrigins cfg) \<and> v = get_header_value req ''Origin'')"
proof -
  have "(''Access-Control-Allow-Origin'', v) \<in> set (rs_headers (snd (cors_process cfg req fresh_response)))
      \<longleftrightarrow> allow_origin cfg req = v \<and> v \<noteq> []"
    by (auto simp: cors_process_def Let_def fresh_response_def)
  then show ?thesis by (simp only: allow_origin_iff)
qed

text \<open>A preflight request ends here with status 204, any other goes on.\<close>

lemma cors_preflight:
  "fst (cors_process cfg req res) \<longleftrightarrow> rq_method req \<noteq> ''OPTIONS''"
  "rs_status (snd (cors_process cfg req res)) = (if rq_method req = ''OPTIONS'' then 204 else rs_status res)"
  by (simp_all add: cors_process_def Let_def)

end
