(* ===== verification/Route_Table.thy ===== *)
theory Route_Table
  imports Route_Patterns People_Controllers Request_Filters
begin

text \<open>
  The table of routes of src/src/server/Router.cpp: which method and path lead to which
  endpoint, through which filters, and which repositories a group of routes needs. The lemmas
  show that no route hides another, in whatever order they are registered.
\<close>

section \<open>The route table\<close>

datatype verb = GET | POST | PUT | DELETE | OPTIONS

datatype filter = Cors | Validation | Rate_limit | Authentication

datatype endpoint =
    Auth_methods | Login | Auth_me | Logout | Preflight
  | Computer_list | Computer_info | Session_info | Session_user | Session_screens | Framebuffer
  | Feature_one | Feature_put | Feature_list | Computer_one
  | Agent_register | Agent_list | Agent_unregister | Agent_status | Agent_push | Agent_poll
  | Agent_report | Agent_heartbeat
  | Organisation org_endpoint
  | Ticket_submit | Ticket_inbox | Ticket_outbox | Ticket_accept | Ticket_reject
  | Transport_create | Transport_connect | Transport_close | Stream_produce | Stream_consume
  | Ice_servers | Stream_capabilities
  | Register_page | Captcha_issue | Register_tenant | Verify_tenant
  | Location_list_v2 | Location_one_v2 | Batch_feature | Host_state
  | Health | Metrics | Openapi | Events | Screen_stream | Debug_info

record route =
  rt_verb :: verb
  rt_pattern :: string
  rt_filters :: "filter list"
  rt_cors :: cors_config
  rt_endpoint :: endpoint

text \<open>Which repositories and backends the server was given; \<open>rp_debug\<close> is \<^verbatim>\<open>HUB32API_DEBUG\<close>.\<close>

record repositories =
  rp_school :: bool
  rp_location :: bool
  rp_computer :: bool
  rp_teacher :: bool
  rp_teacherLocation :: bool
  rp_student :: bool
  rp_class :: bool
  rp_room :: bool
  rp_sfu :: bool
  rp_tenant :: bool
  rp_db :: bool
  rp_request :: bool
  rp_debug :: bool

definition cors_of :: "string list \<Rightarrow> string list \<Rightarrow> cors_config" where
  "cors_of methods headers =
     \<lparr>cc_allowedOrigins = [''*''], cc_allowedMethods = methods, cc_allowedHeaders = headers,
      cc_allowCredentials = False, cc_maxAgeSec = 3600\<rparr>"

definition api_headers :: "string list" where
  "api_headers = [''Authorization'', ''Content-Type'', ''X-Request-ID'', ''Accept'']"

definition all_methods :: "string list" where
  "all_methods = [''GET'', ''POST'', ''PUT'', ''DELETE'', ''OPTIONS'']"

text \<open>The route builders know some methods and ignore the others.\<close>

definition built_route ::
  "verb list \<Rightarrow> filter list \<Rightarrow> cors_config \<Rightarrow> verb \<Rightarrow> string \<Rightarrow> endpoint \<Rightarrow> route list" where
  "built_route known fs cors method path ep =
     (if method \<in> set known
      then [\<lparr>rt_verb = method, rt_pattern = path, rt_filters = fs, rt_cors = cors, rt_endpoint = ep\<rparr>]
      else [])"

definition public_filters :: "filter list" where
  "public_filters = [Cors, Validation, Rate_limit]"

definition protected_filters :: "filter list" where
  "protected_filters = [Cors, Validation, Rate_limit, Authentication]"

definition registerV1 :: "repositories \<Rightarrow> route list" where
  "registerV1 rp =
     (let cors = cors_of all_methods [''Authorization'', ''Content-Type'', ''X-Request-ID'', ''Accept'', ''X-Tenant-ID''];
          public = built_route [GET, POST, DELETE, OPTIONS] public_filters cors;
          protect = built_route [GET, POST, PUT, DELETE] protected_filters cors;
          bare = (\<lambda>fs m. built_route [m] fs cors m)
      in if \<not> rp_teacher rp \<or> \<not> rp_student rp then []
         else if \<not> rp_computer rp then []
         else
           public GET ''/api/v1/auth/methods'' Auth_methods @
           public POST ''/api/v1/auth'' Login @
           protect GET ''/api/v1/auth/me'' Auth_me @
           protect DELETE ''/api/v1/auth'' Logout @
           bare [Cors] OPTIONS ''/api/v1/auth'' Preflight @
           bare [Cors] OPTIONS ''/api/v1/.*'' Preflight @
           protect GET ''/api/v1/computers'' Computer_list @
           protect GET ''/api/v1/computers/([^/]+)/info'' Computer_info @
           protect GET ''/api/v1/computers/([^/]+)/session'' Session_info @
           protect GET ''/api/v1/computers/([^/]+)/user'' Session_user @
           protect GET ''/api/v1/computers/([^/]+)/screens'' Session_screens @
           protect GET ''/api/v1/computers/([^/]+)/framebuffer'' Framebuffer @
           protect GET ''/api/v1/computers/([^/]+)/features/([^/]+)'' Feature_one @
           bare protected_filters PUT ''/api/v1/computers/([^/]+)/features/([^/]+)'' Feature_put @
           protect GET ''/api/v1/computers/([^/]+)/features'' Feature_list @
           protect GET ''/api/v1/computers/([^/]+)'' Computer_one)"

definition registerAgentRoutes :: "route list" where
  "registerAgentRoutes =
     (let cors = cors_of all_methods api_headers;
          public = built_route [GET, POST, DELETE] public_filters cors;
          protect = built_route [GET, POST, PUT, DELETE] protected_filters cors
      in public POST ''/api/v1/agents/register'' Agent_register @
         protect GET ''/api/v1/agents'' Agent_list @
         protect DELETE ''/api/v1/agents/([^/]+)'' Agent_unregister @
         protect GET ''/api/v1/agents/([^/]+)/status'' Agent_status @
         protect POST ''/api/v1/agents/([^/]+)/commands'' Agent_push @
         protect GET ''/api/v1/agents/([^/]+)/commands'' Agent_poll @
         protect PUT ''/api/v1/agents/([^/]+)/commands/([^/]+)'' Agent_report @
         protect POST ''/api/v1/agents/([^/]+)/heartbeat'' Agent_heartbeat)"

definition registerSchoolRoutes :: "repositories \<Rightarrow> route list" where
  "registerSchoolRoutes rp =
     (let protect = built_route [GET, POST, PUT, DELETE] protected_filters (cors_of all_methods api_headers)
      in if \<not> rp_school rp \<or> \<not> rp_location rp \<or> \<not> rp_computer rp then []
         else
           protect POST ''/api/v1/schools'' (Organisation CreateSchool) @
           protect GET ''/api/v1/schools'' (Organisation ListSchools) @
           protect GET ''/api/v1/schools/([^/]+)'' (Organisation GetSchool) @
           protect PUT ''/api/v1/schools/([^/]+)'' (Organisation UpdateSchool) @
           protect DELETE ''/api/v1/schools/([^/]+)'' (Organisation DeleteSchool) @
           protect POST ''/api/v1/locations'' (Organisation CreateLocation) @
           protect GET ''/api/v1/locations'' (Organisation ListLocations) @
           protect GET ''/api/v1/locations/([^/]+)/computers'' (Organisation ListLocationComputers) @
           protect GET ''/api/v1/locations/([^/]+)'' (Organisation GetLocation) @
           protect PUT ''/api/v1/locations/([^/]+)'' (Organisation UpdateLocation) @
           protect DELETE ''/api/v1/locations/([^/]+)'' (Organisation DeleteLocation))"

definition registerTeacherRoutes :: "repositories \<Rightarrow> route list" where
  "registerTeacherRoutes rp =
     (let protect = built_route [GET, POST, PUT, DELETE] protected_filters (cors_of all_methods api_headers)
      in if \<not> rp_teacher rp \<or> \<not> rp_teacherLocation rp \<or> \<not> rp_location rp then []
         else
           protect POST ''/api/v1/teachers'' (Organisation CreateTeacher) @
           protect GET ''/api/v1/teachers'' (Organisation ListTeachers) @
           protect POST ''/api/v1/teachers/([^/]+)/locations'' (Organisation AssignLocation) @
           protect DELETE ''/api/v1/teachers/([^/]+)/locations/([^/]+)'' (Organisation RevokeLocation) @
           protect GET ''/api/v1/teachers/([^/]+)'' (Organisation GetTeacher) @
           protect PUT ''/api/v1/teachers/([^/]+)'' (Organisation UpdateTeacher) @
           protect DELETE ''/api/v1/teachers/([^/]+)'' (Organisation DeleteTeacher))"

definition registerStudentRoutes :: "repositories \<Rightarrow> route list" where
  "registerStudentRoutes rp =
     (let cors = cors_of all_methods api_headers;
          protect = built_route [GET, POST, PUT, DELETE] protected_filters cors;
          semi = built_route [POST] public_filters cors
      in if \<not> rp_student rp then []
         else
           semi POST ''/api/v1/students/activate'' (Organisation ActivateMachine) @
           protect POST ''/api/v1/students'' (Organisation CreateStudent) @
           protect GET ''/api/v1/students'' (Organisation ListStudents) @
           protect POST ''/api/v1/students/([^/]+)/reset-machine'' (Organisation ResetStudentMachine) @
           protect GET ''/api/v1/students/([^/]+)'' (Organisation GetStudent) @
           protect PUT ''/api/v1/students/([^/]+)'' (Organisation UpdateStudent) @
           protect DELETE ''/api/v1/students/([^/]+)'' (Organisation DeleteStudent))"

definition registerClassRoutes :: "repositories \<Rightarrow> route list" where
  "registerClassRoutes rp =
     (let protect = built_route [GET, POST, PUT, DELETE] protected_filters (cors_of all_methods api_headers)
      in if \<not> rp_class rp \<or> \<not> rp_teacher rp then []
         else
           protect POST ''/api/v1/classes'' (Organisation CreateClass) @
           protect GET ''/api/v1/classes'' (Organisation ListClasses) @
           protect GET ''/api/v1/classes/([^/]+)'' (Organisation GetClass) @
           protect PUT ''/api/v1/classes/([^/]+)'' (Organisation UpdateClass) @
           protect DELETE ''/api/v1/classes/([^/]+)'' (Organisation DeleteClass))"

definition registerRequestRoutes :: "repositories \<Rightarrow> route list" where
  "registerRequestRoutes rp =
     (let protect = built_route [GET, POST] protected_filters
                      (cors_of [''GET'', ''POST'', ''OPTIONS''] api_headers)
      in if \<not> rp_request rp \<or> \<not> rp_class rp \<or> \<not> rp_student rp \<or> \<not> rp_teacher rp then []
         else
           protect POST ''/api/v1/requests/change-password'' Ticket_submit @
           protect GET ''/api/v1/requests/inbox'' Ticket_inbox @
           protect GET ''/api/v1/requests/outbox'' Ticket_outbox @
           protect POST ''/api/v1/requests/([^/]+)/accept'' Ticket_accept @
           protect POST ''/api/v1/requests/([^/]+)/reject'' Ticket_reject)"

definition registerStreamRoutes :: "repositories \<Rightarrow> route list" where
  "registerStreamRoutes rp =
     (let protect = built_route [GET, POST, DELETE] protected_filters
                      (cors_of [''GET'', ''POST'', ''DELETE'', ''OPTIONS''] api_headers)
      in if \<not> rp_room rp \<or> \<not> rp_sfu rp then []
         else
           protect POST ''/api/v1/stream/transport'' Transport_create @
           protect POST ''/api/v1/stream/transport/([^/]+)/connect'' Transport_connect @
           protect DELETE ''/api/v1/stream/transport/([^/]+)'' Transport_close @
           protect POST ''/api/v1/stream/produce'' Stream_produce @
           protect POST ''/api/v1/stream/consume'' Stream_consume @
           protect GET ''/api/v1/stream/ice-servers'' Ice_servers @
           protect GET ''/api/v1/stream/capabilities/([^/]+)'' Stream_capabilities)"

definition registerRegisterRoutes :: "repositories \<Rightarrow> route list" where
  "registerRegisterRoutes rp =
     (let cors = cors_of [''GET'', ''POST'', ''OPTIONS''] [''Content-Type'', ''X-Request-ID'', ''Accept''];
          public = built_route [POST, GET] [Cors, Rate_limit] cors
      in if \<not> rp_tenant rp \<or> \<not> rp_teacher rp \<or> \<not> rp_db rp then []
         else
           built_route [GET] [] cors GET ''/register'' Register_page @
           public GET ''/api/v1/captcha'' Captcha_issue @
           public POST ''/api/v1/register'' Register_tenant @
           public GET ''/api/v1/verify'' Verify_tenant)"

definition registerV2 :: "repositories \<Rightarrow> route list" where
  "registerV2 rp =
     (let protect = built_route [GET, POST] protected_filters default_cors
      in if \<not> rp_location rp \<or> \<not> rp_computer rp then []
         else
           protect GET ''/api/v2/locations'' Location_list_v2 @
           protect GET ''/api/v2/locations/([^/]+)'' Location_one_v2 @
           protect POST ''/api/v2/batch/features'' Batch_feature @
           protect GET ''/api/v2/computers/([^/]+)/state'' Host_state)"

text \<open>A handler that is registered as it is; \<open>default_cors\<close> stands for none.\<close>

definition plain_route :: "string \<Rightarrow> endpoint \<Rightarrow> route list" where
  "plain_route path ep = built_route [GET] [] default_cors GET path ep"

definition registerHealthAndMetrics :: "route list" where
  "registerHealthAndMetrics =
     plain_route ''/api/v2/health'' Health @ plain_route ''/health'' Health @
     plain_route ''/api/v2/metrics'' Metrics"

definition registerOpenApi :: "route list" where
  "registerOpenApi = plain_route ''/openapi.json'' Openapi"

definition registerSse :: "route list" where
  "registerSse =
     plain_route ''/api/v1/events'' Events @
     plain_route ''/api/v1/computers/([^/]+)/screen/stream'' Screen_stream"

definition registerDebug :: "repositories \<Rightarrow> route list" where
  "registerDebug rp = (if rp_debug rp then plain_route ''/api/v1/debug/info'' Debug_info else [])"

definition registerAll :: "repositories \<Rightarrow> route list" where
  "registerAll rp =
     registerV1 rp @ registerAgentRoutes @ registerSchoolRoutes rp @ registerTeacherRoutes rp
     @ registerStudentRoutes rp @ registerClassRoutes rp @ registerRequestRoutes rp
     @ registerStreamRoutes rp @ registerRegisterRoutes rp @ registerV2 rp
     @ registerHealthAndMetrics @ registerOpenApi @ registerSse @ registerDebug rp"

section \<open>Selecting a route\<close>

definition route_match :: "verb \<Rightarrow> string \<Rightarrow> route \<Rightarrow> (route \<times> string list) option" where
  "route_match v path r =
     (if rt_verb r = v
      then map_option (\<lambda>cs. (r, cs)) (pattern_match (compile_pattern (rt_pattern r)) path)
      else None)"

definition first_route :: "route list \<Rightarrow> verb \<Rightarrow> string \<Rightarrow> (route \<times> string list) option" where
  "first_route rs v path = first_some (route_match v path) rs"

section \<open>No route hides another\<close>

definition all_repositories :: repositories where
  "all_repositories =
     \<lparr>rp_school = True, rp_location = True, rp_computer = True, rp_teacher = True,
      rp_teacherLocation = True, rp_student = True, rp_class = True, rp_room = True,
      rp_sfu = True, rp_tenant = True, rp_db = True, rp_request = True, rp_debug = True\<rparr>"

lemmas register_defs =
  registerV1_def registerAgentRoutes_def registerSchoolRoutes_def registerTeacherRoutes_def
  registerStudentRoutes_def registerClassRoutes_def registerRequestRoutes_def
  registerStreamRoutes_def registerRegisterRoutes_def registerV2_def registerHealthAndMetrics_def
  registerOpenApi_def registerSse_def registerDebug_def

lemma register_all_or_none:
  "registerV1 rp = [] \<or> registerV1 rp = registerV1 all_repositories"
  "registerSchoolRoutes rp = [] \<or> registerSchoolRoutes rp = registerSchoolRoutes all_repositories"
  "registerTeacherRoutes rp = [] \<or> registerTeacherRoutes rp = registerTeacherRoutes all_repositories"
  "registerStudentRoutes rp = [] \<or> registerStudentRoutes rp = registerStudentRoutes all_repositories"
  "registerClassRoutes rp = [] \<or> registerClassRoutes rp = registerClassRoutes all_repositories"
  "registerRequestRoutes rp = [] \<or> registerRequestRoutes rp = registerRequestRoutes all_repositories"
  "registerStreamRoutes rp = [] \<or> registerStreamRoutes rp = registerStreamRoutes all_repositories"
  "registerRegisterRoutes rp = [] \<or> registerRegisterRoutes rp = registerRegisterRoutes all_repositories"
  "registerV2 rp = [] \<or> registerV2 rp = registerV2 all_repositories"
  "registerDebug rp = [] \<or> registerDebug rp = registerDebug all_repositories"
  by (simp_all add: register_defs all_repositories_def Let_def)

lemma routes_of_all: "set (registerAll rp) \<subseteq> set (registerAll all_repositories)"
proof -
  have part: "xs = [] \<or> xs = ys \<Longrightarrow> set xs \<subseteq> set ys" for xs ys :: "route list" by auto
  show ?thesis
    unfolding registerAll_def set_append
    by (intro Un_mono order_refl part register_all_or_none)
qed

fun unambiguous :: "(verb \<times> token list) list \<Rightarrow> bool" where
  "unambiguous [] = True"
| "unambiguous ((v, ts) # rs) =
     (list_all (\<lambda>(w, us). if v = w \<and> v \<noteq> OPTIONS then exclusive ts us else True) rs \<and> unambiguous rs)"

definition route_key :: "route \<Rightarrow> verb \<times> token list" where
  "route_key r = (rt_verb r, compile_pattern (rt_pattern r))"

lemma routes_unambiguous: "unambiguous (map route_key (registerAll all_repositories))"
  by (simp add: registerAll_def register_defs all_repositories_def Let_def plain_route_def
      built_route_def route_key_def exclusive_def after_segment_def)

lemma unambiguous_unique:
  assumes "unambiguous (map route_key rs)" and "r \<in> set rs" and "r' \<in> set rs"
    and "rt_verb r = rt_verb r'" and "rt_verb r \<noteq> OPTIONS"
    and "pattern_match (compile_pattern (rt_pattern r)) path = Some cs"
    and "pattern_match (compile_pattern (rt_pattern r')) path = Some ds"
  shows "r = r'"
  using assms
proof (induction rs)
  case (Cons x rs)
  have "exclusive (compile_pattern (rt_pattern x)) (compile_pattern (rt_pattern y))"
    if "y \<in> set rs" "rt_verb x = rt_verb y" "rt_verb y \<noteq> OPTIONS" for y
    using Cons.prems(1) that by (auto simp: route_key_def list_all_iff split: if_splits)
  then have new: "pattern_match (compile_pattern (rt_pattern y)) path = None"
    if "y \<in> set rs" "rt_verb x = rt_verb y" "rt_verb y \<noteq> OPTIONS"
      "pattern_match (compile_pattern (rt_pattern x)) path = Some es" for y es
    using that exclusive_patterns by blast
  have "unambiguous (map route_key rs)" using Cons.prems(1) by (cases "route_key x") simp
  with Cons.IH Cons.prems(2-) new [of r'] new [of r] show ?case by auto
qed simp

lemma first_some_unique:
  assumes "x \<in> set xs" and "f x = Some y" and "\<And>x'. x' \<in> set xs \<Longrightarrow> f x' \<noteq> None \<Longrightarrow> x' = x"
  shows "first_some f xs = Some y"
  using assms(1,3)
proof (induction xs)
  case (Cons z zs)
  show ?case
  proof (cases "f z")
    case None
    with Cons.prems(1) assms(2) have "x \<in> set zs" by auto
    then have "first_some f zs = Some y" by (rule Cons.IH) (rule Cons.prems(2), simp_all)
    with None show ?thesis by simp
  next
    case (Some w)
    with Cons.prems(2) [of z] have "z = x" by simp
    with assms(2) show ?thesis by simp
  qed
qed simp

lemma matching_route_selected:
  assumes "r \<in> set (registerAll rp)" and "rt_verb r \<noteq> OPTIONS"
    and "pattern_match (compile_pattern (rt_pattern r)) path = Some cs"
  shows "first_route (registerAll rp) (rt_verb r) path = Some (r, cs)"
  unfolding first_route_def
proof (rule first_some_unique)
  show "r \<in> set (registerAll rp)" by fact
  show "route_match (rt_verb r) path r = Some (r, cs)" using assms by (simp add: route_match_def)
  show "r' = r" if "r' \<in> set (registerAll rp)" "route_match (rt_verb r) path r' \<noteq> None" for r'
    using unambiguous_unique [OF routes_unambiguous, of r r' path cs] assms that routes_of_all [of rp]
    by (auto simp: route_match_def split: if_splits)
qed

text \<open>
  Whatever repositories the server was started with, a path that fits the expression of a
  registered route other than the preflight ones is answered by that very route, with the
  captures in order: no route hides another, so the order of registration, which the comments
  call critical, plays no role.
\<close>

theorem no_route_hidden:
  assumes "r \<in> set (registerAll rp)" and "rt_verb r \<noteq> OPTIONS"
    and "pattern_match (compile_pattern (rt_pattern r)) path = Some cs"
  shows "first_route (registerAll rp) (rt_verb r) path = Some (r, cs)"
  using assms by (rule matching_route_selected)

definition reset_route :: route where
  "reset_route = \<lparr>rt_verb = POST, rt_pattern = ''/api/v1/students/([^/]+)/reset-machine'',
     rt_filters = protected_filters, rt_cors = cors_of all_methods api_headers,
     rt_endpoint = Organisation ResetStudentMachine\<rparr>"

theorem no_route_hidden_witness:
  "first_route (registerAll all_repositories) POST ''/api/v1/students/activate/reset-machine''
     = Some (reset_route, [''activate''])"
proof -
  have r: "reset_route \<in> set (registerAll all_repositories)"
    by (simp add: registerAll_def registerStudentRoutes_def all_repositories_def Let_def
        built_route_def reset_route_def)
  have m: "pattern_match (compile_pattern (rt_pattern reset_route)) ''/api/v1/students/activate/reset-machine''
      = Some [''activate'']"
    by (simp add: reset_route_def tries_def upt_rec numeral_eq_Suc)
  have v: "rt_verb reset_route = POST" by (simp add: reset_route_def)
  show ?thesis using no_route_hidden [OF r _ m] unfolding v by simp
qed

end
