(* ===== verification/Sse_Manager.thy ===== *)
theory Sse_Manager
  imports User_Roles
begin

text \<open>
  Server-sent events, src/server/SseManager.cpp. A sink is a number; whether a write to it
  succeeds is the argument \<open>alive\<close>. A broadcast is two critical sections with the writes
  between them; \<open>between\<close> is what other threads do to the manager meanwhile. The lemmas show
  that the frame on the wire carries the event and its data, who receives a broadcast and
  who is dropped after it.
\<close>

section \<open>Channels\<close>

record sse_client =
  cl_id :: string
  cl_sink :: nat

type_synonym sse_manager = "string \<rightharpoonup> sse_client list"

definition subscribe :: "string \<Rightarrow> string \<Rightarrow> nat \<Rightarrow> sse_manager \<Rightarrow> sse_manager" where
  "subscribe channel clientId sink m =
     m(channel \<mapsto> (case m channel of None \<Rightarrow> [] | Some cs \<Rightarrow> cs) @ [\<lparr>cl_id = clientId, cl_sink = sink\<rparr>])"

text \<open>Removing clients drops the channel with its last client.\<close>

definition erase_clients :: "(sse_client \<Rightarrow> bool) \<Rightarrow> string \<Rightarrow> sse_manager \<Rightarrow> sse_manager" where
  "erase_clients gone channel m =
     (case m channel of
        None \<Rightarrow> m
      | Some cs \<Rightarrow>
          let cs' = filter (\<lambda>c. \<not> gone c) cs
          in if cs' = [] then m(channel := None) else m(channel \<mapsto> cs'))"

definition unsubscribe :: "string \<Rightarrow> string \<Rightarrow> sse_manager \<Rightarrow> sse_manager" where
  "unsubscribe channel clientId = erase_clients (\<lambda>c. cl_id c = clientId) channel"

definition subscriberCount :: "string \<Rightarrow> sse_manager \<Rightarrow> int" where
  "subscriberCount channel m = (case m channel of None \<Rightarrow> 0 | Some cs \<Rightarrow> int (length cs))"

section \<open>Frames\<close>

definition newline :: char where "newline = CHR 0x0A"

definition sse_frame :: "string \<Rightarrow> string \<Rightarrow> string" where
  "sse_frame event dat =
     ''event: '' @ event @ [newline]
     @ concat (map (\<lambda>line. ''data: '' @ line @ [newline]) (getline_loop newline [] dat))
     @ (if dat = [] then ''data: '' @ [newline] else [])
     @ [newline]"

section \<open>Broadcasting\<close>

definition broadcast ::
  "(nat \<Rightarrow> string \<Rightarrow> bool) \<Rightarrow> (sse_manager \<Rightarrow> sse_manager) \<Rightarrow> string \<Rightarrow> string \<Rightarrow> string
     \<Rightarrow> sse_manager \<Rightarrow> int \<times> (nat \<times> string) list \<times> sse_manager" where
  "broadcast alive between channel event dat m =
     (let msg = sse_frame event dat
      in case m channel of
           None \<Rightarrow> (0, [], m)
         | Some snapshot \<Rightarrow>
             let sent = length (filter (\<lambda>c. alive (cl_sink c) msg) snapshot);
                 failedIds = map cl_id (filter (\<lambda>c. \<not> alive (cl_sink c) msg) snapshot);
                 m' = between m
             in (int sent, map (\<lambda>c. (cl_sink c, msg)) snapshot,
                 if failedIds = [] then m'
                 else erase_clients (\<lambda>c. cl_id c \<in> set failedIds) channel m'))"

definition subscribers :: "string \<Rightarrow> sse_manager \<Rightarrow> sse_client list" where
  "subscribers channel m = (case m channel of None \<Rightarrow> [] | Some cs \<Rightarrow> cs)"

lemma subscribers_simps [simp]:
  "subscribers ch (subscribe channel i k m)
     = subscribers ch m @ (if ch = channel then [\<lparr>cl_id = i, cl_sink = k\<rparr>] else [])"
  "subscribers ch (erase_clients gone channel m)
     = (if ch = channel then filter (\<lambda>c. \<not> gone c) (subscribers ch m) else subscribers ch m)"
  by (auto simp: subscribers_def subscribe_def erase_clients_def Let_def split: option.splits)

text \<open>
  A broadcast writes the frame once to every client that is subscribed when it starts,
  in the order of subscription, and to nobody else; it answers how many of these writes
  succeeded; and when the writes are done it drops from its channel every client, also one
  that came meanwhile, that goes by the identifier of a client whose write failed, and
  nobody else anywhere.
\<close>

theorem broadcast_outcome:
  fixes alive between channel event dat m
  defines "msg \<equiv> sse_frame event dat"
  defines "failed \<equiv> {cl_id c | c. c \<in> set (subscribers channel m) \<and> \<not> alive (cl_sink c) msg}"
  shows "fst (snd (broadcast alive between channel event dat m))
           = map (\<lambda>c. (cl_sink c, msg)) (subscribers channel m)
     \<and> fst (broadcast alive between channel event dat m)
           = int (length (filter (\<lambda>c. alive (cl_sink c) msg) (subscribers channel m)))
     \<and> subscribers ch (snd (snd (broadcast alive between channel event dat m)))
           = (if channel \<notin> dom m then subscribers ch m
              else if ch = channel then filter (\<lambda>c. cl_id c \<notin> failed) (subscribers ch (between m))
              else subscribers ch (between m))"
proof (cases "m channel")
  case None
  then show ?thesis by (simp add: broadcast_def subscribers_def domIff)
next
  case (Some cs)
  have "failed = cl_id ` set (filter (\<lambda>c. \<not> alive (cl_sink c) msg) cs)"
    using Some by (auto simp: failed_def subscribers_def)
  then show ?thesis using Some
    by (auto simp: broadcast_def Let_def domIff msg_def filter_empty_conv subscribers_def [of channel m]
        intro!: filter_cong [symmetric] filter_True [symmetric])
qed

text \<open>
  Dropping goes by identifier, so a client whose connection broke and that subscribes
  again under its name while the broadcast is still writing loses the new subscription too,
  although no write to it has failed.
\<close>

theorem reconnected_client_dropped:
  assumes "c \<in> set (subscribers channel m)" and "\<not> alive (cl_sink c) (sse_frame event dat)"
  shows "\<lparr>cl_id = cl_id c, cl_sink = k\<rparr> \<notin> set (subscribers channel
           (snd (snd (broadcast alive (subscribe channel (cl_id c) k) channel event dat m))))"
  using assms by (auto simp: broadcast_def Let_def subscribers_def [of channel m] filter_empty_conv
      split: option.splits)

lemma reconnected_client_dropped_witness:
  "\<lparr>cl_id = ''tv'', cl_sink = 1\<rparr> \<notin> set (subscribers ''events''
     (snd (snd (broadcast (\<lambda>k _. k \<noteq> 0) (subscribe ''events'' ''tv'' 1) ''events'' ''x'' ''{}''
        (subscribe ''events'' ''tv'' 0 Map.empty)))))"
  using reconnected_client_dropped
    [of "\<lparr>cl_id = ''tv'', cl_sink = 0\<rparr>" "''events''" "subscribe ''events'' ''tv'' 0 Map.empty"
      "\<lambda>k _. k \<noteq> 0" "''x''" "''{}''" 1]
  by simp

section \<open>The frame on the wire\<close>

text \<open>
  A reader of the event stream format: lines end with a newline, the data lines of a frame
  are joined by newlines.
\<close>

definition sse_parse_line :: "string \<Rightarrow> string \<times> string list \<Rightarrow> string \<times> string list" where
  "sse_parse_line l acc =
     (if starts_with l ''event: '' then (drop 7 l, snd acc)
      else if starts_with l ''data: '' then (fst acc, snd acc @ [drop 6 l])
      else acc)"

definition sse_decode :: "string \<Rightarrow> string \<times> string" where
  "sse_decode frame =
     (let acc = fold sse_parse_line (split_on frame newline) ([], [])
      in (fst acc, join (snd acc) [newline]))"

definition chomp :: "string \<Rightarrow> string" where
  "chomp s = (if s \<noteq> [] \<and> last s = newline then butlast s else s)"

lemma split_terminated:
  assumes "\<And>l. l \<in> set ls \<Longrightarrow> d \<notin> set l"
  shows "split_loop d [] (concat (map (\<lambda>l. l @ [d]) ls)) = ls @ [[]]"
  using assms
proof (induction ls)
  case (Cons l ls)
  have step: "d \<notin> set s \<Longrightarrow> split_loop d cur (s @ d # rest) = (cur @ s) # split_loop d [] rest"
    for cur s rest by (induction s arbitrary: cur) auto
  from Cons show ?case by (simp add: step)
qed simp

lemma getline_split:
  "getline_loop d cur s
     = (if last (split_loop d cur s) = [] then butlast (split_loop d cur s) else split_loop d cur s)"
  by (induction s arbitrary: cur) (auto simp: split_loop_nonempty)

lemma getline_no_delim: "l \<in> set (getline_loop d [] s) \<Longrightarrow> d \<notin> set l"
  using split_loop_no_delim [of l d "[]" s] by (auto simp: getline_split split: if_splits dest: in_set_butlastD)

lemma join_snoc: "ps \<noteq> [] \<Longrightarrow> join (ps @ [p]) sep = join ps sep @ sep @ p"
proof (induction ps)
  case (Cons q ps)
  then show ?case by (cases "ps = []") (simp_all add: join_Cons del: join.simps, simp)
qed simp

lemma join_getline:
  assumes "s \<noteq> []"
  shows "join (getline_loop newline [] s) [newline] = chomp s"
proof (cases "last (split_loop newline [] s) = []")
  case False
  moreover have "last s \<noteq> newline"
  proof
    assume "last s = newline"
    then have "s = butlast s @ [newline]" using assms by (metis append_butlast_last_id)
    moreover have "last (split_loop newline cur (t @ [newline])) = []" for cur t
      by (induction t arbitrary: cur) (auto simp: split_loop_nonempty)
    ultimately show False using False by metis
  qed
  ultimately show ?thesis
    by (simp add: getline_split join_split_loop chomp_def)
next
  case True
  define ps where "ps = butlast (split_loop newline [] s)"
  have sp: "split_loop newline [] s = ps @ [[]]"
    using True split_loop_nonempty [of newline "[]" s] append_butlast_last_id unfolding ps_def by metis
  then have "ps \<noteq> []" using assms join_split_loop [of newline "[]" s] by (cases ps) auto
  then have "s = join ps [newline] @ [newline]"
    using join_split_loop [of newline "[]" s] sp by (simp add: join_snoc)
  then show ?thesis using True
    by (metis chomp_def getline_split ps_def append_is_Nil_conv butlast_snoc last_snoc)
qed

lemma fold_data_lines:
  "fold sse_parse_line (map (\<lambda>l. ''data: '' @ l) ls) acc = (fst acc, snd acc @ ls)"
  by (induction ls arbitrary: acc) (auto simp: sse_parse_line_def starts_with_def)

text \<open>
  A reader gets back from the frame exactly the event and the data it was made from, up
  to one newline at the end of the data, which is lost, provided the event name has no
  newline in it; several lines of data, empty lines among them, and empty data survive.
\<close>

theorem frame_round_trip:
  assumes "newline \<notin> set event"
  shows "sse_decode (sse_frame event dat) = (event, chomp dat)"
proof -
  define ls where "ls = (if dat = [] then [[]] else getline_loop newline [] dat)"
  have j: "join ls [newline] = chomp dat"
    using join_getline [of dat] by (auto simp: ls_def chomp_def)
  have nl: "newline \<notin> set l" if "l \<in> set ls" for l
    using that getline_no_delim [of l newline dat] by (auto simp: ls_def split: if_splits)
  have lit: "newline \<notin> set ''event: ''" "newline \<notin> set ''data: ''"
    by (simp_all add: newline_def)
  let ?all = "(''event: '' @ event) # map (\<lambda>l. ''data: '' @ l) ls @ [[]]"
  have "sse_frame event dat = concat (map (\<lambda>l. l @ [newline]) ?all)"
    by (simp add: sse_frame_def ls_def comp_def)
  moreover have "split_loop newline [] (concat (map (\<lambda>l. l @ [newline]) ?all)) = ?all @ [[]]"
    using assms lit nl by (intro split_terminated) auto
  ultimately have "split_on (sse_frame event dat) newline = ?all @ [[]]" by (simp add: split_on_def)
  then have "fold sse_parse_line (split_on (sse_frame event dat) newline) ([], []) = (event, ls)"
    using fold_data_lines [of ls "(event, [])"] by (simp add: sse_parse_line_def starts_with_def)
  then show ?thesis by (simp add: sse_decode_def j)
qed

lemma frame_round_trip_witness:
  "sse_decode (sse_frame ''tick'' (''a'' @ newline # newline # ''b''))
     = (''tick'', chomp (''a'' @ newline # newline # ''b''))"
  by (rule frame_round_trip) (simp add: newline_def)

end
