(* ===== verification/Router.thy ===== *)
theory Router
  imports Route_Table Sse_Manager
begin

text \<open>
  The way of a request through src/src/server/Router.cpp: the filters of its route, then the
  handler. How the HTTP library selects the route is an argument, with the documented
  behaviour (the first registered route of the method whose expression matches the whole path)
  as a hypothesis. Logging has no effect on the answer and is left out. The lemmas show what a
  handler behind the filters can rely on and what a request without a token gets; the handlers
  that Router.cpp itself contains are here too.
\<close>

section \<open>The filters\<close>

text \<open>
  What the environment answers while one request passes: the libraries and the clocks of the
  rate limiter.
\<close>

record 'd filter_env =
  fe_lib :: "'d jwt_lib"
  fe_stod :: "string \<Rightarrow> rat option"
  fe_i18n :: "i18n option"
  fe_parse :: "string \<Rightarrow> parse_result"
  fe_now :: timestamp
  fe_prune_now :: timestamp
  fe_system_now :: timestamp
  fe_auth :: auth_env

text \<open>The state behind the routes: the limiter all routes share, the JWT service, the data.\<close>

record 'x server =
  sr_limiter :: rate_limiter
  sr_jwt :: jwt_auth
  sr_data :: 'x

text \<open>
  \<open>Some (Inl res)\<close>: the filter has answered; \<open>Some (Inr (res, ctx))\<close>: the request goes on;
  \<open>None\<close>: an exception leaves the filter.
\<close>

definition run_filter ::
  "filter \<Rightarrow> 'd filter_env \<Rightarrow> cors_config \<Rightarrow> http_request \<Rightarrow> http_response \<Rightarrow> auth_context \<Rightarrow> 'x server
     \<Rightarrow> (http_response + http_response \<times> auth_context) option \<times> 'x server" where
  "run_filter f env cors req res ctx s =
     (case f of
        Cors \<Rightarrow>
          (let (go, res') = cors_process cors req res
           in (Some (if go then Inr (res', ctx) else Inl res'), s))
      | Validation \<Rightarrow>
          (case validation_process (fe_stod env) (fe_i18n env) (fe_parse env) default_validation req res of
             None \<Rightarrow> (None, s)
           | Some (go, res') \<Rightarrow> (Some (if go then Inr (res', ctx) else Inl res'), s))
      | Rate_limit \<Rightarrow>
          (let (go, res', l) = rate_process (fe_stod env) (fe_i18n env) (fe_now env) (fe_prune_now env)
                                 (fe_system_now env) req res (sr_limiter s)
           in (Some (if go then Inr (res', ctx) else Inl res'), s\<lparr>sr_limiter := l\<rparr>))
      | Authentication \<Rightarrow>
          (let (go, res', ctx', a) = auth_process (fe_lib env) (fe_auth env) (fe_stod env) (fe_i18n env)
                                       req res ctx (sr_jwt s)
           in (case go of
                 None \<Rightarrow> None
               | Some b \<Rightarrow> Some (if b then Inr (res', ctx') else Inl res'),
               s\<lparr>sr_jwt := a\<rparr>)))"

fun run_filters ::
  "filter list \<Rightarrow> 'd filter_env \<Rightarrow> cors_config \<Rightarrow> http_request \<Rightarrow> http_response \<Rightarrow> auth_context \<Rightarrow> 'x server
     \<Rightarrow> (http_response + http_response \<times> auth_context) option \<times> 'x server" where
  "run_filters [] env cors req res ctx s = (Some (Inr (res, ctx)), s)"
| "run_filters (f # fs) env cors req res ctx s =
     (case run_filter f env cors req res ctx s of
        (Some (Inr (res', ctx')), s') \<Rightarrow> run_filters fs env cors req res' ctx' s'
      | stopped \<Rightarrow> stopped)"

text \<open>A handler gets the request, the response so far, and what the authentication found.\<close>

type_synonym 'x handler =
  "http_request \<Rightarrow> http_response \<Rightarrow> auth_context \<Rightarrow> jwt_auth \<Rightarrow> 'x \<Rightarrow> http_response option \<times> jwt_auth \<times> 'x"

definition run_route ::
  "route \<Rightarrow> 'x handler \<Rightarrow> 'd filter_env \<Rightarrow> http_request \<Rightarrow> http_response \<Rightarrow> 'x server
     \<Rightarrow> http_response option \<times> 'x server" where
  "run_route r h env req res s =
     (case run_filters (rt_filters r) env (rt_cors r) req res anonymous s of
        (None, s') \<Rightarrow> (None, s')
      | (Some (Inl res'), s') \<Rightarrow> (Some res', s')
      | (Some (Inr (res', ctx)), s') \<Rightarrow>
          let (answer, a, x) = h req res' ctx (sr_jwt s') (sr_data s')
          in (answer, s'\<lparr>sr_jwt := a, sr_data := x\<rparr>))"

section \<open>The server\<close>

text \<open>The HTTP library looks a HEAD request up among the routes of GET.\<close>

definition verb_of :: "string \<Rightarrow> verb option" where
  "verb_of m =
     (if m = ''GET'' \<or> m = ''HEAD'' then Some GET else if m = ''POST'' then Some POST
      else if m = ''PUT'' then Some PUT else if m = ''DELETE'' then Some DELETE
      else if m = ''OPTIONS'' then Some OPTIONS else None)"

type_synonym selection = "route list \<Rightarrow> verb \<Rightarrow> string \<Rightarrow> (route \<times> string list) option"

text \<open>The documented behaviour of the HTTP library.\<close>

definition registration_order :: "selection \<Rightarrow> bool" where
  "registration_order sel \<longleftrightarrow> (\<forall>rs v path. sel rs v path = first_route rs v path)"

definition selected :: "selection \<Rightarrow> repositories \<Rightarrow> http_request \<Rightarrow> (route \<times> string list) option" where
  "selected sel rp req =
     (case verb_of (rq_method req) of None \<Rightarrow> None | Some v \<Rightarrow> sel (registerAll rp) v (rq_path req))"

text \<open>\<open>matches\<close> holds the whole path, then the captures. \<open>unrouted\<close> is the library's own answer.\<close>

definition serve ::
  "selection \<Rightarrow> http_response \<Rightarrow> repositories \<Rightarrow> (endpoint \<Rightarrow> 'x handler) \<Rightarrow> 'd filter_env
     \<Rightarrow> http_request \<Rightarrow> 'x server \<Rightarrow> http_response option \<times> 'x server" where
  "serve sel unrouted rp handlers env req s =
     (case selected sel rp req of
        None \<Rightarrow> (Some unrouted, s)
      | Some (r, cs) \<Rightarrow>
          run_route r (handlers (rt_endpoint r)) env (req\<lparr>rq_matches := rq_path req # cs\<rparr>) fresh_response s)"

section \<open>What the filters let through\<close>

lemma run_filter_data [simp]: "sr_data (snd (run_filter f env cors req res ctx s)) = sr_data s"
  by (simp add: run_filter_def split: filter.split prod.split option.split)

lemma run_filters_data [simp]: "sr_data (snd (run_filters fs env cors req res ctx s)) = sr_data s"
proof (induction fs arbitrary: res ctx s)
  case (Cons f fs)
  obtain x s1 where f: "run_filter f env cors req res ctx s = (x, s1)" by force
  have "sr_data s1 = sr_data s"
    using run_filter_data [of f env cors req res ctx s] unfolding f by simp
  then show ?case using Cons.IH by (auto simp: f split: option.split sum.split)
qed simp

lemma run_filters_append:
  "run_filters (fs @ gs) env cors req res ctx s =
     (case run_filters fs env cors req res ctx s of
        (Some (Inr (res', ctx')), s') \<Rightarrow> run_filters gs env cors req res' ctx' s'
      | stopped \<Rightarrow> stopped)"
  by (induction fs arbitrary: res ctx s) (auto split: prod.split option.split sum.split)

text \<open>Only the authentication touches the JWT service.\<close>

lemma run_filter_jwt:
  "f \<noteq> Authentication \<Longrightarrow> sr_jwt (snd (run_filter f env cors req res ctx s)) = sr_jwt s"
  by (simp add: run_filter_def split: filter.split prod.split option.split)

lemma run_filters_jwt:
  "Authentication \<notin> set fs \<Longrightarrow> sr_jwt (snd (run_filters fs env cors req res ctx s)) = sr_jwt s"
proof (induction fs arbitrary: res ctx s)
  case (Cons f fs)
  obtain x s1 where f: "run_filter f env cors req res ctx s = (x, s1)" by force
  have "sr_jwt s1 = sr_jwt s"
    using run_filter_jwt [of f env cors req res ctx s] Cons.prems unfolding f by auto
  then show ?case using Cons by (auto simp: f split: option.split sum.split)
qed simp

section \<open>Behind the filters\<close>

text \<open>What a request has to satisfy at each filter; the response so far plays no part.\<close>

definition valid_body :: "'d filter_env \<Rightarrow> http_request \<Rightarrow> bool" where
  "valid_body env req \<longleftrightarrow>
     map_option fst (validation_process (fe_stod env) (fe_i18n env) (fe_parse env) default_validation
       req fresh_response) = Some True"

definition let_in :: "'d filter_env \<Rightarrow> http_request \<Rightarrow> rate_limiter \<Rightarrow> bool" where
  "let_in env req l \<longleftrightarrow>
     fst (rate_process (fe_stod env) (fe_i18n env) (fe_now env) (fe_prune_now env) (fe_system_now env)
       req fresh_response l)"

definition has_bearer :: "http_request \<Rightarrow> bool" where
  "has_bearer req \<longleftrightarrow> take kBearerPrefixLen (get_header_value req ''Authorization'') = kBearerPrefix"

definition bearer_accepted :: "'d filter_env \<Rightarrow> http_request \<Rightarrow> jwt_auth \<Rightarrow> auth_context \<Rightarrow> bool" where
  "bearer_accepted env req a ctx \<longleftrightarrow>
     has_bearer req
     \<and> fst (authenticate (fe_lib env) (fe_auth env) (get_header_value req ''Authorization'') a) = Some (Inr ctx)"

lemma validation_verdict:
  "map_option fst (validation_process stod inst parse cfg req res)
     = map_option fst (validation_process stod inst parse cfg req fresh_response)"
  by (auto simp: validation_process_def reject_with_def Let_def split: parse_result.split option.split)

lemma rate_verdict:
  "fst (rate_process stod inst now now' sysNow req res l)
     = fst (rate_process stod inst now now' sysNow req fresh_response l)"
  by (simp add: rate_process_visit)

lemma auth_verdict:
  "fst (auth_process lib env stod inst req res ctx a) = Some True
     \<Longrightarrow> has_bearer req
       \<and> fst (authenticate lib env (get_header_value req ''Authorization'') a)
           = Some (Inr (fst (snd (snd (auth_process lib env stod inst req res ctx a)))))"
  "has_bearer req
     \<Longrightarrow> fst (authenticate lib env (get_header_value req ''Authorization'') a) = Some (Inr c)
     \<Longrightarrow> fst (auth_process lib env stod inst req res ctx a) = Some True
       \<and> fst (snd (snd (auth_process lib env stod inst req res ctx a))) = c"
  by (auto simp: auth_process_def has_bearer_def kBearerPrefix_def Let_def
      split: if_splits prod.splits option.splits sum.splits)

lemma cors_passes:
  "run_filter Cors env cors req res ctx s = (Some (Inr (res', ctx')), s')
     \<longleftrightarrow> rq_method req \<noteq> ''OPTIONS'' \<and> cors_process cors req res = (True, res') \<and> ctx' = ctx \<and> s' = s"
  by (auto simp: run_filter_def cors_process_def Let_def split: if_splits)

lemma validation_passes:
  "run_filter Validation env cors req res ctx s = (Some (Inr (res', ctx')), s')
     \<longleftrightarrow> validation_process (fe_stod env) (fe_i18n env) (fe_parse env) default_validation req res = Some (True, res')
         \<and> ctx' = ctx \<and> s' = s"
  by (auto simp: run_filter_def split: option.split prod.split if_splits)

lemma valid_body_iff:
  "(\<exists>res'. validation_process (fe_stod env) (fe_i18n env) (fe_parse env) default_validation req res = Some (True, res'))
     \<longleftrightarrow> valid_body env req"
proof -
  have "(\<exists>res'. v = Some (True, res')) \<longleftrightarrow> map_option fst v = Some True" for v :: "(bool \<times> http_response) option"
    by (cases v) auto
  then show ?thesis unfolding valid_body_def validation_verdict [of _ _ _ _ _ res, symmetric] .
qed

lemma protected_filters_pass:
  "(\<exists>res' s'. run_filters protected_filters env cors req res ctx0 s = (Some (Inr (res', ctx)), s'))
     \<longleftrightarrow> rq_method req \<noteq> ''OPTIONS'' \<and> valid_body env req \<and> let_in env req (sr_limiter s)
         \<and> bearer_accepted env req (sr_jwt s) ctx" (is "?L \<longleftrightarrow> ?R")
proof
  assume ?L
  then obtain res' s' where
    run: "run_filters protected_filters env cors req res ctx0 s = (Some (Inr (res', ctx)), s')" by blast
  obtain r1 c1 s1 where f1: "run_filter Cors env cors req res ctx0 s = (Some (Inr (r1, c1)), s1)"
    using run by (auto simp: protected_filters_def split: prod.splits option.splits sum.splits)
  obtain r2 c2 s2 where f2: "run_filter Validation env cors req r1 c1 s1 = (Some (Inr (r2, c2)), s2)"
    using run f1 by (auto simp: protected_filters_def split: prod.splits option.splits sum.splits)
  obtain r3 c3 s3 where f3: "run_filter Rate_limit env cors req r2 c2 s2 = (Some (Inr (r3, c3)), s3)"
    using run f1 f2 by (auto simp: protected_filters_def split: prod.splits option.splits sum.splits)
  have f4: "run_filter Authentication env cors req r3 c3 s3 = (Some (Inr (res', ctx)), s')"
    using run f1 f2 f3 by (auto simp: protected_filters_def split: prod.splits option.splits sum.splits)
  have s12: "s1 = s" "s2 = s" and m: "rq_method req \<noteq> ''OPTIONS''" and v: "valid_body env req"
    using f1 f2 valid_body_iff [of env req r1] by (auto simp: cors_passes validation_passes)
  have "let_in env req (sr_limiter s)" and s3: "sr_jwt s3 = sr_jwt s"
    using f3 unfolding s12 let_in_def
    by (auto simp: run_filter_def rate_verdict [of _ _ _ _ _ _ r2, symmetric] split: prod.splits if_splits)
  moreover have "bearer_accepted env req (sr_jwt s) ctx"
    using f4 auth_verdict(1) [of "fe_lib env" "fe_auth env" "fe_stod env" "fe_i18n env" req r3 c3 "sr_jwt s3"]
    unfolding bearer_accepted_def s3 [symmetric]
    by (auto simp: run_filter_def split: prod.splits option.splits if_splits)
  ultimately show ?R using m v by simp
next
  assume R: ?R
  obtain r1 where f1: "cors_process cors req res = (True, r1)"
    using R by (auto simp: cors_process_def Let_def)
  obtain r2 where f2: "validation_process (fe_stod env) (fe_i18n env) (fe_parse env) default_validation req r1
      = Some (True, r2)"
    using R valid_body_iff by blast
  obtain r3 l where f3: "rate_process (fe_stod env) (fe_i18n env) (fe_now env) (fe_prune_now env)
      (fe_system_now env) req r2 (sr_limiter s) = (True, r3, l)"
    using R rate_verdict [of "fe_stod env" "fe_i18n env" "fe_now env" "fe_prune_now env" "fe_system_now env" req r2
      "sr_limiter s"]
    by (cases "rate_process (fe_stod env) (fe_i18n env) (fe_now env) (fe_prune_now env)
      (fe_system_now env) req r2 (sr_limiter s)") (auto simp: let_in_def)
  obtain res' a where f4: "auth_process (fe_lib env) (fe_auth env) (fe_stod env) (fe_i18n env) req r3 ctx0 (sr_jwt s)
      = (Some True, res', ctx, a)"
    using R auth_verdict(2) [of req "fe_lib env" "fe_auth env" "sr_jwt s" ctx "fe_stod env" "fe_i18n env" r3 ctx0]
    by (cases "auth_process (fe_lib env) (fe_auth env) (fe_stod env) (fe_i18n env) req r3 ctx0 (sr_jwt s)")
       (auto simp: bearer_accepted_def)
  show ?L by (simp add: protected_filters_def run_filter_def f1 f2 f3 f4)
qed

section \<open>Which routes are guarded\<close>

text \<open>The endpoints that need no token to be reached; some of them ask for one themselves.\<close>

definition open_endpoints :: "endpoint list" where
  "open_endpoints =
     [Auth_methods, Login, Preflight, Agent_register, Organisation ActivateMachine, Register_page,
      Captcha_issue, Register_tenant, Verify_tenant, Health, Metrics, Openapi, Events, Screen_stream,
      Debug_info]"

lemma all_routes_guarded:
  "list_all (\<lambda>r. rt_endpoint r \<in> set open_endpoints \<or> rt_filters r = protected_filters)
     (registerAll all_repositories)"
  by (simp add: registerAll_def register_defs all_repositories_def Let_def plain_route_def
      built_route_def open_endpoints_def)

lemma guarded_route:
  "r \<in> set (registerAll rp) \<Longrightarrow> rt_endpoint r \<notin> set open_endpoints \<Longrightarrow> rt_filters r = protected_filters"
  using all_routes_guarded routes_of_all [of rp] by (auto simp: list_all_iff)

lemma first_route_SomeD:
  "first_route rs v path = Some (r, cs) \<Longrightarrow>
     r \<in> set rs \<and> rt_verb r = v \<and> pattern_match (compile_pattern (rt_pattern r)) path = Some cs"
  by (auto simp: first_route_def route_match_def dest!: first_some_Some split: if_splits)

lemma selected_route:
  assumes "registration_order sel" and "selected sel rp req = Some (r, cs)"
  shows "r \<in> set (registerAll rp)"
  using assms by (auto simp: selected_def registration_order_def dest: first_route_SomeD split: option.splits)

text \<open>A handler whose route is guarded has run only for a request that passed all filters.\<close>

lemma run_route_changes:
  assumes "rt_filters r = protected_filters"
    and "sr_data (snd (run_route r h env req res s)) \<noteq> sr_data s"
  shows "\<exists>res' ctx s'. run_filters protected_filters env (rt_cors r) req res anonymous s = (Some (Inr (res', ctx)), s')"
proof -
  obtain x s1 where f: "run_filters protected_filters env (rt_cors r) req res anonymous s = (x, s1)" by force
  have "sr_data s1 = sr_data s"
    using run_filters_data [of protected_filters env "rt_cors r" req res anonymous s] unfolding f by simp
  with assms show ?thesis
    by (auto simp: run_route_def f split: option.splits sum.splits)
qed

lemma matches_header [simp]:
  "get_header_value (req\<lparr>rq_matches := m\<rparr>) n = get_header_value req n"
  "getLocale stod inst (req\<lparr>rq_matches := m\<rparr>) = getLocale stod inst req"
  "client_ip (req\<lparr>rq_matches := m\<rparr>) = client_ip req"
  by (simp_all add: get_header_value_def getLocale_def client_ip_def cong: if_cong option.case_cong)

lemma matches_irrelevant:
  "rq_method (req\<lparr>rq_matches := m\<rparr>) = rq_method req"
  "valid_body env (req\<lparr>rq_matches := m\<rparr>) = valid_body env req"
  "let_in env (req\<lparr>rq_matches := m\<rparr>) l = let_in env req l"
  "bearer_accepted env (req\<lparr>rq_matches := m\<rparr>) a ctx = bearer_accepted env req a ctx"
  by (simp_all add: valid_body_def let_in_def bearer_accepted_def has_bearer_def
      validation_process_def carries_body_def is_json_type_def is_octet_type_def rate_process_visit client_key_def rate_per_second_def Let_def)

text \<open>
  Whatever the handlers do, a request to any endpoint outside the open ones changes data
  only if its body passed the validation, the rate limiter let it in, and its Bearer token
  authenticated with the JWT service as it was when the request came.
\<close>

theorem guarded_change_needs_token:
  assumes "registration_order sel"
    and "selected sel rp req = Some (r, cs)" and "rt_endpoint r \<notin> set open_endpoints"
    and "sr_data (snd (serve sel unrouted rp handlers env req s)) \<noteq> sr_data s"
  shows "valid_body env req \<and> let_in env req (sr_limiter s)
     \<and> (\<exists>ctx. bearer_accepted env req (sr_jwt s) ctx)"
proof -
  let ?req = "req\<lparr>rq_matches := rq_path req # cs\<rparr>"
  have r: "rt_filters r = protected_filters"
    using guarded_route [OF selected_route [OF assms(1,2)] assms(3)] .
  have "sr_data (snd (run_route r (handlers (rt_endpoint r)) env ?req fresh_response s)) \<noteq> sr_data s"
    using assms(2,4) by (simp add: serve_def)
  with run_route_changes [OF r] protected_filters_pass [of env "rt_cors r" ?req fresh_response anonymous s]
  have "valid_body env ?req \<and> let_in env ?req (sr_limiter s) \<and> (\<exists>ctx. bearer_accepted env ?req (sr_jwt s) ctx)"
    by blast
  then show ?thesis by (simp add: matches_irrelevant)
qed

section \<open>Requests without a token\<close>

lemma validation_rejects:
  "validation_process stod inst parse cfg req res = Some (False, res')
     \<Longrightarrow> rs_status res' \<in> {400, 413, 415, 422}"
  by (auto simp: validation_process_def reject_with_def Let_def
      split: parse_result.splits option.splits if_splits)

lemma validation_throws:
  "validation_process stod inst parse cfg req res = None \<Longrightarrow> parse (rq_body req) = Parse_throws"
  by (auto simp: validation_process_def reject_with_def Let_def
      split: parse_result.splits option.splits if_splits)

lemma rate_rejects:
  "rate_process stod inst now now' sysNow req res l = (False, res', l') \<Longrightarrow> rs_status res' = 429"
  by (auto simp: rate_process_def Let_def split: if_splits)

lemma no_bearer_rejected:
  "\<not> has_bearer req \<Longrightarrow> \<exists>res'. auth_process lib env stod inst req res ctx a = (Some False, res', ctx, a)
     \<and> rs_status res' = 401"
  by (auto simp: auth_process_def has_bearer_def Let_def)

lemma all_guarded_verbs:
  "list_all (\<lambda>r. rt_endpoint r \<in> set open_endpoints \<or> rt_verb r \<noteq> OPTIONS) (registerAll all_repositories)"
  by (simp add: registerAll_def register_defs all_repositories_def Let_def plain_route_def
      built_route_def open_endpoints_def)

lemma selected_method:
  assumes "registration_order sel" and "selected sel rp req = Some (r, cs)"
    and "rt_endpoint r \<notin> set open_endpoints"
  shows "rq_method req \<noteq> ''OPTIONS''"
proof
  assume "rq_method req = ''OPTIONS''"
  then have "rt_verb r = OPTIONS"
    using assms(1,2) by (auto simp: selected_def registration_order_def verb_of_def dest: first_route_SomeD)
  then show False
    using all_guarded_verbs selected_route [OF assms(1,2)] routes_of_all [of rp] assms(3)
    by (auto simp: list_all_iff)
qed

definition refusals :: "int set" where "refusals = {400, 401, 413, 415, 422, 429}"

lemma protected_filters_refuse:
  assumes "\<not> has_bearer req" and "rq_method req \<noteq> ''OPTIONS''"
  shows "case run_filters protected_filters env cors req res ctx s of
     (None, s') \<Rightarrow> fe_parse env (rq_body req) = Parse_throws \<and> sr_jwt s' = sr_jwt s
   | (Some (Inl res'), s') \<Rightarrow> rs_status res' \<in> refusals \<and> sr_jwt s' = sr_jwt s
   | (Some (Inr _), s') \<Rightarrow> False"
proof -
  obtain r1 where f1: "cors_process cors req res = (True, r1)"
    using assms(2) by (auto simp: cors_process_def Let_def)
  show ?thesis
  proof (cases "validation_process (fe_stod env) (fe_i18n env) (fe_parse env) default_validation req r1")
    case None
    then show ?thesis
      by (simp add: protected_filters_def run_filter_def f1 validation_throws)
  next
    case (Some v)
    then obtain go r2 where v: "validation_process (fe_stod env) (fe_i18n env) (fe_parse env) default_validation
        req r1 = Some (go, r2)" by (cases v) auto
    show ?thesis
    proof (cases go)
      case False
      with v validation_rejects show ?thesis
        by (fastforce simp: protected_filters_def run_filter_def f1 refusals_def)
    next
      case True
      obtain go' r3 l where f3: "rate_process (fe_stod env) (fe_i18n env) (fe_now env) (fe_prune_now env)
          (fe_system_now env) req r2 (sr_limiter s) = (go', r3, l)"
        by (metis prod_cases3)
      show ?thesis
      proof (cases go')
        case False
        with f3 have "rs_status r3 = 429" using rate_rejects by (metis (full_types))
        with v True False f3 show ?thesis
          by (simp add: protected_filters_def run_filter_def f1 refusals_def)
      next
        case go': True
        obtain res' where "auth_process (fe_lib env) (fe_auth env) (fe_stod env) (fe_i18n env) req r3 ctx
            (sr_jwt s) = (Some False, res', ctx, sr_jwt s)" "rs_status res' = 401"
          using no_bearer_rejected [OF assms(1)] by blast
        with v True go' f3 show ?thesis
          by (simp add: protected_filters_def run_filter_def f1 refusals_def)
      qed
    qed
  qed
qed

text \<open>
  C5: A request without a Bearer token to an endpoint outside the open ones changes neither
  the data nor the JWT service and is refused with one of the statuses 400, 401, 413, 415, 422
  and 429; an exception escapes only when the JSON library throws something else than a
  parse error.
\<close>

theorem no_token_refused:
  assumes "registration_order sel"
    and "selected sel rp req = Some (r, cs)" and "rt_endpoint r \<notin> set open_endpoints"
    and "\<not> has_bearer req"
  shows "sr_data (snd (serve sel unrouted rp handlers env req s)) = sr_data s
     \<and> sr_jwt (snd (serve sel unrouted rp handlers env req s)) = sr_jwt s
     \<and> (case fst (serve sel unrouted rp handlers env req s) of
           None \<Rightarrow> fe_parse env (rq_body req) = Parse_throws
         | Some res \<Rightarrow> rs_status res \<in> refusals)"
proof -
  let ?req = "req\<lparr>rq_matches := rq_path req # cs\<rparr>"
  have r: "rt_filters r = protected_filters"
    using guarded_route [OF selected_route [OF assms(1,2)] assms(3)] .
  obtain x s1 where f: "run_filters protected_filters env (rt_cors r) ?req fresh_response anonymous s = (x, s1)"
    by force
  have "\<not> has_bearer ?req" using assms(4) by (simp add: has_bearer_def)
  then have "case (x, s1) of
     (None, s') \<Rightarrow> fe_parse env (rq_body req) = Parse_throws \<and> sr_jwt s' = sr_jwt s
   | (Some (Inl res'), s') \<Rightarrow> rs_status res' \<in> refusals \<and> sr_jwt s' = sr_jwt s
   | (Some (Inr _), s') \<Rightarrow> False"
    using protected_filters_refuse [where req = ?req and env = env and cors = "rt_cors r"
        and res = fresh_response and ctx = anonymous and s = s]
      selected_method [OF assms(1-3)] unfolding f by (auto split: option.splits sum.splits)
  moreover have "sr_data s1 = sr_data s"
    using run_filters_data [of protected_filters env "rt_cors r" ?req fresh_response anonymous s] unfolding f by simp
  moreover have "serve sel unrouted rp handlers env req s
      = run_route r (handlers (rt_endpoint r)) env ?req fresh_response s"
    using assms(2) by (simp add: serve_def)
  ultimately show ?thesis
    by (auto simp: run_route_def r f split: option.splits sum.splits)
qed

section \<open>The organisation behind the server\<close>



section \<open>One request through the whole server\<close>

lemma protected_filters_jwt:
  assumes "run_filters protected_filters env cors req res ctx0 s = (Some (Inr (res', ctx)), s')"
  shows "sr_jwt s' = snd (authenticate (fe_lib env) (fe_auth env) (get_header_value req ''Authorization'') (sr_jwt s))"
proof -
  have split: "protected_filters = public_filters @ [Authentication]"
    by (simp add: protected_filters_def public_filters_def)
  obtain x s1 where f: "run_filters public_filters env cors req res ctx0 s = (x, s1)" by force
  have jwt: "sr_jwt s1 = sr_jwt s"
    using run_filters_jwt [of public_filters env cors req res ctx0 s] f by (simp add: public_filters_def)
  obtain r1 c1 where "x = Some (Inr (r1, c1))"
    and "run_filter Authentication env cors req r1 c1 s1 = (Some (Inr (res', ctx)), s')"
    using assms unfolding split run_filters_append f by (auto split: option.splits sum.splits prod.splits)
  then show ?thesis
    using jwt by (auto simp: run_filter_def auth_process_def Let_def
        split: prod.splits option.splits sum.splits if_splits)
qed

definition sample_filter_env :: "string list filter_env" where
  "sample_filter_env = \<lparr>fe_lib = plain_lib, fe_stod = (\<lambda>_. None), fe_i18n = None,
     fe_parse = (\<lambda>_. Parse_error), fe_now = 0, fe_prune_now = 0, fe_system_now = 0,
     fe_auth = env_at 2000000000000\<rparr>"

definition sample_server :: "'x \<Rightarrow> 'x server" where
  "sample_server x = \<lparr>sr_limiter = sample_limiter, sr_jwt = sample_auth, sr_data = x\<rparr>"

definition delete_school_request :: "http_request \<Rightarrow> http_request" where
  "delete_school_request req =
     req\<lparr>rq_method := ''DELETE'', rq_path := ''/api/v1/schools/s1'', rq_body := []\<rparr>"

definition delete_school_route :: route where
  "delete_school_route = \<lparr>rt_verb = DELETE, rt_pattern = ''/api/v1/schools/([^/]+)'',
     rt_filters = protected_filters, rt_cors = cors_of all_methods api_headers,
     rt_endpoint = Organisation DeleteSchool\<rparr>"

lemma first_route_order: "registration_order first_route"
  by (simp add: registration_order_def)

lemma delete_school_selected:
  "selected first_route all_repositories (delete_school_request req) = Some (delete_school_route, [''s1''])"
proof -
  have "delete_school_route \<in> set (registerAll all_repositories)"
    by (simp add: registerAll_def registerSchoolRoutes_def all_repositories_def Let_def
        built_route_def delete_school_route_def)
  moreover have "pattern_match (compile_pattern (rt_pattern delete_school_route)) ''/api/v1/schools/s1'' = Some [''s1'']"
    by (simp add: delete_school_route_def tries_def upt_rec numeral_eq_Suc)
  ultimately have "first_route (registerAll all_repositories) DELETE ''/api/v1/schools/s1''
      = Some (delete_school_route, [''s1''])"
    using matching_route_selected [of delete_school_route all_repositories "''/api/v1/schools/s1''"]
    by (simp add: delete_school_route_def)
  then show ?thesis by (simp add: selected_def delete_school_request_def verb_of_def)
qed

lemma sample_filters_open:
  assumes "rq_body req = []" and "rq_path req = ''/api/v1/schools/s1''"
  shows "valid_body sample_filter_env req \<and> let_in sample_filter_env req sample_limiter"
  using assms
  by (simp add: valid_body_def validation_process_def carries_body_def default_validation_def Let_def
      sample_filter_env_def let_in_def rate_process_visit visit_def refill_def find_bucket_def
      prune_buckets_def sample_limiter_def new_limiter_def kRateLimitCleanupInterval_def
      rate_per_second_def effective_rpm_def seconds_between_def trunc_int_def)

lemma delete_school_request_fields [simp]:
  "rq_method (delete_school_request req) = ''DELETE''" "rq_body (delete_school_request req) = []"
  "rq_path (delete_school_request req) = ''/api/v1/schools/s1''"
  "rq_header (delete_school_request req) = rq_header req"
  "get_header_value (delete_school_request req) n = get_header_value req n"
  by (simp_all add: delete_school_request_def get_header_value_def)

lemma role_request_header [simp]:
  "get_header_value (role_request role ps) ''Authorization'' = kBearerPrefix @ role_token role"
  using bearer_request_header [of "role_token role"] by (simp add: role_request_def get_header_value_def)

lemma role_token_bearer:
  "fst (authenticate plain_lib (env_at 2000000000000) (kBearerPrefix @ role_token role) sample_auth) = Some (Inr
     \<lparr>ac_authenticated = True,
      ac_token = Some (token_issued 7200 1000000000000 sample_jti ''ann'' role ''t1''),
      ac_tenant_id = ''t1''\<rparr>)"
proof -
  have "issueToken plain_lib 1000000000000 (Some (replicate 16 7)) sample_auth
      ''ann'' role ''t1'' = Inr (role_token role)"
    by (simp add: issueToken_def sample_jti_generated sample_auth_def role_token_def plain_lib_def ok_def)
  from issued_token_authenticates [OF this sample_jti_generated plain_lib_faithful sample_in_date
      disjI2 [OF refl], of 2000000000000 sample_auth]
  show ?thesis by (simp add: env_at_def sample_auth_def sqlite_empty_def isRevoked_def)
qed

lemma bearer_prefix_length [simp]:
  "length kBearerPrefix = kBearerPrefixLen" "take kBearerPrefixLen kBearerPrefix = kBearerPrefix"
  by (simp_all add: kBearerPrefix_def kBearerPrefixLen_def)

lemma role_token_nonempty [simp]: "role_token role \<noteq> []"
  by (simp add: role_token_def esc_all_def plain_fields_def)

lemma sample_bearer_accepted:
  "\<exists>ctx. bearer_accepted sample_filter_env (delete_school_request (role_request role ps)) sample_auth ctx"
  by (simp add: bearer_accepted_def has_bearer_def sample_filter_env_def role_token_bearer)

definition counting :: "endpoint \<Rightarrow> nat handler" where
  "counting ep req res ctx a n = (Some res, a, Suc n)"

lemma guarded_serve_runs:
  assumes "selected sel rp req = Some (r, cs)" and "rt_filters r = protected_filters"
    and "rq_method req \<noteq> ''OPTIONS''" and "valid_body env req" and "let_in env req (sr_limiter s)"
    and "bearer_accepted env req (sr_jwt s) ctx"
  shows "\<exists>res' a. sr_data (snd (serve sel unrouted rp handlers env req s))
      = snd (snd (handlers (rt_endpoint r) (req\<lparr>rq_matches := rq_path req # cs\<rparr>) res' ctx a (sr_data s)))
    \<and> a = snd (authenticate (fe_lib env) (fe_auth env) (get_header_value req ''Authorization'') (sr_jwt s))"
proof -
  let ?req = "req\<lparr>rq_matches := rq_path req # cs\<rparr>"
  obtain res' s1 where f: "run_filters protected_filters env (rt_cors r) ?req fresh_response anonymous s
      = (Some (Inr (res', ctx)), s1)"
    using protected_filters_pass [of env "rt_cors r" ?req fresh_response anonymous s ctx] assms(3-6)
    by (auto simp: matches_irrelevant)
  have "sr_data s1 = sr_data s"
    using run_filters_data [of protected_filters env "rt_cors r" ?req fresh_response anonymous s] unfolding f by simp
  moreover note protected_filters_jwt [OF f]
  ultimately show ?thesis
    using assms(1,2) by (intro exI [of _ res']) (simp add: serve_def run_route_def f split_beta)
qed

theorem guarded_change_needs_token_witness:
  "\<exists>ctx. bearer_accepted sample_filter_env (delete_school_request (role_request ''student'' [])) sample_auth ctx"
proof -
  let ?req = "delete_school_request (role_request ''student'' [])"
  obtain ctx where "bearer_accepted sample_filter_env ?req sample_auth ctx" using sample_bearer_accepted by blast
  with guarded_serve_runs [OF delete_school_selected, where env = sample_filter_env and
      s = "sample_server 0" and handlers = counting and unrouted = fresh_response]
    sample_filters_open [of ?req]
  have "sr_data (snd (serve first_route fresh_response all_repositories counting sample_filter_env ?req
      (sample_server 0))) \<noteq> sr_data (sample_server 0)"
    by (auto simp: delete_school_route_def sample_server_def counting_def)
  from guarded_change_needs_token [OF first_route_order delete_school_selected _ this]
  show ?thesis by (simp add: delete_school_route_def open_endpoints_def sample_server_def)
qed

theorem no_token_refused_witness:
  "sr_data (snd (serve first_route fresh_response all_repositories counting sample_filter_env
     (delete_school_request (sample_request [] (\<lambda>_. None))) (sample_server 0))) = 0"
  using no_token_refused [OF first_route_order delete_school_selected [of "sample_request [] (\<lambda>_. None)"],
      where handlers = counting and env = sample_filter_env and s = "sample_server 0"
      and unrouted = fresh_response]
  by (simp add: delete_school_route_def open_endpoints_def sample_server_def has_bearer_def
      get_header_value_def sample_request_def kBearerPrefix_def kBearerPrefixLen_def)





end
