(* ===== verification/Agent_Registry.thy ===== *)
theory Agent_Registry
  imports Core_Types Interfaces
begin

text \<open>
  The server's registry of student-PC agents and their command queues
  (src/agent/AgentRegistry.cpp) and the monitor that marks silent agents offline
  (src/agent/HeartbeatMonitor.cpp). Every public method holds the registry's mutex for its
  whole body, so a method is one atomic function on the state. The wall clock is an
  argument of the methods that read it. The order in which an \<^verbatim>\<open>unordered_map\<close> is
  traversed is the argument \<open>it\<close>, a function from a map to a list of its keys; the only
  thing ever assumed of it is that it lists every key once (\<open>enumerates\<close>).
\<close>

section \<open>Data\<close>

datatype agent_state = Offline | Online | Busy | AgentError

datatype command_status = Pending | Dispatched | Running | Success | Failed | Timeout

fun agent_state_to_string :: "agent_state \<Rightarrow> string" where
  "agent_state_to_string Offline = ''offline''"
| "agent_state_to_string Online = ''online''"
| "agent_state_to_string Busy = ''busy''"
| "agent_state_to_string AgentError = ''error''"

definition agent_state_from_string :: "string \<Rightarrow> agent_state" where
  "agent_state_from_string s =
     (if s = ''online'' then Online
      else if s = ''busy'' then Busy
      else if s = ''error'' then AgentError
      else Offline)"

record agent_info =
  ai_agentId :: uid
  ai_hostname :: string
  ai_ipAddress :: string
  ai_agentPort :: "16 word"
  ai_osVersion :: string
  ai_agentVersion :: string
  ai_state :: agent_state
  ai_registeredAt :: timestamp
  ai_lastHeartbeat :: timestamp
  ai_capabilities :: "string list"

record agent_command =
  ac_commandId :: uid
  ac_agentId :: uid
  ac_featureUid :: string
  ac_operation :: string
  ac_arguments :: "(string \<times> string) list"
  ac_status :: command_status
  ac_createdAt :: timestamp
  ac_completedAt :: timestamp
  ac_result :: string
  ac_durationMs :: int

record registry =
  m_agents :: "uid \<rightharpoonup> agent_info"
  m_commandQueues :: "uid \<rightharpoonup> agent_command list"
  m_commandHistory :: "uid \<rightharpoonup> agent_command"

definition empty_registry :: registry where
  "empty_registry = \<lparr>m_agents = Map.empty, m_commandQueues = Map.empty,
     m_commandHistory = Map.empty\<rparr>"

type_synonym 'v traversal = "(uid \<rightharpoonup> 'v) \<Rightarrow> uid list"

definition enumerates :: "'v traversal \<Rightarrow> bool" where
  "enumerates it = (\<forall>m. finite (dom m) \<longrightarrow> distinct (it m) \<and> set (it m) = dom m)"

definition k_maxCommandHistory :: nat where "k_maxCommandHistory = 10000"
definition k_commandHistoryPruneCount :: nat where "k_commandHistoryPruneCount = 1000"

section \<open>AgentRegistry\<close>

definition registerAgent :: "timestamp \<Rightarrow> agent_info \<Rightarrow> registry \<Rightarrow> uid result \<times> registry" where
  "registerAgent now info s =
     (if ai_agentId info = [] then (fail InvalidRequest ''agentId must not be empty'', s)
      else
        let entry = info\<lparr>ai_state := Online, ai_registeredAt := now, ai_lastHeartbeat := now\<rparr>
        in (ok (ai_agentId entry), s\<lparr>m_agents := (m_agents s)(ai_agentId entry \<mapsto> entry)\<rparr>))"

definition unregisterAgent :: "uid \<Rightarrow> registry \<Rightarrow> registry" where
  "unregisterAgent i s =
     s\<lparr>m_agents := (m_agents s)(i := None), m_commandQueues := (m_commandQueues s)(i := None)\<rparr>"

definition findAgent :: "uid \<Rightarrow> registry \<Rightarrow> agent_info result" where
  "findAgent i s =
     (case m_agents s i of
        None \<Rightarrow> fail NotFound (''Agent not found: '' @ i)
      | Some a \<Rightarrow> ok a)"

definition listAgents :: "agent_info traversal \<Rightarrow> registry \<Rightarrow> agent_info list" where
  "listAgents it s = List.map_filter (m_agents s) (it (m_agents s))"

definition listOnlineAgents :: "agent_info traversal \<Rightarrow> registry \<Rightarrow> agent_info list" where
  "listOnlineAgents it s =
     filter (\<lambda>a. ai_state a = Online \<or> ai_state a = Busy)
       (List.map_filter (m_agents s) (it (m_agents s)))"

definition heartbeat :: "timestamp \<Rightarrow> uid \<Rightarrow> registry \<Rightarrow> registry" where
  "heartbeat now i s =
     (case m_agents s i of
        None \<Rightarrow> s
      | Some a \<Rightarrow>
         let a1 = a\<lparr>ai_lastHeartbeat := now\<rparr>;
             a2 = (if ai_state a1 = Offline \<or> ai_state a1 = AgentError
                   then a1\<lparr>ai_state := Online\<rparr> else a1)
         in s\<lparr>m_agents := (m_agents s)(i \<mapsto> a2)\<rparr>)"

definition updateState :: "uid \<Rightarrow> agent_state \<Rightarrow> registry \<Rightarrow> registry" where
  "updateState i st s =
     (case m_agents s i of
        None \<Rightarrow> s
      | Some a \<Rightarrow> s\<lparr>m_agents := (m_agents s)(i \<mapsto> a\<lparr>ai_state := st\<rparr>)\<rparr>)"

text \<open>The first \<open>n\<close> entries in traversal order are erased.\<close>

definition prune_history ::
  "agent_command traversal \<Rightarrow> nat \<Rightarrow> (uid \<rightharpoonup> agent_command) \<Rightarrow> (uid \<rightharpoonup> agent_command)" where
  "prune_history it n h = foldl (\<lambda>m k. m(k := None)) h (take n (it h))"

definition stamp_created :: "timestamp \<Rightarrow> agent_command \<Rightarrow> agent_command" where
  "stamp_created now c = (if ac_createdAt c = 0 then c\<lparr>ac_createdAt := now\<rparr> else c)"

definition queue_of :: "uid \<Rightarrow> registry \<Rightarrow> agent_command list" where
  "queue_of i s = (case m_commandQueues s i of None \<Rightarrow> [] | Some q \<Rightarrow> q)"

definition queueCommand ::
  "agent_command traversal \<Rightarrow> timestamp \<Rightarrow> agent_command \<Rightarrow> registry \<Rightarrow> registry" where
  "queueCommand it now cmd s =
     (if m_agents s (ac_agentId cmd) = None then s
      else
        let entry = stamp_created now cmd;
            q = queue_of (ac_agentId entry) s @ [entry];
            h = (m_commandHistory s)(ac_commandId entry \<mapsto> entry);
            h' = (if card (dom h) > k_maxCommandHistory
                  then prune_history it k_commandHistoryPruneCount h else h)
        in s\<lparr>m_commandQueues := (m_commandQueues s)(ac_agentId entry \<mapsto> q),
             m_commandHistory := h'\<rparr>)"

text \<open>The loop that empties one queue: front to back, marking and recording each command.\<close>

fun dispatch_all ::
  "agent_command list \<Rightarrow> (uid \<rightharpoonup> agent_command)
   \<Rightarrow> agent_command list \<times> (uid \<rightharpoonup> agent_command)" where
  "dispatch_all [] h = ([], h)"
| "dispatch_all (c # cs) h =
     (let c' = c\<lparr>ac_status := Dispatched\<rparr>;
          (out, h') = dispatch_all cs (h(ac_commandId c' \<mapsto> c'))
      in (c' # out, h'))"

definition dequeuePendingCommands :: "uid \<Rightarrow> registry \<Rightarrow> agent_command list \<times> registry" where
  "dequeuePendingCommands i s =
     (case m_commandQueues s i of
        None \<Rightarrow> ([], s)
      | Some q \<Rightarrow>
         let (out, h) = dispatch_all q (m_commandHistory s)
         in (out, s\<lparr>m_commandQueues := (m_commandQueues s)(i \<mapsto> []), m_commandHistory := h\<rparr>))"

definition reportCommandResult ::
  "timestamp \<Rightarrow> uid \<Rightarrow> command_status \<Rightarrow> string \<Rightarrow> int \<Rightarrow> registry \<Rightarrow> registry" where
  "reportCommandResult now i st res dur s =
     (case m_commandHistory s i of
        None \<Rightarrow> s
      | Some c \<Rightarrow>
         s\<lparr>m_commandHistory := (m_commandHistory s)
             (i \<mapsto> c\<lparr>ac_status := st, ac_result := res, ac_durationMs := dur,
                     ac_completedAt := now\<rparr>)\<rparr>)"

definition findCommand :: "uid \<Rightarrow> registry \<Rightarrow> agent_command result" where
  "findCommand i s =
     (case m_commandHistory s i of
        None \<Rightarrow> fail NotFound (''Command not found: '' @ i)
      | Some c \<Rightarrow> ok c)"

definition agentCount :: "registry \<Rightarrow> nat" where
  "agentCount s = card (dom (m_agents s))"

section \<open>HeartbeatMonitor\<close>

text \<open>
  One pass of \<^verbatim>\<open>monitorLoop\<close> takes a snapshot of the agents, reads the clock once and
  then walks the snapshot. The registry's mutex is released between the snapshot and each
  \<^verbatim>\<open>updateState\<close>, so \<open>monitor_walk\<close> takes the snapshot and the current registry as separate
  arguments; \<open>monitor_pass\<close> is the pass that nothing interrupts. The second component is
  the list of identifiers handed to the offline callback.
\<close>

fun monitor_walk ::
  "int \<Rightarrow> timestamp \<Rightarrow> agent_info list \<Rightarrow> registry \<Rightarrow> registry \<times> uid list" where
  "monitor_walk timeout now [] s = (s, [])"
| "monitor_walk timeout now (a # as) s =
     (if ai_state a = Offline then monitor_walk timeout now as s
      else
        let elapsed = now - ai_lastHeartbeat a in
        if elapsed > timeout then
          let (s', cb) = monitor_walk timeout now as (updateState (ai_agentId a) Offline s)
          in (s', ai_agentId a # cb)
        else monitor_walk timeout now as s)"

definition monitor_pass ::
  "agent_info traversal \<Rightarrow> int \<Rightarrow> timestamp \<Rightarrow> registry \<Rightarrow> registry \<times> uid list" where
  "monitor_pass it timeout now s = monitor_walk timeout now (listAgents it s) s"

record monitor =
  hm_running :: bool
  hm_timeout :: int
  hm_threads :: nat

text \<open>\<open>hm_threads\<close> counts the monitor threads that have been started and not joined.\<close>

definition monitor_start :: "int \<Rightarrow> monitor \<Rightarrow> monitor" where
  "monitor_start timeout m =
     (if hm_running m then m
      else m\<lparr>hm_timeout := timeout, hm_running := True, hm_threads := Suc (hm_threads m)\<rparr>)"

definition monitor_stop :: "monitor \<Rightarrow> monitor" where
  "monitor_stop m =
     (if \<not> hm_running m then m
      else m\<lparr>hm_running := False, hm_threads := hm_threads m - 1\<rparr>)"

lemmas registry_op_defs =
  registerAgent_def unregisterAgent_def findAgent_def listAgents_def listOnlineAgents_def
  heartbeat_def updateState_def queueCommand_def dequeuePendingCommands_def
  reportCommandResult_def findCommand_def agentCount_def

section \<open>Equations of the operations\<close>

lemma enumerates_listAgents:
  assumes "enumerates it" and "finite (dom (m_agents s))"
  shows "set (listAgents it s) = ran (m_agents s)"
  using assms by (auto simp: listAgents_def enumerates_def map_filter_def ran_def image_iff)
    (metis domI option.sel option.distinct(1))+

lemma prune_history_eq:
  "prune_history it n h = (\<lambda>k. if k \<in> set (take n (it h)) then None else h k)"
proof -
  have "foldl (\<lambda>m k. m(k := None)) g ks = (\<lambda>k. if k \<in> set ks then None else g k)"
    for g :: "uid \<rightharpoonup> agent_command" and ks
    by (induction ks arbitrary: g) auto
  then show ?thesis by (simp add: prune_history_def)
qed

lemma dom_prune_history_subset: "dom (prune_history it n h) \<subseteq> dom h"
  by (auto simp: prune_history_eq split: if_splits)

lemma card_prune_history:
  assumes "enumerates it" and "finite (dom h)"
  shows "card (dom (prune_history it n h)) = card (dom h) - n"
proof -
  have it: "distinct (it h)" "set (it h) = dom h"
    using assms by (simp_all add: enumerates_def)
  have "dom (prune_history it n h) = dom h - set (take n (it h))"
    by (auto simp: prune_history_eq split: if_splits)
  moreover have "set (take n (it h)) \<subseteq> dom h" using it(2) set_take_subset by metis
  moreover have "card (set (take n (it h))) = min n (card (dom h))"
    using it distinct_card by (metis distinct_take length_take min.commute)
  ultimately show ?thesis by (simp add: card_Diff_subset)
qed

lemma dispatch_all_fst: "fst (dispatch_all q h) = map (\<lambda>c. c\<lparr>ac_status := Dispatched\<rparr>) q"
  by (induction q arbitrary: h) (simp_all add: split_beta Let_def)

lemma dispatch_all_snd:
  "snd (dispatch_all q h)
   = fold (\<lambda>c m. m(ac_commandId c \<mapsto> c\<lparr>ac_status := Dispatched\<rparr>)) q h"
  by (induction q arbitrary: h) (simp_all add: split_beta Let_def)

lemma dom_dispatch_all:
  "dom (snd (dispatch_all q h)) = dom h \<union> ac_commandId ` set q"
  unfolding dispatch_all_snd by (induction q arbitrary: h) auto

lemma ac_stamp_created [simp]:
  "ac_agentId (stamp_created now c) = ac_agentId c"
  "ac_commandId (stamp_created now c) = ac_commandId c"
  "ac_status (stamp_created now c) = ac_status c"
  by (simp_all add: stamp_created_def)

lemma queueCommand_fields:
  "m_agents (queueCommand it now c s) = m_agents s"
  "queue_of i (queueCommand it now c s)
   = (if m_agents s (ac_agentId c) \<noteq> None \<and> i = ac_agentId c
      then queue_of i s @ [stamp_created now c] else queue_of i s)"
  by (auto simp: queueCommand_def queue_of_def Let_def)

lemma dequeue_fields:
  "m_agents (snd (dequeuePendingCommands i s)) = m_agents s"
  "fst (dequeuePendingCommands i s) = map (\<lambda>c. c\<lparr>ac_status := Dispatched\<rparr>) (queue_of i s)"
  "queue_of j (snd (dequeuePendingCommands i s)) = (if j = i then [] else queue_of j s)"
  by (auto simp: dequeuePendingCommands_def queue_of_def split_beta dispatch_all_fst Let_def
      split: option.splits)

section \<open>The command queues are a mailbox\<close>

abbreviation post_command ::
  "agent_command traversal \<Rightarrow> timestamp \<times> agent_command \<Rightarrow> registry \<Rightarrow> registry" where
  "post_command it x s \<equiv> queueCommand it (fst x) (snd x) s"

interpretation commands: fifo_mailbox
  "\<lambda>x s. m_agents s (ac_agentId (snd x)) \<noteq> None"
  "\<lambda>x. ac_agentId (snd x)"
  "\<lambda>x. stamp_created (fst x) (snd x)"
  "\<lambda>c. c\<lparr>ac_status := Dispatched\<rparr>"
  "post_command it"
  dequeuePendingCommands
  queue_of
  for it
proof
  show "post_command it x s = s" if "\<not> m_agents s (ac_agentId (snd x)) \<noteq> None" for x s
    using that by (simp add: queueCommand_def)
qed (simp_all add: queueCommand_fields dequeue_fields)

text \<open>
  Whatever sequence of commands the teachers queue, one poll of an agent whose queue
  was empty returns exactly the commands addressed to it, in the order they were queued,
  each marked as dispatched; a second poll returns nothing, and polls of other agents are
  not affected.
\<close>

theorem commands_delivered_in_order:
  assumes "queue_of i s = []"
  shows "let s1 = fold (post_command it) cmds s; (out, s2) = dequeuePendingCommands i s1 in
     out = map (\<lambda>(now, c). (stamp_created now c)\<lparr>ac_status := Dispatched\<rparr>)
             (filter (\<lambda>(now, c). m_agents s (ac_agentId c) \<noteq> None \<and> ac_agentId c = i) cmds)
     \<and> fst (dequeuePendingCommands i s2) = []
     \<and> (\<forall>j. j \<noteq> i \<longrightarrow> fst (dequeuePendingCommands j s2) = fst (dequeuePendingCommands j s1))"
  using commands.deliver_in_order [OF assms, of it cmds]
    commands.drain_twice [of i "fold (post_command it) cmds s"]
    commands.drain_other [of _ i "fold (post_command it) cmds s"]
  by (simp add: case_prod_unfold Let_def comp_def)

definition sample_command :: "nat \<Rightarrow> agent_command" where
  "sample_command j =
     \<lparr>ac_commandId = replicate (Suc j) CHR ''x'', ac_agentId = ''a'', ac_featureUid = ''lock-screen'',
      ac_operation = ''start'', ac_arguments = [], ac_status = Pending, ac_createdAt = 1,
      ac_completedAt = 0, ac_result = [], ac_durationMs = 0\<rparr>"

definition sample_agent :: agent_info where
  "sample_agent =
     \<lparr>ai_agentId = ''a'', ai_hostname = ''PC-01'', ai_ipAddress = ''10.0.0.1'', ai_agentPort = 11082,
      ai_osVersion = ''Windows 10'', ai_agentVersion = ''1.0.0'', ai_state = Offline,
      ai_registeredAt = 0, ai_lastHeartbeat = 0, ai_capabilities = []\<rparr>"

theorem commands_delivered_in_order_witness:
  "fst (dequeuePendingCommands ''a''
      (fold (post_command (\<lambda>_. [])) [(5, sample_command 0), (6, sample_command 1)]
        (snd (registerAgent 1 sample_agent empty_registry))))
   = map (\<lambda>(now, c). (stamp_created now c)\<lparr>ac_status := Dispatched\<rparr>)
       [(5, sample_command 0), (6, sample_command 1)]"
proof -
  have "queue_of ''a'' (snd (registerAgent 1 sample_agent empty_registry)) = []"
    by (simp add: registerAgent_def sample_agent_def empty_registry_def queue_of_def)
  from commands_delivered_in_order [OF this,
      of "\<lambda>_. []" "[(5, sample_command 0), (6, sample_command 1)]"]
  show ?thesis
    by (simp add: split_beta Let_def registerAgent_def sample_agent_def empty_registry_def
        sample_command_def)
qed

section \<open>Invariant of the registry\<close>

definition registry_inv :: "registry \<Rightarrow> bool" where
  "registry_inv s \<longleftrightarrow>
     finite (dom (m_agents s)) \<and> finite (dom (m_commandHistory s))
     \<and> dom (m_commandQueues s) \<subseteq> dom (m_agents s)
     \<and> filed ai_agentId (m_agents s) \<and> m_agents s [] = None
     \<and> (\<forall>i. \<forall>c \<in> set (queue_of i s). ac_agentId c = i)
     \<and> filed ac_commandId (m_commandHistory s)"

datatype registry_op =
    OpRegister timestamp agent_info
  | OpUnregister uid
  | OpHeartbeat timestamp uid
  | OpUpdateState uid agent_state
  | OpQueue timestamp agent_command
  | OpDequeue uid
  | OpReport timestamp uid command_status string int

fun registry_exec :: "agent_command traversal \<Rightarrow> registry_op \<Rightarrow> registry \<Rightarrow> registry" where
  "registry_exec it (OpRegister now a) s = snd (registerAgent now a s)"
| "registry_exec it (OpUnregister i) s = unregisterAgent i s"
| "registry_exec it (OpHeartbeat now i) s = heartbeat now i s"
| "registry_exec it (OpUpdateState i st) s = updateState i st s"
| "registry_exec it (OpQueue now c) s = queueCommand it now c s"
| "registry_exec it (OpDequeue i) s = snd (dequeuePendingCommands i s)"
| "registry_exec it (OpReport now i st r d) s = reportCommandResult now i st r d s"

text \<open>The states the registry can be in, from its construction on.\<close>

inductive registry_reachable :: "agent_command traversal \<Rightarrow> registry \<Rightarrow> bool"
  for it :: "agent_command traversal" where
  start: "registry_reachable it empty_registry"
| step: "registry_reachable it s \<Longrightarrow> registry_reachable it (registry_exec it op s)"

lemma registry_inv_empty [inv_intros]: "registry_inv empty_registry"
  by (simp add: registry_inv_def empty_registry_def queue_of_def)

lemma registry_inv_agent:
  assumes "registry_inv s" and "ai_agentId a = i" and "i \<noteq> []"
  shows "registry_inv (s\<lparr>m_agents := (m_agents s)(i \<mapsto> a)\<rparr>)"
  using assms by (auto simp: registry_inv_def queue_of_def)

lemma registry_inv_queues:
  assumes "registry_inv s" and "i \<in> dom (m_agents s)" and "\<forall>c \<in> set q. ac_agentId c = i"
    and "finite (dom h)" and "filed ac_commandId h"
  shows "registry_inv (s\<lparr>m_commandQueues := (m_commandQueues s)(i \<mapsto> q), m_commandHistory := h\<rparr>)"
  using assms by (auto simp: registry_inv_def queue_of_def)

lemma registry_inv_register [inv_intros]:
  "registry_inv s \<Longrightarrow> registry_inv (snd (registerAgent now a s))"
  by (simp add: registerAgent_def Let_def registry_inv_agent)

lemma registry_inv_unregister [inv_intros]:
  "registry_inv s \<Longrightarrow> registry_inv (unregisterAgent i s)"
  by (auto simp: registry_inv_def unregisterAgent_def queue_of_def)

lemma registry_inv_known:
  assumes "registry_inv s" and "m_agents s i = Some a"
  shows "ai_agentId a = i" and "i \<noteq> []"
  using assms by (auto simp: registry_inv_def filed_def)

lemma registry_inv_heartbeat [inv_intros]:
  "registry_inv s \<Longrightarrow> registry_inv (heartbeat now i s)"
  by (auto simp: heartbeat_def Let_def split: option.split
      intro!: registry_inv_agent dest: registry_inv_known)

lemma registry_inv_updateState [inv_intros]:
  "registry_inv s \<Longrightarrow> registry_inv (updateState i st s)"
  by (auto simp: updateState_def split: option.split
      intro!: registry_inv_agent dest: registry_inv_known)

lemma registry_inv_queue [inv_intros]:
  assumes inv: "registry_inv s"
  shows "registry_inv (queueCommand it now c s)"
proof (cases "m_agents s (ac_agentId c)")
  case None
  with inv show ?thesis by (simp add: queueCommand_def)
next
  case (Some a)
  define h where "h = (m_commandHistory s)(ac_commandId c \<mapsto> stamp_created now c)"
  define h' where "h' = (if card (dom h) > k_maxCommandHistory
                  then prune_history it k_commandHistoryPruneCount h else h)"
  have h: "finite (dom h)" "filed ac_commandId h"
    using inv by (auto simp: h_def registry_inv_def)
  have sub: "h' k = Some x \<Longrightarrow> h k = Some x" for k x
    by (auto simp: h'_def prune_history_eq split: if_splits)
  have "finite (dom h')" by (rule finite_subset [OF _ h(1)]) (auto dest: sub)
  moreover have "filed ac_commandId h'" by (rule filed_sub [OF h(2) sub])
  moreover have "\<forall>x \<in> set (queue_of (ac_agentId c) s @ [stamp_created now c]).
      ac_agentId x = ac_agentId c"
    using inv by (simp add: registry_inv_def)
  moreover have "queueCommand it now c s
      = s\<lparr>m_commandQueues := (m_commandQueues s)(ac_agentId c \<mapsto>
            queue_of (ac_agentId c) s @ [stamp_created now c]), m_commandHistory := h'\<rparr>"
    using Some by (simp add: queueCommand_def Let_def h_def h'_def)
  ultimately show ?thesis using Some by (simp add: registry_inv_queues inv domI)
qed

lemma registry_inv_dequeue [inv_intros]:
  assumes inv: "registry_inv s"
  shows "registry_inv (snd (dequeuePendingCommands i s))"
proof (cases "m_commandQueues s i")
  case None
  with inv show ?thesis by (simp add: dequeuePendingCommands_def)
next
  case (Some q)
  define h where "h = snd (dispatch_all q (m_commandHistory s))"
  have "filed ac_commandId h"
    using inv unfolding h_def dispatch_all_snd by (intro filed_fold_upd) (simp_all add: registry_inv_def)
  moreover have "finite (dom h)"
    using inv by (simp add: h_def dom_dispatch_all registry_inv_def)
  moreover have "snd (dequeuePendingCommands i s)
      = s\<lparr>m_commandQueues := (m_commandQueues s)(i \<mapsto> []), m_commandHistory := h\<rparr>"
    using Some by (simp add: dequeuePendingCommands_def split_beta Let_def h_def)
  moreover have "i \<in> dom (m_agents s)" using inv Some unfolding registry_inv_def by blast
  ultimately show ?thesis by (simp add: registry_inv_queues inv)
qed

lemma registry_inv_report [inv_intros]:
  assumes "registry_inv s"
  shows "registry_inv (reportCommandResult now i st r d s)"
  using assms
  by (auto simp: registry_inv_def reportCommandResult_def queue_of_def split: option.split
      intro!: filed_upd dest: filedD)

lemma registry_inv_exec: "registry_inv s \<Longrightarrow> registry_inv (registry_exec it op s)"
  by (cases op) (auto intro: inv_intros)

lemma reachable_registry_inv: "registry_reachable it s \<Longrightarrow> registry_inv s"
  by (induction rule: registry_reachable.induct) (auto intro: inv_intros registry_inv_exec)

text \<open>
  In every state the registry can reach, a command queue belongs to a registered
  agent, holds only commands addressed to that agent, agents and history entries are
  filed under their own identifiers, and no agent has the empty identifier.
\<close>

theorem registry_invariant:
  assumes "registry_reachable it s"
  shows "dom (m_commandQueues s) \<subseteq> dom (m_agents s)
    \<and> (\<forall>i q c. m_commandQueues s i = Some q \<and> c \<in> set q \<longrightarrow> ac_agentId c = i)
    \<and> (\<forall>i a. m_agents s i = Some a \<longrightarrow> ai_agentId a = i \<and> i \<noteq> [])
    \<and> (\<forall>k c. m_commandHistory s k = Some c \<longrightarrow> ac_commandId c = k)"
proof (intro conjI allI impI)
  have inv: "registry_inv s" using assms by (rule reachable_registry_inv)
  then show "dom (m_commandQueues s) \<subseteq> dom (m_agents s)" by (simp add: registry_inv_def)
  show "ac_agentId c = i" if "m_commandQueues s i = Some q \<and> c \<in> set q" for i q c
  proof -
    have "c \<in> set (queue_of i s)" using that by (simp add: queue_of_def)
    with inv show ?thesis by (simp add: registry_inv_def)
  qed
  show "ai_agentId a = i" "i \<noteq> []" if "m_agents s i = Some a" for i a
    using registry_inv_known [OF inv that] by simp_all
  show "ac_commandId c = k" if "m_commandHistory s k = Some c" for k c
    using inv that by (auto simp: registry_inv_def dest: filedD)
qed

theorem registry_invariant_witness:
  "dom (m_commandQueues (snd (registerAgent 1 sample_agent empty_registry)))
   \<subseteq> dom (m_agents (snd (registerAgent 1 sample_agent empty_registry)))"
  using registry_invariant [OF registry_reachable.step [OF registry_reachable.start],
      of "\<lambda>_. []" "OpRegister 1 sample_agent"]
  by simp

section \<open>Command history\<close>

text \<open>
  One concrete traversal order, by identifier, for the instances below.
\<close>

definition by_uid :: "'v traversal" where
  "by_uid m = sorted_list_of_set (dom m)"

lemma enumerates_by_uid: "enumerates by_uid"
  by (simp add: enumerates_def by_uid_def)

text \<open>
  Queueing a command never lets the command history grow past its limit of 10000
  entries, whatever order the hash table is traversed in.
\<close>

theorem queueCommand_history_bound:
  assumes "enumerates it" and "finite (dom (m_commandHistory s))"
    and "card (dom (m_commandHistory s)) \<le> k_maxCommandHistory"
  shows "card (dom (m_commandHistory (queueCommand it now c s))) \<le> k_maxCommandHistory"
proof (cases "m_agents s (ac_agentId c)")
  case None
  with assms(3) show ?thesis by (simp add: queueCommand_def)
next
  case (Some a)
  define h where "h = (m_commandHistory s)(ac_commandId c \<mapsto> stamp_created now c)"
  have fin: "finite (dom h)" using assms(2) by (simp add: h_def)
  have "card (dom h) \<le> Suc k_maxCommandHistory"
    using card_dom_upd_le [OF assms(2), of "ac_commandId c" "stamp_created now c"] assms(3)
    unfolding h_def by linarith
  then have "card (dom (prune_history it k_commandHistoryPruneCount h)) \<le> k_maxCommandHistory"
    unfolding card_prune_history [OF assms(1) fin]
    by (simp add: k_commandHistoryPruneCount_def)
  then show ?thesis using Some by (simp add: queueCommand_def Let_def h_def)
qed

theorem queueCommand_history_bound_witness:
  "card (dom (m_commandHistory (queueCommand by_uid 7 (sample_command 0) empty_registry))) \<le> 10000"
  using queueCommand_history_bound [OF enumerates_by_uid, of empty_registry 7 "sample_command 0"]
  by (simp add: empty_registry_def k_maxCommandHistory_def)

lemma reachable_fold_post:
  "registry_reachable it s \<Longrightarrow> registry_reachable it (fold (post_command it) xs s)"
proof (induction xs arbitrary: s)
  case Nil
  then show ?case by simp
next
  case (Cons x xs)
  from registry_reachable.step [OF Cons.prems, of "OpQueue (fst x) (snd x)"] Cons.IH
  show ?case by simp
qed

lemma inj_sample_command: "inj (\<lambda>j. ac_commandId (sample_command j))"
proof (rule injI)
  fix i j assume "ac_commandId (sample_command i) = ac_commandId (sample_command j)"
  then have "length (replicate (Suc i) CHR ''x'') = length (replicate (Suc j) CHR ''x'')"
    unfolding sample_command_def by simp
  then show "i = j" by simp
qed

text \<open>
  The limit is not an invariant: polling writes the polled commands back into the
  history without pruning, so for every bound there is a reachable registry whose history
  is larger.
\<close>

theorem command_history_unbounded:
  "\<exists>s. registry_reachable it s \<and> n \<le> card (dom (m_commandHistory s))"
proof -
  define s0 where "s0 = snd (registerAgent 1 sample_agent empty_registry)"
  define xs where "xs = map (\<lambda>j. (1::int, sample_command j)) [0..<n]"
  define s1 where "s1 = fold (post_command it) xs s0"
  define s2 where "s2 = snd (dequeuePendingCommands ''a'' s1)"
  have "registry_reachable it s0"
    using registry_reachable.step [OF registry_reachable.start, of it "OpRegister 1 sample_agent"]
    by (simp add: s0_def)
  then have r1: "registry_reachable it s1" unfolding s1_def by (rule reachable_fold_post)
  then have r2: "registry_reachable it s2"
    using registry_reachable.step [OF r1, of "OpDequeue ''a''"] by (simp add: s2_def)
  have "queue_of ''a'' s0 = []" "m_agents s0 ''a'' \<noteq> None"
    by (simp_all add: s0_def registerAgent_def sample_agent_def empty_registry_def queue_of_def)
  then have q1: "queue_of ''a'' s1 = map (\<lambda>j. stamp_created 1 (sample_command j)) [0..<n]"
    using commands.box_fold_post [of "''a''" it xs s0]
    by (simp add: s1_def xs_def filter_map comp_def sample_command_def)
  have "(\<lambda>j. ac_commandId (sample_command j)) ` {..<n} \<subseteq> dom (m_commandHistory s2)"
  proof (cases "m_commandQueues s1 ''a''")
    case None
    with q1 show ?thesis by (simp add: queue_of_def lessThan_atLeast0)
  next
    case (Some q)
    with q1 have "q = map (\<lambda>j. stamp_created 1 (sample_command j)) [0..<n]"
      by (simp add: queue_of_def)
    with Some show ?thesis
      by (auto simp: s2_def dequeuePendingCommands_def split_beta Let_def dom_dispatch_all
          image_image lessThan_atLeast0)
  qed
  moreover have "finite (dom (m_commandHistory s2))"
    using reachable_registry_inv [OF r2] by (simp add: registry_inv_def)
  ultimately have "card ((\<lambda>j. ac_commandId (sample_command j)) ` {..<n})
      \<le> card (dom (m_commandHistory s2))"
    by (rule card_mono [rotated])
  then have "n \<le> card (dom (m_commandHistory s2))"
    by (simp add: card_image inj_on_subset [OF inj_sample_command])
  with r2 show ?thesis by blast
qed

text \<open>
  The life of a command: queued for a registered agent whose queue is empty, polled,
  and reported. After the poll the history shows it dispatched, after the report it shows
  the reported status, result, duration and completion time, even when queueing pruned
  the history.
\<close>

theorem command_lifecycle:
  assumes "m_agents s (ac_agentId c) \<noteq> None" and "queue_of (ac_agentId c) s = []"
  shows "let s1 = queueCommand it now c s;
             s2 = snd (dequeuePendingCommands (ac_agentId c) s1);
             s3 = reportCommandResult t (ac_commandId c) st r d s2;
             c2 = (stamp_created now c)\<lparr>ac_status := Dispatched\<rparr>
         in findCommand (ac_commandId c) s2 = ok c2
          \<and> findCommand (ac_commandId c) s3
            = ok (c2\<lparr>ac_status := st, ac_result := r, ac_durationMs := d, ac_completedAt := t\<rparr>)"
proof -
  have q: "m_commandQueues (queueCommand it now c s) (ac_agentId c) = Some [stamp_created now c]"
    using assms by (auto simp: queueCommand_def Let_def)
  show ?thesis
    by (simp add: dequeuePendingCommands_def q reportCommandResult_def findCommand_def Let_def)
qed

theorem command_lifecycle_witness:
  "findCommand ''x'' (reportCommandResult 9 ''x'' Success ''done'' 12
     (snd (dequeuePendingCommands ''a''
        (queueCommand by_uid 5 (sample_command 0)
           (snd (registerAgent 1 sample_agent empty_registry))))))
   = ok (sample_command 0\<lparr>ac_status := Success, ac_result := ''done'', ac_durationMs := 12,
          ac_completedAt := 9\<rparr>)"
  using command_lifecycle
    [of "snd (registerAgent 1 sample_agent empty_registry)" "sample_command 0" by_uid 5 9 Success
        "''done''" 12]
  by (simp add: registerAgent_def sample_agent_def sample_command_def empty_registry_def
      queue_of_def stamp_created_def Let_def)

section \<open>Heartbeats\<close>

definition stale :: "int \<Rightarrow> timestamp \<Rightarrow> agent_info \<Rightarrow> bool" where
  "stale timeout now a \<longleftrightarrow> ai_state a \<noteq> Offline \<and> now - ai_lastHeartbeat a > timeout"

lemma m_agents_updateState:
  "m_agents (updateState j st s) i
   = (if j = i then map_option (\<lambda>a. a\<lparr>ai_state := st\<rparr>) (m_agents s i) else m_agents s i)"
  by (auto simp: updateState_def split: option.split)

lemma monitor_walk_agents:
  "m_agents (fst (monitor_walk timeout now as s)) i
   = (if \<exists>a \<in> set as. ai_agentId a = i \<and> stale timeout now a
      then map_option (\<lambda>a. a\<lparr>ai_state := Offline\<rparr>) (m_agents s i) else m_agents s i)"
proof (induction as arbitrary: s)
  case Nil
  then show ?case by simp
next
  case (Cons a as)
  show ?case
    by (cases "ai_agentId a = i"; cases "m_agents s i")
      (auto simp: split_beta Let_def Cons.IH m_agents_updateState stale_def)
qed

lemma monitor_walk_callbacks:
  "snd (monitor_walk timeout now as s) = map ai_agentId (filter (stale timeout now) as)"
  by (induction as arbitrary: s) (simp_all add: split_beta Let_def stale_def)

lemma monitor_walk_frame:
  "m_commandQueues (fst (monitor_walk timeout now as s)) = m_commandQueues s
   \<and> m_commandHistory (fst (monitor_walk timeout now as s)) = m_commandHistory s"
  by (induction as arbitrary: s) (simp_all add: split_beta Let_def updateState_def split: option.split)

lemma listAgents_filed:
  assumes "enumerates it" and "registry_inv s"
  shows "set (listAgents it s) = ran (m_agents s)" and "distinct (map ai_agentId (listAgents it s))"
    and "a \<in> set (listAgents it s) \<longleftrightarrow> m_agents s (ai_agentId a) = Some a"
proof -
  have fin: "finite (dom (m_agents s))" and filed: "filed ai_agentId (m_agents s)"
    using assms(2) by (simp_all add: registry_inv_def)
  show ran: "set (listAgents it s) = ran (m_agents s)"
    by (rule enumerates_listAgents [OF assms(1) fin])
  show "a \<in> set (listAgents it s) \<longleftrightarrow> m_agents s (ai_agentId a) = Some a"
    using filed by (auto simp: ran ran_def dest: filedD)
  have sub: "distinct ks \<Longrightarrow>
      distinct (map ai_agentId (List.map_filter (m_agents s) ks))
      \<and> ai_agentId ` set (List.map_filter (m_agents s) ks) \<subseteq> set ks" for ks
  proof (induction ks)
    case Nil
    then show ?case by (simp add: List.map_filter_simps)
  next
    case (Cons k ks)
    then show ?case
      using filed by (auto simp: List.map_filter_simps dest: filedD split: option.split)
  qed
  show "distinct (map ai_agentId (listAgents it s))"
    using sub [of "it (m_agents s)"] assms(1) fin by (simp add: listAgents_def enumerates_def)
qed

text \<open>
  An uninterrupted pass of the heartbeat monitor marks exactly the agents that were
  not offline and whose last heartbeat is older than the timeout as offline, calls the
  offline callback exactly once for each of them and for nobody else, and touches nothing
  else in the registry.
\<close>

theorem monitor_pass_correct:
  assumes "enumerates it" and "registry_inv s"
  shows "let (s', cb) = monitor_pass it timeout now s in
     (\<forall>i. m_agents s' i
        = map_option (\<lambda>a. if stale timeout now a then a\<lparr>ai_state := Offline\<rparr> else a) (m_agents s i))
     \<and> distinct cb
     \<and> set cb = {i. \<exists>a. m_agents s i = Some a \<and> stale timeout now a}
     \<and> m_commandQueues s' = m_commandQueues s \<and> m_commandHistory s' = m_commandHistory s"
proof -
  note l = listAgents_filed [OF assms]
  have filed: "filed ai_agentId (m_agents s)" using assms(2) by (simp add: registry_inv_def)
  have agents: "m_agents (fst (monitor_pass it timeout now s)) i
      = map_option (\<lambda>a. if stale timeout now a then a\<lparr>ai_state := Offline\<rparr> else a) (m_agents s i)"
    for i
  proof (cases "m_agents s i")
    case None
    then show ?thesis by (simp add: monitor_pass_def monitor_walk_agents)
  next
    case (Some a)
    with filed have id: "ai_agentId a = i" by (rule filedD)
    have "(\<exists>b \<in> set (listAgents it s). ai_agentId b = i \<and> stale timeout now b) = stale timeout now a"
      using Some id l(3) by (metis option.inject)
    with Some show ?thesis by (simp add: monitor_pass_def monitor_walk_agents)
  qed
  have "set (snd (monitor_pass it timeout now s))
      = {i. \<exists>a. m_agents s i = Some a \<and> stale timeout now a}"
  proof -
    have "set (snd (monitor_pass it timeout now s))
        = ai_agentId ` {a. m_agents s (ai_agentId a) = Some a \<and> stale timeout now a}"
      by (auto simp: monitor_pass_def monitor_walk_callbacks l(3))
    also have "\<dots> = {i. \<exists>a. m_agents s i = Some a \<and> stale timeout now a}" (is "?L = ?R")
    proof
      show "?L \<subseteq> ?R" by auto
      show "?R \<subseteq> ?L"
      proof
        fix i assume "i \<in> ?R"
        then obtain a where a: "m_agents s i = Some a" "stale timeout now a" by auto
        have "ai_agentId a = i" using filed a(1) by (rule filedD)
        with a show "i \<in> ?L" by (intro image_eqI [of _ _ a]) simp_all
      qed
    qed
    finally show ?thesis .
  qed
  moreover have "distinct (snd (monitor_pass it timeout now s))"
    using l(2) by (simp add: monitor_pass_def monitor_walk_callbacks distinct_map_filter)
  ultimately show ?thesis
    using agents monitor_walk_frame [of timeout now "listAgents it s" s]
    by (simp add: split_beta Let_def monitor_pass_def)
qed

theorem monitor_pass_correct_witness:
  "m_agents (fst (monitor_pass by_uid 90 200 (snd (registerAgent 1 sample_agent empty_registry)))) ''a''
     = Some (sample_agent\<lparr>ai_state := Offline, ai_registeredAt := 1, ai_lastHeartbeat := 1\<rparr>)"
  using monitor_pass_correct
    [OF enumerates_by_uid registry_inv_register [OF registry_inv_empty, of 1 sample_agent], of 90 200]
  by (simp add: split_beta Let_def registerAgent_def sample_agent_def empty_registry_def stale_def)

text \<open>
  The monitor's snapshot can be out of date: when an agent that the snapshot shows
  as stale sends its heartbeat before the monitor reaches it, the agent ends the pass
  offline although its heartbeat is the newest there is. Its next heartbeat brings it back
  online.
\<close>

theorem heartbeat_race:
  assumes "enumerates it" and "registry_inv s"
    and "m_agents s i = Some a" and "stale timeout now a"
  shows "let s1 = heartbeat t i s; s2 = fst (monitor_walk timeout now (listAgents it s) s1) in
     (\<exists>b. m_agents s2 i = Some b \<and> ai_state b = Offline \<and> ai_lastHeartbeat b = t)
     \<and> (\<exists>b. m_agents (heartbeat t' i s2) i = Some b \<and> ai_state b = Online \<and> ai_lastHeartbeat b = t')"
proof -
  define s1 where "s1 = heartbeat t i s"
  define s2 where "s2 = fst (monitor_walk timeout now (listAgents it s) s1)"
  have "ai_agentId a = i" using assms(2,3) by (rule registry_inv_known)
  then have "\<exists>b \<in> set (listAgents it s). ai_agentId b = i \<and> stale timeout now b"
    using assms(3,4) listAgents_filed(3) [OF assms(1,2)] by blast
  moreover obtain b where b: "m_agents s1 i = Some b" "ai_lastHeartbeat b = t"
    using assms(3) by (auto simp: s1_def heartbeat_def Let_def)
  ultimately have s2: "m_agents s2 i = Some (b\<lparr>ai_state := Offline\<rparr>)"
    by (simp add: s2_def monitor_walk_agents)
  then have "m_agents (heartbeat t' i s2) i
      = Some (b\<lparr>ai_state := Online, ai_lastHeartbeat := t'\<rparr>)"
    by (simp add: heartbeat_def Let_def)
  with s2 b(2) show ?thesis by (simp add: s1_def [symmetric] s2_def [symmetric] Let_def)
qed

theorem heartbeat_race_witness:
  "\<exists>b. m_agents (fst (monitor_walk 90 200
          (listAgents by_uid (snd (registerAgent 1 sample_agent empty_registry)))
          (heartbeat 200 ''a'' (snd (registerAgent 1 sample_agent empty_registry))))) ''a'' = Some b
       \<and> ai_state b = Offline \<and> ai_lastHeartbeat b = 200"
  using heartbeat_race
    [OF enumerates_by_uid registry_inv_register [OF registry_inv_empty, of 1 sample_agent],
      of "''a''" "sample_agent\<lparr>ai_state := Online, ai_registeredAt := 1, ai_lastHeartbeat := 1\<rparr>"
         90 200 200]
  by (simp add: Let_def registerAgent_def sample_agent_def stale_def)

section \<open>The monitor thread\<close>

definition monitor_inv :: "monitor \<Rightarrow> bool" where
  "monitor_inv m \<longleftrightarrow> hm_threads m = (if hm_running m then 1 else 0)"

lemma monitor_start_inv: "monitor_inv m \<Longrightarrow> monitor_inv (monitor_start t m)"
  by (simp add: monitor_inv_def monitor_start_def)

lemma monitor_stop_inv: "monitor_inv m \<Longrightarrow> monitor_inv (monitor_stop m)"
  by (simp add: monitor_inv_def monitor_stop_def)

end
