(* ===== verification/Connection_Pool.thy ===== *)
theory Connection_Pool
  imports Core_Types
begin

text \<open>
  The connection pool of src/core/ConnectionPool.cpp: it tracks connection tokens and
  enforces a global and a per-host limit. Each public method runs under the pool's mutex.
  The steady clock (in nanoseconds) and the UUID generator's result (\<open>None\<close> when it
  fails) are arguments. The lemmas show that the limits hold in every reachable pool,
  describe every outcome of \<open>acquire\<close>, and give the exact effect of an eviction.
\<close>

record limits =
  perHost :: int
  global :: int
  lifetimeSec :: int
  idleSec :: int

definition default_limits :: limits where
  "default_limits = \<lparr>perHost = 4, global = 64, lifetimeSec = 180, idleSec = 60\<rparr>"

record conn_entry =
  ce_hostname :: string
  ce_port :: "16 word"
  ce_createdAt :: timestamp
  ce_lastUsedAt :: timestamp
  ce_idle :: bool

record pool =
  p_entries :: "uid \<rightharpoonup> conn_entry"
  p_limits :: limits

definition new_pool :: "limits \<Rightarrow> pool" where
  "new_pool l = \<lparr>p_entries = Map.empty, p_limits = l\<rparr>"

definition nanos :: "int \<Rightarrow> int" where
  "nanos sec = 1000000000 * sec"

section \<open>Operations\<close>

text \<open>The loop that counts the entries of one host.\<close>

definition host_entries :: "string \<Rightarrow> pool \<Rightarrow> nat" where
  "host_entries h p = card (keys_where (\<lambda>e. ce_hostname e = h) (p_entries p))"

text \<open>\<^verbatim>\<open>emplace\<close> does nothing when the key is already present.\<close>

definition emplace :: "uid \<Rightarrow> conn_entry \<Rightarrow> (uid \<rightharpoonup> conn_entry) \<Rightarrow> (uid \<rightharpoonup> conn_entry)" where
  "emplace k e m = (if m k = None then m(k \<mapsto> e) else m)"

definition acquire ::
  "timestamp \<Rightarrow> uid option \<Rightarrow> string \<Rightarrow> 16 word \<Rightarrow> pool \<Rightarrow> uid result \<times> pool" where
  "acquire now uuid hostname port p =
     (if int (card (dom (p_entries p))) \<ge> global (p_limits p)
      then (fail ConnectionLimitReached ''Global connection limit reached'', p)
      else if int (host_entries hostname p) \<ge> perHost (p_limits p)
      then (fail ConnectionLimitReached
              (''Per-host connection limit reached for '' @ hostname), p)
      else case uuid of
             None \<Rightarrow> (fail InternalError ''UUID generation failed'', p)
           | Some token \<Rightarrow>
               let entry = \<lparr>ce_hostname = hostname, ce_port = port, ce_createdAt = now,
                            ce_lastUsedAt = now, ce_idle = False\<rparr>
               in (ok token, p\<lparr>p_entries := emplace token entry (p_entries p)\<rparr>))"

definition release :: "timestamp \<Rightarrow> uid \<Rightarrow> pool \<Rightarrow> pool" where
  "release now token p =
     (case p_entries p token of
        None \<Rightarrow> p
      | Some e \<Rightarrow>
          p\<lparr>p_entries := (p_entries p)(token \<mapsto> e\<lparr>ce_idle := True, ce_lastUsedAt := now\<rparr>)\<rparr>)"

definition expired :: "timestamp \<Rightarrow> limits \<Rightarrow> conn_entry \<Rightarrow> bool" where
  "expired now l e =
     (let lifetimeExpired = now - ce_createdAt e > nanos (lifetimeSec l);
          idleExpired = ce_idle e \<and> now - ce_lastUsedAt e > nanos (idleSec l)
      in lifetimeExpired \<or> idleExpired)"

definition evictExpired :: "timestamp \<Rightarrow> pool \<Rightarrow> pool" where
  "evictExpired now p =
     p\<lparr>p_entries := map_keep (\<lambda>_ e. \<not> expired now (p_limits p) e) (p_entries p)\<rparr>"

definition activeCount :: "pool \<Rightarrow> nat" where
  "activeCount p = card (keys_where (\<lambda>e. \<not> ce_idle e) (p_entries p))"

definition hostCount :: "pool \<Rightarrow> nat" where
  "hostCount p = card (ce_hostname ` ran (p_entries p))"

section \<open>The limits are invariants\<close>

definition pool_inv :: "pool \<Rightarrow> bool" where
  "pool_inv p \<longleftrightarrow>
     finite (dom (p_entries p))
     \<and> int (card (dom (p_entries p))) \<le> max 0 (global (p_limits p))
     \<and> (\<forall>h. int (host_entries h p) \<le> max 0 (perHost (p_limits p)))"

datatype pool_op =
    PAcquire timestamp "uid option" string "16 word"
  | PRelease timestamp uid
  | PEvict timestamp

fun pool_exec :: "pool_op \<Rightarrow> pool \<Rightarrow> pool" where
  "pool_exec (PAcquire now u h prt) p = snd (acquire now u h prt p)"
| "pool_exec (PRelease now t) p = release now t p"
| "pool_exec (PEvict now) p = evictExpired now p"

inductive pool_reachable :: "limits \<Rightarrow> pool \<Rightarrow> bool" for l :: limits where
  start: "pool_reachable l (new_pool l)"
| step: "pool_reachable l p \<Longrightarrow> pool_reachable l (pool_exec op p)"

lemma pool_inv_new [inv_intros]: "pool_inv (new_pool l)"
  by (simp add: pool_inv_def new_pool_def host_entries_def keys_where_def)

lemma release_counts:
  "dom (p_entries (release now t p)) = dom (p_entries p)"
  "host_entries h (release now t p) = host_entries h p"
  "p_limits (release now t p) = p_limits p"
  by (auto simp: release_def host_entries_def keys_where_upd_same split: option.splits)

lemma pool_inv_release [inv_intros]: "pool_inv p \<Longrightarrow> pool_inv (release now t p)"
  by (simp add: pool_inv_def release_counts)

lemma pool_inv_evict [inv_intros]:
  assumes inv: "pool_inv p"
  shows "pool_inv (evictExpired now p)"
proof -
  define m where "m = map_keep (\<lambda>_ e. \<not> expired now (p_limits p) e) (p_entries p)"
  have fin: "finite (dom (p_entries p))" using inv by (simp add: pool_inv_def)
  have "card (dom m) \<le> card (dom (p_entries p))"
    unfolding m_def by (rule card_dom_map_keep_le [OF fin])
  moreover have "card (keys_where Q m) \<le> card (keys_where Q (p_entries p))" for Q
    unfolding m_def by (rule card_mono [OF finite_keys_where [OF fin] keys_where_map_keep_subset])
  moreover have "finite (dom m)" unfolding m_def using fin by (rule finite_dom_map_keep)
  ultimately show ?thesis
    using inv unfolding pool_inv_def evictExpired_def m_def [symmetric] host_entries_def
    by (simp, meson of_nat_le_iff order_trans)
qed

lemma pool_inv_acquire [inv_intros]:
  assumes inv: "pool_inv p"
  shows "pool_inv (snd (acquire now u h prt p))"
proof (cases "snd (acquire now u h prt p) = p")
  case True
  with inv show ?thesis by simp
next
  case False
  then obtain token where u: "u = Some token" and fresh: "p_entries p token = None"
    and g: "int (card (dom (p_entries p))) < global (p_limits p)"
    and ph: "int (host_entries h p) < perHost (p_limits p)"
    by (auto simp: acquire_def emplace_def Let_def split: if_splits option.splits)
  have fin: "finite (dom (p_entries p))" using inv by (simp add: pool_inv_def)
  define e where "e = \<lparr>ce_hostname = h, ce_port = prt, ce_createdAt = now,
                       ce_lastUsedAt = now, ce_idle = False\<rparr>"
  have p': "snd (acquire now u h prt p) = p\<lparr>p_entries := (p_entries p)(token \<mapsto> e)\<rparr>"
    using u fresh g ph by (simp add: acquire_def emplace_def e_def)
  have host: "host_entries h' (p\<lparr>p_entries := (p_entries p)(token \<mapsto> e)\<rparr>)
      = (if h' = h then Suc (host_entries h p) else host_entries h' p)" for h'
  proof -
    have "token \<notin> keys_where (\<lambda>e. ce_hostname e = h') (p_entries p)"
      using fresh by (simp add: keys_where_def)
    then show ?thesis
      using fin by (auto simp: host_entries_def keys_where_upd_fresh fresh e_def finite_keys_where)
  qed
  have "\<forall>h'. int (host_entries h' p) \<le> max 0 (perHost (p_limits p))"
    using inv by (simp add: pool_inv_def)
  then have "\<forall>h'. int (host_entries h' (p\<lparr>p_entries := (p_entries p)(token \<mapsto> e)\<rparr>))
      \<le> max 0 (perHost (p_limits p))"
    using ph by (simp add: host)
  moreover have "card (dom ((p_entries p)(token \<mapsto> e))) = Suc (card (dom (p_entries p)))"
    by (rule card_dom_upd_fresh [OF fin fresh])
  ultimately show ?thesis using fin g unfolding p' pool_inv_def by simp
qed

lemma pool_exec_inv: "pool_inv p \<Longrightarrow> pool_inv (pool_exec op p)"
  by (cases op) (auto intro: inv_intros)

lemma pool_exec_limits [simp]: "p_limits (pool_exec op p) = p_limits p"
  by (cases op)
    (auto simp: acquire_def release_def evictExpired_def Let_def split: option.split)

lemma pool_reachable_inv: "pool_reachable l p \<Longrightarrow> pool_inv p \<and> p_limits p = l"
  by (induction rule: pool_reachable.induct)
    (simp_all add: pool_inv_new pool_exec_inv, simp add: new_pool_def)

text \<open>
  In every pool that a sequence of acquisitions, releases and evictions can produce,
  the number of tracked connections is within the global limit and the number of
  connections to any one host is within the per-host limit.
\<close>

theorem pool_limits_hold:
  assumes "pool_reachable l p" and "0 \<le> global l" and "0 \<le> perHost l"
  shows "int (card (dom (p_entries p))) \<le> global l \<and> int (host_entries h p) \<le> perHost l"
  using pool_reachable_inv [OF assms(1)] assms(2,3) unfolding pool_inv_def
  by (metis max_absorb2)

theorem pool_limits_hold_witness:
  "int (card (dom (p_entries (pool_exec (PAcquire 0 (Some ''t'') ''pc'' 11100)
      (new_pool default_limits))))) \<le> 64"
  using pool_limits_hold
    [OF pool_reachable.step [OF pool_reachable.start], of default_limits
      "PAcquire 0 (Some ''t'') ''pc'' 11100" "''pc''"]
  by (simp add: default_limits_def)

section \<open>Outcomes of acquire\<close>

text \<open>
  \<open>acquire\<close> is refused with \<open>ConnectionLimitReached\<close> exactly when one of the two
  limits is exhausted, fails with \<open>InternalError\<close> exactly when a limit is not the reason
  and no UUID could be made, and leaves the pool as it was in both cases; otherwise it
  returns the token, and a fresh token then names a non-idle entry for the host with both
  time stamps set to now, every other entry being untouched.
\<close>

theorem acquire_outcomes:
  "let full = int (card (dom (p_entries p))) \<ge> global (p_limits p)
             \<or> int (host_entries h p) \<ge> perHost (p_limits p);
       (r, p') = acquire now u h prt p
   in (full \<longleftrightarrow> (\<exists>m. r = fail ConnectionLimitReached m))
    \<and> (\<not> full \<and> u = None \<longleftrightarrow> (\<exists>m. r = fail InternalError m))
    \<and> (\<not> is_ok r \<longrightarrow> p' = p)
    \<and> (\<forall>t. \<not> full \<and> u = Some t \<longrightarrow> r = ok t
         \<and> (p_entries p t = None \<longrightarrow>
              p_entries p' t = Some \<lparr>ce_hostname = h, ce_port = prt, ce_createdAt = now,
                                     ce_lastUsedAt = now, ce_idle = False\<rparr>)
         \<and> (\<forall>k. k \<noteq> t \<longrightarrow> p_entries p' k = p_entries p k))"
  by (cases u) (auto simp: acquire_def emplace_def Let_def)

text \<open>The theorem's conditions occur: a full pool refuses, an empty one grants.\<close>

theorem acquire_outcomes_witness:
  "fst (acquire 0 (Some ''t'') ''pc'' 11100 (new_pool default_limits)) = ok ''t''
   \<and> (\<exists>m. fst (acquire 0 (Some ''t'') ''pc'' 11100
              (new_pool (default_limits\<lparr>global := 0\<rparr>))) = fail ConnectionLimitReached m)"
  using acquire_outcomes [of "new_pool default_limits" "''pc''" 0 "Some ''t''" 11100]
    acquire_outcomes [of "new_pool (default_limits\<lparr>global := 0\<rparr>)" "''pc''" 0 "Some ''t''" 11100]
  by (simp add: default_limits_def new_pool_def host_entries_def keys_where_def split_beta Let_def)

section \<open>Release and eviction\<close>

fun release_all :: "(timestamp \<times> uid) list \<Rightarrow> pool \<Rightarrow> pool" where
  "release_all [] p = p"
| "release_all ((now, t) # xs) p = release_all xs (release now t p)"

lemma release_all_counts:
  "dom (p_entries (release_all xs p)) = dom (p_entries p)
   \<and> host_entries h (release_all xs p) = host_entries h p
   \<and> p_limits (release_all xs p) = p_limits p"
  by (induction xs p rule: release_all.induct) (simp_all add: release_counts)

text \<open>
  Releasing connections frees no capacity: an acquisition that is refused for a
  limit is still refused after any number of releases, since released entries keep
  counting against both limits until an eviction removes them.
\<close>

theorem release_frees_nothing:
  assumes "\<exists>m. fst (acquire now u h prt p) = fail ConnectionLimitReached m"
  shows "\<exists>m. fst (acquire now' u' h prt' (release_all xs p)) = fail ConnectionLimitReached m"
  using assms release_all_counts [of xs p h]
  by (auto simp: acquire_def Let_def split: if_splits option.splits)

theorem release_frees_nothing_witness:
  "\<exists>m. fst (acquire 9 (Some ''u'') ''pc'' 11100
        (release_all [(5, ''t'')]
           (snd (acquire 0 (Some ''t'') ''pc'' 11100
                   (new_pool (default_limits\<lparr>perHost := 1\<rparr>))))))
      = fail ConnectionLimitReached m"
  by (rule release_frees_nothing [of 0 None _ 11100])
    (simp add: acquire_def new_pool_def default_limits_def host_entries_def keys_where_def
      emplace_def)

text \<open>
  An eviction keeps an entry, unchanged, exactly when it is within its lifetime and
  either in use or idle for no longer than the idle timeout; evicting twice at the same
  instant is the same as evicting once.
\<close>

theorem evict_exact:
  "(p_entries (evictExpired now p) k = Some e \<longleftrightarrow>
      p_entries p k = Some e
      \<and> now - ce_createdAt e \<le> nanos (lifetimeSec (p_limits p))
      \<and> (ce_idle e \<longrightarrow> now - ce_lastUsedAt e \<le> nanos (idleSec (p_limits p))))
   \<and> evictExpired now (evictExpired now p) = evictExpired now p"
proof -
  have "map_keep P (map_keep P m) = map_keep P m" for P and m :: "uid \<rightharpoonup> conn_entry"
    by (auto simp: map_keep_def split: option.splits)
  then show ?thesis by (auto simp: evictExpired_def expired_def Let_def not_less)
qed

theorem evict_exact_witness:
  "p_entries (evictExpired (nanos 10)
      (snd (acquire 0 (Some ''t'') ''pc'' 11100 (new_pool default_limits)))) ''t''
    = Some \<lparr>ce_hostname = ''pc'', ce_port = 11100, ce_createdAt = 0, ce_lastUsedAt = 0,
            ce_idle = False\<rparr>"
  using evict_exact [of "nanos 10"
      "snd (acquire 0 (Some ''t'') ''pc'' 11100 (new_pool default_limits))" "''t''"
      "\<lparr>ce_hostname = ''pc'', ce_port = 11100, ce_createdAt = 0, ce_lastUsedAt = 0, ce_idle = False\<rparr>"]
  by (simp add: new_pool_def acquire_def emplace_def default_limits_def host_entries_def
      keys_where_def nanos_def)

end
