(* ===== verification/Request_Controller.thy ===== *)
theory Request_Controller
  imports Org_Tables Auth_Requests
begin

text \<open>
  The ticket endpoints, src/api/v1/controllers/RequestController.cpp with
  src/api/v1/dto/RequestDto.hpp: filing a ticket, the two mailboxes, accepting and
  rejecting, over the repositories and the JWT service. A handler gives the response,
  none when an exception escapes it, and the new states of the service and the database.
  The lemmas show who can decide a ticket, and which tickets reach a mailbox.
\<close>

text \<open>What the environment answers to one ticket request, on top of a login request.\<close>

record 'd ticket_env = "'d request_env" +
  ke_auth :: auth_env
  ke_dump :: "json \<Rightarrow> string"
  ke_salt :: "byte list option"
  ke_seconds :: int
  ke_select_oc :: sql_call
  ke_class_oc :: sql_call
  ke_request_oc :: sql_call
  ke_cancel_oc :: sql_call
  ke_insert_oc :: sql_call
  ke_update_oc :: sql_call
  ke_key_err :: string
  ke_tx :: tx_env

text \<open>
  The answer for a caller who is not authenticated is 403. What precedes the token is
  dropped without being looked at.
\<close>

definition requireAuth ::
  "('d, 'e) ticket_env_scheme \<Rightarrow> i18n option \<Rightarrow> string \<Rightarrow> http_request \<Rightarrow> http_response \<Rightarrow> jwt_auth
     \<Rightarrow> (http_response + jwt_token) option \<times> jwt_auth" where
  "requireAuth env inst lang req res a =
     (let authHeader = get_header_value req ''Authorization'';
          forbidden = sendError 403 (tr inst lang ''error.forbidden'') [] res
      in if length authHeader \<le> kBearerPrefixLen then (Some (Inl forbidden), a)
         else
           let (result, a') = authenticate (le_lib env) (ke_auth env)
                                (drop kBearerPrefixLen authHeader) a
           in (case result of
                 None \<Rightarrow> None
               | Some (Inl _) \<Rightarrow> Some (Inl forbidden)
               | Some (Inr ctx) \<Rightarrow>
                   (case ac_token ctx of None \<Rightarrow> Some (Inl forbidden) | Some t \<Rightarrow> Some (Inr t)),
               a'))"

text \<open>The prologue every handler of the controller has.\<close>

definition with_auth ::
  "(string \<Rightarrow> jwt_token \<Rightarrow> school_db \<Rightarrow> http_response \<times> school_db)
     \<Rightarrow> ('d, 'e) ticket_env_scheme \<Rightarrow> i18n option \<Rightarrow> http_request \<Rightarrow> http_response
     \<Rightarrow> jwt_auth \<Rightarrow> school_db \<Rightarrow> http_response option \<times> jwt_auth \<times> school_db" where
  "with_auth body env inst req res a db =
     (let lang = getLocale (le_stod env) inst req in
      case requireAuth env inst lang req res a of
        (None, a') \<Rightarrow> (None, a', db)
      | (Some (Inl res'), a') \<Rightarrow> (Some res', a', db)
      | (Some (Inr t), a') \<Rightarrow> (let (res', db') = body lang t db in (Some res', a', db')))"

text \<open>Where a ticket goes: the recipient and its role, or the error.\<close>

definition route_ticket ::
  "('d, 'e) ticket_env_scheme \<Rightarrow> jwt_token \<Rightarrow> school_db \<Rightarrow> string + string \<times> string" where
  "route_ticket env t db =
     (if tk_role t = ''student'' then
        (case find_student (ke_select_oc env) (tk_subject t) (sd_students db) of
           Inl _ \<Rightarrow> Inl ''Student not found''
         | Inr s \<Rightarrow>
             (case find_class (ke_class_oc env) (sr_classId s) (sd_classes db) of
                Inl _ \<Rightarrow> Inl ''Class not found''
              | Inr c \<Rightarrow>
                  if cr_teacherId c \<noteq> [] then Inr (cr_teacherId c, ''teacher'')
                  else Inr (tk_tenant_id t, ''owner'')))
      else Inr (tk_tenant_id t, ''owner''))"

definition submit_body ::
  "('d, 'e) ticket_env_scheme \<Rightarrow> i18n option \<Rightarrow> http_request \<Rightarrow> http_response
     \<Rightarrow> string \<Rightarrow> jwt_token \<Rightarrow> school_db \<Rightarrow> http_response \<times> school_db" where
  "submit_body env inst req res lang t db =
     (if tk_role t \<noteq> ''student'' \<and> tk_role t \<noteq> ''teacher''
      then (sendError 403 (tr inst lang ''error.forbidden'') [] res, db)
      else case Option.bind (le_parse env (rq_body req)) (\<lambda>j. json_value_string j ''newPassword'' []) of
        None \<Rightarrow> (sendError 400 (tr inst lang ''error.invalid_request_body'') (le_what env) res, db)
      | Some newPassword \<Rightarrow>
     (if newPassword = [] then (sendError 400 ''newPassword is required'' [] res, db)
      else case hashPassword (le_crypto env) (ke_salt env) newPassword of
        Inl _ \<Rightarrow> (sendError 500 ''Password hashing failed'' [] res, db)
      | Inr h \<Rightarrow>
     (case route_ticket env t db of
        Inl title \<Rightarrow> (sendError 404 title [] res, db)
      | Inr (toId, toRole) \<Rightarrow>
          let payload = ke_dump env (JObject [(''password_hash'', JString h)]);
              (r, rs') = submit (le_rnd env) (ke_seconds env) (ke_cancel_oc env) (ke_insert_oc env)
                           (ke_key_err env) (tk_tenant_id t) (tk_subject t) (tk_role t) toId toRole
                           ''change_password'' payload (sd_requests db);
              db' = db\<lparr>sd_requests := rs'\<rparr>
          in case r of
               Inl e \<Rightarrow> (sendError 500 (err_msg e) [] res, db')
             | Inr newId \<Rightarrow>
                 (set_json (JObject [(''id'', JString newId), (''status'', JString ''pending'')])
                    ''application/json'' (res\<lparr>rs_status := 201\<rparr>), db'))))"

definition handleSubmitChangePassword where
  "handleSubmitChangePassword env inst req res = with_auth (submit_body env inst req res) env inst req res"

text \<open>The response object of a ticket; the payload, which holds the hash, is not part of it.\<close>

definition ticket_json :: "request_record \<Rightarrow> json" where
  "ticket_json r = JObject
     [(''id'', JString (rr_id r)), (''tenantId'', JString (rr_tenantId r)),
      (''fromId'', JString (rr_fromId r)), (''fromRole'', JString (rr_fromRole r)),
      (''toId'', JString (rr_toId r)), (''toRole'', JString (rr_toRole r)),
      (''type'', JString (rr_type r)), (''status'', JString (rr_status r)),
      (''createdAt'', JInt (rr_createdAt r)), (''resolvedAt'', JInt (rr_resolvedAt r))]"

definition tickets_response :: "request_record list result \<Rightarrow> http_response \<Rightarrow> http_response" where
  "tickets_response r res =
     (case r of
        Inl e \<Rightarrow> sendError 500 (err_msg e) [] res
      | Inr recs \<Rightarrow>
          set_json (JObject [(''requests'', JArray (map ticket_json recs))]) ''application/json''
            (res\<lparr>rs_status := 200\<rparr>))"

definition may_decide :: "jwt_token \<Rightarrow> bool" where
  "may_decide t \<longleftrightarrow> tk_role t = ''teacher'' \<or> tk_role t = ''owner''"

definition caller_id :: "jwt_token \<Rightarrow> string" where
  "caller_id t = (if tk_role t = ''owner'' then tk_tenant_id t else tk_subject t)"

definition inbox_body ::
  "('d, 'e) ticket_env_scheme \<Rightarrow> i18n option \<Rightarrow> http_response
     \<Rightarrow> string \<Rightarrow> jwt_token \<Rightarrow> school_db \<Rightarrow> http_response \<times> school_db" where
  "inbox_body env inst res lang t db =
     (if \<not> may_decide t then (sendError 403 (tr inst lang ''error.forbidden'') [] res, db)
      else (tickets_response
              (listPendingForRecipient (ke_request_oc env) (caller_id t) (sd_requests db)) res, db))"

definition handleListInbox where
  "handleListInbox env inst req res = with_auth (inbox_body env inst res) env inst req res"

definition outbox_body ::
  "('d, 'e) ticket_env_scheme \<Rightarrow> http_response \<Rightarrow> string \<Rightarrow> jwt_token \<Rightarrow> school_db
     \<Rightarrow> http_response \<times> school_db" where
  "outbox_body env res lang t db =
     (tickets_response (listBySubmitter (ke_request_oc env) (tk_subject t) (sd_requests db)) res, db)"

definition handleListOutbox where
  "handleListOutbox env inst req res = with_auth (outbox_body env res) env inst req res"

text \<open>The checks that accepting and rejecting share, up to the status of the ticket.\<close>

definition decision_checks ::
  "('d, 'e) ticket_env_scheme \<Rightarrow> i18n option \<Rightarrow> http_request \<Rightarrow> http_response
     \<Rightarrow> string \<Rightarrow> jwt_token \<Rightarrow> school_db \<Rightarrow> http_response + request_record" where
  "decision_checks env inst req res lang t db =
     (let forbidden = sendError 403 (tr inst lang ''error.forbidden'') [] res in
      if \<not> may_decide t then Inl forbidden
      else if length (rq_matches req) \<le> 1
      then Inl (sendError 400 (tr inst lang ''error.missing_path_param'') [] res)
      else case find_request (ke_request_oc env) (rq_matches req ! 1) (sd_requests db) of
        Inl _ \<Rightarrow> Inl (sendError 404 ''Request not found'' [] res)
      | Inr p \<Rightarrow>
          if rr_tenantId p \<noteq> tk_tenant_id t then Inl forbidden
          else if rr_toId p \<noteq> caller_id t then Inl forbidden
          else if rr_status p \<noteq> ''pending''
          then Inl (sendError 409 ''Request is already resolved'' [] res)
          else Inr p)"

definition accept_body ::
  "('d, 'e) ticket_env_scheme \<Rightarrow> i18n option \<Rightarrow> http_request \<Rightarrow> http_response
     \<Rightarrow> string \<Rightarrow> jwt_token \<Rightarrow> school_db \<Rightarrow> http_response \<times> school_db" where
  "accept_body env inst req res lang t db =
     (case decision_checks env inst req res lang t db of
        Inl res' \<Rightarrow> (res', db)
      | Inr p \<Rightarrow>
     (case Option.bind (le_parse env (rr_payload p)) (\<lambda>j. json_at_string j ''password_hash'') of
        None \<Rightarrow> (sendError 500 ''Malformed request payload'' [] res, db)
      | Some h \<Rightarrow>
          if \<not> starts_with h ''$argon2id$''
          then (sendError 500 ''Malformed request payload: invalid password_hash format'' [] res, db)
          else if rr_fromRole p \<noteq> ''student'' \<and> rr_fromRole p \<noteq> ''teacher''
          then (sendError 500 ''Unknown from_role in request'' [] res, db)
          else
            let (r, db') = acceptAndApplyPassword (ke_seconds env) (ke_tx env) (rq_matches req ! 1)
                             (rr_fromRole p) (rr_fromId p) h db
            in case r of
                 Inl e \<Rightarrow>
                   (sendError (if err_code e = NotFound then 404
                               else if err_code e = InvalidRequest then 400 else 500)
                      (err_msg e) [] res, db')
               | Inr _ \<Rightarrow> (res\<lparr>rs_status := 204\<rparr>, db')))"

definition handleAccept where
  "handleAccept env inst req res = with_auth (accept_body env inst req res) env inst req res"

definition reject_body ::
  "('d, 'e) ticket_env_scheme \<Rightarrow> i18n option \<Rightarrow> http_request \<Rightarrow> http_response
     \<Rightarrow> string \<Rightarrow> jwt_token \<Rightarrow> school_db \<Rightarrow> http_response \<times> school_db" where
  "reject_body env inst req res lang t db =
     (case decision_checks env inst req res lang t db of
        Inl res' \<Rightarrow> (res', db)
      | Inr p \<Rightarrow>
          let (r, rs') = reject (ke_seconds env) (ke_update_oc env) (rq_matches req ! 1) (sd_requests db)
          in case r of
               Inl e \<Rightarrow> (sendError 500 (err_msg e) [] res, db\<lparr>sd_requests := rs'\<rparr>)
             | Inr _ \<Rightarrow> (res\<lparr>rs_status := 204\<rparr>, db\<lparr>sd_requests := rs'\<rparr>))"

definition handleReject where
  "handleReject env inst req res = with_auth (reject_body env inst req res) env inst req res"

section \<open>Who decides\<close>

text \<open>The token behind the Authorization header of a request, when there is a valid one.\<close>

definition request_token ::
  "('d, 'e) ticket_env_scheme \<Rightarrow> http_request \<Rightarrow> jwt_auth \<Rightarrow> jwt_token option" where
  "request_token env req a =
     (case fst (authenticate (le_lib env) (ke_auth env)
                  (drop kBearerPrefixLen (get_header_value req ''Authorization'')) a) of
        Some (Inr ctx) \<Rightarrow> ac_token ctx
      | _ \<Rightarrow> None)"

lemma requireAuth_token:
  assumes "fst (requireAuth env inst lang req res a) = Some (Inr t)"
  shows "request_token env req a = Some t"
  using assms
  by (auto simp: requireAuth_def request_token_def Let_def split_beta
      split: if_splits option.splits sum.splits)

lemma requireAuth_passes:
  assumes "request_token env req a = Some t"
    and "kBearerPrefixLen < length (get_header_value req ''Authorization'')"
  shows "fst (requireAuth env inst lang req res a) = Some (Inr t)"
  using assms
  by (auto simp: requireAuth_def request_token_def Let_def split_beta
      split: if_splits option.splits sum.splits)

text \<open>A handler without a valid token changes nothing, and otherwise runs its body.\<close>

lemma with_auth_db:
  "snd (snd (with_auth body env inst req res a db)) = db
   \<or> (\<exists>t. request_token env req a = Some t
        \<and> snd (snd (with_auth body env inst req res a db))
            = snd (body (getLocale (le_stod env) inst req) t db))"
proof (cases "\<exists>t. fst (requireAuth env inst (getLocale (le_stod env) inst req) req res a) = Some (Inr t)")
  case True
  then obtain t where "fst (requireAuth env inst (getLocale (le_stod env) inst req) req res a) = Some (Inr t)"
    by blast
  with requireAuth_token [OF this] show ?thesis
    by (simp add: with_auth_def Let_def split_beta prod.case_eq_if)
next
  case False
  then show ?thesis
    by (auto simp: with_auth_def Let_def split: prod.splits option.splits sum.splits)
qed

lemma with_auth_runs:
  assumes "request_token env req a = Some t"
    and "kBearerPrefixLen < length (get_header_value req ''Authorization'')"
  shows "fst (with_auth body env inst req res a db)
           = Some (fst (body (getLocale (le_stod env) inst req) t db))
    \<and> snd (snd (with_auth body env inst req res a db))
           = snd (body (getLocale (le_stod env) inst req) t db)"
  using requireAuth_passes [OF assms, of inst "getLocale (le_stod env) inst req" res]
  by (simp add: with_auth_def Let_def split_beta prod.case_eq_if)

text \<open>\<open>decidable\<close>: an open ticket of the caller's tenant that is addressed to the caller.\<close>

definition decidable :: "jwt_token \<Rightarrow> string \<Rightarrow> request_row \<Rightarrow> bool" where
  "decidable t rid r \<longleftrightarrow>
     may_decide t \<and> pr_id r = rid \<and> pr_tenant_id r = tk_tenant_id t
     \<and> pr_to_id r = caller_id t \<and> pr_status r = ''pending''"

lemma decision_checks_pass:
  assumes "decision_checks env inst req res lang t db = Inr p"
  shows "\<exists>r \<in> set (sd_requests db). decidable t (rq_matches req ! 1) r \<and> p = rowToRecord r"
proof -
  obtain r where "find (\<lambda>r. pr_id r = rq_matches req ! 1) (sd_requests db) = Some r"
    and "p = rowToRecord r" "may_decide t" "rr_tenantId p = tk_tenant_id t"
    "rr_toId p = caller_id t" "rr_status p = ''pending''"
    using assms
    by (auto simp: decision_checks_def Let_def find_request_def run_select_one_ok_iff
        split: if_splits sum.splits)
  then show ?thesis by (auto simp: decidable_def rowToRecord_def dest!: find_SomeD)
qed

lemma accept_body_changes:
  assumes "snd (accept_body env inst req res lang t db) \<noteq> db"
  shows "\<exists>r \<in> set (sd_requests db). decidable t (rq_matches req ! 1) r
    \<and> (\<exists>h. Option.bind (le_parse env (pr_payload r)) (\<lambda>j. json_at_string j ''password_hash'') = Some h
         \<and> account_hash (pr_from_role r) (pr_from_id r) (snd (accept_body env inst req res lang t db))
             = Some h)"
proof -
  obtain p where p: "decision_checks env inst req res lang t db = Inr p"
    using assms by (auto simp: accept_body_def split: sum.splits)
  from decision_checks_pass [OF p] obtain r where r: "r \<in> set (sd_requests db)"
    "decidable t (rq_matches req ! 1) r" "p = rowToRecord r" by blast
  let ?tx = "\<lambda>h. acceptAndApplyPassword (ke_seconds env) (ke_tx env) (rq_matches req ! 1)
    (pr_from_role r) (pr_from_id r) h db"
  obtain h where h: "Option.bind (le_parse env (pr_payload r)) (\<lambda>j. json_at_string j ''password_hash'') = Some h"
    and db': "snd (accept_body env inst req res lang t db) = snd (?tx h)"
    using assms p
    by (auto simp: accept_body_def r(3) rowToRecord_def split_beta split: option.splits if_splits sum.splits)
  have "snd (?tx h) \<noteq> db" using assms db' by simp
  then obtain u where u: "fst (?tx h) = Inr u"
    using accept_error_keeps [of "ke_seconds env" "ke_tx env" "rq_matches req ! 1"
        "pr_from_role r" "pr_from_id r" h db] by (cases "fst (?tx h)") auto
  have "fst (update_password (pr_from_role r) (pr_from_id r) h db) \<noteq> 0"
    using accept_ok_db [OF u] by blast
  from update_password_effect(1) [OF this]
  have "account_hash (pr_from_role r) (pr_from_id r) (snd (?tx h)) = Some h"
    using accept_ok_db [OF u] by simp
  with r h db' show ?thesis by auto
qed

lemma reject_body_changes:
  assumes "snd (reject_body env inst req res lang t db) \<noteq> db"
  shows "\<exists>r \<in> set (sd_requests db). decidable t (rq_matches req ! 1) r"
proof -
  obtain p where "decision_checks env inst req res lang t db = Inr p"
    using assms by (auto simp: reject_body_def split: sum.splits)
  then show ?thesis using decision_checks_pass by blast
qed

text \<open>
  C6: When accepting or rejecting changes anything in the database, the caller holds a
  valid token with the role of a teacher or owner, and the ticket named in the path is an
  open one of the caller's own tenant, addressed to the caller; accepting then gives the
  submitter's account exactly the hash in the ticket.
\<close>

theorem ticket_decision_authorised:
  assumes "decision \<in> {handleAccept env inst req res a db, handleReject env inst req res a db}"
    and "snd (snd decision) \<noteq> db"
  shows "\<exists>t. request_token env req a = Some t
    \<and> (\<exists>r \<in> set (sd_requests db). decidable t (rq_matches req ! 1) r
        \<and> (decision = handleAccept env inst req res a db \<longrightarrow>
             (\<exists>h. Option.bind (le_parse env (pr_payload r)) (\<lambda>j. json_at_string j ''password_hash'')
                  = Some h
                \<and> account_hash (pr_from_role r) (pr_from_id r) (snd (snd decision)) = Some h)))"
proof (cases "decision = handleAccept env inst req res a db")
  case True
  with assms(2) with_auth_db [of "accept_body env inst req res" env inst req res a db]
  obtain t where "request_token env req a = Some t"
    and d: "snd (snd decision)
        = snd (accept_body env inst req res (getLocale (le_stod env) inst req) t db)"
    by (auto simp: handleAccept_def)
  with accept_body_changes [of env inst req res "getLocale (le_stod env) inst req" t db] assms(2)
  show ?thesis by auto
next
  case False
  with assms with_auth_db [of "reject_body env inst req res" env inst req res a db]
  obtain t where "request_token env req a = Some t"
    and d: "snd (snd decision)
        = snd (reject_body env inst req res (getLocale (le_stod env) inst req) t db)"
    by (auto simp: handleReject_def)
  with reject_body_changes [of env inst req res "getLocale (le_stod env) inst req" t db] assms(2)
    False show ?thesis by auto
qed

definition ticket_parse :: "string \<Rightarrow> json option" where
  "ticket_parse body =
     (if body = ''p'' then Some (JObject [(''password_hash'', JString ''$argon2id$new'')])
      else if body = ''new'' then Some (JObject [(''newPassword'', JString ''new'')])
      else None)"

definition sample_ticket_env :: "string list ticket_env" where
  "sample_ticket_env = \<lparr>le_lib = plain_lib, le_crypto = sample_crypto, le_stod = (\<lambda>_. None),
     le_parse = ticket_parse, le_what = ''parse error'', le_now = 1000000000000,
     le_rnd = Some (replicate 16 7), le_teacher_oc = Completes, le_student_oc = Completes,
     ke_auth = env_at 2000000000000, ke_dump = (\<lambda>_. ''p''), ke_salt = Some [], ke_seconds = 2000,
     ke_select_oc = Completes, ke_class_oc = Completes, ke_request_oc = Completes,
     ke_cancel_oc = Completes, ke_insert_oc = Completes, ke_update_oc = Completes, ke_key_err = [],
     ke_tx = \<lparr>tx_begin = None, tx_password = Completes, tx_accept = Completes, tx_commit = None\<rparr>\<rparr>"

definition decide_request :: http_request where
  "decide_request = (bearer_request sample_token)\<lparr>rq_matches := [''/requests/q1/accept'', ''q1'']\<rparr>"

definition ann_ticket_db :: school_db where
  "ann_ticket_db = sample_db [(sample_ticket ''q1'' ''pending'')\<lparr>pr_to_id := ''ann''\<rparr>]"

lemma kBearer_length: "length kBearerPrefix = kBearerPrefixLen"
  by (simp add: kBearerPrefix_def kBearerPrefixLen_def)

lemma decide_request_header [simp]:
  "get_header_value decide_request ''Authorization'' = kBearerPrefix @ sample_token"
  using bearer_request_header [of sample_token]
  by (simp add: decide_request_def get_header_value_def)

lemma decide_request_token:
  "request_token sample_ticket_env decide_request sample_auth
   = Some (token_issued 7200 1000000000000 sample_jti ''ann'' ''teacher'' ''t1'')"
  using sample_token_authenticates
  by (simp add: request_token_def sample_ticket_env_def kBearer_length)

lemma decide_request_accepts:
  "snd (snd (handleAccept sample_ticket_env None decide_request fresh_response sample_auth
               ann_ticket_db)) \<noteq> ann_ticket_db"
proof -
  have "kBearerPrefixLen < length (get_header_value decide_request ''Authorization'')"
    using sample_token_nonempty by (simp add: kBearer_length)
  note runs = with_auth_runs [OF decide_request_token this]
  have "sd_requests (snd (accept_body sample_ticket_env None decide_request fresh_response lang
      (token_issued 7200 1000000000000 sample_jti ''ann'' ''teacher'' ''t1'') ann_ticket_db))
      \<noteq> sd_requests ann_ticket_db" for lang
    by (simp add: accept_body_def decision_checks_def may_decide_def caller_id_def token_issued_def
        find_request_def run_select_one_def ann_ticket_db_def sample_db_def sample_ticket_def
        decide_request_def bearer_request_def sample_request_def rowToRecord_def sample_ticket_env_def
        ticket_parse_def json_at_string_def json_at_def json_get_string_def starts_with_def
        acceptAndApplyPassword_def update_password_def sql_changes_def sql_update_def
        sample_student_def resolve_def ok_def)
  then show ?thesis unfolding handleAccept_def using runs by metis
qed

theorem ticket_decision_authorised_witness:
  "\<exists>t. request_token sample_ticket_env decide_request sample_auth = Some t
    \<and> (\<exists>r \<in> set (sd_requests ann_ticket_db). decidable t ''q1'' r)"
  using ticket_decision_authorised [OF insertI1 decide_request_accepts]
  by (auto simp: decide_request_def)

section \<open>Which tickets are filed\<close>

text \<open>
  No student who has logged in with a password can file a ticket: the token's subject
  is the user name, while the handler looks the student up by identifier. Unless the user
  name happens to be the identifier of some student, the answer is 404 and nothing is
  stored.
\<close>

theorem student_ticket_never_filed:
  assumes "auth_method_from_string (ar_method r) = Logon" and "tenant \<noteq> []"
    and "authenticate_teacher (le_crypto lenv) (le_teacher_oc lenv) (ar_username r) (ar_password r)
           tenant (sv_teachers sv) = Inl e"
    and "authenticate_student (le_crypto lenv) (le_student_oc lenv) (ar_username r) (ar_password r)
           tenant (sv_students sv) = Inr rec"
    and "sr_username rec \<noteq> []"
    and "login_identity lenv sv r tenant = Inr (sub, role, tid)"
    and "request_token env req a = Some t" and "tk_subject t = sub" and "tk_role t = role"
    and "kBearerPrefixLen < length (get_header_value req ''Authorization'')"
    and "list_all (\<lambda>s. st_id s \<noteq> sr_username rec) (sd_students db)"
    and "Option.bind (le_parse env (rq_body req)) (\<lambda>j. json_value_string j ''newPassword'' [])
         = Some pw" and "pw \<noteq> []" and "hashPassword (le_crypto env) (ke_salt env) pw = Inr h"
  shows "fst (handleSubmitChangePassword env inst req res a db)
           = Some (sendError 404 ''Student not found'' [] res)
    \<and> snd (snd (handleSubmitChangePassword env inst req res a db)) = db"
proof -
  have sub: "sub = sr_username rec" "role = ''student''"
    using assms(1-6) by (simp_all add: login_identity_def logon_identity_def)
  have "find (\<lambda>s. st_id s = sub) (sd_students db) = None"
    using assms(11) by (simp add: sub find_None_iff_all list_all_iff)
  then have "route_ticket env t db = Inl ''Student not found''"
    using assms(8,9)
    by (simp add: route_ticket_def sub find_student_def run_select_one_def fail_def split: sql_call.split)
  with assms(9,12-14) have "submit_body env inst req res lang t db
      = (sendError 404 ''Student not found'' [] res, db)" for lang
    by (simp add: submit_body_def sub)
  then show ?thesis
    unfolding handleSubmitChangePassword_def using with_auth_runs [OF assms(7,10)] by simp
qed

definition student_token :: string where
  "student_token = esc_all (plain_fields ''pub''
     (issue_claims 1000000000000 7200 sample_jti ''ann'' ''student'' ''t1''))"

lemma student_token_authenticates:
  "fst (authenticate plain_lib (env_at 2000000000000) student_token sample_auth) = Some (Inr
     \<lparr>ac_authenticated = True,
      ac_token = Some (token_issued 7200 1000000000000 sample_jti ''ann'' ''student'' ''t1''),
      ac_tenant_id = ''t1''\<rparr>)"
proof -
  have "issueToken plain_lib 1000000000000 (Some (replicate 16 7)) sample_auth
      ''ann'' ''student'' ''t1'' = Inr student_token"
    by (simp add: issueToken_def sample_jti_generated sample_auth_def student_token_def
        plain_lib_def ok_def)
  from issued_token_authenticates [OF this sample_jti_generated plain_lib_faithful sample_in_date
      disjI1 [OF refl], of 2000000000000 sample_auth]
  show ?thesis by (simp add: env_at_def sample_auth_def sqlite_empty_def isRevoked_def)
qed

definition student_request :: http_request where
  "student_request = (bearer_request student_token)\<lparr>rq_body := ''new''\<rparr>"

theorem student_ticket_never_filed_witness:
  "fst (handleSubmitChangePassword sample_ticket_env None student_request fresh_response sample_auth
          (sample_db []))
     = Some (sendError 404 ''Student not found'' [] fresh_response)"
proof -
  have hdr: "get_header_value student_request ''Authorization'' = kBearerPrefix @ student_token"
    using bearer_request_header [of student_token] by (simp add: student_request_def get_header_value_def)
  have tok: "request_token sample_ticket_env student_request sample_auth
      = Some (token_issued 7200 1000000000000 sample_jti ''ann'' ''student'' ''t1'')"
    using student_token_authenticates
    by (simp add: request_token_def sample_ticket_env_def kBearer_length hdr)
  have len: "kBearerPrefixLen < length (get_header_value student_request ''Authorization'')"
    by (simp add: hdr kBearer_length student_token_def esc_all_def plain_fields_def)
  have pw: "hashPassword sample_crypto (Some []) ''new'' = Inr ''$argon2id$new''"
    by (simp add: hashPassword_def sample_crypto_def ok_def c_str_def)
  have verify: "verifyPassword sample_crypto ''pw'' ''$argon2id$pw''"
    using sample_verify [of "''pw''" "''pw''"] by simp
  show ?thesis
    using student_ticket_never_filed [OF _ _ _ _ _ ann_login_identity tok _ _ len,
        of "ApiError AuthenticationFailed ''Invalid username or password''"
          "student_from_row sample_student" "sample_db []" "''new''" "''$argon2id$new''" None
          fresh_response] pw verify
    by (simp add: ann_login_def auth_method_from_string_def kAuthMethodHub32KeyUuid_def
        authenticate_teacher_def authenticate_student_ok_iff sample_request_env_def
        sample_services_def sample_student_def student_from_row_def fail_def token_issued_def
        sample_db_def student_request_def sample_ticket_env_def ticket_parse_def
        json_value_string_def json_get_string_def)
qed

end
