(* ===== verification/Media_Rooms.thy ===== *)
theory Media_Rooms
  imports Interfaces Http_Types "HOL-Library.AList"
begin

text \<open>
  The rooms of the media server, src/media/RoomManager.cpp, over the backend interface of
  SfuBackend.hpp, and the backend of development builds, MockSfuBackend.cpp. The outcome of
  the random generator is an argument of every operation that draws from it. The lemmas
  show that rooms and routers agree, in general for any backend that keeps the contract
  \<open>sfu_routers\<close> and then for the code's own, and that consumers refer to producers.
\<close>

section \<open>The room manager\<close>

record room_info =
  ri_locationId :: string
  ri_routerId :: string
  ri_producerCount :: int
  ri_consumerCount :: int

text \<open>
  The rooms are the entries of the hash map in some order of iteration; nothing below
  depends on which.
\<close>

record 'b room_manager =
  mr_rooms :: "(string \<times> room_info) list"
  mr_backend :: 'b

definition new_room_manager :: "'b \<Rightarrow> 'b room_manager" where
  "new_room_manager b = \<lparr>mr_rooms = [], mr_backend = b\<rparr>"

definition getOrCreateRouter ::
  "('e \<Rightarrow> string \<Rightarrow> 'b \<Rightarrow> string result \<times> 'b) \<Rightarrow> 'e \<Rightarrow> string \<Rightarrow> 'b room_manager
     \<Rightarrow> string result \<times> 'b room_manager" where
  "getOrCreateRouter createRouter e locationId m =
     (case map_of (mr_rooms m) locationId of
        Some room \<Rightarrow> (ok (ri_routerId room), m)
      | None \<Rightarrow>
          (case createRouter e locationId (mr_backend m) of
             (Inl err, b) \<Rightarrow> (Inl err, m\<lparr>mr_backend := b\<rparr>)
           | (Inr routerId, b) \<Rightarrow>
               (ok routerId,
                m\<lparr>mr_backend := b,
                  mr_rooms := (locationId,
                     \<lparr>ri_locationId = locationId, ri_routerId = routerId,
                      ri_producerCount = 0, ri_consumerCount = 0\<rparr>) # mr_rooms m\<rparr>)))"

definition getRtpCapabilities ::
  "(string \<Rightarrow> 'b \<Rightarrow> json result) \<Rightarrow> string \<Rightarrow> 'b room_manager \<Rightarrow> json result" where
  "getRtpCapabilities getRouterRtpCapabilities locationId m =
     (case map_of (mr_rooms m) locationId of
        None \<Rightarrow> fail NotFound (''No router found for location: '' @ locationId)
      | Some room \<Rightarrow> getRouterRtpCapabilities (ri_routerId room) (mr_backend m))"

definition destroyRoom ::
  "(string \<Rightarrow> 'b \<Rightarrow> 'b) \<Rightarrow> string \<Rightarrow> 'b room_manager \<Rightarrow> 'b room_manager" where
  "destroyRoom closeRouter locationId m =
     (case map_of (mr_rooms m) locationId of
        None \<Rightarrow> m
      | Some room \<Rightarrow>
          m\<lparr>mr_backend := closeRouter (ri_routerId room) (mr_backend m),
            mr_rooms := AList.delete locationId (mr_rooms m)\<rparr>)"

definition shutdown :: "(string \<Rightarrow> 'b \<Rightarrow> 'b) \<Rightarrow> 'b room_manager \<Rightarrow> 'b room_manager" where
  "shutdown closeRouter m =
     m\<lparr>mr_backend := fold (\<lambda>(l, room). closeRouter (ri_routerId room)) (mr_rooms m) (mr_backend m),
       mr_rooms := []\<rparr>"

definition hasRoom :: "string \<Rightarrow> 'b room_manager \<Rightarrow> bool" where
  "hasRoom locationId m = (map_of (mr_rooms m) locationId \<noteq> None)"

definition roomCount :: "'b room_manager \<Rightarrow> nat" where
  "roomCount m = length (mr_rooms m)"

definition listRooms :: "'b room_manager \<Rightarrow> room_info list" where
  "listRooms m = map snd (mr_rooms m)"

definition with_room ::
  "(room_info \<Rightarrow> room_info) \<Rightarrow> string \<Rightarrow> 'b room_manager \<Rightarrow> 'b room_manager" where
  "with_room f locationId m =
     m\<lparr>mr_rooms := map (\<lambda>(l, room). (l, if l = locationId then f room else room)) (mr_rooms m)\<rparr>"

definition addProducer :: "string \<Rightarrow> 'b room_manager \<Rightarrow> 'b room_manager" where
  "addProducer = with_room (\<lambda>r. r\<lparr>ri_producerCount := ri_producerCount r + 1\<rparr>)"

definition removeProducer :: "string \<Rightarrow> 'b room_manager \<Rightarrow> 'b room_manager" where
  "removeProducer = with_room (\<lambda>r. if ri_producerCount r > 0
     then r\<lparr>ri_producerCount := ri_producerCount r - 1\<rparr> else r)"

definition addConsumer :: "string \<Rightarrow> 'b room_manager \<Rightarrow> 'b room_manager" where
  "addConsumer = with_room (\<lambda>r. r\<lparr>ri_consumerCount := ri_consumerCount r + 1\<rparr>)"

definition removeConsumer :: "string \<Rightarrow> 'b room_manager \<Rightarrow> 'b room_manager" where
  "removeConsumer = with_room (\<lambda>r. if ri_consumerCount r > 0
     then r\<lparr>ri_consumerCount := ri_consumerCount r - 1\<rparr> else r)"

datatype 'e room_op =
    Get_or_create string 'e
  | Destroy_room string
  | Add_producer string
  | Remove_producer string
  | Add_consumer string
  | Remove_consumer string

fun room_step ::
  "('e \<Rightarrow> string \<Rightarrow> 'b \<Rightarrow> string result \<times> 'b) \<Rightarrow> (string \<Rightarrow> 'b \<Rightarrow> 'b)
     \<Rightarrow> 'e room_op \<Rightarrow> 'b room_manager \<Rightarrow> 'b room_manager" where
  "room_step cr cl (Get_or_create l e) m = snd (getOrCreateRouter cr e l m)"
| "room_step cr cl (Destroy_room l) m = destroyRoom cl l m"
| "room_step cr cl (Add_producer l) m = addProducer l m"
| "room_step cr cl (Remove_producer l) m = removeProducer l m"
| "room_step cr cl (Add_consumer l) m = addConsumer l m"
| "room_step cr cl (Remove_consumer l) m = removeConsumer l m"

text \<open>Whenever a router is created its name is new.\<close>

fun fresh_run ::
  "('e \<Rightarrow> 'b \<Rightarrow> bool) \<Rightarrow> ('e \<Rightarrow> string \<Rightarrow> 'b \<Rightarrow> string result \<times> 'b) \<Rightarrow> (string \<Rightarrow> 'b \<Rightarrow> 'b)
     \<Rightarrow> 'e room_op list \<Rightarrow> 'b room_manager \<Rightarrow> bool" where
  "fresh_run fresh cr cl [] m = True"
| "fresh_run fresh cr cl (op # ops) m =
     ((case op of Get_or_create l e \<Rightarrow> hasRoom l m \<or> fresh e (mr_backend m) | _ \<Rightarrow> True)
      \<and> fresh_run fresh cr cl ops (room_step cr cl op m))"

section \<open>Rooms and routers agree\<close>

definition room_routers :: "'b room_manager \<Rightarrow> string list" where
  "room_routers m = map (\<lambda>(l, room). ri_routerId room) (mr_rooms m)"

definition room_inv :: "('b \<Rightarrow> string set) \<Rightarrow> 'b room_manager \<Rightarrow> bool" where
  "room_inv open_routers m \<longleftrightarrow>
     distinct (map fst (mr_rooms m)) \<and> distinct (room_routers m)
     \<and> open_routers (mr_backend m) = set (room_routers m)
     \<and> list_all (\<lambda>(l, room). ri_locationId room = l \<and> 0 \<le> ri_producerCount room
                   \<and> 0 \<le> ri_consumerCount room) (mr_rooms m)"

lemma with_room_inv:
  assumes "room_inv op m"
    and "\<And>r. ri_locationId (f r) = ri_locationId r" and "\<And>r. ri_routerId (f r) = ri_routerId r"
    and "\<And>r. 0 \<le> ri_producerCount r \<Longrightarrow> 0 \<le> ri_producerCount (f r)"
    and "\<And>r. 0 \<le> ri_consumerCount r \<Longrightarrow> 0 \<le> ri_consumerCount (f r)"
  shows "room_inv op (with_room f l m)"
proof -
  have "map fst (mr_rooms (with_room f l m)) = map fst (mr_rooms m)"
    "room_routers (with_room f l m) = room_routers m"
    by (auto simp: with_room_def room_routers_def assms(3))
  moreover have "mr_backend (with_room f l m) = mr_backend m" by (simp add: with_room_def)
  moreover have "list_all (\<lambda>(l, room). ri_locationId room = l \<and> 0 \<le> ri_producerCount room
                   \<and> 0 \<le> ri_consumerCount room) (mr_rooms (with_room f l m))"
    using assms(1,2,4,5) by (auto simp: room_inv_def list_all_iff with_room_def)
  ultimately show ?thesis using assms(1) by (simp only: room_inv_def simp_thms)
qed

lemma count_ops_inv:
  assumes "room_inv op m"
  shows "room_inv op (addProducer l m)" and "room_inv op (removeProducer l m)"
    and "room_inv op (addConsumer l m)" and "room_inv op (removeConsumer l m)"
  unfolding addProducer_def removeProducer_def addConsumer_def removeConsumer_def
  by (rule with_room_inv [OF assms]; simp)+

text \<open>What the room manager makes of any backend that keeps the contract.\<close>

locale sfu_rooms = sfu_routers open_routers fresh create close
  for open_routers :: "'b \<Rightarrow> string set"
    and fresh :: "'e \<Rightarrow> 'b \<Rightarrow> bool"
    and create :: "'e \<Rightarrow> string \<Rightarrow> 'b \<Rightarrow> string result \<times> 'b"
    and close :: "string \<Rightarrow> 'b \<Rightarrow> 'b"
begin

lemma create_inv:
  assumes "room_inv open_routers m" and "hasRoom l m \<or> fresh e (mr_backend m)"
  shows "room_inv open_routers (snd (getOrCreateRouter create e l m))"
proof (cases "map_of (mr_rooms m) l")
  case (Some room)
  then show ?thesis using assms(1) by (simp add: getOrCreateRouter_def)
next
  case None
  obtain r b where c: "create e l (mr_backend m) = (r, b)" by force
  show ?thesis
  proof (cases r)
    case (Inl err)
    then show ?thesis using None c assms(1) create_err [of e l "mr_backend m" err b]
      by (simp add: getOrCreateRouter_def room_inv_def room_routers_def)
  next
    case (Inr rid)
    have "rid \<notin> open_routers (mr_backend m) \<and> open_routers b = insert rid (open_routers (mr_backend m))"
      using create_ok [of e l "mr_backend m" rid b] assms(2) c Inr None by (simp add: hasRoom_def)
    moreover have "l \<notin> set (map fst (mr_rooms m))" using None by (simp add: map_of_eq_None_iff)
    ultimately show ?thesis using None c Inr assms(1)
      by (simp add: getOrCreateRouter_def room_inv_def room_routers_def)
  qed
qed

lemma destroy_inv:
  assumes "room_inv open_routers m"
  shows "room_inv open_routers (destroyRoom close l m)"
proof (cases "map_of (mr_rooms m) l")
  case None
  then show ?thesis using assms by (simp add: destroyRoom_def)
next
  case (Some room)
  have in_rooms: "(l, room) \<in> set (mr_rooms m)" by (rule map_of_SomeD [OF Some])
  let ?rest = "filter (\<lambda>(k', _). l \<noteq> k') (mr_rooms m)"
  have d: "distinct (map fst (mr_rooms m))" "distinct (room_routers m)"
    and o: "open_routers (mr_backend m) = set (room_routers m)"
    using assms by (simp_all add: room_inv_def)
  have "ri_routerId r \<noteq> ri_routerId room" if "(l', r) \<in> set (mr_rooms m)" "l' \<noteq> l" for l' r
    using that in_rooms d(2) by (auto simp: room_routers_def distinct_map inj_on_def)
  moreover have "r = room" if "(l, r) \<in> set (mr_rooms m)" for r
    using that in_rooms d(1) by (meson eq_key_imp_eq_value)
  ultimately have "set (map (\<lambda>(l, room). ri_routerId room) ?rest) = set (room_routers m) - {ri_routerId room}"
    by (fastforce simp: room_routers_def)
  then show ?thesis using assms Some o
    by (auto simp: destroyRoom_def room_inv_def room_routers_def close_open AList.delete_eq list_all_iff
        distinct_map intro: inj_on_subset)
qed

lemma room_step_inv:
  assumes "room_inv open_routers m"
    and "case op of Get_or_create l e \<Rightarrow> hasRoom l m \<or> fresh e (mr_backend m) | _ \<Rightarrow> True"
  shows "room_inv open_routers (room_step create close op m)"
  using assms by (cases op) (simp_all add: create_inv destroy_inv count_ops_inv)

lemma room_run_inv:
  "room_inv open_routers m \<Longrightarrow> fresh_run fresh create close ops m
   \<Longrightarrow> room_inv open_routers (fold (room_step create close) ops m)"
  by (induction ops arbitrary: m) (simp_all add: room_step_inv)

lemma shutdown_closes:
  assumes "room_inv open_routers m"
  shows "open_routers (mr_backend (shutdown close m)) = {}"
proof -
  have "fold (\<lambda>(l, room). close (ri_routerId room)) rooms b
      = fold close (map (\<lambda>(l, room). ri_routerId room) rooms) b" for rooms b
    by (induction rooms arbitrary: b) (simp_all add: split_beta)
  then have "mr_backend (shutdown close m) = fold close (room_routers m) (mr_backend m)"
    by (simp add: shutdown_def room_routers_def)
  then show ?thesis using assms by (simp add: close_all room_inv_def)
qed

end

section \<open>The backend of development builds\<close>

record transport_state =
  ts_routerId :: string
  ts_connected :: bool

record producer_state =
  pd_transportId :: string
  pd_kind :: string
  pd_paused :: bool

record consumer_state =
  cs_transportId :: string
  cs_producerId :: string
  cs_kind :: string

record mock_sfu =
  mk_routers :: "string \<rightharpoonup> string"
  mk_transports :: "string \<rightharpoonup> transport_state"
  mk_producers :: "string \<rightharpoonup> producer_state"
  mk_consumers :: "string \<rightharpoonup> consumer_state"

record transport_info =
  ti_id :: string
  ti_iceParameters :: json
  ti_iceCandidates :: json
  ti_dtlsParameters :: json
  ti_sctpParameters :: json

record producer_info =
  pi_id :: string
  pi_kind :: string
  pi_type :: string

record consumer_info =
  ci_id :: string
  ci_producerId :: string
  ci_kind :: string
  ci_rtpParameters :: json

type_synonym random = "byte list option"

definition new_mock :: mock_sfu where
  "new_mock = \<lparr>mk_routers = Map.empty, mk_transports = Map.empty, mk_producers = Map.empty,
               mk_consumers = Map.empty\<rparr>"

definition uuid_result :: "random \<Rightarrow> string result" where
  "uuid_result rnd =
     (case generateUuid rnd of
        None \<Rightarrow> fail CryptoFailure ''RAND_bytes failed for UUID generation''
      | Some u \<Rightarrow> ok u)"

definition randomHex :: "nat \<Rightarrow> random \<Rightarrow> string" where
  "randomHex n rnd = (case rnd of None \<Rightarrow> replicate (n * 2) CHR ''0'' | Some bs \<Rightarrow> bytes_to_hex bs)"

definition makeRtpCapabilities :: json where
  "makeRtpCapabilities =
     JObject [(''codecs'', JArray
       [JObject [(''mimeType'', JString ''video/H264''), (''kind'', JString ''video''),
                 (''clockRate'', JInt 90000), (''preferredPayloadType'', JInt 96),
                 (''parameters'', JObject
                    [(''level-asymmetry-allowed'', JInt 1), (''packetization-mode'', JInt 1),
                     (''profile-level-id'', JString ''42e01f'')]),
                 (''rtcpFeedback'', JArray
                    [JObject [(''type'', JString ''nack'')],
                     JObject [(''type'', JString ''nack''), (''parameter'', JString ''pli'')],
                     JObject [(''type'', JString ''ccm''), (''parameter'', JString ''fir'')],
                     JObject [(''type'', JString ''goog-remb'')]])],
        JObject [(''mimeType'', JString ''audio/opus''), (''kind'', JString ''audio''),
                 (''clockRate'', JInt 48000), (''channels'', JInt 2),
                 (''preferredPayloadType'', JInt 111),
                 (''parameters'', JObject [(''useinbandfec'', JInt 1)])]])]"

definition zero_fingerprint :: string where
  "zero_fingerprint = concat (replicate 31 ''00:'') @ ''00''"

definition makeFakeTransport :: "string \<Rightarrow> random \<Rightarrow> random \<Rightarrow> transport_info" where
  "makeFakeTransport i rnd8 rnd24 =
     \<lparr>ti_id = i,
      ti_iceParameters = JObject [(''usernameFragment'', JString (randomHex 8 rnd8)),
        (''password'', JString (randomHex 24 rnd24)), (''iceLite'', JBool True)],
      ti_iceCandidates = JArray [JObject [(''foundation'', JString ''udpcandidate''),
        (''priority'', JInt 1076302079), (''ip'', JString ''0.0.0.0''),
        (''protocol'', JString ''udp''), (''port'', JInt 40000), (''type'', JString ''host'')]],
      ti_dtlsParameters = JObject [(''fingerprints'', JArray [JObject
        [(''algorithm'', JString ''sha-256''), (''value'', JString zero_fingerprint)]]),
        (''role'', JString ''auto'')],
      ti_sctpParameters = JNull\<rparr>"

definition consumer_rtp :: "string \<Rightarrow> json" where
  "consumer_rtp kind =
     (if kind = ''video''
      then JObject [(''codecs'', JArray [JObject
             [(''mimeType'', JString ''video/H264''), (''payloadType'', JInt 96),
              (''clockRate'', JInt 90000), (''parameters'', JObject
                [(''packetization-mode'', JInt 1), (''profile-level-id'', JString ''42e01f'')])]]),
             (''encodings'', JArray [JObject [(''ssrc'', JInt 100000)]])]
      else JObject [(''codecs'', JArray [JObject
             [(''mimeType'', JString ''audio/opus''), (''payloadType'', JInt 111),
              (''clockRate'', JInt 48000), (''channels'', JInt 2)]]),
             (''encodings'', JArray [JObject [(''ssrc'', JInt 200000)]])])"

definition createRouter :: "random \<Rightarrow> string \<Rightarrow> mock_sfu \<Rightarrow> string result \<times> mock_sfu" where
  "createRouter rnd roomId b =
     (case uuid_result rnd of
        Inl e \<Rightarrow> (fail InternalError (''createRouter failed: '' @ err_msg e), b)
      | Inr routerId \<Rightarrow> (ok routerId, b\<lparr>mk_routers := (mk_routers b)(routerId \<mapsto> roomId)\<rparr>))"

definition closeRouter :: "string \<Rightarrow> mock_sfu \<Rightarrow> mock_sfu" where
  "closeRouter routerId b = b\<lparr>mk_routers := (mk_routers b)(routerId := None)\<rparr>"

definition getRouterRtpCapabilities :: "string \<Rightarrow> mock_sfu \<Rightarrow> json result" where
  "getRouterRtpCapabilities routerId b =
     (if mk_routers b routerId = None then fail NotFound (''Router not found: '' @ routerId)
      else ok makeRtpCapabilities)"

definition createWebRtcTransport ::
  "random \<Rightarrow> random \<Rightarrow> random \<Rightarrow> string \<Rightarrow> mock_sfu \<Rightarrow> transport_info result \<times> mock_sfu" where
  "createWebRtcTransport rnd rnd8 rnd24 routerId b =
     (if mk_routers b routerId = None then (fail NotFound (''Router not found: '' @ routerId), b)
      else case uuid_result rnd of
        Inl e \<Rightarrow> (fail InternalError (''createWebRtcTransport failed: '' @ err_msg e), b)
      | Inr t \<Rightarrow>
          (ok (makeFakeTransport t rnd8 rnd24),
           b\<lparr>mk_transports := (mk_transports b)(t \<mapsto> \<lparr>ts_routerId = routerId, ts_connected = False\<rparr>)\<rparr>))"

text \<open>
  The log line reads the role out of the parameters and throws, the outer \<open>None\<close>, when they
  are no object or the role is no string; the transport is connected by then.
\<close>

definition connectTransport :: "string \<Rightarrow> json \<Rightarrow> mock_sfu \<Rightarrow> unit result option \<times> mock_sfu" where
  "connectTransport t dtlsParameters b =
     (case mk_transports b t of
        None \<Rightarrow> (Some (fail NotFound (''Transport not found: '' @ t)), b)
      | Some st \<Rightarrow>
          (case json_value_string dtlsParameters ''role'' ''<none>'' of
             None \<Rightarrow> None | Some _ \<Rightarrow> Some (ok ()),
           b\<lparr>mk_transports := (mk_transports b)(t \<mapsto> st\<lparr>ts_connected := True\<rparr>)\<rparr>))"

definition closeTransport :: "string \<Rightarrow> mock_sfu \<Rightarrow> mock_sfu" where
  "closeTransport t b = b\<lparr>mk_transports := (mk_transports b)(t := None)\<rparr>"

definition produce :: "random \<Rightarrow> string \<Rightarrow> string \<Rightarrow> mock_sfu \<Rightarrow> producer_info result \<times> mock_sfu" where
  "produce rnd t kind b =
     (if mk_transports b t = None then (fail NotFound (''Transport not found: '' @ t), b)
      else case uuid_result rnd of
        Inl e \<Rightarrow> (fail InternalError (''produce failed: '' @ err_msg e), b)
      | Inr p \<Rightarrow>
          (ok \<lparr>pi_id = p, pi_kind = kind, pi_type = ''simple''\<rparr>,
           b\<lparr>mk_producers := (mk_producers b)(p \<mapsto>
                \<lparr>pd_transportId = t, pd_kind = kind, pd_paused = False\<rparr>)\<rparr>))"

definition set_paused :: "bool \<Rightarrow> string \<Rightarrow> mock_sfu \<Rightarrow> unit result \<times> mock_sfu" where
  "set_paused v p b =
     (case mk_producers b p of
        None \<Rightarrow> (fail NotFound (''Producer not found: '' @ p), b)
      | Some st \<Rightarrow> (ok (), b\<lparr>mk_producers := (mk_producers b)(p \<mapsto> st\<lparr>pd_paused := v\<rparr>)\<rparr>))"

definition pauseProducer :: "string \<Rightarrow> mock_sfu \<Rightarrow> unit result \<times> mock_sfu" where
  "pauseProducer = set_paused True"

definition resumeProducer :: "string \<Rightarrow> mock_sfu \<Rightarrow> unit result \<times> mock_sfu" where
  "resumeProducer = set_paused False"

definition consume :: "random \<Rightarrow> string \<Rightarrow> string \<Rightarrow> mock_sfu \<Rightarrow> consumer_info result \<times> mock_sfu" where
  "consume rnd t p b =
     (if mk_transports b t = None then (fail NotFound (''Transport not found: '' @ t), b)
      else case mk_producers b p of
        None \<Rightarrow> (fail NotFound (''Producer not found: '' @ p), b)
      | Some st \<Rightarrow>
          (case uuid_result rnd of
             Inl e \<Rightarrow> (fail InternalError (''consume failed: '' @ err_msg e), b)
           | Inr c \<Rightarrow>
               (ok \<lparr>ci_id = c, ci_producerId = p, ci_kind = pd_kind st,
                    ci_rtpParameters = consumer_rtp (pd_kind st)\<rparr>,
                b\<lparr>mk_consumers := (mk_consumers b)(c \<mapsto>
                     \<lparr>cs_transportId = t, cs_producerId = p, cs_kind = pd_kind st\<rparr>)\<rparr>)))"

definition requestKeyFrame :: "string \<Rightarrow> mock_sfu \<Rightarrow> unit result" where
  "requestKeyFrame c b =
     (if mk_consumers b c = None then fail NotFound (''Consumer not found: '' @ c) else ok ())"

definition setConsumerPreferredLayers :: "string \<Rightarrow> int \<Rightarrow> int \<Rightarrow> mock_sfu \<Rightarrow> unit result" where
  "setConsumerPreferredLayers c spatial temporal b =
     (if mk_consumers b c = None then fail NotFound (''Consumer not found: '' @ c) else ok ())"

section \<open>The contract holds\<close>

definition mock_fresh :: "random \<Rightarrow> mock_sfu \<Rightarrow> bool" where
  "mock_fresh rnd b = (case generateUuid rnd of None \<Rightarrow> True | Some u \<Rightarrow> mk_routers b u = None)"

lemma mock_contract:
  "createRouter e l b = (Inr r, b') \<Longrightarrow> mock_fresh e b
     \<Longrightarrow> r \<notin> dom (mk_routers b) \<and> dom (mk_routers b') = insert r (dom (mk_routers b))"
  "createRouter e l b = (Inl x, b') \<Longrightarrow> dom (mk_routers b') = dom (mk_routers b)"
  "dom (mk_routers (closeRouter r b)) = dom (mk_routers b) - {r}"
  by (auto simp: createRouter_def closeRouter_def mock_fresh_def uuid_result_def ok_def fail_def
      split: option.splits)

interpretation mock: sfu_routers "\<lambda>b. dom (mk_routers b)" mock_fresh createRouter closeRouter
  by unfold_locales (rule mock_contract; assumption)+

interpretation mock_rooms: sfu_rooms "\<lambda>b. dom (mk_routers b)" mock_fresh createRouter closeRouter
  by unfold_locales

text \<open>
  With the backend of development builds, after any sequence of room operations in
  which no router is created under a name in use, the routers that run are exactly those of the rooms,
  no two rooms share one and no location has two rooms; a room has capabilities exactly when
  it exists, and the shutdown leaves no router behind.
\<close>

theorem rooms_and_routers_agree:
  fixes ops :: "random room_op list"
  assumes "fresh_run mock_fresh createRouter closeRouter ops (new_room_manager new_mock)"
  defines "m \<equiv> fold (room_step createRouter closeRouter) ops (new_room_manager new_mock)"
  shows "dom (mk_routers (mr_backend m)) = set (room_routers m)
     \<and> distinct (room_routers m) \<and> distinct (map ri_locationId (listRooms m))
     \<and> is_ok (getRtpCapabilities getRouterRtpCapabilities l m) = hasRoom l m
     \<and> mk_routers (mr_backend (shutdown closeRouter m)) = Map.empty"
proof -
  have "room_inv (\<lambda>b. dom (mk_routers b)) (new_room_manager new_mock)"
    by (simp add: room_inv_def new_room_manager_def new_mock_def room_routers_def)
  then have inv: "room_inv (\<lambda>b. dom (mk_routers b)) m"
    unfolding m_def using assms(1) by (rule mock_rooms.room_run_inv)
  then have o: "dom (mk_routers (mr_backend m)) = set (room_routers m)"
    and f: "list_all (\<lambda>(l, room). ri_locationId room = l \<and> 0 \<le> ri_producerCount room
                   \<and> 0 \<le> ri_consumerCount room) (mr_rooms m)"
    by (simp_all add: room_inv_def)
  have "map ri_locationId (listRooms m) = map fst (mr_rooms m)"
    using f by (auto simp: listRooms_def list_all_iff)
  moreover have "is_ok (getRtpCapabilities getRouterRtpCapabilities l m) = hasRoom l m"
  proof (cases "map_of (mr_rooms m) l")
    case (Some room)
    from map_of_SomeD [OF this] have "ri_routerId room \<in> set (room_routers m)"
      by (force simp: room_routers_def)
    then have "mk_routers (mr_backend m) (ri_routerId room) \<noteq> None" using o by blast
    then show ?thesis using Some
      by (simp add: getRtpCapabilities_def hasRoom_def getRouterRtpCapabilities_def)
  qed (simp add: getRtpCapabilities_def hasRoom_def)
  moreover have "mk_routers (mr_backend (shutdown closeRouter m)) = Map.empty"
    using mock_rooms.shutdown_closes [OF inv] by simp
  ultimately show ?thesis using inv by (simp add: room_inv_def)
qed

lemma rooms_and_routers_agree_witness:
  "dom (mk_routers (mr_backend (fold (room_step createRouter closeRouter)
       [Get_or_create ''lab'' (Some (replicate 16 1)), Get_or_create ''lab'' (Some (replicate 16 1)),
        Add_producer ''lab'', Get_or_create ''hall'' None, Destroy_room ''lab'']
       (new_room_manager new_mock))))
   = set (room_routers (fold (room_step createRouter closeRouter)
       [Get_or_create ''lab'' (Some (replicate 16 1)), Get_or_create ''lab'' (Some (replicate 16 1)),
        Add_producer ''lab'', Get_or_create ''hall'' None, Destroy_room ''lab'']
       (new_room_manager new_mock)))"
  by (rule rooms_and_routers_agree [THEN conjunct1])
    (simp add: new_room_manager_def new_mock_def mock_fresh_def hasRoom_def getOrCreateRouter_def
      createRouter_def uuid_result_def generateUuid_def addProducer_def with_room_def)

section \<open>Media flows of the mock\<close>

datatype mock_op =
    Create_router random string
  | Close_router string
  | Create_transport random random random string
  | Connect_transport string json
  | Close_transport string
  | Produce random string string
  | Pause string
  | Resume string
  | Consume random string string

fun mock_step :: "mock_op \<Rightarrow> mock_sfu \<Rightarrow> mock_sfu" where
  "mock_step (Create_router rnd l) b = snd (createRouter rnd l b)"
| "mock_step (Close_router r) b = closeRouter r b"
| "mock_step (Create_transport rnd rnd8 rnd24 r) b = snd (createWebRtcTransport rnd rnd8 rnd24 r b)"
| "mock_step (Connect_transport t j) b = snd (connectTransport t j b)"
| "mock_step (Close_transport t) b = closeTransport t b"
| "mock_step (Produce rnd t k) b = snd (produce rnd t k b)"
| "mock_step (Pause p) b = snd (pauseProducer p b)"
| "mock_step (Resume p) b = snd (resumeProducer p b)"
| "mock_step (Consume rnd t p) b = snd (consume rnd t p b)"

text \<open>A producer never gets the name of an existing one.\<close>

fun fresh_producers :: "mock_op list \<Rightarrow> mock_sfu \<Rightarrow> bool" where
  "fresh_producers [] b = True"
| "fresh_producers (op # ops) b =
     ((case op of
         Produce rnd t k \<Rightarrow>
           (case generateUuid rnd of None \<Rightarrow> True | Some u \<Rightarrow> mk_producers b u = None)
       | _ \<Rightarrow> True) \<and> fresh_producers ops (mock_step op b))"

definition refers :: "mock_sfu \<Rightarrow> consumer_state \<Rightarrow> bool" where
  "refers b c = (case mk_producers b (cs_producerId c) of
                   None \<Rightarrow> False | Some p \<Rightarrow> pd_kind p = cs_kind c)"

definition flows_ok :: "mock_sfu \<Rightarrow> bool" where
  "flows_ok b \<longleftrightarrow> (\<forall>i c. mk_consumers b i = Some c \<longrightarrow> refers b c)"

lemma flows_ok_frame:
  assumes "flows_ok b"
    and "\<And>p st. mk_producers b p = Some st
           \<Longrightarrow> \<exists>st'. mk_producers b' p = Some st' \<and> pd_kind st' = pd_kind st"
    and "\<And>i c. mk_consumers b' i = Some c \<Longrightarrow> mk_consumers b i = Some c \<or> refers b' c"
  shows "flows_ok b'"
  unfolding flows_ok_def
proof (intro allI impI)
  fix i c assume c: "mk_consumers b' i = Some c"
  show "refers b' c"
  proof (cases "mk_consumers b i = Some c")
    case True
    then have "refers b c" using assms(1) by (simp add: flows_ok_def)
    then show ?thesis using assms(2) by (fastforce simp: refers_def split: option.splits)
  next
    case False
    then show ?thesis using assms(3) [OF c] by simp
  qed
qed

lemma flows_step:
  assumes "flows_ok b"
    and "case op of
           Produce rnd t k \<Rightarrow>
             (case generateUuid rnd of None \<Rightarrow> True | Some u \<Rightarrow> mk_producers b u = None)
         | _ \<Rightarrow> True"
  shows "flows_ok (mock_step op b)"
proof (rule flows_ok_frame [OF assms(1)])
  fix p st assume "mk_producers b p = Some st"
  then show "\<exists>st'. mk_producers (mock_step op b) p = Some st' \<and> pd_kind st' = pd_kind st"
    using assms(2)
    by (cases op) (auto simp: createRouter_def closeRouter_def createWebRtcTransport_def
        connectTransport_def closeTransport_def produce_def pauseProducer_def resumeProducer_def
        set_paused_def consume_def uuid_result_def ok_def fail_def split: option.splits sum.splits)
next
  fix i c assume "mk_consumers (mock_step op b) i = Some c"
  then show "mk_consumers b i = Some c \<or> refers (mock_step op b) c"
    by (cases op) (auto simp: createRouter_def closeRouter_def createWebRtcTransport_def
        connectTransport_def closeTransport_def produce_def pauseProducer_def resumeProducer_def
        set_paused_def consume_def refers_def split: option.splits sum.splits if_splits)
qed

lemma flows_run:
  "flows_ok b \<Longrightarrow> fresh_producers ops b \<Longrightarrow> flows_ok (fold mock_step ops b)"
  by (induction ops arbitrary: b) (simp_all add: flows_step)

text \<open>
  In the mock every consumer refers to a producer that exists and has its kind, after
  any operations: nothing removes a producer or changes its kind, not even closing its
  transport or its router.
\<close>

theorem consumers_refer_to_producers:
  assumes "fresh_producers ops new_mock"
    and "mk_consumers (fold mock_step ops new_mock) i = Some c"
  shows "refers (fold mock_step ops new_mock) c"
proof -
  have "flows_ok new_mock" by (simp add: flows_ok_def new_mock_def)
  from flows_run [OF this assms(1)] assms(2) show ?thesis by (simp add: flows_ok_def)
qed

definition random_of :: "byte \<Rightarrow> random" where "random_of b = Some (replicate 16 b)"

definition uuid_of :: "byte \<Rightarrow> string" where "uuid_of b = uuid_print 0 (uuid_bytes (replicate 16 b))"

lemma generate_random_of: "generateUuid (random_of b) = Some (uuid_of b)"
  by (simp add: generateUuid_def random_of_def uuid_of_def)

definition sample_flow :: "mock_op list" where
  "sample_flow =
     [Create_router (random_of 1) ''lab'', Create_transport (random_of 2) None None (uuid_of 1),
      Produce (random_of 3) (uuid_of 2) ''video'', Consume (random_of 4) (uuid_of 2) (uuid_of 3),
      Close_transport (uuid_of 2)]"

lemma consumers_refer_to_producers_witness:
  "refers (fold mock_step sample_flow new_mock)
     \<lparr>cs_transportId = uuid_of 2, cs_producerId = uuid_of 3, cs_kind = ''video''\<rparr>"
proof (rule consumers_refer_to_producers)
  show "fresh_producers sample_flow new_mock"
    by (simp add: sample_flow_def new_mock_def generate_random_of createRouter_def
        createWebRtcTransport_def uuid_result_def)
  show "mk_consumers (fold mock_step sample_flow new_mock) (uuid_of 4)
      = Some \<lparr>cs_transportId = uuid_of 2, cs_producerId = uuid_of 3, cs_kind = ''video''\<rparr>"
    by (simp add: sample_flow_def new_mock_def generate_random_of createRouter_def
        createWebRtcTransport_def produce_def consume_def closeTransport_def uuid_result_def)
qed

end
