(* ===== verification/Worker_Channel.thy ===== *)
theory Worker_Channel
  imports Text_Utils "HOL-Library.AList"
begin

text \<open>
  The message channel to the media worker, src/media/WorkerChannel.cpp. Any number of
  threads call \<^verbatim>\<open>request\<close>; the worker thread reads the queue and writes responses. The steps
  are the stretches of code between which another thread can run: each critical section, the
  check of the closed flag, the return. What the FlatBuffers library makes of a message is
  the argument \<open>body\<close>. The lemmas show that a response reaches the request it answers, how
  long request identifiers stay unique, and two races.
\<close>

section \<open>State\<close>

datatype message_body =
    Response (body_id: "32 word") (body_accepted: bool)
  | Notification
  | Log
  | Unknown_body
  | Invalid_message

record pending_request =
  pr_response :: "byte list"
  pr_completed :: bool

text \<open>
  Where a call of \<^verbatim>\<open>request\<close> stands. The number is its \<^verbatim>\<open>PendingRequest\<close>, an index of the heap:
  the map of pending requests and the thread share it.
\<close>

datatype call_phase =
    Checked "32 word" "byte list"
  | Registered "32 word" "byte list" nat
  | Waiting "32 word" nat
  | Woken "32 word" nat
  | Erased "32 word" nat
  | Returned "32 word" "byte list"

text \<open>
  \<open>wc_marking\<close>: \<^verbatim>\<open>close\<close> has set the flag and not yet woken the waiting calls. \<open>wc_writer\<close>:
  the worker thread has found the pending request its message answers and not yet stored it.
  \<open>wc_notified\<close> is what the notification callback has been called with, once one is set.
\<close>

record channel =
  wc_nextId :: "32 word"
  wc_closed :: bool
  wc_marking :: bool
  wc_outQueue :: "byte list list"
  wc_pending :: "(32 word \<times> nat) list"
  wc_heap :: "pending_request list"
  wc_callback :: bool
  wc_notified :: "byte list list"
  wc_calls :: "nat \<rightharpoonup> call_phase"
  wc_writer :: "(nat \<times> byte list) option"

definition new_channel :: channel where
  "new_channel =
     \<lparr>wc_nextId = 0, wc_closed = False, wc_marking = False, wc_outQueue = [],
      wc_pending = [], wc_heap = [], wc_callback = False, wc_notified = [], wc_calls = Map.empty,
      wc_writer = None\<rparr>"

section \<open>Request identifiers\<close>

definition genRequestId :: "channel \<Rightarrow> 32 word \<times> channel" where
  "genRequestId s =
     (let i = wc_nextId s + 1
      in if i = 0 then (1, s\<lparr>wc_nextId := 1\<rparr>) else (i, s\<lparr>wc_nextId := i\<rparr>))"

fun generated_ids :: "nat \<Rightarrow> channel \<Rightarrow> (32 word) list" where
  "generated_ids 0 s = []"
| "generated_ids (Suc n) s = (let (i, s') = genRequestId s in i # generated_ids n s')"

lemma genRequestId_unat:
  "unat (fst (genRequestId s)) = unat (wc_nextId s) mod (2 ^ 32 - 1) + 1"
  "wc_nextId (snd (genRequestId s)) = fst (genRequestId s)"
proof -
  let ?x = "wc_nextId s"
  have lt: "unat ?x < 2 ^ 32" using unsigned_less [of ?x] by simp
  show "unat (fst (genRequestId s)) = unat ?x mod (2 ^ 32 - 1) + 1"
  proof (cases "unat ?x = 2 ^ 32 - 1")
    case True
    then have "?x + 1 = 0" by (simp add: unat_eq_zero unat_word_ariths flip: unat_eq_0)
    then show ?thesis using True by (simp add: genRequestId_def)
  next
    case False
    with lt have "unat (?x + 1) = unat ?x + 1" by (simp add: unat_word_ariths)
    moreover from this have "?x + 1 \<noteq> 0" by (metis add_is_0 one_neq_zero unat_0)
    ultimately show ?thesis using False lt by (simp add: genRequestId_def Let_def)
  qed
  show "wc_nextId (snd (genRequestId s)) = fst (genRequestId s)"
    by (simp add: genRequestId_def Let_def)
qed

lemma mod_add_left_cancel:
  assumes "(a + i) mod m = (a + j) mod (m :: nat)"
  shows "i mod m = j mod m"
proof -
  have "(int (a + i) - int a) mod int m = (int (a + j) - int a) mod int m"
    using assms by (metis mod_diff_left_eq zmod_int)
  then show ?thesis by (metis add_diff_cancel_left' of_nat_add of_nat_eq_iff zmod_int)
qed

lemma length_generated_ids [simp]: "length (generated_ids n s) = n"
  by (induction n arbitrary: s) (simp_all add: case_prod_beta Let_def)

lemma generated_ids_nth:
  "i < n \<Longrightarrow> unat (generated_ids n s ! i) = (unat (wc_nextId s) + i) mod (2 ^ 32 - 1) + 1"
proof (induction n arbitrary: i s)
  case (Suc n)
  show ?case
  proof (cases i)
    case 0
    then show ?thesis by (simp add: case_prod_beta Let_def genRequestId_unat)
  next
    case (Suc j)
    with Suc.prems have "j < n" by simp
    have "Suc (j + x mod m) mod m = Suc (j + x) mod m" for x m :: nat
      by (metis mod_Suc_eq mod_add_right_eq)
    with Suc.IH [OF \<open>j < n\<close>, of "snd (genRequestId s)"] Suc show ?thesis
      by (simp add: case_prod_beta Let_def genRequestId_unat ac_simps)
  qed
qed simp

text \<open>
  A request identifier is never 0, the value reserved as invalid, also when the 32-bit
  counter wraps, and any \<open>2^32 - 1\<close> consecutive ones are pairwise different.
\<close>

theorem request_ids_unique:
  assumes "n \<le> 2 ^ 32 - 1"
  shows "0 \<notin> set (generated_ids n s) \<and> distinct (generated_ids n s)"
proof
  show "0 \<notin> set (generated_ids n s)"
  proof
    assume "0 \<in> set (generated_ids n s)"
    then obtain i where "i < n" "generated_ids n s ! i = 0" by (auto simp: in_set_conv_nth)
    then show False using generated_ids_nth [of i n s] by simp
  qed
  show "distinct (generated_ids n s)"
    unfolding distinct_conv_nth
  proof (intro allI impI)
    fix i j assume ij: "i < length (generated_ids n s)" "j < length (generated_ids n s)" "i \<noteq> j"
    show "generated_ids n s ! i \<noteq> generated_ids n s ! j"
    proof
      assume "generated_ids n s ! i = generated_ids n s ! j"
      then have "(unat (wc_nextId s) + i) mod (2 ^ 32 - 1) = (unat (wc_nextId s) + j) mod (2 ^ 32 - 1)"
        using ij generated_ids_nth [of i n s] generated_ids_nth [of j n s] by simp
      then have "i mod (2 ^ 32 - 1) = j mod (2 ^ 32 - 1)"
        by (rule mod_add_left_cancel)
      then show False using ij assms by simp
    qed
  qed
qed

lemma request_ids_unique_witness:
  "0 \<notin> set (generated_ids 3 (new_channel\<lparr>wc_nextId := - 2\<rparr>))
   \<and> distinct (generated_ids 3 (new_channel\<lparr>wc_nextId := - 2\<rparr>))"
  by (rule request_ids_unique) simp

section \<open>The steps\<close>

definition call_check :: "nat \<Rightarrow> 32 word \<Rightarrow> byte list \<Rightarrow> channel \<Rightarrow> channel" where
  "call_check p rid data s =
     (case wc_calls s p of
        None \<Rightarrow> s\<lparr>wc_calls := (wc_calls s)(p \<mapsto> if wc_closed s then Returned rid [] else Checked rid data)\<rparr>
      | Some _ \<Rightarrow> s)"

definition call_register :: "nat \<Rightarrow> channel \<Rightarrow> channel" where
  "call_register p s =
     (case wc_calls s p of
        Some (Checked rid data) \<Rightarrow>
          s\<lparr>wc_heap := wc_heap s @ [\<lparr>pr_response = [], pr_completed = False\<rparr>],
            wc_pending := AList.update rid (length (wc_heap s)) (wc_pending s),
            wc_calls := (wc_calls s)(p \<mapsto> Registered rid data (length (wc_heap s)))\<rparr>
      | _ \<Rightarrow> s)"

definition call_enqueue :: "nat \<Rightarrow> channel \<Rightarrow> channel" where
  "call_enqueue p s =
     (case wc_calls s p of
        Some (Registered rid data c) \<Rightarrow>
          s\<lparr>wc_outQueue := wc_outQueue s @ [data], wc_calls := (wc_calls s)(p \<mapsto> Waiting rid c)\<rparr>
      | _ \<Rightarrow> s)"

text \<open>The wait ends when the request is completed or, \<open>timeout\<close>, ten seconds have passed.\<close>

definition call_wake :: "bool \<Rightarrow> nat \<Rightarrow> channel \<Rightarrow> channel" where
  "call_wake timeout p s =
     (case wc_calls s p of
        Some (Waiting rid c) \<Rightarrow>
          if timeout \<or> pr_completed (wc_heap s ! c)
          then s\<lparr>wc_calls := (wc_calls s)(p \<mapsto> Woken rid c)\<rparr> else s
      | _ \<Rightarrow> s)"

definition call_erase :: "nat \<Rightarrow> channel \<Rightarrow> channel" where
  "call_erase p s =
     (case wc_calls s p of
        Some (Woken rid c) \<Rightarrow>
          s\<lparr>wc_pending := AList.delete rid (wc_pending s), wc_calls := (wc_calls s)(p \<mapsto> Erased rid c)\<rparr>
      | _ \<Rightarrow> s)"

text \<open>The response is moved out of the shared object, without its mutex.\<close>

definition call_return :: "nat \<Rightarrow> channel \<Rightarrow> channel" where
  "call_return p s =
     (case wc_calls s p of
        Some (Erased rid c) \<Rightarrow>
          s\<lparr>wc_calls := (wc_calls s)(p \<mapsto> Returned rid (pr_response (wc_heap s ! c))),
            wc_heap := (wc_heap s)[c := (wc_heap s ! c)\<lparr>pr_response := []\<rparr>]\<rparr>
      | _ \<Rightarrow> s)"

definition notify_worker :: "byte list \<Rightarrow> channel \<Rightarrow> channel" where
  "notify_worker data s =
     (if wc_closed s then s else s\<lparr>wc_outQueue := wc_outQueue s @ [data]\<rparr>)"

definition close_flag :: "channel \<Rightarrow> channel" where
  "close_flag s = s\<lparr>wc_closed := True, wc_marking := True\<rparr>"

definition close_mark :: "channel \<Rightarrow> channel" where
  "close_mark s =
     (if wc_marking s
      then s\<lparr>wc_marking := False,
             wc_heap := map (\<lambda>(c, r). if c \<in> snd ` set (wc_pending s) then r\<lparr>pr_completed := True\<rparr> else r)
                          (enumerate 0 (wc_heap s))\<rparr>
      else s)"

definition setNotificationCallback :: "channel \<Rightarrow> channel" where
  "setNotificationCallback s = s\<lparr>wc_callback := True\<rparr>"

definition channelRead :: "channel \<Rightarrow> byte list option \<times> channel" where
  "channelRead s =
     (case wc_outQueue s of
        [] \<Rightarrow> (None, s)
      | m # q \<Rightarrow> (Some m, s\<lparr>wc_outQueue := q\<rparr>))"

text \<open>The worker thread writes one message at a time.\<close>

definition onWorkerMessage :: "(byte list \<Rightarrow> message_body) \<Rightarrow> byte list \<Rightarrow> channel \<Rightarrow> channel" where
  "onWorkerMessage body data s =
     (case body data of
        Response i accepted \<Rightarrow>
          (case map_of (wc_pending s) i of
             None \<Rightarrow> s
           | Some c \<Rightarrow> s\<lparr>wc_writer := Some (c, data)\<rparr>)
      | Notification \<Rightarrow> if wc_callback s then s\<lparr>wc_notified := wc_notified s @ [data]\<rparr> else s
      | _ \<Rightarrow> s)"

definition channelWrite :: "(byte list \<Rightarrow> message_body) \<Rightarrow> byte list \<Rightarrow> channel \<Rightarrow> channel" where
  "channelWrite body message s =
     (if wc_writer s \<noteq> None \<or> length message \<le> 4 then s
      else onWorkerMessage body (drop 4 message) s)"

definition worker_store :: "channel \<Rightarrow> channel" where
  "worker_store s =
     (case wc_writer s of
        None \<Rightarrow> s
      | Some (c, data) \<Rightarrow>
          s\<lparr>wc_heap := (wc_heap s)[c := \<lparr>pr_response = data, pr_completed = True\<rparr>],
            wc_writer := None\<rparr>)"

datatype channel_event =
    Check nat "32 word" "byte list"
  | Register nat
  | Enqueue nat
  | Wake bool nat
  | Erase nat
  | Return nat
  | Notify "byte list"
  | Set_callback
  | Close_flag
  | Close_mark
  | Read
  | Write "byte list"
  | Store

text \<open>An event that is not possible in a state leaves it as it is.\<close>

fun channel_exec :: "(byte list \<Rightarrow> message_body) \<Rightarrow> channel_event \<Rightarrow> channel \<Rightarrow> channel" where
  "channel_exec body (Check p rid data) s = call_check p rid data s"
| "channel_exec body (Register p) s = call_register p s"
| "channel_exec body (Enqueue p) s = call_enqueue p s"
| "channel_exec body (Wake timeout p) s = call_wake timeout p s"
| "channel_exec body (Erase p) s = call_erase p s"
| "channel_exec body (Return p) s = call_return p s"
| "channel_exec body (Notify data) s = notify_worker data s"
| "channel_exec body Set_callback s = setNotificationCallback s"
| "channel_exec body Close_flag s = close_flag s"
| "channel_exec body Close_mark s = close_mark s"
| "channel_exec body Read s = snd (channelRead s)"
| "channel_exec body (Write message) s = channelWrite body message s"
| "channel_exec body Store s = worker_store s"

text \<open>The states that occur.\<close>

inductive channel_reachable :: "(byte list \<Rightarrow> message_body) \<Rightarrow> channel \<Rightarrow> bool" for body where
  start: "channel_reachable body new_channel"
| step: "channel_reachable body s \<Longrightarrow> channel_reachable body (channel_exec body e s)"

lemma channel_reachable_run: "channel_reachable body s \<Longrightarrow> channel_reachable body (fold (channel_exec body) es s)"
  by (induction es arbitrary: s) (auto intro: channel_reachable.step)

section \<open>Responses reach their requests\<close>

definition answers :: "(byte list \<Rightarrow> message_body) \<Rightarrow> byte list \<Rightarrow> 32 word \<Rightarrow> bool" where
  "answers body data rid = (case body data of Response i _ \<Rightarrow> i = rid | _ \<Rightarrow> False)"

lemma answers_Response: "body d = Response i a \<Longrightarrow> answers body d i"
  by (simp add: answers_def)

fun phase_object :: "call_phase \<Rightarrow> (32 word \<times> nat) option" where
  "phase_object (Registered rid _ c) = Some (rid, c)"
| "phase_object (Waiting rid c) = Some (rid, c)"
| "phase_object (Woken rid c) = Some (rid, c)"
| "phase_object (Erased rid c) = Some (rid, c)"
| "phase_object _ = None"

text \<open>\<open>own c\<close> is the identifier of the request the object \<open>c\<close> was made for.\<close>

definition channel_inv :: "(byte list \<Rightarrow> message_body) \<Rightarrow> (nat \<Rightarrow> 32 word) \<Rightarrow> channel \<Rightarrow> bool" where
  "channel_inv body own s \<longleftrightarrow>
     (\<forall>rid c. map_of (wc_pending s) rid = Some c \<longrightarrow> own c = rid \<and> c < length (wc_heap s)) \<and>
     (\<forall>p ph rid c. wc_calls s p = Some ph \<longrightarrow> phase_object ph = Some (rid, c)
        \<longrightarrow> own c = rid \<and> c < length (wc_heap s)) \<and>
     (\<forall>c d. wc_writer s = Some (c, d) \<longrightarrow> c < length (wc_heap s) \<and> answers body d (own c)) \<and>
     (\<forall>c < length (wc_heap s). pr_response (wc_heap s ! c) = []
        \<or> answers body (pr_response (wc_heap s ! c)) (own c)) \<and>
     (\<forall>p rid r. wc_calls s p = Some (Returned rid r) \<longrightarrow> r = [] \<or> answers body r rid)"

lemma channel_invD:
  assumes "channel_inv body own s"
  shows "map_of (wc_pending s) rid = Some c \<Longrightarrow> own c = rid \<and> c < length (wc_heap s)"
    and "wc_calls s p = Some ph \<Longrightarrow> phase_object ph = Some (rid, c)
           \<Longrightarrow> own c = rid \<and> c < length (wc_heap s)"
    and "wc_writer s = Some (c, d) \<Longrightarrow> c < length (wc_heap s) \<and> answers body d (own c)"
    and "c < length (wc_heap s) \<Longrightarrow> pr_response (wc_heap s ! c) = []
           \<or> answers body (pr_response (wc_heap s ! c)) (own c)"
    and "wc_calls s p = Some (Returned rid r) \<Longrightarrow> r = [] \<or> answers body r rid"
  using assms unfolding channel_inv_def by blast+

lemma channel_invI:
  assumes "\<And>rid c. map_of (wc_pending s) rid = Some c \<Longrightarrow> own c = rid \<and> c < length (wc_heap s)"
    and "\<And>p ph rid c. wc_calls s p = Some ph \<Longrightarrow> phase_object ph = Some (rid, c)
           \<Longrightarrow> own c = rid \<and> c < length (wc_heap s)"
    and "\<And>c d. wc_writer s = Some (c, d) \<Longrightarrow> c < length (wc_heap s) \<and> answers body d (own c)"
    and "\<And>c. c < length (wc_heap s) \<Longrightarrow> pr_response (wc_heap s ! c) = []
           \<or> answers body (pr_response (wc_heap s ! c)) (own c)"
    and "\<And>p rid r. wc_calls s p = Some (Returned rid r) \<Longrightarrow> r = [] \<or> answers body r rid"
  shows "channel_inv body own s"
  using assms unfolding channel_inv_def by blast

lemma call_register_inv:
  assumes "channel_inv body own s"
  shows "\<exists>own'. channel_inv body own' (call_register p s)"
proof (cases "\<exists>rid data. wc_calls s p = Some (Checked rid data)")
  case True
  then obtain rid data where r: "wc_calls s p = Some (Checked rid data)" by blast
  let ?n = "length (wc_heap s)"
  note d = channel_invD [OF assms]
  have "channel_inv body (own(?n := rid)) (call_register p s)"
  proof (rule channel_invI, goal_cases)
    case (1 rid' c)
    then show ?case using d(1) [of rid' c] by (auto simp: call_register_def r update_conv' split: if_splits)
  next
    case (2 q ph rid' c)
    then show ?case using d(2) [of q ph rid' c] by (auto simp: call_register_def r split: if_splits)
  next
    case (3 c dt)
    then show ?case using d(3) [of c dt] by (auto simp: call_register_def r)
  next
    case (4 c)
    then show ?case using d(4) [of c] by (cases "c = ?n") (auto simp: call_register_def r nth_append)
  next
    case (5 q rid' ans)
    then show ?case using d(5) [of q rid' ans] by (auto simp: call_register_def r split: if_splits)
  qed
  then show ?thesis by blast
next
  case False
  then have "call_register p s = s"
    by (auto simp: call_register_def split: option.split call_phase.split)
  with assms show ?thesis by auto
qed

text \<open>Steps that leave the objects alone and only move calls along keep the invariant.\<close>

fun moves_along :: "call_phase option \<Rightarrow> call_phase \<Rightarrow> bool" where
  "moves_along _ (Checked rid data) = True"
| "moves_along _ (Returned rid r) = (r = [])"
| "moves_along (Some ph) ph' = (phase_object ph = phase_object ph')"
| "moves_along None _ = False"

lemma moves_along_object:
  "moves_along o1 ph' \<Longrightarrow> phase_object ph' = Some rc \<Longrightarrow> \<exists>ph. o1 = Some ph \<and> phase_object ph = Some rc"
  by (cases "(o1, ph')" rule: moves_along.cases) auto

lemma channel_inv_frame:
  assumes "channel_inv body own s" and "wc_heap s' = wc_heap s"
    and "\<And>rid c. map_of (wc_pending s') rid = Some c \<Longrightarrow> map_of (wc_pending s) rid = Some c"
    and "\<And>c d. wc_writer s' = Some (c, d) \<Longrightarrow> wc_writer s = Some (c, d)
           \<or> (c < length (wc_heap s) \<and> answers body d (own c))"
    and "\<And>p ph. wc_calls s' p = Some ph \<Longrightarrow> wc_calls s p = Some ph \<or> moves_along (wc_calls s p) ph"
  shows "channel_inv body own s'"
proof -
  note d = channel_invD [OF assms(1)]
  show ?thesis
  proof (rule channel_invI, goal_cases)
    case (1 rid c)
    then show ?case using d(1) [OF assms(3)] by (simp add: assms(2))
  next
    case (2 p ph rid c)
    then show ?case using assms(5) [of p ph] moves_along_object [of "wc_calls s p" ph "(rid, c)"] d(2)
      by (auto simp: assms(2))
  next
    case (3 c dt)
    then show ?case using assms(4) d(3) by (auto simp: assms(2))
  next
    case (4 c)
    then show ?case using d(4) by (simp add: assms(2))
  next
    case (5 p rid r)
    then show ?case using assms(5) [of p "Returned rid r"] d(5) by auto
  qed
qed

lemma channel_step_inv:
  assumes "channel_inv body own s"
  shows "channel_inv body own (call_check p rid data s)"
    and "channel_inv body own (call_enqueue p s)"
    and "channel_inv body own (call_wake timeout p s)"
    and "channel_inv body own (call_erase p s)"
    and "channel_inv body own (notify_worker data s)"
    and "channel_inv body own (setNotificationCallback s)"
    and "channel_inv body own (close_flag s)"
    and "channel_inv body own (snd (channelRead s))"
proof -
  show "channel_inv body own (call_check p rid data s)"
    by (rule channel_inv_frame [OF assms]) (auto simp: call_check_def split: option.splits if_splits)
  show "channel_inv body own (call_enqueue p s)"
    by (rule channel_inv_frame [OF assms])
      (auto simp: call_enqueue_def split: option.splits call_phase.splits if_splits)
  show "channel_inv body own (call_wake timeout p s)"
    by (rule channel_inv_frame [OF assms])
      (auto simp: call_wake_def split: option.splits call_phase.splits if_splits)
  show "channel_inv body own (call_erase p s)"
    by (rule channel_inv_frame [OF assms])
      (auto simp: call_erase_def delete_conv' split: option.splits call_phase.splits if_splits)
  show "channel_inv body own (notify_worker data s)"
    by (rule channel_inv_frame [OF assms]) (auto simp: notify_worker_def split: if_splits)
  show "channel_inv body own (setNotificationCallback s)"
    by (rule channel_inv_frame [OF assms]) (auto simp: setNotificationCallback_def)
  show "channel_inv body own (close_flag s)"
    by (rule channel_inv_frame [OF assms]) (auto simp: close_flag_def)
  show "channel_inv body own (snd (channelRead s))"
    by (rule channel_inv_frame [OF assms]) (auto simp: channelRead_def split: list.splits)
qed

lemma channelWrite_inv:
  assumes "channel_inv body own s"
  shows "channel_inv body own (channelWrite body message s)"
proof (rule channel_inv_frame [OF assms])
  fix c d assume w: "wc_writer (channelWrite body message s) = Some (c, d)"
  show "wc_writer s = Some (c, d) \<or> (c < length (wc_heap s) \<and> answers body d (own c))"
  proof (cases "wc_writer s \<noteq> None \<or> length message \<le> 4")
    case True
    then show ?thesis using w by (simp add: channelWrite_def)
  next
    case False
    with w obtain i a where "body d = Response i a" "map_of (wc_pending s) i = Some c"
      by (auto simp: channelWrite_def onWorkerMessage_def split: if_splits message_body.splits option.splits)
    then show ?thesis using channel_invD(1) [OF assms] by (auto dest: answers_Response)
  qed
qed (auto simp: channelWrite_def onWorkerMessage_def split: if_splits message_body.splits option.splits)

lemma close_mark_inv:
  assumes "channel_inv body own s"
  shows "channel_inv body own (close_mark s)"
proof (cases "wc_marking s")
  case True
  note d = channel_invD [OF assms]
  have heap: "length (wc_heap (close_mark s)) = length (wc_heap s)"
    "\<And>c. c < length (wc_heap s) \<Longrightarrow> pr_response (wc_heap (close_mark s) ! c) = pr_response (wc_heap s ! c)"
    using True by (simp_all add: close_mark_def nth_enumerate_eq)
  have rest: "wc_pending (close_mark s) = wc_pending s" "wc_calls (close_mark s) = wc_calls s"
    "wc_writer (close_mark s) = wc_writer s"
    by (simp_all add: close_mark_def)
  show ?thesis
  proof (rule channel_invI, goal_cases)
    case (1 rid c)
    then show ?case using d(1) by (simp add: heap rest)
  next
    case (2 q ph rid c)
    then show ?case using d(2) [of q ph rid c] by (simp add: heap rest)
  next
    case (3 c dt)
    then show ?case using d(3) by (simp add: heap rest)
  next
    case (4 c)
    then show ?case using d(4) by (simp add: heap)
  next
    case (5 q rid r)
    then show ?case using d(5) by (simp add: rest)
  qed
next
  case False
  then show ?thesis using assms by (simp add: close_mark_def)
qed

lemma call_return_inv:
  assumes "channel_inv body own s"
  shows "channel_inv body own (call_return p s)"
proof (cases "\<exists>rid c. wc_calls s p = Some (Erased rid c)")
  case True
  then obtain rid c where r: "wc_calls s p = Some (Erased rid c)" by blast
  note d = channel_invD [OF assms]
  have c: "own c = rid" "c < length (wc_heap s)" using d(2) [OF r] by simp_all
  show ?thesis
  proof (rule channel_invI, goal_cases)
    case (1 rid' c')
    then show ?case using d(1) [of rid' c'] by (simp add: call_return_def r)
  next
    case (2 q ph rid' c')
    then show ?case using d(2) [of q ph rid' c'] by (auto simp: call_return_def r split: if_splits)
  next
    case (3 c' dt)
    then show ?case using d(3) [of c' dt] by (simp add: call_return_def r)
  next
    case (4 c')
    then show ?case using d(4) [of c'] by (cases "c' = c") (simp_all add: call_return_def r)
  next
    case (5 q rid' ans)
    then show ?case using d(5) [of q rid' ans] d(4) [OF c(2)] c(1)
      by (auto simp: call_return_def r split: if_splits)
  qed
next
  case False
  then have "call_return p s = s"
    by (auto simp: call_return_def split: option.split call_phase.split)
  with assms show ?thesis by simp
qed

lemma worker_store_inv:
  assumes "channel_inv body own s"
  shows "channel_inv body own (worker_store s)"
proof (cases "wc_writer s")
  case None
  then show ?thesis using assms by (simp add: worker_store_def)
next
  case (Some w)
  then obtain c data where w: "wc_writer s = Some (c, data)" by (cases w) simp
  note d = channel_invD [OF assms]
  show ?thesis
  proof (rule channel_invI, goal_cases)
    case (1 rid c')
    then show ?case using d(1) [of rid c'] by (simp add: worker_store_def w)
  next
    case (2 q ph rid c')
    then show ?case using d(2) [of q ph rid c'] by (simp add: worker_store_def w)
  next
    case (3 c' dt)
    then show ?case by (simp add: worker_store_def w)
  next
    case (4 c')
    then show ?case using d(3) [OF w] d(4) [of c']
      by (cases "c' = c") (simp_all add: worker_store_def w)
  next
    case (5 q rid r)
    then show ?case using d(5) [of q rid r] by (simp add: worker_store_def w)
  qed
qed

lemma channel_exec_inv:
  assumes "channel_inv body own s"
  shows "\<exists>own'. channel_inv body own' (channel_exec body e s)"
proof (cases "\<exists>p. e = Register p")
  case True
  then show ?thesis using call_register_inv [OF assms] by auto
next
  case False
  then have "channel_inv body own (channel_exec body e s)"
    using assms by (cases e)
      (simp_all add: channel_step_inv channelWrite_inv close_mark_inv call_return_inv worker_store_inv)
  then show ?thesis by blast
qed

lemma channel_reachable_inv:
  "channel_reachable body s \<Longrightarrow> \<exists>own. channel_inv body own s"
proof (induction rule: channel_reachable.induct)
  case start
  have "channel_inv body (\<lambda>_. 0) new_channel" by (simp add: channel_inv_def new_channel_def)
  then show ?case by blast
qed (blast dest: channel_exec_inv)

text \<open>
  C15: Whatever the threads and the worker do, in any order, what a call of \<^verbatim>\<open>request\<close> returns
  is empty or a response message that carries the identifier of that very request. So a late
  response to a request that timed out is never handed to another one, as long as the
  identifier is not used again.
\<close>

theorem response_answers_request:
  assumes "channel_reachable body s" and "wc_calls s p = Some (Returned rid r)"
  shows "r = [] \<or> (\<exists>accepted. body r = Response rid accepted)"
proof -
  obtain own where "channel_inv body own s" using channel_reachable_inv [OF assms(1)] by blast
  from channel_invD(5) [OF this assms(2)] show ?thesis
    by (auto simp: answers_def split: message_body.splits)
qed

text \<open>A decoder for examples: every message is a response, its first byte the identifier.\<close>

definition sample_body :: "byte list \<Rightarrow> message_body" where
  "sample_body d = (case d of [] \<Rightarrow> Invalid_message | b # _ \<Rightarrow> Response (ucast b) True)"

definition sample_exchange :: "channel_event list" where
  "sample_exchange =
     [Check 0 7 [1], Register 0, Enqueue 0, Read, Write [0, 0, 0, 0, 7, 9], Store,
      Wake False 0, Erase 0, Return 0]"

lemma response_answers_request_witness:
  "wc_calls (fold (channel_exec sample_body) sample_exchange new_channel) 0
     = Some (Returned 7 [7, 9])
   \<and> (([7, 9] :: byte list) = [] \<or> (\<exists>accepted. sample_body [7, 9] = Response 7 accepted))"
proof -
  have r: "wc_calls (fold (channel_exec sample_body) sample_exchange new_channel) 0
      = Some (Returned 7 [7, 9])"
    by (simp add: sample_exchange_def new_channel_def call_check_def call_register_def
        call_enqueue_def channelRead_def channelWrite_def onWorkerMessage_def sample_body_def
        worker_store_def call_wake_def call_erase_def call_return_def)
  show ?thesis
    by (rule conjI [OF r response_answers_request
          [OF channel_reachable_run [OF channel_reachable.start] r]])
qed

section \<open>Two races\<close>

text \<open>
  The worker can hold the object of a request that has timed out. Then the call moves
  the response out while the worker thread stores it, the one without the mutex the other
  takes: depending on who comes first the call returns nothing or the response, and both
  orders are possible in one reachable state.
\<close>

theorem late_response_race:
  "\<exists>s. channel_reachable sample_body s \<and> wc_calls s 0 = Some (Erased 7 0)
     \<and> wc_writer s = Some (0, [7, 9])
     \<and> wc_calls (call_return 0 (worker_store s)) 0 = Some (Returned 7 [7, 9])
     \<and> wc_calls (worker_store (call_return 0 s)) 0 = Some (Returned 7 [])"
proof -
  let ?es = "[Check 0 7 [1], Register 0, Enqueue 0, Read, Write [0, 0, 0, 0, 7, 9], Wake True 0, Erase 0]"
  let ?s = "new_channel\<lparr>wc_heap := [\<lparr>pr_response = [], pr_completed = False\<rparr>],
    wc_calls := [0 \<mapsto> Erased 7 0], wc_writer := Some (0, [7, 9])\<rparr>"
  have "fold (channel_exec sample_body) ?es new_channel = ?s"
    by (simp add: new_channel_def call_check_def call_register_def call_enqueue_def
        channelRead_def channelWrite_def onWorkerMessage_def sample_body_def call_wake_def
        call_erase_def)
  then have "channel_reachable sample_body ?s"
    using channel_reachable_run [OF channel_reachable.start, of sample_body ?es] by (simp only:)
  moreover have "wc_calls (call_return 0 (worker_store ?s)) 0 = Some (Returned 7 [7, 9])"
    and "wc_calls (worker_store (call_return 0 ?s)) 0 = Some (Returned 7 [])"
    by (simp_all add: worker_store_def call_return_def)
  ultimately show ?thesis by (intro exI [of _ ?s]) simp
qed

text \<open>What \<^verbatim>\<open>close\<close> wakes: every request that is registered when it takes the lock.\<close>

lemma close_mark_wakes:
  assumes "wc_marking s" and "(rid, c) \<in> set (wc_pending s)" and "c < length (wc_heap s)"
  shows "pr_completed (wc_heap (close_mark s) ! c)"
  using assms by (force simp: close_mark_def nth_enumerate_eq)

text \<open>
  Closing the channel does not unblock every request. A call that has passed the check
  of the flag and registers after \<^verbatim>\<open>close\<close> has gone through the pending requests waits in a
  closed channel for an object nobody has completed, until the timeout.
\<close>

theorem close_misses_request:
  "\<exists>s. channel_reachable sample_body s \<and> wc_closed s \<and> \<not> wc_marking s
     \<and> wc_calls s 0 = Some (Waiting 7 0) \<and> \<not> pr_completed (wc_heap s ! 0)
     \<and> call_wake False 0 s = s"
proof -
  let ?es = "[Check 0 7 [1], Close_flag, Close_mark, Register 0, Enqueue 0]"
  let ?s = "new_channel\<lparr>wc_closed := True, wc_outQueue := [[1]], wc_pending := [(7, 0)],
    wc_heap := [\<lparr>pr_response = [], pr_completed = False\<rparr>], wc_calls := [0 \<mapsto> Waiting 7 0]\<rparr>"
  have "fold (channel_exec sample_body) ?es new_channel = ?s"
    by (simp add: new_channel_def call_check_def call_register_def call_enqueue_def
        close_flag_def close_mark_def)
  then have "channel_reachable sample_body ?s"
    using channel_reachable_run [OF channel_reachable.start, of sample_body ?es] by (simp only:)
  then show ?thesis by (intro exI [of _ ?s]) (simp add: new_channel_def call_wake_def)
qed

end
