(* ===== verification/Thread_Pool.thy ===== *)
theory Thread_Pool
  imports Hub32_Prelude
begin

text \<open>
  The pool of background threads, src/server/ThreadPool.cpp, as a step relation. A step is
  what no other thread can split: a critical section of \<^verbatim>\<open>m_mutex\<close>, the write of the atomic
  flag, a notification. Waiting on the condition variable is two steps, because the predicate
  is read under the mutex and the flag is written without it. A task is a number; running it
  ends at some point, by return or by an exception, which is caught. The lemmas show that
  accepted tasks are started once and in order and are all started before the last thread
  ends, and that a shutdown can miss a thread.
\<close>

section \<open>State\<close>

type_synonym task = nat

datatype worker_phase = Ready | Deciding | Asleep | Running task | Exited

datatype shutdown_phase = No_shutdown | Flagged | Notified

text \<open>
  \<open>tp_notifies\<close> counts the callers of \<^verbatim>\<open>enqueue\<close> that have pushed and not yet notified.
  \<open>tp_accepted\<close> and \<open>tp_started\<close> are history: the tasks pushed, and those taken by a thread.
\<close>

record thread_pool =
  tp_workers :: "worker_phase list"
  tp_tasks :: "task list"
  tp_stopping :: bool
  tp_active :: int
  tp_notifies :: nat
  tp_shutdown :: shutdown_phase
  tp_accepted :: "task list"
  tp_started :: "task list"

definition new_thread_pool :: "nat \<Rightarrow> thread_pool" where
  "new_thread_pool threadCount =
     \<lparr>tp_workers = replicate threadCount Ready, tp_tasks = [], tp_stopping = False, tp_active = 0,
      tp_notifies = 0, tp_shutdown = No_shutdown, tp_accepted = [], tp_started = []\<rparr>"

text \<open>A thread between reading the predicate and blocking holds the mutex.\<close>

definition mutex_free :: "thread_pool \<Rightarrow> bool" where
  "mutex_free s = (Deciding \<notin> set (tp_workers s))"

definition set_worker :: "nat \<Rightarrow> worker_phase \<Rightarrow> thread_pool \<Rightarrow> thread_pool" where
  "set_worker i ph s = s\<lparr>tp_workers := (tp_workers s)[i := ph]\<rparr>"

section \<open>Operations\<close>

definition enqueue_push :: "task \<Rightarrow> thread_pool \<Rightarrow> thread_pool" where
  "enqueue_push t s =
     (if tp_stopping s then s
      else s\<lparr>tp_tasks := tp_tasks s @ [t], tp_accepted := tp_accepted s @ [t],
             tp_notifies := tp_notifies s + 1\<rparr>)"

definition shutdown_flag :: "thread_pool \<Rightarrow> thread_pool" where
  "shutdown_flag s =
     (if tp_stopping s then s else s\<lparr>tp_stopping := True, tp_shutdown := Flagged\<rparr>)"

definition wake_all :: "worker_phase \<Rightarrow> worker_phase" where
  "wake_all ph = (if ph = Asleep then Ready else ph)"

definition shutdown_notify :: "thread_pool \<Rightarrow> thread_pool" where
  "shutdown_notify s = s\<lparr>tp_workers := map wake_all (tp_workers s), tp_shutdown := Notified\<rparr>"

text \<open>
  The predicate and what follows it, in one critical section; the counter of active threads,
  which the code increments right after it, goes with it.
\<close>

definition worker_check :: "nat \<Rightarrow> thread_pool \<Rightarrow> thread_pool" where
  "worker_check i s =
     (case tp_tasks s of
        [] \<Rightarrow> set_worker i (if tp_stopping s then Exited else Deciding) s
      | t # ts \<Rightarrow>
          (set_worker i (Running t) s)\<lparr>tp_tasks := ts, tp_started := tp_started s @ [t],
             tp_active := tp_active s + 1\<rparr>)"

definition worker_finish :: "nat \<Rightarrow> thread_pool \<Rightarrow> thread_pool" where
  "worker_finish i s = (set_worker i Ready s)\<lparr>tp_active := tp_active s - 1\<rparr>"

text \<open>\<^verbatim>\<open>shutdown\<close> returns once every thread has ended.\<close>

definition joined :: "thread_pool \<Rightarrow> bool" where
  "joined s = (tp_shutdown s = Notified \<and> list_all (\<lambda>ph. ph = Exited) (tp_workers s))"

text \<open>
  \<^verbatim>\<open>notify_one\<close> wakes some sleeping thread, or is lost when none sleeps. A condition variable
  may also wake a thread on its own accord; \<open>spurious\<close> says whether the platform does.
\<close>

inductive tp_step :: "bool \<Rightarrow> thread_pool \<Rightarrow> thread_pool \<Rightarrow> bool" for spurious where
  push: "mutex_free s \<Longrightarrow> tp_step spurious s (enqueue_push t s)"
| notify_one: "0 < tp_notifies s \<Longrightarrow> i < length (tp_workers s) \<Longrightarrow> tp_workers s ! i = Asleep
    \<Longrightarrow> tp_step spurious s (set_worker i Ready (s\<lparr>tp_notifies := tp_notifies s - 1\<rparr>))"
| notify_none: "0 < tp_notifies s \<Longrightarrow> Asleep \<notin> set (tp_workers s)
    \<Longrightarrow> tp_step spurious s (s\<lparr>tp_notifies := tp_notifies s - 1\<rparr>)"
| flag: "tp_step spurious s (shutdown_flag s)"
| notify_all: "tp_shutdown s = Flagged \<Longrightarrow> tp_step spurious s (shutdown_notify s)"
| check: "mutex_free s \<Longrightarrow> i < length (tp_workers s) \<Longrightarrow> tp_workers s ! i = Ready
    \<Longrightarrow> tp_step spurious s (worker_check i s)"
| block: "i < length (tp_workers s) \<Longrightarrow> tp_workers s ! i = Deciding
    \<Longrightarrow> tp_step spurious s (set_worker i Asleep s)"
| wake: "spurious \<Longrightarrow> i < length (tp_workers s) \<Longrightarrow> tp_workers s ! i = Asleep
    \<Longrightarrow> tp_step spurious s (set_worker i Ready s)"
| finish: "i < length (tp_workers s) \<Longrightarrow> tp_workers s ! i = Running t
    \<Longrightarrow> tp_step spurious s (worker_finish i s)"

inductive_cases tp_stepE: "tp_step spurious s s'"

definition tp_reachable :: "bool \<Rightarrow> nat \<Rightarrow> thread_pool \<Rightarrow> bool" where
  "tp_reachable spurious n = (tp_step spurious)\<^sup>*\<^sup>* (new_thread_pool n)"

section \<open>Accepted tasks\<close>

fun is_running :: "worker_phase \<Rightarrow> bool" where
  "is_running (Running t) = True"
| "is_running _ = False"

fun running_count :: "worker_phase list \<Rightarrow> int" where
  "running_count [] = 0"
| "running_count (ph # ws) = (if is_running ph then 1 else 0) + running_count ws"

definition pool_inv :: "nat \<Rightarrow> thread_pool \<Rightarrow> bool" where
  "pool_inv n s \<longleftrightarrow>
     length (tp_workers s) = n \<and>
     tp_accepted s = tp_started s @ tp_tasks s \<and>
     tp_active s = running_count (tp_workers s) \<and>
     (Exited \<in> set (tp_workers s) \<longrightarrow> tp_stopping s \<and> tp_tasks s = [])"

lemma running_count_update:
  "i < length ws \<Longrightarrow>
     running_count (ws[i := ph]) =
       running_count ws - (if is_running (ws ! i) then 1 else 0) + (if is_running ph then 1 else 0)"
  by (induction ws arbitrary: i) (auto split: nat.split)

lemma running_count_wake: "running_count (map wake_all ws) = running_count ws"
  by (induction ws) (auto simp: wake_all_def)

lemma running_count_replicate: "running_count (replicate n Ready) = 0"
  by (induction n) simp_all

lemma exited_update:
  "Exited \<in> set (ws[i := ph]) \<Longrightarrow> ph = Exited \<or> Exited \<in> set ws"
  using set_update_subset_insert [of ws i ph] by auto

lemma exited_wake: "Exited \<in> wake_all ` A \<longleftrightarrow> Exited \<in> A"
  by (auto simp: wake_all_def image_iff split: if_splits)

lemma pool_inv_step:
  assumes "tp_step spurious s s'" and "pool_inv n s"
  shows "pool_inv n s'"
  using assms
proof (cases rule: tp_step.cases)
  case (check i)
  then show ?thesis using assms(2)
    by (auto simp: pool_inv_def worker_check_def set_worker_def running_count_update
        split: list.split dest!: exited_update)
qed (auto simp: pool_inv_def enqueue_push_def set_worker_def shutdown_flag_def shutdown_notify_def
    worker_finish_def running_count_update running_count_wake exited_wake dest!: exited_update)

lemma pool_inv_reachable: "tp_reachable spurious n s \<Longrightarrow> pool_inv n s"
  unfolding tp_reachable_def
proof (induction rule: rtranclp_induct)
  case base
  show ?case by (simp add: pool_inv_def new_thread_pool_def running_count_replicate)
qed (rule pool_inv_step)

text \<open>
  C22: In every state the pool can be in, the accepted tasks are the started ones followed by
  the waiting ones: none is lost, started twice or overtaken. Once a thread has ended,
  nothing is waiting, so when \<^verbatim>\<open>shutdown\<close> returns from a pool with threads every accepted task
  has been started; and the count of active threads is within the size of the pool.
\<close>

theorem tasks_started_once_in_order:
  assumes "tp_reachable spurious n s"
  shows "tp_accepted s = tp_started s @ tp_tasks s
     \<and> (Exited \<in> set (tp_workers s) \<longrightarrow> tp_started s = tp_accepted s)
     \<and> (joined s \<and> 0 < n \<longrightarrow> tp_started s = tp_accepted s \<and> tp_active s = 0)
     \<and> 0 \<le> tp_active s \<and> tp_active s \<le> int n"
proof -
  have inv: "pool_inv n s" using assms by (rule pool_inv_reachable)
  have count: "0 \<le> running_count ws \<and> running_count ws \<le> int (length ws)" for ws
    by (induction ws) auto
  have none: "list_all (\<lambda>ph. ph = Exited) ws \<Longrightarrow> running_count ws = 0" for ws
    by (induction ws) auto
  have ex: "list_all (\<lambda>ph. ph = Exited) ws \<Longrightarrow> 0 < length ws \<Longrightarrow> Exited \<in> set ws" for ws
    by (cases ws) auto
  show ?thesis
    using inv count [of "tp_workers s"] none [of "tp_workers s"] ex [of "tp_workers s"]
    by (auto simp: pool_inv_def joined_def)
qed

text \<open>One task through a pool of one thread, and the shutdown.\<close>

definition drained_pool :: thread_pool where
  "drained_pool =
     \<lparr>tp_workers = [Exited], tp_tasks = [], tp_stopping = True, tp_active = 0, tp_notifies = 1,
      tp_shutdown = Notified, tp_accepted = [7], tp_started = [7]\<rparr>"

lemma drained_reachable: "tp_reachable spurious 1 drained_pool"
proof -
  let ?s = "tp_step spurious"
  let ?p = "\<lambda>w ts st a sh stt. \<lparr>tp_workers = [w], tp_tasks = ts, tp_stopping = st, tp_active = a,
    tp_notifies = 1, tp_shutdown = sh, tp_accepted = [7], tp_started = stt\<rparr>"
  have "?s (new_thread_pool 1) (?p Ready [7] False 0 No_shutdown [])"
    using push [of "new_thread_pool 1" spurious 7]
    by (simp add: new_thread_pool_def mutex_free_def enqueue_push_def)
  moreover have "?s (?p Ready [7] False 0 No_shutdown []) (?p (Running 7) [] False 1 No_shutdown [7])"
    using check [of "?p Ready [7] False 0 No_shutdown []" 0 spurious]
    by (simp add: mutex_free_def worker_check_def set_worker_def)
  moreover have "?s (?p (Running 7) [] False 1 No_shutdown [7]) (?p (Running 7) [] True 1 Flagged [7])"
    using flag [of spurious "?p (Running 7) [] False 1 No_shutdown [7]"]
    by (simp add: shutdown_flag_def)
  moreover have "?s (?p (Running 7) [] True 1 Flagged [7]) (?p (Running 7) [] True 1 Notified [7])"
    using notify_all [of "?p (Running 7) [] True 1 Flagged [7]" spurious]
    by (simp add: shutdown_notify_def wake_all_def)
  moreover have "?s (?p (Running 7) [] True 1 Notified [7]) (?p Ready [] True 0 Notified [7])"
    using finish [of 0 "?p (Running 7) [] True 1 Notified [7]" 7 spurious]
    by (simp add: worker_finish_def set_worker_def)
  moreover have "?s (?p Ready [] True 0 Notified [7]) drained_pool"
    using check [of "?p Ready [] True 0 Notified [7]" 0 spurious]
    by (simp add: mutex_free_def worker_check_def set_worker_def drained_pool_def)
  ultimately show ?thesis unfolding tp_reachable_def
    by (meson converse_rtranclp_into_rtranclp rtranclp.rtrancl_refl)
qed

lemma tasks_started_once_in_order_witness:
  "joined drained_pool \<and> tp_started drained_pool = tp_accepted drained_pool"
  using tasks_started_once_in_order [OF drained_reachable [of False]]
  by (simp add: drained_pool_def joined_def)

section \<open>A shutdown that does not end\<close>

definition stuck_pool :: thread_pool where
  "stuck_pool =
     \<lparr>tp_workers = [Asleep], tp_tasks = [], tp_stopping = True, tp_active = 0, tp_notifies = 0,
      tp_shutdown = Notified, tp_accepted = [], tp_started = []\<rparr>"

lemma stuck_reachable: "tp_reachable spurious 1 stuck_pool"
proof -
  let ?s = "tp_step spurious"
  let ?p = "\<lambda>w st sh. \<lparr>tp_workers = [w], tp_tasks = [], tp_stopping = st, tp_active = 0,
    tp_notifies = 0, tp_shutdown = sh, tp_accepted = [], tp_started = []\<rparr>"
  have "?s (new_thread_pool 1) (?p Deciding False No_shutdown)"
    using check [of "new_thread_pool 1" 0 spurious]
    by (simp add: new_thread_pool_def mutex_free_def worker_check_def set_worker_def)
  moreover have "?s (?p Deciding False No_shutdown) (?p Deciding True Flagged)"
    using flag [of spurious "?p Deciding False No_shutdown"] by (simp add: shutdown_flag_def)
  moreover have "?s (?p Deciding True Flagged) (?p Deciding True Notified)"
    using notify_all [of "?p Deciding True Flagged" spurious]
    by (simp add: shutdown_notify_def wake_all_def)
  moreover have "?s (?p Deciding True Notified) stuck_pool"
    using block [of 0 "?p Deciding True Notified" spurious]
    by (simp add: set_worker_def stuck_pool_def)
  ultimately show ?thesis unfolding tp_reachable_def
    by (meson converse_rtranclp_into_rtranclp rtranclp.rtrancl_refl)
qed

lemma stuck_step: "tp_step False stuck_pool s' \<Longrightarrow> s' = stuck_pool"
  by (erule tp_stepE) (simp_all add: stuck_pool_def enqueue_push_def shutdown_flag_def)

text \<open>
  The flag is set without the mutex, so the shutdown can fall between a thread's look at
  the predicate and its going to sleep: the notification finds nobody, and the thread sleeps
  in a pool that is stopping, from where nothing but a spurious wake-up of the platform
  leads any further. \<^verbatim>\<open>shutdown\<close> waits for that thread forever.
\<close>

theorem shutdown_misses_thread:
  assumes "(tp_step False)\<^sup>*\<^sup>* stuck_pool s'"
  shows "tp_reachable False 1 stuck_pool \<and> tp_workers s' = [Asleep] \<and> tp_stopping s' \<and> \<not> joined s'"
proof -
  have "s' = stuck_pool" using assms by (induction rule: rtranclp_induct) (simp_all add: stuck_step)
  then show ?thesis using stuck_reachable by (simp add: stuck_pool_def joined_def)
qed

lemma shutdown_misses_thread_witness: "\<not> joined (shutdown_flag (enqueue_push 3 stuck_pool))"
proof -
  have "tp_step False stuck_pool (enqueue_push 3 stuck_pool)"
    by (rule push) (simp add: stuck_pool_def mutex_free_def)
  moreover have "tp_step False (enqueue_push 3 stuck_pool) (shutdown_flag (enqueue_push 3 stuck_pool))"
    by (rule flag)
  ultimately have "(tp_step False)\<^sup>*\<^sup>* stuck_pool (shutdown_flag (enqueue_push 3 stuck_pool))"
    by (meson converse_rtranclp_into_rtranclp rtranclp.rtrancl_refl)
  from shutdown_misses_thread [OF this] show ?thesis by blast
qed

end
