(* ===== verification/Frame_Queue.thy ===== *)
theory Frame_Queue
  imports Hub32_Prelude "HOL-Library.Sublist"
begin

text \<open>
  The queue between the agent's capture and encode threads, \<^verbatim>\<open>BoundedQueue\<close> of
  agent/src/pipeline/FrameQueue.hpp. Each operation is one critical section. The lemmas show
  what the consumer gets of the frames produced, for any interleaving.
\<close>

record 'a bounded_queue =
  bq_items :: "'a list"
  bq_stopped :: bool

definition new_queue :: "'a bounded_queue" where
  "new_queue = \<lparr>bq_items = [], bq_stopped = False\<rparr>"

definition bq_push :: "nat \<Rightarrow> 'a \<Rightarrow> 'a bounded_queue \<Rightarrow> 'a bounded_queue" where
  "bq_push cap item q =
     (let q' = (if length (bq_items q) \<ge> cap then tl (bq_items q) else bq_items q)
      in q\<lparr>bq_items := q' @ [item]\<rparr>)"

datatype 'a pop_result = Blocked | Stopped | Popped 'a

text \<open>\<open>Blocked\<close>: the predicate of the wait is false and the call goes on waiting.\<close>

definition bq_pop :: "'a bounded_queue \<Rightarrow> 'a pop_result \<times> 'a bounded_queue" where
  "bq_pop q =
     (case bq_items q of
        [] \<Rightarrow> (if bq_stopped q then Stopped else Blocked, q)
      | x # xs \<Rightarrow> (Popped x, q\<lparr>bq_items := xs\<rparr>))"

definition bq_stop :: "'a bounded_queue \<Rightarrow> 'a bounded_queue" where
  "bq_stop q = q\<lparr>bq_stopped := True\<rparr>"

definition bq_reset :: "'a bounded_queue \<Rightarrow> 'a bounded_queue" where
  "bq_reset q = \<lparr>bq_items = [], bq_stopped = False\<rparr>"

definition bq_size :: "'a bounded_queue \<Rightarrow> nat" where
  "bq_size q = length (bq_items q)"

definition kRawFrameCapacity :: nat where "kRawFrameCapacity = 4"

section \<open>A stretch of use\<close>

datatype 'a queue_op = Push 'a | Pop | Stop

fun pushed :: "'a queue_op list \<Rightarrow> 'a list" where
  "pushed [] = []"
| "pushed (Push x # ops) = x # pushed ops"
| "pushed (_ # ops) = pushed ops"

text \<open>The items handed out, and the queue that is left.\<close>

fun run_queue :: "nat \<Rightarrow> 'a queue_op list \<Rightarrow> 'a bounded_queue \<Rightarrow> 'a list \<times> 'a bounded_queue" where
  "run_queue cap [] q = ([], q)"
| "run_queue cap (Push x # ops) q = run_queue cap ops (bq_push cap x q)"
| "run_queue cap (Stop # ops) q = run_queue cap ops (bq_stop q)"
| "run_queue cap (Pop # ops) q =
     (case bq_pop q of
        (Popped x, q') \<Rightarrow> (let (out, r) = run_queue cap ops q' in (x # out, r))
      | (_, q') \<Rightarrow> run_queue cap ops q')"

lemma bq_push_items:
  assumes "0 < cap" and "length (bq_items q) \<le> cap"
  shows "length (bq_items (bq_push cap x q)) \<le> cap"
    and "suffix (bq_items (bq_push cap x q)) (bq_items q @ [x])"
    and "subseq (bq_items (bq_push cap x q)) (bq_items q @ [x])"
proof -
  show "length (bq_items (bq_push cap x q)) \<le> cap"
    using assms by (auto simp: bq_push_def Let_def)
  show s: "suffix (bq_items (bq_push cap x q)) (bq_items q @ [x])"
    by (auto simp: bq_push_def Let_def suffix_def intro: suffix_tl)
      (metis append_Nil append_Cons list.collapse list.sel(2))
  show "subseq (bq_items (bq_push cap x q)) (bq_items q @ [x])"
    using s by (rule suffix_imp_subseq)
qed

lemma run_queue_laws:
  assumes "0 < cap" and "length (bq_items q) \<le> cap"
  shows "length (bq_items (snd (run_queue cap ops q))) \<le> cap
     \<and> suffix (bq_items (snd (run_queue cap ops q))) (bq_items q @ pushed ops)
     \<and> subseq (fst (run_queue cap ops q) @ bq_items (snd (run_queue cap ops q)))
          (bq_items q @ pushed ops)"
  using assms(2)
proof (induction ops arbitrary: q)
  case (Cons op ops)
  show ?case
  proof (cases op)
    case (Push x)
    note p = bq_push_items [OF assms(1) Cons.prems, of x]
    have "suffix (bq_items (bq_push cap x q) @ pushed ops) ((bq_items q @ [x]) @ pushed ops)"
      using p(2) by (auto simp: suffix_def)
    moreover have "subseq (bq_items (bq_push cap x q) @ pushed ops) ((bq_items q @ [x]) @ pushed ops)"
      using p(3) by (intro list_emb_append_mono) simp_all
    ultimately show ?thesis using Cons.IH [OF p(1)]
      by (auto simp: Push intro: suffix_order.trans subseq_order.trans)
  next
    case Pop
    show ?thesis
    proof (cases "bq_items q")
      case Nil
      then show ?thesis using Cons.IH [OF Cons.prems] by (simp add: Pop bq_pop_def)
    next
      case (Cons x xs)
      then show ?thesis using Cons.IH [of "q\<lparr>bq_items := xs\<rparr>"] Cons.prems
        by (auto simp: Pop bq_pop_def split_beta Let_def intro: suffix_ConsI)
    qed
  next
    case Stop
    then show ?thesis using Cons.IH [of "bq_stop q"] Cons.prems by (simp add: bq_stop_def)
  qed
qed simp

text \<open>
  For any order of pushes, pops and stops the encoder receives the captured frames in
  the order of their capture, each at most once; what is buffered is always the latest
  frames, at most four, with nothing missing between them: only the oldest are dropped.
\<close>

theorem queue_keeps_latest:
  "bq_size (snd (run_queue kRawFrameCapacity ops new_queue)) \<le> 4
   \<and> suffix (bq_items (snd (run_queue kRawFrameCapacity ops new_queue))) (pushed ops)
   \<and> subseq (fst (run_queue kRawFrameCapacity ops new_queue)
              @ bq_items (snd (run_queue kRawFrameCapacity ops new_queue))) (pushed ops)"
  using run_queue_laws [of kRawFrameCapacity new_queue ops]
  by (simp add: kRawFrameCapacity_def new_queue_def bq_size_def)

text \<open>A stopped queue still hands out what it holds, and then answers \<open>Stopped\<close>.\<close>

lemma stopped_queue_drains:
  "fst (run_queue cap (replicate (length (bq_items q)) Pop) q) = bq_items q
   \<and> (bq_stopped q \<longrightarrow> fst (bq_pop (snd (run_queue cap (replicate (length (bq_items q)) Pop) q))) = Stopped)"
proof (induction "bq_items q" arbitrary: q)
  case Nil
  then show ?case by (simp add: bq_pop_def)
next
  case (Cons x xs)
  from Cons.hyps(1) [of "q\<lparr>bq_items := xs\<rparr>"] Cons.hyps(2) [symmetric] show ?case
    by (simp add: bq_pop_def split_beta Let_def)
qed

end
