(* ===== verification/Router_Handlers.thy ===== *)
theory Router_Handlers
  imports Router
begin

text \<open>
  The handlers that src/src/server/Router.cpp holds itself: the profile of the caller, the
  location check before a feature is controlled, the event streams. The lemmas show what the
  location check guards and that a teacher who logged in walks past it.
\<close>

section \<open>The caller's profile\<close>

definition auth_methods_json :: json where
  "auth_methods_json = JObject [(''methods'', JArray
     [JObject [(''name'', JString ''hub32-key''), (''uuid'', JString ''0c69b301-81b4-42d6-8fae-128cdd113314'')],
      JObject [(''name'', JString ''logon''), (''uuid'', JString ''63611f7c-b457-42c7-832e-67d0f9281085'')]])]"

definition profile_json :: "string \<Rightarrow> string \<Rightarrow> string \<Rightarrow> string \<Rightarrow> int \<Rightarrow> json" where
  "profile_json i user name role created = JObject
     [(''id'', JString i), (''username'', JString user), (''fullName'', JString name),
      (''role'', JString role), (''createdAt'', JInt created)]"

text \<open>
  The handler authenticates the header again, and once more for callers that are no teachers.
\<close>

definition handleMe ::
  "'d jwt_lib \<Rightarrow> auth_env \<Rightarrow> auth_env \<Rightarrow> sql_call \<Rightarrow> sql_call \<Rightarrow> http_request \<Rightarrow> http_response
     \<Rightarrow> jwt_auth \<Rightarrow> teachers \<Rightarrow> http_response option \<times> jwt_auth" where
  "handleMe lib env1 env2 oc_id oc_name req res a ts =
     (let authHeader = get_header_value req ''Authorization''
      in if length authHeader \<le> 7 then (Some (sendError 401 ''Unauthorized'' [] res), a)
         else
           let (r, a1) = authenticate lib env1 (drop 7 authHeader) a
           in case r of
                None \<Rightarrow> (None, a1)
              | Some (Inl _) \<Rightarrow> (Some (sendError 401 ''Invalid token'' [] res), a1)
              | Some (Inr ctx) \<Rightarrow>
                  (case ac_token ctx of
                     None \<Rightarrow> (Some (sendError 401 ''Invalid token'' [] res), a1)
                   | Some t \<Rightarrow>
                       let subject = tk_subject t;
                           found = (case find_teacher oc_id subject ts of
                                      Inr rec \<Rightarrow> Inr rec
                                    | Inl _ \<Rightarrow> find_teacher_by_username oc_name subject ts)
                       in (case found of
                             Inr rec \<Rightarrow>
                               (Some (json_answer 200 (profile_json (tr_id rec) (tr_username rec)
                                  (tr_fullName rec) (tr_role rec) (tr_createdAt rec)) res), a1)
                           | Inl _ \<Rightarrow>
                               let (r2, a2) = authenticate lib env2 (drop 7 authHeader) a1
                               in (case r2 of
                                     None \<Rightarrow> (None, a2)
                                   | Some x \<Rightarrow>
                                       let role = (case x of
                                                     Inl _ \<Rightarrow> ''unknown''
                                                   | Inr ctx2 \<Rightarrow>
                                                       (case ac_token ctx2 of
                                                          None \<Rightarrow> ''unknown'' | Some t2 \<Rightarrow> tk_role t2))
                                       in (Some (json_answer 200 (profile_json subject subject subject role 0) res),
                                           a2)))))"

section \<open>The location check\<close>

text \<open>
  Who may control a feature of a computer: administrators, and everybody if the computer is
  unknown or in no location or the caller is not found among the teachers; a teacher that is
  found needs access to the location.
\<close>

definition location_allows ::
  "bool \<Rightarrow> sql_call \<Rightarrow> sql_call \<Rightarrow> sql_call \<Rightarrow> jwt_token option \<Rightarrow> string \<Rightarrow> org_db \<Rightarrow> bool" where
  "location_allows repos oc_computer oc_teacher oc_access token computerId db =
     (case token of
        None \<Rightarrow> True
      | Some t \<Rightarrow>
          if user_role_from_string (tk_role t) = Admin \<or> \<not> repos then True
          else case find_computer oc_computer computerId db of
            Inl _ \<Rightarrow> True
          | Inr c \<Rightarrow>
              if cp_locationId c = [] then True
              else (case find_teacher_by_username oc_teacher (tk_subject t) (od_teachers db) of
                      Inl _ \<Rightarrow> True
                    | Inr rec \<Rightarrow>
                        (case hasAccess oc_access (tr_id rec) (cp_locationId c) db of
                           Inl _ \<Rightarrow> False
                         | Inr granted \<Rightarrow> granted)))"

definition handleFeaturePut ::
  "(string \<Rightarrow> rat option) \<Rightarrow> i18n option \<Rightarrow> bool \<Rightarrow> sql_call \<Rightarrow> sql_call \<Rightarrow> sql_call \<Rightarrow> org_db handler \<Rightarrow> org_db handler" where
  "handleFeaturePut stod inst repos oc_computer oc_teacher oc_access control req res ctx a db =
     (let lang = getLocale stod inst req;
          computerId = (if length (rq_matches req) > 1 then rq_matches req ! 1 else [])
      in if location_allows repos oc_computer oc_teacher oc_access (ac_token ctx) computerId db
         then control req res ctx a db
         else (Some (sendError 403 (tr inst lang ''error.forbidden'') [] res), a, db))"

section \<open>The event streams\<close>

definition refusal_json :: "int \<Rightarrow> string \<Rightarrow> string \<Rightarrow> json" where
  "refusal_json st title detail =
     JObject [(''status'', JInt st), (''title'', JString title), (''detail'', JString detail)]"

text \<open>
  The answer that refuses a stream, or \<open>None\<close> when it may open; the outer option is for an
  exception of the JSON library.
\<close>

definition stream_guard ::
  "'d jwt_lib \<Rightarrow> auth_env \<Rightarrow> http_request \<Rightarrow> http_response \<Rightarrow> jwt_auth
     \<Rightarrow> http_response option option \<times> jwt_auth" where
  "stream_guard lib env req res a =
     (let authHeader = get_header_value req ''Authorization'';
          refuse = (\<lambda>d. Some (Some (json_answer 401 (refusal_json 401 ''Unauthorized'' d) res)))
      in if authHeader = [] \<or> take kBearerPrefixLen authHeader \<noteq> kBearerPrefix
         then (refuse ''SSE requires Bearer token'', a)
         else
           let (r, a') = authenticate lib env (drop kBearerPrefixLen authHeader) a
           in (case r of
                 None \<Rightarrow> None
               | Some (Inl _) \<Rightarrow> refuse ''Invalid token''
               | Some (Inr _) \<Rightarrow> Some None, a'))"

definition stream_headers :: "http_response \<Rightarrow> http_response" where
  "stream_headers res =
     set_header ''Access-Control-Allow-Origin'' ''*''
       (set_header ''Connection'' ''keep-alive'' (set_header ''Cache-Control'' ''no-cache'' res))"

text \<open>
  An opened stream: its channel, the name of the client, and the first frame written to it.
  \<open>n\<close> is the counter of the endpoint, raised before it is read.
\<close>

record opened_stream =
  os_channel :: string
  os_client :: string
  os_hello :: string

definition handleEvents ::
  "'d jwt_lib \<Rightarrow> auth_env \<Rightarrow> int \<Rightarrow> http_request \<Rightarrow> http_response \<Rightarrow> jwt_auth
     \<Rightarrow> (http_response \<times> opened_stream option) option \<times> int \<times> jwt_auth" where
  "handleEvents lib env n req res a =
     (let (g, a') = stream_guard lib env req res a
      in case g of
           None \<Rightarrow> (None, n, a')
         | Some (Some refused) \<Rightarrow> (Some (refused, None), n, a')
         | Some None \<Rightarrow>
             let clientId = ''sse-'' @ decimal (n + 1)
             in (Some (stream_headers res,
                   Some \<lparr>os_channel = ''events'', os_client = clientId,
                     os_hello = ''event: connected'' @ [newline] @ ''data: {\"clientId\":\"'' @ clientId @ ''\"}''
                       @ [newline, newline]\<rparr>), n + 1, a'))"

definition handleScreenStream ::
  "'d jwt_lib \<Rightarrow> auth_env \<Rightarrow> int \<Rightarrow> http_request \<Rightarrow> http_response \<Rightarrow> jwt_auth
     \<Rightarrow> (http_response \<times> opened_stream option) option \<times> int \<times> jwt_auth" where
  "handleScreenStream lib env n req res a =
     (let (g, a') = stream_guard lib env req res a
      in case g of
           None \<Rightarrow> (None, n, a')
         | Some (Some refused) \<Rightarrow> (Some (refused, None), n, a')
         | Some None \<Rightarrow>
             if length (rq_matches req) \<le> 1
             then (Some (json_answer 400 (refusal_json 400 ''Bad Request'' ''Missing computer ID'') res, None), n, a')
             else
               let compId = rq_matches req ! 1
               in (Some (stream_headers res,
                     Some \<lparr>os_channel = ''screen:'' @ compId, os_client = ''screen-'' @ decimal (n + 1),
                       os_hello = ''event: connected'' @ [newline] @ ''data: {\"computer\":\"'' @ compId @ ''\"}''
                         @ [newline, newline]\<rparr>), n + 1, a'))"

text \<open>
  The life of an opened stream: the client is subscribed with its sink, gets a heartbeat
  every fifteen seconds as long as the write succeeds (\<open>alive k\<close> for the \<open>k\<close>-th), and is
  unsubscribed at the first that fails. \<open>fuel\<close> bounds the heartbeats looked at; \<open>None\<close> when
  all of them succeed.
\<close>

fun heartbeats :: "nat \<Rightarrow> (nat \<Rightarrow> bool) \<Rightarrow> nat \<Rightarrow> nat option" where
  "heartbeats 0 alive k = None"
| "heartbeats (Suc fuel) alive k = (if alive k then heartbeats fuel alive (Suc k) else Some k)"

definition stream_open :: "opened_stream \<Rightarrow> nat \<Rightarrow> sse_manager \<Rightarrow> sse_manager" where
  "stream_open st sink m = subscribe (os_channel st) (os_client st) sink m"

definition stream_close :: "opened_stream \<Rightarrow> sse_manager \<Rightarrow> sse_manager" where
  "stream_close st m = unsubscribe (os_channel st) (os_client st) m"

section \<open>Past the location check\<close>

lemma find_teacher_by_username_none:
  "(\<forall>r \<in> set ts. te_username r \<noteq> u) \<Longrightarrow> \<exists>e. find_teacher_by_username oc u ts = Inl e"
  by (auto simp: find_teacher_by_username_def run_select_one_def fail_def find_None_iff_all [THEN iffD2]
      split: sql_call.split)

text \<open>
  The location check never stops a teacher who logged in with a password: the login puts
  the identifier of the row into the token, the check looks the token's subject up among the
  user names, finds nobody, and lets the request pass, whatever locations the teacher was
  given (unless some user name happens to be that identifier).
\<close>

theorem location_check_bypassed:
  assumes "authenticate_teacher (le_crypto env) (le_teacher_oc env) (ar_username r) (ar_password r) tenantId
      (od_teachers db) = Inr rec"
    and "tr_id rec \<noteq> []"
    and "sv_teachers sv = od_teachers db"
    and "\<forall>x \<in> set (od_teachers db). te_username x \<noteq> tr_id rec"
  shows "\<exists>role ten. logon_identity env sv r tenantId = Inr (tr_id rec, role, ten)
     \<and> (\<forall>t. tk_subject t = tr_id rec \<longrightarrow>
          location_allows repos oc1 oc2 oc3 (Some t) computerId db)"
proof -
  have "location_allows repos oc1 oc2 oc3 (Some t) computerId db" if "tk_subject t = tr_id rec" for t
    using find_teacher_by_username_none [OF assms(4), of oc2] that
    by (auto simp: location_allows_def split: sum.split)
  then show ?thesis using assms(1-3) by (auto simp: logon_identity_def Let_def)
qed

text \<open>A teacher without access to the only location, and the computer in it.\<close>

definition locked_out_db :: org_db where
  "locked_out_db = empty_org_db\<lparr>
     od_school := \<lparr>sd_students = [],
       sd_teachers = [\<lparr>te_id = ''u1'', te_username = ''ann'', te_password_hash = ''$argon2id$pw'',
         te_full_name = ''Ann'', te_role = ''teacher'', te_created_at = 0, te_tenant_id = ''t1''\<rparr>],
       sd_classes = [], sd_requests = []\<rparr>,
     od_locations := [\<lparr>lo_id = ''l1'', lo_school_id = ''s1'', lo_name = ''Lab'', lo_building = [],
       lo_floor = 0, lo_capacity = 0, lo_type = ''classroom''\<rparr>],
     od_computers := [\<lparr>co_id = ''c1'', co_location_id = Some ''l1'', co_hostname = ''pc'', co_mac_address = [],
       co_ip_last_seen = [], co_agent_version = [], co_last_heartbeat = 0, co_state = ''online'',
       co_position_x = 0, co_position_y = 0\<rparr>]\<rparr>"

theorem location_check_bypassed_witness:
  "logon_identity sample_request_env (sample_services\<lparr>sv_teachers := od_teachers locked_out_db\<rparr>) ann_login []
     = Inr (''u1'', ''teacher'', ''t1'')
   \<and> hasAccess Completes ''u1'' ''l1'' locked_out_db = Inr False
   \<and> location_allows True Completes Completes Completes
       (Some (token_issued 7200 0 ''j'' ''u1'' ''teacher'' ''t1'')) ''c1'' locked_out_db"
proof -
  have "verifyPassword sample_crypto ''pw'' ''$argon2id$pw''"
    using sample_verify [of "''pw''" "''pw''"] by simp
  then have login: "authenticate_teacher (le_crypto sample_request_env) (le_teacher_oc sample_request_env)
      (ar_username ann_login) (ar_password ann_login) [] (od_teachers locked_out_db)
      = Inr \<lparr>tr_id = ''u1'', tr_username = ''ann'', tr_fullName = ''Ann'', tr_role = ''teacher'',
          tr_tenantId = ''t1'', tr_createdAt = 0\<rparr>"
    by (simp add: authenticate_teacher_def sample_request_env_def ann_login_def locked_out_db_def
        empty_org_db_def teacher_from_row_def ok_def)
  from location_check_bypassed [OF login, of "sample_services\<lparr>sv_teachers := od_teachers locked_out_db\<rparr>"
      True Completes Completes Completes "''c1''"]
  have "location_allows True Completes Completes Completes
       (Some (token_issued 7200 0 ''j'' ''u1'' ''teacher'' ''t1'')) ''c1'' locked_out_db"
    by (simp add: token_issued_def locked_out_db_def empty_org_db_def)
  moreover have "logon_identity sample_request_env (sample_services\<lparr>sv_teachers := od_teachers locked_out_db\<rparr>)
      ann_login [] = Inr (''u1'', ''teacher'', ''t1'')"
    using login by (simp add: logon_identity_def Let_def)
  moreover have "hasAccess Completes ''u1'' ''l1'' locked_out_db = Inr False"
    by (simp add: hasAccess_def ok_def locked_out_db_def empty_org_db_def)
  ultimately show ?thesis by blast
qed

end
