(* ===== verification/Agent_Board.thy ===== *)
theory Agent_Board
  imports Agent_Registry
begin

text \<open>
  What the agent registry (src/agent/AgentRegistry.cpp) promises to those who use it, as an
  abstract board: who is a member, and for every member the identifiers of the commands that
  wait for it, oldest first. The times, the states and the history of the detailed model are
  gone. The lemmas show that every run of the registry is a run of the board with the same
  commands handed out, and that the board loses and repeats no command.
\<close>

section \<open>The board\<close>

record board =
  bd_members :: "uid set"
  bd_waiting :: "uid \<Rightarrow> uid list"

datatype board_op = Join uid | Leave uid | Post uid uid | Collect uid | Pass

text \<open>One operation, with the commands it hands out.\<close>

fun board_exec :: "board_op \<Rightarrow> board \<Rightarrow> uid list \<times> board" where
  "board_exec (Join i) b = ([], b\<lparr>bd_members := insert i (bd_members b)\<rparr>)"
| "board_exec (Leave i) b =
     ([], b\<lparr>bd_members := bd_members b - {i}, bd_waiting := (bd_waiting b)(i := [])\<rparr>)"
| "board_exec (Post i c) b =
     ([], if i \<in> bd_members b then b\<lparr>bd_waiting := (bd_waiting b)(i := bd_waiting b i @ [c])\<rparr> else b)"
| "board_exec (Collect i) b = (bd_waiting b i, b\<lparr>bd_waiting := (bd_waiting b)(i := [])\<rparr>)"
| "board_exec Pass b = ([], b)"

fun board_run :: "board_op list \<Rightarrow> board \<Rightarrow> uid list list \<times> board" where
  "board_run [] b = ([], b)"
| "board_run (op # ops) b =
     (let (out, b1) = board_exec op b; (outs, b2) = board_run ops b1 in (out # outs, b2))"

lemma board_run_append:
  "board_run (xs @ ys) b =
     (fst (board_run xs b) @ fst (board_run ys (snd (board_run xs b))),
      snd (board_run ys (snd (board_run xs b))))"
  by (induction xs arbitrary: b) (simp_all add: split_beta)

text \<open>What one operation, done on board \<open>b\<close>, adds to the queue of \<open>i\<close>, and takes from it.\<close>

fun posted_to :: "uid \<Rightarrow> board \<Rightarrow> board_op \<Rightarrow> uid list" where
  "posted_to i b (Post j c) = (if j = i \<and> i \<in> bd_members b then [c] else [])"
| "posted_to i b _ = []"

fun collected_by :: "uid \<Rightarrow> board \<Rightarrow> board_op \<Rightarrow> uid list" where
  "collected_by i b (Collect j) = (if j = i then bd_waiting b i else [])"
| "collected_by i b _ = []"

fun along :: "(board \<Rightarrow> board_op \<Rightarrow> 'a list) \<Rightarrow> board_op list \<Rightarrow> board \<Rightarrow> 'a list" where
  "along f [] b = []"
| "along f (op # ops) b = f b op @ along f ops (snd (board_exec op b))"

lemma queue_chain:
  "xs @ ys = us @ zs \<Longrightarrow> zs @ ys' = us' @ zs' \<Longrightarrow> xs @ ys @ ys' = us @ us' @ zs'"
  by (metis append_assoc)

text \<open>No command is lost, repeated or overtaken as long as the member stays.\<close>

lemma board_conserves:
  "Leave i \<notin> set ops
   \<Longrightarrow> bd_waiting b i @ along (posted_to i) ops b
       = along (collected_by i) ops b @ bd_waiting (snd (board_run ops b)) i"
proof (induction ops arbitrary: b)
  case Nil
  then show ?case by simp
next
  case (Cons op ops)
  then have ih: "bd_waiting (snd (board_exec op b)) i @ along (posted_to i) ops (snd (board_exec op b))
      = along (collected_by i) ops (snd (board_exec op b))
        @ bd_waiting (snd (board_run ops (snd (board_exec op b)))) i"
    by simp
  have "bd_waiting b i @ posted_to i b op
      = collected_by i b op @ bd_waiting (snd (board_exec op b)) i"
    using Cons.prems by (cases op) auto
  from queue_chain [OF this ih] show ?case by (simp add: split_beta)
qed

section \<open>The registry refines the board\<close>

definition board_view :: "registry \<Rightarrow> board" where
  "board_view s = \<lparr>bd_members = dom (m_agents s),
     bd_waiting = (\<lambda>i. map ac_commandId (queue_of i s))\<rparr>"

fun board_op_of :: "registry_op \<Rightarrow> board_op" where
  "board_op_of (OpRegister now a) = (if ai_agentId a = [] then Pass else Join (ai_agentId a))"
| "board_op_of (OpUnregister i) = Leave i"
| "board_op_of (OpQueue now c) = Post (ac_agentId c) (ac_commandId c)"
| "board_op_of (OpDequeue i) = Collect i"
| "board_op_of _ = Pass"

fun registry_out :: "registry_op \<Rightarrow> registry \<Rightarrow> uid list" where
  "registry_out (OpDequeue i) s = map ac_commandId (fst (dequeuePendingCommands i s))"
| "registry_out _ s = []"

fun registry_run ::
  "agent_command traversal \<Rightarrow> registry_op list \<Rightarrow> registry \<Rightarrow> uid list list \<times> registry" where
  "registry_run it [] s = ([], s)"
| "registry_run it (op # ops) s =
     (let (outs, s') = registry_run it ops (registry_exec it op s) in (registry_out op s # outs, s'))"

lemma queue_of_keeps [simp]:
  "queue_of i (s\<lparr>m_agents := x\<rparr>) = queue_of i s"
  "queue_of i (s\<lparr>m_commandHistory := y\<rparr>) = queue_of i s"
  by (simp_all add: queue_of_def)

lemma board_view_register:
  "board_view (snd (registerAgent now a s))
   = (if ai_agentId a = [] then board_view s
      else (board_view s)\<lparr>bd_members := insert (ai_agentId a) (bd_members (board_view s))\<rparr>)"
  by (simp add: registerAgent_def board_view_def Let_def)

lemma board_view_unregister:
  "board_view (unregisterAgent i s)
   = (board_view s)\<lparr>bd_members := bd_members (board_view s) - {i},
       bd_waiting := (bd_waiting (board_view s))(i := [])\<rparr>"
  by (auto simp: unregisterAgent_def board_view_def queue_of_def)

lemma board_view_idle:
  "board_view (heartbeat now i s) = board_view s"
  "board_view (updateState i st s) = board_view s"
  "board_view (reportCommandResult now i cs r d s) = board_view s"
  by (auto simp: heartbeat_def updateState_def reportCommandResult_def board_view_def Let_def
      split: option.split)

lemma board_view_queue:
  "board_view (queueCommand it now c s) = snd (board_exec (Post (ac_agentId c) (ac_commandId c)) (board_view s))"
  by (auto simp: board_view_def queueCommand_fields)

lemma board_view_dequeue:
  "board_view (snd (dequeuePendingCommands i s)) = snd (board_exec (Collect i) (board_view s))"
  "map ac_commandId (fst (dequeuePendingCommands i s)) = fst (board_exec (Collect i) (board_view s))"
  by (auto simp: board_view_def dequeue_fields comp_def)

lemma registry_step_refines:
  "board_exec (board_op_of op) (board_view s) = (registry_out op s, board_view (registry_exec it op s))"
  by (cases op)
    (simp_all add: board_view_register board_view_unregister board_view_idle board_view_queue
      board_view_dequeue prod_eq_iff)

lemma registry_run_refines:
  "board_run (map board_op_of ops) (board_view s)
   = (fst (registry_run it ops s), board_view (snd (registry_run it ops s)))"
  by (induction ops arbitrary: s) (simp_all add: registry_step_refines [where it = it] split_beta)

text \<open>
  C7: The registry is the board: every sequence of its operations, whatever the clock and
  the order the maps are traversed in, hands out the same commands as the board does and ends
  in a registry that shows the board's members and waiting commands.
\<close>

theorem registry_refines_board:
  "board_run (map board_op_of ops) (board_view empty_registry)
   = (fst (registry_run it ops empty_registry), board_view (snd (registry_run it ops empty_registry)))
   \<and> board_view empty_registry = \<lparr>bd_members = {}, bd_waiting = (\<lambda>_. [])\<rparr>"
  by (simp add: registry_run_refines [where it = it]) (simp add: board_view_def empty_registry_def queue_of_def)

end
