(* ===== verification/Json_Text.thy ===== *)
theory Json_Text
  imports School_Controllers
begin

text \<open>
  Writing an answer as text. The JSON library's \<^verbatim>\<open>dump()\<close> throws on a string that is not UTF-8
  (a copy of it is in src/third_party/mediasoup-server-ref/deps/json);
  the handlers do not catch that, and the HTTP library answers an exception that leaves a handler
  with the status 500 and its text in a header. What the handler has done before stays done.
  The handlers of the agents, which print what others have left in their queues after they have
  emptied them, use \<open>dump_answer\<close> for it. The answers of the other handlers are the values that are
  to be printed: there the dump is the last thing a handler does, so that \<open>printed\<close>, applied to
  the answer, gives what the client gets.
\<close>

section \<open>UTF-8\<close>

definition tail_byte :: "nat \<Rightarrow> bool" where
  "tail_byte b \<longleftrightarrow> 0x80 \<le> b \<and> b \<le> 0xBF"

text \<open>No overlong forms, no surrogates, nothing above U+10FFFF.\<close>

fun utf8_codes :: "nat list \<Rightarrow> bool" where
  "utf8_codes [] = True"
| "utf8_codes (a # bs) =
     (if a < 0x80 then utf8_codes bs
      else if 0xC2 \<le> a \<and> a \<le> 0xDF then
        (case bs of b # cs \<Rightarrow> tail_byte b \<and> utf8_codes cs | _ \<Rightarrow> False)
      else if 0xE0 \<le> a \<and> a \<le> 0xEF then
        (case bs of
           b # c # cs \<Rightarrow> tail_byte b \<and> tail_byte c \<and> (a = 0xE0 \<longrightarrow> 0xA0 \<le> b) \<and> (a = 0xED \<longrightarrow> b \<le> 0x9F)
             \<and> utf8_codes cs
         | _ \<Rightarrow> False)
      else if 0xF0 \<le> a \<and> a \<le> 0xF4 then
        (case bs of
           b # c # d # cs \<Rightarrow> tail_byte b \<and> tail_byte c \<and> tail_byte d
             \<and> (a = 0xF0 \<longrightarrow> 0x90 \<le> b) \<and> (a = 0xF4 \<longrightarrow> b \<le> 0x8F) \<and> utf8_codes cs
         | _ \<Rightarrow> False)
      else False)"

definition utf8_text :: "string \<Rightarrow> bool" where
  "utf8_text s = utf8_codes (map of_char s)"

lemma utf8_codes_append: "utf8_codes xs \<Longrightarrow> utf8_codes (xs @ ys) = utf8_codes ys"
  by (induction xs rule: utf8_codes.induct) (auto split: if_splits list.splits)

lemma utf8_text_append: "utf8_text xs \<Longrightarrow> utf8_text (xs @ ys) = utf8_text ys"
  by (simp add: utf8_text_def utf8_codes_append)

lemma utf8_text_Nil [simp]: "utf8_text []"
  by (simp add: utf8_text_def)

lemma utf8_ascii: "\<forall>c \<in> set s. (of_char c :: nat) < 0x80 \<Longrightarrow> utf8_text s"
  by (induction s) (auto simp: utf8_text_def)

lemma utf8_uuid: "utf8_text (uuid_print i bs)"
proof (induction i bs rule: uuid_print.induct)
  case (2 i b bs)
  have "utf8_text (hex2 b)"
    by (rule utf8_ascii) (use is_hex_char_hex2 [of b] in \<open>auto simp: is_hex_char_def Let_def list_all_iff\<close>)
  moreover have "utf8_text (''-'' :: string)" by (simp add: utf8_text_def)
  ultimately show ?case using 2 by (simp add: utf8_text_append)
qed simp

lemma generated_utf8: "generateUuid rnd = Some i \<Longrightarrow> utf8_text i"
  by (auto simp: generateUuid_def utf8_uuid split: option.splits)

section \<open>Printing a value\<close>

fun json_prints :: "json \<Rightarrow> bool" where
  "json_prints (JString s) = utf8_text s"
| "json_prints (JArray js) = list_all json_prints js"
| "json_prints (JObject ms) = list_all (\<lambda>(k, v). utf8_text k \<and> json_prints v) ms"
| "json_prints _ = True"

definition handler_threw :: "string \<Rightarrow> http_response \<Rightarrow> http_response" where
  "handler_threw what res = set_header ''EXCEPTION_WHAT'' what (res\<lparr>rs_status := 500\<rparr>)"

definition dump_answer :: "string \<Rightarrow> int \<Rightarrow> json \<Rightarrow> http_response \<Rightarrow> http_response" where
  "dump_answer what st j res = (if json_prints j then json_answer st j res else handler_threw what res)"

text \<open>The answer as it leaves, for handlers that were modelled without the check.\<close>

definition printed :: "string \<Rightarrow> http_response \<Rightarrow> http_response" where
  "printed what res =
     (case rs_body res of
        None \<Rightarrow> res
      | Some j \<Rightarrow> if json_prints j then res else handler_threw what (res\<lparr>rs_body := None, rs_content_type := []\<rparr>))"

lemma printed_dump:
  "rs_body res = None \<Longrightarrow> rs_content_type res = [] \<Longrightarrow> printed what (json_answer st j res) = dump_answer what st j res"
  by (simp add: printed_def dump_answer_def json_answer_def set_json_def handler_threw_def set_header_def)

lemma dump_answer_fields [simp]:
  "rs_status (dump_answer what st j res) = (if json_prints j then st else 500)"
  "rs_body (dump_answer what st j res) = (if json_prints j then Some j else rs_body res)"
  by (simp_all add: dump_answer_def json_answer_def set_json_def handler_threw_def)

text \<open>The parser of the JSON library takes nothing that is not UTF-8.\<close>

definition parses_utf8 :: "(string \<Rightarrow> json option) \<Rightarrow> bool" where
  "parses_utf8 parse \<longleftrightarrow> (\<forall>s j. parse s = Some j \<longrightarrow> json_prints j)"

lemma prints_at: "json_prints j \<Longrightarrow> json_at j k = Some v \<Longrightarrow> json_prints v"
  by (cases j) (auto simp: json_at_def list_all_iff dest!: map_of_SomeD)

lemma get_string_iff: "json_get_string j = Some s \<longleftrightarrow> j = JString s"
  by (cases j) (auto simp: json_get_string_def)

lemma prints_at_string: "json_prints j \<Longrightarrow> json_at_string j k = Some s \<Longrightarrow> utf8_text s"
  using prints_at [of j k "JString s"] by (auto simp: json_at_string_def bind_eq_Some_conv get_string_iff)

end
