(* ===== verification/Agent_Endpoints.thy ===== *)
theory Agent_Endpoints
  imports Agent_Board Json_Text
begin

text \<open>
  The endpoints of the agents, src/api/v1/controllers/AgentController.cpp with
  src/api/v1/dto/AgentDto.hpp and the command states of src/core/ApiContext.cpp: registration
  with its computer row and token, the command queue of an agent, and the heartbeat. The
  handlers work on the agent registry and on the computers of the database; an answer that
  cannot be printed leaves as the library's 500, after what the handler has done. The lemmas show
  that a command that is pushed is handed out once and in order, by polls and heartbeats
  alike, what a registration leaves behind, and whom the handlers do not ask for.
\<close>

section \<open>Wire strings and bodies\<close>

fun command_status_to_string :: "command_status \<Rightarrow> string" where
  "command_status_to_string Pending = ''pending''"
| "command_status_to_string Dispatched = ''dispatched''"
| "command_status_to_string Running = ''running''"
| "command_status_to_string Success = ''success''"
| "command_status_to_string Failed = ''failed''"
| "command_status_to_string Timeout = ''timeout''"

definition command_status_from_string :: "string \<Rightarrow> command_status" where
  "command_status_from_string s =
     (if s = ''dispatched'' then Dispatched
      else if s = ''running'' then Running
      else if s = ''success'' then Success
      else if s = ''failed'' then Failed
      else if s = ''timeout'' then Timeout
      else Pending)"

interpretation command_status_enum: wire_enum command_status_to_string command_status_from_string
proof
  show "command_status_from_string (command_status_to_string e) = e" for e
    by (cases e) (simp_all add: command_status_from_string_def)
qed

text \<open>Reading a list or a map of strings throws on anything else.\<close>

fun all_some :: "'a option list \<Rightarrow> 'a list option" where
  "all_some [] = Some []"
| "all_some (None # xs) = None"
| "all_some (Some x # xs) = map_option ((#) x) (all_some xs)"

definition json_get_strings :: "json \<Rightarrow> string list option" where
  "json_get_strings j = (case j of JArray js \<Rightarrow> all_some (map json_get_string js) | _ \<Rightarrow> None)"

definition json_get_string_map :: "json \<Rightarrow> (string \<times> string) list option" where
  "json_get_string_map j =
     (case j of
        JObject ms \<Rightarrow> all_some (map (\<lambda>(k, v). map_option (Pair k) (json_get_string v)) ms)
      | _ \<Rightarrow> None)"

record agent_register_request =
  dr_hostname :: string
  dr_macAddress :: string
  dr_agentKey :: string
  dr_osVersion :: string
  dr_agentVersion :: string
  dr_capabilities :: "string list"

definition agent_register_request_from_json :: "json \<Rightarrow> agent_register_request option" where
  "agent_register_request_from_json j =
     do { h \<leftarrow> json_at_string j ''hostname'';
          m \<leftarrow> json_at_string j ''macAddress'';
          k \<leftarrow> json_at_string j ''agentKey'';
          os \<leftarrow> json_at_string j ''osVersion'';
          v \<leftarrow> json_at_string j ''agentVersion'';
          c \<leftarrow> Option.bind (json_at j ''capabilities'') json_get_strings;
          Some \<lparr>dr_hostname = h, dr_macAddress = m, dr_agentKey = k, dr_osVersion = os,
                dr_agentVersion = v, dr_capabilities = c\<rparr> }"

record agent_command_request =
  dq_featureUid :: string
  dq_operation :: string
  dq_arguments :: "(string \<times> string) list"

definition agent_command_request_from_json :: "json \<Rightarrow> agent_command_request option" where
  "agent_command_request_from_json j =
     do { f \<leftarrow> json_at_string j ''featureUid'';
          op \<leftarrow> json_at_string j ''operation'';
          as \<leftarrow> Option.bind (json_at j ''arguments'') json_get_string_map;
          Some \<lparr>dq_featureUid = f, dq_operation = op, dq_arguments = as\<rparr> }"

record agent_result_request =
  du_commandId :: string
  du_status :: string
  du_result :: string
  du_durationMs :: int

definition agent_result_request_from_json :: "(rat \<Rightarrow> int) \<Rightarrow> json \<Rightarrow> agent_result_request option" where
  "agent_result_request_from_json conv j =
     do { c \<leftarrow> json_at_string j ''commandId'';
          s \<leftarrow> json_at_string j ''status'';
          r \<leftarrow> json_at_string j ''result'';
          d \<leftarrow> Option.bind (json_at j ''durationMs'') (json_get_int conv);
          Some \<lparr>du_commandId = c, du_status = s, du_result = r, du_durationMs = d\<rparr> }"

definition strings_json :: "string list \<Rightarrow> json" where
  "strings_json xs = JArray (map JString xs)"

definition arguments_json :: "(string \<times> string) list \<Rightarrow> json" where
  "arguments_json as = JObject (map (\<lambda>(k, v). (k, JString v)) as)"

text \<open>\<open>print_time\<close> is the ISO 8601 form of a time.\<close>

definition agent_status_json :: "(timestamp \<Rightarrow> string) \<Rightarrow> agent_info \<Rightarrow> json" where
  "agent_status_json print_time a = JObject
     [(''agentId'', JString (ai_agentId a)), (''hostname'', JString (ai_hostname a)),
      (''ipAddress'', JString (ai_ipAddress a)), (''state'', JString (agent_state_to_string (ai_state a))),
      (''agentVersion'', JString (ai_agentVersion a)),
      (''lastHeartbeat'', JString (print_time (ai_lastHeartbeat a))),
      (''capabilities'', strings_json (ai_capabilities a))]"

definition polled_json :: "agent_command \<Rightarrow> json" where
  "polled_json c = JObject
     [(''commandId'', JString (ac_commandId c)), (''featureUid'', JString (ac_featureUid c)),
      (''operation'', JString (ac_operation c)), (''arguments'', arguments_json (ac_arguments c)),
      (''status'', JString (command_status_to_string (ac_status c)))]"

definition pending_json :: "agent_command \<Rightarrow> json" where
  "pending_json c = JObject
     [(''commandId'', JString (ac_commandId c)), (''featureUid'', JString (ac_featureUid c)),
      (''operation'', JString (ac_operation c)), (''arguments'', arguments_json (ac_arguments c))]"

section \<open>The handlers\<close>

text \<open>
  What the environment answers to one request; \<open>ge_what\<close> is the text of an exception. \<open>ge_repo\<close> says whether the controller was
  given the computers; every statement has its own outcome.
\<close>

record 'd agent_env =
  ge_lib :: "'d jwt_lib"
  ge_stod :: "string \<Rightarrow> rat option"
  ge_i18n :: "i18n option"
  ge_parse :: "string \<Rightarrow> json option"
  ge_what :: string
  ge_double_int :: "rat \<Rightarrow> int"
  ge_crypto :: crypto
  ge_keyHash :: string
  ge_id_rnd :: "byte list option"
  ge_computer_rnd :: "byte list option"
  ge_jti_rnd :: "byte list option"
  ge_now :: timestamp
  ge_unix_now :: int
  ge_iso :: "timestamp \<Rightarrow> string"
  ge_agents_it :: "agent_info traversal"
  ge_history_it :: "agent_command traversal"
  ge_repo :: bool
  ge_find_oc :: sql_call
  ge_beat_oc :: sql_call
  ge_state_oc :: sql_call
  ge_create_oc :: sql_call
  ge_err :: string

record agent_data =
  gd_registry :: registry
  gd_org :: org_db

definition path_param :: "nat \<Rightarrow> http_request \<Rightarrow> string" where
  "path_param n req = (if length (rq_matches req) > n then rq_matches req ! n else [])"

text \<open>The computer of an agent: the one of that host name, or a new one without location.\<close>

definition sync_computer ::
  "'d agent_env \<Rightarrow> http_request \<Rightarrow> agent_register_request \<Rightarrow> org_db \<Rightarrow> string \<times> string \<times> org_db" where
  "sync_computer env req d db =
     (if \<not> ge_repo env then ([], [], db)
      else case find_computer_by_hostname (ge_find_oc env) (dr_hostname d) db of
        Inr c \<Rightarrow>
          let (_, db1) = update_computer_heartbeat (ge_beat_oc env) (ge_unix_now env) (cp_id c)
                           (rq_remote_addr req) (dr_agentVersion d) db;
              (_, db2) = update_computer_state (ge_state_oc env) (cp_id c) ''online'' db1
          in (cp_id c, cp_locationId c, db2)
      | Inl _ \<Rightarrow>
          (case create_unassigned_computer (ge_computer_rnd env) (ge_create_oc env) (ge_err env)
                  (dr_hostname d) (dr_macAddress d) db of
             (Inr i, db1) \<Rightarrow> (i, [], db1)
           | (Inl _, db1) \<Rightarrow> ([], [], db1)))"

definition new_agent :: "string \<Rightarrow> http_request \<Rightarrow> agent_register_request \<Rightarrow> agent_info" where
  "new_agent agentId req d =
     \<lparr>ai_agentId = agentId, ai_hostname = dr_hostname d, ai_ipAddress = rq_remote_addr req,
      ai_agentPort = 11082, ai_osVersion = dr_osVersion d, ai_agentVersion = dr_agentVersion d,
      ai_state = Offline, ai_registeredAt = 0, ai_lastHeartbeat = 0,
      ai_capabilities = dr_capabilities d\<rparr>"

definition register_response_json :: "string \<Rightarrow> string \<Rightarrow> string \<Rightarrow> string \<Rightarrow> json" where
  "register_response_json agentId computerId locationId token = JObject
     [(''agentId'', JString agentId), (''computerId'', JString computerId),
      (''locationId'', JString locationId), (''authToken'', JString token),
      (''commandPollIntervalMs'', JInt 5000)]"

definition handleAgentRegister ::
  "'d agent_env \<Rightarrow> jwt_auth \<Rightarrow> http_request \<Rightarrow> http_response \<Rightarrow> agent_data \<Rightarrow> http_response \<times> agent_data" where
  "handleAgentRegister env a req res s =
     (let lang = getLocale (ge_stod env) (ge_i18n env) req; t = tr (ge_i18n env) lang
      in case Option.bind (ge_parse env (rq_body req)) agent_register_request_from_json of
           None \<Rightarrow> (sendError 400 (t ''error.invalid_request_body'') (ge_what env) res, s)
         | Some d \<Rightarrow>
             if ge_keyHash env = [] then
               (sendError 503 (t ''error.service_unavailable'')
                  ''Agent registration is not configured (no agent key file)'' res, s)
             else if \<not> verifyPassword (ge_crypto env) (dr_agentKey d) (ge_keyHash env) then
               (sendError 401 (t ''error.unauthorized'') (t ''error.invalid_agent_key'') res, s)
             else case generateUuid (ge_id_rnd env) of
               None \<Rightarrow> (sendError 500 (t ''error.internal'') ''UUID generation failed'' res, s)
             | Some agentId \<Rightarrow>
                 (case registerAgent (ge_now env) (new_agent agentId req d) (gd_registry s) of
                    (Inl e, g) \<Rightarrow>
                      (sendError 500 (t ''error.registration_failed'') (err_msg e) res, s\<lparr>gd_registry := g\<rparr>)
                  | (Inr _, g) \<Rightarrow>
                      let (computerId, locationId, db) = sync_computer env req d (gd_org s);
                          s' = s\<lparr>gd_registry := g, gd_org := db\<rparr>
                      in case issueToken (ge_lib env) (ge_now env) (ge_jti_rnd env) a agentId ''agent'' [] of
                           Inl e \<Rightarrow> (sendError 500 (t ''error.token_generation_failed'') (err_msg e) res, s')
                         | Inr token \<Rightarrow>
                             (dump_answer (ge_what env) 201 (register_response_json agentId computerId locationId token) res, s')))"

definition handleAgentUnregister ::
  "'d agent_env \<Rightarrow> http_request \<Rightarrow> http_response \<Rightarrow> agent_data \<Rightarrow> http_response \<times> agent_data" where
  "handleAgentUnregister env req res s =
     (let lang = getLocale (ge_stod env) (ge_i18n env) req; i = path_param 1 req
      in if i = [] then (sendError 400 (tr (ge_i18n env) lang ''error.missing_agent_id'') [] res, s)
         else (res\<lparr>rs_status := 204\<rparr>, s\<lparr>gd_registry := unregisterAgent i (gd_registry s)\<rparr>))"

definition handleAgentList :: "'d agent_env \<Rightarrow> http_response \<Rightarrow> agent_data \<Rightarrow> http_response" where
  "handleAgentList env res s =
     dump_answer (ge_what env) 200
       (JArray (map (agent_status_json (ge_iso env)) (listAgents (ge_agents_it env) (gd_registry s)))) res"

definition handleAgentStatus ::
  "'d agent_env \<Rightarrow> http_request \<Rightarrow> http_response \<Rightarrow> agent_data \<Rightarrow> http_response" where
  "handleAgentStatus env req res s =
     (let lang = getLocale (ge_stod env) (ge_i18n env) req; i = path_param 1 req
      in if i = [] then sendError 400 (tr (ge_i18n env) lang ''error.missing_agent_id'') [] res
         else case findAgent i (gd_registry s) of
           Inl e \<Rightarrow> sendError 404 (tr (ge_i18n env) lang ''error.agent_not_found'') (err_msg e) res
         | Inr a \<Rightarrow> dump_answer (ge_what env) 200 (agent_status_json (ge_iso env) a) res)"

definition new_command :: "string \<Rightarrow> string \<Rightarrow> agent_command_request \<Rightarrow> agent_command" where
  "new_command commandId agentId d =
     \<lparr>ac_commandId = commandId, ac_agentId = agentId, ac_featureUid = dq_featureUid d,
      ac_operation = dq_operation d, ac_arguments = dq_arguments d, ac_status = Pending,
      ac_createdAt = 0, ac_completedAt = 0, ac_result = [], ac_durationMs = 0\<rparr>"

definition handlePushCommand ::
  "'d agent_env \<Rightarrow> http_request \<Rightarrow> http_response \<Rightarrow> agent_data \<Rightarrow> http_response \<times> agent_data" where
  "handlePushCommand env req res s =
     (let lang = getLocale (ge_stod env) (ge_i18n env) req; t = tr (ge_i18n env) lang;
          agentId = path_param 1 req
      in if agentId = [] then (sendError 400 (t ''error.missing_agent_id'') [] res, s)
         else case Option.bind (ge_parse env (rq_body req)) agent_command_request_from_json of
           None \<Rightarrow> (sendError 400 (t ''error.invalid_request_body'') (ge_what env) res, s)
         | Some d \<Rightarrow>
             (case findAgent agentId (gd_registry s) of
                Inl e \<Rightarrow> (sendError 404 (t ''error.agent_not_found'') (err_msg e) res, s)
              | Inr _ \<Rightarrow>
                  (case generateUuid (ge_id_rnd env) of
                     None \<Rightarrow> (sendError 500 (t ''error.internal'') ''UUID generation failed'' res, s)
                   | Some commandId \<Rightarrow>
                       (json_answer 201 (JObject [(''commandId'', JString commandId), (''status'', JString ''pending'')]) res,
                        s\<lparr>gd_registry := queueCommand (ge_history_it env) (ge_now env)
                            (new_command commandId agentId d) (gd_registry s)\<rparr>))))"

definition handlePollCommands ::
  "'d agent_env \<Rightarrow> http_request \<Rightarrow> http_response \<Rightarrow> agent_data \<Rightarrow> http_response \<times> agent_data" where
  "handlePollCommands env req res s =
     (let lang = getLocale (ge_stod env) (ge_i18n env) req; agentId = path_param 1 req
      in if agentId = [] then (sendError 400 (tr (ge_i18n env) lang ''error.missing_agent_id'') [] res, s)
         else let (commands, g) = dequeuePendingCommands agentId (gd_registry s)
              in (dump_answer (ge_what env) 200 (JArray (map polled_json commands)) res, s\<lparr>gd_registry := g\<rparr>))"

definition handleReportResult ::
  "'d agent_env \<Rightarrow> http_request \<Rightarrow> http_response \<Rightarrow> agent_data \<Rightarrow> http_response \<times> agent_data" where
  "handleReportResult env req res s =
     (let lang = getLocale (ge_stod env) (ge_i18n env) req; t = tr (ge_i18n env) lang;
          agentId = path_param 1 req; commandId = path_param 2 req
      in if agentId = [] \<or> commandId = []
         then (sendError 400 (t ''error.missing_agent_or_command_id'') [] res, s)
         else case Option.bind (ge_parse env (rq_body req)) (agent_result_request_from_json (ge_double_int env)) of
           None \<Rightarrow> (sendError 400 (t ''error.invalid_request_body'') (ge_what env) res, s)
         | Some d \<Rightarrow>
             (json_answer 200 (JObject [(''ok'', JBool True)]) res,
              s\<lparr>gd_registry := reportCommandResult (ge_now env) commandId
                  (command_status_from_string (du_status d)) (du_result d) (du_durationMs d) (gd_registry s)\<rparr>))"

definition beat_computer :: "'d agent_env \<Rightarrow> string \<Rightarrow> registry \<Rightarrow> org_db \<Rightarrow> org_db" where
  "beat_computer env i g db =
     (if \<not> ge_repo env then db
      else case findAgent i g of
        Inl _ \<Rightarrow> db
      | Inr a \<Rightarrow>
          (case find_computer_by_hostname (ge_find_oc env) (ai_hostname a) db of
             Inl _ \<Rightarrow> db
           | Inr c \<Rightarrow> snd (update_computer_heartbeat (ge_beat_oc env) (ge_unix_now env) (cp_id c)
                           (ai_ipAddress a) (ai_agentVersion a) db)))"

definition handleAgentHeartbeat ::
  "'d agent_env \<Rightarrow> http_request \<Rightarrow> http_response \<Rightarrow> agent_data \<Rightarrow> http_response \<times> agent_data" where
  "handleAgentHeartbeat env req res s =
     (let lang = getLocale (ge_stod env) (ge_i18n env) req; i = path_param 1 req
      in if i = [] then (sendError 400 (tr (ge_i18n env) lang ''error.missing_agent_id'') [] res, s)
         else
           let g = heartbeat (ge_now env) i (gd_registry s);
               db = beat_computer env i g (gd_org s);
               (commands, g') = dequeuePendingCommands i g
           in (dump_answer (ge_what env) 200 (JObject [(''ok'', JBool True),
                 (''pendingCommands'', JArray (map pending_json commands))]) res,
               s\<lparr>gd_registry := g', gd_org := db\<rparr>))"

section \<open>Visit after visit\<close>

datatype agent_call = RegisterCall | UnregisterCall | PushCall | PollCall | ReportCall | BeatCall

text \<open>
  A visit to one of the endpoints that change something: what the environment answers during
  it, the token service, and the request with its prepared response.
\<close>

type_synonym 'd agent_visit = "'d agent_env \<times> jwt_auth \<times> agent_call \<times> http_request \<times> http_response"

fun visit_agents :: "'d agent_visit \<Rightarrow> agent_data \<Rightarrow> http_response \<times> agent_data" where
  "visit_agents (env, a, RegisterCall, req, res) s = handleAgentRegister env a req res s"
| "visit_agents (env, a, UnregisterCall, req, res) s = handleAgentUnregister env req res s"
| "visit_agents (env, a, PushCall, req, res) s = handlePushCommand env req res s"
| "visit_agents (env, a, PollCall, req, res) s = handlePollCommands env req res s"
| "visit_agents (env, a, ReportCall, req, res) s = handleReportResult env req res s"
| "visit_agents (env, a, BeatCall, req, res) s = handleAgentHeartbeat env req res s"

fun visits :: "'d agent_visit list \<Rightarrow> agent_data \<Rightarrow> http_response list \<times> agent_data" where
  "visits [] s = ([], s)"
| "visits (v # vs) s =
     (let (r, s1) = visit_agents v s; (rs, s2) = visits vs s1 in (r # rs, s2))"

text \<open>What the answers say: the commands acknowledged to a teacher, and those handed to the agent.\<close>

definition command_id_in :: "json \<Rightarrow> string" where
  "command_id_in j = (case json_at_string j ''commandId'' of None \<Rightarrow> [] | Some i \<Rightarrow> i)"

definition command_ids_in :: "json option \<Rightarrow> string list" where
  "command_ids_in j = (case j of Some (JArray js) \<Rightarrow> map command_id_in js | _ \<Rightarrow> [])"

fun acknowledged :: "string \<Rightarrow> 'd agent_visit \<Rightarrow> http_response \<Rightarrow> string list" where
  "acknowledged i (env, a, PushCall, req, res) r =
     (if path_param 1 req = i \<and> rs_status r = 201
      then (case rs_body r of None \<Rightarrow> [] | Some j \<Rightarrow> [command_id_in j]) else [])"
| "acknowledged i v r = []"

fun handed_out :: "string \<Rightarrow> 'd agent_visit \<Rightarrow> http_response \<Rightarrow> string list" where
  "handed_out i (env, a, PollCall, req, res) r =
     (if path_param 1 req = i then command_ids_in (rs_body r) else [])"
| "handed_out i (env, a, BeatCall, req, res) r =
     (if path_param 1 req = i
      then command_ids_in (Option.bind (rs_body r) (\<lambda>j. json_at j ''pendingCommands'')) else [])"
| "handed_out i v r = []"

fun unregisters :: "string \<Rightarrow> 'd agent_visit \<Rightarrow> bool" where
  "unregisters i (env, a, UnregisterCall, req, res) = (path_param 1 req = i)"
| "unregisters i v = False"

text \<open>The commands of a poll or a heartbeat are lost when the answer cannot be printed.\<close>

fun answer_lost :: "string \<Rightarrow> 'd agent_visit \<Rightarrow> http_response \<Rightarrow> bool" where
  "answer_lost i (env, a, PollCall, req, res) r = (path_param 1 req = i \<and> rs_status r = 500)"
| "answer_lost i (env, a, BeatCall, req, res) r = (path_param 1 req = i \<and> rs_status r = 500)"
| "answer_lost i v r = False"

definition waiting_for :: "string \<Rightarrow> agent_data \<Rightarrow> string list" where
  "waiting_for i s = bd_waiting (board_view (gd_registry s)) i"

section \<open>Commands that can be printed\<close>

definition command_prints :: "agent_command \<Rightarrow> bool" where
  "command_prints c \<longleftrightarrow> utf8_text (ac_commandId c) \<and> utf8_text (ac_featureUid c) \<and> utf8_text (ac_operation c)
     \<and> list_all (\<lambda>(k, v). utf8_text k \<and> utf8_text v) (ac_arguments c)"

lemma ascii_texts [simp]:
  "utf8_text ''commandId''" "utf8_text ''featureUid''" "utf8_text ''operation''" "utf8_text ''arguments''"
  "utf8_text ''status''" "utf8_text ''ok''" "utf8_text ''pendingCommands''"
  "utf8_text (command_status_to_string st)"
  by (simp_all add: utf8_text_def) (cases st; simp)

lemma polled_prints [simp]: "json_prints (polled_json c) = command_prints c"
  by (auto simp: polled_json_def command_prints_def arguments_json_def list_all_iff)

lemma pending_prints [simp]: "json_prints (pending_json c) = command_prints c"
  by (auto simp: pending_json_def command_prints_def arguments_json_def list_all_iff)

lemma command_prints_status [simp]: "command_prints (c\<lparr>ac_status := st\<rparr>) = command_prints c"
  by (simp add: command_prints_def)

section \<open>Commands reach their agent\<close>

lemma json_answer_fields [simp]:
  "rs_status (json_answer st j res) = st" "rs_body (json_answer st j res) = Some j"
  by (simp_all add: json_answer_def set_json_def)

lemma sendError_body [simp]: "rs_body (sendError st t d res) = Some (error_body st t (if d = [] then t else d))"
  by (simp add: sendError_def set_json_def)

lemma command_ids_in_polled: "command_ids_in (Some (JArray (map polled_json cs))) = map ac_commandId cs"
  by (simp add: command_ids_in_def command_id_in_def polled_json_def json_at_string_def json_at_def
      json_get_string_def comp_def)

lemma command_ids_in_pending: "command_ids_in (Some (JArray (map pending_json cs))) = map ac_commandId cs"
  by (simp add: command_ids_in_def command_id_in_def pending_json_def json_at_string_def json_at_def
      json_get_string_def comp_def)

lemma command_ids_in_error [simp]:
  "command_ids_in (Some (error_body st t d)) = []" "command_ids_in None = []"
  "json_at (error_body st t d) ''pendingCommands'' = None"
  by (simp_all add: command_ids_in_def error_body_def json_at_def)

lemma waiting_for_registry:
  "waiting_for i (s\<lparr>gd_registry := g\<rparr>) = bd_waiting (board_view g) i"
  "waiting_for i (s\<lparr>gd_org := db\<rparr>) = waiting_for i s"
  "waiting_for i (s\<lparr>gd_registry := g, gd_org := db\<rparr>) = bd_waiting (board_view g) i"
  by (simp_all add: waiting_for_def)

lemma findAgent_known: "findAgent i s = Inr a \<longleftrightarrow> m_agents s i = Some a"
  by (simp add: findAgent_def fail_def ok_def split: option.split)

lemma command_id_in_answer [simp]:
  "command_id_in (JObject [(''commandId'', JString c), (''status'', JString ''pending'')]) = c"
  by (simp add: command_id_in_def json_at_string_def json_at_def json_get_string_def)

lemma push_conserves:
  "waiting_for i s @ acknowledged i (env, a, PushCall, req, res) (fst (handlePushCommand env req res s))
   = waiting_for i (snd (handlePushCommand env req res s))"
  by (auto simp: handlePushCommand_def Let_def waiting_for_def board_view_def queueCommand_fields
      new_command_def findAgent_def fail_def ok_def split: option.split)

lemma poll_conserves:
  "\<not> answer_lost i (env, a, PollCall, req, res) (fst (handlePollCommands env req res s)) \<Longrightarrow>
   waiting_for i s = handed_out i (env, a, PollCall, req, res) (fst (handlePollCommands env req res s))
     @ waiting_for i (snd (handlePollCommands env req res s))"
  by (auto simp: handlePollCommands_def Let_def split_beta waiting_for_registry board_view_dequeue
      command_ids_in_polled waiting_for_def)

lemma beat_conserves:
  assumes "\<not> answer_lost i (env, a, BeatCall, req, res) (fst (handleAgentHeartbeat env req res s))"
  shows "waiting_for i s = handed_out i (env, a, BeatCall, req, res) (fst (handleAgentHeartbeat env req res s))
     @ waiting_for i (snd (handleAgentHeartbeat env req res s))"
proof -
  let ?cs = "fst (dequeuePendingCommands i (heartbeat (ge_now env) i (gd_registry s)))"
  have at: "json_at (JObject [(''ok'', x), (''pendingCommands'', y)]) ''pendingCommands'' = Some y" for x y
    by (simp add: json_at_def)
  have "json_prints (JArray (map pending_json ?cs))" if "path_param 1 req = i" "i \<noteq> []"
    using assms that by (simp add: handleAgentHeartbeat_def Let_def split_beta split: if_splits)
  then show ?thesis
    by (auto simp: handleAgentHeartbeat_def Let_def split_beta waiting_for_registry board_view_dequeue
        board_view_idle command_ids_in_pending waiting_for_def at)
qed

lemma register_keeps_waiting [simp]:
  "bd_waiting (board_view (snd (registerAgent now x g))) = bd_waiting (board_view g)"
  by (simp add: board_view_register)

lemma register_conserves: "waiting_for i (snd (handleAgentRegister env a req res s)) = waiting_for i s"
  by (simp add: handleAgentRegister_def Let_def split_beta waiting_for_registry
      split: option.split sum.split)
    (simp add: waiting_for_def)

lemma unregister_conserves:
  "path_param 1 req \<noteq> i \<Longrightarrow> waiting_for i (snd (handleAgentUnregister env req res s)) = waiting_for i s"
  by (simp add: handleAgentUnregister_def Let_def waiting_for_registry board_view_unregister)
    (simp add: waiting_for_def)

lemma report_conserves: "waiting_for i (snd (handleReportResult env req res s)) = waiting_for i s"
  by (simp add: handleReportResult_def Let_def waiting_for_registry board_view_idle split: option.split)
    (simp add: waiting_for_def)

lemma visit_conserves:
  "\<not> unregisters i v \<Longrightarrow> \<not> answer_lost i v (fst (visit_agents v s))
   \<Longrightarrow> waiting_for i s @ acknowledged i v (fst (visit_agents v s))
       = handed_out i v (fst (visit_agents v s)) @ waiting_for i (snd (visit_agents v s))"
proof (cases v)
  case (fields env a c req res)
  assume v: "\<not> unregisters i v" and r: "\<not> answer_lost i v (fst (visit_agents v s))"
  show ?thesis
  proof (cases c)
    case PushCall
    then show ?thesis using push_conserves [of i s env a req res] fields by simp
  next
    case PollCall
    then show ?thesis using poll_conserves [of i env a req res s] fields r by simp
  next
    case BeatCall
    then show ?thesis using beat_conserves [of i env a req res s] fields r by simp
  next
    case UnregisterCall
    then show ?thesis using unregister_conserves [of req i env res s] fields v by simp
  qed (simp_all add: fields register_conserves report_conserves)
qed

text \<open>
  C8: Whatever the agents and the teachers ask for, one request after the other: as long as
  nobody unregisters the agent and no answer that hands it commands fails to be printed, the
  commands acknowledged to teachers with a 201 are exactly the commands its polls and heartbeats
  were answered with, in the order they were acknowledged, followed by those that still wait
  for it. No command is lost, doubled or overtaken, and none reaches the agent that was not
  acknowledged.
\<close>

theorem commands_handed_out_in_order:
  assumes "\<forall>v \<in> set vs. \<not> unregisters i v"
    and "list_all2 (\<lambda>v r. \<not> answer_lost i v r) vs (fst (visits vs s))"
  shows "waiting_for i s @ concat (map2 (acknowledged i) vs (fst (visits vs s)))
    = concat (map2 (handed_out i) vs (fst (visits vs s))) @ waiting_for i (snd (visits vs s))"
  using assms
proof (induction vs arbitrary: s)
  case Nil
  then show ?case by simp
next
  case (Cons v vs)
  let ?s = "snd (visit_agents v s)" and ?r = "fst (visit_agents v s)"
  have "\<not> answer_lost i v ?r" "list_all2 (\<lambda>v r. \<not> answer_lost i v r) vs (fst (visits vs ?s))"
    using Cons.prems(2) by (simp_all add: split_beta)
  moreover from this have "waiting_for i s @ acknowledged i v ?r = handed_out i v ?r @ waiting_for i ?s"
    using Cons.prems by (simp add: visit_conserves)
  ultimately show ?case using queue_chain [OF _ Cons.IH, of "waiting_for i s"] Cons.prems by (simp add: split_beta)
qed

text \<open>
  What makes an answer fail: text in a queue that is not UTF-8. None gets there through these
  endpoints, because what a teacher sends was parsed and the identifiers are generated.
\<close>

definition queues_print :: "registry \<Rightarrow> bool" where
  "queues_print g \<longleftrightarrow> (\<forall>i. list_all command_prints (queue_of i g))"

lemma pushed_prints:
  assumes "parses_utf8 parse" and "Option.bind (parse b) agent_command_request_from_json = Some d"
    and "generateUuid rnd = Some c"
  shows "command_prints (stamp_created now (new_command c i d))"
proof -
  obtain j as where j: "json_prints j" "json_at_string j ''featureUid'' = Some (dq_featureUid d)"
      "json_at_string j ''operation'' = Some (dq_operation d)" "json_at j ''arguments'' = Some as"
      "json_get_string_map as = Some (dq_arguments d)"
    using assms(1,2) unfolding parses_utf8_def bind_eq_Some_conv agent_command_request_from_json_def by fastforce
  have strings: "list_all (\<lambda>(k, v). utf8_text k \<and> utf8_text v) xs"
    if "all_some (map (\<lambda>(k, v). map_option (Pair k) (json_get_string v)) ms) = Some xs"
      "list_all (\<lambda>(k, v). utf8_text k \<and> json_prints v) ms" for xs ms
    using that
  proof (induction ms arbitrary: xs)
    case (Cons m ms)
    obtain k v where m: "m = (k, v)" by (cases m)
    then obtain s where s: "v = JString s" using Cons.prems(1) by (cases v) (auto simp: json_get_string_def)
    with m Cons show ?case by (auto simp: json_get_string_def)
  qed simp
  obtain ms where ms: "as = JObject ms" using j(5) by (cases as) (simp_all add: json_get_string_map_def)
  then have "list_all (\<lambda>(k, v). utf8_text k \<and> utf8_text v) (dq_arguments d)"
    using j(5) prints_at [OF j(1,4)] by (auto simp: json_get_string_map_def intro: strings)
  then show ?thesis
    using prints_at_string [OF j(1)] j(2,3) generated_utf8 [OF assms(3)]
    by (auto simp: command_prints_def stamp_created_def new_command_def)
qed

lemma queue_of_others [simp]:
  "queue_of i (snd (registerAgent now a g)) = queue_of i g"
  "queue_of i (heartbeat now j g) = queue_of i g"
  "queue_of i (reportCommandResult now j st r d g) = queue_of i g"
  "queue_of i (unregisterAgent j g) = (if i = j then [] else queue_of i g)"
  by (auto simp: queue_of_def registerAgent_def heartbeat_def reportCommandResult_def unregisterAgent_def Let_def
      split: option.split)

lemma visit_queues_print:
  assumes "parses_utf8 (ge_parse (fst v))" and "queues_print (gd_registry s)"
  shows "queues_print (gd_registry (snd (visit_agents v s))) \<and> \<not> answer_lost i v (fst (visit_agents v s))"
proof (cases v)
  case (fields env a c req res)
  show ?thesis
  proof (cases c)
    case RegisterCall
    have "registerAgent now x (gd_registry s) = (y, g) \<Longrightarrow> queues_print g" for now x y g
      using assms(2) queue_of_others(1) [of _ now x "gd_registry s"] by (simp add: queues_print_def)
    with assms(2) show ?thesis
      by (auto simp: fields RegisterCall handleAgentRegister_def Let_def split: option.split sum.split prod.split)
  next
    case PushCall
    with assms show ?thesis
      by (auto simp: fields handlePushCommand_def Let_def queues_print_def queueCommand_fields
          split: option.split sum.split intro: pushed_prints)
  next
    case PollCall
    with assms(2) show ?thesis
      by (simp add: fields handlePollCommands_def Let_def split_beta queues_print_def dequeue_fields list.pred_map comp_def)
  next
    case BeatCall
    with assms(2) show ?thesis
      by (simp add: fields handleAgentHeartbeat_def Let_def split_beta queues_print_def dequeue_fields list.pred_map comp_def)
  qed (use assms(2) in \<open>auto simp: fields handleAgentUnregister_def handleReportResult_def queues_print_def Let_def
      split: option.split\<close>)
qed

lemma answers_printed:
  assumes "\<forall>v \<in> set vs. parses_utf8 (ge_parse (fst v))" and "queues_print (gd_registry s)"
  shows "list_all2 (\<lambda>v r. \<not> answer_lost i v r) vs (fst (visits vs s))"
  using assms
proof (induction vs arbitrary: s)
  case (Cons v vs)
  with visit_queues_print [of v s i] show ?case by (simp add: split_beta)
qed simp

text \<open>
  Every answer that hands commands to an agent is printed: from a state in which the queues
  hold UTF-8 text, an empty one for instance, no sequence of requests to these endpoints loses
  an answer. (The parser takes nothing but UTF-8.)
\<close>

theorem agent_answers_printed:
  assumes "\<forall>v \<in> set vs. parses_utf8 (ge_parse (fst v))" and "queues_print (gd_registry s)"
  shows "list_all2 (\<lambda>v r. \<not> answer_lost i v r) vs (fst (visits vs s))"
  using assms by (rule answers_printed)

text \<open>A teacher sends two commands, the agent polls once and then sends a heartbeat.\<close>

definition sample_agent_env :: "byte \<Rightarrow> string list agent_env" where
  "sample_agent_env b = \<lparr>ge_lib = plain_lib, ge_stod = (\<lambda>_. None), ge_i18n = None,
     ge_parse = (\<lambda>body. Some (JObject
       [(''featureUid'', JString ''lock-screen''), (''operation'', JString ''start''), (''arguments'', JObject []),
        (''hostname'', JString ''PC-01''), (''macAddress'', JString ''m''), (''agentKey'', JString ''k''),
        (''osVersion'', JString ''10''), (''agentVersion'', JString ''1''), (''capabilities'', JArray [])])),
     ge_what = [], ge_double_int = (\<lambda>_. 0), ge_crypto = sample_crypto, ge_keyHash = ''$argon2id$k'',
     ge_id_rnd = Some (replicate 16 b), ge_computer_rnd = Some (replicate 16 b),
     ge_jti_rnd = Some (replicate 16 7), ge_now = 1000000000000, ge_unix_now = 1000, ge_iso = (\<lambda>_. []),
     ge_agents_it = (\<lambda>_. []), ge_history_it = (\<lambda>_. []), ge_repo = True, ge_find_oc = Completes,
     ge_beat_oc = Completes, ge_state_oc = Completes, ge_create_oc = Completes, ge_err = []\<rparr>"

definition agent_path :: "string list \<Rightarrow> http_request" where
  "agent_path ps = \<lparr>rq_method = ''POST'', rq_path = ''/api/v1/agents'', rq_remote_addr = ''10.0.0.1'',
     rq_header = (\<lambda>_. None), rq_body = [], rq_matches = ps\<rparr>"

definition sample_agent_data :: agent_data where
  "sample_agent_data = \<lparr>gd_registry = snd (registerAgent 1 sample_agent empty_registry),
     gd_org = empty_org_db\<rparr>"

definition sample_visits :: "string list agent_visit list" where
  "sample_visits =
     [(sample_agent_env 1, sample_auth, PushCall, agent_path [[], ''a''], fresh_response),
      (sample_agent_env 2, sample_auth, PushCall, agent_path [[], ''a''], fresh_response),
      (sample_agent_env 3, sample_auth, PollCall, agent_path [[], ''a''], fresh_response),
      (sample_agent_env 4, sample_auth, BeatCall, agent_path [[], ''a''], fresh_response)]"

lemma sample_push_parses:
  "Option.bind (ge_parse (sample_agent_env b) x) agent_command_request_from_json
   = Some \<lparr>dq_featureUid = ''lock-screen'', dq_operation = ''start'', dq_arguments = []\<rparr>"
  by (simp add: sample_agent_env_def agent_command_request_from_json_def json_at_string_def json_at_def
      json_get_string_def json_get_string_map_def)

lemma sample_agent_ids: "generateUuid (ge_id_rnd (sample_agent_env b))
    = Some (uuid_print 0 (uuid_bytes (replicate 16 b)))"
  by (simp add: sample_agent_env_def generateUuid_def)

lemma sample_parses_utf8: "\<forall>v \<in> set sample_visits. parses_utf8 (ge_parse (fst v))"
  by (simp add: sample_visits_def parses_utf8_def sample_agent_env_def utf8_text_def)

lemma sample_queues_print: "queues_print (gd_registry sample_agent_data)"
  by (simp add: queues_print_def sample_agent_data_def) (simp add: queue_of_def empty_registry_def)

lemma sample_answers_printed:
  "list_all2 (\<lambda>v r. \<not> answer_lost ''a'' v r) sample_visits (fst (visits sample_visits sample_agent_data))"
  by (rule answers_printed [OF sample_parses_utf8 sample_queues_print])

theorem commands_handed_out_in_order_witness:
  "concat (map2 (acknowledged ''a'') sample_visits (fst (visits sample_visits sample_agent_data)))
     = map (\<lambda>b. uuid_print 0 (uuid_bytes (replicate 16 b))) [1, 2]
   \<and> concat (map2 (handed_out ''a'') sample_visits (fst (visits sample_visits sample_agent_data)))
     = map (\<lambda>b. uuid_print 0 (uuid_bytes (replicate 16 b))) [1, 2]"
proof -
  have known: "findAgent ''a'' (queueCommand it now c g) = findAgent ''a'' g"
    for it now c g
    by (simp add: findAgent_def queueCommand_fields)
  have first: "findAgent ''a'' (gd_registry sample_agent_data)
      = Inr (sample_agent\<lparr>ai_state := Online, ai_registeredAt := 1, ai_lastHeartbeat := 1\<rparr>)"
    by (simp add: findAgent_def ok_def sample_agent_data_def registerAgent_def sample_agent_def Let_def)
  have path: "path_param (Suc 0) (agent_path [[], ''a'']) = ''a''" "path_param 1 (agent_path [[], ''a'']) = ''a''"
    by (simp_all add: path_param_def agent_path_def)
  have empty: "waiting_for ''a'' sample_agent_data = []"
    by (simp add: waiting_for_def board_view_def sample_agent_data_def queue_of_def registerAgent_def
        empty_registry_def sample_agent_def Let_def)
  have acked: "concat (map2 (acknowledged ''a'') sample_visits (fst (visits sample_visits sample_agent_data)))
      = map (\<lambda>b. uuid_print 0 (uuid_bytes (replicate 16 b))) [1, 2]"
    by (simp add: sample_visits_def split_beta handlePushCommand_def Let_def path sample_push_parses
        sample_agent_ids first known)
  have left: "waiting_for ''a'' (snd (visits sample_visits sample_agent_data)) = []"
    by (simp add: sample_visits_def split_beta handleAgentHeartbeat_def Let_def path
        waiting_for_registry board_view_dequeue)
  have "\<forall>v \<in> set sample_visits. \<not> unregisters ''a'' v" by (simp add: sample_visits_def)
  from commands_handed_out_in_order [OF this sample_answers_printed] show ?thesis
    unfolding acked empty left by simp
qed

theorem agent_answers_printed_witness:
  "list_all2 (\<lambda>v r. \<not> answer_lost ''a'' v r) sample_visits (fst (visits sample_visits sample_agent_data))"
  by (rule agent_answers_printed [OF sample_parses_utf8 sample_queues_print])

section \<open>Registration\<close>

text \<open>Who is let in: a well-formed request with the agent key, when a key is configured.\<close>

definition key_shown :: "'d agent_env \<Rightarrow> http_request \<Rightarrow> agent_register_request \<Rightarrow> bool" where
  "key_shown env req d \<longleftrightarrow>
     Option.bind (ge_parse env (rq_body req)) agent_register_request_from_json = Some d
     \<and> ge_keyHash env \<noteq> [] \<and> verifyPassword (ge_crypto env) (dr_agentKey d) (ge_keyHash env)"

definition online_agent :: "'d agent_env \<Rightarrow> http_request \<Rightarrow> agent_register_request \<Rightarrow> string \<Rightarrow> agent_info" where
  "online_agent env req d i = (new_agent i req d)
     \<lparr>ai_state := Online, ai_registeredAt := ge_now env, ai_lastHeartbeat := ge_now env\<rparr>"

lemma generated_id_nonempty:
  "generateUuid (Some bs) = Some i \<Longrightarrow> length bs = 16 \<Longrightarrow> i \<noteq> []"
  using uuid_print_valid [of "uuid_bytes bs"] by (auto simp: generateUuid_def validate_id_def)

text \<open>
  An agent that shows the agent key is registered: it is answered 201 with its identifier
  and a token, it is listed as online with the data it sent and the address it came from, no
  other agent changes, and the token authenticates it, until the token expires, as that
  identifier with the role agent and no other, in no tenant. (The clocks and the token library
  behave as documented, and the random generator delivers sixteen bytes.)
\<close>

theorem agent_registration:
  assumes adm: "key_shown env req d"
    and id: "ge_id_rnd env = Some bs" "length bs = 16" "generateUuid (Some bs) = Some i"
    and tok: "issueToken (ge_lib env) (ge_now env) (ge_jti_rnd env) a i ''agent'' [] = Inr tok"
    and jti: "generateUuid (ge_jti_rnd env) = Some jti"
    and lib: "signs_faithfully (ge_lib env) a"
    and dates: "in_date aenv (ge_now env) (ja_expirySeconds a)" "ae_purge_now aenv \<le> ae_lookup_now aenv"
    and fresh: "\<not> isRevoked (ae_lookup_oc aenv) (ae_lookup_now aenv) jti (ja_store a)"
  shows "\<exists>c l db. handleAgentRegister env a req res s =
      (dump_answer (ge_what env) 201 (register_response_json i c l tok) res,
       s\<lparr>gd_registry := (gd_registry s)\<lparr>m_agents := (m_agents (gd_registry s))(i \<mapsto> online_agent env req d i)\<rparr>,
         gd_org := db\<rparr>)
    \<and> (\<exists>ctx. fst (authenticate (ge_lib env) aenv tok a) = Some (Inr ctx)
         \<and> ctx_subject ctx = i \<and> ac_tenant_id ctx = [] \<and> (\<forall>r. ctx_has_role r ctx \<longleftrightarrow> r = ''agent''))"
proof -
  have i: "i \<noteq> []" using generated_id_nonempty id(2,3) by blast
  have reg: "registerAgent (ge_now env) (new_agent i req d) g
      = (Inr i, g\<lparr>m_agents := (m_agents g)(i \<mapsto> online_agent env req d i)\<rparr>)" for g
    using i by (simp add: registerAgent_def online_agent_def new_agent_def ok_def Let_def)
  obtain c l db where "sync_computer env req d (gd_org s) = (c, l, db)" by (metis prod_cases3)
  with reg have "handleAgentRegister env a req res s =
      (dump_answer (ge_what env) 201 (register_response_json i c l tok) res,
       s\<lparr>gd_registry := (gd_registry s)\<lparr>m_agents := (m_agents (gd_registry s))(i \<mapsto> online_agent env req d i)\<rparr>,
         gd_org := db\<rparr>)"
    using adm id tok by (simp add: handleAgentRegister_def key_shown_def Let_def)
  moreover have "fst (authenticate (ge_lib env) aenv tok a) = Some (Inr
       \<lparr>ac_authenticated = True,
        ac_token = Some (token_issued (ja_expirySeconds a) (ge_now env) jti i ''agent'' []),
        ac_tenant_id = []\<rparr>)"
    using issued_token_authenticates [OF tok jti lib dates(1) disjI1 [OF refl] dates(2) refl fresh] .
  ultimately show ?thesis
    by (auto simp: ctx_subject_def ctx_has_role_def has_role_def token_issued_def)
qed

text \<open>
  Whoever does not show the agent key gets nothing: every other registration request is
  answered 400, 401 or 503 and leaves the agents, the queues and the computers as they were.
\<close>

theorem agent_without_key_refused:
  assumes "\<forall>d. \<not> key_shown env req d"
  shows "rs_status (fst (handleAgentRegister env a req res s)) \<in> {400, 401, 503}
    \<and> snd (handleAgentRegister env a req res s) = s"
  using assms by (auto simp: handleAgentRegister_def key_shown_def Let_def split: option.split)

section \<open>Invariants across requests\<close>

definition agent_data_ok :: "agent_data \<Rightarrow> bool" where
  "agent_data_ok s \<longleftrightarrow> registry_inv (gd_registry s) \<and> org_ok (gd_org s)"

lemma org_ok_sync_computer: "org_ok db \<Longrightarrow> org_ok (snd (snd (sync_computer env req d db)))"
  using org_ok_creates(3) [of db]
  by (auto simp: sync_computer_def split_beta create_unassigned_computer_def org_ok_updates split: sum.split)

lemma org_ok_beat_computer: "org_ok db \<Longrightarrow> org_ok (beat_computer env i g db)"
  by (auto simp: beat_computer_def intro: org_ok_updates split: sum.split)


lemma visit_registry:
  assumes "registry_inv (gd_registry s)"
  shows "registry_inv (gd_registry (snd (visit_agents v s)))"
proof (cases v)
  case (fields env a c req res)
  show ?thesis
  proof (cases c)
    case RegisterCall
    have "registerAgent now x (gd_registry s) = (y, g) \<Longrightarrow> registry_inv g" for now x y g
      using registry_inv_register [OF assms, of now x] by simp
    with assms show ?thesis
      by (auto simp: fields RegisterCall handleAgentRegister_def Let_def split: option.split sum.split prod.split)
  next
    case PushCall
    then show ?thesis
      using assms by (auto simp: fields handlePushCommand_def Let_def intro: inv_intros split: option.split sum.split)
  qed (use assms in \<open>auto simp: fields handleAgentUnregister_def handlePollCommands_def handleReportResult_def
      handleAgentHeartbeat_def Let_def split_beta intro: inv_intros split: option.split\<close>)
qed

lemma visit_org:
  assumes "org_ok (gd_org s)"
  shows "org_ok (gd_org (snd (visit_agents v s)))"
proof (cases v)
  case (fields env a c req res)
  show ?thesis
  proof (cases c)
    case RegisterCall
    have "sync_computer env req d (gd_org s) = (x, y, db) \<Longrightarrow> org_ok db" for d x y db
      using org_ok_sync_computer [OF assms, of env req d] by simp
    with assms show ?thesis
      by (auto simp: fields RegisterCall handleAgentRegister_def Let_def split: option.split sum.split prod.split)
  qed (use assms in \<open>auto simp: fields handleAgentUnregister_def handlePollCommands_def handleReportResult_def
      handlePushCommand_def handleAgentHeartbeat_def Let_def split_beta org_ok_beat_computer
      split: option.split sum.split\<close>)
qed

lemma visits_keep_ok: "agent_data_ok s \<Longrightarrow> agent_data_ok (snd (visits vs s))"
  by (induction vs arbitrary: s) (simp_all add: split_beta agent_data_ok_def visit_registry visit_org)

text \<open>
  Through every sequence of requests to the agent endpoints, whatever they contain and
  however the database answers, the registry keeps its invariant (queues only of registered
  agents, commands filed under their own identifiers and in the queue of the agent they are
  for, no agent without an identifier) and the organisation's tables stay consistent.
\<close>

theorem agent_requests_keep_invariants:
  assumes "registry_inv (gd_registry s)" and "org_ok (gd_org s)"
  shows "registry_inv (gd_registry (snd (visits vs s))) \<and> org_ok (gd_org (snd (visits vs s)))"
  using visits_keep_ok [of s vs] assms by (simp add: agent_data_ok_def)

theorem agent_requests_keep_invariants_witness:
  "registry_inv (gd_registry (snd (visits sample_visits sample_agent_data)))"
proof -
  have "registry_inv (gd_registry sample_agent_data)" "org_ok (gd_org sample_agent_data)"
    by (simp_all add: sample_agent_data_def org_ok_empty inv_intros)
  from agent_requests_keep_invariants [OF this, of sample_visits] show ?thesis by simp
qed

lemma sample_registration_parses:
  "Option.bind (ge_parse (sample_agent_env b) x) agent_register_request_from_json
   = Some \<lparr>dr_hostname = ''PC-01'', dr_macAddress = ''m'', dr_agentKey = ''k'', dr_osVersion = ''10'',
       dr_agentVersion = ''1'', dr_capabilities = []\<rparr>"
  by (simp add: sample_agent_env_def agent_register_request_from_json_def json_at_string_def json_at_def
      json_get_string_def json_get_strings_def)

lemma sample_admitted:
  "key_shown (sample_agent_env b) req \<lparr>dr_hostname = ''PC-01'', dr_macAddress = ''m'', dr_agentKey = ''k'',
     dr_osVersion = ''10'', dr_agentVersion = ''1'', dr_capabilities = []\<rparr>"
  using sample_verify [of "''k''" "''k''"]
  by (simp add: key_shown_def sample_registration_parses) (simp add: sample_agent_env_def)

theorem agent_registration_witness:
  "\<exists>i ctx. m_agents (gd_registry (snd (handleAgentRegister (sample_agent_env 1) sample_auth
       (agent_path []) fresh_response sample_agent_data))) i \<noteq> None
     \<and> ctx_subject ctx = i \<and> ctx_has_role ''agent'' ctx \<and> \<not> ctx_has_role ''admin'' ctx"
proof -
  define i where "i = uuid_print 0 (uuid_bytes (replicate 16 (1 :: byte)))"
  define tok where "tok = esc_all (plain_fields ''pub''
     (issue_claims 1000000000000 7200 sample_jti i ''agent'' []))"
  have tok: "issueToken plain_lib 1000000000000 (Some (replicate 16 7)) sample_auth i ''agent'' [] = Inr tok"
    by (simp add: issueToken_def sample_jti_generated sample_auth_def tok_def plain_lib_def ok_def)
  have i: "generateUuid (Some (replicate 16 1)) = Some i" by (simp add: generateUuid_def i_def)
  have env: "ge_what (sample_agent_env 1) = []" "ge_lib (sample_agent_env 1) = plain_lib" "ge_now (sample_agent_env 1) = 1000000000000"
    "ge_jti_rnd (sample_agent_env 1) = Some (replicate 16 7)"
    "ge_id_rnd (sample_agent_env 1) = Some (replicate 16 1)"
    by (simp_all add: sample_agent_env_def)
  have later: "in_date (env_at 2000000000000) 1000000000000 (ja_expirySeconds sample_auth)"
    by (rule sample_in_date) simp_all
  have "\<not> isRevoked (ae_lookup_oc (env_at 2000000000000)) (ae_lookup_now (env_at 2000000000000)) sample_jti
      (ja_store sample_auth)"
    by (simp add: env_at_def sample_auth_def sqlite_empty_def isRevoked_def)
  moreover have "ae_purge_now (env_at 2000000000000) \<le> ae_lookup_now (env_at 2000000000000)"
    by (simp add: env_at_def)
  ultimately have reg: "\<exists>c l db. handleAgentRegister (sample_agent_env 1) sample_auth (agent_path []) fresh_response
        sample_agent_data = (dump_answer [] 201 (register_response_json i c l tok) fresh_response,
        sample_agent_data\<lparr>gd_registry := (gd_registry sample_agent_data)\<lparr>m_agents :=
          (m_agents (gd_registry sample_agent_data))(i \<mapsto> online_agent (sample_agent_env 1) (agent_path [])
             \<lparr>dr_hostname = ''PC-01'', dr_macAddress = ''m'', dr_agentKey = ''k'', dr_osVersion = ''10'',
              dr_agentVersion = ''1'', dr_capabilities = []\<rparr> i)\<rparr>, gd_org := db\<rparr>)
      \<and> (\<exists>ctx. fst (authenticate plain_lib (env_at 2000000000000) tok sample_auth) = Some (Inr ctx)
         \<and> ctx_subject ctx = i \<and> ac_tenant_id ctx = [] \<and> (\<forall>r. ctx_has_role r ctx \<longleftrightarrow> r = ''agent''))"
    using agent_registration [of "sample_agent_env 1", OF sample_admitted env(5) _ i, unfolded env,
        OF _ tok sample_jti_generated plain_lib_faithful later] by simp
  then have "m_agents (gd_registry (snd (handleAgentRegister (sample_agent_env 1) sample_auth
       (agent_path []) fresh_response sample_agent_data))) i \<noteq> None"
    by (elim exE conjE) simp
  moreover from reg obtain ctx where "ctx_subject ctx = i" "\<forall>r. ctx_has_role r ctx \<longleftrightarrow> r = ''agent''" by blast
  ultimately show ?thesis by (intro exI [of _ i] exI [of _ ctx]) simp
qed

theorem agent_without_key_refused_witness:
  "handleAgentRegister ((sample_agent_env 1)\<lparr>ge_keyHash := []\<rparr>) sample_auth (agent_path []) fresh_response
     sample_agent_data
   = (sendError 503 ''error.service_unavailable'' ''Agent registration is not configured (no agent key file)''
        fresh_response, sample_agent_data)"
proof -
  let ?env = "(sample_agent_env 1)\<lparr>ge_keyHash := []\<rparr>"
  have "\<forall>d. \<not> key_shown ?env (agent_path []) d" by (simp add: key_shown_def)
  then have s: "snd (handleAgentRegister ?env sample_auth (agent_path []) fresh_response sample_agent_data)
      = sample_agent_data"
    using agent_without_key_refused by blast
  have "fst (handleAgentRegister ?env sample_auth (agent_path []) fresh_response sample_agent_data)
      = sendError 503 ''error.service_unavailable''
          ''Agent registration is not configured (no agent key file)'' fresh_response"
    by (simp add: handleAgentRegister_def sample_registration_parses [of 1, simplified] Let_def)
      (simp add: sample_agent_env_def tr_def)
  with s show ?thesis by (simp add: prod_eq_iff)
qed

end
