(* ===== verification/Computer_Endpoints.thy ===== *)
theory Computer_Endpoints
  imports School_Controllers
begin

text \<open>
  The computers and the rooms they stand in, as clients see them:
  src/api/v1/controllers/ComputerController.cpp with its pages and cursors, and
  src/api/v2/controllers/LocationController.cpp. \<open>q\<close> answers the query parameters of a
  request. The lemmas show that a client that follows the cursors comes to an end and has
  seen every computer once, and that every computer is listed under its own location.
\<close>

section \<open>The computer controller\<close>

type_synonym query = "string \<Rightarrow> string option"

definition get_param_value :: "query \<Rightarrow> string \<Rightarrow> string" where
  "get_param_value q n = (case q n of None \<Rightarrow> [] | Some v \<Rightarrow> v)"

text \<open>A message with its placeholders filled in.\<close>

definition tr_args :: "i18n option \<Rightarrow> string \<Rightarrow> string \<Rightarrow> string list \<Rightarrow> string" where
  "tr_args inst loc key params =
     (case inst of None \<Rightarrow> key | Some i \<Rightarrow> substitute (get_message i loc key) params)"

record computer_dto =
  cd_id :: string
  cd_name :: string
  cd_hostname :: string
  cd_location :: string
  cd_state :: string

definition toDto :: "computer_record \<Rightarrow> computer_dto" where
  "toDto c = \<lparr>cd_id = cp_id c, cd_name = cp_hostname c, cd_hostname = cp_hostname c,
     cd_location = cp_locationId c, cd_state = cp_state c\<rparr>"

definition computer_dto_json :: "computer_dto \<Rightarrow> json" where
  "computer_dto_json d = JObject
     [(''id'', JString (cd_id d)), (''name'', JString (cd_name d)), (''hostname'', JString (cd_hostname d)),
      (''location'', JString (cd_location d)), (''state'', JString (cd_state d))]"

definition kDefaultPageSize :: int where "kDefaultPageSize = 50"
definition kMaxPageSize :: int where "kMaxPageSize = 200"

definition clamp :: "int \<Rightarrow> int \<Rightarrow> int \<Rightarrow> int" where
  "clamp v lo hi = (if v < lo then lo else if hi < v then hi else v)"

definition page_limit :: "query \<Rightarrow> int" where
  "page_limit q =
     (case q ''limit'' of
        None \<Rightarrow> kDefaultPageSize
      | Some v \<Rightarrow>
          clamp (case safe_stoi v of None \<Rightarrow> kDefaultPageSize | Some n \<Rightarrow> n) 1 kMaxPageSize)"

text \<open>The loop that looks for the cursor; a cursor that is not found starts at the first item.\<close>

fun seek :: "string \<Rightarrow> nat \<Rightarrow> computer_dto list \<Rightarrow> nat" where
  "seek after i [] = 0"
| "seek after i (d # ds) = (if cd_id d = after then Suc i else seek after (Suc i) ds)"

definition page_of :: "string \<Rightarrow> nat \<Rightarrow> computer_dto list \<Rightarrow> computer_dto list \<times> json" where
  "page_of after n ds =
     (let startIdx = (if after = [] then 0 else seek after 0 ds);
          endIdx = min (startIdx + n) (length ds);
          page = take (endIdx - startIdx) (drop startIdx ds)
      in (page, if endIdx < length ds then JString (cd_id (last page)) else JNull))"

definition state_filtered :: "string \<Rightarrow> computer_record list \<Rightarrow> computer_dto list" where
  "state_filtered stateFilter cs =
     filter (\<lambda>d. stateFilter = [] \<or> cd_state d = stateFilter) (map toDto cs)"

definition computers_of :: "sql_call \<Rightarrow> query \<Rightarrow> org_db \<Rightarrow> computer_record list result" where
  "computers_of oc q db =
     (let locationFilter = get_param_value q ''location''
      in if locationFilter = [] then list_computers oc db
         else list_computers_by_location oc locationFilter db)"

definition computers_json :: "computer_dto list \<Rightarrow> int \<Rightarrow> int \<Rightarrow> json \<Rightarrow> json" where
  "computers_json page found n nextCursor = JObject
     [(''computers'', JArray (map computer_dto_json page)),
      (''page'', JObject [(''total'', JInt found), (''limit'', JInt n), (''nextCursor'', nextCursor)])]"

definition handleComputerList ::
  "(string \<Rightarrow> rat option) \<Rightarrow> i18n option \<Rightarrow> sql_call \<Rightarrow> query \<Rightarrow> http_request \<Rightarrow> http_response \<Rightarrow> org_db
     \<Rightarrow> http_response" where
  "handleComputerList stod inst oc q req res db =
     (case computers_of oc q db of
        Inl e \<Rightarrow> sendError 503 (tr inst (getLocale stod inst req) ''error.failed_list_computers'') (err_msg e) res
      | Inr cs \<Rightarrow>
          let ds = state_filtered (get_param_value q ''state'') cs;
              found = int (length ds);
              (page, nextCursor) = page_of (get_param_value q ''after'') (nat (page_limit q)) ds
          in set_json (computers_json page found (page_limit q) nextCursor) ''application/json''
               (set_header ''X-Total-Count'' (decimal found) (res\<lparr>rs_status := 200\<rparr>)))"

text \<open>The two codes that answer 404; every other failure answers 503.\<close>

definition missing_code :: "error_code \<Rightarrow> bool" where
  "missing_code c = (c = ComputerNotFound \<or> c = NotFound)"

definition computer_refusal ::
  "(string \<Rightarrow> rat option) \<Rightarrow> i18n option \<Rightarrow> http_request \<Rightarrow> string \<Rightarrow> api_error \<Rightarrow> string \<Rightarrow> http_response
     \<Rightarrow> http_response" where
  "computer_refusal stod inst req i e failed res =
     (let lang = getLocale stod inst req
      in if missing_code (err_code e)
         then sendError 404 (tr inst lang ''error.computer_not_found'')
                (tr_args inst lang ''error.no_computer_with_id'' [i]) res
         else sendError 503 (tr inst lang failed) (err_msg e) res)"

definition handleComputerGetOne ::
  "(string \<Rightarrow> rat option) \<Rightarrow> i18n option \<Rightarrow> sql_call \<Rightarrow> http_request \<Rightarrow> http_response \<Rightarrow> org_db \<Rightarrow> http_response" where
  "handleComputerGetOne stod inst oc req res db =
     (if length (rq_matches req) \<le> 1
      then sendError 400 (tr inst (getLocale stod inst req) ''error.missing_path_param'') [] res
      else let i = rq_matches req ! 1
           in case find_computer oc i db of
                Inl e \<Rightarrow> computer_refusal stod inst req i e ''error.failed_retrieve_computer'' res
              | Inr c \<Rightarrow> json_answer 200 (computer_dto_json (toDto c)) res)"

definition computer_info_json :: "computer_dto \<Rightarrow> json" where
  "computer_info_json d = JObject
     [(''computer'', computer_dto_json d), (''user'', JNull), (''session'', JNull),
      (''screens'', JArray [JObject [(''x'', JInt 0), (''y'', JInt 0), (''width'', JInt 1920), (''height'', JInt 1080)]])]"

definition handleComputerInfo ::
  "(string \<Rightarrow> rat option) \<Rightarrow> i18n option \<Rightarrow> sql_call \<Rightarrow> http_request \<Rightarrow> http_response \<Rightarrow> org_db \<Rightarrow> http_response" where
  "handleComputerInfo stod inst oc req res db =
     (if length (rq_matches req) \<le> 1
      then sendError 400 (tr inst (getLocale stod inst req) ''error.missing_path_param'') [] res
      else let i = rq_matches req ! 1
           in case find_computer oc i db of
                Inl e \<Rightarrow> computer_refusal stod inst req i e ''error.failed_retrieve_computer'' res
              | Inr c \<Rightarrow> json_answer 200 (computer_info_json (toDto c)) res)"

section \<open>Following the cursors\<close>

text \<open>
  A client that asks for the first page and then for the page behind every cursor it is
  given. It need not come to an end by itself.
\<close>

definition page_items :: "json \<Rightarrow> json list" where
  "page_items b = (case json_at b ''computers'' of Some (JArray js) \<Rightarrow> js | _ \<Rightarrow> [])"

definition next_cursor :: "json \<Rightarrow> string option" where
  "next_cursor b =
     (case Option.bind (json_at b ''page'') (\<lambda>p. json_at p ''nextCursor'') of
        Some (JString c) \<Rightarrow> Some c
      | _ \<Rightarrow> None)"

partial_function (option) collect_pages :: "(string \<Rightarrow> json option) \<Rightarrow> string \<Rightarrow> json list option" where
  "collect_pages fetch after =
     Option.bind (fetch after) (\<lambda>b.
       case next_cursor b of
         None \<Rightarrow> Some (page_items b)
       | Some c \<Rightarrow> Option.bind (collect_pages fetch c) (\<lambda>rest. Some (page_items b @ rest)))"

lemma seek_from:
  "distinct (map cd_id ds) \<Longrightarrow> k < length ds \<Longrightarrow> seek (cd_id (ds ! k)) i ds = Suc (i + k)"
proof (induction ds arbitrary: i k)
  case Nil
  then show ?case by simp
next
  case (Cons d ds)
  then show ?case
    by (cases k) (auto dest: nth_mem)
qed

lemma page_limit_range: "1 \<le> page_limit q \<and> page_limit q \<le> kMaxPageSize"
  by (auto simp: page_limit_def clamp_def kDefaultPageSize_def kMaxPageSize_def split: option.split)

text \<open>The page behind the cursor of the first \<open>k\<close> items.\<close>

definition cursor_at :: "nat \<Rightarrow> computer_dto list \<Rightarrow> string" where
  "cursor_at k ds = (if k = 0 then [] else cd_id (ds ! (k - 1)))"

lemma page_of_cursor:
  assumes "distinct (map cd_id ds)" and "[] \<notin> cd_id ` set ds" and "k \<le> length ds" and "1 \<le> n"
  shows "page_of (cursor_at k ds) n ds =
     (take n (drop k ds),
      if k + n < length ds then JString (cursor_at (k + n) ds) else JNull)"
proof -
  have start: "(if cursor_at k ds = [] then 0 else seek (cursor_at k ds) 0 ds) = k"
  proof (cases k)
    case (Suc j)
    then have "ds ! j \<in> set ds" using assms(3) by simp
    then have "cursor_at k ds \<noteq> []" using assms(2) Suc by (metis cursor_at_def diff_Suc_1 image_eqI nat.distinct(1))
    then show ?thesis using assms(1,3) Suc by (simp add: cursor_at_def seek_from)
  qed (simp add: cursor_at_def)
  have len: "take (min (k + n) (length ds) - k) (drop k ds) = take n (drop k ds)"
    by (cases "k + n \<le> length ds") (simp_all add: min_def)
  have last: "last (take n (drop k ds)) = ds ! (k + n - 1)" if "k + n < length ds"
    using that assms(4) by (simp add: last_conv_nth)
  show ?thesis
    using assms(4) unfolding page_of_def Let_def start len
    by (auto simp: min_def last cursor_at_def)
qed

lemma computers_json_parts [simp]:
  "page_items (computers_json page found n nc) = map computer_dto_json page"
  "next_cursor (computers_json page found n nc) = (case nc of JString c \<Rightarrow> Some c | _ \<Rightarrow> None)"
  by (simp_all add: page_items_def next_cursor_def computers_json_def json_at_def split: json.split)

lemma collect_from:
  assumes ok: "distinct (map cd_id ds)" "[] \<notin> cd_id ` set ds"
    and n: "1 \<le> n"
    and fetch: "\<And>after. fetch after =
        Some (let (page, nc) = page_of after n ds in computers_json page found l nc)"
  shows "k \<le> length ds \<Longrightarrow>
     collect_pages fetch (cursor_at k ds) = Some (map computer_dto_json (drop k ds))"
proof (induction "length ds - k" arbitrary: k rule: less_induct)
  case less
  show ?case
  proof (cases "k + n < length ds")
    case True
    have "collect_pages fetch (cursor_at (k + n) ds) = Some (map computer_dto_json (drop (k + n) ds))"
      using less True n by simp
    moreover have "take n (drop k ds) @ drop (k + n) ds = drop k ds"
      by (metis add.commute append_take_drop_id drop_drop)
    ultimately show ?thesis
      using less.prems True
      by (subst collect_pages.simps) (simp add: fetch page_of_cursor [OF ok _ n] flip: map_append)
  next
    case False
    then show ?thesis
      using less.prems
      by (subst collect_pages.simps) (simp add: fetch page_of_cursor [OF ok _ n])
  qed
qed

lemma computers_distinct:
  assumes "distinct (map co_id (od_computers db))" and "[] \<notin> co_id ` set (od_computers db)"
    and "computers_of Completes q db = Inr cs"
  shows "distinct (map cd_id (state_filtered st cs)) \<and> [] \<notin> cd_id ` set (state_filtered st cs)"
proof -
  obtain P where "cs = map recordFromStmt (sort_key co_hostname (filter P (od_computers db)))"
    using assms(3) that [of "\<lambda>_. True"]
    by (auto simp: computers_of_def list_computers_def list_computers_by_location_def
        run_select_all_def ok_def Let_def split: if_splits)
  then have cs: "map toDto cs = map (toDto \<circ> recordFromStmt) (sort_key co_hostname (filter P (od_computers db)))"
    by simp
  have "cd_id \<circ> toDto \<circ> recordFromStmt = co_id" by (simp add: fun_eq_iff toDto_def recordFromStmt_def)
  then have "distinct (map cd_id (map toDto cs))" "set (map cd_id (map toDto cs)) \<subseteq> co_id ` set (od_computers db)"
    using assms(1) unfolding cs map_map by (auto simp: distinct_map inj_on_def comp_assoc)
  then show ?thesis
    using assms(2) by (auto simp: state_filtered_def distinct_map_filter)
qed

text \<open>
  C14: A client that follows the cursors of the computer list comes to an end, whatever page
  size, state and location it asks for, and has then received every computer that matches
  exactly once, in the order of the host names. (The database answers and does not change
  meanwhile; its computers have distinct identifiers, none of them empty.)
\<close>

theorem cursors_visit_every_computer_once:
  assumes "distinct (map co_id (od_computers db))" and "[] \<notin> co_id ` set (od_computers db)"
    and "computers_of Completes q db = Inr cs"
  shows "collect_pages
      (\<lambda>after. rs_body (handleComputerList stod inst Completes (q(''after'' \<mapsto> after)) req res db)) []
    = Some (map computer_dto_json (state_filtered (get_param_value q ''state'') cs))"
proof -
  let ?ds = "state_filtered (get_param_value q ''state'') cs"
  have keep: "get_param_value (q(''after'' \<mapsto> a)) ''state'' = get_param_value q ''state''"
    "get_param_value (q(''after'' \<mapsto> a)) ''after'' = a"
    "page_limit (q(''after'' \<mapsto> a)) = page_limit q" for a
    by (simp_all add: get_param_value_def page_limit_def)
  have cs: "computers_of Completes (q(''after'' \<mapsto> a)) db = Inr cs" for a
    using assms(3) by (simp add: computers_of_def get_param_value_def)
  have "rs_body (handleComputerList stod inst Completes (q(''after'' \<mapsto> a)) req res db)
      = Some (let (page, nc) = page_of a (nat (page_limit q)) ?ds
              in computers_json page (int (length ?ds)) (page_limit q) nc)" for a
    by (simp add: handleComputerList_def cs keep Let_def set_json_def split_beta)
  from collect_from [OF conjunct1 conjunct2 _ this, OF computers_distinct computers_distinct, OF assms(1-3) assms(1-3), of 0]
  show ?thesis using page_limit_range [of q] by (simp add: cursor_at_def le_nat_iff)
qed

text \<open>Three computers in pages of two.\<close>

definition three_computers :: org_db where
  "three_computers = empty_org_db\<lparr>od_computers :=
     map (\<lambda>(i, h). \<lparr>co_id = i, co_location_id = None, co_hostname = h, co_mac_address = [],
       co_ip_last_seen = [], co_agent_version = [], co_last_heartbeat = 0, co_state = ''online'',
       co_position_x = 0, co_position_y = 0\<rparr>) [(''c1'', ''z''), (''c2'', ''a''), (''c3'', ''m'')]\<rparr>"

definition empty_request :: http_request where
  "empty_request = \<lparr>rq_method = ''GET'', rq_path = ''/api/v1/computers'', rq_remote_addr = ''10.0.0.1'',
     rq_header = (\<lambda>_. None), rq_body = [], rq_matches = []\<rparr>"

theorem cursors_visit_every_computer_once_witness:
  "collect_pages (\<lambda>after. rs_body (handleComputerList (\<lambda>_. None) None Completes
       [''limit'' \<mapsto> ''2'', ''after'' \<mapsto> after] empty_request fresh_response three_computers)) []
   = Some (map (\<lambda>(i, h). computer_dto_json \<lparr>cd_id = i, cd_name = h, cd_hostname = h, cd_location = [],
       cd_state = ''online''\<rparr>) [(''c2'', ''a''), (''c3'', ''m''), (''c1'', ''z'')])"
proof -
  have d: "distinct (map co_id (od_computers three_computers))" "[] \<notin> co_id ` set (od_computers three_computers)"
    by (simp_all add: three_computers_def)
  have c: "computers_of Completes [''limit'' \<mapsto> ''2''] three_computers
      = Inr (map recordFromStmt (sort_key co_hostname (od_computers three_computers)))"
    by (simp add: computers_of_def get_param_value_def list_computers_def run_select_all_def ok_def)
  show ?thesis
    unfolding cursors_visit_every_computer_once [OF d c]
    by (simp add: three_computers_def state_filtered_def get_param_value_def toDto_def recordFromStmt_def
        col_text_def)
qed

text \<open>A cursor that names no listed computer starts over.\<close>

lemma seek_unknown: "after \<notin> cd_id ` set ds \<Longrightarrow> seek after i ds = 0"
  by (induction ds arbitrary: i) auto

lemma stale_cursor_starts_over:
  "after \<notin> cd_id ` set ds \<Longrightarrow> page_of after n ds = page_of [] n ds"
  by (simp add: page_of_def seek_unknown)

section \<open>The locations\<close>

record location_dto =
  ld_id :: string
  ld_name :: string
  ld_computerCount :: int
  ld_computerIds :: "string list"

text \<open>\<open>oc\<close> is the outcome of the second statement; when it fails the location has no computers.\<close>

definition location_dto_of :: "sql_call \<Rightarrow> org_db \<Rightarrow> string \<Rightarrow> location_record \<Rightarrow> location_dto" where
  "location_dto_of oc db lid l =
     (case list_computers_by_location oc lid db of
        Inl _ \<Rightarrow> \<lparr>ld_id = lc_id l, ld_name = lc_name l, ld_computerCount = 0, ld_computerIds = []\<rparr>
      | Inr cs \<Rightarrow> \<lparr>ld_id = lc_id l, ld_name = lc_name l, ld_computerCount = int (length cs),
                  ld_computerIds = map cp_id cs\<rparr>)"

definition location_dto_json :: "location_dto \<Rightarrow> json" where
  "location_dto_json d = JObject
     [(''id'', JString (ld_id d)), (''name'', JString (ld_name d)),
      (''computerCount'', JInt (ld_computerCount d)), (''computerIds'', JArray (map JString (ld_computerIds d)))]"

definition location_dtos :: "(string \<Rightarrow> sql_call) \<Rightarrow> org_db \<Rightarrow> location_record list \<Rightarrow> location_dto list" where
  "location_dtos ocs db = map (\<lambda>l. location_dto_of (ocs (lc_id l)) db (lc_id l) l)"

definition handleLocationList ::
  "(string \<Rightarrow> rat option) \<Rightarrow> i18n option \<Rightarrow> sql_call \<Rightarrow> (string \<Rightarrow> sql_call) \<Rightarrow> http_request \<Rightarrow> http_response
     \<Rightarrow> org_db \<Rightarrow> http_response" where
  "handleLocationList stod inst oc ocs req res db =
     (case list_locations oc db of
        Inl e \<Rightarrow> sendError 503 (tr inst (getLocale stod inst req) ''error.computer_plugin_unavailable'')
                   (err_msg e) res
      | Inr ls \<Rightarrow>
          let ds = location_dtos ocs db ls
          in json_answer 200 (JObject [(''locations'', JArray (map location_dto_json ds)),
                                       (''total'', JInt (int (length ds)))]) res)"

definition handleLocationGetOne ::
  "(string \<Rightarrow> rat option) \<Rightarrow> i18n option \<Rightarrow> sql_call \<Rightarrow> sql_call \<Rightarrow> http_request \<Rightarrow> http_response
     \<Rightarrow> org_db \<Rightarrow> http_response" where
  "handleLocationGetOne stod inst oc oc2 req res db =
     (let lang = getLocale stod inst req
      in if length (rq_matches req) \<le> 1
         then sendError 400 (tr inst lang ''error.missing_path_param'') [] res
         else case find_location oc (rq_matches req ! 1) db of
                Inl e \<Rightarrow>
                  if err_code e = NotFound then sendError 404 (tr inst lang ''error.computer_not_found'') [] res
                  else sendError 503 (tr inst lang ''error.computer_plugin_unavailable'') (err_msg e) res
              | Inr l \<Rightarrow> json_answer 200 (location_dto_json (location_dto_of oc2 db (rq_matches req ! 1) l)) res)"

lemma location_dto_computers:
  "set (ld_computerIds (location_dto_of Completes db (lc_id l) l))
   = {co_id c | c. c \<in> set (od_computers db) \<and> co_location_id c = Some (lc_id l)}"
  "ld_computerCount (location_dto_of Completes db (lc_id l) l)
   = int (length (filter (\<lambda>c. co_location_id c = Some (lc_id l)) (od_computers db)))"
  by (auto simp: location_dto_of_def list_computers_by_location_def run_select_all_def ok_def recordFromStmt_def)

lemma count_by_key:
  "distinct ks \<Longrightarrow>
   sum_list (map (\<lambda>k. length (filter (\<lambda>x. f x = Some k) xs)) ks)
   = length (filter (\<lambda>x. \<exists>k \<in> set ks. f x = Some k) xs)"
proof (induction ks)
  case Nil
  then show ?case by simp
next
  case (Cons k ks)
  have "length (filter (\<lambda>x. f x = Some k) ys) + length (filter (\<lambda>x. \<exists>k \<in> set ks. f x = Some k) ys)
      = length (filter (\<lambda>x. \<exists>k' \<in> set (k # ks). f x = Some k') ys)" for ys
    using Cons.prems by (induction ys) auto
  then show ?case using Cons by simp
qed

lemma listed_locations:
  assumes "org_ok db" and "list_locations Completes db = Inr ls"
  shows "distinct (map lc_id ls)" and "set (map lc_id ls) = set (location_keys db)"
proof -
  have "map lc_id ls = map lo_id (sort_key (\<lambda>r. (lo_school_id r, lo_name r)) (od_locations db))"
    using assms(2) by (auto simp: list_locations_def run_select_all_def ok_def location_from_row_def)
  moreover have "distinct (map lo_id (od_locations db))"
    using assms(1) by (simp add: org_ok_def org_ok_for_def locations_ok_def)
  ultimately show "distinct (map lc_id ls)" "set (map lc_id ls) = set (location_keys db)"
    by (simp_all add: distinct_map)
qed

lemma computer_location_listed:
  assumes "org_ok db" and "c \<in> set (od_computers db)" and "co_location_id c = Some k"
  shows "k \<in> set (location_keys db)"
  using assms by (auto simp: org_ok_def org_ok_for_def computers_ok_def refers_def)

lemma locations_count:
  assumes "org_ok db" and "list_locations Completes db = Inr ls"
  shows "sum_list (map ld_computerCount (location_dtos (\<lambda>_. Completes) db ls))
    = int (length (filter (\<lambda>c. co_location_id c \<noteq> None) (od_computers db)))"
proof -
  have sums: "int (sum_list ys) = sum_list (map int ys)" for ys :: "nat list"
    by (induction ys) simp_all
  have "sum_list (map ld_computerCount (location_dtos (\<lambda>_. Completes) db ls))
      = int (sum_list (map (\<lambda>k. length (filter (\<lambda>c. co_location_id c = Some k) (od_computers db))) (map lc_id ls)))"
    by (simp add: location_dtos_def location_dto_computers comp_def sums)
  also have "\<dots> = int (length (filter (\<lambda>c. \<exists>k \<in> set (map lc_id ls). co_location_id c = Some k) (od_computers db)))"
    by (subst count_by_key [OF listed_locations(1) [OF assms]]) simp
  also have "filter (\<lambda>c. \<exists>k \<in> set (map lc_id ls). co_location_id c = Some k) (od_computers db)
      = filter (\<lambda>c. co_location_id c \<noteq> None) (od_computers db)"
    using computer_location_listed [OF assms(1)]
    unfolding listed_locations(2) [OF assms] by (intro filter_cong refl) (metis option.exhaust option.discI)
  finally show ?thesis .
qed

text \<open>
  The list of locations places every computer: each computer stands under the location
  its row refers to and under no other, and under exactly one unless it has none; the counts
  add up to the number of computers that are in some location. (The tables are consistent and
  the database answers.)
\<close>

theorem locations_place_every_computer:
  assumes "org_ok db" and "list_locations Completes db = Inr ls" and "c \<in> set (od_computers db)"
  shows "(\<forall>l \<in> set ls. co_id c \<in> set (ld_computerIds (location_dto_of Completes db (lc_id l) l))
            \<longleftrightarrow> co_location_id c = Some (lc_id l))
    \<and> (co_location_id c \<noteq> None \<longleftrightarrow> (\<exists>!i. i \<in> set (map lc_id ls) \<and> co_location_id c = Some i))
    \<and> sum_list (map ld_computerCount (location_dtos (\<lambda>_. Completes) db ls))
        = int (length (filter (\<lambda>c. co_location_id c \<noteq> None) (od_computers db)))"
proof -
  have same: "c' = c" if "c' \<in> set (od_computers db)" "co_id c' = co_id c" for c'
    using assms(1,3) that by (auto simp: org_ok_def org_ok_for_def computers_ok_def distinct_map inj_on_def)
  have "(co_id c \<in> set (ld_computerIds (location_dto_of Completes db (lc_id l) l)))
      = (co_location_id c = Some (lc_id l))" for l
    using same assms(3) by (force simp: location_dto_computers)
  moreover have "co_location_id c \<noteq> None \<longleftrightarrow> (\<exists>!i. i \<in> set (map lc_id ls) \<and> co_location_id c = Some i)"
    using computer_location_listed [OF assms(1,3)]
    unfolding listed_locations(2) [OF assms(1,2)] by (cases "co_location_id c") auto
  ultimately show ?thesis using locations_count [OF assms(1,2)] by blast
qed

definition one_room_db :: org_db where
  "one_room_db = empty_org_db\<lparr>
     od_schools := [\<lparr>so_id = ''s1'', so_name = ''S'', so_address = [], so_created_at = 0, so_tenant_id = None\<rparr>],
     od_locations := [\<lparr>lo_id = ''l1'', lo_school_id = ''s1'', lo_name = ''Lab'', lo_building = [],
       lo_floor = 0, lo_capacity = 0, lo_type = ''classroom''\<rparr>],
     od_computers := [\<lparr>co_id = ''c1'', co_location_id = Some ''l1'', co_hostname = ''pc'', co_mac_address = [],
       co_ip_last_seen = [], co_agent_version = [], co_last_heartbeat = 0, co_state = ''online'',
       co_position_x = 0, co_position_y = 0\<rparr>]\<rparr>"

theorem locations_place_every_computer_witness:
  "\<exists>!i. i \<in> set (map lc_id (map location_from_row (od_locations one_room_db)))
      \<and> co_location_id (hd (od_computers one_room_db)) = Some i"
proof -
  have "org_ok one_room_db"
    by (simp add: org_ok_def org_ok_for_def one_room_db_def empty_org_db_def locations_ok_def computers_ok_def
        access_ok_def classes_ok_def student_refs_def refers_def tenants_ok_def teachers_ok_def students_ok_def)
  moreover have "list_locations Completes one_room_db = Inr (map location_from_row (od_locations one_room_db))"
    by (simp add: list_locations_def run_select_all_def ok_def one_room_db_def)
  moreover have "hd (od_computers one_room_db) \<in> set (od_computers one_room_db)"
    "co_location_id (hd (od_computers one_room_db)) \<noteq> None"
    by (simp_all add: one_room_db_def)
  ultimately show ?thesis
    using locations_place_every_computer by blast
qed

end
