(* ===== verification/Computer_Plugin.thy ===== *)
theory Computer_Plugin
  imports Agent_Registry Computer_Endpoints
begin

text \<open>
  The view of the computers the plugins give: src/plugins/computer/ComputerPlugin.cpp over the
  agent registry and the built-in directory of NetworkDirectoryBridge.cpp,
  src/plugins/session/SessionPlugin.cpp, the controllers that answer with them
  (FramebufferController.cpp, SessionController.cpp) and the wire names of src/core/ApiContext.cpp.
  The lemmas show where the plugin's three lookups agree and where they do not, what the
  framebuffer endpoint can answer, and that the built-in picture is no valid PNG file.
\<close>

section \<open>Names on the wire\<close>

datatype computer_state = UnknownState | OfflineState | OnlineState | ConnectingState | ConnectedState | DisconnectingState

fun computer_state_to_string :: "computer_state \<Rightarrow> string" where
  "computer_state_to_string UnknownState = ''unknown''"
| "computer_state_to_string OfflineState = ''offline''"
| "computer_state_to_string OnlineState = ''online''"
| "computer_state_to_string ConnectingState = ''connecting''"
| "computer_state_to_string ConnectedState = ''connected''"
| "computer_state_to_string DisconnectingState = ''disconnecting''"

definition computer_state_from_string :: "string \<Rightarrow> computer_state" where
  "computer_state_from_string s =
     (if s = ''offline'' then OfflineState
      else if s = ''online'' then OnlineState
      else if s = ''connecting'' then ConnectingState
      else if s = ''connected'' then ConnectedState
      else if s = ''disconnecting'' then DisconnectingState
      else UnknownState)"

interpretation computer_state_enum: wire_enum computer_state_to_string computer_state_from_string
proof
  show "computer_state_from_string (computer_state_to_string e) = e" for e
    by (cases e) (simp_all add: computer_state_from_string_def)
qed

datatype image_format = Png | Jpeg

fun image_format_to_string :: "image_format \<Rightarrow> string" where
  "image_format_to_string Png = ''png''"
| "image_format_to_string Jpeg = ''jpeg''"

definition image_format_from_string :: "string \<Rightarrow> image_format" where
  "image_format_from_string s = (if s = ''jpeg'' \<or> s = ''jpg'' then Jpeg else Png)"

interpretation image_format_enum: wire_enum image_format_to_string image_format_from_string
proof
  show "image_format_from_string (image_format_to_string e) = e" for e
    by (cases e) (simp_all add: image_format_from_string_def)
qed

section \<open>The computer plugin\<close>

record computer_info =
  ci_uid :: string
  ci_name :: string
  ci_hostname :: string
  ci_location :: string
  ci_state :: computer_state

definition mock_computer :: "string \<Rightarrow> string \<Rightarrow> string \<Rightarrow> string \<Rightarrow> computer_state \<Rightarrow> computer_info" where
  "mock_computer u n h l st =
     \<lparr>ci_uid = u, ci_name = n, ci_hostname = h, ci_location = l, ci_state = st\<rparr>"

definition enumerate_directory :: "computer_info list" where
  "enumerate_directory =
     [mock_computer ''pc-001'' ''PC-Lab-01'' ''192.168.1.101'' ''Lab A'' OnlineState,
      mock_computer ''pc-002'' ''PC-Lab-02'' ''192.168.1.102'' ''Lab A'' OnlineState,
      mock_computer ''pc-003'' ''PC-Lab-03'' ''192.168.1.103'' ''Lab A'' OfflineState,
      mock_computer ''pc-004'' ''PC-Office-01'' ''192.168.1.201'' ''Office'' OnlineState,
      mock_computer ''pc-005'' ''PC-Office-02'' ''192.168.1.202'' ''Office'' ConnectedState,
      mock_computer ''pc-006'' ''PC-Remote-01'' ''10.0.0.50'' ''Remote'' UnknownState]"

fun state_of_agent :: "agent_state \<Rightarrow> computer_state" where
  "state_of_agent Online = ConnectedState"
| "state_of_agent Busy = ConnectedState"
| "state_of_agent AgentError = OnlineState"
| "state_of_agent Offline = OfflineState"

definition agent_computer :: "computer_state \<Rightarrow> agent_info \<Rightarrow> computer_info" where
  "agent_computer st a =
     \<lparr>ci_uid = ai_agentId a, ci_name = ai_hostname a, ci_hostname = ai_hostname a,
      ci_location = ''Agent'', ci_state = st\<rparr>"

text \<open>\<open>g\<close> is the agent registry, \<open>None\<close> while none is attached.\<close>

definition listComputers :: "agent_info traversal \<Rightarrow> registry option \<Rightarrow> computer_info list result" where
  "listComputers it g = ok
     ((case g of
         None \<Rightarrow> []
       | Some r \<Rightarrow> map (\<lambda>a. agent_computer (state_of_agent (ai_state a)) a) (listAgents it r))
      @ enumerate_directory)"

definition attached_agent :: "string \<Rightarrow> registry option \<Rightarrow> agent_info option" where
  "attached_agent u g =
     (case g of
        None \<Rightarrow> None
      | Some r \<Rightarrow> (case findAgent u r of Inl _ \<Rightarrow> None | Inr a \<Rightarrow> Some a))"

definition directory_entry :: "string \<Rightarrow> computer_info option" where
  "directory_entry u = find (\<lambda>c. ci_uid c = u) enumerate_directory"

definition computer_not_found :: "string \<Rightarrow> 'a result" where
  "computer_not_found u = fail ComputerNotFound (''Computer not found: '' @ u)"

definition getComputer :: "string \<Rightarrow> registry option \<Rightarrow> computer_info result" where
  "getComputer u g =
     (case attached_agent u g of
        Some a \<Rightarrow> ok (agent_computer (if ai_state a = Online \<or> ai_state a = Busy then ConnectedState else OfflineState) a)
      | None \<Rightarrow> (case directory_entry u of Some c \<Rightarrow> ok c | None \<Rightarrow> computer_not_found u))"

definition getState :: "string \<Rightarrow> registry option \<Rightarrow> computer_state result" where
  "getState u g =
     (case attached_agent u g of
        Some a \<Rightarrow> ok (state_of_agent (ai_state a))
      | None \<Rightarrow> (case directory_entry u of Some c \<Rightarrow> ok (ci_state c) | None \<Rightarrow> computer_not_found u))"

record framebuffer_image =
  fi_data :: "byte list"
  fi_format :: image_format
  fi_width :: int
  fi_height :: int
  fi_compression :: int
  fi_quality :: int

definition mock_png :: "byte list" where
  "mock_png =
   [0x89, 0x50, 0x4E, 0x47, 0x0D, 0x0A, 0x1A, 0x0A, 0x00, 0x00, 0x00, 0x0D, 0x49, 0x48, 0x44,
    0x52, 0x00, 0x00, 0x00, 0x01, 0x00, 0x00, 0x00, 0x01, 0x08, 0x02, 0x00, 0x00, 0x00, 0x0D,
    0x29, 0xB1, 0x25, 0x00, 0x00, 0x00, 0x0C, 0x49, 0x44, 0x41, 0x54, 0x08, 0xD7, 0x63, 0x60,
    0x64, 0x60, 0x00, 0x00, 0x00, 0x04, 0x00, 0x01, 0x27, 0x06, 0x16, 0x60, 0x00, 0x00, 0x00,
    0x00, 0x49, 0x45, 0x4E, 0x44, 0xAE, 0x42, 0x60, 0x82]"

definition mock_jpeg :: "byte list" where
  "mock_jpeg =
   [0xFF, 0xD8, 0xFF, 0xE0, 0x00, 0x10, 0x4A, 0x46, 0x49, 0x46, 0x00, 0x01, 0x01, 0x00, 0x00,
    0x01, 0x00, 0x01, 0x00, 0x00, 0xFF, 0xDB, 0x00, 0x43, 0x00, 0x01, 0x01, 0x01, 0x01, 0x01,
    0x01, 0x01, 0x01, 0x01, 0x01, 0x01, 0x01, 0x01, 0x01, 0x01, 0x01, 0x01, 0x01, 0x01, 0x01,
    0x01, 0x01, 0x01, 0x01, 0x01, 0x01, 0x01, 0x01, 0x01, 0x01, 0x01, 0x01, 0x01, 0x01, 0x01,
    0x01, 0x01, 0x01, 0x01, 0x01, 0x01, 0x01, 0x01, 0x01, 0x01, 0x01, 0x01, 0x01, 0x01, 0x01,
    0x01, 0x01, 0x01, 0x01, 0x01, 0x01, 0x01, 0x01, 0x01, 0x01, 0x01, 0x01, 0x01, 0x01, 0xFF,
    0xC0, 0x00, 0x0B, 0x08, 0x00, 0x01, 0x00, 0x01, 0x01, 0x01, 0x11, 0x00, 0xFF, 0xC4, 0x00,
    0x1F, 0x00, 0x00, 0x01, 0x05, 0x01, 0x01, 0x01, 0x01, 0x01, 0x01, 0x00, 0x00, 0x00, 0x00,
    0x00, 0x00, 0x00, 0x00, 0x01, 0x02, 0x03, 0x04, 0x05, 0x06, 0x07, 0x08, 0x09, 0x0A, 0x0B,
    0xFF, 0xDA, 0x00, 0x08, 0x01, 0x01, 0x00, 0x00, 0x3F, 0x00, 0x7B, 0x40, 0xFF, 0xD9]"

definition getFramebuffer :: "string \<Rightarrow> int \<Rightarrow> int \<Rightarrow> image_format \<Rightarrow> int \<Rightarrow> int \<Rightarrow> framebuffer_image result" where
  "getFramebuffer u width height fmt compression quality =
     (if \<not> (\<exists>c \<in> set enumerate_directory. ci_uid c = u) then computer_not_found u
      else ok \<lparr>fi_data = (if fmt = Png then mock_png else mock_jpeg), fi_format = fmt, fi_width = width,
               fi_height = height, fi_compression = -1, fi_quality = -1\<rparr>)"

section \<open>The session plugin\<close>

definition mockHostnames :: "string \<rightharpoonup> string" where
  "mockHostnames =
     [''pc-001'' \<mapsto> ''192.168.1.101'', ''pc-002'' \<mapsto> ''192.168.1.102'', ''pc-003'' \<mapsto> ''192.168.1.103'',
      ''pc-004'' \<mapsto> ''192.168.1.201'', ''pc-005'' \<mapsto> ''192.168.1.202'', ''pc-006'' \<mapsto> ''10.0.0.50'']"

definition hostnameFor :: "string \<Rightarrow> string" where
  "hostnameFor u = (case mockHostnames u of None \<Rightarrow> ''0.0.0.0'' | Some h \<Rightarrow> h)"

text \<open>\<open>hash\<close> is \<^verbatim>\<open>std::hash<std::string>\<close>, whose value the standard leaves open.\<close>

definition simpleHash :: "(string \<Rightarrow> 64 word) \<Rightarrow> string \<Rightarrow> int" where
  "simpleHash hash s = uint (hash s mod 99999 + 1)"

record session_info =
  si_sessionId :: int
  si_userLogin :: string
  si_userFullName :: string
  si_clientAddress :: string
  si_uptimeSeconds :: int
  si_sessionType :: string
  si_sessionClientName :: string
  si_sessionHostName :: string

record user_info =
  ui_login :: string
  ui_fullName :: string
  ui_domain :: string
  ui_groups :: "string list"

record screen_rect =
  sc_x :: int
  sc_y :: int
  sc_width :: int
  sc_height :: int

definition getSession :: "(string \<Rightarrow> 64 word) \<Rightarrow> string \<Rightarrow> session_info result" where
  "getSession hash u =
     (case mockHostnames u of
        None \<Rightarrow> computer_not_found u
      | Some _ \<Rightarrow>
          let hostname = hostnameFor u
          in ok \<lparr>si_sessionId = simpleHash hash u, si_userLogin = ''student01'', si_userFullName = ''Student User'',
                 si_clientAddress = hostname, si_uptimeSeconds = 3600, si_sessionType = ''console'',
                 si_sessionClientName = hostname, si_sessionHostName = hostname\<rparr>)"

definition getUser :: "string \<Rightarrow> user_info result" where
  "getUser u =
     (case mockHostnames u of
        None \<Rightarrow> computer_not_found u
      | Some _ \<Rightarrow> ok \<lparr>ui_login = ''student01'', ui_fullName = ''Student User'', ui_domain = ''SCHOOL'',
                      ui_groups = [''students'', ''lab-users'']\<rparr>)"

definition getScreens :: "string \<Rightarrow> screen_rect list result" where
  "getScreens u =
     (case mockHostnames u of
        None \<Rightarrow> computer_not_found u
      | Some _ \<Rightarrow> ok [\<lparr>sc_x = 0, sc_y = 0, sc_width = 1920, sc_height = 1080\<rparr>])"

section \<open>The session controller\<close>

definition session_json :: "session_info \<Rightarrow> json" where
  "session_json s = JObject
     [(''sessionId'', JInt (si_sessionId s)), (''userLogin'', JString (si_userLogin s)),
      (''userFullName'', JString (si_userFullName s)), (''clientAddress'', JString (si_clientAddress s)),
      (''uptimeSeconds'', JInt (si_uptimeSeconds s)), (''sessionType'', JString (si_sessionType s)),
      (''sessionClientName'', JString (si_sessionClientName s)), (''sessionHostName'', JString (si_sessionHostName s))]"

definition session_user_json :: "user_info \<Rightarrow> json" where
  "session_user_json u = JObject
     [(''login'', JString (ui_login u)), (''fullName'', JString (ui_fullName u)), (''domain'', JString (ui_domain u))]"

definition screen_json :: "screen_rect \<Rightarrow> json" where
  "screen_json r = JObject
     [(''x'', JInt (sc_x r)), (''y'', JInt (sc_y r)), (''width'', JInt (sc_width r)), (''height'', JInt (sc_height r))]"

text \<open>The three handlers differ in the lookup and the messages; \<open>loaded\<close> says that there is a plugin.\<close>

definition session_answer ::
  "(string \<Rightarrow> rat option) \<Rightarrow> i18n option \<Rightarrow> bool \<Rightarrow> (string \<Rightarrow> json result) \<Rightarrow> string \<Rightarrow> http_request
     \<Rightarrow> http_response \<Rightarrow> http_response" where
  "session_answer stod inst loaded lookup failed req res =
     (let t = tr inst (getLocale stod inst req)
      in if length (rq_matches req) \<le> 1 then sendError 400 (t ''error.missing_path_param'') [] res
         else if \<not> loaded then sendError 503 (t ''error.session_plugin_unavailable'') [] res
         else case lookup (rq_matches req ! 1) of
                Inl e \<Rightarrow> computer_refusal stod inst req (rq_matches req ! 1) e failed res
              | Inr j \<Rightarrow> json_answer 200 j res)"

definition handleGetSession where
  "handleGetSession hash stod inst loaded =
     session_answer stod inst loaded (\<lambda>u. map_sum id session_json (getSession hash u)) ''error.failed_retrieve_session''"

definition handleGetUser where
  "handleGetUser stod inst loaded =
     session_answer stod inst loaded (\<lambda>u. map_sum id session_user_json (getUser u)) ''error.failed_retrieve_user''"

definition handleGetScreens where
  "handleGetScreens stod inst loaded =
     session_answer stod inst loaded (\<lambda>u. map_sum id (\<lambda>rs. JArray (map screen_json rs)) (getScreens u))
       ''error.failed_retrieve_screens''"

section \<open>The framebuffer controller\<close>

text \<open>A parameter that must be a number, with its default.\<close>

definition int_param :: "query \<Rightarrow> string \<Rightarrow> int \<Rightarrow> int" where
  "int_param q n dflt =
     (let v = get_param_value q n in if v = [] then dflt else case safe_stoi v of None \<Rightarrow> dflt | Some i \<Rightarrow> i)"

definition clamped_param :: "query \<Rightarrow> string \<Rightarrow> int \<Rightarrow> int" where
  "clamped_param q n hi =
     (let v = get_param_value q n
      in if v = [] then -1 else clamp (case safe_stoi v of None \<Rightarrow> -1 | Some i \<Rightarrow> i) 0 hi)"

definition format_param :: "query \<Rightarrow> image_format" where
  "format_param q =
     (let v = get_param_value q ''format'' in if v = ''jpeg'' \<or> v = ''jpg'' then Jpeg else Png)"

text \<open>
  The answer, and the bytes of the body when it is a picture. \<open>etag\<close> is the hash of the bytes
  in decimal.
\<close>

definition handleGetFramebuffer ::
  "(byte list \<Rightarrow> string) \<Rightarrow> (string \<Rightarrow> rat option) \<Rightarrow> i18n option \<Rightarrow> bool \<Rightarrow> query \<Rightarrow> http_request \<Rightarrow> http_response
     \<Rightarrow> http_response \<times> byte list option" where
  "handleGetFramebuffer etag stod inst loaded q req res =
     (let lang = getLocale stod inst req; t = tr inst lang
      in if length (rq_matches req) \<le> 1 then (sendError 400 (t ''error.missing_path_param'') [] res, None)
         else if \<not> loaded then (sendError 503 (t ''error.computer_plugin_unavailable'') [] res, None)
         else
           let i = rq_matches req ! 1
           in case getFramebuffer i (int_param q ''width'' 0) (int_param q ''height'' 0) (format_param q)
                     (clamped_param q ''compression'' 9) (clamped_param q ''quality'' 100) of
                Inl e \<Rightarrow>
                  (if missing_code (err_code e)
                   then sendError 404 (t ''error.computer_not_found'')
                          (tr_args inst lang ''error.no_computer_with_id'' [i]) res
                   else sendError (http_status_for (err_code e)) (t ''error.framebuffer_capture_failed'')
                          (err_msg e) res, None)
              | Inr img \<Rightarrow>
                  ((set_header ''ETag'' (etag (fi_data img))
                     (set_header ''Cache-Control'' ''no-cache''
                       (set_header ''Content-Type'' (if fi_format img = Jpeg then ''image/jpeg'' else ''image/png'')
                          res)))\<lparr>rs_status := 200\<rparr>, Some (fi_data img)))"

section \<open>Where the lookups agree\<close>

lemma find_listed_agent:
  assumes "enumerates it" and "registry_inv r"
  shows "find (\<lambda>c. ci_uid c = u) (map (\<lambda>a. agent_computer (state_of_agent (ai_state a)) a) (listAgents it r))
    = map_option (\<lambda>a. agent_computer (state_of_agent (ai_state a)) a) (m_agents r u)"
proof -
  have set: "set (listAgents it r) = ran (m_agents r)"
    by (rule enumerates_listAgents) (use assms in \<open>simp_all add: registry_inv_def\<close>)
  have uid: "ci_uid (agent_computer st a) = ai_agentId a" for st a by (simp add: agent_computer_def)
  show ?thesis
  proof (cases "m_agents r u")
    case None
    have "ai_agentId a \<noteq> u" if "a \<in> set (listAgents it r)" for a
      using that set registry_inv_known(1) [OF assms(2)] None by (auto simp: ran_def)
    with None show ?thesis by (auto simp: find_None_iff uid)
  next
    case (Some a)
    have "x = a" if "x \<in> set (listAgents it r)" "ai_agentId x = u" for x
      using that set registry_inv_known(1) [OF assms(2)] Some by (auto simp: ran_def)
    moreover have "a \<in> set (listAgents it r)" "ai_agentId a = u"
      using set Some registry_inv_known(1) [OF assms(2)] by (auto simp: ran_def)
    ultimately have "find (\<lambda>x. ai_agentId x = u) (listAgents it r) = Some a"
      by (metis (mono_tags, lifting) find_None_iff find_SomeD not_None_eq)
    moreover have "find (\<lambda>c. ci_uid c = u) (map (\<lambda>a. agent_computer (state_of_agent (ai_state a)) a) as)
        = map_option (\<lambda>a. agent_computer (state_of_agent (ai_state a)) a) (find (\<lambda>x. ai_agentId x = u) as)" for as
      by (induction as) (simp_all add: uid)
    ultimately show ?thesis using Some by simp
  qed
qed

lemma listed_computer:
  assumes "enumerates it" and "registry_inv r" and "listComputers it (Some r) = Inr cs"
  shows "find (\<lambda>c. ci_uid c = u) cs
    = (case m_agents r u of
         Some a \<Rightarrow> Some (agent_computer (state_of_agent (ai_state a)) a)
       | None \<Rightarrow> directory_entry u)"
  using assms(3) find_listed_agent [OF assms(1,2), of u]
  by (auto simp: listComputers_def ok_def find_append directory_entry_def split: option.split)

text \<open>
  The plugin's lookups are lookups in its list: the state of a computer is the state of the
  first computer of that name in the list and the error ComputerNotFound if there is none; the
  full record is that entry too, unless it is an agent that reported an error, which the list
  shows as online and the record as offline.
\<close>

theorem plugin_lookups_agree:
  assumes "enumerates it" and "registry_inv r" and "listComputers it (Some r) = Inr cs"
  shows "getState u (Some r)
      = (case find (\<lambda>c. ci_uid c = u) cs of Some c \<Rightarrow> Inr (ci_state c) | None \<Rightarrow> computer_not_found u)
    \<and> getComputer u (Some r)
      = (case find (\<lambda>c. ci_uid c = u) cs of
           Some c \<Rightarrow> Inr (if m_agents r u \<noteq> None \<and> ci_state c = OnlineState then c\<lparr>ci_state := OfflineState\<rparr> else c)
         | None \<Rightarrow> computer_not_found u)"
proof (cases "m_agents r u")
  case None
  then show ?thesis
    unfolding listed_computer [OF assms]
    by (simp add: getState_def getComputer_def attached_agent_def findAgent_def fail_def ok_def split: option.split)
next
  case (Some a)
  then show ?thesis
    unfolding listed_computer [OF assms]
    by (cases "ai_state a")
      (simp_all add: getState_def getComputer_def attached_agent_def findAgent_def ok_def agent_computer_def)
qed

text \<open>A traversal of the map of one agent, which reports an error.\<close>

definition failing_registry :: registry where
  "failing_registry = updateState ''a'' AgentError (snd (registerAgent 1 sample_agent empty_registry))"

lemma failing_registry_inv: "registry_inv failing_registry"
  by (simp add: failing_registry_def inv_intros)

lemma failing_registry_agents:
  "m_agents failing_registry = [''a'' \<mapsto> sample_agent
     \<lparr>ai_state := AgentError, ai_registeredAt := 1, ai_lastHeartbeat := 1\<rparr>]"
  by (simp add: failing_registry_def updateState_def registerAgent_def sample_agent_def empty_registry_def Let_def)

definition some_traversal :: "agent_info traversal" where
  "some_traversal m = (if finite (dom m) then sorted_list_of_set (dom m) else [])"

lemma some_traversal_enumerates: "enumerates some_traversal"
  by (simp add: enumerates_def some_traversal_def)

theorem plugin_lookups_agree_witness:
  "getState ''a'' (Some failing_registry) = Inr OnlineState
   \<and> (\<exists>c. getComputer ''a'' (Some failing_registry) = Inr c \<and> ci_state c = OfflineState)"
proof -
  obtain cs where cs: "listComputers some_traversal (Some failing_registry) = Inr cs"
    by (simp add: listComputers_def ok_def)
  have found: "find (\<lambda>c. ci_uid c = ''a'') cs = Some (agent_computer OnlineState
      (sample_agent\<lparr>ai_state := AgentError, ai_registeredAt := 1, ai_lastHeartbeat := 1\<rparr>))"
    by (simp add: listed_computer [OF some_traversal_enumerates failing_registry_inv cs] failing_registry_agents)
  show ?thesis
    using plugin_lookups_agree [OF some_traversal_enumerates failing_registry_inv cs, of "''a''"]
    unfolding found by (simp add: failing_registry_agents agent_computer_def)
qed

section \<open>Pictures\<close>

lemma clamp_range: "lo \<le> hi \<Longrightarrow> lo \<le> clamp v lo hi \<and> clamp v lo hi \<le> hi"
  by (simp add: clamp_def)

text \<open>
  The screen of a live agent can never be fetched: every computer in the list that is an
  agent and has none of the six built-in names is answered 404 by the framebuffer endpoint,
  in every size and format.
\<close>

theorem agent_screens_not_found:
  assumes "m_agents r u = Some a" and "enumerates it" and "registry_inv r"
    and "listComputers it (Some r) = Inr cs"
    and "directory_entry u = None" and "rq_matches req = [p, u]"
  shows "u \<in> ci_uid ` set cs
    \<and> rs_status (fst (handleGetFramebuffer etag stod inst True q req res)) = 404
    \<and> snd (handleGetFramebuffer etag stod inst True q req res) = None"
proof -
  have "find (\<lambda>c. ci_uid c = u) cs = Some (agent_computer (state_of_agent (ai_state a)) a)"
    using assms(1) by (simp add: listed_computer [OF assms(2-4)])
  then have "u \<in> ci_uid ` set cs" by (auto dest!: find_SomeD)
  moreover have "\<not> (\<exists>c \<in> set enumerate_directory. ci_uid c = u)"
    using assms(5) by (auto simp: directory_entry_def find_None_iff)
  ultimately show ?thesis
    using assms(6) by (simp add: handleGetFramebuffer_def Let_def getFramebuffer_def computer_not_found_def
        fail_def missing_code_def)
qed

theorem agent_screens_not_found_witness:
  "rs_status (fst (handleGetFramebuffer (\<lambda>_. []) (\<lambda>_. None) None True (\<lambda>_. None)
     (empty_request\<lparr>rq_matches := [[], ''a'']\<rparr>) fresh_response)) = 404"
proof -
  obtain cs where cs: "listComputers some_traversal (Some failing_registry) = Inr cs"
    by (simp add: listComputers_def ok_def)
  have a: "m_agents failing_registry ''a'' = Some (sample_agent
      \<lparr>ai_state := AgentError, ai_registeredAt := 1, ai_lastHeartbeat := 1\<rparr>)"
    by (simp add: failing_registry_agents)
  have d: "directory_entry ''a'' = None"
    by (simp add: directory_entry_def enumerate_directory_def mock_computer_def)
  show ?thesis
    using agent_screens_not_found [OF a some_traversal_enumerates failing_registry_inv cs d, of
        "empty_request\<lparr>rq_matches := [[], ''a'']\<rparr>" "[]"] by simp
qed

text \<open>The chunks of a PNG file behind the signature, with the checksum the format prescribes.\<close>

fun crc_bits :: "nat \<Rightarrow> int \<Rightarrow> int" where
  "crc_bits 0 c = c"
| "crc_bits (Suc k) c = crc_bits k (if odd c then c div 2 XOR 0xEDB88320 else c div 2)"

definition crc32 :: "byte list \<Rightarrow> int" where
  "crc32 bs = fold (\<lambda>b c. crc_bits 8 (c XOR uint b)) bs 0xFFFFFFFF XOR 0xFFFFFFFF"

definition be32 :: "byte list \<Rightarrow> int" where
  "be32 bs = fold (\<lambda>b n. 256 * n + uint b) bs 0"

text \<open>One chunk: its length, its type and data, and its checksum at the end.\<close>

definition chunk_checked :: "byte list \<Rightarrow> bool" where
  "chunk_checked bs =
     (let n = nat (be32 (take 4 bs))
      in be32 (take 4 (drop (8 + n) bs)) = crc32 (take (4 + n) (drop 4 bs)))"

text \<open>
  The built-in picture is no valid PNG: it has the signature and ends with a well-formed
  end chunk, but the checksum of its header chunk is wrong, so that every decoder that checks
  it refuses the file.
\<close>

theorem builtin_picture_corrupt:
  "take 8 mock_png = [0x89, 0x50, 0x4E, 0x47, 0x0D, 0x0A, 0x1A, 0x0A]
   \<and> \<not> chunk_checked (drop 8 mock_png) \<and> chunk_checked (drop 57 mock_png)"
  by code_simp

end
