(* ===== verification/Feature_Plugin.thy ===== *)
theory Feature_Plugin
  imports Agent_Endpoints Computer_Endpoints
begin

text \<open>
  The features a teacher switches on and off: src/plugins/feature/FeaturePlugin.cpp with
  FeatureRegistry.cpp, the controllers src/api/v1/controllers/FeatureController.cpp and
  src/api/v2/controllers/BatchController.cpp, and their DTOs. The plugin's mutex is recursive
  and held for whole calls, so a call is one function on the plugin's map and the agent
  registry. The lemmas show which command a call leaves for an agent, that the map of active
  features is a set of pairs, and what a batch reports.
\<close>

section \<open>Descriptors\<close>

datatype feature_operation = StartFeature | StopFeature | InitializeFeature

record feature_descriptor =
  fd_uid :: string
  fd_parentUid :: string
  fd_name :: string
  fd_description :: string
  fd_isActive :: bool
  fd_isMasterSide :: bool
  fd_isServiceSide :: bool
  fd_iconUrl :: string

definition kFeatureLockScreen :: string where "kFeatureLockScreen = ''feat-lock-screen''"
definition kFeatureScreenBroadcast :: string where "kFeatureScreenBroadcast = ''feat-screen-broadcast''"
definition kFeatureInputLock :: string where "kFeatureInputLock = ''feat-input-lock''"
definition kFeatureMessage :: string where "kFeatureMessage = ''feat-message''"
definition kFeaturePowerControl :: string where "kFeaturePowerControl = ''feat-power-control''"

definition kHandlerLockScreen :: string where "kHandlerLockScreen = ''lock-screen''"
definition kHandlerScreenCapture :: string where "kHandlerScreenCapture = ''screen-capture''"
definition kHandlerInputLock :: string where "kHandlerInputLock = ''input-lock''"
definition kHandlerMessageDisplay :: string where "kHandlerMessageDisplay = ''message-display''"
definition kHandlerPowerControl :: string where "kHandlerPowerControl = ''power-control''"

lemmas feature_names = kFeatureLockScreen_def kFeatureScreenBroadcast_def kFeatureInputLock_def
  kFeatureMessage_def kFeaturePowerControl_def

lemmas handler_names = kHandlerLockScreen_def kHandlerScreenCapture_def kHandlerInputLock_def
  kHandlerMessageDisplay_def kHandlerPowerControl_def

definition agentFeatureUid :: "string \<Rightarrow> string" where
  "agentFeatureUid f =
     (if f = kFeatureLockScreen then kHandlerLockScreen
      else if f = kFeatureScreenBroadcast then kHandlerScreenCapture
      else if f = kFeatureInputLock then kHandlerInputLock
      else if f = kFeatureMessage then kHandlerMessageDisplay
      else if f = kFeaturePowerControl then kHandlerPowerControl
      else f)"

definition feature_catalog :: "feature_descriptor list" where
  "feature_catalog =
     [\<lparr>fd_uid = kFeatureLockScreen, fd_parentUid = [], fd_name = ''Lock Screen'',
       fd_description = ''Lock computer screen'', fd_isActive = False, fd_isMasterSide = True,
       fd_isServiceSide = True, fd_iconUrl = []\<rparr>,
      \<lparr>fd_uid = kFeatureScreenBroadcast, fd_parentUid = [], fd_name = ''Screen Broadcast'',
       fd_description = ''Broadcast teacher screen'', fd_isActive = False, fd_isMasterSide = True,
       fd_isServiceSide = True, fd_iconUrl = []\<rparr>,
      \<lparr>fd_uid = kFeatureInputLock, fd_parentUid = kFeatureLockScreen, fd_name = ''Input Lock'',
       fd_description = ''Lock keyboard and mouse'', fd_isActive = False, fd_isMasterSide = False,
       fd_isServiceSide = True, fd_iconUrl = []\<rparr>,
      \<lparr>fd_uid = kFeatureMessage, fd_parentUid = [], fd_name = ''Show Message'',
       fd_description = ''Display message on screen'', fd_isActive = False, fd_isMasterSide = True,
       fd_isServiceSide = True, fd_iconUrl = []\<rparr>,
      \<lparr>fd_uid = kFeaturePowerControl, fd_parentUid = [], fd_name = ''Power Control'',
       fd_description = ''Power on/off/reboot'', fd_isActive = False, fd_isMasterSide = True,
       fd_isServiceSide = False, fd_iconUrl = []\<rparr>]"

section \<open>The plugin\<close>

text \<open>
  \<open>ft_active\<close> is \<^verbatim>\<open>m_activeFeatures\<close>; \<open>ft_agents\<close> the agent registry, \<open>None\<close> while the plugin
  has none attached.
\<close>

type_synonym active_features = "string \<rightharpoonup> string set"

record feature_state =
  ft_active :: active_features
  ft_agents :: "registry option"

definition setAgentRegistry :: "registry option \<Rightarrow> feature_state \<Rightarrow> feature_state" where
  "setAgentRegistry g s = s\<lparr>ft_agents := g\<rparr>"

definition mark_active :: "string set \<Rightarrow> feature_descriptor \<Rightarrow> feature_descriptor" where
  "mark_active fs f = (if fd_uid f \<in> fs then f\<lparr>fd_isActive := True\<rparr> else f)"

definition listFeatures :: "string \<Rightarrow> feature_state \<Rightarrow> feature_descriptor list result" where
  "listFeatures c s =
     (case ft_active s c of
        None \<Rightarrow> ok feature_catalog
      | Some fs \<Rightarrow> ok (map (mark_active fs) feature_catalog))"

definition isFeatureActive :: "string \<Rightarrow> string \<Rightarrow> feature_state \<Rightarrow> bool result" where
  "isFeatureActive c f s =
     (case ft_active s c of None \<Rightarrow> ok False | Some fs \<Rightarrow> ok (f \<in> fs))"

definition insert_active :: "string \<Rightarrow> string \<Rightarrow> active_features \<Rightarrow> active_features" where
  "insert_active c f m = m(c \<mapsto> insert f (case m c of None \<Rightarrow> {} | Some fs \<Rightarrow> fs))"

definition erase_active :: "string \<Rightarrow> string \<Rightarrow> active_features \<Rightarrow> active_features" where
  "erase_active c f m =
     (case m c of
        None \<Rightarrow> m
      | Some fs \<Rightarrow> if fs - {f} = {} then m(c := None) else m(c \<mapsto> fs - {f}))"

definition track :: "feature_operation \<Rightarrow> string \<Rightarrow> string \<Rightarrow> active_features \<Rightarrow> active_features" where
  "track op c f m =
     (case op of StartFeature \<Rightarrow> insert_active c f m | StopFeature \<Rightarrow> erase_active c f m | InitializeFeature \<Rightarrow> m)"

text \<open>What the environment answers to one call: random bytes, the clock, the order of the history.\<close>

record control_env =
  ce_rnd :: "byte list option"
  ce_now :: timestamp
  ce_it :: "agent_command traversal"

text \<open>The agent a call is routed to, if there is one that can execute it.\<close>

definition live_agent :: "string \<Rightarrow> feature_operation \<Rightarrow> feature_state \<Rightarrow> registry option" where
  "live_agent c op s =
     (case ft_agents s of
        None \<Rightarrow> None
      | Some g \<Rightarrow>
          if op = InitializeFeature then None
          else case findAgent c g of
                 Inl _ \<Rightarrow> None
               | Inr a \<Rightarrow> if ai_state a = Online \<or> ai_state a = Busy then Some g else None)"

definition feature_command ::
  "string \<Rightarrow> string \<Rightarrow> string \<Rightarrow> feature_operation \<Rightarrow> (string \<times> string) list \<Rightarrow> agent_command" where
  "feature_command i c f op params =
     \<lparr>ac_commandId = i, ac_agentId = c, ac_featureUid = agentFeatureUid f,
      ac_operation = (if op = StartFeature then ''start'' else ''stop''), ac_arguments = params,
      ac_status = Pending, ac_createdAt = 0, ac_completedAt = 0, ac_result = [], ac_durationMs = 0\<rparr>"

definition controlFeature ::
  "control_env \<Rightarrow> string \<Rightarrow> string \<Rightarrow> feature_operation \<Rightarrow> (string \<times> string) list \<Rightarrow> feature_state
     \<Rightarrow> unit result \<times> feature_state" where
  "controlFeature env c f op params s =
     (case live_agent c op s of
        Some g \<Rightarrow>
          (case generateUuid (ce_rnd env) of
             None \<Rightarrow> (fail InternalError ''UUID generation failed'', s)
           | Some i \<Rightarrow>
               (ok (), s\<lparr>ft_active := track op c f (ft_active s),
                  ft_agents := Some (queueCommand (ce_it env) (ce_now env) (feature_command i c f op params) g)\<rparr>))
      | None \<Rightarrow> (ok (), s\<lparr>ft_active := track op c f (ft_active s)\<rparr>))"

text \<open>\<open>envs k\<close> is what the environment answers to the \<open>k\<close>-th call.\<close>

fun controlFeatureBatch_from ::
  "nat \<Rightarrow> (nat \<Rightarrow> control_env) \<Rightarrow> string list \<Rightarrow> string \<Rightarrow> feature_operation \<Rightarrow> (string \<times> string) list
     \<Rightarrow> feature_state \<Rightarrow> string list \<times> feature_state" where
  "controlFeatureBatch_from k envs [] f op params s = ([], s)"
| "controlFeatureBatch_from k envs (c # cs) f op params s =
     (let (r, s1) = controlFeature (envs k) c f op params s;
          (done, s2) = controlFeatureBatch_from (Suc k) envs cs f op params s1
      in (if is_ok r then c # done else done, s2))"

definition controlFeatureBatch ::
  "(nat \<Rightarrow> control_env) \<Rightarrow> string list \<Rightarrow> string \<Rightarrow> feature_operation \<Rightarrow> (string \<times> string) list
     \<Rightarrow> feature_state \<Rightarrow> string list result \<times> feature_state" where
  "controlFeatureBatch envs cs f op params s =
     (let (done, s') = controlFeatureBatch_from 0 envs cs f op params s in (ok done, s'))"

section \<open>The index of the features\<close>

record feature_registry =
  fr_features :: "feature_descriptor list"
  fr_index :: "string \<rightharpoonup> nat"

fun index_features :: "nat \<Rightarrow> feature_descriptor list \<Rightarrow> (string \<rightharpoonup> nat) \<Rightarrow> (string \<rightharpoonup> nat)" where
  "index_features i [] m = m"
| "index_features i (f # fs) m = index_features (Suc i) fs (m(fd_uid f \<mapsto> i))"

definition populate :: "feature_descriptor list \<Rightarrow> feature_registry" where
  "populate fs = \<lparr>fr_features = fs, fr_index = index_features 0 fs Map.empty\<rparr>"

definition find_feature :: "string \<Rightarrow> feature_registry \<Rightarrow> feature_descriptor option" where
  "find_feature u r = (case fr_index r u of None \<Rightarrow> None | Some i \<Rightarrow> Some (fr_features r ! i))"

section \<open>The controllers\<close>

definition feature_json :: "feature_descriptor \<Rightarrow> json" where
  "feature_json f = JObject
     [(''uid'', JString (fd_uid f)), (''parentUid'', JString (fd_parentUid f)), (''name'', JString (fd_name f)),
      (''description'', JString (fd_description f)), (''isActive'', JBool (fd_isActive f)),
      (''isMasterSide'', JBool (fd_isMasterSide f)), (''isServiceSide'', JBool (fd_isServiceSide f))]"

definition feature_control_request_from_json :: "json \<Rightarrow> (bool \<times> (string \<times> string) list) option" where
  "feature_control_request_from_json j =
     do { a \<leftarrow> Option.bind (json_at j ''active'') json_get_bool;
          as \<leftarrow> Option.bind (json_at j ''arguments'') json_get_string_map;
          Some (a, as) }"

text \<open>\<open>fx_loaded\<close>: the plugin registry has a feature plugin.\<close>

record feature_env =
  fx_stod :: "string \<Rightarrow> rat option"
  fx_i18n :: "i18n option"
  fx_parse :: "string \<Rightarrow> json option"
  fx_what :: string
  fx_loaded :: bool
  fx_control :: "nat \<Rightarrow> control_env"

definition handleFeatureList ::
  "feature_env \<Rightarrow> http_request \<Rightarrow> http_response \<Rightarrow> feature_state \<Rightarrow> http_response" where
  "handleFeatureList env req res s =
     (let t = tr (fx_i18n env) (getLocale (fx_stod env) (fx_i18n env) req)
      in if length (rq_matches req) \<le> 1 then sendError 400 (t ''error.missing_path_param'') [] res
         else if \<not> fx_loaded env then sendError 503 (t ''error.feature_plugin_unavailable'') [] res
         else case listFeatures (rq_matches req ! 1) s of
                Inl e \<Rightarrow> sendError 503 (t ''error.failed_list_features'') (err_msg e) res
              | Inr fs \<Rightarrow> json_answer 200 (JObject [(''features'', JArray (map feature_json fs))]) res)"

definition handleFeatureGetOne ::
  "feature_env \<Rightarrow> http_request \<Rightarrow> http_response \<Rightarrow> feature_state \<Rightarrow> http_response" where
  "handleFeatureGetOne env req res s =
     (let t = tr (fx_i18n env) (getLocale (fx_stod env) (fx_i18n env) req)
      in if length (rq_matches req) \<le> 2 then sendError 400 (t ''error.missing_path_param'') [] res
         else if \<not> fx_loaded env then sendError 503 (t ''error.feature_plugin_unavailable'') [] res
         else case listFeatures (rq_matches req ! 1) s of
                Inl e \<Rightarrow> sendError 503 (t ''error.failed_list_features'') (err_msg e) res
              | Inr fs \<Rightarrow>
                  (case find (\<lambda>f. fd_uid f = rq_matches req ! 2) fs of
                     None \<Rightarrow> sendError 404 (t ''error.feature_not_found'') (t ''error.missing_feature_uid'') res
                   | Some f \<Rightarrow>
                       json_answer 200 (feature_json
                         (case isFeatureActive (rq_matches req ! 1) (rq_matches req ! 2) s of
                            Inl _ \<Rightarrow> f
                          | Inr b \<Rightarrow> f\<lparr>fd_isActive := b\<rparr>)) res))"

definition handleControl ::
  "feature_env \<Rightarrow> http_request \<Rightarrow> http_response \<Rightarrow> feature_state \<Rightarrow> http_response \<times> feature_state" where
  "handleControl env req res s =
     (let t = tr (fx_i18n env) (getLocale (fx_stod env) (fx_i18n env) req)
      in if length (rq_matches req) \<le> 2 then (sendError 400 (t ''error.missing_path_param'') [] res, s)
         else case Option.bind (fx_parse env (rq_body req)) feature_control_request_from_json of
           None \<Rightarrow> (sendError 400 (t ''error.invalid_request_body'') (fx_what env) res, s)
         | Some (active, params) \<Rightarrow>
             if \<not> fx_loaded env then (sendError 503 (t ''error.feature_plugin_unavailable'') [] res, s)
             else
               (case controlFeature (fx_control env 0) (rq_matches req ! 1) (rq_matches req ! 2)
                       (if active then StartFeature else StopFeature) params s of
                  (Inl e, s') \<Rightarrow>
                    (sendError (http_status_for (err_code e)) (t ''error.feature_control_failed'') (err_msg e) res, s')
                | (Inr _, s') \<Rightarrow> (json_answer 200 (JObject [(''success'', JBool True)]) res, s')))"

record batch_feature_request =
  bq_computerIds :: "string list"
  bq_featureUid :: string
  bq_operation :: string
  bq_arguments :: "(string \<times> string) list"

definition batch_feature_request_from_json :: "json \<Rightarrow> batch_feature_request option" where
  "batch_feature_request_from_json j =
     do { cs \<leftarrow> Option.bind (json_at j ''computerIds'') json_get_strings;
          f \<leftarrow> json_at_string j ''featureUid'';
          op \<leftarrow> json_at_string j ''operation'';
          as \<leftarrow> Option.bind (json_at j ''arguments'') json_get_string_map;
          Some \<lparr>bq_computerIds = cs, bq_featureUid = f, bq_operation = op, bq_arguments = as\<rparr> }"

record batch_result_item =
  bi_computerId :: string
  bi_success :: bool
  bi_error :: string

record batch_feature_response =
  br_total :: int
  br_succeeded :: int
  br_failed :: int
  br_results :: "batch_result_item list"

definition batch_item :: "string list result \<Rightarrow> string \<Rightarrow> batch_result_item" where
  "batch_item r c =
     (let batchErrorDetail = (case r of Inl e \<Rightarrow> err_msg e | Inr _ \<Rightarrow> []);
          succeeded = (case r of Inl _ \<Rightarrow> [] | Inr cs \<Rightarrow> cs)
      in if batchErrorDetail \<noteq> [] then \<lparr>bi_computerId = c, bi_success = False, bi_error = batchErrorDetail\<rparr>
         else if c \<in> set succeeded then \<lparr>bi_computerId = c, bi_success = True, bi_error = []\<rparr>
         else \<lparr>bi_computerId = c, bi_success = False,
               bi_error = ''Operation did not complete successfully''\<rparr>)"

fun count_item :: "batch_result_item \<Rightarrow> batch_feature_response \<Rightarrow> batch_feature_response" where
  "count_item b r =
     (if bi_success b then r\<lparr>br_succeeded := br_succeeded r + 1, br_results := br_results r @ [b]\<rparr>
      else r\<lparr>br_failed := br_failed r + 1, br_results := br_results r @ [b]\<rparr>)"

definition batch_response :: "string list result \<Rightarrow> string list \<Rightarrow> batch_feature_response" where
  "batch_response r cs = fold (\<lambda>c. count_item (batch_item r c)) cs
     \<lparr>br_total = int (length cs), br_succeeded = 0, br_failed = 0, br_results = []\<rparr>"

definition batch_item_json :: "batch_result_item \<Rightarrow> json" where
  "batch_item_json b = JObject
     [(''computerId'', JString (bi_computerId b)), (''success'', JBool (bi_success b)),
      (''error'', JString (bi_error b))]"

definition batch_response_json :: "batch_feature_response \<Rightarrow> json" where
  "batch_response_json r = JObject
     [(''total'', JInt (br_total r)), (''succeeded'', JInt (br_succeeded r)), (''failed'', JInt (br_failed r)),
      (''results'', JArray (map batch_item_json (br_results r)))]"

definition batch_operation :: "string \<Rightarrow> feature_operation option" where
  "batch_operation s =
     (if s = ''start'' then Some StartFeature else if s = ''stop'' then Some StopFeature else None)"

definition handleBatchFeature ::
  "feature_env \<Rightarrow> http_request \<Rightarrow> http_response \<Rightarrow> feature_state \<Rightarrow> http_response \<times> feature_state" where
  "handleBatchFeature env req res s =
     (let lang = getLocale (fx_stod env) (fx_i18n env) req; t = tr (fx_i18n env) lang;
          invalid = (\<lambda>detail. (sendError 400 (t ''error.invalid_request_body'') detail res, s))
      in case Option.bind (fx_parse env (rq_body req)) batch_feature_request_from_json of
           None \<Rightarrow> invalid (fx_what env)
         | Some b \<Rightarrow>
             if bq_computerIds b = [] then invalid (t ''error.missing_computer_ids'')
             else if bq_featureUid b = [] then invalid (t ''error.missing_feature_uid'')
             else case batch_operation (bq_operation b) of
               None \<Rightarrow> invalid (tr_args (fx_i18n env) lang ''error.invalid_operation'' [bq_operation b])
             | Some op \<Rightarrow>
                 if \<not> fx_loaded env then (sendError 503 (t ''error.feature_plugin_unavailable'') [] res, s)
                 else
                   let (r, s') = controlFeatureBatch (fx_control env) (bq_computerIds b) (bq_featureUid b) op
                                   (bq_arguments b) s
                   in (json_answer 200 (batch_response_json (batch_response r (bq_computerIds b))) res, s'))"

section \<open>Active features as a set of pairs\<close>

definition active_pairs :: "active_features \<Rightarrow> (string \<times> string) set" where
  "active_pairs m = {(c, f). \<exists>fs. m c = Some fs \<and> f \<in> fs}"

definition no_empty_sets :: "active_features \<Rightarrow> bool" where
  "no_empty_sets m \<longleftrightarrow> (\<forall>c. m c \<noteq> Some {})"

text \<open>The abstract switches: an operation adds one pair or takes one away.\<close>

definition switch ::
  "feature_operation \<Rightarrow> string \<Rightarrow> string \<Rightarrow> (string \<times> string) set \<Rightarrow> (string \<times> string) set" where
  "switch op c f ps =
     (case op of StartFeature \<Rightarrow> insert (c, f) ps | StopFeature \<Rightarrow> ps - {(c, f)} | InitializeFeature \<Rightarrow> ps)"

lemma active_pairs_track: "active_pairs (track op c f m) = switch op c f (active_pairs m)"
  by (auto simp: active_pairs_def track_def switch_def insert_active_def erase_active_def
      split: feature_operation.splits option.splits if_splits)

lemma no_empty_track: "no_empty_sets m \<Longrightarrow> no_empty_sets (track op c f m)"
  by (auto simp: no_empty_sets_def track_def insert_active_def erase_active_def
      split: feature_operation.splits option.splits if_splits)

type_synonym control_call =
  "control_env \<times> string \<times> string \<times> feature_operation \<times> (string \<times> string) list"

fun control_calls :: "control_call list \<Rightarrow> feature_state \<Rightarrow> bool list \<times> feature_state" where
  "control_calls [] s = ([], s)"
| "control_calls ((env, c, f, op, params) # calls) s =
     (let (r, s1) = controlFeature env c f op params s; (rs, s2) = control_calls calls s1
      in (is_ok r # rs, s2))"

fun switches :: "(control_call \<times> bool) list \<Rightarrow> (string \<times> string) set \<Rightarrow> (string \<times> string) set" where
  "switches [] ps = ps"
| "switches (((env, c, f, op, params), good) # calls) ps =
     switches calls (if good then switch op c f ps else ps)"

lemma controlFeature_active:
  "ft_active (snd (controlFeature env c f op params s))
   = (if is_ok (fst (controlFeature env c f op params s)) then track op c f (ft_active s) else ft_active s)"
  by (simp add: controlFeature_def is_ok_def ok_def fail_def split: option.split)

lemma control_calls_refine:
  "active_pairs (ft_active (snd (control_calls calls s)))
   = switches (zip calls (fst (control_calls calls s))) (active_pairs (ft_active s))"
  by (induction calls arbitrary: s rule: list.induct)
    (auto simp: split_beta controlFeature_active active_pairs_track split: prod.split)

lemma control_calls_no_empty:
  "no_empty_sets (ft_active s) \<Longrightarrow> no_empty_sets (ft_active (snd (control_calls calls s)))"
  by (induction calls arbitrary: s rule: list.induct)
    (auto simp: split_beta controlFeature_active no_empty_track split: prod.split)

lemma isFeatureActive_pairs: "isFeatureActive c f s = Inr ((c, f) \<in> active_pairs (ft_active s))"
  by (simp add: isFeatureActive_def active_pairs_def ok_def split: option.split)

lemma listFeatures_pairs:
  "listFeatures c s = Inr (map (\<lambda>d. d\<lparr>fd_isActive := (c, fd_uid d) \<in> active_pairs (ft_active s)\<rparr>) feature_catalog)"
  by (auto simp: listFeatures_def active_pairs_def ok_def mark_active_def feature_catalog_def split: option.split)

lemma dom_active_pairs:
  assumes "no_empty_sets m"
  shows "dom m = fst ` active_pairs m"
proof (intro equalityI subsetI)
  fix c assume "c \<in> dom m"
  then obtain fs where fs: "m c = Some fs" by auto
  with assms have "fs \<noteq> {}" by (auto simp: no_empty_sets_def)
  then obtain f where "f \<in> fs" by blast
  with fs show "c \<in> fst ` active_pairs m"
    by (intro image_eqI [of _ _ "(c, f)"]) (auto simp: active_pairs_def)
qed (auto simp: active_pairs_def)

text \<open>
  C28: The plugin's map of active features is a set of switches: after any sequence of control
  calls, whatever the agents, the clock and the random generator do, a feature is reported
  active on a computer exactly if the successful calls, one after the other, left its switch
  on, by the single query and by the list alike; and no computer is kept with an empty set.
\<close>

theorem features_refine_switches:
  "let (rs, s) = control_calls calls \<lparr>ft_active = Map.empty, ft_agents = g\<rparr>;
       on = switches (zip calls rs) {}
   in isFeatureActive c f s = Inr ((c, f) \<in> on)
    \<and> listFeatures c s = Inr (map (\<lambda>d. d\<lparr>fd_isActive := (c, fd_uid d) \<in> on\<rparr>) feature_catalog)
    \<and> dom (ft_active s) = fst ` on"
proof -
  let ?init = "\<lparr>ft_active = Map.empty, ft_agents = g\<rparr>"
  let ?s = "snd (control_calls calls ?init)"
  have pairs: "active_pairs (ft_active ?s) = switches (zip calls (fst (control_calls calls ?init))) {}"
    by (simp add: control_calls_refine) (simp add: active_pairs_def)
  have "no_empty_sets (ft_active ?s)" by (rule control_calls_no_empty) (simp add: no_empty_sets_def)
  then have "dom (ft_active ?s) = fst ` active_pairs (ft_active ?s)"
    by (rule dom_active_pairs)
  then show ?thesis
    by (simp add: split_beta Let_def isFeatureActive_pairs listFeatures_pairs pairs)
qed

section \<open>The index agrees with a linear search\<close>

lemma index_features_append:
  "index_features i (fs @ [f]) m = (index_features i fs m)(fd_uid f \<mapsto> i + length fs)"
  by (induction fs arbitrary: i m) simp_all

lemma index_features_bound: "index_features 0 fs Map.empty u = Some k \<Longrightarrow> k < length fs"
  by (induction fs arbitrary: k rule: rev_induct) (auto simp: index_features_append less_Suc_eq split: if_splits)

text \<open>
  The index of the feature registry finds what a linear search from the end of the list
  finds, for every list of descriptors, with repeated identifiers or without; its positions
  are never out of bounds.
\<close>

theorem feature_index_is_search:
  "find_feature u (populate fs) = find (\<lambda>f. fd_uid f = u) (rev fs)
   \<and> ran (fr_index (populate fs)) \<subseteq> {..<length fs}"
proof
  show "find_feature u (populate fs) = find (\<lambda>f. fd_uid f = u) (rev fs)"
  proof (induction fs rule: rev_induct)
    case Nil
    then show ?case by (simp add: find_feature_def populate_def)
  next
    case (snoc f fs)
    then show ?case
      by (auto simp: find_feature_def populate_def index_features_append nth_append
          split: option.split dest: index_features_bound)
  qed
  show "ran (fr_index (populate fs)) \<subseteq> {..<length fs}"
    by (auto simp: populate_def ran_def dest: index_features_bound)
qed

section \<open>From the teacher's request to the agent\<close>

definition can_execute :: "string \<Rightarrow> registry \<Rightarrow> bool" where
  "can_execute c g \<longleftrightarrow> (case m_agents g c of None \<Rightarrow> False | Some a \<Rightarrow> ai_state a \<in> {Online, Busy})"

lemma live_agent_iff:
  assumes "ft_agents s = Some g" and "op \<noteq> InitializeFeature"
  shows "live_agent c op s = (if can_execute c g then Some g else None)"
  using assms by (auto simp: live_agent_def can_execute_def findAgent_def ok_def fail_def split: option.split)

lemma polled_queue:
  assumes "path_param 1 req = i" and "i \<noteq> []"
  shows "fst (handlePollCommands env req res s)
    = dump_answer (ge_what env) 200
        (JArray (map (\<lambda>c. polled_json (c\<lparr>ac_status := Dispatched\<rparr>)) (queue_of i (gd_registry s)))) res"
    and "queue_of i (gd_registry (snd (handlePollCommands env req res s))) = []"
  using assms by (simp_all add: handlePollCommands_def Let_def split_beta dequeue_fields comp_def)

lemma polled_json_stamped [simp]:
  "polled_json ((stamp_created now c)\<lparr>ac_status := st\<rparr>) = polled_json (c\<lparr>ac_status := st\<rparr>)"
  by (simp add: polled_json_def stamp_created_def)

definition control_operation :: "bool \<Rightarrow> string" where
  "control_operation active = (if active then ''start'' else ''stop'')"

text \<open>
  C9: What becomes of a teacher's switch: a request to start or stop a feature is accepted with
  200 whether or not an agent can execute it. If the agent of the computer is online or busy, the
  command is the last of those its next poll takes, after everything that waited before, with a
  fresh identifier, the agent's name of the feature, the operation and the arguments of the
  request; if it is offline, in error or unknown, nothing is queued. The queues of the other
  agents are as they were. The poll empties the queue in any case, and it is answered with the
  commands if they can be printed; a feature identifier that is not UTF-8, which a path may
  hold, makes it the library's 500 instead, and all of them are lost.
\<close>

theorem control_reaches_agent:
  assumes ps: "rq_matches req = [p, c, f]" and c: "c \<noteq> []"
    and body: "Option.bind (fx_parse env (rq_body req)) feature_control_request_from_json = Some (active, params)"
    and loaded: "fx_loaded env"
    and g: "ft_agents s = Some g"
    and i: "generateUuid (ce_rnd (fx_control env 0)) = Some i"
    and poll: "path_param 1 poll = c"
  shows "\<exists>s' g'. handleControl env req res s = (json_answer 200 (JObject [(''success'', JBool True)]) res, s')
    \<and> ft_agents s' = Some g'
    \<and> (let (answer, d) = handlePollCommands aenv poll res' \<lparr>gd_registry = g', gd_org = db\<rparr>
       in answer = dump_answer (ge_what aenv) 200
            (JArray (map (\<lambda>x. polled_json (x\<lparr>ac_status := Dispatched\<rparr>)) (queue_of c g)
              @ (if can_execute c g
                 then [JObject [(''commandId'', JString i), (''featureUid'', JString (agentFeatureUid f)),
                         (''operation'', JString (control_operation active)), (''arguments'', arguments_json params),
                         (''status'', JString ''dispatched'')]]
                 else []))) res'
          \<and> queue_of c (gd_registry d) = [])
    \<and> (\<forall>j. j \<noteq> c \<longrightarrow> queue_of j g' = queue_of j g)"
proof -
  let ?op = "if active then StartFeature else StopFeature"
  let ?cmd = "feature_command i c f ?op params"
  let ?g = "if can_execute c g then queueCommand (ce_it (fx_control env 0)) (ce_now (fx_control env 0)) ?cmd g else g"
  let ?s = "s\<lparr>ft_active := track ?op c f (ft_active s), ft_agents := Some ?g\<rparr>"
  have "live_agent c ?op s = (if can_execute c g then Some g else None)" using g by (simp add: live_agent_iff)
  moreover have "s\<lparr>ft_active := m, ft_agents := Some g\<rparr> = s\<lparr>ft_active := m\<rparr>" for m using g by simp
  ultimately have "handleControl env req res s = (json_answer 200 (JObject [(''success'', JBool True)]) res, ?s)"
    using ps body loaded i by (simp add: handleControl_def Let_def controlFeature_def ok_def)
  moreover have "queue_of j ?g = (if j = c \<and> can_execute c g
      then queue_of c g @ [stamp_created (ce_now (fx_control env 0)) ?cmd] else queue_of j g)" for j
    by (auto simp: queueCommand_fields feature_command_def can_execute_def split: option.splits)
  moreover have "polled_json (?cmd\<lparr>ac_status := Dispatched\<rparr>) =
      JObject [(''commandId'', JString i), (''featureUid'', JString (agentFeatureUid f)),
               (''operation'', JString (control_operation active)), (''arguments'', arguments_json params),
               (''status'', JString ''dispatched'')]"
    by (simp add: polled_json_def feature_command_def control_operation_def)
  ultimately show ?thesis
    by (intro exI [of _ ?s] exI [of _ ?g]) (simp add: polled_queue [OF poll c] split_beta)
qed

definition sample_control_env :: control_env where
  "sample_control_env = \<lparr>ce_rnd = Some (replicate 16 5), ce_now = 3, ce_it = (\<lambda>_. [])\<rparr>"

definition sample_feature_env :: "string list \<Rightarrow> feature_env" where
  "sample_feature_env cs = \<lparr>fx_stod = (\<lambda>_. None), fx_i18n = None,
     fx_parse = (\<lambda>body. Some (JObject (if body = ''batch''
       then [(''computerIds'', JArray (map JString cs)), (''featureUid'', JString kFeatureLockScreen),
             (''operation'', JString ''start''), (''arguments'', JObject [])]
       else [(''active'', JBool True), (''arguments'', JObject [])]))),
     fx_what = [], fx_loaded = True, fx_control = (\<lambda>_. sample_control_env)\<rparr>"

definition online_registry :: registry where
  "online_registry = snd (registerAgent 1 sample_agent empty_registry)"

lemma online_registry_agent:
  "m_agents online_registry ''a''
   = Some (sample_agent\<lparr>ai_state := Online, ai_registeredAt := 1, ai_lastHeartbeat := 1\<rparr>)"
  "queue_of i online_registry = []"
  by (simp_all add: online_registry_def registerAgent_def sample_agent_def empty_registry_def queue_of_def Let_def)

lemma sample_control_parses:
  "Option.bind (fx_parse (sample_feature_env cs) []) feature_control_request_from_json = Some (True, [])"
  by (simp add: sample_feature_env_def feature_control_request_from_json_def json_at_def json_get_bool_def
      json_get_string_map_def)

text \<open>The switch of a live agent arrives.\<close>

theorem control_reaches_agent_witness:
  "\<exists>s' g'. handleControl (sample_feature_env []) (agent_path [[], ''a'', kFeatureInputLock]) fresh_response
       \<lparr>ft_active = Map.empty, ft_agents = Some online_registry\<rparr>
       = (json_answer 200 (JObject [(''success'', JBool True)]) fresh_response, s')
     \<and> ft_agents s' = Some g'
     \<and> rs_body (fst (handlePollCommands (sample_agent_env 9) (agent_path [[], ''a'']) fresh_response
          \<lparr>gd_registry = g', gd_org = empty_org_db\<rparr>))
       = Some (JArray [JObject [(''commandId'', JString (uuid_print 0 (uuid_bytes (replicate 16 5)))),
           (''featureUid'', JString ''input-lock''), (''operation'', JString ''start''),
           (''arguments'', JObject []), (''status'', JString ''dispatched'')]])"
proof -
  let ?s = "\<lparr>ft_active = Map.empty, ft_agents = Some online_registry\<rparr>"
  have i: "generateUuid (ce_rnd (fx_control (sample_feature_env []) 0))
      = Some (uuid_print 0 (uuid_bytes (replicate 16 5)))"
    by (simp add: sample_feature_env_def sample_control_env_def generateUuid_def)
  have f: "agentFeatureUid kFeatureInputLock = ''input-lock''"
    by (simp add: agentFeatureUid_def feature_names handler_names)
  have m: "rq_matches (agent_path ps) = ps" "rq_body (agent_path ps) = []" for ps by (simp_all add: agent_path_def)
  have p: "path_param 1 (agent_path [[], ''a'']) = ''a''" by (simp add: path_param_def m)
  have a: "ft_agents ?s = Some online_registry" "fx_loaded (sample_feature_env [])"
    by (simp_all add: sample_feature_env_def)
  have live: "can_execute ''a'' online_registry" by (simp add: can_execute_def online_registry_agent)
  have b: "Option.bind (fx_parse (sample_feature_env []) (rq_body (agent_path [[], ''a'', kFeatureInputLock])))
      feature_control_request_from_json = Some (True, [])"
    unfolding m by (rule sample_control_parses)
  have texts: "utf8_text ''input-lock''" "utf8_text ''start''" "utf8_text ''dispatched''"
    by (simp_all add: utf8_text_def)
  show ?thesis
    using control_reaches_agent [OF m(1) _ b a(2,1) i p,
        of fresh_response "sample_agent_env 9" fresh_response empty_org_db]
    by (auto simp: online_registry_agent f control_operation_def arguments_json_def live texts utf8_uuid split_beta)
qed

section \<open>Batches\<close>

lemma count_items:
  "br_total (fold (\<lambda>c. count_item (b c)) cs r) = br_total r"
  "br_succeeded (fold (\<lambda>c. count_item (b c)) cs r)
     = br_succeeded r + int (length (filter (\<lambda>c. bi_success (b c)) cs))"
  "br_failed (fold (\<lambda>c. count_item (b c)) cs r)
     = br_failed r + int (length (filter (\<lambda>c. \<not> bi_success (b c)) cs))"
  "br_results (fold (\<lambda>c. count_item (b c)) cs r) = br_results r @ map b cs"
  by (induction cs arbitrary: r) auto

text \<open>
  The report of a batch adds up: whatever the plugin answered, it lists every computer of
  the request once per mention and in the order of the request, its total is the length of
  that list, and the successes and failures it counts are those it lists and sum to the total.
\<close>

theorem batch_report_adds_up:
  "let r = batch_response answer cs in
     map bi_computerId (br_results r) = cs \<and> br_total r = int (length cs)
     \<and> br_succeeded r = int (length (filter bi_success (br_results r)))
     \<and> br_succeeded r + br_failed r = br_total r"
proof -
  have "bi_computerId (batch_item answer c) = c" for c by (simp add: batch_item_def Let_def)
  then have "map (bi_computerId \<circ> batch_item answer) cs = cs" by (simp add: comp_def)
  then show ?thesis
    using sum_length_filter_compl [of "\<lambda>c. bi_success (batch_item answer c)" cs]
    by (simp add: batch_response_def count_items Let_def filter_map comp_def flip: of_nat_add)
qed

text \<open>
  One request for every computer of a batch, each meeting what the environment answers to the
  batch's call for that computer.
\<close>

fun single_controls ::
  "nat \<Rightarrow> feature_env \<Rightarrow> http_request list \<Rightarrow> http_response \<Rightarrow> feature_state \<Rightarrow> http_response list \<times> feature_state" where
  "single_controls k env [] res s = ([], s)"
| "single_controls k env (req # reqs) res s =
     (let (r, s1) = handleControl (env\<lparr>fx_control := (\<lambda>_. fx_control env k)\<rparr>) req res s;
          (rs, s2) = single_controls (Suc k) env reqs res s1
      in (r # rs, s2))"

definition asks_for :: "feature_env \<Rightarrow> string \<Rightarrow> bool \<Rightarrow> (string \<times> string) list \<Rightarrow> string \<Rightarrow> http_request \<Rightarrow> bool" where
  "asks_for env f active params c req \<longleftrightarrow>
     (\<exists>p. rq_matches req = [p, c, f])
     \<and> Option.bind (fx_parse env (rq_body req)) feature_control_request_from_json = Some (active, params)"

lemma handleControl_asked:
  assumes "asks_for env f active params c req" and "fx_loaded env"
  shows "handleControl (env\<lparr>fx_control := e\<rparr>) req res s =
     (let (r, s') = controlFeature (e 0) c f (if active then StartFeature else StopFeature) params s
      in (case r of Inl x \<Rightarrow> sendError (http_status_for (err_code x))
                               (tr (fx_i18n env) (getLocale (fx_stod env) (fx_i18n env) req)
                                  ''error.feature_control_failed'') (err_msg x) res
                  | Inr _ \<Rightarrow> json_answer 200 (JObject [(''success'', JBool True)]) res, s'))"
  using assms by (auto simp: handleControl_def asks_for_def Let_def split_beta split: sum.split prod.split)

lemma controlFeature_failure:
  "fst (controlFeature env c f op params s) = Inl e \<Longrightarrow> err_code e = InternalError"
  by (auto simp: controlFeature_def fail_def ok_def split: option.splits)

lemma batch_from_singles:
  assumes "list_all2 (asks_for env f (op = StartFeature) params) cs reqs"
    and "fx_loaded env" and "op \<noteq> InitializeFeature"
  shows "snd (controlFeatureBatch_from k (fx_control env) cs f op params s) = snd (single_controls k env reqs res s)
    \<and> fst (controlFeatureBatch_from k (fx_control env) cs f op params s)
        = map fst (filter (\<lambda>(c, r). rs_status r = 200) (zip cs (fst (single_controls k env reqs res s))))"
  using assms(1)
proof (induction cs reqs arbitrary: k s rule: list_all2_induct)
  case Nil
  then show ?case by simp
next
  case (Cons c cs req reqs)
  have op: "(if op = StartFeature then StartFeature else StopFeature) = op" using assms(3) by (cases op) auto
  obtain r s1 where c: "controlFeature (fx_control env k) c f op params s = (r, s1)" by force
  have "handleControl (env\<lparr>fx_control := (\<lambda>_. fx_control env k)\<rparr>) req res s =
     (case r of Inl x \<Rightarrow> sendError (http_status_for (err_code x))
                               (tr (fx_i18n env) (getLocale (fx_stod env) (fx_i18n env) req)
                                  ''error.feature_control_failed'') (err_msg x) res
                  | Inr _ \<Rightarrow> json_answer 200 (JObject [(''success'', JBool True)]) res, s1)"
    by (simp add: handleControl_asked [OF Cons.hyps(1) assms(2)] op c)
  moreover have "http_status_for (err_code x) \<noteq> 200" if "r = Inl x" for x
    using controlFeature_failure [of "fx_control env k" c f op params s x] c that
    by (simp add: http_status_for_def)
  ultimately show ?case
    using Cons.IH [of "Suc k" s1] by (auto simp: c split_beta is_ok_def split: sum.split)
qed

text \<open>
  C29: A batch is the same as one request after the other: a valid batch leaves the plugin, the
  agents and their queues exactly as the single requests for its computers would, sent in the
  order of the list, and reports as succeeded the computers whose single request would have
  been answered 200.
\<close>

theorem batch_is_single_requests:
  assumes parsed: "Option.bind (fx_parse env (rq_body req)) batch_feature_request_from_json = Some b"
    and valid: "bq_computerIds b \<noteq> []" "bq_featureUid b \<noteq> []" "batch_operation (bq_operation b) = Some op"
    and loaded: "fx_loaded env"
    and singles: "list_all2 (asks_for env (bq_featureUid b) (op = StartFeature) (bq_arguments b)) (bq_computerIds b) reqs"
  shows "handleBatchFeature env req res s =
     (let (rs, s') = single_controls 0 env reqs res s
      in (json_answer 200 (batch_response_json (batch_response
            (Inr (map fst (filter (\<lambda>(c, r). rs_status r = 200) (zip (bq_computerIds b) rs)))) (bq_computerIds b))) res,
          s'))"
proof -
  have "op \<noteq> InitializeFeature" using valid(3) by (auto simp: batch_operation_def split: if_splits)
  from batch_from_singles [OF singles loaded this, of 0 s res] show ?thesis
    using parsed valid loaded by (simp add: handleBatchFeature_def Let_def controlFeatureBatch_def split_beta ok_def)
qed

definition lock_request :: "string \<Rightarrow> http_request" where
  "lock_request c = agent_path [[], c, kFeatureLockScreen]"

definition batch_request :: http_request where
  "batch_request = (agent_path [])\<lparr>rq_body := ''batch''\<rparr>"

theorem batch_is_single_requests_witness:
  "snd (handleBatchFeature (sample_feature_env [''a'', ''zz'']) batch_request fresh_response
       \<lparr>ft_active = Map.empty, ft_agents = Some online_registry\<rparr>)
   = snd (single_controls 0 (sample_feature_env [''a'', ''zz'']) [lock_request ''a'', lock_request ''zz'']
       fresh_response \<lparr>ft_active = Map.empty, ft_agents = Some online_registry\<rparr>)"
proof -
  let ?env = "sample_feature_env [''a'', ''zz'']"
  have parsed: "Option.bind (fx_parse ?env (rq_body batch_request)) batch_feature_request_from_json
      = Some \<lparr>bq_computerIds = [''a'', ''zz''], bq_featureUid = kFeatureLockScreen, bq_operation = ''start'',
          bq_arguments = []\<rparr>"
    by (simp add: sample_feature_env_def batch_request_def batch_feature_request_from_json_def json_at_def
        json_at_string_def json_get_string_def json_get_strings_def json_get_string_map_def)
  have "rq_body (agent_path ps) = []" "rq_matches (agent_path ps) = ps" for ps by (simp_all add: agent_path_def)
  then have "asks_for ?env kFeatureLockScreen True [] c (lock_request c)" for c
    by (simp add: asks_for_def lock_request_def sample_control_parses)
  then have singles: "list_all2 (asks_for ?env kFeatureLockScreen (StartFeature = StartFeature) [])
      [''a'', ''zz''] [lock_request ''a'', lock_request ''zz'']"
    by simp
  have l: "fx_loaded ?env" by (simp add: sample_feature_env_def)
  show ?thesis
    using batch_is_single_requests [OF parsed, of StartFeature "[lock_request ''a'', lock_request ''zz'']"] l singles
    by (simp add: split_beta kFeatureLockScreen_def batch_operation_def)
qed

section \<open>Computers that nobody knows\<close>

text \<open>
  Success is reported for computers that do not exist: as long as no agent of that name is
  online, starting a feature is answered 200 for every identifier there is, no agent is told
  anything, and from then on the feature is shown as active there.
\<close>

theorem unknown_computer_switched_on:
  assumes "rq_matches req = [p, c, f]"
    and "Option.bind (fx_parse env (rq_body req)) feature_control_request_from_json = Some (True, params)"
    and "fx_loaded env" and "live_agent c StartFeature s = None"
  shows "\<exists>s'. handleControl env req res s = (json_answer 200 (JObject [(''success'', JBool True)]) res, s')
    \<and> ft_agents s' = ft_agents s \<and> isFeatureActive c f s' = Inr True"
  using assms
  by (auto simp: handleControl_def Let_def controlFeature_def ok_def isFeatureActive_def track_def insert_active_def)

theorem unknown_computer_switched_on_witness:
  "\<exists>s'. handleControl (sample_feature_env []) (lock_request ''no-such-machine'') fresh_response
       \<lparr>ft_active = Map.empty, ft_agents = Some online_registry\<rparr>
     = (json_answer 200 (JObject [(''success'', JBool True)]) fresh_response, s')
   \<and> ft_agents s' = Some online_registry \<and> isFeatureActive ''no-such-machine'' kFeatureLockScreen s' = Inr True"
proof -
  have "m_agents online_registry ''no-such-machine'' = None"
    by (simp add: online_registry_def registerAgent_def sample_agent_def empty_registry_def Let_def)
  then have live: "live_agent ''no-such-machine'' StartFeature \<lparr>ft_active = Map.empty, ft_agents = Some online_registry\<rparr>
      = None"
    by (simp add: live_agent_def findAgent_def fail_def)
  have m: "rq_matches (lock_request c) = [[], c, kFeatureLockScreen]" "rq_body (lock_request c) = []" for c
    by (simp_all add: lock_request_def agent_path_def)
  have l: "fx_loaded (sample_feature_env [])" by (simp add: sample_feature_env_def)
  show ?thesis
    using unknown_computer_switched_on [OF m(1) _ l live] by (simp add: m sample_control_parses)
qed

end
