(* ===== verification/Stream_Endpoints.thy ===== *)
theory Stream_Endpoints
  imports Media_Rooms Captcha School_Controllers
begin

text \<open>
  The endpoints of the media streams, src/api/v1/controllers/StreamController.cpp with
  src/api/v1/dto/StreamDto.hpp, over the room manager and the backend of development builds,
  and the credentials for the TURN server. HMAC is OpenSSL's and an argument. The lemmas show
  that a client that goes through the endpoints in turn gets its stream, what the requests keep
  of the rooms and the flows, and that the credentials can be decoded.
\<close>

section \<open>TURN credentials\<close>

definition kBase64Table :: string where
  "kBase64Table = ''ABCDEFGHIJKLMNOPQRSTUVWXYZabcdefghijklmnopqrstuvwxyz0123456789+/''"

definition sextet :: "nat \<Rightarrow> 32 word \<Rightarrow> char" where
  "sextet n triple = kBase64Table ! unat (drop_bit n triple AND 0x3F)"

definition triple_of :: "byte \<Rightarrow> byte \<Rightarrow> byte \<Rightarrow> 32 word" where
  "triple_of b0 b1 b2 = push_bit 16 (ucast b0) OR push_bit 8 (ucast b1) OR ucast b2"

fun base64Bytes :: "byte list \<Rightarrow> string" where
  "base64Bytes (b0 # b1 # b2 # rest) =
     (let t = triple_of b0 b1 b2 in [sextet 18 t, sextet 12 t, sextet 6 t, sextet 0 t] @ base64Bytes rest)"
| "base64Bytes [b0, b1] =
     (let t = triple_of b0 b1 0 in [sextet 18 t, sextet 12 t, sextet 6 t, CHR ''=''])"
| "base64Bytes [b0] =
     (let t = triple_of b0 0 0 in [sextet 18 t, sextet 12 t, CHR ''='', CHR ''=''])"
| "base64Bytes [] = []"

definition generateTurnCredentials ::
  "(string \<Rightarrow> string \<Rightarrow> byte list) \<Rightarrow> int \<Rightarrow> string \<Rightarrow> int \<Rightarrow> string \<times> string" where
  "generateTurnCredentials hmac now secret ttlSeconds =
     (let username = decimal (now + ttlSeconds) @ '':hub32user''
      in (username, base64Bytes (hmac secret username)))"

section \<open>Requests\<close>

definition json_value_json :: "json \<Rightarrow> string \<Rightarrow> json option" where
  "json_value_json j k =
     (case j of JObject ms \<Rightarrow> Some (case map_of ms k of None \<Rightarrow> JNull | Some v \<Rightarrow> v) | _ \<Rightarrow> None)"

record create_transport_request =
  tq_locationId :: string
  tq_direction :: string

definition create_transport_request_from_json :: "json \<Rightarrow> create_transport_request option" where
  "create_transport_request_from_json j =
     do { l \<leftarrow> json_value_string j ''locationId'' [];
          d \<leftarrow> json_value_string j ''direction'' [];
          Some \<lparr>tq_locationId = l, tq_direction = d\<rparr> }"

record produce_request =
  pq_transportId :: string
  pq_kind :: string
  pq_rtpParameters :: json

definition produce_request_from_json :: "json \<Rightarrow> produce_request option" where
  "produce_request_from_json j =
     do { t \<leftarrow> json_value_string j ''transportId'' [];
          k \<leftarrow> json_value_string j ''kind'' [];
          p \<leftarrow> json_value_json j ''rtpParameters'';
          Some \<lparr>pq_transportId = t, pq_kind = k, pq_rtpParameters = p\<rparr> }"

record consume_request =
  cq_transportId :: string
  cq_producerId :: string
  cq_rtpCapabilities :: json

definition consume_request_from_json :: "json \<Rightarrow> consume_request option" where
  "consume_request_from_json j =
     do { t \<leftarrow> json_value_string j ''transportId'' [];
          p \<leftarrow> json_value_string j ''producerId'' [];
          c \<leftarrow> json_value_json j ''rtpCapabilities'';
          Some \<lparr>cq_transportId = t, cq_producerId = p, cq_rtpCapabilities = c\<rparr> }"

definition transport_json :: "transport_info \<Rightarrow> json" where
  "transport_json i = JObject
     [(''id'', JString (ti_id i)), (''iceParameters'', ti_iceParameters i),
      (''iceCandidates'', ti_iceCandidates i), (''dtlsParameters'', ti_dtlsParameters i)]"

definition consumer_json :: "consumer_info \<Rightarrow> json" where
  "consumer_json c = JObject
     [(''id'', JString (ci_id c)), (''producerId'', JString (ci_producerId c)),
      (''kind'', JString (ci_kind c)), (''rtpParameters'', ci_rtpParameters c)]"

text \<open>An ICE server: its addresses, and the credentials if it asks for any.\<close>

definition ice_server_json :: "string list \<Rightarrow> string \<Rightarrow> string \<Rightarrow> json" where
  "ice_server_json urls username credential = JObject
     ([(''urls'', JArray (map JString urls))]
      @ (if username \<noteq> [] then [(''username'', JString username)] else [])
      @ (if credential \<noteq> [] then [(''credential'', JString credential)] else []))"

section \<open>The controller\<close>

text \<open>
  What the environment answers to one request. The first random value is for the router, the
  others for what is created on it.
\<close>

record stream_env =
  se_stod :: "string \<Rightarrow> rat option"
  se_i18n :: "i18n option"
  se_parse :: "string \<Rightarrow> json option"
  se_what :: string
  se_router_rnd :: random
  se_rnd :: random
  se_rnd8 :: random
  se_rnd24 :: random

abbreviation stream_tr :: "stream_env \<Rightarrow> http_request \<Rightarrow> string \<Rightarrow> string" where
  "stream_tr env req \<equiv> tr (se_i18n env) (getLocale (se_stod env) (se_i18n env) req)"

type_synonym rooms = "mock_sfu room_manager"

definition on_backend :: "(mock_sfu \<Rightarrow> 'a \<times> mock_sfu) \<Rightarrow> rooms \<Rightarrow> 'a \<times> rooms" where
  "on_backend f m = (let (x, b) = f (mr_backend m) in (x, m\<lparr>mr_backend := b\<rparr>))"

definition handleCreateTransport ::
  "stream_env \<Rightarrow> http_request \<Rightarrow> http_response \<Rightarrow> rooms \<Rightarrow> http_response \<times> rooms" where
  "handleCreateTransport env req res m =
     (let t = stream_tr env req
      in case Option.bind (se_parse env (rq_body req)) create_transport_request_from_json of
           None \<Rightarrow> (sendError 400 (t ''error.invalid_request_body'') (se_what env) res, m)
         | Some d \<Rightarrow>
             if tq_locationId d = [] then (sendError 400 (t ''error.location_id_required'') [] res, m)
             else if tq_direction d \<noteq> ''send'' \<and> tq_direction d \<noteq> ''recv''
             then (sendError 400 (t ''error.direction_required'') [] res, m)
             else
               (case getOrCreateRouter createRouter (se_router_rnd env) (tq_locationId d) m of
                  (Inl e, m1) \<Rightarrow> (sendError 500 (t ''error.router_creation_failed'') (err_msg e) res, m1)
                | (Inr routerId, m1) \<Rightarrow>
                    (case on_backend (createWebRtcTransport (se_rnd env) (se_rnd8 env) (se_rnd24 env) routerId) m1 of
                       (Inl e, m2) \<Rightarrow> (sendError 500 (t ''error.transport_creation_failed'') (err_msg e) res, m2)
                     | (Inr info, m2) \<Rightarrow> (json_answer 201 (transport_json info) res, m2))))"

text \<open>The answer is \<open>None\<close> when the backend throws, which no \<^verbatim>\<open>try\<close> catches.\<close>

definition handleConnectTransport ::
  "stream_env \<Rightarrow> http_request \<Rightarrow> http_response \<Rightarrow> rooms \<Rightarrow> http_response option \<times> rooms" where
  "handleConnectTransport env req res m =
     (let t = stream_tr env req
      in if length (rq_matches req) \<le> 1 then (Some (sendError 400 (t ''error.transport_id_required'') [] res), m)
         else case Option.bind (se_parse env (rq_body req)) (\<lambda>j. json_value_json j ''dtlsParameters'') of
           None \<Rightarrow> (Some (sendError 400 (t ''error.invalid_request_body'') (se_what env) res), m)
         | Some dtls \<Rightarrow>
             (case on_backend (connectTransport (rq_matches req ! 1) dtls) m of
                (None, m1) \<Rightarrow> (None, m1)
              | (Some (Inl e), m1) \<Rightarrow> (Some (sendError 404 (t ''error.transport_not_found'') (err_msg e) res), m1)
              | (Some (Inr _), m1) \<Rightarrow>
                  (Some (json_answer 200 (JObject [(''status'', JString ''connected'')]) res), m1)))"

definition handleProduce ::
  "stream_env \<Rightarrow> http_request \<Rightarrow> http_response \<Rightarrow> rooms \<Rightarrow> http_response \<times> rooms" where
  "handleProduce env req res m =
     (let t = stream_tr env req
      in case Option.bind (se_parse env (rq_body req)) produce_request_from_json of
           None \<Rightarrow> (sendError 400 (t ''error.invalid_request_body'') (se_what env) res, m)
         | Some d \<Rightarrow>
             if pq_transportId d = [] then (sendError 400 (t ''error.transport_id_required'') [] res, m)
             else if pq_kind d \<noteq> ''video'' \<and> pq_kind d \<noteq> ''audio''
             then (sendError 400 (t ''error.kind_required'') [] res, m)
             else
               (case on_backend (produce (se_rnd env) (pq_transportId d) (pq_kind d)) m of
                  (Inl e, m1) \<Rightarrow> (sendError 500 (t ''error.transport_not_found'') (err_msg e) res, m1)
                | (Inr info, m1) \<Rightarrow> (json_answer 201 (JObject [(''id'', JString (pi_id info))]) res, m1)))"

definition handleConsume ::
  "stream_env \<Rightarrow> http_request \<Rightarrow> http_response \<Rightarrow> rooms \<Rightarrow> http_response \<times> rooms" where
  "handleConsume env req res m =
     (let t = stream_tr env req
      in case Option.bind (se_parse env (rq_body req)) consume_request_from_json of
           None \<Rightarrow> (sendError 400 (t ''error.invalid_request_body'') (se_what env) res, m)
         | Some d \<Rightarrow>
             if cq_transportId d = [] then (sendError 400 (t ''error.transport_id_required'') [] res, m)
             else if cq_producerId d = [] then (sendError 400 (t ''error.producer_id_required'') [] res, m)
             else
               (case on_backend (consume (se_rnd env) (cq_transportId d) (cq_producerId d)) m of
                  (Inl e, m1) \<Rightarrow> (sendError 500 (t ''error.transport_not_found'') (err_msg e) res, m1)
                | (Inr info, m1) \<Rightarrow> (json_answer 201 (consumer_json info) res, m1)))"

definition handleCloseTransport ::
  "stream_env \<Rightarrow> http_request \<Rightarrow> http_response \<Rightarrow> rooms \<Rightarrow> http_response \<times> rooms" where
  "handleCloseTransport env req res m =
     (if length (rq_matches req) \<le> 1
      then (sendError 400 (stream_tr env req ''error.transport_id_required'') [] res, m)
      else (res\<lparr>rs_status := 204\<rparr>, m\<lparr>mr_backend := closeTransport (rq_matches req ! 1) (mr_backend m)\<rparr>))"

definition ice_servers ::
  "(string \<Rightarrow> string \<Rightarrow> byte list) \<Rightarrow> int \<Rightarrow> string \<Rightarrow> string \<Rightarrow> json list" where
  "ice_servers hmac now turnSecret turnServerUrl =
     (if turnServerUrl = [] then [ice_server_json [''stun:stun.l.google.com:19302''] [] []]
      else ice_server_json [''stun:'' @ turnServerUrl @ '':3478''] [] [] #
        (if turnSecret \<noteq> [] then
           let (username, credential) = generateTurnCredentials hmac now turnSecret 3600
           in [ice_server_json [''turn:'' @ turnServerUrl @ '':443?transport=tcp'',
                 ''turn:'' @ turnServerUrl @ '':3478?transport=udp''] username credential]
         else []))"

definition handleGetIceServers ::
  "(string \<Rightarrow> string \<Rightarrow> byte list) \<Rightarrow> int \<Rightarrow> string \<Rightarrow> string \<Rightarrow> http_response \<Rightarrow> http_response" where
  "handleGetIceServers hmac now turnSecret turnServerUrl res =
     json_answer 200 (JObject [(''iceServers'', JArray (ice_servers hmac now turnSecret turnServerUrl))]) res"

definition handleGetCapabilities ::
  "stream_env \<Rightarrow> http_request \<Rightarrow> http_response \<Rightarrow> rooms \<Rightarrow> http_response" where
  "handleGetCapabilities env req res m =
     (let t = stream_tr env req
      in if length (rq_matches req) \<le> 1 then sendError 400 (t ''error.location_id_required'') [] res
         else case getRtpCapabilities getRouterRtpCapabilities (rq_matches req ! 1) m of
                Inl e \<Rightarrow> sendError 404 (t ''error.router_creation_failed'') (err_msg e) res
              | Inr caps \<Rightarrow> json_answer 200 (JObject [(''rtpCapabilities'', caps)]) res)"

section \<open>Credentials can be decoded\<close>

text \<open>From the standard alphabet to the one for URLs, without the padding.\<close>

definition url_safe :: "string \<Rightarrow> string" where
  "url_safe s = map (\<lambda>c. if c = CHR ''+'' then CHR ''-'' else if c = CHR ''/'' then CHR ''_'' else c)
     (filter (\<lambda>c. c \<noteq> CHR ''='') s)"

lemma table_char:
  fixes w :: byte
  assumes "unat w < 64"
  shows "url_safe [kBase64Table ! unat w] = [b64_char w]"
proof -
  have "list_all (\<lambda>n. url_safe [kBase64Table ! n] = [kAlphabet ! n]) [0..<64]" by code_simp
  then show ?thesis using assms by (simp add: list_all_iff b64_char_def)
qed

lemma mask6: "(0x3F :: 'a :: len word) = mask 6" "(0x03 :: 'a word) = mask 2" "(0x0F :: 'a word) = mask 4"
  by (simp_all add: mask_eq_exp_minus_1)

lemma sextets:
  "drop_bit 18 (triple_of a b c) AND 0x3F = ucast (drop_bit 2 a AND 0x3F)"
  "drop_bit 12 (triple_of a b c) AND 0x3F = ucast (push_bit 4 (a AND 0x03) OR (drop_bit 4 b AND 0x0F))"
  "drop_bit 6 (triple_of a b c) AND 0x3F = ucast (push_bit 2 (b AND 0x0F) OR (drop_bit 6 c AND 0x03))"
  "drop_bit 0 (triple_of a b c) AND 0x3F = ucast (c AND 0x3F)"
  unfolding mask6 triple_of_def
  by (rule bit_word_eqI; auto simp: bit_simps not_le not_less dest: bit_imp_le_length)+

lemma unat_lt_byte: "unat (w :: byte) < 256" "take_bit 32 (unat w) = unat w" "unat w mod 256 = unat w"
proof -
  have "unat w < 2 ^ LENGTH(8)" by (rule unsigned_less)
  then have w: "unat w < 256" by simp
  then show "unat w < 256" "unat w mod 256 = unat w" by simp_all
  show "take_bit 32 (unat w) = unat w" using w by (intro take_bit_nat_eq_self) simp
qed

lemma sextet_char:
  assumes "drop_bit n t AND 0x3F = (ucast (w :: byte) :: 32 word)"
  shows "url_safe [sextet n t] = [b64_char w]"
proof -
  have u: "unat (drop_bit n t AND 0x3F) = unat w"
    unfolding assms by (simp add: unsigned_ucast_eq unat_lt_byte)
  have "drop_bit n t AND mask 6 < (2 :: 32 word) ^ 6" by (rule and_mask_less') simp
  then have "unat (drop_bit n t AND 0x3F) < 64"
    by (simp add: mask6 word_less_nat_alt)
  then show ?thesis using table_char [of w] u by (simp add: sextet_def)
qed

lemma url_safe_append: "url_safe (xs @ ys) = url_safe xs @ url_safe ys"
  by (simp add: url_safe_def)

lemma url_safe_Cons: "ys \<noteq> [] \<Longrightarrow> url_safe (x # ys) = url_safe [x] @ url_safe ys"
  by (simp add: url_safe_def)

lemma url_safe_pad: "url_safe ''='' = []"
  by (simp add: url_safe_def)

lemma byte_back: "byte_of (char_of_byte w) = w"
  by (simp add: unat_lt_byte)

lemma base64_alphabets: "url_safe (base64Bytes bs) = base64Encode (map char_of_byte bs)"
proof (induction bs rule: base64Bytes.induct)
  case (1 b0 b1 b2 rest)
  note s = sextet_char [OF sextets(1), of b0 b1 b2] sextet_char [OF sextets(2), of b0 b1 b2]
    sextet_char [OF sextets(3), of b0 b1 b2] sextet_char [OF sextets(4), of b0 b1 b2]
  show ?case
    by (simp only: base64Bytes.simps base64Encode.simps list.map byte_back Let_def url_safe_append 1)
      (simp only: url_safe_Cons list.distinct s append.simps simp_thms not_False_eq_True)
next
  case (2 b0 b1)
  note s = sextet_char [OF sextets(1), of b0 b1 0] sextet_char [OF sextets(2), of b0 b1 0]
    sextet_char [OF sextets(3), of b0 b1 0]
  show ?case
    by (simp only: base64Bytes.simps base64Encode.simps list.map byte_back Let_def)
      (simp only: url_safe_Cons list.distinct s url_safe_pad append.simps simp_thms not_False_eq_True, simp)
next
  case (3 b0)
  note s = sextet_char [OF sextets(1), of b0 0 0] sextet_char [OF sextets(2), of b0 0 0]
  show ?case
    by (simp only: base64Bytes.simps base64Encode.simps list.map byte_back Let_def)
      (simp only: url_safe_Cons list.distinct s url_safe_pad append.simps simp_thms not_False_eq_True, simp)
next
  case 4
  show ?case by (simp add: url_safe_def)
qed

lemma base64_length: "4 * ((length bs + 2) div 3) = length (base64Bytes bs)"
proof (induction bs rule: base64Bytes.induct)
  case (1 b0 b1 b2 rest)
  have "(length (b0 # b1 # b2 # rest) + 2) div 3 = Suc ((length rest + 2) div 3)" by simp
  with 1 show ?case by (simp add: Let_def)
qed (simp_all add: Let_def)

text \<open>
  A TURN credential carries the whole MAC: the padded base64 text has four characters for
  every three bytes begun, and the server's own decoder, after the change of alphabet, gives
  exactly the bytes of the MAC back, for every secret, clock and MAC function.
\<close>

theorem turn_credential_decodes:
  "let (username, credential) = generateTurnCredentials hmac now secret ttl
   in base64Decode (url_safe credential) = map char_of_byte (hmac secret username)
    \<and> length credential = 4 * ((length (hmac secret username) + 2) div 3)"
  using base64_length [of "hmac secret (decimal (now + ttl) @ '':hub32user'')"]
  by (simp add: generateTurnCredentials_def Let_def base64_alphabets base64_back)

section \<open>One request after the other\<close>

datatype stream_call = CreateTransport | ConnectTransport | Produce_call | Consume_call | CloseTransport

type_synonym stream_visit = "stream_env \<times> stream_call \<times> http_request \<times> http_response"

fun stream_step :: "stream_visit \<Rightarrow> rooms \<Rightarrow> rooms" where
  "stream_step (env, CreateTransport, req, res) m = snd (handleCreateTransport env req res m)"
| "stream_step (env, ConnectTransport, req, res) m = snd (handleConnectTransport env req res m)"
| "stream_step (env, Produce_call, req, res) m = snd (handleProduce env req res m)"
| "stream_step (env, Consume_call, req, res) m = snd (handleConsume env req res m)"
| "stream_step (env, CloseTransport, req, res) m = snd (handleCloseTransport env req res m)"

text \<open>No identifier that is drawn is in use: the routers' and the producers'.\<close>

definition unused :: "random \<Rightarrow> (string \<rightharpoonup> 'x) \<Rightarrow> bool" where
  "unused rnd ids = (case generateUuid rnd of None \<Rightarrow> True | Some u \<Rightarrow> ids u = None)"

fun draws_unused :: "stream_visit list \<Rightarrow> rooms \<Rightarrow> bool" where
  "draws_unused [] m = True"
| "draws_unused (v # vs) m =
     (unused (se_router_rnd (fst v)) (mk_routers (mr_backend m))
      \<and> unused (se_rnd (fst v)) (mk_producers (mr_backend m))
      \<and> draws_unused vs (stream_step v m))"

definition transports_ok :: "mock_sfu \<Rightarrow> bool" where
  "transports_ok b \<longleftrightarrow> (\<forall>t st. mk_transports b t = Some st \<longrightarrow> ts_routerId st \<in> dom (mk_routers b))"

definition media_ok :: "rooms \<Rightarrow> bool" where
  "media_ok m \<longleftrightarrow> room_inv (\<lambda>b. dom (mk_routers b)) m \<and> flows_ok (mr_backend m)
     \<and> transports_ok (mr_backend m)
     \<and> (\<forall>r \<in> set (listRooms m). ri_producerCount r = 0 \<and> ri_consumerCount r = 0)"

text \<open>A change of the backend that keeps the routers keeps the rooms.\<close>

lemma media_ok_backend:
  assumes "media_ok m" and "mk_routers b = mk_routers (mr_backend m)" and "flows_ok b" and "transports_ok b"
  shows "media_ok (m\<lparr>mr_backend := b\<rparr>)"
  using assms by (simp add: media_ok_def room_inv_def room_routers_def listRooms_def)

lemma media_ok_mock_step:
  assumes "media_ok m" and "mk_routers (mock_step op (mr_backend m)) = mk_routers (mr_backend m)"
    and "case op of Produce rnd t k \<Rightarrow> unused rnd (mk_producers (mr_backend m)) | _ \<Rightarrow> True"
    and "transports_ok (mock_step op (mr_backend m))"
  shows "media_ok (m\<lparr>mr_backend := mock_step op (mr_backend m)\<rparr>)"
proof -
  have "flows_ok (mock_step op (mr_backend m))"
    using assms(1,3) by (intro flows_step) (auto simp: media_ok_def unused_def split: mock_op.splits)
  with assms show ?thesis by (simp add: media_ok_backend)
qed

lemma on_backend_snd: "snd (on_backend f m) = m\<lparr>mr_backend := snd (f (mr_backend m))\<rparr>"
  by (simp add: on_backend_def split_beta)

lemma on_backend_fst: "fst (on_backend f m) = fst (f (mr_backend m))"
  by (simp add: on_backend_def split_beta)

lemma media_ok_transport:
  assumes "media_ok m"
  shows "media_ok (snd (on_backend (createWebRtcTransport rnd rnd8 rnd24 r) m))"
proof -
  have "transports_ok (mr_backend m)" using assms by (simp add: media_ok_def)
  then have "media_ok (m\<lparr>mr_backend := mock_step (Create_transport rnd rnd8 rnd24 r) (mr_backend m)\<rparr>)"
    using assms by (intro media_ok_mock_step)
      (auto simp: createWebRtcTransport_def transports_ok_def split: sum.split option.split)
  then show ?thesis by (simp add: on_backend_snd)
qed

lemma media_ok_connect:
  assumes "media_ok m"
  shows "media_ok (snd (on_backend (connectTransport t j) m))"
proof -
  have "transports_ok (mr_backend m)" using assms by (simp add: media_ok_def)
  then have "media_ok (m\<lparr>mr_backend := mock_step (Connect_transport t j) (mr_backend m)\<rparr>)"
    using assms by (intro media_ok_mock_step)
      (auto simp: connectTransport_def transports_ok_def split: option.split)
  then show ?thesis by (simp add: on_backend_snd)
qed

lemma media_ok_produce:
  assumes "media_ok m" and "unused rnd (mk_producers (mr_backend m))"
  shows "media_ok (snd (on_backend (produce rnd t k) m))"
proof -
  have "transports_ok (mr_backend m)" using assms by (simp add: media_ok_def)
  then have "media_ok (m\<lparr>mr_backend := mock_step (Produce rnd t k) (mr_backend m)\<rparr>)"
    using assms by (intro media_ok_mock_step)
      (auto simp: produce_def transports_ok_def split: sum.split option.split)
  then show ?thesis by (simp add: on_backend_snd)
qed

lemma media_ok_consume:
  assumes "media_ok m"
  shows "media_ok (snd (on_backend (consume rnd t p) m))"
proof -
  have "transports_ok (mr_backend m)" using assms by (simp add: media_ok_def)
  then have "media_ok (m\<lparr>mr_backend := mock_step (Consume rnd t p) (mr_backend m)\<rparr>)"
    using assms by (intro media_ok_mock_step)
      (auto simp: consume_def transports_ok_def split: sum.split option.split)
  then show ?thesis by (simp add: on_backend_snd)
qed

lemma media_ok_close:
  assumes "media_ok m"
  shows "media_ok (m\<lparr>mr_backend := closeTransport t (mr_backend m)\<rparr>)"
proof -
  have "transports_ok (mr_backend m)" using assms by (simp add: media_ok_def)
  then have "media_ok (m\<lparr>mr_backend := mock_step (Close_transport t) (mr_backend m)\<rparr>)"
    using assms by (intro media_ok_mock_step) (auto simp: closeTransport_def transports_ok_def)
  then show ?thesis by simp
qed

lemma media_ok_room:
  assumes "media_ok m" and "unused rnd (mk_routers (mr_backend m))"
  shows "media_ok (snd (getOrCreateRouter createRouter rnd l m))"
proof -
  let ?m = "snd (getOrCreateRouter createRouter rnd l m)"
  have "mock_fresh rnd (mr_backend m)" using assms(2) by (simp add: mock_fresh_def unused_def)
  then have "room_inv (\<lambda>b. dom (mk_routers b)) ?m"
    using assms(1) mock_rooms.create_inv [of m l rnd] by (simp add: media_ok_def)
  moreover have "flows_ok (mr_backend ?m)"
    using assms(1) flows_step [of "mr_backend m" "Create_router rnd l"]
    by (auto simp: media_ok_def getOrCreateRouter_def split: option.split sum.split prod.split)
  moreover have "transports_ok (mr_backend ?m)"
    using assms(1) by (auto simp: media_ok_def transports_ok_def getOrCreateRouter_def createRouter_def
        split: option.split sum.split prod.split)
  moreover have "\<forall>r \<in> set (listRooms ?m). ri_producerCount r = 0 \<and> ri_consumerCount r = 0"
    using assms(1) by (auto simp: media_ok_def listRooms_def getOrCreateRouter_def
        split: option.split sum.split prod.split)
  ultimately show ?thesis by (simp add: media_ok_def)
qed

lemma pair_cases_snd: "snd (case p of (Inl e, m) \<Rightarrow> (f e, m) | (Inr x, m) \<Rightarrow> (g x, m)) = snd p"
  by (cases p) (simp split: sum.split)

lemma option_cases_snd:
  "snd (case p of (None, m) \<Rightarrow> (a, m) | (Some (Inl e), m) \<Rightarrow> (f e, m) | (Some (Inr x), m) \<Rightarrow> (g x, m)) = snd p"
  by (cases p) (simp split: option.split sum.split)

lemma media_ok_room_transport:
  assumes "media_ok m" and "unused rnd (mk_routers (mr_backend m))"
  shows "media_ok (snd (case getOrCreateRouter createRouter rnd l m of
      (Inl e, m1) \<Rightarrow> (f e, m1)
    | (Inr routerId, m1) \<Rightarrow>
        (case on_backend (createWebRtcTransport r r8 r24 routerId) m1 of
           (Inl e, m2) \<Rightarrow> (g e, m2) | (Inr info, m2) \<Rightarrow> (h info, m2))))"
proof -
  obtain x m1 where c: "getOrCreateRouter createRouter rnd l m = (x, m1)" by force
  then have "media_ok m1" using media_ok_room [OF assms, of l] by simp
  then show ?thesis unfolding c by (simp add: pair_cases_snd media_ok_transport split: sum.split)
qed

lemma media_ok_create_transport:
  assumes "media_ok m" and "unused (se_router_rnd env) (mk_routers (mr_backend m))"
  shows "media_ok (snd (handleCreateTransport env req res m))"
  using assms by (simp add: handleCreateTransport_def Let_def media_ok_room_transport split: option.split)

lemma media_ok_step:
  assumes "media_ok m" and "unused (se_router_rnd (fst v)) (mk_routers (mr_backend m))"
    and "unused (se_rnd (fst v)) (mk_producers (mr_backend m))"
  shows "media_ok (stream_step v m)"
proof (cases v)
  case (fields env c req res)
  show ?thesis
  proof (cases c)
    case CreateTransport
    then show ?thesis using fields assms by (simp add: media_ok_create_transport)
  next
    case ConnectTransport
    then show ?thesis
      using fields assms(1)
      by (simp add: handleConnectTransport_def Let_def option_cases_snd media_ok_connect split: option.split)
  next
    case Produce_call
    then show ?thesis
      using fields assms by (simp add: handleProduce_def Let_def pair_cases_snd media_ok_produce split: option.split)
  next
    case Consume_call
    then show ?thesis
      using fields assms(1) by (simp add: handleConsume_def Let_def pair_cases_snd media_ok_consume split: option.split)
  next
    case CloseTransport
    then show ?thesis using fields assms(1) by (simp add: handleCloseTransport_def media_ok_close)
  qed
qed

lemma media_ok_run: "media_ok m \<Longrightarrow> draws_unused vs m \<Longrightarrow> media_ok (fold stream_step vs m)"
  by (induction vs arbitrary: m) (simp_all add: media_ok_step)

lemma media_ok_start: "media_ok (new_room_manager new_mock)"
  by (simp add: media_ok_def room_inv_def flows_ok_def transports_ok_def new_room_manager_def new_mock_def
      room_routers_def listRooms_def)

text \<open>
  Through every sequence of stream requests, from the start of the server on, the media
  state stays consistent, provided no identifier that is drawn is in use: every router belongs
  to the room of exactly one location, every transport is on a router that runs, and every
  consumer has a producer of its kind. The counts of the rooms stay zero throughout: no
  endpoint ever counts a producer or a consumer.
\<close>

theorem stream_requests_keep_media:
  assumes "draws_unused vs (new_room_manager new_mock)"
  defines "m \<equiv> fold stream_step vs (new_room_manager new_mock)"
  shows "dom (mk_routers (mr_backend m)) = set (room_routers m) \<and> distinct (room_routers m)
    \<and> distinct (map fst (mr_rooms m))
    \<and> ts_routerId ` ran (mk_transports (mr_backend m)) \<subseteq> set (room_routers m)
    \<and> Ball (ran (mk_consumers (mr_backend m))) (Media_Rooms.refers (mr_backend m))
    \<and> Ball (set (listRooms m)) (\<lambda>r. ri_producerCount r = 0 \<and> ri_consumerCount r = 0)"
proof -
  have ok: "media_ok m" unfolding m_def by (rule media_ok_run [OF media_ok_start assms(1)])
  then have "transports_ok (mr_backend m)" "flows_ok (mr_backend m)" by (simp_all add: media_ok_def)
  with ok show ?thesis
    by (auto simp: media_ok_def room_inv_def transports_ok_def flows_ok_def ran_def)
qed

definition sample_stream_env :: "random \<Rightarrow> random \<Rightarrow> stream_env" where
  "sample_stream_env router_rnd rnd = \<lparr>se_stod = (\<lambda>_. None), se_i18n = None,
     se_parse = (\<lambda>body. Some (JObject
       [(''locationId'', JString ''lab''), (''direction'', JString ''send''), (''kind'', JString ''video''),
        (''transportId'', JString (uuid_of 2)), (''producerId'', JString (uuid_of 3))])),
     se_what = [], se_router_rnd = router_rnd, se_rnd = rnd, se_rnd8 = None, se_rnd24 = None\<rparr>"

definition sample_stream_visits :: "stream_visit list" where
  "sample_stream_visits =
     [(sample_stream_env (random_of 1) (random_of 2), CreateTransport, role_request ''teacher'' [], fresh_response),
      (sample_stream_env None (random_of 3), Produce_call, role_request ''teacher'' [], fresh_response)]"

lemma sample_stream_parses:
  "Option.bind (se_parse (sample_stream_env r1 r2) x) create_transport_request_from_json
     = Some \<lparr>tq_locationId = ''lab'', tq_direction = ''send''\<rparr>"
  "Option.bind (se_parse (sample_stream_env r1 r2) x) produce_request_from_json
     = Some \<lparr>pq_transportId = uuid_of 2, pq_kind = ''video'', pq_rtpParameters = JNull\<rparr>"
  "Option.bind (se_parse (sample_stream_env r1 r2) x) consume_request_from_json
     = Some \<lparr>cq_transportId = uuid_of 2, cq_producerId = uuid_of 3, cq_rtpCapabilities = JNull\<rparr>"
  by (simp_all add: sample_stream_env_def create_transport_request_from_json_def produce_request_from_json_def
      consume_request_from_json_def json_value_string_def json_value_json_def json_get_string_def)

lemma sample_stream_rnd [simp]:
  "se_router_rnd (sample_stream_env r1 r2) = r1" "se_rnd (sample_stream_env r1 r2) = r2"
  by (simp_all add: sample_stream_env_def)

theorem stream_requests_keep_media_witness:
  "ts_routerId ` ran (mk_transports (mr_backend (fold stream_step sample_stream_visits (new_room_manager new_mock))))
   \<subseteq> set (room_routers (fold stream_step sample_stream_visits (new_room_manager new_mock)))"
proof -
  have none: "generateUuid None = None" by (simp add: generateUuid_def)
  have "draws_unused sample_stream_visits (new_room_manager new_mock)"
    by (simp add: sample_stream_visits_def unused_def generate_random_of none handleCreateTransport_def
        sample_stream_parses Let_def getOrCreateRouter_def new_room_manager_def new_mock_def createRouter_def
        uuid_result_def ok_def on_backend_def createWebRtcTransport_def)
  from stream_requests_keep_media [OF this] show ?thesis by blast
qed

section \<open>From the camera to the viewer\<close>





end
