(* ===== verification/Plugin_Registry.thy ===== *)
theory Plugin_Registry
  imports Connection_Pool I18n_Catalog School_Controllers
begin

text \<open>
  The registry of the plugins, src/core/PluginRegistry.cpp, the counters of
  src/plugins/metrics/MetricsPlugin.cpp and the endpoints that report on both,
  src/api/v2/controllers/MetricsController.cpp. A plugin is known by its address; the typed
  pointers of the registry are such addresses. The lemmas show when a typed pointer can be
  followed, that it cannot after an identifier was registered twice, and what the counters
  count.
\<close>

section \<open>The registry\<close>

text \<open>
  \<open>pl_address\<close> tells objects apart; \<open>pl_computer\<close>, \<open>pl_feature\<close> and \<open>pl_session\<close> say which
  of the interfaces the object implements, \<open>pl_initializes\<close> what its \<^verbatim>\<open>initialize\<close> answers.
\<close>

record plugin =
  pl_address :: nat
  pl_uid :: string
  pl_computer :: bool
  pl_feature :: bool
  pl_session :: bool
  pl_initializes :: bool

record plugin_registry =
  pr_plugins :: "string \<rightharpoonup> plugin"
  pr_computerPlugin :: "nat option"
  pr_featurePlugin :: "nat option"
  pr_sessionPlugin :: "nat option"

definition empty_plugins :: plugin_registry where
  "empty_plugins = \<lparr>pr_plugins = Map.empty, pr_computerPlugin = None, pr_featurePlugin = None,
     pr_sessionPlugin = None\<rparr>"

definition registerPlugin :: "plugin \<Rightarrow> plugin_registry \<Rightarrow> plugin_registry" where
  "registerPlugin p r =
     \<lparr>pr_plugins = (pr_plugins r)(pl_uid p \<mapsto> p),
      pr_computerPlugin = (if pl_computer p then Some (pl_address p) else pr_computerPlugin r),
      pr_featurePlugin = (if pl_feature p then Some (pl_address p) else pr_featurePlugin r),
      pr_sessionPlugin = (if pl_session p then Some (pl_address p) else pr_sessionPlugin r)\<rparr>"

text \<open>
  A plugin that fails is erased. A cast that fails gives the null pointer, which equals a
  typed pointer that is null already.
\<close>

definition clear_pointer :: "bool \<Rightarrow> plugin \<Rightarrow> nat option \<Rightarrow> nat option" where
  "clear_pointer implements p ptr = (if (if implements then Some (pl_address p) else None) = ptr then None else ptr)"

definition initialize_one :: "string \<Rightarrow> plugin_registry \<Rightarrow> plugin_registry" where
  "initialize_one u r =
     (case pr_plugins r u of
        None \<Rightarrow> r
      | Some p \<Rightarrow>
          if pl_initializes p then r
          else \<lparr>pr_plugins = (pr_plugins r)(u := None),
                pr_computerPlugin = clear_pointer (pl_computer p) p (pr_computerPlugin r),
                pr_featurePlugin = clear_pointer (pl_feature p) p (pr_featurePlugin r),
                pr_sessionPlugin = clear_pointer (pl_session p) p (pr_sessionPlugin r)\<rparr>)"

text \<open>\<open>it\<close> is the order in which the hash map is walked.\<close>

definition initializeAll :: "((string \<rightharpoonup> plugin) \<Rightarrow> string list) \<Rightarrow> plugin_registry \<Rightarrow> plugin_registry" where
  "initializeAll it r = fold initialize_one (it (pr_plugins r)) r"

definition find_plugin :: "string \<Rightarrow> plugin_registry \<Rightarrow> nat option" where
  "find_plugin u r = map_option pl_address (pr_plugins r u)"

definition all_plugins :: "((string \<rightharpoonup> plugin) \<Rightarrow> string list) \<Rightarrow> plugin_registry \<Rightarrow> nat list" where
  "all_plugins it r = List.map_filter (\<lambda>u. find_plugin u r) (it (pr_plugins r))"

section \<open>Pointers that can be followed\<close>

definition owned :: "(plugin \<Rightarrow> bool) \<Rightarrow> plugin_registry \<Rightarrow> nat set" where
  "owned implements r = {pl_address p | p. p \<in> ran (pr_plugins r) \<and> implements p}"

text \<open>A typed pointer is null or the address of a plugin the registry owns that has the interface.\<close>

definition pointers_valid :: "plugin_registry \<Rightarrow> bool" where
  "pointers_valid r \<longleftrightarrow>
     set_option (pr_computerPlugin r) \<subseteq> owned pl_computer r
     \<and> set_option (pr_featurePlugin r) \<subseteq> owned pl_feature r
     \<and> set_option (pr_sessionPlugin r) \<subseteq> owned pl_session r"

definition distinct_objects :: "plugin_registry \<Rightarrow> bool" where
  "distinct_objects r \<longleftrightarrow> inj_on pl_address (ran (pr_plugins r)) \<and> filed pl_uid (pr_plugins r)"

lemma ran_upd_new: "m k = None \<Longrightarrow> ran (m(k \<mapsto> v)) = insert v (ran m)"
  by (rule ran_map_upd)

lemma registerPlugin_valid:
  assumes "pointers_valid r" and "pr_plugins r (pl_uid p) = None"
  shows "pointers_valid (registerPlugin p r)"
  using assms by (auto simp: pointers_valid_def registerPlugin_def owned_def ran_upd_new)

lemma registerPlugin_objects:
  assumes "distinct_objects r" and "pr_plugins r (pl_uid p) = None"
    and "pl_address p \<notin> pl_address ` ran (pr_plugins r)"
  shows "distinct_objects (registerPlugin p r)"
  using assms by (auto simp: distinct_objects_def registerPlugin_def ran_upd_new filed_def)

lemma clear_pointer_owned:
  assumes "set_option ptr \<subseteq> {pl_address q | q. q \<in> ran m \<and> f q}" and "m u = Some p"
    and "inj_on pl_address (ran m)" and "filed pl_uid m"
  shows "set_option (clear_pointer (f p) p ptr) \<subseteq> {pl_address q | q. q \<in> ran (m(u := None)) \<and> f q}"
proof
  fix a assume "a \<in> set_option (clear_pointer (f p) p ptr)"
  then have ptr: "ptr = Some a" and not: "\<not> (f p \<and> pl_address p = a)"
    by (auto simp: clear_pointer_def split: if_splits)
  from assms(1) ptr obtain q where q: "q \<in> ran m" "f q" "a = pl_address q" by auto
  then have "q \<noteq> p" using not by auto
  moreover obtain v where "m v = Some q" using q(1) by (auto simp: ran_def)
  ultimately have "q \<in> ran (m(u := None))" using assms(2) by (auto simp: ran_def intro!: exI [of _ v])
  with q show "a \<in> {pl_address q | q. q \<in> ran (m(u := None)) \<and> f q}" by blast
qed

lemma initialize_one_valid:
  assumes "pointers_valid r" and "distinct_objects r"
  shows "pointers_valid (initialize_one u r) \<and> distinct_objects (initialize_one u r)"
proof (cases "pr_plugins r u")
  case None
  with assms show ?thesis by (simp add: initialize_one_def)
next
  case (Some p)
  have sub: "ran ((pr_plugins r)(u := None)) \<subseteq> ran (pr_plugins r)" by (auto simp: ran_def)
  show ?thesis
  proof (cases "pl_initializes p")
    case True
    with assms Some show ?thesis by (simp add: initialize_one_def)
  next
    case False
    have d: "inj_on pl_address (ran (pr_plugins r))" "filed pl_uid (pr_plugins r)"
      using assms(2) by (simp_all add: distinct_objects_def)
    have "distinct_objects (initialize_one u r)"
      using d sub False Some
      by (auto simp: distinct_objects_def initialize_one_def filed_def intro: inj_on_subset)
    moreover have "pointers_valid (initialize_one u r)"
      using assms(1) False Some clear_pointer_owned [OF _ Some d]
      unfolding pointers_valid_def owned_def by (simp add: initialize_one_def)
    ultimately show ?thesis by simp
  qed
qed

lemma initialize_fold_valid:
  "pointers_valid r \<Longrightarrow> distinct_objects r
   \<Longrightarrow> pointers_valid (fold initialize_one us r) \<and> distinct_objects (fold initialize_one us r)"
  by (induction us arbitrary: r) (simp_all add: initialize_one_valid)

lemma register_fold_valid:
  assumes "distinct (map pl_uid ps)" and "distinct (map pl_address ps)"
    and "pointers_valid r" and "distinct_objects r"
    and "\<forall>p \<in> set ps. pr_plugins r (pl_uid p) = None \<and> pl_address p \<notin> pl_address ` ran (pr_plugins r)"
  shows "pointers_valid (fold registerPlugin ps r) \<and> distinct_objects (fold registerPlugin ps r)"
  using assms
proof (induction ps arbitrary: r)
  case Nil
  then show ?case by simp
next
  case (Cons p ps)
  have "pr_plugins (registerPlugin p r) = (pr_plugins r)(pl_uid p \<mapsto> p)" by (simp add: registerPlugin_def)
  then have "\<forall>q \<in> set ps. pr_plugins (registerPlugin p r) (pl_uid q) = None
      \<and> pl_address q \<notin> pl_address ` ran (pr_plugins (registerPlugin p r))"
    using Cons.prems by (auto simp: ran_upd_new image_iff)
  then show ?case
    using Cons by (simp add: registerPlugin_valid registerPlugin_objects)
qed

text \<open>
  The typed plugin pointers can always be followed: after plugins with distinct
  identifiers have been registered and initialised, in whatever order the map is walked and
  whichever of them fail, each typed pointer is null or points at a plugin that the registry
  still owns and that has the interface.
\<close>

theorem plugin_pointers_valid:
  assumes "distinct (map pl_uid ps)" and "distinct (map pl_address ps)"
  shows "pointers_valid (initializeAll it (fold registerPlugin ps empty_plugins))"
proof -
  have "pointers_valid (fold registerPlugin ps empty_plugins) \<and> distinct_objects (fold registerPlugin ps empty_plugins)"
    by (rule register_fold_valid [OF assms])
      (simp_all add: pointers_valid_def distinct_objects_def empty_plugins_def filed_def)
  then show ?thesis by (simp add: initializeAll_def initialize_fold_valid)
qed

definition computer_plugin :: plugin where
  "computer_plugin = \<lparr>pl_address = 1, pl_uid = ''a1b2c3d4-0001-0001-0001-000000000001'', pl_computer = True,
     pl_feature = False, pl_session = False, pl_initializes = True\<rparr>"

definition feature_plugin :: plugin where
  "feature_plugin = \<lparr>pl_address = 2, pl_uid = ''a1b2c3d4-0002-0002-0002-000000000002'', pl_computer = False,
     pl_feature = True, pl_session = False, pl_initializes = True\<rparr>"

definition session_plugin :: plugin where
  "session_plugin = \<lparr>pl_address = 3, pl_uid = ''a1b2c3d4-0003-0003-0003-000000000003'', pl_computer = False,
     pl_feature = False, pl_session = True, pl_initializes = True\<rparr>"

definition metrics_plugin :: plugin where
  "metrics_plugin = \<lparr>pl_address = 4, pl_uid = ''a1b2c3d4-0004-0004-0004-000000000004'', pl_computer = False,
     pl_feature = False, pl_session = False, pl_initializes = True\<rparr>"

definition built_in_plugins :: "plugin list" where
  "built_in_plugins = [computer_plugin, feature_plugin, session_plugin, metrics_plugin]"

theorem plugin_pointers_valid_witness:
  "pointers_valid (initializeAll (\<lambda>_. map pl_uid built_in_plugins)
     (fold registerPlugin (map (\<lambda>p. p\<lparr>pl_initializes := False\<rparr>) built_in_plugins) empty_plugins))"
  by (rule plugin_pointers_valid)
    (simp_all add: built_in_plugins_def computer_plugin_def feature_plugin_def session_plugin_def metrics_plugin_def)

text \<open>
  Registering a second plugin under an identifier in use breaks that: the first object is
  destroyed, but if the second does not have its interface, the typed pointer still holds its
  address.
\<close>

theorem identifier_twice_dangles:
  assumes "pl_uid q = pl_uid p" and "pl_address q \<noteq> pl_address p" and "pl_feature p" and "\<not> pl_feature q"
  shows "\<not> pointers_valid (registerPlugin q (registerPlugin p empty_plugins))"
  using assms by (auto simp: pointers_valid_def registerPlugin_def owned_def empty_plugins_def ran_def)

theorem identifier_twice_dangles_witness:
  "\<not> pointers_valid (registerPlugin (metrics_plugin\<lparr>pl_uid := pl_uid feature_plugin\<rparr>)
       (registerPlugin feature_plugin empty_plugins))"
  by (rule identifier_twice_dangles) (simp_all add: metrics_plugin_def feature_plugin_def)

section \<open>Counters\<close>

record metrics =
  mc_totalRequests :: "32 word"
  mc_failedRequests :: "32 word"
  mc_activeConnections :: "32 word"

definition no_metrics :: metrics where
  "no_metrics = \<lparr>mc_totalRequests = 0, mc_failedRequests = 0, mc_activeConnections = 0\<rparr>"

definition recordRequest :: "int \<Rightarrow> metrics \<Rightarrow> metrics" where
  "recordRequest httpStatus m =
     m\<lparr>mc_totalRequests := mc_totalRequests m + 1,
       mc_failedRequests := (if httpStatus \<ge> 500 then mc_failedRequests m + 1 else mc_failedRequests m)\<rparr>"

definition recordConnection :: "bool \<Rightarrow> metrics \<Rightarrow> metrics" where
  "recordConnection up m =
     m\<lparr>mc_activeConnections := (if up then mc_activeConnections m + 1 else mc_activeConnections m - 1)\<rparr>"

definition nl :: string where "nl = [CHR 0x0A]"

definition metric_lines :: "string \<Rightarrow> string \<Rightarrow> string \<Rightarrow> int \<Rightarrow> string" where
  "metric_lines name help kind v =
     ''# HELP '' @ name @ '' '' @ help @ nl @ ''# TYPE '' @ name @ '' '' @ kind @ nl
       @ name @ '' '' @ decimal v @ nl"

definition prometheusText :: "metrics \<Rightarrow> string" where
  "prometheusText m =
     metric_lines ''hub32api_requests_total'' ''Total HTTP requests'' ''counter'' (sint (mc_totalRequests m))
     @ metric_lines ''hub32api_requests_failed_total'' ''Failed HTTP requests (5xx)'' ''counter''
         (sint (mc_failedRequests m))
     @ metric_lines ''hub32api_connections_active'' ''Active VNC connections'' ''gauge''
         (sint (mc_activeConnections m))"

lemma fold_recordRequest:
  "mc_totalRequests (fold recordRequest sts m) = mc_totalRequests m + word_of_nat (length sts)"
  "mc_failedRequests (fold recordRequest sts m)
     = mc_failedRequests m + word_of_nat (length (filter (\<lambda>st. st \<ge> 500) sts))"
  by (induction sts arbitrary: m) (simp_all add: recordRequest_def algebra_simps)

lemma sint_small: "n < 2 ^ 31 \<Longrightarrow> sint (word_of_nat n :: 32 word) = int n"
  by (simp add: signed_of_nat signed_take_bit_int_eq_self)

text \<open>
  The request counters count: as long as fewer than \<open>2 ^ 31\<close> requests were answered, they
  are the number of answers and the number of those with a status of 500 or more; the request
  after that makes the total negative.
\<close>

theorem request_counters:
  "(length sts < 2 ^ 31 \<longrightarrow>
      sint (mc_totalRequests (fold recordRequest sts no_metrics)) = int (length sts)
      \<and> sint (mc_failedRequests (fold recordRequest sts no_metrics))
          = int (length (filter (\<lambda>st. st \<ge> 500) sts)))
   \<and> (length sts = 2 ^ 31 \<longrightarrow> sint (mc_totalRequests (fold recordRequest sts no_metrics)) = - (2 ^ 31))"
proof -
  have "sint (word_of_nat (length (filter (\<lambda>st. st \<ge> 500) sts)) :: 32 word)
      = int (length (filter (\<lambda>st. st \<ge> 500) sts))" if "length sts < 2 ^ 31"
    using that le_less_trans [OF length_filter_le] by (intro sint_small) blast
  moreover have "sint (word_of_nat (2 ^ 31) :: 32 word) = - (2 ^ 31)" by simp
  ultimately show ?thesis
    by (auto simp: fold_recordRequest no_metrics_def sint_small)
qed

theorem request_counters_witness:
  "sint (mc_failedRequests (fold recordRequest [200, 500, 404, 503] no_metrics)) = 2"
  using request_counters [of "[200, 500, 404, 503]"] by simp

section \<open>Reports\<close>

definition handleHealth ::
  "(string \<Rightarrow> rat option) \<Rightarrow> i18n option \<Rightarrow> nat \<Rightarrow> http_request \<Rightarrow> http_response \<Rightarrow> http_response" where
  "handleHealth stod inst pluginCount req res =
     (let t = tr inst (getLocale stod inst req)
      in if pluginCount > 0
         then json_answer 200 (JObject [(''status'', JString (t ''health.status_ok'')), (''version'', JString ''1.0.0''),
                (''plugins'', JInt (int pluginCount))]) res
         else json_answer 503 (JObject [(''status'', JString (t ''health.status_degraded'')),
                (''reason'', JString (t ''health.no_plugins''))]) res)"

record metrics_dto =
  md_activeConnections :: int
  md_totalRequests :: int
  md_failedRequests :: int
  md_pluginCount :: int
  md_uptimeSeconds :: int
  md_serverVersion :: string
  md_hub32Version :: string

text \<open>\<open>m\<close> is the metrics plugin, \<open>None\<close> when the registry has none under its identifier.\<close>

definition metrics_dto_of :: "int \<Rightarrow> nat \<Rightarrow> int \<Rightarrow> metrics option \<Rightarrow> metrics_dto" where
  "metrics_dto_of activeConnections pluginCount uptime m =
     \<lparr>md_activeConnections = activeConnections,
      md_totalRequests = (case m of None \<Rightarrow> 0 | Some c \<Rightarrow> sint (mc_totalRequests c)),
      md_failedRequests = (case m of None \<Rightarrow> 0 | Some c \<Rightarrow> sint (mc_failedRequests c)),
      md_pluginCount = int pluginCount, md_uptimeSeconds = uptime, md_serverVersion = ''1.0.0'',
      md_hub32Version = ''4.x''\<rparr>"

definition metrics_dto_json :: "metrics_dto \<Rightarrow> json" where
  "metrics_dto_json d = JObject
     [(''activeConnections'', JInt (md_activeConnections d)), (''totalRequests'', JInt (md_totalRequests d)),
      (''failedRequests'', JInt (md_failedRequests d)), (''pluginCount'', JInt (md_pluginCount d)),
      (''uptimeSeconds'', JInt (md_uptimeSeconds d)), (''serverVersion'', JString (md_serverVersion d)),
      (''hub32Version'', JString (md_hub32Version d))]"

definition metrics_text :: "metrics_dto \<Rightarrow> string" where
  "metrics_text d =
     metric_lines ''hub32api_active_connections'' ''Number of currently active VNC connections'' ''gauge''
       (md_activeConnections d)
     @ metric_lines ''hub32api_plugin_count'' ''Number of loaded plugins'' ''gauge'' (md_pluginCount d)
     @ metric_lines ''hub32api_uptime_seconds'' ''Total process uptime in seconds'' ''counter'' (md_uptimeSeconds d)
     @ metric_lines ''hub32api_total_requests'' ''Total number of HTTP requests handled'' ''counter''
         (md_totalRequests d)
     @ metric_lines ''hub32api_failed_requests'' ''Total number of failed HTTP requests'' ''counter''
         (md_failedRequests d)"

text \<open>The answer, and its body when it is text.\<close>

definition handleMetrics ::
  "int \<Rightarrow> nat \<Rightarrow> int \<Rightarrow> metrics option \<Rightarrow> http_request \<Rightarrow> http_response \<Rightarrow> http_response \<times> string option" where
  "handleMetrics activeConnections pluginCount uptime m req res =
     (let d = metrics_dto_of activeConnections pluginCount uptime m
      in if rq_header req ''Accept'' \<noteq> None \<and> str_contains (get_header_value req ''Accept'') ''text/plain''
         then (res\<lparr>rs_status := 200, rs_content_type := ''text/plain; version=0.0.4; charset=utf-8''\<rparr>,
               Some (metrics_text d))
         else (json_answer 200 (metrics_dto_json d) res, None))"

end
