(* ===== verification/Audit_Log.thy ===== *)
theory Audit_Log
  imports Hub32_Prelude "HOL-Library.Sublist"
begin

text \<open>
  The audit log, src/core/AuditLog.cpp: callers put entries into a queue, one writer thread
  takes the whole queue at a time and writes it in a transaction. The interleaving of callers,
  destructor and writer is a step relation whose writer steps are the statements of its loop;
  each statement to SQLite succeeds or fails as SQLite documents it. The lemmas show that the
  rows of the table are entries that were logged, in order, that they are all of them when nothing
  fails, that the destructor's join returns, and that one busy commit ends the log for good.
\<close>

section \<open>Entries and states\<close>

record audit_entry =
  ae_level :: string
  ae_category :: string
  ae_subject :: string
  ae_action :: string
  ae_detail :: string
  ae_ipAddress :: string
  ae_success :: bool

definition auth_entry :: "string \<Rightarrow> string \<Rightarrow> bool \<Rightarrow> string \<Rightarrow> audit_entry" where
  "auth_entry subject ip success detail =
     \<lparr>ae_level = ''info'', ae_category = ''auth'', ae_subject = subject,
      ae_action = (if success then ''login'' else ''login_failed''), ae_detail = detail,
      ae_ipAddress = ip, ae_success = success\<rparr>"

definition logout_entry :: "string \<Rightarrow> string \<Rightarrow> audit_entry" where
  "logout_entry subject ip =
     \<lparr>ae_level = ''info'', ae_category = ''auth'', ae_subject = subject, ae_action = ''logout'',
      ae_detail = [], ae_ipAddress = ip, ae_success = True\<rparr>"

definition feature_entry :: "string \<Rightarrow> string \<Rightarrow> string \<Rightarrow> string \<Rightarrow> audit_entry" where
  "feature_entry subject computerId featureId op =
     \<lparr>ae_level = ''info'', ae_category = ''feature'', ae_subject = subject,
      ae_action = op @ '':'' @ featureId, ae_detail = ''computer='' @ computerId, ae_ipAddress = [],
      ae_success = True\<rparr>"

definition error_entry :: "string \<Rightarrow> string \<Rightarrow> string \<Rightarrow> audit_entry" where
  "error_entry category detail ip =
     \<lparr>ae_level = ''error'', ae_category = category, ae_subject = [], ae_action = ''error'',
      ae_detail = detail, ae_ipAddress = ip, ae_success = False\<rparr>"

text \<open>
  A row as it is inserted; the identifier and the time that SQLite adds are left out. Every text
  is bound as a C string, so it ends at its first NUL. A text that cannot be bound, for want of
  memory, leaves NULL, which only three of the columns take: \<open>lost\<close> says which of these are.
\<close>

record audit_row =
  ar_level :: string
  ar_category :: string
  ar_subject :: "string option"
  ar_action :: string
  ar_detail :: "string option"
  ar_ip_address :: "string option"
  ar_success :: bool

definition bound_text :: "string \<Rightarrow> string" where
  "bound_text t = takeWhile (\<lambda>c. c \<noteq> CHR 0x00) t"

definition audit_row_of :: "bool \<times> bool \<times> bool \<Rightarrow> audit_entry \<Rightarrow> audit_row" where
  "audit_row_of lost e =
     (let column = (\<lambda>gone t. if gone then None else Some (bound_text t)); (l3, l5, l6) = lost
      in \<lparr>ar_level = bound_text (ae_level e), ar_category = bound_text (ae_category e),
          ar_subject = column l3 (ae_subject e), ar_action = bound_text (ae_action e),
          ar_detail = column l5 (ae_detail e), ar_ip_address = column l6 (ae_ipAddress e),
          ar_success = ae_success e\<rparr>)"

definition nothing_lost :: "bool \<times> bool \<times> bool" where
  "nothing_lost = (False, False, False)"

text \<open>
  Where the writer is: at its wait, with a batch it has swapped out, inside the transaction
  with what is left of the batch, or past the loop.
\<close>

datatype writer = Waiting | Taken "audit_entry list" | Inserting "audit_entry list" | Ended

text \<open>
  \<open>al_open\<close>: there is a database. \<open>al_table\<close> is what is committed, \<open>al_pending\<close> what the open
  transaction holds, \<open>al_transaction\<close> whether one is open. \<open>al_logged\<close> is a history variable:
  everything callers have logged.
\<close>

record audit =
  al_open :: bool
  al_queue :: "audit_entry list"
  al_writer :: writer
  al_stopping :: bool
  al_transaction :: bool
  al_pending :: "audit_row list"
  al_table :: "audit_row list"
  al_logged :: "audit_entry list"

text \<open>\<open>prepared\<close>: the writer's statement was prepared; it leaves at once if not.\<close>

definition audit_start :: "bool \<Rightarrow> bool \<Rightarrow> audit" where
  "audit_start open_db prepared =
     \<lparr>al_open = open_db, al_queue = [],
      al_writer = (if open_db \<and> prepared then Waiting else Ended), al_stopping = False,
      al_transaction = False, al_pending = [], al_table = [], al_logged = []\<rparr>"

definition audit_log :: "audit_entry \<Rightarrow> audit \<Rightarrow> audit" where
  "audit_log e s =
     (if al_open s then s\<lparr>al_queue := al_queue s @ [e], al_logged := al_logged s @ [e]\<rparr> else s)"

section \<open>Steps\<close>

text \<open>
  What an \<open>INSERT\<close> adds: to the open transaction, or, when there is none any more, to the table
  at once.
\<close>

definition insert_row :: "audit_row \<Rightarrow> audit \<Rightarrow> audit" where
  "insert_row r s =
     (if al_transaction s then s\<lparr>al_pending := al_pending s @ [r]\<rparr> else s\<lparr>al_table := al_table s @ [r]\<rparr>)"

text \<open>
  The statements of the writer's loop. \<open>BEGIN\<close> inside a transaction is an error. An \<open>INSERT\<close> that
  fails leaves the transaction as it was or, when the disk is full or fails or the memory is
  short, SQLite has rolled it back; the writer goes on with the next entry either way. A
  \<open>COMMIT\<close> that finds the database busy leaves the transaction open, after other errors SQLite has
  rolled it back, and without a transaction it is an error.
\<close>

inductive writer_step :: "bool \<Rightarrow> audit \<Rightarrow> audit \<Rightarrow> bool" where
  take_batch: "al_writer s = Waiting \<Longrightarrow> al_queue s \<noteq> []
    \<Longrightarrow> writer_step ok s (s\<lparr>al_writer := Taken (al_queue s), al_queue := []\<rparr>)"
| leave_loop: "al_writer s = Waiting \<Longrightarrow> al_queue s = [] \<Longrightarrow> al_stopping s
    \<Longrightarrow> writer_step ok s (s\<lparr>al_writer := Ended\<rparr>)"
| begin_ok: "al_writer s = Taken b \<Longrightarrow> \<not> al_transaction s
    \<Longrightarrow> writer_step ok s (s\<lparr>al_writer := Inserting b, al_transaction := True\<rparr>)"
| begin_fails: "al_writer s = Taken b \<Longrightarrow> writer_step False s (s\<lparr>al_writer := Waiting\<rparr>)"
| insert_ok: "al_writer s = Inserting (e # b)
    \<Longrightarrow> writer_step ok s (insert_row (audit_row_of nothing_lost e) (s\<lparr>al_writer := Inserting b\<rparr>))"
| insert_unbound: "al_writer s = Inserting (e # b)
    \<Longrightarrow> writer_step False s (insert_row (audit_row_of lost e) (s\<lparr>al_writer := Inserting b\<rparr>))"
| insert_fails: "al_writer s = Inserting (e # b) \<Longrightarrow> writer_step False s (s\<lparr>al_writer := Inserting b\<rparr>)"
| insert_rolls_back: "al_writer s = Inserting (e # b)
    \<Longrightarrow> writer_step False s (s\<lparr>al_writer := Inserting b, al_transaction := False, al_pending := []\<rparr>)"
| commit_ok: "al_writer s = Inserting [] \<Longrightarrow> al_transaction s
    \<Longrightarrow> writer_step ok s (s\<lparr>al_writer := Waiting, al_transaction := False,
          al_table := al_table s @ al_pending s, al_pending := []\<rparr>)"
| commit_fails: "al_writer s = Inserting [] \<Longrightarrow> writer_step False s (s\<lparr>al_writer := Waiting\<rparr>)"
| commit_rolled_back: "al_writer s = Inserting []
    \<Longrightarrow> writer_step False s (s\<lparr>al_writer := Waiting, al_transaction := False, al_pending := []\<rparr>)"

text \<open>
  The first argument of \<open>writer_step\<close> is true if the statement succeeded. A step of the whole:
  a caller logs, the destructor sets the flag, or the writer moves.
\<close>

inductive audit_step :: "bool \<Rightarrow> audit \<Rightarrow> audit \<Rightarrow> bool" where
  log_entry: "audit_step ok s (audit_log e s)"
| stop: "audit_step ok s (s\<lparr>al_stopping := True\<rparr>)"
| writes: "writer_step ok s s' \<Longrightarrow> audit_step ok s s'"

inductive audit_reachable :: "bool \<Rightarrow> audit \<Rightarrow> audit \<Rightarrow> bool" for faultless s0 where
  start: "audit_reachable faultless s0 s0"
| step: "audit_reachable faultless s0 s \<Longrightarrow> audit_step ok s s' \<Longrightarrow> faultless \<longrightarrow> ok
    \<Longrightarrow> audit_reachable faultless s0 s'"

inductive_cases writer_stepE: "writer_step ok s s'"

definition batch_of :: "audit \<Rightarrow> audit_entry list" where
  "batch_of s = (case al_writer s of Taken b \<Rightarrow> b | Inserting b \<Rightarrow> b | _ \<Rightarrow> [])"

text \<open>\<open>stored e r\<close>: the row \<open>r\<close> is what a statement has made of the entry \<open>e\<close>.\<close>

definition stored :: "audit_entry \<Rightarrow> audit_row \<Rightarrow> bool" where
  "stored e r \<longleftrightarrow> (\<exists>lost. r = audit_row_of lost e)"

definition traced :: "audit \<Rightarrow> bool" where
  "traced s \<longleftrightarrow> (\<exists>es ps. list_all2 stored es (al_table s) \<and> list_all2 stored ps (al_pending s)
     \<and> subseq (es @ ps @ batch_of s @ al_queue s) (al_logged s))"

lemma tracedI:
  "list_all2 stored es (al_table s) \<Longrightarrow> list_all2 stored ps (al_pending s)
   \<Longrightarrow> subseq (es @ ps @ batch_of s @ al_queue s) (al_logged s) \<Longrightarrow> traced s"
  by (auto simp: traced_def)

lemma insert_row_fields [simp]:
  "al_writer (insert_row r s) = al_writer s" "al_queue (insert_row r s) = al_queue s"
  "al_logged (insert_row r s) = al_logged s" "al_stopping (insert_row r s) = al_stopping s"
  "al_transaction (insert_row r s) = al_transaction s"
  by (simp_all add: insert_row_def)

section \<open>What the table holds\<close>

lemma writer_step_logged: "writer_step ok s s' \<Longrightarrow> al_logged s' = al_logged s"
  by (erule writer_stepE) auto

text \<open>Outside a transaction nothing is pending.\<close>

definition settled :: "audit \<Rightarrow> bool" where
  "settled s \<longleftrightarrow> \<not> al_transaction s \<longrightarrow> al_pending s = []"

lemma settled_step: "writer_step ok s s' \<Longrightarrow> settled s \<Longrightarrow> settled s'"
  by (erule writer_stepE) (auto simp: settled_def insert_row_def)

lemma traced_insert:
  assumes "traced s" and "settled s" and "al_writer s = Inserting (e # b)"
  shows "traced (insert_row (audit_row_of lost e) (s\<lparr>al_writer := Inserting b\<rparr>))"
proof -
  obtain es ps where t: "list_all2 stored es (al_table s)" "list_all2 stored ps (al_pending s)"
    "subseq (es @ ps @ e # b @ al_queue s) (al_logged s)"
    using assms(1,3) by (auto simp: traced_def batch_of_def)
  have "stored e (audit_row_of lost e)" unfolding stored_def by (rule exI, rule refl)
  then have e: "list_all2 stored [e] [audit_row_of lost e]" by simp
  show ?thesis
  proof (cases "al_transaction s")
    case True
    then show ?thesis
      using t list_all2_appendI [OF t(2) e]
      by (intro tracedI [of es _ "ps @ [e]"]) (simp_all add: insert_row_def batch_of_def)
  next
    case False
    then have "ps = []" using assms(2) t(2) by (simp add: settled_def)
    then show ?thesis
      using False t assms(2) list_all2_appendI [OF t(1) e]
      by (intro tracedI [of "es @ [e]" _ "[]"]) (simp_all add: insert_row_def batch_of_def settled_def)
  qed
qed

lemma subseq_drop: "subseq (xs @ ys @ zs) ws \<Longrightarrow> subseq (xs @ zs) ws"
  by (metis list_emb_append_mono subseq_drop_many subseq_order.order_refl subseq_order.order_trans)

lemma traced_writer_step:
  assumes "writer_step ok s s'" and "traced s" and "settled s"
  shows "traced s'"
  using assms
proof (cases rule: writer_step.cases)
  case (insert_ok e b)
  then show ?thesis using traced_insert assms by simp
next
  case (insert_unbound e b lost)
  then show ?thesis using traced_insert assms by simp
next
  case commit_ok
  obtain es ps where t: "list_all2 stored es (al_table s)" "list_all2 stored ps (al_pending s)"
    "subseq (es @ ps @ batch_of s @ al_queue s) (al_logged s)"
    using assms(2) by (auto simp: traced_def)
  show ?thesis unfolding commit_ok(2)
    by (rule tracedI [of "es @ ps" _ "[]"])
      (use t commit_ok in \<open>simp_all add: list_all2_appendI batch_of_def\<close>)
next
  case (insert_fails e b)
  then show ?thesis using assms(2) subseq_drop [of _ "[e]"]
    by (auto simp: traced_def batch_of_def) (metis append_assoc)
next
  case (insert_rolls_back e b)
  obtain es ps where t: "list_all2 stored es (al_table s)" 
    "subseq (es @ (ps @ [e]) @ b @ al_queue s) (al_logged s)"
    using assms(2) insert_rolls_back by (auto simp: traced_def batch_of_def)
  from subseq_drop [OF t(2)] t(1) show ?thesis unfolding insert_rolls_back(2)
    by (intro tracedI [of es _ "[]"]) (simp_all add: batch_of_def)
next
  case (begin_fails b)
  obtain es ps where t: "list_all2 stored es (al_table s)" "list_all2 stored ps (al_pending s)"
    "subseq ((es @ ps) @ b @ al_queue s) (al_logged s)"
    using assms(2) begin_fails by (auto simp: traced_def batch_of_def)
  from subseq_drop [OF t(3)] t(1,2) show ?thesis unfolding begin_fails(2)
    by (intro tracedI [of es _ ps]) (simp_all add: batch_of_def)
next
  case commit_rolled_back
  obtain es ps where t: "list_all2 stored es (al_table s)" 
    "subseq (es @ ps @ al_queue s) (al_logged s)"
    using assms(2) commit_rolled_back by (auto simp: traced_def batch_of_def)
  from subseq_drop [OF t(2)] t(1) show ?thesis unfolding commit_rolled_back(2)
    by (intro tracedI [of es _ "[]"]) (simp_all add: batch_of_def)
qed (auto simp: traced_def batch_of_def)

lemma traced_step:
  assumes "audit_step ok s s'" and "traced s" and "settled s"
  shows "traced s' \<and> settled s'"
  using assms
proof (cases rule: audit_step.cases)
  case (log_entry e)
  obtain es ps where t: "list_all2 stored es (al_table s)" "list_all2 stored ps (al_pending s)"
    "subseq (es @ ps @ batch_of s @ al_queue s) (al_logged s)"
    using assms(2) by (auto simp: traced_def)
  have "traced (audit_log e s)"
    by (rule tracedI [of es _ ps])
      (use t list_emb_append_mono [OF t(3), of "[e]" "[e]"] in \<open>simp_all add: audit_log_def batch_of_def\<close>)
  then show ?thesis using log_entry assms(3) by (simp add: settled_def audit_log_def)
next
  case stop
  then show ?thesis using assms(2,3) by (simp add: traced_def settled_def batch_of_def)
next
  case writes
  then show ?thesis using assms(2,3) traced_writer_step settled_step by blast
qed

lemma traced_reachable:
  "audit_reachable faultless (audit_start d p) s \<Longrightarrow> traced s \<and> settled s"
proof (induction rule: audit_reachable.induct)
  case start
  then show ?case by (simp add: traced_def settled_def batch_of_def audit_start_def)
next
  case (step s ok s')
  then show ?case using traced_step by blast
qed

text \<open>
  C30: Whatever fails and however callers, destructor and writer interleave, the rows of the table
  are, one by one and in order, made from some of the entries that were logged: nothing is
  invented, doubled or reordered. The texts of a row are those of its entry up to the first NUL;
  a subject, detail or address may be missing.
\<close>

theorem audit_table_in_order:
  assumes "audit_reachable faultless (audit_start d p) s"
  shows "\<exists>es. subseq es (al_logged s) \<and> list_all2 stored es (al_table s)"
proof -
  obtain es ps where es: "list_all2 stored es (al_table s)" "subseq (es @ ps @ batch_of s @ al_queue s) (al_logged s)"
    using traced_reachable [OF assms] by (auto simp: traced_def)
  have "subseq es (es @ ps @ batch_of s @ al_queue s)" by (rule subseq_rev_drop_many) (rule subseq_order.order_refl)
  with es show ?thesis by (meson subseq_order.order_trans)
qed

text \<open>Without faults nothing is dropped on the way.\<close>

definition in_flight :: "audit \<Rightarrow> audit_row list" where
  "in_flight s = al_table s @ al_pending s @ map (audit_row_of nothing_lost) (batch_of s @ al_queue s)"

definition in_transaction :: "audit \<Rightarrow> bool" where
  "in_transaction s \<longleftrightarrow> (al_transaction s \<longleftrightarrow> (\<exists>b. al_writer s = Inserting b))"

lemma writer_step_faultless:
  assumes "writer_step True s s'" and "in_transaction s"
  shows "in_flight s' = in_flight s" "in_transaction s'"
  using assms
  by (cases; force simp: in_flight_def batch_of_def in_transaction_def insert_row_def)+

lemma faultless_reachable:
  assumes "audit_reachable True (audit_start d p) s"
  shows "in_flight s = map (audit_row_of nothing_lost) (al_logged s) \<and> in_transaction s"
  using assms
proof (induction rule: audit_reachable.induct)
  case start
  then show ?case by (simp add: in_flight_def batch_of_def audit_start_def in_transaction_def)
next
  case (step s ok s')
  from step.hyps(2) show ?case
  proof (cases rule: audit_step.cases)
    case (log_entry e)
    then show ?thesis using step.IH by (simp add: audit_log_def in_flight_def batch_of_def in_transaction_def)
  next
    case stop
    then show ?thesis using step.IH by (simp add: in_flight_def batch_of_def in_transaction_def)
  next
    case writes
    then show ?thesis using step.IH step.hyps(3) writer_step_faultless writer_step_logged by auto
  qed
qed

text \<open>
  When no statement fails, the log is complete: once the writer has left its loop, the
  table has a row for every entry that was logged, in order, but for those logged after that.
\<close>

theorem audit_log_complete:
  assumes "audit_reachable True (audit_start d p) s" and "al_writer s = Ended"
  shows "al_table s @ map (audit_row_of nothing_lost) (al_queue s) = map (audit_row_of nothing_lost) (al_logged s)"
  using faultless_reachable [OF assms(1)] traced_reachable [OF assms(1)] assms(2)
  by (simp add: in_flight_def batch_of_def in_transaction_def settled_def)

section \<open>The destructor returns\<close>

definition wait_measure :: "audit_entry list \<Rightarrow> nat" where
  "wait_measure q = (if q = [] then 1 else length q + 5)"

text \<open>How many statements the writer can still execute if nobody logs any more.\<close>

definition writer_measure :: "audit \<Rightarrow> nat" where
  "writer_measure s =
     (case al_writer s of
        Waiting \<Rightarrow> wait_measure (al_queue s)
      | Taken b \<Rightarrow> length b + 3 + wait_measure (al_queue s)
      | Inserting b \<Rightarrow> length b + 2 + wait_measure (al_queue s)
      | Ended \<Rightarrow> 0)"

lemma writer_step_decreases: "writer_step ok s s' \<Longrightarrow> writer_measure s' < writer_measure s"
  by (erule writer_stepE) (auto simp: writer_measure_def wait_measure_def)

lemma writer_step_stopping: "writer_step ok s s' \<Longrightarrow> al_stopping s' = al_stopping s"
  by (erule writer_stepE) auto

abbreviation some_writer_step :: "audit \<Rightarrow> audit \<Rightarrow> bool" where
  "some_writer_step s s' \<equiv> \<exists>ok. writer_step ok s s'"

lemma writer_runs_bounded: "(some_writer_step ^^ n) s s' \<Longrightarrow> n + writer_measure s' \<le> writer_measure s"
proof (induction n arbitrary: s')
  case 0
  then show ?case by simp
next
  case (Suc n)
  then obtain s1 where s1: "(some_writer_step ^^ n) s s1" "some_writer_step s1 s'" by auto
  then have "writer_measure s' < writer_measure s1" using writer_step_decreases by blast
  with Suc.IH [OF s1(1)] show ?case by simp
qed

lemma writer_progress:
  assumes "al_stopping s" and "al_writer s \<noteq> Ended"
  shows "\<exists>s'. some_writer_step s s'"
proof (cases "al_writer s")
  case Waiting
  then show ?thesis using assms by (cases "al_queue s = []") (blast intro: writer_step.intros)+
next
  case (Taken b)
  then show ?thesis by (blast intro: writer_step.intros)
next
  case (Inserting b)
  then show ?thesis by (cases b) (blast intro: writer_step.intros)+
qed (use assms in simp)

text \<open>
  The destructor returns: after the flag is set and callers have stopped, the writer cannot
  get stuck before it has left its loop, every one of its runs is shorter than the measure of
  the state (its batch, its queue and a constant), and so it leaves the loop, whichever
  statements fail.
\<close>

theorem audit_join_returns:
  assumes "al_stopping s"
  shows "(\<exists>n s'. n \<le> writer_measure s \<and> (some_writer_step ^^ n) s s' \<and> al_writer s' = Ended)
    \<and> (\<forall>n s'. (some_writer_step ^^ n) s s' \<longrightarrow> n \<le> writer_measure s)"
proof
  have "\<exists>n s'. (some_writer_step ^^ n) s s' \<and> al_writer s' = Ended" using assms
  proof (induction "writer_measure s" arbitrary: s rule: less_induct)
    case less
    show ?case
    proof (cases "al_writer s = Ended")
      case True
      then show ?thesis by (intro exI [of _ 0]) auto
    next
      case False
      then obtain s1 where s1: "some_writer_step s s1" using writer_progress less.prems by blast
      then have "writer_measure s1 < writer_measure s" "al_stopping s1"
        using writer_step_decreases writer_step_stopping less.prems by blast+
      then obtain n s' where "(some_writer_step ^^ n) s1 s'" "al_writer s' = Ended" using less.hyps by blast
      then show ?thesis using relpowp_Suc_I2 [of some_writer_step, OF s1] by blast
    qed
  qed
  then show "\<exists>n s'. n \<le> writer_measure s \<and> (some_writer_step ^^ n) s s' \<and> al_writer s' = Ended"
    using writer_runs_bounded by (metis add_leD1)
  show "\<forall>n s'. (some_writer_step ^^ n) s s' \<longrightarrow> n \<le> writer_measure s"
    using writer_runs_bounded add_leD1 by blast
qed

theorem audit_join_returns_witness:
  "\<exists>n s'. n \<le> 6 \<and> (some_writer_step ^^ n)
     ((audit_log (logout_entry ''ann'' ''10.0.0.1'') (audit_start True True))\<lparr>al_stopping := True\<rparr>) s'
   \<and> al_writer s' = Ended"
  using conjunct1 [OF audit_join_returns
      [of "(audit_log (logout_entry ''ann'' ''10.0.0.1'') (audit_start True True))\<lparr>al_stopping := True\<rparr>"]]
  by (simp add: writer_measure_def audit_log_def audit_start_def wait_measure_def)

text \<open>One entry on its way into the table.\<close>

definition sample_entry :: audit_entry where
  "sample_entry = logout_entry ''ann'' ''10.0.0.1''"

lemma sample_entry_written:
  "\<exists>s. audit_reachable True (audit_start True True) s \<and> al_writer s = Ended \<and> al_queue s = []
    \<and> al_logged s = [sample_entry] \<and> al_table s = [audit_row_of nothing_lost sample_entry]"
proof -
  define s1 where "s1 = (audit_log sample_entry (audit_start True True))\<lparr>al_stopping := True\<rparr>"
  define s2 where "s2 = s1\<lparr>al_writer := Taken (al_queue s1), al_queue := []\<rparr>"
  define s3 where "s3 = s2\<lparr>al_writer := Inserting [sample_entry], al_transaction := True\<rparr>"
  define s4 where "s4 = insert_row (audit_row_of nothing_lost sample_entry) (s3\<lparr>al_writer := Inserting []\<rparr>)"
  define s5 where "s5 = s4\<lparr>al_writer := Waiting, al_transaction := False,
      al_table := al_table s4 @ al_pending s4, al_pending := []\<rparr>"
  define s6 where "s6 = s5\<lparr>al_writer := Ended\<rparr>"
  note states = s1_def s2_def s3_def s4_def s5_def s6_def audit_log_def audit_start_def insert_row_def
  have "audit_reachable True (audit_start True True) s1" unfolding s1_def
    by (rule audit_reachable.step [OF audit_reachable.step [OF audit_reachable.start audit_step.log_entry]
          audit_step.stop]) simp_all
  then have "audit_reachable True (audit_start True True) s2" unfolding s2_def
    by (rule audit_reachable.step [OF _ audit_step.writes [OF writer_step.take_batch [where ok = True]]])
      (simp_all add: states)
  then have "audit_reachable True (audit_start True True) s3" unfolding s3_def
    by (rule audit_reachable.step [OF _ audit_step.writes [OF writer_step.begin_ok [where ok = True]]])
      (simp_all add: states)
  then have "audit_reachable True (audit_start True True) s4" unfolding s4_def
    by (rule audit_reachable.step [OF _ audit_step.writes [OF writer_step.insert_ok [where ok = True]]])
      (simp_all add: states)
  then have "audit_reachable True (audit_start True True) s5" unfolding s5_def
    by (rule audit_reachable.step [OF _ audit_step.writes [OF writer_step.commit_ok [where ok = True]]])
      (simp_all add: states)
  then have r: "audit_reachable True (audit_start True True) s6" unfolding s6_def
    by (rule audit_reachable.step [OF _ audit_step.writes [OF writer_step.leave_loop [where ok = True]]])
      (simp_all add: states)
  have "al_writer s6 = Ended" "al_queue s6 = []" "al_logged s6 = [sample_entry]"
    "al_table s6 = [audit_row_of nothing_lost sample_entry]" by (simp_all add: states)
  with r show ?thesis by blast
qed

theorem audit_log_complete_witness:
  "\<exists>s :: audit. al_table s @ map (audit_row_of nothing_lost) (al_queue s) = map (audit_row_of nothing_lost) (al_logged s)
     \<and> al_logged s = [sample_entry]"
  using sample_entry_written audit_log_complete [of True True] by blast

theorem audit_table_in_order_witness:
  "\<exists>(s :: audit) es. al_table s = [audit_row_of nothing_lost sample_entry] \<and> subseq es (al_logged s)
     \<and> list_all2 stored es (al_table s)"
  using sample_entry_written audit_table_in_order [of True True True] by blast

section \<open>A busy commit is the last\<close>

lemma stuck_transaction:
  assumes "audit_reachable False s s'" and "al_transaction s" and "\<forall>b. al_writer s \<noteq> Inserting b"
  shows "al_transaction s' \<and> (\<forall>b. al_writer s' \<noteq> Inserting b) \<and> al_table s' = al_table s"
  using assms
proof (induction rule: audit_reachable.induct)
  case start
  then show ?case by simp
next
  case (step s1 ok s2)
  from step.hyps(2) show ?case
  proof (cases rule: audit_step.cases)
    case writes
    then show ?thesis using step.IH step.prems by cases auto
  qed (use step in \<open>auto simp: audit_log_def\<close>)
qed

text \<open>
  One commit that finds the database busy ends the audit log for good: the transaction
  stays open, every later attempt to begin one fails and drops its batch, and from then on
  nothing that is logged ever reaches the table, whatever happens.
\<close>

theorem busy_commit_silences_log:
  assumes "al_writer s = Inserting []" and "al_transaction s"
    and "audit_reachable False (s\<lparr>al_writer := Waiting\<rparr>) s'"
  shows "writer_step False s (s\<lparr>al_writer := Waiting\<rparr>) \<and> al_table s' = al_table s"
  using assms stuck_transaction [OF assms(3)] by (auto intro: writer_step.commit_fails)

definition mid_commit :: audit where
  "mid_commit = (audit_start True True)\<lparr>al_writer := Inserting [], al_transaction := True,
     al_pending := [audit_row_of nothing_lost (logout_entry ''ann'' ''10.0.0.1'')]\<rparr>"

theorem busy_commit_silences_log_witness:
  "al_table (audit_log (logout_entry ''bob'' ''10.0.0.2'') (mid_commit\<lparr>al_writer := Waiting\<rparr>)) = []"
proof -
  have "audit_reachable False (mid_commit\<lparr>al_writer := Waiting\<rparr>)
      (audit_log (logout_entry ''bob'' ''10.0.0.2'') (mid_commit\<lparr>al_writer := Waiting\<rparr>))"
    by (rule audit_reachable.step [OF audit_reachable.start audit_step.log_entry]) simp
  from busy_commit_silences_log [OF _ _ this] show ?thesis by (simp add: mid_commit_def audit_start_def)
qed

end
