(* ===== verification/Server_Config.thy ===== *)
theory Server_Config
  imports School_Controllers Request_Filters
begin

text \<open>
  The configuration of the server: src/src/config/ServerConfig.cpp reads it from a JSON file or
  from the registry of the operating system, src/src/config/internal/ConfigValidator.cpp checks
  it. What a file or a registry value contains is an argument. The lemmas show which of the
  spellings of a setting is in force and what a configuration that was accepted guarantees.
\<close>

section \<open>The settings\<close>

record server_config =
  sc_httpEnabled :: bool
  sc_httpPort :: "16 word"
  sc_bindAddress :: string
  sc_tlsEnabled :: bool
  sc_tlsCertFile :: string
  sc_tlsKeyFile :: string
  sc_connectionLimitPerHost :: int
  sc_globalConnectionLimit :: int
  sc_connectionLifetimeSec :: int
  sc_connectionIdleTimeoutSec :: int
  sc_authTimeoutSec :: int
  sc_workerThreads :: int
  sc_jwtSecret :: string
  sc_jwtExpirySeconds :: int
  sc_jwtAlgorithm :: string
  sc_jwtPrivateKeyFile :: string
  sc_jwtPublicKeyFile :: string
  sc_tokenRevocationFile :: string
  sc_usersFile :: string
  sc_agentKeyFile :: string
  sc_authKeyFile :: string
  sc_databaseDir :: string
  sc_hub32PluginDir :: string
  sc_logLevel :: string
  sc_logFile :: string
  sc_auditLogFile :: string
  sc_localesDir :: string
  sc_defaultLocale :: string
  sc_sfuBackend :: string
  sc_sfuWorkerCount :: int
  sc_rtcMinPort :: int
  sc_rtcMaxPort :: int
  sc_turnSecret :: string
  sc_turnServerUrl :: string
  sc_metricsEnabled :: bool
  sc_metricsPort :: "16 word"
  sc_smtpHost :: string
  sc_smtpPort :: "16 word"
  sc_smtpUseTls :: bool
  sc_smtpUsername :: string
  sc_smtpPasswordFile :: string
  sc_smtpFromAddress :: string
  sc_smtpFromName :: string
  sc_smtpTimeoutSec :: int
  sc_smtpVerifySsl :: bool
  sc_appBaseUrl :: string
  sc_environment :: string

definition default_config :: server_config where
  "default_config =
     \<lparr>sc_httpEnabled = True, sc_httpPort = 11081, sc_bindAddress = ''127.0.0.1'',
      sc_tlsEnabled = False, sc_tlsCertFile = [], sc_tlsKeyFile = [],
      sc_connectionLimitPerHost = 4, sc_globalConnectionLimit = 64, sc_connectionLifetimeSec = 180,
      sc_connectionIdleTimeoutSec = 60, sc_authTimeoutSec = 15, sc_workerThreads = 8,
      sc_jwtSecret = [], sc_jwtExpirySeconds = 3600, sc_jwtAlgorithm = ''RS256'',
      sc_jwtPrivateKeyFile = [], sc_jwtPublicKeyFile = [], sc_tokenRevocationFile = [],
      sc_usersFile = [], sc_agentKeyFile = [], sc_authKeyFile = [], sc_databaseDir = ''data'',
      sc_hub32PluginDir = [], sc_logLevel = ''info'', sc_logFile = [], sc_auditLogFile = [],
      sc_localesDir = [], sc_defaultLocale = ''en'', sc_sfuBackend = ''mock'', sc_sfuWorkerCount = 0,
      sc_rtcMinPort = 40000, sc_rtcMaxPort = 49999, sc_turnSecret = [], sc_turnServerUrl = [],
      sc_metricsEnabled = False, sc_metricsPort = 9091, sc_smtpHost = [], sc_smtpPort = 587,
      sc_smtpUseTls = True, sc_smtpUsername = [], sc_smtpPasswordFile = [], sc_smtpFromAddress = [],
      sc_smtpFromName = ''Hub32'', sc_smtpTimeoutSec = 10, sc_smtpVerifySsl = True,
      sc_appBaseUrl = [], sc_environment = ''development''\<rparr>"

text \<open>The names of the settings.\<close>

datatype setting =
    HttpEnabled | HttpPort | BindAddress | TlsEnabled | TlsCertFile | TlsKeyFile
  | ConnectionLimitPerHost | GlobalConnectionLimit | ConnectionLifetimeSec
  | ConnectionIdleTimeoutSec | AuthTimeoutSec | WorkerThreads
  | JwtSecret | JwtExpirySeconds | JwtAlgorithm | JwtPrivateKeyFile | JwtPublicKeyFile
  | TokenRevocationFile | UsersFile | AgentKeyFile | AuthKeyFile | DatabaseDir | Hub32PluginDir
  | LogLevel | LogFile | AuditLogFile | LocalesDir | DefaultLocale
  | SfuBackend | SfuWorkerCount | RtcMinPort | RtcMaxPort | TurnSecret | TurnServerUrl
  | MetricsEnabled | MetricsPort
  | SmtpHost | SmtpPort | SmtpUseTls | SmtpUsername | SmtpPasswordFile | SmtpFromAddress
  | SmtpFromName | SmtpTimeoutSec | SmtpVerifySsl | AppBaseUrl | Environment

section \<open>Reading one setting\<close>

text \<open>
  What a value of a given type takes from a member of the file: conversions between the numeric
  types wrap, \<open>dbl\<close> is the conversion of a floating point number to \<^verbatim>\<open>int\<close>; \<open>None\<close> is the
  exception of the library on a member of another type.
\<close>

definition json_get_port :: "(rat \<Rightarrow> int) \<Rightarrow> json \<Rightarrow> 16 word option" where
  "json_get_port dbl j =
     (case j of
        JInt i \<Rightarrow> Some (word_of_int i)
      | JBool b \<Rightarrow> Some (of_bool b)
      | JDouble r \<Rightarrow> Some (word_of_int (dbl r))
      | _ \<Rightarrow> None)"

fun set_setting :: "(rat \<Rightarrow> int) \<Rightarrow> setting \<Rightarrow> json \<Rightarrow> server_config \<Rightarrow> server_config option" where
  "set_setting dbl HttpEnabled v c = map_option (\<lambda>x. c\<lparr>sc_httpEnabled := x\<rparr>) (json_get_bool v)"
| "set_setting dbl HttpPort v c = map_option (\<lambda>x. c\<lparr>sc_httpPort := x\<rparr>) (json_get_port dbl v)"
| "set_setting dbl BindAddress v c = map_option (\<lambda>x. c\<lparr>sc_bindAddress := x\<rparr>) (json_get_string v)"
| "set_setting dbl TlsEnabled v c = map_option (\<lambda>x. c\<lparr>sc_tlsEnabled := x\<rparr>) (json_get_bool v)"
| "set_setting dbl TlsCertFile v c = map_option (\<lambda>x. c\<lparr>sc_tlsCertFile := x\<rparr>) (json_get_string v)"
| "set_setting dbl TlsKeyFile v c = map_option (\<lambda>x. c\<lparr>sc_tlsKeyFile := x\<rparr>) (json_get_string v)"
| "set_setting dbl ConnectionLimitPerHost v c = map_option (\<lambda>x. c\<lparr>sc_connectionLimitPerHost := x\<rparr>) (json_get_int dbl v)"
| "set_setting dbl GlobalConnectionLimit v c = map_option (\<lambda>x. c\<lparr>sc_globalConnectionLimit := x\<rparr>) (json_get_int dbl v)"
| "set_setting dbl ConnectionLifetimeSec v c = map_option (\<lambda>x. c\<lparr>sc_connectionLifetimeSec := x\<rparr>) (json_get_int dbl v)"
| "set_setting dbl ConnectionIdleTimeoutSec v c = map_option (\<lambda>x. c\<lparr>sc_connectionIdleTimeoutSec := x\<rparr>) (json_get_int dbl v)"
| "set_setting dbl AuthTimeoutSec v c = map_option (\<lambda>x. c\<lparr>sc_authTimeoutSec := x\<rparr>) (json_get_int dbl v)"
| "set_setting dbl WorkerThreads v c = map_option (\<lambda>x. c\<lparr>sc_workerThreads := x\<rparr>) (json_get_int dbl v)"
| "set_setting dbl JwtSecret v c = map_option (\<lambda>x. c\<lparr>sc_jwtSecret := x\<rparr>) (json_get_string v)"
| "set_setting dbl JwtExpirySeconds v c = map_option (\<lambda>x. c\<lparr>sc_jwtExpirySeconds := x\<rparr>) (json_get_int dbl v)"
| "set_setting dbl JwtAlgorithm v c = map_option (\<lambda>x. c\<lparr>sc_jwtAlgorithm := x\<rparr>) (json_get_string v)"
| "set_setting dbl JwtPrivateKeyFile v c = map_option (\<lambda>x. c\<lparr>sc_jwtPrivateKeyFile := x\<rparr>) (json_get_string v)"
| "set_setting dbl JwtPublicKeyFile v c = map_option (\<lambda>x. c\<lparr>sc_jwtPublicKeyFile := x\<rparr>) (json_get_string v)"
| "set_setting dbl TokenRevocationFile v c = map_option (\<lambda>x. c\<lparr>sc_tokenRevocationFile := x\<rparr>) (json_get_string v)"
| "set_setting dbl UsersFile v c = map_option (\<lambda>x. c\<lparr>sc_usersFile := x\<rparr>) (json_get_string v)"
| "set_setting dbl AgentKeyFile v c = map_option (\<lambda>x. c\<lparr>sc_agentKeyFile := x\<rparr>) (json_get_string v)"
| "set_setting dbl AuthKeyFile v c = map_option (\<lambda>x. c\<lparr>sc_authKeyFile := x\<rparr>) (json_get_string v)"
| "set_setting dbl DatabaseDir v c = map_option (\<lambda>x. c\<lparr>sc_databaseDir := x\<rparr>) (json_get_string v)"
| "set_setting dbl Hub32PluginDir v c = map_option (\<lambda>x. c\<lparr>sc_hub32PluginDir := x\<rparr>) (json_get_string v)"
| "set_setting dbl LogLevel v c = map_option (\<lambda>x. c\<lparr>sc_logLevel := x\<rparr>) (json_get_string v)"
| "set_setting dbl LogFile v c = map_option (\<lambda>x. c\<lparr>sc_logFile := x\<rparr>) (json_get_string v)"
| "set_setting dbl AuditLogFile v c = map_option (\<lambda>x. c\<lparr>sc_auditLogFile := x\<rparr>) (json_get_string v)"
| "set_setting dbl LocalesDir v c = map_option (\<lambda>x. c\<lparr>sc_localesDir := x\<rparr>) (json_get_string v)"
| "set_setting dbl DefaultLocale v c = map_option (\<lambda>x. c\<lparr>sc_defaultLocale := x\<rparr>) (json_get_string v)"
| "set_setting dbl SfuBackend v c = map_option (\<lambda>x. c\<lparr>sc_sfuBackend := x\<rparr>) (json_get_string v)"
| "set_setting dbl SfuWorkerCount v c = map_option (\<lambda>x. c\<lparr>sc_sfuWorkerCount := x\<rparr>) (json_get_int dbl v)"
| "set_setting dbl RtcMinPort v c = map_option (\<lambda>x. c\<lparr>sc_rtcMinPort := x\<rparr>) (json_get_int dbl v)"
| "set_setting dbl RtcMaxPort v c = map_option (\<lambda>x. c\<lparr>sc_rtcMaxPort := x\<rparr>) (json_get_int dbl v)"
| "set_setting dbl TurnSecret v c = map_option (\<lambda>x. c\<lparr>sc_turnSecret := x\<rparr>) (json_get_string v)"
| "set_setting dbl TurnServerUrl v c = map_option (\<lambda>x. c\<lparr>sc_turnServerUrl := x\<rparr>) (json_get_string v)"
| "set_setting dbl MetricsEnabled v c = map_option (\<lambda>x. c\<lparr>sc_metricsEnabled := x\<rparr>) (json_get_bool v)"
| "set_setting dbl MetricsPort v c = map_option (\<lambda>x. c\<lparr>sc_metricsPort := x\<rparr>) (json_get_port dbl v)"
| "set_setting dbl SmtpHost v c = map_option (\<lambda>x. c\<lparr>sc_smtpHost := x\<rparr>) (json_get_string v)"
| "set_setting dbl SmtpPort v c = map_option (\<lambda>x. c\<lparr>sc_smtpPort := x\<rparr>) (json_get_port dbl v)"
| "set_setting dbl SmtpUseTls v c = map_option (\<lambda>x. c\<lparr>sc_smtpUseTls := x\<rparr>) (json_get_bool v)"
| "set_setting dbl SmtpUsername v c = map_option (\<lambda>x. c\<lparr>sc_smtpUsername := x\<rparr>) (json_get_string v)"
| "set_setting dbl SmtpPasswordFile v c = map_option (\<lambda>x. c\<lparr>sc_smtpPasswordFile := x\<rparr>) (json_get_string v)"
| "set_setting dbl SmtpFromAddress v c = map_option (\<lambda>x. c\<lparr>sc_smtpFromAddress := x\<rparr>) (json_get_string v)"
| "set_setting dbl SmtpFromName v c = map_option (\<lambda>x. c\<lparr>sc_smtpFromName := x\<rparr>) (json_get_string v)"
| "set_setting dbl SmtpTimeoutSec v c = map_option (\<lambda>x. c\<lparr>sc_smtpTimeoutSec := x\<rparr>) (json_get_int dbl v)"
| "set_setting dbl SmtpVerifySsl v c = map_option (\<lambda>x. c\<lparr>sc_smtpVerifySsl := x\<rparr>) (json_get_bool v)"
| "set_setting dbl AppBaseUrl v c = map_option (\<lambda>x. c\<lparr>sc_appBaseUrl := x\<rparr>) (json_get_string v)"
| "set_setting dbl Environment v c = map_option (\<lambda>x. c\<lparr>sc_environment := x\<rparr>) (json_get_string v)"

text \<open>A setting as the value a file would hold.\<close>

fun get_setting :: "setting \<Rightarrow> server_config \<Rightarrow> json" where
  "get_setting HttpEnabled c = JBool (sc_httpEnabled c)"
| "get_setting HttpPort c = JInt (uint (sc_httpPort c))"
| "get_setting BindAddress c = JString (sc_bindAddress c)"
| "get_setting TlsEnabled c = JBool (sc_tlsEnabled c)"
| "get_setting TlsCertFile c = JString (sc_tlsCertFile c)"
| "get_setting TlsKeyFile c = JString (sc_tlsKeyFile c)"
| "get_setting ConnectionLimitPerHost c = JInt (sc_connectionLimitPerHost c)"
| "get_setting GlobalConnectionLimit c = JInt (sc_globalConnectionLimit c)"
| "get_setting ConnectionLifetimeSec c = JInt (sc_connectionLifetimeSec c)"
| "get_setting ConnectionIdleTimeoutSec c = JInt (sc_connectionIdleTimeoutSec c)"
| "get_setting AuthTimeoutSec c = JInt (sc_authTimeoutSec c)"
| "get_setting WorkerThreads c = JInt (sc_workerThreads c)"
| "get_setting JwtSecret c = JString (sc_jwtSecret c)"
| "get_setting JwtExpirySeconds c = JInt (sc_jwtExpirySeconds c)"
| "get_setting JwtAlgorithm c = JString (sc_jwtAlgorithm c)"
| "get_setting JwtPrivateKeyFile c = JString (sc_jwtPrivateKeyFile c)"
| "get_setting JwtPublicKeyFile c = JString (sc_jwtPublicKeyFile c)"
| "get_setting TokenRevocationFile c = JString (sc_tokenRevocationFile c)"
| "get_setting UsersFile c = JString (sc_usersFile c)"
| "get_setting AgentKeyFile c = JString (sc_agentKeyFile c)"
| "get_setting AuthKeyFile c = JString (sc_authKeyFile c)"
| "get_setting DatabaseDir c = JString (sc_databaseDir c)"
| "get_setting Hub32PluginDir c = JString (sc_hub32PluginDir c)"
| "get_setting LogLevel c = JString (sc_logLevel c)"
| "get_setting LogFile c = JString (sc_logFile c)"
| "get_setting AuditLogFile c = JString (sc_auditLogFile c)"
| "get_setting LocalesDir c = JString (sc_localesDir c)"
| "get_setting DefaultLocale c = JString (sc_defaultLocale c)"
| "get_setting SfuBackend c = JString (sc_sfuBackend c)"
| "get_setting SfuWorkerCount c = JInt (sc_sfuWorkerCount c)"
| "get_setting RtcMinPort c = JInt (sc_rtcMinPort c)"
| "get_setting RtcMaxPort c = JInt (sc_rtcMaxPort c)"
| "get_setting TurnSecret c = JString (sc_turnSecret c)"
| "get_setting TurnServerUrl c = JString (sc_turnServerUrl c)"
| "get_setting MetricsEnabled c = JBool (sc_metricsEnabled c)"
| "get_setting MetricsPort c = JInt (uint (sc_metricsPort c))"
| "get_setting SmtpHost c = JString (sc_smtpHost c)"
| "get_setting SmtpPort c = JInt (uint (sc_smtpPort c))"
| "get_setting SmtpUseTls c = JBool (sc_smtpUseTls c)"
| "get_setting SmtpUsername c = JString (sc_smtpUsername c)"
| "get_setting SmtpPasswordFile c = JString (sc_smtpPasswordFile c)"
| "get_setting SmtpFromAddress c = JString (sc_smtpFromAddress c)"
| "get_setting SmtpFromName c = JString (sc_smtpFromName c)"
| "get_setting SmtpTimeoutSec c = JInt (sc_smtpTimeoutSec c)"
| "get_setting SmtpVerifySsl c = JBool (sc_smtpVerifySsl c)"
| "get_setting AppBaseUrl c = JString (sc_appBaseUrl c)"
| "get_setting Environment c = JString (sc_environment c)"

text \<open>What is in force after a member was read: the value it converts to.\<close>

definition flags :: "setting list" where
  "flags = [HttpEnabled, TlsEnabled, MetricsEnabled, SmtpUseTls, SmtpVerifySsl]"

definition ports :: "setting list" where
  "ports = [HttpPort, MetricsPort, SmtpPort]"

definition numbers :: "setting list" where
  "numbers =
    [ConnectionLimitPerHost, GlobalConnectionLimit, ConnectionLifetimeSec,
     ConnectionIdleTimeoutSec, AuthTimeoutSec, WorkerThreads, JwtExpirySeconds, SfuWorkerCount,
     RtcMinPort, RtcMaxPort, SmtpTimeoutSec]"

definition converted :: "(rat \<Rightarrow> int) \<Rightarrow> setting \<Rightarrow> json \<Rightarrow> json option" where
  "converted dbl f v =
     (if f \<in> set flags then map_option JBool (json_get_bool v)
      else if f \<in> set ports then map_option (JInt \<circ> uint) (json_get_port dbl v)
      else if f \<in> set numbers then map_option JInt (json_get_int dbl v)
      else map_option JString (json_get_string v))"

lemma set_setting_own:
  assumes "set_setting dbl f v c = Some c'"
  shows "converted dbl f v = Some (get_setting f c')"
  using assms by (cases f) (auto simp: converted_def flags_def ports_def numbers_def)

lemma get_setting_upd:
  "g \<noteq> HttpEnabled \<Longrightarrow> get_setting g (c\<lparr>sc_httpEnabled := x0\<rparr>) = get_setting g c"
  "g \<noteq> HttpPort \<Longrightarrow> get_setting g (c\<lparr>sc_httpPort := x1\<rparr>) = get_setting g c"
  "g \<noteq> BindAddress \<Longrightarrow> get_setting g (c\<lparr>sc_bindAddress := x2\<rparr>) = get_setting g c"
  "g \<noteq> TlsEnabled \<Longrightarrow> get_setting g (c\<lparr>sc_tlsEnabled := x3\<rparr>) = get_setting g c"
  "g \<noteq> TlsCertFile \<Longrightarrow> get_setting g (c\<lparr>sc_tlsCertFile := x4\<rparr>) = get_setting g c"
  "g \<noteq> TlsKeyFile \<Longrightarrow> get_setting g (c\<lparr>sc_tlsKeyFile := x5\<rparr>) = get_setting g c"
  "g \<noteq> ConnectionLimitPerHost \<Longrightarrow> get_setting g (c\<lparr>sc_connectionLimitPerHost := x6\<rparr>) = get_setting g c"
  "g \<noteq> GlobalConnectionLimit \<Longrightarrow> get_setting g (c\<lparr>sc_globalConnectionLimit := x7\<rparr>) = get_setting g c"
  "g \<noteq> ConnectionLifetimeSec \<Longrightarrow> get_setting g (c\<lparr>sc_connectionLifetimeSec := x8\<rparr>) = get_setting g c"
  "g \<noteq> ConnectionIdleTimeoutSec \<Longrightarrow> get_setting g (c\<lparr>sc_connectionIdleTimeoutSec := x9\<rparr>) = get_setting g c"
  "g \<noteq> AuthTimeoutSec \<Longrightarrow> get_setting g (c\<lparr>sc_authTimeoutSec := x10\<rparr>) = get_setting g c"
  "g \<noteq> WorkerThreads \<Longrightarrow> get_setting g (c\<lparr>sc_workerThreads := x11\<rparr>) = get_setting g c"
  "g \<noteq> JwtSecret \<Longrightarrow> get_setting g (c\<lparr>sc_jwtSecret := x12\<rparr>) = get_setting g c"
  "g \<noteq> JwtExpirySeconds \<Longrightarrow> get_setting g (c\<lparr>sc_jwtExpirySeconds := x13\<rparr>) = get_setting g c"
  "g \<noteq> JwtAlgorithm \<Longrightarrow> get_setting g (c\<lparr>sc_jwtAlgorithm := x14\<rparr>) = get_setting g c"
  "g \<noteq> JwtPrivateKeyFile \<Longrightarrow> get_setting g (c\<lparr>sc_jwtPrivateKeyFile := x15\<rparr>) = get_setting g c"
  "g \<noteq> JwtPublicKeyFile \<Longrightarrow> get_setting g (c\<lparr>sc_jwtPublicKeyFile := x16\<rparr>) = get_setting g c"
  "g \<noteq> TokenRevocationFile \<Longrightarrow> get_setting g (c\<lparr>sc_tokenRevocationFile := x17\<rparr>) = get_setting g c"
  "g \<noteq> UsersFile \<Longrightarrow> get_setting g (c\<lparr>sc_usersFile := x18\<rparr>) = get_setting g c"
  "g \<noteq> AgentKeyFile \<Longrightarrow> get_setting g (c\<lparr>sc_agentKeyFile := x19\<rparr>) = get_setting g c"
  "g \<noteq> AuthKeyFile \<Longrightarrow> get_setting g (c\<lparr>sc_authKeyFile := x20\<rparr>) = get_setting g c"
  "g \<noteq> DatabaseDir \<Longrightarrow> get_setting g (c\<lparr>sc_databaseDir := x21\<rparr>) = get_setting g c"
  "g \<noteq> Hub32PluginDir \<Longrightarrow> get_setting g (c\<lparr>sc_hub32PluginDir := x22\<rparr>) = get_setting g c"
  "g \<noteq> LogLevel \<Longrightarrow> get_setting g (c\<lparr>sc_logLevel := x23\<rparr>) = get_setting g c"
  "g \<noteq> LogFile \<Longrightarrow> get_setting g (c\<lparr>sc_logFile := x24\<rparr>) = get_setting g c"
  "g \<noteq> AuditLogFile \<Longrightarrow> get_setting g (c\<lparr>sc_auditLogFile := x25\<rparr>) = get_setting g c"
  "g \<noteq> LocalesDir \<Longrightarrow> get_setting g (c\<lparr>sc_localesDir := x26\<rparr>) = get_setting g c"
  "g \<noteq> DefaultLocale \<Longrightarrow> get_setting g (c\<lparr>sc_defaultLocale := x27\<rparr>) = get_setting g c"
  "g \<noteq> SfuBackend \<Longrightarrow> get_setting g (c\<lparr>sc_sfuBackend := x28\<rparr>) = get_setting g c"
  "g \<noteq> SfuWorkerCount \<Longrightarrow> get_setting g (c\<lparr>sc_sfuWorkerCount := x29\<rparr>) = get_setting g c"
  "g \<noteq> RtcMinPort \<Longrightarrow> get_setting g (c\<lparr>sc_rtcMinPort := x30\<rparr>) = get_setting g c"
  "g \<noteq> RtcMaxPort \<Longrightarrow> get_setting g (c\<lparr>sc_rtcMaxPort := x31\<rparr>) = get_setting g c"
  "g \<noteq> TurnSecret \<Longrightarrow> get_setting g (c\<lparr>sc_turnSecret := x32\<rparr>) = get_setting g c"
  "g \<noteq> TurnServerUrl \<Longrightarrow> get_setting g (c\<lparr>sc_turnServerUrl := x33\<rparr>) = get_setting g c"
  "g \<noteq> MetricsEnabled \<Longrightarrow> get_setting g (c\<lparr>sc_metricsEnabled := x34\<rparr>) = get_setting g c"
  "g \<noteq> MetricsPort \<Longrightarrow> get_setting g (c\<lparr>sc_metricsPort := x35\<rparr>) = get_setting g c"
  "g \<noteq> SmtpHost \<Longrightarrow> get_setting g (c\<lparr>sc_smtpHost := x36\<rparr>) = get_setting g c"
  "g \<noteq> SmtpPort \<Longrightarrow> get_setting g (c\<lparr>sc_smtpPort := x37\<rparr>) = get_setting g c"
  "g \<noteq> SmtpUseTls \<Longrightarrow> get_setting g (c\<lparr>sc_smtpUseTls := x38\<rparr>) = get_setting g c"
  "g \<noteq> SmtpUsername \<Longrightarrow> get_setting g (c\<lparr>sc_smtpUsername := x39\<rparr>) = get_setting g c"
  "g \<noteq> SmtpPasswordFile \<Longrightarrow> get_setting g (c\<lparr>sc_smtpPasswordFile := x40\<rparr>) = get_setting g c"
  "g \<noteq> SmtpFromAddress \<Longrightarrow> get_setting g (c\<lparr>sc_smtpFromAddress := x41\<rparr>) = get_setting g c"
  "g \<noteq> SmtpFromName \<Longrightarrow> get_setting g (c\<lparr>sc_smtpFromName := x42\<rparr>) = get_setting g c"
  "g \<noteq> SmtpTimeoutSec \<Longrightarrow> get_setting g (c\<lparr>sc_smtpTimeoutSec := x43\<rparr>) = get_setting g c"
  "g \<noteq> SmtpVerifySsl \<Longrightarrow> get_setting g (c\<lparr>sc_smtpVerifySsl := x44\<rparr>) = get_setting g c"
  "g \<noteq> AppBaseUrl \<Longrightarrow> get_setting g (c\<lparr>sc_appBaseUrl := x45\<rparr>) = get_setting g c"
  "g \<noteq> Environment \<Longrightarrow> get_setting g (c\<lparr>sc_environment := x46\<rparr>) = get_setting g c"
  by (cases g; simp)+

lemma set_setting_other:
  assumes "set_setting dbl f v c = Some c'" and "g \<noteq> f"
  shows "get_setting g c' = get_setting g c"
  using assms by (cases f) (auto simp: get_setting_upd)

section \<open>Reading a file\<close>

text \<open>
  The script of \<^verbatim>\<open>from_file\<close>: from which part of the file (\<open>None\<close>: the top level) which members
  are read into which settings, in the order of the code.
\<close>

definition config_script :: "(string option \<times> (string \<times> setting) list) list" where
  "config_script =
     [(None,
        [(''httpEnabled'', HttpEnabled), (''httpPort'', HttpPort),
         (''bindAddress'', BindAddress), (''tlsEnabled'', TlsEnabled),
         (''tlsCertFile'', TlsCertFile), (''tlsKeyFile'', TlsKeyFile)]),
      (Some ''http'',
        [(''enabled'', HttpEnabled), (''port'', HttpPort), (''bindAddress'', BindAddress)]),
      (Some ''tls'',
        [(''enabled'', TlsEnabled), (''certFile'', TlsCertFile), (''keyFile'', TlsKeyFile)]),
      (Some ''connections'',
        [(''limitPerHost'', ConnectionLimitPerHost), (''globalLimit'', GlobalConnectionLimit),
         (''lifetimeSec'', ConnectionLifetimeSec),
         (''idleTimeoutSec'', ConnectionIdleTimeoutSec), (''authTimeoutSec'', AuthTimeoutSec)]),
      (Some ''threads'',
        [(''workerCount'', WorkerThreads)]),
      (Some ''auth'',
        [(''usersFile'', UsersFile), (''agentKeyFile'', AgentKeyFile),
         (''authKeyFile'', AuthKeyFile)]),
      (None,
        [(''connectionLimitPerHost'', ConnectionLimitPerHost),
         (''globalConnectionLimit'', GlobalConnectionLimit),
         (''connectionLifetimeSec'', ConnectionLifetimeSec),
         (''connectionIdleTimeoutSec'', ConnectionIdleTimeoutSec),
         (''authTimeoutSec'', AuthTimeoutSec), (''workerThreads'', WorkerThreads),
         (''jwtSecret'', JwtSecret), (''jwtExpirySeconds'', JwtExpirySeconds),
         (''jwtAlgorithm'', JwtAlgorithm), (''jwtPrivateKeyFile'', JwtPrivateKeyFile),
         (''jwtPublicKeyFile'', JwtPublicKeyFile), (''tokenRevocationFile'', TokenRevocationFile)]),
      (Some ''jwt'',
        [(''algorithm'', JwtAlgorithm), (''secret'', JwtSecret),
         (''privateKeyFile'', JwtPrivateKeyFile), (''publicKeyFile'', JwtPublicKeyFile),
         (''expirySeconds'', JwtExpirySeconds), (''tokenRevocationFile'', TokenRevocationFile)]),
      (None,
        [(''usersFile'', UsersFile), (''agentKeyFile'', AgentKeyFile),
         (''authKeyFile'', AuthKeyFile), (''databaseDir'', DatabaseDir),
         (''hub32PluginDir'', Hub32PluginDir), (''logLevel'', LogLevel), (''logFile'', LogFile),
         (''auditLogFile'', AuditLogFile)]),
      (Some ''logging'',
        [(''level'', LogLevel), (''file'', LogFile), (''auditLogFile'', AuditLogFile)]),
      (Some ''i18n'',
        [(''localesDir'', LocalesDir), (''defaultLocale'', DefaultLocale)]),
      (None,
        [(''sfuBackend'', SfuBackend), (''sfuWorkerCount'', SfuWorkerCount),
         (''rtcMinPort'', RtcMinPort), (''rtcMaxPort'', RtcMaxPort)]),
      (Some ''sfu'',
        [(''backend'', SfuBackend), (''workerCount'', SfuWorkerCount),
         (''rtcMinPort'', RtcMinPort), (''rtcMaxPort'', RtcMaxPort)]),
      (None,
        [(''turnSecret'', TurnSecret), (''turnServerUrl'', TurnServerUrl)]),
      (Some ''turn'',
        [(''secret'', TurnSecret), (''serverUrl'', TurnServerUrl)]),
      (None,
        [(''metricsEnabled'', MetricsEnabled), (''metricsPort'', MetricsPort),
         (''environment'', Environment), (''appBaseUrl'', AppBaseUrl), (''smtpHost'', SmtpHost),
         (''smtpPort'', SmtpPort), (''smtpUseTls'', SmtpUseTls),
         (''smtpUsername'', SmtpUsername), (''smtpPasswordFile'', SmtpPasswordFile),
         (''smtpFromAddress'', SmtpFromAddress), (''smtpFromName'', SmtpFromName),
         (''smtpTimeoutSec'', SmtpTimeoutSec), (''smtpVerifySsl'', SmtpVerifySsl)]),
      (Some ''smtp'',
        [(''host'', SmtpHost), (''port'', SmtpPort), (''useTls'', SmtpUseTls),
         (''username'', SmtpUsername), (''passwordFile'', SmtpPasswordFile),
         (''fromAddress'', SmtpFromAddress), (''fromName'', SmtpFromName),
         (''timeoutSec'', SmtpTimeoutSec), (''verifySsl'', SmtpVerifySsl)])]"

text \<open>A member that is missing leaves the setting as it is.\<close>

fun read_keys ::
  "(rat \<Rightarrow> int) \<Rightarrow> (string \<times> json) list \<Rightarrow> (string \<times> setting) list \<Rightarrow> server_config \<Rightarrow> server_config option" where
  "read_keys dbl ms [] c = Some c"
| "read_keys dbl ms ((k, f) # ks) c =
     (case map_of ms k of
        None \<Rightarrow> read_keys dbl ms ks c
      | Some v \<Rightarrow> Option.bind (set_setting dbl f v c) (read_keys dbl ms ks))"

text \<open>A part that is missing or no object is skipped.\<close>

fun members_of :: "(string \<times> json) list \<Rightarrow> string option \<Rightarrow> (string \<times> json) list" where
  "members_of ms None = ms"
| "members_of ms (Some s) = (case map_of ms s of Some (JObject ns) \<Rightarrow> ns | _ \<Rightarrow> [])"

fun read_script ::
  "(rat \<Rightarrow> int) \<Rightarrow> (string \<times> json) list \<Rightarrow> (string option \<times> (string \<times> setting) list) list
     \<Rightarrow> server_config \<Rightarrow> server_config option" where
  "read_script dbl ms [] c = Some c"
| "read_script dbl ms ((s, ks) # bs) c =
     Option.bind (read_keys dbl (members_of ms s) ks c) (read_script dbl ms bs)"

definition read_config :: "(rat \<Rightarrow> int) \<Rightarrow> json \<Rightarrow> server_config option" where
  "read_config dbl j =
     (case j of JObject ms \<Rightarrow> read_script dbl ms config_script default_config | _ \<Rightarrow> None)"

text \<open>The critical checks end with an error, the others add a warning.\<close>

definition validate_config :: "server_config \<Rightarrow> string list result" where
  "validate_config c =
     (let q = [CHR 0x22];
          warnings =
            (if sc_metricsEnabled c \<and> sc_metricsPort c = 0
             then [''metricsPort must be in the range 1-65535 when metrics are enabled''] else []) @
            (if sc_jwtExpirySeconds c \<le> 0 then [''jwtExpirySeconds must be positive''] else []) @
            (if sc_workerThreads c < 1 then [''workerThreads must be at least 1''] else []) @
            (if sc_connectionLimitPerHost c < 1 then [''connectionLimitPerHost must be at least 1''] else []) @
            (if sc_globalConnectionLimit c < sc_connectionLimitPerHost c
             then [''globalConnectionLimit must be >= connectionLimitPerHost''] else [])
      in if sc_httpPort c = 0
         then fail InvalidConfig ''httpPort must be in the range 1-65535 (got 0)''
         else if sc_bindAddress c = [] then fail InvalidConfig ''bindAddress must not be empty''
         else if sc_jwtAlgorithm c \<noteq> alg_RS256
         then fail InvalidConfig (''jwtAlgorithm must be '' @ q @ ''RS256'' @ q @ '' (got '' @ q
                @ sc_jwtAlgorithm c @ q @ ''). HS256 is no longer supported.'')
         else if sc_tlsEnabled c \<and> sc_tlsCertFile c = []
         then fail InvalidConfig ''tlsCertFile must not be empty when TLS is enabled''
         else if sc_tlsEnabled c \<and> sc_tlsKeyFile c = []
         then fail InvalidConfig ''tlsKeyFile must not be empty when TLS is enabled''
         else ok warnings)"

text \<open>
  \<open>content\<close> is what the file contains, \<open>None\<close> if it cannot be opened; \<open>what\<close> is the message of a
  parse error. The outer \<open>None\<close> is an exception, which \<^verbatim>\<open>from_file\<close> catches for parse errors only.
\<close>

definition checked_config :: "server_config \<Rightarrow> server_config result" where
  "checked_config c = (case validate_config c of Inl e \<Rightarrow> Inl e | Inr _ \<Rightarrow> ok c)"

definition from_file ::
  "(rat \<Rightarrow> int) \<Rightarrow> (string \<Rightarrow> parse_result) \<Rightarrow> string \<Rightarrow> string \<Rightarrow> string option \<Rightarrow> server_config result option" where
  "from_file dbl parse what path content =
     (case content of
        None \<Rightarrow> Some (fail InvalidConfig (''failed to open config file: '' @ path))
      | Some text \<Rightarrow>
          (case parse text of
             Parse_error \<Rightarrow> Some (fail InvalidConfig (''JSON parse error: '' @ what))
           | Parse_throws \<Rightarrow> None
           | Parsed j \<Rightarrow> map_option checked_config (read_config dbl j)))"

section \<open>Reading the registry\<close>

text \<open>
  A value of the registry key, as the operating system reports it. A text must fit the buffer of
  1024 characters with its terminator, otherwise it is not read.
\<close>

datatype registry_value = Reg_dword "32 word" | Reg_sz string

definition set_from_registry :: "setting \<Rightarrow> registry_value option \<Rightarrow> server_config \<Rightarrow> server_config" where
  "set_from_registry f v c =
     (let put = (\<lambda>j. case set_setting (\<lambda>_. 0) f j c of None \<Rightarrow> c | Some c' \<Rightarrow> c')
      in case v of
           Some (Reg_dword w) \<Rightarrow>
             if f \<in> set flags then put (JBool (w \<noteq> 0))
             else if f \<in> set ports \<or> f \<in> set numbers then put (JInt (sint w))
             else c
         | Some (Reg_sz s) \<Rightarrow>
             if f \<in> set flags \<or> f \<in> set ports \<or> f \<in> set numbers \<or> 1023 < length s then c else put (JString s)
         | None \<Rightarrow> c)"

definition registry_script :: "(string \<times> setting) list" where
  "registry_script =
     [(''httpEnabled'', HttpEnabled), (''tlsEnabled'', TlsEnabled), (''metricsEnabled'', MetricsEnabled),
      (''httpPort'', HttpPort), (''metricsPort'', MetricsPort),
      (''connectionLimitPerHost'', ConnectionLimitPerHost),
      (''globalConnectionLimit'', GlobalConnectionLimit),
      (''connectionLifetimeSec'', ConnectionLifetimeSec),
      (''connectionIdleTimeoutSec'', ConnectionIdleTimeoutSec),
      (''authTimeoutSec'', AuthTimeoutSec), (''workerThreads'', WorkerThreads),
      (''jwtExpirySeconds'', JwtExpirySeconds),
      (''bindAddress'', BindAddress), (''tlsCertFile'', TlsCertFile), (''tlsKeyFile'', TlsKeyFile),
      (''jwtSecret'', JwtSecret), (''jwtAlgorithm'', JwtAlgorithm),
      (''jwtPrivateKeyFile'', JwtPrivateKeyFile), (''jwtPublicKeyFile'', JwtPublicKeyFile),
      (''databaseDir'', DatabaseDir), (''hub32PluginDir'', Hub32PluginDir), (''usersFile'', UsersFile),
      (''agentKeyFile'', AgentKeyFile), (''authKeyFile'', AuthKeyFile),
      (''tokenRevocationFile'', TokenRevocationFile), (''logLevel'', LogLevel), (''logFile'', LogFile),
      (''auditLogFile'', AuditLogFile), (''turnSecret'', TurnSecret), (''turnServerUrl'', TurnServerUrl)]"

text \<open>\<open>query\<close> answers the values of the key, \<open>None\<close> when there is no such key at all.\<close>

definition from_registry :: "(string \<Rightarrow> registry_value option) option \<Rightarrow> server_config result" where
  "from_registry query =
     (case query of
        None \<Rightarrow> fail InvalidConfig ''registry key not found''
      | Some q \<Rightarrow>
          checked_config (foldl (\<lambda>c (k, f). set_from_registry f (q k) c) default_config registry_script))"

section \<open>Which spelling is in force\<close>

text \<open>
  Most settings can be written in two ways: as a member of the file, or as a member of a
  section. The settings of the sections \<open>connections\<close>, \<open>threads\<close> and \<open>auth\<close> prefer the first,
  all others the second.
\<close>

fun flat_key :: "setting \<Rightarrow> string option" where
  "flat_key LocalesDir = None"
| "flat_key DefaultLocale = None"
| "flat_key HttpEnabled = Some ''httpEnabled''"
| "flat_key HttpPort = Some ''httpPort''"
| "flat_key BindAddress = Some ''bindAddress''"
| "flat_key TlsEnabled = Some ''tlsEnabled''"
| "flat_key TlsCertFile = Some ''tlsCertFile''"
| "flat_key TlsKeyFile = Some ''tlsKeyFile''"
| "flat_key ConnectionLimitPerHost = Some ''connectionLimitPerHost''"
| "flat_key GlobalConnectionLimit = Some ''globalConnectionLimit''"
| "flat_key ConnectionLifetimeSec = Some ''connectionLifetimeSec''"
| "flat_key ConnectionIdleTimeoutSec = Some ''connectionIdleTimeoutSec''"
| "flat_key AuthTimeoutSec = Some ''authTimeoutSec''"
| "flat_key WorkerThreads = Some ''workerThreads''"
| "flat_key JwtSecret = Some ''jwtSecret''"
| "flat_key JwtExpirySeconds = Some ''jwtExpirySeconds''"
| "flat_key JwtAlgorithm = Some ''jwtAlgorithm''"
| "flat_key JwtPrivateKeyFile = Some ''jwtPrivateKeyFile''"
| "flat_key JwtPublicKeyFile = Some ''jwtPublicKeyFile''"
| "flat_key TokenRevocationFile = Some ''tokenRevocationFile''"
| "flat_key UsersFile = Some ''usersFile''"
| "flat_key AgentKeyFile = Some ''agentKeyFile''"
| "flat_key AuthKeyFile = Some ''authKeyFile''"
| "flat_key DatabaseDir = Some ''databaseDir''"
| "flat_key Hub32PluginDir = Some ''hub32PluginDir''"
| "flat_key LogLevel = Some ''logLevel''"
| "flat_key LogFile = Some ''logFile''"
| "flat_key AuditLogFile = Some ''auditLogFile''"
| "flat_key SfuBackend = Some ''sfuBackend''"
| "flat_key SfuWorkerCount = Some ''sfuWorkerCount''"
| "flat_key RtcMinPort = Some ''rtcMinPort''"
| "flat_key RtcMaxPort = Some ''rtcMaxPort''"
| "flat_key TurnSecret = Some ''turnSecret''"
| "flat_key TurnServerUrl = Some ''turnServerUrl''"
| "flat_key MetricsEnabled = Some ''metricsEnabled''"
| "flat_key MetricsPort = Some ''metricsPort''"
| "flat_key SmtpHost = Some ''smtpHost''"
| "flat_key SmtpPort = Some ''smtpPort''"
| "flat_key SmtpUseTls = Some ''smtpUseTls''"
| "flat_key SmtpUsername = Some ''smtpUsername''"
| "flat_key SmtpPasswordFile = Some ''smtpPasswordFile''"
| "flat_key SmtpFromAddress = Some ''smtpFromAddress''"
| "flat_key SmtpFromName = Some ''smtpFromName''"
| "flat_key SmtpTimeoutSec = Some ''smtpTimeoutSec''"
| "flat_key SmtpVerifySsl = Some ''smtpVerifySsl''"
| "flat_key AppBaseUrl = Some ''appBaseUrl''"
| "flat_key Environment = Some ''environment''"

fun section_key :: "setting \<Rightarrow> (string \<times> string) option" where
  "section_key HttpEnabled = Some (''http'', ''enabled'')"
| "section_key HttpPort = Some (''http'', ''port'')"
| "section_key BindAddress = Some (''http'', ''bindAddress'')"
| "section_key TlsEnabled = Some (''tls'', ''enabled'')"
| "section_key TlsCertFile = Some (''tls'', ''certFile'')"
| "section_key TlsKeyFile = Some (''tls'', ''keyFile'')"
| "section_key ConnectionLimitPerHost = Some (''connections'', ''limitPerHost'')"
| "section_key GlobalConnectionLimit = Some (''connections'', ''globalLimit'')"
| "section_key ConnectionLifetimeSec = Some (''connections'', ''lifetimeSec'')"
| "section_key ConnectionIdleTimeoutSec = Some (''connections'', ''idleTimeoutSec'')"
| "section_key AuthTimeoutSec = Some (''connections'', ''authTimeoutSec'')"
| "section_key WorkerThreads = Some (''threads'', ''workerCount'')"
| "section_key JwtSecret = Some (''jwt'', ''secret'')"
| "section_key JwtExpirySeconds = Some (''jwt'', ''expirySeconds'')"
| "section_key JwtAlgorithm = Some (''jwt'', ''algorithm'')"
| "section_key JwtPrivateKeyFile = Some (''jwt'', ''privateKeyFile'')"
| "section_key JwtPublicKeyFile = Some (''jwt'', ''publicKeyFile'')"
| "section_key TokenRevocationFile = Some (''jwt'', ''tokenRevocationFile'')"
| "section_key UsersFile = Some (''auth'', ''usersFile'')"
| "section_key AgentKeyFile = Some (''auth'', ''agentKeyFile'')"
| "section_key AuthKeyFile = Some (''auth'', ''authKeyFile'')"
| "section_key LogLevel = Some (''logging'', ''level'')"
| "section_key LogFile = Some (''logging'', ''file'')"
| "section_key AuditLogFile = Some (''logging'', ''auditLogFile'')"
| "section_key LocalesDir = Some (''i18n'', ''localesDir'')"
| "section_key DefaultLocale = Some (''i18n'', ''defaultLocale'')"
| "section_key SfuBackend = Some (''sfu'', ''backend'')"
| "section_key SfuWorkerCount = Some (''sfu'', ''workerCount'')"
| "section_key RtcMinPort = Some (''sfu'', ''rtcMinPort'')"
| "section_key RtcMaxPort = Some (''sfu'', ''rtcMaxPort'')"
| "section_key TurnSecret = Some (''turn'', ''secret'')"
| "section_key TurnServerUrl = Some (''turn'', ''serverUrl'')"
| "section_key SmtpHost = Some (''smtp'', ''host'')"
| "section_key SmtpPort = Some (''smtp'', ''port'')"
| "section_key SmtpUseTls = Some (''smtp'', ''useTls'')"
| "section_key SmtpUsername = Some (''smtp'', ''username'')"
| "section_key SmtpPasswordFile = Some (''smtp'', ''passwordFile'')"
| "section_key SmtpFromAddress = Some (''smtp'', ''fromAddress'')"
| "section_key SmtpFromName = Some (''smtp'', ''fromName'')"
| "section_key SmtpTimeoutSec = Some (''smtp'', ''timeoutSec'')"
| "section_key SmtpVerifySsl = Some (''smtp'', ''verifySsl'')"
| "section_key _ = None"

definition prefers_flat :: "setting \<Rightarrow> bool" where
  "prefers_flat f \<longleftrightarrow> (case section_key f of
     None \<Rightarrow> True | Some (s, _) \<Rightarrow> s \<in> {''connections'', ''threads'', ''auth''})"

definition flat_value :: "(string \<times> json) list \<Rightarrow> setting \<Rightarrow> json option" where
  "flat_value ms f = Option.bind (flat_key f) (map_of ms)"

definition section_value :: "(string \<times> json) list \<Rightarrow> setting \<Rightarrow> json option" where
  "section_value ms f =
     Option.bind (section_key f) (\<lambda>(s, k). map_of (members_of ms (Some s)) k)"

definition written :: "(string \<times> json) list \<Rightarrow> setting \<Rightarrow> json option" where
  "written ms f =
     (if prefers_flat f
      then (case flat_value ms f of None \<Rightarrow> section_value ms f | Some v \<Rightarrow> Some v)
      else (case section_value ms f of None \<Rightarrow> flat_value ms f | Some v \<Rightarrow> Some v))"

definition option_list :: "'a option \<Rightarrow> 'a list" where
  "option_list x = (case x of None \<Rightarrow> [] | Some v \<Rightarrow> [v])"

lemma option_list_simps [simp]: "option_list None = []" "option_list (Some v) = [v]"
  by (simp_all add: option_list_def)

definition values_for :: "(string \<times> json) list \<Rightarrow> (string \<times> setting) list \<Rightarrow> setting \<Rightarrow> json list" where
  "values_for ms ks f = concat (map (\<lambda>(k, g). if g = f then option_list (map_of ms k) else []) ks)"

lemma read_keys_get:
  assumes "read_keys dbl ms ks c = Some c'"
  shows "get_setting f c' = foldl (\<lambda>_ v. the (converted dbl f v)) (get_setting f c) (values_for ms ks f)"
  using assms
proof (induction ks arbitrary: c)
  case (Cons e ks)
  obtain k g where e: "e = (k, g)" by force
  show ?case
  proof (cases "map_of ms k")
    case None
    with Cons show ?thesis by (simp add: e values_for_def)
  next
    case (Some v)
    with Cons.prems obtain c1 where 1: "set_setting dbl g v c = Some c1" and 2: "read_keys dbl ms ks c1 = Some c'"
      by (auto simp: e bind_eq_Some_conv)
    show ?thesis
      using Cons.IH [OF 2] set_setting_own [OF 1] set_setting_other [OF 1, of f] Some
      by (auto simp: e values_for_def)
  qed
qed (simp add: values_for_def)

lemma read_script_get:
  assumes "read_script dbl ms bs c = Some c'"
  shows "get_setting f c' =
     foldl (\<lambda>_ v. the (converted dbl f v)) (get_setting f c)
       (concat (map (\<lambda>(s, ks). values_for (members_of ms s) ks f) bs))"
  using assms
proof (induction bs arbitrary: c)
  case (Cons b bs)
  obtain s ks where b: "b = (s, ks)" by force
  with Cons.prems obtain c1 where 1: "read_keys dbl (members_of ms s) ks c = Some c1"
    and 2: "read_script dbl ms bs c1 = Some c'"
    by (auto simp: bind_eq_Some_conv)
  show ?case
    by (simp add: b Cons.IH [OF 2] read_keys_get [OF 1])
qed simp

lemma script_values:
  "concat (map (\<lambda>(s, ks). values_for (members_of ms s) ks f) config_script)
   = (if prefers_flat f then option_list (section_value ms f) @ option_list (flat_value ms f)
      else option_list (flat_value ms f) @ option_list (section_value ms f))"
  by (cases f) (simp_all add: config_script_def values_for_def prefers_flat_def flat_value_def section_value_def)

lemma checked_config_ok: "checked_config z = Inr cfg \<longleftrightarrow> z = cfg \<and> is_ok (validate_config cfg)"
  by (cases "validate_config z") (auto simp: checked_config_def ok_def is_ok_def)

lemma from_file_accepted:
  "from_file dbl parse what path (Some text) = Some (Inr cfg) \<longleftrightarrow>
     (\<exists>ms. parse text = Parsed (JObject ms)
        \<and> read_script dbl ms config_script default_config = Some cfg \<and> is_ok (validate_config cfg))"
  by (auto simp: from_file_def read_config_def checked_config_ok fail_def
      split: parse_result.splits json.splits)

text \<open>
  C24: Every setting of a configuration that was accepted is the one that is written for it: the
  member of the file if the setting belongs to the sections connections, threads or auth, the
  member of the section if it belongs to another, the other spelling if that one is missing,
  and the default if both are.
\<close>

theorem settings_in_force:
  assumes "from_file dbl parse what path (Some text) = Some (Inr cfg)"
    and "parse text = Parsed (JObject ms)"
  shows "get_setting f cfg =
     (case written ms f of
        None \<Rightarrow> get_setting f default_config
      | Some v \<Rightarrow> the (converted dbl f v))"
proof -
  have "read_script dbl ms config_script default_config = Some cfg"
    using assms by (simp add: from_file_accepted)
  from read_script_get [OF this, of f] show ?thesis
    unfolding script_values by (auto simp: written_def split: option.split)
qed

lemma validate_ok:
  "is_ok (validate_config c) \<longleftrightarrow>
     sc_httpPort c \<noteq> 0 \<and> sc_bindAddress c \<noteq> [] \<and> sc_jwtAlgorithm c = alg_RS256
     \<and> (if sc_tlsEnabled c then sc_tlsCertFile c \<noteq> [] \<and> sc_tlsKeyFile c \<noteq> [] else True)"
  by (auto simp: validate_config_def Let_def is_ok_def ok_def fail_def)

text \<open>
  A file is accepted exactly if it parses to an object whose known members have fitting
  types, and the result has a port, an address to bind, RS256 as its algorithm and, with TLS
  enabled, both files; limits and thread counts are not among the conditions.
\<close>

theorem config_accepted_exactly:
  "from_file dbl parse what path content = Some (Inr cfg) \<longleftrightarrow>
     (\<exists>text ms. content = Some text \<and> parse text = Parsed (JObject ms)
        \<and> read_script dbl ms config_script default_config = Some cfg)
     \<and> sc_httpPort cfg \<noteq> 0 \<and> sc_bindAddress cfg \<noteq> [] \<and> sc_jwtAlgorithm cfg = alg_RS256
     \<and> (if sc_tlsEnabled cfg then sc_tlsCertFile cfg \<noteq> [] \<and> sc_tlsKeyFile cfg \<noteq> [] else True)"
proof (cases content)
  case None
  then show ?thesis by (simp add: from_file_def fail_def)
next
  case (Some content')
  then show ?thesis unfolding Some from_file_accepted validate_ok by auto
qed

definition sample_config_members :: "(string \<times> json) list" where
  "sample_config_members =
     [(''httpPort'', JInt 8080),
      (''http'', JObject [(''port'', JInt 65616)]),
      (''connectionLimitPerHost'', JInt 7),
      (''connections'', JObject [(''limitPerHost'', JInt 2), (''globalLimit'', JInt 0)])]"

lemma sample_config_read:
  "read_script dbl sample_config_members config_script default_config
   = Some (default_config\<lparr>sc_httpPort := 80, sc_connectionLimitPerHost := 7, sc_globalConnectionLimit := 0\<rparr>)"
  by (simp add: sample_config_members_def config_script_def json_get_port_def json_get_int_def default_config_def)

lemma sample_config_accepted:
  "from_file dbl (\<lambda>_. Parsed (JObject sample_config_members)) what path (Some text)
   = Some (Inr (default_config\<lparr>sc_httpPort := 80, sc_connectionLimitPerHost := 7, sc_globalConnectionLimit := 0\<rparr>))"
  by (simp add: from_file_accepted sample_config_read validate_ok)
    (simp add: default_config_def alg_RS256_def)

text \<open>The section wins for the port, which wraps, and loses for the limit.\<close>

lemma sample_config_written:
  "written sample_config_members HttpPort = Some (JInt 65616)"
  "written sample_config_members ConnectionLimitPerHost = Some (JInt 7)"
  by (simp_all add: written_def prefers_flat_def flat_value_def section_value_def sample_config_members_def)

theorem settings_in_force_witness:
  "get_setting HttpPort (default_config\<lparr>sc_httpPort := 80, sc_connectionLimitPerHost := 7,
      sc_globalConnectionLimit := 0\<rparr>) = JInt 80"
  using settings_in_force [OF sample_config_accepted refl, of HttpPort, unfolded sample_config_written]
  by (simp add: converted_def flags_def ports_def json_get_port_def)

section \<open>What the registry can set\<close>

lemma set_from_registry_other:
  "g \<noteq> f \<Longrightarrow> get_setting g (set_from_registry f v c) = get_setting g c"
  by (auto simp: set_from_registry_def Let_def set_setting_other split: option.split registry_value.split)

lemma registry_fold_other:
  assumes "f \<notin> snd ` set ks"
  shows "get_setting f (foldl (\<lambda>c (k, f). set_from_registry f (q k) c) c ks) = get_setting f c"
  using assms by (induction ks arbitrary: c) (auto simp: set_from_registry_other)

text \<open>
  Whatever the registry holds, a server that takes its configuration from there speaks the
  default language, uses the development backend for media, sends no mail and counts itself as
  a development environment: these settings exist in files only.
\<close>

theorem registry_leaves_defaults:
  assumes "from_registry query = Inr cfg"
    and "f \<in> {LocalesDir, DefaultLocale, SfuBackend, SfuWorkerCount, RtcMinPort, RtcMaxPort, SmtpHost,
      SmtpPort, SmtpUseTls, SmtpUsername, SmtpPasswordFile, SmtpFromAddress, SmtpFromName,
      SmtpTimeoutSec, SmtpVerifySsl, AppBaseUrl, Environment}"
  shows "get_setting f cfg = get_setting f default_config"
proof -
  obtain q where "cfg = foldl (\<lambda>c (k, f). set_from_registry f (q k) c) default_config registry_script"
    using assms(1) by (auto simp: from_registry_def checked_config_def ok_def fail_def split: option.splits sum.splits)
  moreover have "f \<notin> snd ` set registry_script"
    using assms(2) by (auto simp: registry_script_def)
  ultimately show ?thesis by (simp add: registry_fold_other)
qed

theorem registry_leaves_defaults_witness:
  "get_setting Environment (default_config\<lparr>sc_workerThreads := -1\<rparr>) = JString ''development''"
proof -
  have "from_registry (Some (\<lambda>k. if k = ''workerThreads'' then Some (Reg_dword (-1)) else None))
      = Inr (default_config\<lparr>sc_workerThreads := -1\<rparr>)"
    by (simp add: from_registry_def registry_script_def set_from_registry_def checked_config_def ok_def
        validate_config_def Let_def flags_def ports_def numbers_def json_get_int_def default_config_def alg_RS256_def)
  from registry_leaves_defaults [OF this, of Environment] show ?thesis
    by (simp add: default_config_def)
qed

end
