(* ===== verification/Http_Server.thy ===== *)
theory Http_Server
  imports Server_Config Agent_Endpoints Connection_Pool
begin

text \<open>
  The server as a whole: what src/src/server/HttpServer.cpp derives from the configuration, the
  callback that carries lost agents into the database, and the life of the process from
  src/src/service/main.cpp. The HTTP library is the argument \<open>lib_stop\<close>. The lemmas show what a
  pass of the heartbeat monitor does to the tables, that a stop request ends a server that
  listens, and that one which comes too early is lost.
\<close>

section \<open>From the configuration\<close>

text \<open>\<^verbatim>\<open>std::getline\<close> and the loop that trims the end of the line; \<open>None\<close>: no such file.\<close>

definition first_line :: "string \<Rightarrow> string" where
  "first_line text = takeWhile (\<lambda>c. c \<noteq> CHR 0x0A) text"

definition trim_end :: "string \<Rightarrow> string" where
  "trim_end s = rev (dropWhile (\<lambda>c. c \<in> {CHR 0x0A, CHR 0x0D, CHR '' ''}) (rev s))"

definition loadKeyHash :: "string \<Rightarrow> string option \<Rightarrow> string" where
  "loadKeyHash filePath content =
     (if filePath = [] then []
      else case content of None \<Rightarrow> [] | Some text \<Rightarrow> trim_end (first_line text))"

definition smtp_password :: "server_config \<Rightarrow> string option \<Rightarrow> string" where
  "smtp_password cfg content =
     (if sc_smtpPasswordFile cfg = [] then []
      else case content of None \<Rightarrow> [] | Some text \<Rightarrow> trim_end (first_line text))"

definition limits_of :: "server_config \<Rightarrow> limits" where
  "limits_of cfg =
     \<lparr>perHost = sc_connectionLimitPerHost cfg, global = sc_globalConnectionLimit cfg,
      lifetimeSec = sc_connectionLifetimeSec cfg, idleSec = sc_connectionIdleTimeoutSec cfg\<rparr>"

definition jwt_config_of :: "server_config \<Rightarrow> jwt_config" where
  "jwt_config_of cfg =
     \<lparr>jc_jwtAlgorithm = sc_jwtAlgorithm cfg, jc_jwtExpirySeconds = sc_jwtExpirySeconds cfg,
      jc_jwtPrivateKeyFile = sc_jwtPrivateKeyFile cfg, jc_jwtPublicKeyFile = sc_jwtPublicKeyFile cfg,
      jc_tokenRevocationFile = sc_tokenRevocationFile cfg\<rparr>"

definition app_base_url :: "server_config \<Rightarrow> string" where
  "app_base_url cfg =
     (if sc_appBaseUrl cfg = []
      then ''http://'' @ sc_bindAddress cfg @ '':'' @ decimal_nat (unat (sc_httpPort cfg))
      else sc_appBaseUrl cfg)"

text \<open>The constructor throws when TLS is enabled without its files.\<close>

definition tls_complete :: "server_config \<Rightarrow> bool" where
  "tls_complete cfg \<longleftrightarrow> \<not> (sc_tlsEnabled cfg \<and> (sc_tlsCertFile cfg = [] \<or> sc_tlsKeyFile cfg = []))"

section \<open>Lost agents\<close>

text \<open>
  The callback of the heartbeat monitor looks the computer up by the host name of the agent.
  \<open>find_oc\<close> and \<open>state_oc\<close> are what the database does with the two statements.
\<close>

definition agent_offline :: "sql_call \<Rightarrow> sql_call \<Rightarrow> uid \<Rightarrow> registry \<Rightarrow> org_db \<Rightarrow> registry \<times> org_db" where
  "agent_offline find_oc state_oc i g db =
     (updateState i Offline g,
      case findAgent i g of
        Inl _ \<Rightarrow> db
      | Inr a \<Rightarrow>
          (case find_computer_by_hostname find_oc (ai_hostname a) db of
             Inl _ \<Rightarrow> db
           | Inr c \<Rightarrow> snd (update_computer_state state_oc (cp_id c) ''offline'' db)))"

text \<open>The pass of the monitor with this callback.\<close>

fun offline_walk ::
  "int \<Rightarrow> timestamp \<Rightarrow> (uid \<Rightarrow> sql_call \<times> sql_call) \<Rightarrow> agent_info list \<Rightarrow> registry \<Rightarrow> org_db
     \<Rightarrow> registry \<times> org_db" where
  "offline_walk timeout now ocs [] g db = (g, db)"
| "offline_walk timeout now ocs (a # as) g db =
     (if ai_state a = Offline then offline_walk timeout now ocs as g db
      else if now - ai_lastHeartbeat a > timeout then
        let i = ai_agentId a;
            (g', db') = agent_offline (fst (ocs i)) (snd (ocs i)) i (updateState i Offline g) db
        in offline_walk timeout now ocs as g' db'
      else offline_walk timeout now ocs as g db)"

lemma updateState_twice [simp]: "updateState i st (updateState i st g) = updateState i st g"
  by (simp add: updateState_def split: option.split)

lemma offline_walk_registry:
  "fst (offline_walk timeout now ocs as g db) = fst (monitor_walk timeout now as g)"
  by (induction as arbitrary: g db) (simp_all add: agent_offline_def Let_def split_beta)

text \<open>With distinct identifiers and host names the row of a host is found and marked.\<close>

definition hosts_distinct :: "org_db \<Rightarrow> bool" where
  "hosts_distinct db \<longleftrightarrow> distinct (map co_id (od_computers db)) \<and> distinct (map co_hostname (od_computers db))"

definition mark_host :: "string \<Rightarrow> computer_row \<Rightarrow> computer_row" where
  "mark_host h r = (if co_hostname r = h then r\<lparr>co_state := ''offline''\<rparr> else r)"

lemma mark_host_keys [simp]:
  "co_id (mark_host h r) = co_id r" "co_hostname (mark_host h r) = co_hostname r"
  by (simp_all add: mark_host_def)

lemma agent_offline_rows:
  assumes "hosts_distinct db" and "m_agents g i = Some a"
  shows "snd (agent_offline Completes Completes i g db)
     = db\<lparr>od_computers := map (mark_host (ai_hostname a)) (od_computers db)\<rparr>"
proof (cases "find (\<lambda>r. co_hostname r = ai_hostname a) (od_computers db)")
  case None
  then have "map (mark_host (ai_hostname a)) (od_computers db) = od_computers db"
    by (intro map_idI) (auto simp: mark_host_def find_None_iff)
  with None assms(2) show ?thesis
    by (simp add: agent_offline_def findAgent_def ok_def fail_def find_computer_by_hostname_def run_select_one_def)
next
  case (Some r)
  then have r: "r \<in> set (od_computers db)" "co_hostname r = ai_hostname a"
    by (auto simp: find_Some_iff)
  have same: "co_id x = co_id r \<longleftrightarrow> co_hostname x = ai_hostname a" if "x \<in> set (od_computers db)" for x
    using that r assms(1) unfolding hosts_distinct_def by (metis distinct_map inj_onD)
  have "sql_changes (\<lambda>x. co_id x = co_id r) (od_computers db) \<noteq> 0"
    using r(1) by (auto simp: sql_changes_0_iff)
  moreover have "sql_update (\<lambda>x. co_id x = co_id r) (\<lambda>x. x\<lparr>co_state := ''offline''\<rparr>) (od_computers db)
      = map (mark_host (ai_hostname a)) (od_computers db)"
    by (simp add: sql_update_def mark_host_def same)
  ultimately show ?thesis
    using Some assms(2)
    by (simp add: agent_offline_def findAgent_def ok_def find_computer_by_hostname_def run_select_one_def
        update_computer_state_def run_update_def recordFromStmt_def)
qed

definition all_complete :: "uid \<Rightarrow> sql_call \<times> sql_call" where
  "all_complete i = (Completes, Completes)"

lemma all_complete_calls [simp]:
  "fst (all_complete i) = Completes" "snd (all_complete i) = Completes"
  by (simp_all add: all_complete_def)

lemma hosts_distinct_mark [simp]:
  "hosts_distinct (db\<lparr>od_computers := map (mark_host h) (od_computers db)\<rparr>) = hosts_distinct db"
  by (simp add: hosts_distinct_def comp_def)

lemma offline_walk_rows:
  assumes "hosts_distinct db"
    and "\<forall>a \<in> set as. map_option ai_hostname (m_agents g (ai_agentId a)) = Some (ai_hostname a)"
  shows "snd (offline_walk timeout now all_complete as g db)
     = db\<lparr>od_computers := map (\<lambda>r. if \<exists>a \<in> set as. stale timeout now a \<and> ai_hostname a = co_hostname r
            then r\<lparr>co_state := ''offline''\<rparr> else r) (od_computers db)\<rparr>"
  using assms
proof (induction as arbitrary: g db)
  case (Cons a as)
  show ?case
  proof (cases "stale timeout now a")
    case False
    with Cons show ?thesis by (auto simp: stale_def)
  next
    case True
    let ?g = "updateState (ai_agentId a) Offline g"
    let ?db = "db\<lparr>od_computers := map (mark_host (ai_hostname a)) (od_computers db)\<rparr>"
    obtain b where b: "m_agents g (ai_agentId a) = Some b" "ai_hostname b = ai_hostname a"
      using Cons.prems(2) by auto
    have "m_agents ?g (ai_agentId a) = Some (b\<lparr>ai_state := Offline\<rparr>)"
      by (simp add: m_agents_updateState b(1))
    from agent_offline_rows [OF Cons.prems(1) this]
    have step: "agent_offline Completes Completes (ai_agentId a) ?g db = (?g, ?db)"
      by (simp add: agent_offline_def b(2) prod_eq_iff)
    have "\<forall>c \<in> set as. map_option ai_hostname (m_agents ?g (ai_agentId c)) = Some (ai_hostname c)"
      using Cons.prems(2) by (auto simp: m_agents_updateState)
    then have "snd (offline_walk timeout now all_complete as ?g ?db)
        = ?db\<lparr>od_computers := map (\<lambda>r. if \<exists>c \<in> set as. stale timeout now c \<and> ai_hostname c = co_hostname r
            then r\<lparr>co_state := ''offline''\<rparr> else r) (od_computers ?db)\<rparr>"
      by (intro Cons.IH) (simp_all add: Cons.prems(1))
    moreover have "ai_state a \<noteq> Offline" "now - ai_lastHeartbeat a > timeout"
      using True by (simp_all add: stale_def)
    ultimately show ?thesis
      using True by (auto simp: step mark_host_def comp_def split_beta intro!: arg_cong [where f = "\<lambda>x. db\<lparr>od_computers := x\<rparr>"])
  qed
qed simp

text \<open>
  A pass of the monitor carries lost agents into the database: the registry ends as the
  pass alone would leave it, and the rows of exactly those hosts that have an agent whose last
  heartbeat is older than the timeout say offline; nothing else changes. (The database answers,
  and identifiers and host names of its computers are distinct.)
\<close>

theorem lost_agents_shown:
  assumes "enumerates it" and "registry_inv g" and "hosts_distinct db"
  shows "offline_walk timeout now all_complete (listAgents it g) g db
     = (fst (monitor_pass it timeout now g),
        db\<lparr>od_computers := map (\<lambda>r.
          if \<exists>i a. m_agents g i = Some a \<and> stale timeout now a \<and> ai_hostname a = co_hostname r
          then r\<lparr>co_state := ''offline''\<rparr> else r) (od_computers db)\<rparr>)"
proof -
  note listed = listAgents_filed [OF assms(1,2)]
  have "m_agents g (ai_agentId a) = Some a" if "a \<in> set (listAgents it g)" for a
    using that listed(3) by blast
  then have known: "\<forall>a \<in> set (listAgents it g).
      map_option ai_hostname (m_agents g (ai_agentId a)) = Some (ai_hostname a)" by simp
  have ex: "(\<exists>a \<in> set (listAgents it g). P a) \<longleftrightarrow> (\<exists>i a. m_agents g i = Some a \<and> P a)" for P
    using listed(3) assms(2) by (metis registry_inv_known)
  show ?thesis
    by (simp add: prod_eq_iff offline_walk_registry monitor_pass_def offline_walk_rows [OF assms(3) known] ex)
qed

text \<open>
  A host whose agent has restarted is shown as offline although its new agent is online:
  the registry still has the identifier the agent had before, and when that one times out the
  row of the host is marked. It stays so until the next heartbeat of the new agent.
\<close>

theorem restarted_host_shown_offline:
  assumes "enumerates it" and "registry_inv g" and "hosts_distinct db"
    and "m_agents g i = Some old" and "stale timeout now old"
    and "m_agents g j = Some new" and "ai_state new = Online" and "\<not> stale timeout now new"
    and "ai_hostname new = ai_hostname old"
    and "r \<in> set (od_computers db)" and "co_hostname r = ai_hostname new"
  shows "case offline_walk timeout now all_complete (listAgents it g) g db of
     (g', db') \<Rightarrow> (\<exists>a. m_agents g' j = Some a \<and> ai_state a = Online)
       \<and> r\<lparr>co_state := ''offline''\<rparr> \<in> set (od_computers db')"
proof -
  have "offline_walk timeout now all_complete (listAgents it g) g db
     = (fst (monitor_walk timeout now (listAgents it g) g),
        db\<lparr>od_computers := map (\<lambda>r.
          if \<exists>a \<in> set (listAgents it g). stale timeout now a \<and> ai_hostname a = co_hostname r
          then r\<lparr>co_state := ''offline''\<rparr> else r) (od_computers db)\<rparr>)"
    using listAgents_filed(3) [OF assms(1,2)]
    by (simp add: prod_eq_iff offline_walk_registry offline_walk_rows [OF assms(3)])
  moreover have "old \<in> set (listAgents it g)" and no: "a \<in> set (listAgents it g) \<Longrightarrow> ai_agentId a = j \<Longrightarrow> a = new" for a
    using listAgents_filed(3) [OF assms(1,2)] assms(2,4,6) registry_inv_known by (metis, metis option.inject)
  moreover have "m_agents (fst (monitor_walk timeout now (listAgents it g) g)) j = Some new"
    using no assms(6,8) by (auto simp: monitor_walk_agents)
  ultimately show ?thesis using assms(5,7,9-11) by (auto intro!: image_eqI [where x = r])
qed

definition old_and_new :: registry where
  "old_and_new = heartbeat 190 ''b'' (snd (registerAgent 150 (sample_agent\<lparr>ai_agentId := ''b''\<rparr>)
     (snd (registerAgent 1 sample_agent empty_registry))))"

definition pc01_db :: org_db where
  "pc01_db = empty_org_db\<lparr>od_computers :=
     [\<lparr>co_id = ''c1'', co_location_id = None, co_hostname = ''PC-01'', co_mac_address = [],
       co_ip_last_seen = [], co_agent_version = [], co_last_heartbeat = 190, co_state = ''online'',
       co_position_x = 0, co_position_y = 0\<rparr>]\<rparr>"

lemma old_and_new_ok: "registry_inv old_and_new"
  unfolding old_and_new_def
  by (intro registry_inv_heartbeat registry_inv_register registry_inv_empty)

lemma old_and_new_agents:
  "m_agents old_and_new = [''a'' \<mapsto> sample_agent\<lparr>ai_state := Online, ai_registeredAt := 1, ai_lastHeartbeat := 1\<rparr>,
     ''b'' \<mapsto> sample_agent\<lparr>ai_agentId := ''b'', ai_state := Online, ai_registeredAt := 150, ai_lastHeartbeat := 190\<rparr>]"
  by (simp add: old_and_new_def heartbeat_def registerAgent_def sample_agent_def empty_registry_def)

lemma pc01_distinct: "hosts_distinct pc01_db"
  by (simp add: hosts_distinct_def pc01_db_def)

theorem lost_agents_shown_witness:
  "map co_state (od_computers (snd (offline_walk 90 200 all_complete (listAgents by_uid old_and_new)
     old_and_new pc01_db))) = [''offline'']"
  using lost_agents_shown [OF enumerates_by_uid old_and_new_ok pc01_distinct, of 90 200]
  by (auto simp: old_and_new_agents pc01_db_def stale_def sample_agent_def)

theorem restarted_host_shown_offline_witness:
  "(hd (od_computers pc01_db))\<lparr>co_state := ''offline''\<rparr>
     \<in> set (od_computers (snd (offline_walk 90 200 all_complete (listAgents by_uid old_and_new) old_and_new pc01_db)))"
  using restarted_host_shown_offline [OF enumerates_by_uid old_and_new_ok pc01_distinct,
      of "''a''" "the (m_agents old_and_new ''a'')" 90 200 "''b''" "the (m_agents old_and_new ''b'')"
        "hd (od_computers pc01_db)"]
  by (simp add: old_and_new_agents pc01_db_def stale_def sample_agent_def split_beta)

section \<open>The life of the process\<close>

text \<open>
  \<^verbatim>\<open>runServer\<close> has two threads: the main one calls \<open>start\<close>, which blocks while the library
  listens, then waits for the watcher; the watcher polls the flag that the signal handler sets
  and calls \<open>stop\<close> once. \<open>Entered\<close> is the main thread between setting the running flag and
  listening. What the library's own stop does to it is the argument \<open>lib_stop\<close>; it does not end
  the handlers that are at work, and the library's listening call returns only after they have.
  \<open>pc_handlers\<close> counts those: a handler of an event stream ends when a write to its client fails.
\<close>

datatype listener = Idle | Listening | Down

datatype main_phase = Starting | Entered | Blocked | Returned bool | Joined bool

datatype watcher_phase = Watching | Stopping | Ended

record process =
  pc_stopRequested :: bool
  pc_running :: bool
  pc_listener :: listener
  pc_main :: main_phase
  pc_watcher :: watcher_phase
  pc_handlers :: nat

definition new_process :: process where
  "new_process = \<lparr>pc_stopRequested = False, pc_running = False, pc_listener = Idle,
     pc_main = Starting, pc_watcher = Watching, pc_handlers = 0\<rparr>"

definition signal :: "process \<Rightarrow> process" where
  "signal s = s\<lparr>pc_stopRequested := True\<rparr>"

definition start_server :: "process \<Rightarrow> process" where
  "start_server s =
     (if pc_running s then s\<lparr>pc_main := Returned False\<rparr>
      else s\<lparr>pc_running := True, pc_main := Entered\<rparr>)"

definition listen_returns :: "bool \<Rightarrow> process \<Rightarrow> process" where
  "listen_returns result s = s\<lparr>pc_running := False, pc_main := Returned result\<rparr>"

definition stop_server :: "(listener \<Rightarrow> listener) \<Rightarrow> process \<Rightarrow> process" where
  "stop_server lib_stop s =
     (if pc_running s then s\<lparr>pc_running := False, pc_listener := lib_stop (pc_listener s)\<rparr> else s)"

text \<open>
  The steps; \<open>Listen_fails\<close> is a port that cannot be bound. Polls that find nothing do nothing.
  Signals and the requests that come and end are not the process's own.
\<close>

datatype process_step =
    Signal | Request_comes | Request_ends
  | Start | Listen | Listen_fails | Listen_ends | After_start | Poll | Stop | Join

definition own :: "process_step \<Rightarrow> bool" where
  "own e \<longleftrightarrow> e \<notin> {Signal, Request_comes, Request_ends}"

fun enabled :: "process_step \<Rightarrow> process \<Rightarrow> bool" where
  "enabled Signal s = True"
| "enabled Request_comes s = (pc_main s = Blocked \<and> pc_listener s = Listening)"
| "enabled Request_ends s = (0 < pc_handlers s)"
| "enabled Start s = (pc_main s = Starting)"
| "enabled Listen s = (pc_main s = Entered)"
| "enabled Listen_fails s = (pc_main s = Entered)"
| "enabled Listen_ends s = (pc_main s = Blocked \<and> pc_listener s = Down \<and> pc_handlers s = 0)"
| "enabled After_start s = (\<exists>ok. pc_main s = Returned ok \<and> \<not> pc_stopRequested s)"
| "enabled Poll s = (pc_watcher s = Watching \<and> pc_stopRequested s)"
| "enabled Stop s = (pc_watcher s = Stopping)"
| "enabled Join s = (\<exists>ok. pc_main s = Returned ok \<and> pc_stopRequested s \<and> pc_watcher s = Ended)"

fun process_exec :: "(listener \<Rightarrow> listener) \<Rightarrow> process_step \<Rightarrow> process \<Rightarrow> process" where
  "process_exec lib_stop Signal s = signal s"
| "process_exec lib_stop Request_comes s = s\<lparr>pc_handlers := pc_handlers s + 1\<rparr>"
| "process_exec lib_stop Request_ends s = s\<lparr>pc_handlers := pc_handlers s - 1\<rparr>"
| "process_exec lib_stop Start s = start_server s"
| "process_exec lib_stop Listen s = s\<lparr>pc_listener := Listening, pc_main := Blocked\<rparr>"
| "process_exec lib_stop Listen_fails s = listen_returns False s"
| "process_exec lib_stop Listen_ends s = listen_returns True s"
| "process_exec lib_stop After_start s = s\<lparr>pc_stopRequested := True\<rparr>"
| "process_exec lib_stop Poll s = s\<lparr>pc_watcher := Stopping\<rparr>"
| "process_exec lib_stop Stop s = (stop_server lib_stop s)\<lparr>pc_watcher := Ended\<rparr>"
| "process_exec lib_stop Join s =
     (case pc_main s of Returned b \<Rightarrow> s\<lparr>pc_main := Joined b\<rparr> | _ \<Rightarrow> s)"

inductive process_reachable :: "(listener \<Rightarrow> listener) \<Rightarrow> process \<Rightarrow> process \<Rightarrow> bool" for lib_stop where
  reach_refl: "process_reachable lib_stop s s"
| reach_step: "process_reachable lib_stop s t \<Longrightarrow> enabled e t
     \<Longrightarrow> process_reachable lib_stop s (process_exec lib_stop e t)"









fun process_run :: "(listener \<Rightarrow> listener) \<Rightarrow> process_step list \<Rightarrow> process \<Rightarrow> process option" where
  "process_run lib_stop [] s = Some s"
| "process_run lib_stop (e # es) s =
     (if enabled e s then process_run lib_stop es (process_exec lib_stop e s) else None)"


text \<open>The handlers are counted, and the listening call has not returned before the last has ended.\<close>

definition handlers_over :: "process \<Rightarrow> bool" where
  "handlers_over s \<longleftrightarrow> (pc_main s \<noteq> Blocked \<longrightarrow> pc_handlers s = 0)"

lemma handlers_over_exec: "handlers_over s \<Longrightarrow> enabled e s \<Longrightarrow> handlers_over (process_exec lib_stop e s)"
  by (cases e) (auto simp: handlers_over_def signal_def start_server_def listen_returns_def stop_server_def)

lemma handlers_run:
  "process_run lib_stop es s = Some t \<Longrightarrow> handlers_over s \<Longrightarrow>
     handlers_over t \<and> count_list es Request_ends + pc_handlers t = pc_handlers s + count_list es Request_comes"
proof (induction es arbitrary: s)
  case (Cons e es)
  from Cons.prems have e: "enabled e s" and run: "process_run lib_stop es (process_exec lib_stop e s) = Some t"
    by (auto split: if_splits)
  from Cons.IH [OF run handlers_over_exec [OF Cons.prems(2) e]] e show ?case
    by (cases e) (auto simp: signal_def start_server_def listen_returns_def stop_server_def split: main_phase.splits)
qed simp


text \<open>A stop while one event stream is open: the process ends after its client has gone.\<close>

definition streaming_process :: process where
  "streaming_process = \<lparr>pc_stopRequested = True, pc_running = True, pc_listener = Listening, pc_main = Blocked,
     pc_watcher = Watching, pc_handlers = 1\<rparr>"


text \<open>
  An event stream that its client keeps open holds the server for ever: no run in which no
  handler ends comes past the listening call.
\<close>

theorem event_stream_holds_server:
  assumes "pc_main s = Blocked" and "0 < pc_handlers s" and "process_run lib_stop es s = Some t"
    and "Request_ends \<notin> set es"
  shows "pc_main t = Blocked"
proof -
  have "count_list es Request_ends = 0" using assms(4) by (simp add: count_list_0_iff)
  with handlers_run [OF assms(3)] assms(1,2) have "handlers_over t" "0 < pc_handlers t"
    by (auto simp: handlers_over_def)
  then show ?thesis by (auto simp: handlers_over_def)
qed

theorem event_stream_holds_server_witness:
  "\<exists>s. process_run (\<lambda>_. Down) [Poll, Stop, Signal] streaming_process = Some s \<and> pc_main s = Blocked"
  using event_stream_holds_server [of streaming_process "\<lambda>_. Down" "[Poll, Stop, Signal]"]
  by (simp add: streaming_process_def stop_server_def signal_def)

text \<open>
  A stop request that comes before the server has started is lost: the watcher finds
  nothing running, calls nothing and ends; then the server starts and listens, and from then on
  no step of the process itself is possible: requests come and end, signals come, and nobody
  looks at them.
\<close>

theorem early_stop_lost:
  "\<exists>s. process_reachable lib_stop new_process s \<and> pc_stopRequested s \<and> pc_main s = Blocked
     \<and> (\<forall>t. process_reachable lib_stop s t \<longrightarrow> pc_main t = Blocked \<and> pc_listener t = Listening
          \<and> (\<forall>e. enabled e t \<longrightarrow> \<not> own e))"
proof -
  let ?es = "[Signal, Poll, Stop, Start, Listen]"
  let ?s = "\<lparr>pc_stopRequested = True, pc_running = True, pc_listener = Listening,
    pc_main = Blocked, pc_watcher = Ended, pc_handlers = 0\<rparr>"
  have run: "process_run lib_stop ?es new_process = Some ?s"
    by (simp add: new_process_def signal_def stop_server_def start_server_def)
  have reach: "process_reachable lib_stop a b" if "process_run lib_stop es c = Some b" "process_reachable lib_stop a c"
    for es a b c
    using that by (induction es arbitrary: c) (auto split: if_splits intro: reach_step)
  have stuck: "pc_main t = Blocked \<and> pc_listener t = Listening \<and> pc_watcher t = Ended"
    if "process_reachable lib_stop ?s t" for t
    using that
  proof (induction "?s" t rule: process_reachable.induct)
    case (reach_step t e)
    then show ?case by (cases e) (auto simp: signal_def)
  qed simp
  have "\<not> own e" if "process_reachable lib_stop ?s t" "enabled e t" for t e
    using stuck [OF that(1)] that(2) by (cases e) (auto simp: own_def)
  then show ?thesis
    using reach [OF run reach_refl] stuck by (intro exI [of _ ?s]) auto
qed

end
