(* ===== verification/Agent_Client.thy ===== *)
theory Agent_Client
  imports Feature_Plugin Stream_Endpoints Request_Filters "HOL-Library.Countable"
begin

text \<open>
  The program on the machines of the pupils: src/agent/src/AgentConfig.cpp, AgentClient.cpp,
  CommandDispatcher.cpp, main.cpp and webrtc/SignalingClient.cpp under src/agent/src. The HTTP
  library carries requests to the server and responses back; a response is an argument, \<open>None\<close>
  when there is none. The lemmas put the client together with the handlers of the server: what
  the one prints the other reads, and where the two do not agree.
\<close>

section \<open>The configuration\<close>

record agent_config =
  gf_serverUrl :: string
  gf_agentKey :: string
  gf_pollIntervalMs :: int
  gf_heartbeatIntervalMs :: int
  gf_logLevel :: string
  gf_logFile :: string
  gf_caCertPath :: string
  gf_locationId :: string
  gf_streamWidth :: int
  gf_streamHeight :: int
  gf_streamFps :: int

definition default_agent_config :: agent_config where
  "default_agent_config =
     \<lparr>gf_serverUrl = ''http://127.0.0.1:11081'', gf_agentKey = [], gf_pollIntervalMs = 5000,
      gf_heartbeatIntervalMs = 30000, gf_logLevel = ''info'', gf_logFile = [], gf_caCertPath = [],
      gf_locationId = [], gf_streamWidth = 1920, gf_streamHeight = 1080, gf_streamFps = 15\<rparr>"

text \<open>
  A file that cannot be read or parsed gives the defaults; a member of another type throws, here
  \<open>None\<close>.
\<close>

definition agent_config_of :: "(rat \<Rightarrow> int) \<Rightarrow> json \<Rightarrow> agent_config option" where
  "agent_config_of conv j =
     (let c = default_agent_config in
      do { url \<leftarrow> json_value_string j ''serverUrl'' (gf_serverUrl c);
           key \<leftarrow> json_value_string j ''agentKey'' (gf_agentKey c);
           poll \<leftarrow> json_value_int conv j ''pollIntervalMs'' (gf_pollIntervalMs c);
           beat \<leftarrow> json_value_int conv j ''heartbeatIntervalMs'' (gf_heartbeatIntervalMs c);
           level \<leftarrow> json_value_string j ''logLevel'' (gf_logLevel c);
           logs \<leftarrow> json_value_string j ''logFile'' (gf_logFile c);
           ca \<leftarrow> json_value_string j ''caCertPath'' (gf_caCertPath c);
           loc \<leftarrow> json_value_string j ''locationId'' (gf_locationId c);
           w \<leftarrow> json_value_int conv j ''streamWidth'' (gf_streamWidth c);
           h \<leftarrow> json_value_int conv j ''streamHeight'' (gf_streamHeight c);
           fps \<leftarrow> json_value_int conv j ''streamFps'' (gf_streamFps c);
           Some \<lparr>gf_serverUrl = url, gf_agentKey = key, gf_pollIntervalMs = poll,
             gf_heartbeatIntervalMs = beat, gf_logLevel = level, gf_logFile = logs, gf_caCertPath = ca,
             gf_locationId = loc, gf_streamWidth = w, gf_streamHeight = h, gf_streamFps = fps\<rparr> })"

definition agent_config_from_file ::
  "(rat \<Rightarrow> int) \<Rightarrow> (string \<Rightarrow> parse_result) \<Rightarrow> string option \<Rightarrow> agent_config option" where
  "agent_config_from_file conv parse content =
     (case content of
        None \<Rightarrow> Some default_agent_config
      | Some s \<Rightarrow>
          (case parse s of
             Parse_error \<Rightarrow> Some default_agent_config
           | Parse_throws \<Rightarrow> None
           | Parsed j \<Rightarrow> agent_config_of conv j))"

section \<open>Dispatching commands\<close>

record pending_command =
  pe_commandId :: string
  pe_agentId :: string
  pe_featureUid :: string
  pe_operation :: string
  pe_arguments :: "(string \<times> string) list"

record dispatch_result =
  dp_success :: bool
  dp_result :: string
  dp_durationMs :: int

text \<open>A handler acts on the machine; \<open>Inl\<close> is the message of the exception it throws.\<close>

type_synonym 'w feature_handler =
  "string \<Rightarrow> (string \<times> string) list \<Rightarrow> 'w \<Rightarrow> (string + string) \<times> 'w"

type_synonym 'w handlers = "string \<rightharpoonup> 'w feature_handler"

definition registerHandler :: "(string \<times> 'w feature_handler) option \<Rightarrow> 'w handlers \<Rightarrow> 'w handlers" where
  "registerHandler h hs = (case h of None \<Rightarrow> hs | Some (uid, f) \<Rightarrow> hs(uid \<mapsto> f))"

text \<open>\<open>elapsed\<close> is the time the handler takes in milliseconds.\<close>

definition dispatch_command :: "'w handlers \<Rightarrow> int \<Rightarrow> pending_command \<Rightarrow> 'w \<Rightarrow> dispatch_result \<times> 'w" where
  "dispatch_command hs elapsed cmd w =
     (case hs (pe_featureUid cmd) of
        None \<Rightarrow>
          (\<lparr>dp_success = False, dp_result = ''Unknown feature: '' @ pe_featureUid cmd, dp_durationMs = 0\<rparr>, w)
      | Some f \<Rightarrow>
          let durationMs = sint (word_of_int elapsed :: 32 word)
          in (case f (pe_operation cmd) (pe_arguments cmd) w of
                (Inr r, w') \<Rightarrow> (\<lparr>dp_success = True, dp_result = r, dp_durationMs = durationMs\<rparr>, w')
              | (Inl what, w') \<Rightarrow> (\<lparr>dp_success = False, dp_result = what, dp_durationMs = durationMs\<rparr>, w')))"

text \<open>The handlers of \<^verbatim>\<open>createDispatcher\<close>, given what each of them does.\<close>

definition createDispatcher ::
  "'w feature_handler \<Rightarrow> 'w feature_handler \<Rightarrow> 'w feature_handler \<Rightarrow> 'w feature_handler
     \<Rightarrow> 'w feature_handler \<Rightarrow> 'w handlers" where
  "createDispatcher screenCapture screenLock inputLock messageDisplay powerControl =
     foldl (\<lambda>hs h. registerHandler (Some h) hs) Map.empty
       [(''screen-capture'', screenCapture), (''lock-screen'', screenLock), (''input-lock'', inputLock),
        (''message-display'', messageDisplay), (''power-control'', powerControl)]"

section \<open>The client\<close>

record agent_client =
  gc_agentId :: string
  gc_authToken :: string

definition new_client :: agent_client where
  "new_client = \<lparr>gc_agentId = [], gc_authToken = []\<rparr>"

definition isRegistered :: "agent_client \<Rightarrow> bool" where
  "isRegistered c \<longleftrightarrow> gc_agentId c \<noteq> [] \<and> gc_authToken c \<noteq> []"

definition agent_capabilities :: "string list" where
  "agent_capabilities = [''screen-capture'', ''lock-screen'', ''input-lock'', ''message-display'', ''power-control'']"

definition agent_registration_json :: "string \<Rightarrow> string \<Rightarrow> agent_config \<Rightarrow> json" where
  "agent_registration_json hostname os cfg = JObject
     [(''hostname'', JString hostname), (''agentKey'', JString (gf_agentKey cfg)), (''osVersion'', JString os),
      (''agentVersion'', JString ''1.0.0''), (''capabilities'', strings_json agent_capabilities)]"

text \<open>
  What the client makes of the answer to its registration: an exception leaves the members that
  were assigned before.
\<close>

definition take_registration ::
  "(rat \<Rightarrow> int) \<Rightarrow> agent_config \<Rightarrow> http_response option \<Rightarrow> agent_client \<Rightarrow> bool \<times> agent_client" where
  "take_registration conv cfg reply c =
     (case reply of
        None \<Rightarrow> (False, c)
      | Some res \<Rightarrow>
          if rs_status res \<noteq> 200 then (False, c)
          else case rs_body res of
            None \<Rightarrow> (False, c)
          | Some j \<Rightarrow>
              (case json_value_string j ''agentId'' [] of
                 None \<Rightarrow> (False, c)
               | Some i \<Rightarrow>
                   (case json_value_string j ''authToken'' [] of
                      None \<Rightarrow> (False, c\<lparr>gc_agentId := i\<rparr>)
                    | Some t \<Rightarrow>
                        if i = [] \<or> t = [] then (False, c\<lparr>gc_agentId := [], gc_authToken := []\<rparr>)
                        else (json_value_int conv j ''commandPollIntervalMs'' (gf_pollIntervalMs cfg) \<noteq> None,
                              c\<lparr>gc_agentId := i, gc_authToken := t\<rparr>))))"

definition agent_header :: "agent_client \<Rightarrow> string \<Rightarrow> string option" where
  "agent_header c = (\<lambda>h. if h = ''Authorization'' then Some (kBearerPrefix @ gc_authToken c) else None)"

text \<open>A request of the client as the server's router hands it to a handler, with the captures.\<close>

definition agent_request :: "agent_client \<Rightarrow> string \<Rightarrow> string \<Rightarrow> string list \<Rightarrow> string \<Rightarrow> http_request" where
  "agent_request c method path captures body =
     \<lparr>rq_method = method, rq_path = path, rq_remote_addr = [], rq_header = agent_header c, rq_body = body,
      rq_matches = path # captures\<rparr>"

definition agent_registration_request :: "string \<Rightarrow> http_request" where
  "agent_registration_request body =
     \<lparr>rq_method = ''POST'', rq_path = ''/api/v1/agents/register'', rq_remote_addr = [],
      rq_header = (\<lambda>_. None), rq_body = body, rq_matches = [''/api/v1/agents/register'']\<rparr>"

definition poll_request :: "agent_client \<Rightarrow> http_request" where
  "poll_request c =
     agent_request c ''GET'' (''/api/v1/agents/'' @ gc_agentId c @ ''/commands'') [gc_agentId c] []"

definition heartbeat_request :: "agent_client \<Rightarrow> http_request" where
  "heartbeat_request c =
     agent_request c ''POST'' (''/api/v1/agents/'' @ gc_agentId c @ ''/heartbeat'') [gc_agentId c] ''{}''"

text \<open>
  A command as the client reads it: arguments that are no strings are printed by \<open>dump\<close>. An
  exception leaves the commands read before it.
\<close>

definition command_from :: "(json \<Rightarrow> string) \<Rightarrow> json \<Rightarrow> pending_command option" where
  "command_from dump j =
     do { cid \<leftarrow> json_value_string j ''commandId'' [];
          aid \<leftarrow> json_value_string j ''agentId'' [];
          fid \<leftarrow> json_value_string j ''featureUid'' [];
          op \<leftarrow> json_value_string j ''operation'' [];
          Some \<lparr>pe_commandId = cid, pe_agentId = aid, pe_featureUid = fid, pe_operation = op,
            pe_arguments = (case json_at j ''arguments'' of
               Some (JObject ms) \<Rightarrow> map (\<lambda>(k, v). (k, case v of JString s \<Rightarrow> s | _ \<Rightarrow> dump v)) ms
             | _ \<Rightarrow> [])\<rparr> }"

fun commands_from :: "(json \<Rightarrow> string) \<Rightarrow> json list \<Rightarrow> pending_command list" where
  "commands_from dump [] = []"
| "commands_from dump (j # js) =
     (case command_from dump j of None \<Rightarrow> [] | Some cmd \<Rightarrow> cmd # commands_from dump js)"

definition take_commands :: "(json \<Rightarrow> string) \<Rightarrow> http_response option \<Rightarrow> pending_command list" where
  "take_commands dump reply =
     (case reply of
        None \<Rightarrow> []
      | Some res \<Rightarrow>
          if rs_status res \<noteq> 200 then []
          else (case rs_body res of Some (JArray js) \<Rightarrow> commands_from dump js | _ \<Rightarrow> []))"

definition report_json :: "pending_command \<Rightarrow> dispatch_result \<Rightarrow> json" where
  "report_json cmd r = JObject
     [(''commandId'', JString (pe_commandId cmd)),
      (''status'', JString (if dp_success r then ''success'' else ''failed'')),
      (''result'', JString (dp_result r)), (''durationMs'', JInt (dp_durationMs r))]"

definition report_request :: "agent_client \<Rightarrow> pending_command \<Rightarrow> string \<Rightarrow> http_request" where
  "report_request c cmd body =
     agent_request c ''PUT'' (''/api/v1/agents/'' @ gc_agentId c @ ''/commands/'' @ pe_commandId cmd)
       [gc_agentId c, pe_commandId cmd] body"

text \<open>
  \<^verbatim>\<open>sendHeartbeat\<close> looks at the status of the answer for its log only; \<^verbatim>\<open>unregister\<close> forgets the
  registration whatever the answer is.
\<close>

definition take_heartbeat :: "http_response option \<Rightarrow> agent_client \<Rightarrow> agent_client" where
  "take_heartbeat reply c = c"

definition take_unregistered :: "http_response option \<Rightarrow> agent_client \<Rightarrow> agent_client" where
  "take_unregistered reply c = (if gc_agentId c = [] then c else new_client)"

text \<open>The waiting time before the next attempt to register, in seconds.\<close>

definition next_retry_delay :: "int \<Rightarrow> int" where
  "next_retry_delay d = min (d * 2) 60"

section \<open>Signaling\<close>

text \<open>
  The client of the streaming part: what it makes of the answers of the stream endpoints. Every
  exception is caught.
\<close>

record ice_server_config =
  is_urls :: "string list"
  is_username :: string
  is_credential :: string

definition ice_server_from :: "json \<Rightarrow> ice_server_config option" where
  "ice_server_from j =
     do { urls \<leftarrow> (case json_at j ''urls'' of Some (JArray us) \<Rightarrow> all_some (map json_get_string us) | _ \<Rightarrow> None);
          user \<leftarrow> json_opt_string j ''username'' [];
          cred \<leftarrow> json_opt_string j ''credential'' [];
          Some \<lparr>is_urls = urls, is_username = user, is_credential = cred\<rparr> }"

fun ice_servers_from :: "json list \<Rightarrow> ice_server_config list" where
  "ice_servers_from [] = []"
| "ice_servers_from (j # js) =
     (case ice_server_from j of None \<Rightarrow> [] | Some c \<Rightarrow> c # ice_servers_from js)"

definition take_ice_servers :: "http_response option \<Rightarrow> ice_server_config list" where
  "take_ice_servers reply =
     (case reply of
        None \<Rightarrow> []
      | Some res \<Rightarrow>
          if rs_status res \<noteq> 200 then []
          else (case Option.bind (rs_body res) (\<lambda>j. json_at j ''iceServers'') of
                  Some (JArray js) \<Rightarrow> ice_servers_from js | _ \<Rightarrow> []))"

record transport_parameters =
  tp_id :: string
  tp_iceParameters :: json
  tp_iceCandidates :: json
  tp_dtlsParameters :: json
  tp_sctpParameters :: json

definition json_value_or :: "json \<Rightarrow> string \<Rightarrow> json \<Rightarrow> json option" where
  "json_value_or j k dflt =
     (case j of JObject ms \<Rightarrow> Some (case map_of ms k of None \<Rightarrow> dflt | Some v \<Rightarrow> v) | _ \<Rightarrow> None)"

definition take_transport :: "http_response option \<Rightarrow> transport_parameters option" where
  "take_transport reply =
     (case reply of
        None \<Rightarrow> None
      | Some res \<Rightarrow>
          if rs_status res \<noteq> 200 then None
          else do { j \<leftarrow> rs_body res;
                    i \<leftarrow> json_at_string j ''id'';
                    ice \<leftarrow> json_value_or j ''iceParameters'' (JObject []);
                    cands \<leftarrow> json_value_or j ''iceCandidates'' (JArray []);
                    dtls \<leftarrow> json_value_or j ''dtlsParameters'' (JObject []);
                    sctp \<leftarrow> json_value_or j ''sctpParameters'' (JObject []);
                    Some \<lparr>tp_id = i, tp_iceParameters = ice, tp_iceCandidates = cands,
                      tp_dtlsParameters = dtls, tp_sctpParameters = sctp\<rparr> })"

definition take_connected :: "http_response option \<Rightarrow> bool" where
  "take_connected reply = (case reply of None \<Rightarrow> False | Some res \<Rightarrow> rs_status res = 200)"

definition take_producer :: "http_response option \<Rightarrow> string" where
  "take_producer reply =
     (case reply of
        None \<Rightarrow> []
      | Some res \<Rightarrow>
          if rs_status res \<noteq> 200 then []
          else (case Option.bind (rs_body res) (\<lambda>j. json_at_string j ''id'') of None \<Rightarrow> [] | Some i \<Rightarrow> i))"

section \<open>The client and the server\<close>

text \<open>What the server parses has the members that the client printed, in some order.\<close>

definition reads_as :: "json option \<Rightarrow> json \<Rightarrow> bool" where
  "reads_as p j = (case p of Some (JObject ms) \<Rightarrow> map_of ms = json_at j | _ \<Rightarrow> False)"

lemma reads_as_iff: "reads_as p j \<longleftrightarrow> (\<exists>p'. p = Some p' \<and> (\<exists>ms. p' = JObject ms) \<and> json_at p' = json_at j)"
proof -
  have "json_at (JObject ms) = map_of ms" for ms by (rule ext) (simp add: json_at_def)
  then show ?thesis by (auto simp: reads_as_def split: option.split json.split)
qed

lemma agent_register_request_reads:
  "json_at p = json_at j \<Longrightarrow> agent_register_request_from_json p = agent_register_request_from_json j"
  by (simp add: agent_register_request_from_json_def json_at_string_def)

lemma agent_result_request_reads:
  "json_at p = json_at j \<Longrightarrow> agent_result_request_from_json conv p = agent_result_request_from_json conv j"
  by (simp add: agent_result_request_from_json_def json_at_string_def)

lemma register_status:
  "rs_status (fst (handleAgentRegister env a req res s)) \<in> {201, 400, 401, 500, 503}"
  by (auto simp: handleAgentRegister_def Let_def split: option.split sum.split prod.split)

text \<open>
  C12: The agent of this repository never registers with the server of this repository. Its own
  registration is refused with 400 and without effect, because it does not send the hardware
  address the server asks for; and whatever the server answers to whatever registration, the
  client takes it as a failure, because it waits for the status 200 and success is 201.
\<close>

theorem agent_never_registers:
  assumes "reads_as (ge_parse env body) (agent_registration_json hostname os cfg)"
  shows "rs_status (fst (handleAgentRegister env a (agent_registration_request body) res s)) = 400
     \<and> snd (handleAgentRegister env a (agent_registration_request body) res s) = s
     \<and> take_registration conv cfg (Some (fst (handleAgentRegister env' a' req res' s'))) c = (False, c)"
proof -
  have "rs_status (fst (handleAgentRegister env' a' req res' s')) \<noteq> 200"
    using register_status [of env' a' req res' s'] by auto
  then have "take_registration conv cfg (Some (fst (handleAgentRegister env' a' req res' s'))) c = (False, c)"
    by (simp add: take_registration_def)
  moreover have "agent_register_request_from_json (agent_registration_json hostname os cfg) = None"
    by (simp add: agent_register_request_from_json_def agent_registration_json_def json_at_string_def json_at_def
        json_get_string_def)
  with assms have "Option.bind (ge_parse env body) agent_register_request_from_json = None"
    by (auto simp: reads_as_iff dest: agent_register_request_reads)
  ultimately show ?thesis by (simp add: handleAgentRegister_def agent_registration_request_def Let_def)
qed

definition this_agent_env :: "string list agent_env" where
  "this_agent_env = (sample_agent_env 1)\<lparr>ge_parse := \<lambda>_. Some (agent_registration_json ''PC-01'' ''Windows'' default_agent_config)\<rparr>"

theorem agent_never_registers_witness:
  "rs_status (fst (handleAgentRegister this_agent_env sample_auth (agent_registration_request ''b'') fresh_response
     sample_agent_data)) = 400"
proof -
  have "reads_as (ge_parse this_agent_env ''b'') (agent_registration_json ''PC-01'' ''Windows'' default_agent_config)"
    by (auto simp: this_agent_env_def reads_as_iff agent_registration_json_def)
  from agent_never_registers [OF this] show ?thesis by blast
qed

text \<open>A queued command as it arrives.\<close>

definition arrived :: "agent_command \<Rightarrow> pending_command" where
  "arrived q = \<lparr>pe_commandId = ac_commandId q, pe_agentId = [], pe_featureUid = ac_featureUid q,
     pe_operation = ac_operation q, pe_arguments = ac_arguments q\<rparr>"

lemma dispatched_known:
  fixes qs :: "agent_command list"
  assumes "k \<in> ac_commandId ` set qs"
  shows "\<exists>q'. fold (\<lambda>c m. m(ac_commandId c \<mapsto> c\<lparr>ac_status := Dispatched\<rparr>)) qs h k = Some q'
     \<and> ac_status q' = Dispatched"
  using assms by (induction qs rule: rev_induct) auto

lemma dispatched_history:
  fixes qs :: "agent_command list"
  assumes "distinct (map ac_commandId qs)" and "q \<in> set qs"
  shows "fold (\<lambda>c m. m(ac_commandId c \<mapsto> c\<lparr>ac_status := Dispatched\<rparr>)) qs h (ac_commandId q)
     = Some (q\<lparr>ac_status := Dispatched\<rparr>)"
  using assms
proof (induction qs rule: rev_induct)
  case (snoc x xs)
  then have "q = x \<or> q \<in> set xs \<and> ac_commandId q \<noteq> ac_commandId x"
    by simp (metis imageI)
  with snoc show ?case by auto
qed simp

lemma command_from_polled: "command_from dump (polled_json q) = Some (arrived q)"
  by (simp add: command_from_def polled_json_def json_value_string_def json_get_string_def json_at_def
      arguments_json_def arrived_def case_prod_beta comp_def)

lemma commands_from_polled: "commands_from dump (map polled_json qs) = map arrived qs"
  by (induction qs) (simp_all add: command_from_polled)

lemma arrived_dispatched [simp]: "arrived (q\<lparr>ac_status := st\<rparr>) = arrived q"
  by (simp add: arrived_def)

lemma list_all_dispatched:
  "list_all (\<lambda>q. command_prints (q\<lparr>ac_status := st\<rparr>)) qs = list_all command_prints qs"
  by (simp add: list_all_iff)

lemma polled_commands:
  assumes "gc_agentId c \<noteq> []"
  shows "take_commands dump (Some (fst (handlePollCommands env (poll_request c) res s)))
     = (if list_all command_prints (queue_of (gc_agentId c) (gd_registry s))
        then map arrived (queue_of (gc_agentId c) (gd_registry s)) else [])"
    and "rs_status (fst (handlePollCommands env (poll_request c) res s))
     = (if list_all command_prints (queue_of (gc_agentId c) (gd_registry s)) then 200 else 500)"
  using assms
  by (simp_all add: handlePollCommands_def take_commands_def poll_request_def agent_request_def path_param_def
      Let_def split_beta commands_from_polled dequeue_fields list.pred_map comp_def list_all_dispatched
      map_map [symmetric] del: map_map)
    (simp add: comp_def)

text \<open>
  C11: What the server puts into the answer to a poll is what the client takes out of it: the
  commands that waited for the agent, in order, with their identifiers, features, operations and
  arguments. If one of these texts is not UTF-8 the answer is a 500 and the client takes nothing.
\<close>

theorem poll_round_trip:
  assumes "gc_agentId c \<noteq> []"
  shows "take_commands dump (Some (fst (handlePollCommands env (poll_request c) res s)))
     = (if list_all command_prints (queue_of (gc_agentId c) (gd_registry s))
        then map arrived (queue_of (gc_agentId c) (gd_registry s)) else [])"
  using assms by (rule polled_commands)

text \<open>
  C13: A heartbeat loses commands. The server empties the queue of the agent into the answer to
  the heartbeat and files the commands as dispatched, whether that answer can be printed or
  not; the client does not look at it, so that its next poll brings nothing and nobody ever
  executes them.
\<close>

theorem heartbeat_loses_commands:
  assumes "gc_agentId c \<noteq> []" and "q \<in> set (queue_of (gc_agentId c) (gd_registry s))"
    and "handleAgentHeartbeat env (heartbeat_request c) res s = (answer, s1)"
  shows "rs_status answer = (if list_all command_prints (queue_of (gc_agentId c) (gd_registry s)) then 200 else 500)
     \<and> take_commands dump (Some (fst (handlePollCommands env' (poll_request (take_heartbeat (Some answer) c)) res' s1))) = []
     \<and> (\<exists>q'. findCommand (ac_commandId q) (gd_registry s1) = Inr q' \<and> ac_status q' = Dispatched)"
proof -
  let ?i = "gc_agentId c"
  let ?g = "heartbeat (ge_now env) ?i (gd_registry s)"
  have q: "queue_of ?i ?g = queue_of ?i (gd_registry s)"
    by (simp add: heartbeat_def queue_of_def Let_def split: option.split)
  have s1: "gd_registry s1 = snd (dequeuePendingCommands ?i ?g)" and answer: "rs_status answer
      = (if list_all command_prints (queue_of (gc_agentId c) (gd_registry s)) then 200 else 500)"
    using assms(1,3) by (auto simp: handleAgentHeartbeat_def heartbeat_request_def agent_request_def path_param_def
        Let_def split_beta dequeue_fields list.pred_map comp_def list_all_dispatched)
  have "queue_of ?i (gd_registry s1) = []" by (simp add: s1 dequeue_fields)
  moreover have "\<exists>q'. m_commandHistory (gd_registry s1) (ac_commandId q) = Some q' \<and> ac_status q' = Dispatched"
  proof -
    from assms(2) have "q \<in> set (queue_of ?i ?g)" by (simp add: q)
    then show ?thesis
      using dispatched_known [of "ac_commandId q"] by (auto simp: s1 dequeuePendingCommands_def queue_of_def split_beta dispatch_all_snd
          split: option.splits)
  qed
  ultimately show ?thesis
    using answer assms(1) by (auto simp: polled_commands take_heartbeat_def findCommand_def ok_def)
qed

text \<open>
  The main loop after a poll: the commands are dispatched one after the other and each result is
  reported. \<open>stops k\<close>: the loop finds the stop flag set before its \<open>k\<close>-th command; \<open>elapsed k\<close> is
  the time the handler takes. A report that cannot be printed throws, and nothing catches that: the
  agent dies. \<open>reaches k\<close>: the \<open>k\<close>-th report gets through the network and the filters of the server
  to its handler, whose environment answers with \<open>envs k\<close>. \<open>print\<close> is the printer of the library.
\<close>

datatype run_end = All_run | Stop_seen | Agent_died

fun run_commands ::
  "'w handlers \<Rightarrow> (nat \<Rightarrow> bool) \<Rightarrow> (nat \<Rightarrow> bool) \<Rightarrow> (nat \<Rightarrow> 'd agent_env) \<Rightarrow> (nat \<Rightarrow> int) \<Rightarrow> (json \<Rightarrow> string)
     \<Rightarrow> agent_client \<Rightarrow> nat \<Rightarrow> pending_command list \<Rightarrow> agent_data \<Rightarrow> 'w \<Rightarrow> run_end \<times> agent_data \<times> 'w" where
  "run_commands hs stops reaches envs elapsed print c k [] s w = (All_run, s, w)"
| "run_commands hs stops reaches envs elapsed print c k (cmd # cmds) s w =
     (if stops k then (Stop_seen, s, w)
      else
        let (r, w1) = dispatch_command hs (elapsed k) cmd w
        in if gc_agentId c = [] then run_commands hs stops reaches envs elapsed print c (Suc k) cmds s w1
           else if \<not> json_prints (report_json cmd r) then (Agent_died, s, w1)
           else
             let s1 = (if reaches k
                       then snd (handleReportResult (envs k) (report_request c cmd (print (report_json cmd r)))
                                   fresh_response s)
                       else s)
             in run_commands hs stops reaches envs elapsed print c (Suc k) cmds s1 w1)"

text \<open>
  What a command should come to on the machine: its status, the text, the time it took. Then what
  the server should know of the commands of a poll: those before the loop ended and whose report
  arrived are finished, the others stay dispatched.
\<close>

definition dispatched :: "agent_command \<Rightarrow> agent_command" where
  "dispatched q = q\<lparr>ac_status := Dispatched\<rparr>"

definition finished :: "timestamp \<Rightarrow> command_status \<times> string \<times> int \<Rightarrow> agent_command \<Rightarrow> agent_command" where
  "finished now out q = (case out of (st, txt, dur) \<Rightarrow>
     q\<lparr>ac_status := st, ac_result := txt, ac_durationMs := dur, ac_completedAt := now\<rparr>)"

definition outcome :: "'w handlers \<Rightarrow> int \<Rightarrow> agent_command \<Rightarrow> 'w \<Rightarrow> (command_status \<times> string \<times> int) \<times> 'w" where
  "outcome hs elapsed q w =
     (case hs (ac_featureUid q) of
        None \<Rightarrow> ((Failed, ''Unknown feature: '' @ ac_featureUid q, 0), w)
      | Some f \<Rightarrow>
          (case f (ac_operation q) (ac_arguments q) w of
             (Inr r, w1) \<Rightarrow> ((Success, r, sint (word_of_int elapsed :: 32 word)), w1)
           | (Inl what, w1) \<Rightarrow> ((Failed, what, sint (word_of_int elapsed :: 32 word)), w1)))"

fun known_after ::
  "'w handlers \<Rightarrow> (nat \<Rightarrow> bool) \<Rightarrow> (nat \<Rightarrow> bool) \<Rightarrow> (nat \<Rightarrow> timestamp) \<Rightarrow> (nat \<Rightarrow> int) \<Rightarrow> nat
     \<Rightarrow> agent_command list \<Rightarrow> 'w \<Rightarrow> agent_command list" where
  "known_after hs stops reaches nows elapsed k [] w = []"
| "known_after hs stops reaches nows elapsed k (q # qs) w =
     (if stops k then map dispatched (q # qs)
      else
        let (out, w1) = outcome hs (elapsed k) q w
        in if \<not> utf8_text (fst (snd out)) then map dispatched (q # qs)
           else (if reaches k then finished (nows k) out q else dispatched q)
                # known_after hs stops reaches nows elapsed (Suc k) qs w1)"

lemma outcome_dispatch:
  assumes "dispatch_command hs e (arrived q) w = (r, w1)"
  shows "outcome hs e q w = ((if dp_success r then Success else Failed, dp_result r, dp_durationMs r), w1)"
  using assms
  by (auto simp: outcome_def dispatch_command_def arrived_def Let_def split: option.splits sum.splits prod.splits)

lemma dispatch_duration:
  "dispatch_command hs e cmd w = (r, w') \<Longrightarrow> sint (word_of_int (dp_durationMs r) :: 32 word) = dp_durationMs r"
  by (auto simp: dispatch_command_def Let_def split: option.splits sum.splits prod.splits)

text \<open>A report that can be printed, and whose time is a C++ \<^verbatim>\<open>int\<close>, is read as it was written.\<close>

definition reports_read :: "(string \<Rightarrow> json option) \<Rightarrow> (json \<Rightarrow> string) \<Rightarrow> bool" where
  "reports_read parse print \<longleftrightarrow>
     (\<forall>cmd r. json_prints (report_json cmd r) \<and> sint (word_of_int (dp_durationMs r) :: 32 word) = dp_durationMs r
        \<longrightarrow> reads_as (parse (print (report_json cmd r))) (report_json cmd r))"

lemma report_prints:
  "json_prints (report_json (arrived q) r) \<longleftrightarrow> utf8_text (ac_commandId q) \<and> utf8_text (dp_result r)"
  by (auto simp: report_json_def arrived_def utf8_text_def)

lemma report_effect:
  assumes "gc_agentId c \<noteq> []" and "ac_commandId q \<noteq> []"
    and "reads_as (ge_parse env (print (report_json (arrived q) r))) (report_json (arrived q) r)"
    and "sint (word_of_int (dp_durationMs r) :: 32 word) = dp_durationMs r"
    and "m_commandHistory (gd_registry s) (ac_commandId q) = Some (dispatched q)"
  shows "m_commandHistory (gd_registry (snd (handleReportResult env
       (report_request c (arrived q) (print (report_json (arrived q) r))) res s)))
     = (m_commandHistory (gd_registry s))(ac_commandId q \<mapsto>
         finished (ge_now env) (if dp_success r then Success else Failed, dp_result r, dp_durationMs r) q)"
proof -
  have "agent_result_request_from_json (ge_double_int env) (report_json (arrived q) r)
      = Some \<lparr>du_commandId = ac_commandId q, du_status = if dp_success r then ''success'' else ''failed'',
          du_result = dp_result r, du_durationMs = dp_durationMs r\<rparr>"
    by (simp add: agent_result_request_from_json_def report_json_def json_at_string_def json_at_def
        json_get_string_def json_get_int_def arrived_def assms(4))
  with assms(3) have "Option.bind (ge_parse env (print (report_json (arrived q) r)))
        (agent_result_request_from_json (ge_double_int env))
      = Some \<lparr>du_commandId = ac_commandId q, du_status = if dp_success r then ''success'' else ''failed'',
          du_result = dp_result r, du_durationMs = dp_durationMs r\<rparr>"
    by (auto simp: reads_as_iff dest: agent_result_request_reads [of _ _ "ge_double_int env"])
  then show ?thesis
    using assms(1,2,5)
    by (simp add: handleReportResult_def report_request_def agent_request_def path_param_def Let_def
        reportCommandResult_def finished_def dispatched_def command_status_from_string_def)
      (simp add: arrived_def)
qed

lemma run_commands_history:
  assumes "gc_agentId c \<noteq> []" and "\<forall>k. reports_read (ge_parse (envs k)) print"
    and "distinct (map ac_commandId qs)"
    and "\<forall>q \<in> set qs. ac_commandId q \<noteq> [] \<and> utf8_text (ac_commandId q)"
    and "\<forall>q \<in> set qs. m_commandHistory (gd_registry s) (ac_commandId q) = Some (dispatched q)"
    and "run_commands hs stops reaches envs elapsed print c k (map arrived qs) s w = (e, s', w')"
  shows "map (\<lambda>q. m_commandHistory (gd_registry s') (ac_commandId q)) qs
      = map Some (known_after hs stops reaches (\<lambda>k. ge_now (envs k)) elapsed k qs w)
    \<and> (\<forall>i. i \<notin> ac_commandId ` set qs \<longrightarrow>
         m_commandHistory (gd_registry s') i = m_commandHistory (gd_registry s) i)"
  using assms(3-6)
proof (induction qs arbitrary: k s w)
  case (Cons q qs)
  obtain r w1 where d: "dispatch_command hs (elapsed k) (arrived q) w = (r, w1)" by force
  note out = outcome_dispatch [OF d]
  show ?case
  proof (cases "stops k \<or> \<not> utf8_text (dp_result r)")
    case True
    then have "s' = s" using Cons.prems assms(1) by (auto simp: d report_prints split: if_splits)
    with True Cons.prems show ?thesis by (auto simp: out)
  next
    case False
    define s1 where "s1 = (if reaches k then snd (handleReportResult (envs k)
        (report_request c (arrived q) (print (report_json (arrived q) r))) fresh_response s) else s)"
    let ?known = "if reaches k then finished (ge_now (envs k))
        (if dp_success r then Success else Failed, dp_result r, dp_durationMs r) q else dispatched q"
    have prints: "json_prints (report_json (arrived q) r)" using False Cons.prems(2) by (simp add: report_prints)
    with assms(2) dispatch_duration [OF d]
    have reads: "reads_as (ge_parse (envs k) (print (report_json (arrived q) r))) (report_json (arrived q) r)"
      by (simp add: reports_read_def)
    have known: "m_commandHistory (gd_registry s) (ac_commandId q) = Some (dispatched q)"
      "ac_commandId q \<noteq> []" using Cons.prems(2,3) by simp_all
    have h: "m_commandHistory (gd_registry s1) = (m_commandHistory (gd_registry s))(ac_commandId q \<mapsto> ?known)"
      using report_effect [where print = print, OF assms(1) known(2) reads dispatch_duration [OF d] known(1), of fresh_response] known(1)
      by (simp add: s1_def fun_upd_idem)
    have other: "ac_commandId x \<noteq> ac_commandId q" if "x \<in> set qs" for x
      using Cons.prems(1) that by simp (metis imageI)
    have "run_commands hs stops reaches envs elapsed print c (Suc k) (map arrived qs) s1 w1 = (e, s', w')"
      using Cons.prems(4) False prints assms(1) by (simp add: d s1_def)
    from Cons.IH [OF _ _ _ this] have "map (\<lambda>q. m_commandHistory (gd_registry s') (ac_commandId q)) qs
        = map Some (known_after hs stops reaches (\<lambda>k. ge_now (envs k)) elapsed (Suc k) qs w1)
      \<and> (\<forall>i. i \<notin> ac_commandId ` set qs \<longrightarrow>
           m_commandHistory (gd_registry s') i = m_commandHistory (gd_registry s1) i)"
      using Cons.prems(1-3) other by (simp add: h)
    with False Cons.prems(1) show ?thesis by (auto simp: out h)
  qed
qed simp

text \<open>
  C10: A command goes all the way to the machine and back. After a poll, the agent executes the
  commands that waited for it one after the other until it is told to stop, and the server
  knows of every one how it ended: the result of its handler as a success, the text of what the
  handler threw as a failure, or that there is no handler for it. What is not so finished stays
  dispatched, and only in these cases: the answer to the poll did not arrive or was the 500 of
  a text that is not UTF-8; the agent was told to stop before the command; a result before it
  or its own was not UTF-8, which ends the agent; or its report was lost. (Reports that can be
  printed are read as they were written; the identifiers of the commands are distinct and not empty.)
\<close>

theorem command_comes_back:
  assumes "gc_agentId c \<noteq> []" and "\<forall>k. reports_read (ge_parse (envs k)) print"
    and "distinct (map ac_commandId (queue_of (gc_agentId c) (gd_registry s)))"
    and "\<forall>q \<in> set (queue_of (gc_agentId c) (gd_registry s)). ac_commandId q \<noteq> []"
    and "handlePollCommands env (poll_request c) fresh_response s = (answer, s1)"
    and "run_commands hs stops reaches envs elapsed print c 0
          (take_commands dump (if arrives then Some answer else None)) s1 w = (e, s2, w')"
  shows "map (\<lambda>q. findCommand (ac_commandId q) (gd_registry s2)) (queue_of (gc_agentId c) (gd_registry s))
     = map Inr (if arrives \<and> rs_status answer = 200
                then known_after hs stops reaches (\<lambda>k. ge_now (envs k)) elapsed 0
                       (queue_of (gc_agentId c) (gd_registry s)) w
                else map dispatched (queue_of (gc_agentId c) (gd_registry s)))"
proof -
  let ?i = "gc_agentId c"
  let ?qs = "queue_of ?i (gd_registry s)"
  let ?known = "if arrives \<and> rs_status answer = 200
    then known_after hs stops reaches (\<lambda>k. ge_now (envs k)) elapsed 0 ?qs w else map dispatched ?qs"
  note polled = polled_commands [OF assms(1), where env = env and res = fresh_response and s = s, unfolded assms(5) fst_conv]
  have "gd_registry s1 = snd (dequeuePendingCommands ?i (gd_registry s))"
    using assms(1,5) by (auto simp: handlePollCommands_def poll_request_def agent_request_def path_param_def Let_def split_beta)
  then have "m_commandHistory (gd_registry s1)
      = fold (\<lambda>c m. m(ac_commandId c \<mapsto> c\<lparr>ac_status := Dispatched\<rparr>)) ?qs (m_commandHistory (gd_registry s))"
    by (auto simp: dequeuePendingCommands_def queue_of_def split_beta dispatch_all_snd split: option.split)
  then have filed: "\<forall>q \<in> set ?qs. m_commandHistory (gd_registry s1) (ac_commandId q) = Some (dispatched q)"
    using dispatched_history [OF assms(3)] by (simp add: dispatched_def)
  have "map (\<lambda>q. m_commandHistory (gd_registry s2) (ac_commandId q)) ?qs = map Some ?known"
  proof (cases "arrives \<and> rs_status answer = 200")
    case True
    then have texts: "list_all command_prints ?qs" using polled(2) by (simp split: if_splits)
    then have run: "run_commands hs stops reaches envs elapsed print c 0 (map arrived ?qs) s1 w = (e, s2, w')"
      using assms(6) True polled(1) by simp
    have "\<forall>q \<in> set ?qs. ac_commandId q \<noteq> [] \<and> utf8_text (ac_commandId q)"
      using texts assms(4) by (auto simp: list_all_iff command_prints_def)
    from run_commands_history [OF assms(1,2,3) this filed run] True show ?thesis by simp
  next
    case False
    then have "take_commands dump (if arrives then Some answer else None) = []"
      using polled by (auto simp: take_commands_def split: if_splits)
    then have "s2 = s1" using assms(6) by simp
    then show ?thesis using filed False by auto
  qed
  then show ?thesis by (auto simp: list_eq_iff_nth_eq findCommand_def ok_def)
qed

lemma transport_status: "rs_status (fst (handleCreateTransport env req res m)) \<in> {201, 400, 500}"
  by (auto simp: handleCreateTransport_def Let_def split: option.split sum.split prod.split)

lemma produce_status: "rs_status (fst (handleProduce env req res m)) \<in> {201, 400, 500}"
  by (auto simp: handleProduce_def Let_def split: option.split sum.split prod.split)

text \<open>
  The streaming client of the agent cannot set up a stream with this server: it waits for the
  status 200 where the server answers 201, so that it takes no transport and no producer from
  any answer to any request, while the server has created them.
\<close>

theorem agent_never_streams:
  "take_transport (Some (fst (handleCreateTransport env req res m))) = None
   \<and> take_producer (Some (fst (handleProduce env req' res' m'))) = []"
proof -
  have "rs_status (fst (handleCreateTransport env req res m)) \<noteq> 200"
    "rs_status (fst (handleProduce env req' res' m')) \<noteq> 200"
    using transport_status [of env req res m] produce_status [of env req' res' m'] by auto
  then show ?thesis by (simp add: take_transport_def take_producer_def)
qed

text \<open>
  The servers for the connection arrive as the server meant them: the public one, or the
  configured one with, if there is a secret, the relay, the name and the credential that were
  generated for it.
\<close>

theorem ice_servers_round_trip:
  "take_ice_servers (Some (handleGetIceServers hmac now secret url res)) =
     (if url = [] then [\<lparr>is_urls = [''stun:stun.l.google.com:19302''], is_username = [], is_credential = []\<rparr>]
      else \<lparr>is_urls = [''stun:'' @ url @ '':3478''], is_username = [], is_credential = []\<rparr> #
        (if secret = [] then []
         else [\<lparr>is_urls = [''turn:'' @ url @ '':443?transport=tcp'', ''turn:'' @ url @ '':3478?transport=udp''],
                is_username = fst (generateTurnCredentials hmac now secret 3600),
                is_credential = snd (generateTurnCredentials hmac now secret 3600)\<rparr>]))"
  by (simp add: take_ice_servers_def handleGetIceServers_def json_answer_def ice_servers_def ice_server_from_def
      ice_server_json_def json_at_def json_get_string_def json_opt_string_def json_contains_def json_at_string_def
      split_beta Let_def)

text \<open>
  Every feature the server offers reaches a handler of the agent: the command for it carries
  a name under which a handler is registered, and the five names lead to the five handlers.
\<close>

theorem features_have_handlers:
  "map (\<lambda>f. createDispatcher screen lock input message powers (agentFeatureUid (fd_uid f))) feature_catalog
   = map Some [lock, screen, input, message, powers]"
  by (simp add: feature_catalog_def createDispatcher_def registerHandler_def agentFeatureUid_def
      kFeatureLockScreen_def kFeatureScreenBroadcast_def kFeatureInputLock_def kFeatureMessage_def
      kFeaturePowerControl_def kHandlerLockScreen_def kHandlerScreenCapture_def kHandlerInputLock_def
      kHandlerMessageDisplay_def kHandlerPowerControl_def)

section \<open>Witnesses\<close>

definition sample_client :: agent_client where
  "sample_client = \<lparr>gc_agentId = ''a'', gc_authToken = ''t''\<rparr>"

text \<open>Two commands wait for the agent: one for a feature it has, one for a feature it has not.\<close>

definition waiting_command :: "string \<Rightarrow> string \<Rightarrow> agent_command" where
  "waiting_command i f = \<lparr>ac_commandId = i, ac_agentId = ''a'', ac_featureUid = f, ac_operation = ''start'',
     ac_arguments = [], ac_status = Pending, ac_createdAt = 0, ac_completedAt = 0, ac_result = [],
     ac_durationMs = 0\<rparr>"

definition waiting_data :: agent_data where
  "waiting_data = \<lparr>gd_registry = empty_registry\<lparr>
       m_commandQueues := [''a'' \<mapsto> [waiting_command ''1'' ''lock-screen'', waiting_command ''2'' ''beep'']]\<rparr>,
     gd_org = empty_org_db\<rparr>"

lemma waiting_queue:
  "queue_of (gc_agentId sample_client) (gd_registry waiting_data)
   = [waiting_command ''1'' ''lock-screen'', waiting_command ''2'' ''beep'']"
  by (simp add: queue_of_def waiting_data_def sample_client_def)

lemma waiting_prints: "list_all command_prints (queue_of (gc_agentId sample_client) (gd_registry waiting_data))"
  by (simp add: waiting_queue command_prints_def waiting_command_def utf8_text_def)

lemma sample_client_id: "gc_agentId sample_client \<noteq> []"
  by (simp add: sample_client_def)

theorem poll_round_trip_witness:
  "map pe_commandId (take_commands (\<lambda>_. []) (Some (fst (handlePollCommands (sample_agent_env 1) (poll_request sample_client)
     fresh_response waiting_data))))
   = [''1'', ''2'']"
  by (simp add: poll_round_trip [OF sample_client_id] waiting_prints)
    (simp add: waiting_queue arrived_def waiting_command_def)

theorem heartbeat_loses_commands_witness:
  "rs_status (fst (handleAgentHeartbeat (sample_agent_env 1) (heartbeat_request sample_client) fresh_response
     waiting_data)) = 200"
proof -
  obtain answer s1 where "handleAgentHeartbeat (sample_agent_env 1) (heartbeat_request sample_client)
      fresh_response waiting_data = (answer, s1)" by force
  moreover have "waiting_command ''1'' ''lock-screen'' \<in> set (queue_of (gc_agentId sample_client) (gd_registry waiting_data))"
    by (simp add: waiting_queue)
  ultimately show ?thesis
    using heartbeat_loses_commands [OF sample_client_id, of "waiting_command ''1'' ''lock-screen''" waiting_data
      "sample_agent_env 1" fresh_response answer s1] waiting_prints by simp blast
qed

instance json :: countable
  by countable_datatype

text \<open>A printer and its parser: the number of the value, in strokes.\<close>

definition stroke_print :: "json \<Rightarrow> string" where
  "stroke_print j = replicate (to_nat j) CHR ''|''"

definition stroke_env :: "nat \<Rightarrow> string list agent_env" where
  "stroke_env k = (sample_agent_env 1)\<lparr>ge_parse := \<lambda>s. Some (from_nat (length s))\<rparr>"

definition locking :: "bool handlers" where
  "locking = [''lock-screen'' \<mapsto> (\<lambda>op as w. (Inr ''locked'', True))]"

lemma stroke_reads: "\<forall>k. reports_read (ge_parse (stroke_env k)) stroke_print"
  by (auto simp: reports_read_def stroke_env_def stroke_print_def reads_as_iff report_json_def)

text \<open>Both commands are executed; the report of the second is lost on its way.\<close>

theorem command_comes_back_witness:
  "let (answer, s1) = handlePollCommands (sample_agent_env 1) (poll_request sample_client) fresh_response waiting_data;
       (e, s2, w) = run_commands locking (\<lambda>_. False) (\<lambda>k. k = 0) stroke_env (\<lambda>_. 5) stroke_print sample_client 0
         (take_commands (\<lambda>_. []) (if True then Some answer else None)) s1 False
   in map (\<lambda>i. map_sum (\<lambda>_. ()) (\<lambda>q. (ac_status q, ac_result q)) (findCommand i (gd_registry s2))) [''1'', ''2'']
      = [Inr (Success, ''locked''), Inr (Dispatched, [])]"
proof -
  obtain answer s1 where poll: "handlePollCommands (sample_agent_env 1) (poll_request sample_client)
      fresh_response waiting_data = (answer, s1)" by force
  obtain e s2 w where run: "run_commands locking (\<lambda>_. False) (\<lambda>k. k = 0) stroke_env (\<lambda>_. 5) stroke_print sample_client 0
      (take_commands (\<lambda>_. []) (if True then Some answer else None)) s1 False = (e, s2, w)" by (metis prod_cases3)
  have "rs_status answer = 200"
    using polled_commands(2) [OF sample_client_id, of "sample_agent_env 1" fresh_response waiting_data] poll waiting_prints
    by simp
  moreover have "map (\<lambda>q. findCommand (ac_commandId q) (gd_registry s2))
      (queue_of (gc_agentId sample_client) (gd_registry waiting_data))
    = map Inr (if True \<and> rs_status answer = 200
        then known_after locking (\<lambda>_. False) (\<lambda>k. k = 0) (\<lambda>k. ge_now (stroke_env k)) (\<lambda>_. 5) 0
          (queue_of (gc_agentId sample_client) (gd_registry waiting_data)) False
        else map dispatched (queue_of (gc_agentId sample_client) (gd_registry waiting_data)))"
    by (rule command_comes_back [OF sample_client_id stroke_reads _ _ poll run])
      (simp_all add: waiting_queue waiting_command_def)
  ultimately have "map_sum (\<lambda>_. ()) (\<lambda>q. (ac_status q, ac_result q)) (findCommand ''1'' (gd_registry s2)) = Inr (Success, ''locked'')"
    "map_sum (\<lambda>_. ()) (\<lambda>q. (ac_status q, ac_result q)) (findCommand ''2'' (gd_registry s2)) = Inr (Dispatched, [])"
    by (simp_all add: waiting_queue waiting_command_def locking_def outcome_def finished_def dispatched_def utf8_text_def)
  then show ?thesis using run by (simp add: poll)
qed

end
