(* ===== verification/Agent_Features.thy ===== *)
theory Agent_Features
  imports Agent_Client
begin

text \<open>
  What the features do on the machine of a pupil: src/agent/src/features/InputLock.cpp,
  ScreenLock.cpp, MessageDisplay.cpp and PowerControl.cpp. The calls of the operating system are
  arguments: what they return, and which window appears when. Drawing is left out. A call that
  never returns is \<open>None\<close>. The lemmas show when the input of the machine is blocked, which
  power action runs, and which commands leave the agent waiting for ever.
\<close>

section \<open>Locking the input and the screen\<close>

text \<open>
  \<open>pm_blocked\<close> is the state of the operating system, the others are members of the two handlers.
  \<open>sl_window\<close>: the handle of the lock window is known; \<open>sl_thread\<close>: its thread is joinable.
\<close>

record pupil_machine =
  pm_blocked :: bool
  il_locked :: bool
  sl_locked :: bool
  sl_inputBlocked :: bool
  sl_window :: bool
  sl_thread :: bool

definition new_machine :: pupil_machine where
  "new_machine = \<lparr>pm_blocked = False, il_locked = False, sl_locked = False, sl_inputBlocked = False,
     sl_window = False, sl_thread = False\<rparr>"

definition status_text :: "string \<Rightarrow> string" where
  "status_text s = [CHR ''{'', CHR 0x22] @ ''status'' @ [CHR 0x22, CHR '':'', CHR 0x22] @ s @ [CHR 0x22, CHR ''}'']"

text \<open>\<open>granted\<close> is what \<^verbatim>\<open>BlockInput(TRUE)\<close> returns, \<open>err\<close> what \<^verbatim>\<open>GetLastError\<close> does.\<close>

definition input_lock_execute ::
  "bool \<Rightarrow> nat \<Rightarrow> string \<Rightarrow> pupil_machine \<Rightarrow> (string + string) \<times> pupil_machine" where
  "input_lock_execute granted err operation s =
     (if operation = ''start'' then
        if il_locked s then (Inr (status_text ''locked''), s)
        else if \<not> granted then (Inl (''BlockInput(TRUE) failed with error '' @ decimal_nat err), s)
        else (Inr (status_text ''locked''), s\<lparr>pm_blocked := True, il_locked := True\<rparr>)
      else if operation = ''stop'' then
        (Inr (status_text ''unlocked''),
         if il_locked s then s\<lparr>pm_blocked := False, il_locked := False\<rparr> else s)
      else (Inl (''Unknown operation: '' @ operation), s))"

definition input_lock_destroy :: "pupil_machine \<Rightarrow> pupil_machine" where
  "input_lock_destroy s = (if il_locked s then s\<lparr>pm_blocked := False, il_locked := False\<rparr> else s)"

text \<open>
  The lock window comes within the five seconds the handler waits, is refused, or comes later:
  then the handler finds no handle and joins the thread, which runs the message loop of a window
  that nobody closes.
\<close>

datatype lock_window = In_time | Refused | Late

definition destroyLock :: "pupil_machine \<Rightarrow> pupil_machine" where
  "destroyLock s =
     (if \<not> sl_locked s then s
      else s\<lparr>pm_blocked := (if sl_inputBlocked s then False else pm_blocked s), sl_inputBlocked := False,
             sl_window := False, sl_thread := False, sl_locked := False\<rparr>)"

definition screen_lock_execute ::
  "lock_window \<Rightarrow> bool \<Rightarrow> string \<Rightarrow> pupil_machine \<Rightarrow> ((string + string) \<times> pupil_machine) option" where
  "screen_lock_execute window granted operation s =
     (if operation = ''start'' then
        if sl_locked s then Some (Inr (status_text ''locked''), s)
        else case window of
          Late \<Rightarrow> None
        | Refused \<Rightarrow> Some (Inl ''Failed to create lock screen window'', s)
        | In_time \<Rightarrow>
            Some (Inr (status_text ''locked''),
              s\<lparr>pm_blocked := (granted \<or> pm_blocked s), sl_inputBlocked := granted,
                sl_window := True, sl_thread := True, sl_locked := True\<rparr>)
      else if operation = ''stop'' then Some (Inr (status_text ''unlocked''), destroyLock s)
      else Some (Inl (''Unknown operation: '' @ operation), s))"

text \<open>
  Beside the calls of the agent, the system gives blocked input back by itself: when the
  user presses Ctrl+Alt+Del and when it reports a hard error. The handlers do not notice.
\<close>

datatype lock_call =
    Input_call bool nat string
  | Screen_call lock_window bool string
  | Destroy_handlers
  | System_unblocks

fun lock_step :: "lock_call \<Rightarrow> pupil_machine \<Rightarrow> pupil_machine option" where
  "lock_step (Input_call granted err operation) s = Some (snd (input_lock_execute granted err operation s))"
| "lock_step (Screen_call window granted operation) s =
     map_option snd (screen_lock_execute window granted operation s)"
| "lock_step Destroy_handlers s = Some (destroyLock (input_lock_destroy s))"
| "lock_step System_unblocks s = Some (s\<lparr>pm_blocked := False\<rparr>)"

text \<open>As Windows documents it, input that is blocked already is not blocked again.\<close>

fun documented :: "lock_call \<Rightarrow> pupil_machine \<Rightarrow> bool" where
  "documented (Input_call granted err operation) s = (granted \<longrightarrow> \<not> pm_blocked s)"
| "documented (Screen_call window granted operation) s = (granted \<longrightarrow> \<not> pm_blocked s)"
| "documented Destroy_handlers s = True"
| "documented System_unblocks s = True"

fun lock_run :: "lock_call list \<Rightarrow> pupil_machine \<Rightarrow> pupil_machine option" where
  "lock_run [] s = Some s"
| "lock_run (c # cs) s = Option.bind (lock_step c s) (lock_run cs)"

fun documented_run :: "lock_call list \<Rightarrow> pupil_machine \<Rightarrow> bool" where
  "documented_run [] s = True"
| "documented_run (c # cs) s =
     (documented c s \<and> (case lock_step c s of None \<Rightarrow> True | Some t \<Rightarrow> documented_run cs t))"

text \<open>\<open>undisturbed\<close>: the system has not unblocked the input.\<close>

definition block_inv :: "bool \<Rightarrow> pupil_machine \<Rightarrow> bool" where
  "block_inv undisturbed s \<longleftrightarrow> (pm_blocked s \<longrightarrow> il_locked s \<or> sl_inputBlocked s)
     \<and> (undisturbed \<longrightarrow> pm_blocked s = (il_locked s \<noteq> sl_inputBlocked s) \<and> \<not> (il_locked s \<and> sl_inputBlocked s))
     \<and> (sl_inputBlocked s \<longrightarrow> sl_locked s) \<and> (sl_window s \<longleftrightarrow> sl_locked s) \<and> (sl_thread s \<longleftrightarrow> sl_locked s)"

lemma block_inv_new: "block_inv b new_machine"
  by (simp add: block_inv_def new_machine_def)

lemma block_inv_step:
  assumes "block_inv b s" and "documented c s" and "lock_step c s = Some t"
  shows "block_inv (b \<and> c \<noteq> System_unblocks) t"
  using assms
  by (cases c)
    (auto simp: block_inv_def input_lock_execute_def screen_lock_execute_def destroyLock_def input_lock_destroy_def
      split: if_splits lock_window.splits)

lemma block_inv_run:
  "block_inv b s \<Longrightarrow> documented_run cs s \<Longrightarrow> lock_run cs s = Some t
   \<Longrightarrow> block_inv (b \<and> System_unblocks \<notin> set cs) t"
proof (induction cs arbitrary: b s)
  case (Cons c cs)
  then obtain u where u: "lock_step c s = Some u" "lock_run cs u = Some t" by (auto simp: Option.bind_eq_Some_conv)
  have "documented c s" "documented_run cs u" using Cons.prems(2) u(1) by auto
  from Cons.IH [OF block_inv_step [OF Cons.prems(1) this(1) u(1)] this(2) u(2)]
  show ?case by (auto simp: block_inv_def)
qed (auto simp: block_inv_def)

text \<open>A run that does not end hangs in a command to lock the screen.\<close>

lemma hanging_step:
  "lock_step c s = None \<longleftrightarrow> (\<exists>granted. c = Screen_call Late granted ''start'') \<and> \<not> sl_locked s"
  by (cases c) (auto simp: screen_lock_execute_def split: lock_window.splits)

lemma hanging_run:
  "lock_run cs s = None \<Longrightarrow> documented_run cs s \<Longrightarrow>
     \<exists>ds granted es t. cs = ds @ Screen_call Late granted ''start'' # es \<and> documented_run ds s
       \<and> lock_run ds s = Some t \<and> \<not> sl_locked t"
proof (induction cs arbitrary: s)
  case (Cons c cs)
  show ?case
  proof (cases "lock_step c s")
    case None
    then obtain granted where "c = Screen_call Late granted ''start''" "\<not> sl_locked s" by (auto simp: hanging_step)
    then show ?thesis
      by (intro exI [of _ "[]"] exI [of _ granted] exI [of _ cs] exI [of _ s]) simp
  next
    case (Some u)
    then obtain ds granted es t where "cs = ds @ Screen_call Late granted ''start'' # es" "documented_run ds u"
        "lock_run ds u = Some t" "\<not> sl_locked t"
      using Cons.IH [of u] Cons.prems by auto
    then show ?thesis using Some Cons.prems(2)
      by (intro exI [of _ "c # ds"] exI [of _ granted] exI [of _ es] exI [of _ t]) simp
  qed
qed simp

text \<open>
  C38: Who blocks the input of a machine, after any sequence of lock and unlock commands and of
  interventions of the system. As long as the agent answers, blocked input is blocked in the name
  of one of the two handlers; if the system has not given the input back in between, it is blocked
  exactly if one of them says so, and they never both do; and destroying the handlers frees it. The
  agent stops answering only in a command to lock a screen that is not locked, when the window
  comes too late; then, too, blocked input is blocked by the input lock. (Blocking blocked
  input fails, as documented.)
\<close>

theorem input_blocked_by_one:
  assumes "documented_run cs new_machine"
  shows "case lock_run cs new_machine of
       Some s \<Rightarrow> (pm_blocked s \<longrightarrow> il_locked s \<or> sl_inputBlocked s)
         \<and> (System_unblocks \<notin> set cs \<longrightarrow>
              pm_blocked s = (il_locked s \<noteq> sl_inputBlocked s) \<and> \<not> (il_locked s \<and> sl_inputBlocked s))
         \<and> map_option pm_blocked (lock_step Destroy_handlers s) = Some False
     | None \<Rightarrow> \<exists>ds granted es s. cs = ds @ Screen_call Late granted ''start'' # es
         \<and> lock_run ds new_machine = Some s \<and> \<not> sl_locked s \<and> (pm_blocked s \<longrightarrow> il_locked s)"
proof (cases "lock_run cs new_machine")
  case None
  then obtain ds granted es s where h: "cs = ds @ Screen_call Late granted ''start'' # es"
      "documented_run ds new_machine" "lock_run ds new_machine = Some s" "\<not> sl_locked s"
    using hanging_run assms by blast
  from block_inv_run [OF block_inv_new h(2,3), of True] h(4) have "pm_blocked s \<longrightarrow> il_locked s"
    by (auto simp: block_inv_def)
  with h None show ?thesis by auto
next
  case (Some s)
  from block_inv_run [OF block_inv_new assms Some, of True] Some show ?thesis
    by (auto simp: block_inv_def destroyLock_def input_lock_destroy_def)
qed

definition both_locks :: "lock_call list" where
  "both_locks = [Input_call True 0 ''start'', Screen_call In_time False ''start'']"

theorem input_blocked_by_one_witness:
  "map_option pm_blocked (lock_run both_locks new_machine) = Some True
   \<and> map_option pm_blocked (Option.bind (lock_run both_locks new_machine) (lock_step Destroy_handlers)) = Some False"
proof -
  obtain s where s: "lock_run both_locks new_machine = Some s" "il_locked s" "\<not> sl_inputBlocked s"
    by (simp add: both_locks_def new_machine_def input_lock_execute_def screen_lock_execute_def)
  have "documented_run both_locks new_machine"
    by (simp add: both_locks_def new_machine_def input_lock_execute_def screen_lock_execute_def)
  from input_blocked_by_one [OF this] have "pm_blocked s"
    "map_option pm_blocked (lock_step Destroy_handlers s) = Some False"
    using s by (simp_all add: both_locks_def)
  then show ?thesis using s(1) by simp
qed

text \<open>
  When the user has got the input back with Ctrl+Alt+Del, the input lock still says that it
  is on, and its command to lock does nothing.
\<close>

theorem unblocked_by_system:
  assumes "il_locked s"
  shows "case lock_run [System_unblocks, Input_call granted err ''start''] s of
       Some t \<Rightarrow> il_locked t \<and> \<not> pm_blocked t
     | None \<Rightarrow> False"
  using assms by (simp add: input_lock_execute_def)

theorem unblocked_by_system_witness:
  "map_option pm_blocked (lock_run [Input_call True 0 ''start'', System_unblocks, Input_call True 0 ''start''] new_machine)
     = Some False"
  using unblocked_by_system [of "new_machine\<lparr>pm_blocked := True, il_locked := True\<rparr>" True 0]
  by (simp add: input_lock_execute_def new_machine_def)

text \<open>
  A locked screen whose keyboard works: when the input lock is on, locking the screen
  succeeds without blocking the input itself; unlocking the input then frees it, while the
  screen lock still reports that it is locked and a second command to lock does nothing.
\<close>

theorem screen_locked_input_free:
  assumes "\<not> sl_locked s" and "il_locked s" and "pm_blocked s" and "documented (Screen_call In_time granted ''start'') s"
  shows "case lock_run [Screen_call In_time granted ''start'', Input_call g err ''stop''] s of
       Some t \<Rightarrow> sl_locked t \<and> \<not> pm_blocked t
         \<and> screen_lock_execute w g' ''start'' t = Some (Inr (status_text ''locked''), t)
     | None \<Rightarrow> False"
  using assms by (simp add: screen_lock_execute_def input_lock_execute_def)

theorem screen_locked_input_free_witness:
  "map_option (\<lambda>t. sl_locked t \<and> \<not> pm_blocked t)
     (lock_run [Screen_call In_time False ''start'', Input_call False 5 ''stop'']
        (new_machine\<lparr>pm_blocked := True, il_locked := True\<rparr>)) = Some True"
  using screen_locked_input_free [where s = "new_machine\<lparr>pm_blocked := True, il_locked := True\<rparr>" and granted = False
      and g = False and err = 5 and w = In_time and g' = False]
  by (auto simp: new_machine_def split: option.splits)

section \<open>Power\<close>

text \<open>
  What is done to the machine: the
  waiting time, then the flags and the reason handed to \<^verbatim>\<open>ExitWindowsEx\<close>.
\<close>

datatype power_effect = Slept int | Exit_windows "32 word" "32 word"

definition EWX_LOGOFF :: "32 word" where "EWX_LOGOFF = 0"
definition EWX_SHUTDOWN :: "32 word" where "EWX_SHUTDOWN = 1"
definition EWX_REBOOT :: "32 word" where "EWX_REBOOT = 2"
definition EWX_FORCEIFHUNG :: "32 word" where "EWX_FORCEIFHUNG = 16"

unbundle bit_operations_syntax

definition power_flags :: "string \<Rightarrow> (32 word \<times> 32 word) option" where
  "power_flags action =
     (if action = ''shutdown'' then Some (EWX_SHUTDOWN OR EWX_FORCEIFHUNG, 0)
      else if action = ''reboot'' then Some (EWX_REBOOT OR EWX_FORCEIFHUNG, 0)
      else if action = ''logoff'' then Some (EWX_LOGOFF OR EWX_FORCEIFHUNG, 0)
      else None)"

definition power_delay :: "(string \<times> string) list \<Rightarrow> int" where
  "power_delay args =
     (case Option.bind (map_of args ''delay'') stoi of None \<Rightarrow> 0 | Some (d, _) \<Rightarrow> max 0 (min d 300))"

text \<open>\<open>token_ok\<close>, \<open>exit_ok\<close>: what \<^verbatim>\<open>OpenProcessToken\<close> and \<^verbatim>\<open>ExitWindowsEx\<close> return.\<close>

definition power_execute ::
  "(json \<Rightarrow> string) \<Rightarrow> bool \<Rightarrow> bool \<Rightarrow> nat \<Rightarrow> string \<Rightarrow> (string \<times> string) list
     \<Rightarrow> (string + string) \<times> power_effect list" where
  "power_execute dump token_ok exit_ok err operation args =
     (if operation = ''stop'' then (Inr (status_text ''ok''), [])
      else if operation \<noteq> ''start'' then (Inl (''Unknown operation: '' @ operation), [])
      else case map_of args ''action'' of
        None \<Rightarrow> (Inl (''Missing required argument: '' @ [CHR 0x27] @ ''action'' @ [CHR 0x27]), [])
      | Some action \<Rightarrow>
          (case power_flags action of
             None \<Rightarrow> (Inl (''Unknown power action: '' @ action @ '' (expected '' @ [CHR 0x27] @ ''shutdown''
                 @ [CHR 0x27] @ '', '' @ [CHR 0x27] @ ''reboot'' @ [CHR 0x27] @ '', or '' @ [CHR 0x27] @ ''logoff''
                 @ [CHR 0x27] @ '')''), [])
           | Some (flags, reason) \<Rightarrow>
               let delaySec = power_delay args;
                   slept = (if delaySec > 0 then [Slept delaySec] else [])
               in if \<not> token_ok then (Inl (''OpenProcessToken failed with error '' @ decimal_nat err), slept)
                  else if \<not> exit_ok then (Inl (''ExitWindowsEx failed with error '' @ decimal_nat err), slept)
                  else (Inr (dump (JObject [(''status'', JString ''executing''), (''action'', JString action)])),
                        slept @ [Exit_windows flags reason])))"

text \<open>
  The machine goes down, restarts or logs off exactly when a start command names one of the
  three actions and the operating system allows it, once, with the flags of that action and
  without killing programs that respond, after a delay of at most five minutes; a delay that is
  no number, or negative, is none.
\<close>

theorem power_action_exactly:
  "(\<exists>flags reason. Exit_windows flags reason \<in> set (snd (power_execute dump token_ok exit_ok err operation args)))
     = (operation = ''start'' \<and> token_ok \<and> exit_ok
        \<and> map_of args ''action'' \<in> {Some ''shutdown'', Some ''reboot'', Some ''logoff''})
   \<and> snd (power_execute dump token_ok exit_ok err operation args) \<in>
       {[], [Slept (power_delay args)]}
       \<union> {p @ [Exit_windows f 0] | p f. p \<in> {[], [Slept (power_delay args)]} \<and> f \<in> {0x10, 0x11, 0x12}}
   \<and> power_delay args \<in> {0..300}"
proof -
  have flags: "power_flags a \<in> {None, Some (0x11, 0), Some (0x12, 0), Some (0x10, 0)}"
    and known: "power_flags a \<noteq> None \<longleftrightarrow> a \<in> {''shutdown'', ''reboot'', ''logoff''}" for a
    by (simp_all add: power_flags_def EWX_SHUTDOWN_def EWX_REBOOT_def EWX_LOGOFF_def EWX_FORCEIFHUNG_def)
  have "power_delay args \<in> {0..300}" by (simp add: power_delay_def split: option.split)
  moreover note flags [of "the (map_of args ''action'')"] known [of "the (map_of args ''action'')"]
  ultimately show ?thesis
    by (cases "map_of args ''action''")
      (auto simp: power_execute_def Let_def split: option.splits if_splits)
qed

section \<open>Messages\<close>

text \<open>
  The message box runs in a thread of its own until it is dismissed. \<open>wide\<close> converts a text to
  UTF-16 and is empty when it fails. \<open>md_title\<close> is the converted title.
\<close>

record message_display =
  md_active :: bool
  md_currentTitle :: string
  md_currentText :: string
  md_title :: "16 word list"

definition no_message :: message_display where
  "no_message = \<lparr>md_active = False, md_currentTitle = [], md_currentText = [], md_title = []\<rparr>"

text \<open>
  \<open>found\<close>: \<^verbatim>\<open>FindWindowW\<close> finds the box, which then gets \<^verbatim>\<open>WM_CLOSE\<close>; \<open>dismissed\<close>: the pupil
  closes it. Otherwise the join waits for ever.
\<close>

definition closeMessageBox :: "bool \<Rightarrow> bool \<Rightarrow> message_display \<Rightarrow> message_display option" where
  "closeMessageBox found dismissed s =
     (if \<not> md_active s then Some s
      else if md_title s \<noteq> [] \<and> found \<or> dismissed then Some no_message
      else None)"

definition message_execute ::
  "(string \<Rightarrow> 16 word list) \<Rightarrow> (json \<Rightarrow> string) \<Rightarrow> bool \<Rightarrow> bool \<Rightarrow> string \<Rightarrow> (string \<times> string) list
     \<Rightarrow> message_display \<Rightarrow> ((string + string) \<times> message_display) option" where
  "message_execute wide dump found dismissed operation args s =
     (if operation = ''start'' then
        do { s1 \<leftarrow> closeMessageBox found dismissed s;
             let title = (case map_of args ''title'' of Some t \<Rightarrow> t | None \<Rightarrow> ''Hub32 Message'')
             in case map_of args ''text'' of
                  None \<Rightarrow> Some (Inl (''Missing required argument: '' @ [CHR 0x27] @ ''text'' @ [CHR 0x27]), s1)
                | Some txt_ \<Rightarrow>
                    Some (Inr (dump (JObject [(''status'', JString ''shown''), (''title'', JString title),
                             (''text'', JString txt_)])),
                          \<lparr>md_active = True, md_currentTitle = title, md_currentText = txt_, md_title = wide title\<rparr>) }
      else if operation = ''stop'' then
        map_option (Pair (Inr (status_text ''closed''))) (closeMessageBox found dismissed s)
      else Some (Inl (''Unknown operation: '' @ operation), s))"

text \<open>
  A message without a title holds up the agent: showing a message with an empty title
  succeeds, and from then on no command to the message feature that shows or closes a message
  returns before the pupil closes the box, because its window is looked for by a title.
\<close>

theorem untitled_message_waits:
  assumes "wide [] = []" and "map_of args ''title'' = Some []" and "map_of args ''text'' = Some t"
    and "message_execute wide dump found dismissed ''start'' args s = Some (r, s')"
    and "operation \<in> {''start'', ''stop''}"
  shows "r = Inr (dump (JObject [(''status'', JString ''shown''), (''title'', JString []), (''text'', JString t)]))
     \<and> message_execute wide dump found' False operation args' s' = None"
proof -
  from assms(2-4) have s': "s' = \<lparr>md_active = True, md_currentTitle = [], md_currentText = t, md_title = wide []\<rparr>"
    and r: "r = Inr (dump (JObject [(''status'', JString ''shown''), (''title'', JString []), (''text'', JString t)]))"
    by (auto simp: message_execute_def Option.bind_eq_Some_conv)
  have "closeMessageBox found' False s' = None" by (simp add: closeMessageBox_def s' assms(1))
  with assms(5) r show ?thesis by (auto simp: message_execute_def)
qed

theorem untitled_message_waits_witness:
  "message_execute (\<lambda>_. []) (\<lambda>_. []) True False ''stop'' []
     (snd (the (message_execute (\<lambda>_. []) (\<lambda>_. []) False False ''start''
        [(''title'', []), (''text'', ''hello'')] no_message))) = None"
proof -
  obtain r s' where s': "message_execute (\<lambda>_. []) (\<lambda>_. []) False False ''start'' [(''title'', []), (''text'', ''hello'')]
      no_message = Some (r, s')"
    by (simp add: message_execute_def closeMessageBox_def no_message_def)
  have "message_execute (\<lambda>_. []) (\<lambda>_. []) True False ''stop'' [] s' = None"
    using untitled_message_waits [where args = "[(''title'', []), (''text'', ''hello'')]" and operation = "''stop''",
        OF _ _ _ s'] by simp
  then show ?thesis by (simp add: s')
qed

end
