(* ===== verification/Worker_Messages.thy ===== *)
theory Worker_Messages
  imports Agent_Endpoints Stream_Endpoints Worker_Channel
begin

text \<open>
  The messages for the media worker, src/media/WorkerMessageBuilder.cpp. A message is the tree of
  tables that the code builds with the FlatBuffers library, a constructor or record for each
  \<^verbatim>\<open>Create...\<close> call with its arguments in order; how the library lays them out as bytes is not
  modelled. JSON accessors that throw are \<open>None\<close>; \<open>conv\<close> and \<open>dump\<close> are the library's conversion
  of a floating-point number to an integer and its printer.
\<close>

section \<open>Tables\<close>

datatype parameter_value = Integer32 int | Double_value rat | String_value string

record codec_parameters =
  cc_mimeType :: string
  cc_payloadType :: "8 word"
  cc_clockRate :: "32 word"
  cc_channels :: "8 word option"
  cc_parameters :: "(string \<times> parameter_value) list"
  cc_rtcpFeedback :: "(string \<times> string) list"

datatype header_uri =
    Mid | RtpStreamId | RepairRtpStreamId | AbsSendTime | TransportWideCcDraft01 | SsrcAudioLevel
  | DependencyDescriptor | VideoOrientation | TimeOffset | AbsCaptureTime | PlayoutDelay

record header_extension =
  hx_uri :: header_uri
  hx_id :: "8 word"
  hx_encrypt :: bool

record encoding_parameters =
  en_ssrc :: "32 word option"
  en_rid :: string
  en_codecPayloadType :: "8 word option"
  en_rtx :: "32 word option"
  en_dtx :: bool
  en_scalabilityMode :: string
  en_maxBitrate :: "32 word option"

record rtp_parameters =
  rp_mid :: string
  rp_codecs :: "codec_parameters list"
  rp_headerExtensions :: "header_extension list"
  rp_encodings :: "encoding_parameters list"
  rp_cname :: string
  rp_reducedSize :: bool

record encoding_mapping =
  em_rid :: string
  em_ssrc :: "32 word option"
  em_scalabilityMode :: string
  em_mappedSsrc :: "32 word"

record rtp_mapping =
  mp_codecs :: "(8 word \<times> 8 word) list"
  mp_encodings :: "encoding_mapping list"

datatype fingerprint_algorithm = SHA1 | SHA224 | SHA256 | SHA384 | SHA512

datatype dtls_role = AUTO_role | CLIENT_role | SERVER_role

datatype fbs_kind = AUDIO_kind | VIDEO_kind

datatype rtp_type = SIMPLE | SIMULCAST | SVC | PIPE

record listen_info =
  li_udp :: bool
  li_ip :: string
  li_announcedAddress :: string
  li_exposeInternalIp :: bool
  li_port :: "16 word"
  li_portRange :: "16 word \<times> 16 word"
  li_socketFlags :: "bool \<times> bool"
  li_sendBufferSize :: "32 word"
  li_recvBufferSize :: "32 word"

record transport_options =
  to_direct :: bool
  to_maxMessageSize :: "32 word option"
  to_initialAvailableOutgoingBitrate :: "32 word option"
  to_enableSctp :: bool
  to_numSctpStreams :: "16 word \<times> 16 word"
  to_maxSctpMessageSize :: "32 word"
  to_sctpSendBufferSize :: "32 word"
  to_isDataChannel :: bool

record webrtc_options =
  wo_base :: transport_options
  wo_listenIndividual :: "listen_info list"
  wo_enableUdp :: bool
  wo_enableTcp :: bool
  wo_preferUdp :: bool
  wo_preferTcp :: bool
  wo_iceConsentTimeout :: "8 word"

record produce_body =
  pb_producerId :: string
  pb_kind :: fbs_kind
  pb_rtpParameters :: rtp_parameters
  pb_rtpMapping :: rtp_mapping
  pb_paused :: bool
  pb_keyFrameRequestDelay :: "32 word"

record consume_body =
  cb_consumerId :: string
  cb_producerId :: string
  cb_kind :: fbs_kind
  cb_rtpParameters :: rtp_parameters
  cb_type :: rtp_type
  cb_consumableRtpEncodings :: "encoding_parameters list"
  cb_paused :: bool
  cb_ignoreDtx :: bool

datatype request_method =
    WORKER_CREATE_ROUTER | WORKER_CLOSE_ROUTER | ROUTER_CREATE_WEBRTCTRANSPORT
  | ROUTER_CLOSE_TRANSPORT | WEBRTCTRANSPORT_CONNECT | TRANSPORT_PRODUCE | TRANSPORT_CONSUME
  | PRODUCER_PAUSE | PRODUCER_RESUME | CONSUMER_REQUEST_KEY_FRAME | CONSUMER_SET_PREFERRED_LAYERS

datatype request_body =
    NONE_body
  | CreateRouterRequest string
  | CreateWebRtcTransportRequest string webrtc_options
  | ConnectRequest "(fingerprint_algorithm \<times> string) list" dtls_role
  | ProduceRequest produce_body
  | ConsumeRequest consume_body
  | SetPreferredLayersRequest "8 word" "8 word option"

datatype worker_event = WORKER_CLOSE | Other_event "8 word"

text \<open>\<open>To_worker_request\<close> identifier, method, handler and body; a notification has no identifier.\<close>

datatype worker_message =
    To_worker_request "32 word" request_method string request_body
  | To_worker_notification string worker_event

section \<open>Requests without JSON\<close>

definition createRouterRequest :: "32 word \<Rightarrow> string \<Rightarrow> worker_message" where
  "createRouterRequest requestId routerId =
     To_worker_request requestId WORKER_CREATE_ROUTER [] (CreateRouterRequest routerId)"

definition closeRouterRequest :: "32 word \<Rightarrow> string \<Rightarrow> worker_message" where
  "closeRouterRequest requestId routerId =
     To_worker_request requestId WORKER_CLOSE_ROUTER routerId NONE_body"

definition createWebRtcTransportRequest ::
  "32 word \<Rightarrow> string \<Rightarrow> string \<Rightarrow> string \<Rightarrow> int \<Rightarrow> int \<Rightarrow> worker_message" where
  "createWebRtcTransportRequest requestId routerId transportId listenIp rtcMinPort rtcMaxPort =
     To_worker_request requestId ROUTER_CREATE_WEBRTCTRANSPORT routerId
       (CreateWebRtcTransportRequest transportId
         \<lparr>wo_base = \<lparr>to_direct = False, to_maxMessageSize = None,
            to_initialAvailableOutgoingBitrate = Some 600000, to_enableSctp = False,
            to_numSctpStreams = (1024, 1024), to_maxSctpMessageSize = 262144,
            to_sctpSendBufferSize = 262144, to_isDataChannel = False\<rparr>,
          wo_listenIndividual =
            [\<lparr>li_udp = True, li_ip = listenIp, li_announcedAddress = listenIp, li_exposeInternalIp = False, li_port = 0,
              li_portRange = (word_of_int rtcMinPort, word_of_int rtcMaxPort),
              li_socketFlags = (False, False),
              li_sendBufferSize = 0, li_recvBufferSize = 0\<rparr>],
          wo_enableUdp = True, wo_enableTcp = True, wo_preferUdp = True, wo_preferTcp = False,
          wo_iceConsentTimeout = 30\<rparr>)"

definition closeTransportNotification :: "string \<Rightarrow> worker_message" where
  "closeTransportNotification transportId = To_worker_notification transportId WORKER_CLOSE"

definition closeWorkerRequest :: "32 word \<Rightarrow> worker_message" where
  "closeWorkerRequest requestId = To_worker_notification [] WORKER_CLOSE"

definition createPauseProducerRequest :: "32 word \<Rightarrow> string \<Rightarrow> worker_message" where
  "createPauseProducerRequest requestId producerId =
     To_worker_request requestId PRODUCER_PAUSE producerId NONE_body"

definition createResumeProducerRequest :: "32 word \<Rightarrow> string \<Rightarrow> worker_message" where
  "createResumeProducerRequest requestId producerId =
     To_worker_request requestId PRODUCER_RESUME producerId NONE_body"

definition createRequestKeyFrameRequest :: "32 word \<Rightarrow> string \<Rightarrow> worker_message" where
  "createRequestKeyFrameRequest requestId consumerId =
     To_worker_request requestId CONSUMER_REQUEST_KEY_FRAME consumerId NONE_body"

definition createSetPreferredLayersRequest :: "32 word \<Rightarrow> string \<Rightarrow> int \<Rightarrow> int \<Rightarrow> worker_message" where
  "createSetPreferredLayersRequest requestId consumerId spatialLayer temporalLayer =
     To_worker_request requestId CONSUMER_SET_PREFERRED_LAYERS consumerId
       (SetPreferredLayersRequest (word_of_int spatialLayer) (Some (word_of_int temporalLayer)))"

section \<open>Connecting\<close>

text \<open>What a \<^verbatim>\<open>for\<close> loop over a JSON value visits.\<close>

definition json_items :: "json \<Rightarrow> json list" where
  "json_items j = (case j of JArray js \<Rightarrow> js | JObject ms \<Rightarrow> map snd ms | JNull \<Rightarrow> [] | v \<Rightarrow> [v])"

definition algorithm_from :: "string \<Rightarrow> fingerprint_algorithm" where
  "algorithm_from s =
     (if s = ''sha-1'' \<or> s = ''SHA1'' then SHA1
      else if s = ''sha-256'' \<or> s = ''SHA256'' then SHA256
      else if s = ''sha-384'' \<or> s = ''SHA384'' then SHA384
      else if s = ''sha-512'' \<or> s = ''SHA512'' then SHA512
      else SHA256)"

text \<open>The missing value of a fingerprint, whose reading has no defined effect, counts as throwing.\<close>

definition fingerprint_from :: "json \<Rightarrow> (fingerprint_algorithm \<times> string) option" where
  "fingerprint_from fp =
     do { algoStr \<leftarrow> json_value_string fp ''algorithm'' ''sha-256'';
          v \<leftarrow> json_at_string fp ''value'';
          Some (algorithm_from algoStr, v) }"

definition role_from :: "string \<Rightarrow> dtls_role" where
  "role_from s = (if s = ''client'' then CLIENT_role else if s = ''server'' then SERVER_role else AUTO_role)"

definition connectTransportRequest :: "32 word \<Rightarrow> string \<Rightarrow> json \<Rightarrow> worker_message option" where
  "connectTransportRequest requestId transportId dtlsParams =
     do { fps \<leftarrow> (case json_at dtlsParams ''fingerprints'' of
                None \<Rightarrow> Some [] | Some j \<Rightarrow> all_some (map fingerprint_from (json_items j)));
          role \<leftarrow> json_opt_string dtlsParams ''role'' [];
          Some (To_worker_request requestId WEBRTCTRANSPORT_CONNECT transportId
                  (ConnectRequest fps (role_from role))) }"

section \<open>RTP parameters\<close>

definition json_get_uint32 :: "(rat \<Rightarrow> int) \<Rightarrow> json \<Rightarrow> 32 word option" where
  "json_get_uint32 conv j =
     (case j of
        JInt i \<Rightarrow> Some (word_of_int i)
      | JBool b \<Rightarrow> Some (of_bool b)
      | JDouble r \<Rightarrow> Some (word_of_int (conv r))
      | _ \<Rightarrow> None)"

definition json_value_uint32 :: "(rat \<Rightarrow> int) \<Rightarrow> json \<Rightarrow> string \<Rightarrow> 32 word \<Rightarrow> 32 word option" where
  "json_value_uint32 conv j k dflt =
     (case j of
        JObject ms \<Rightarrow> (case map_of ms k of None \<Rightarrow> Some dflt | Some v \<Rightarrow> json_get_uint32 conv v)
      | _ \<Rightarrow> None)"

definition json_value_bool :: "json \<Rightarrow> string \<Rightarrow> bool \<Rightarrow> bool option" where
  "json_value_bool j k dflt =
     (case j of
        JObject ms \<Rightarrow> (case map_of ms k of None \<Rightarrow> Some dflt | Some v \<Rightarrow> json_get_bool v)
      | _ \<Rightarrow> None)"

text \<open>A member that may be missing: \<open>None\<close> inside, when it is.\<close>

definition json_optional :: "(json \<Rightarrow> 'a option) \<Rightarrow> json \<Rightarrow> string \<Rightarrow> 'a option option" where
  "json_optional get j k =
     (case json_at j k of None \<Rightarrow> Some None | Some v \<Rightarrow> map_option Some (get v))"

definition json_get_uint8 :: "(rat \<Rightarrow> int) \<Rightarrow> json \<Rightarrow> 8 word option" where
  "json_get_uint8 conv j = map_option word_of_int (json_get_int conv j)"

text \<open>The array under a key, empty when there is none or it is something else.\<close>

definition json_array_at :: "json \<Rightarrow> string \<Rightarrow> json list" where
  "json_array_at j k = (case json_at j k of Some (JArray js) \<Rightarrow> js | _ \<Rightarrow> [])"

definition parameter_from :: "(json \<Rightarrow> string option) \<Rightarrow> string \<times> json \<Rightarrow> (string \<times> parameter_value) option" where
  "parameter_from dump p =
     (case snd p of
        JInt i \<Rightarrow> Some (fst p, Integer32 (sint (word_of_int i :: 32 word)))
      | JDouble r \<Rightarrow> Some (fst p, Double_value r)
      | JString s \<Rightarrow> Some (fst p, String_value s)
      | v \<Rightarrow> map_option (\<lambda>s. (fst p, String_value s)) (dump v))"

definition feedback_from :: "json \<Rightarrow> (string \<times> string) option" where
  "feedback_from fb =
     do { ty \<leftarrow> json_value_string fb ''type'' [];
          par \<leftarrow> json_opt_string fb ''parameter'' [];
          Some (ty, par) }"

definition buildCodecFromJson ::
  "(rat \<Rightarrow> int) \<Rightarrow> (json \<Rightarrow> string option) \<Rightarrow> json \<Rightarrow> codec_parameters option" where
  "buildCodecFromJson conv dump codec =
     do { mime \<leftarrow> json_value_string codec ''mimeType'' [];
          pt \<leftarrow> json_value_int conv codec ''payloadType'' 0;
          rate \<leftarrow> json_value_uint32 conv codec ''clockRate'' 0;
          channels \<leftarrow> json_optional (json_get_uint8 conv) codec ''channels'';
          params \<leftarrow> (case json_at codec ''parameters'' of
                       Some (JObject ms) \<Rightarrow> all_some (map (parameter_from dump) ms) | _ \<Rightarrow> Some []);
          fbs \<leftarrow> all_some (map feedback_from (json_array_at codec ''rtcpFeedback''));
          Some \<lparr>cc_mimeType = mime, cc_payloadType = word_of_int pt, cc_clockRate = rate,
            cc_channels = channels, cc_parameters = params, cc_rtcpFeedback = fbs\<rparr> }"

fun occurs_in :: "string \<Rightarrow> string \<Rightarrow> bool" where
  "occurs_in p [] = (p = [])"
| "occurs_in p (c # s) = (take (length p) (c # s) = p \<or> occurs_in p s)"

definition mapHeaderExtUri :: "string \<Rightarrow> header_uri" where
  "mapHeaderExtUri uri =
     (if occurs_in ''sdes:mid'' uri then Mid
      else if occurs_in ''sdes:rtp-stream-id'' uri then RtpStreamId
      else if occurs_in ''sdes:repaired-rtp-stream-id'' uri then RepairRtpStreamId
      else if occurs_in ''abs-send-time'' uri then AbsSendTime
      else if occurs_in ''transport-wide-cc'' uri then TransportWideCcDraft01
      else if occurs_in ''ssrc-audio-level'' uri then SsrcAudioLevel
      else if occurs_in ''dependency-descriptor'' uri then DependencyDescriptor
      else if occurs_in ''video-orientation'' uri then VideoOrientation
      else if occurs_in ''toffset'' uri then TimeOffset
      else if occurs_in ''abs-capture-time'' uri then AbsCaptureTime
      else if occurs_in ''playout-delay'' uri then PlayoutDelay
      else Mid)"

definition extension_from :: "(rat \<Rightarrow> int) \<Rightarrow> json \<Rightarrow> header_extension option" where
  "extension_from conv ext =
     do { uri \<leftarrow> json_value_string ext ''uri'' [];
          i \<leftarrow> json_value_int conv ext ''id'' 0;
          enc \<leftarrow> json_value_bool ext ''encrypt'' False;
          Some \<lparr>hx_uri = mapHeaderExtUri uri, hx_id = word_of_int i, hx_encrypt = enc\<rparr> }"

definition encoding_from :: "(rat \<Rightarrow> int) \<Rightarrow> json \<Rightarrow> encoding_parameters option" where
  "encoding_from conv enc =
     do { ssrc \<leftarrow> json_optional (json_get_uint32 conv) enc ''ssrc'';
          rid \<leftarrow> json_opt_string enc ''rid'' [];
          pt \<leftarrow> json_optional (json_get_uint8 conv) enc ''codecPayloadType'';
          rtx \<leftarrow> (case json_at enc ''rtx'' of
                    Some (JObject ms) \<Rightarrow> json_optional (json_get_uint32 conv) (JObject ms) ''ssrc''
                  | _ \<Rightarrow> Some None);
          dtx \<leftarrow> json_value_bool enc ''dtx'' False;
          scal \<leftarrow> json_opt_string enc ''scalabilityMode'' [];
          rate \<leftarrow> json_optional (json_get_uint32 conv) enc ''maxBitrate'';
          Some \<lparr>en_ssrc = ssrc, en_rid = rid, en_codecPayloadType = pt, en_rtx = rtx, en_dtx = dtx,
            en_scalabilityMode = scal, en_maxBitrate = rate\<rparr> }"

definition buildRtpParametersFromJson ::
  "(rat \<Rightarrow> int) \<Rightarrow> (json \<Rightarrow> string option) \<Rightarrow> json \<Rightarrow> rtp_parameters option" where
  "buildRtpParametersFromJson conv dump j =
     do { mid \<leftarrow> json_opt_string j ''mid'' [];
          codecs \<leftarrow> all_some (map (buildCodecFromJson conv dump) (json_array_at j ''codecs''));
          exts \<leftarrow> all_some (map (extension_from conv) (json_array_at j ''headerExtensions''));
          encs \<leftarrow> all_some (map (encoding_from conv) (json_array_at j ''encodings''));
          cname \<leftarrow> (case json_at j ''rtcp'' of None \<Rightarrow> Some [] | Some r \<Rightarrow> json_opt_string r ''cname'' []);
          reduced \<leftarrow> (case Option.bind (json_at j ''rtcp'') (\<lambda>r. json_at r ''reducedSize'') of
                        None \<Rightarrow> Some True | Some v \<Rightarrow> json_get_bool v);
          Some \<lparr>rp_mid = mid, rp_codecs = codecs, rp_headerExtensions = exts, rp_encodings = encs,
            rp_cname = cname, rp_reducedSize = reduced\<rparr> }"

definition codec_mapping_from :: "(rat \<Rightarrow> int) \<Rightarrow> json \<Rightarrow> (8 word \<times> 8 word) option" where
  "codec_mapping_from conv c =
     map_option (\<lambda>pt. (word_of_int pt, word_of_int pt)) (json_value_int conv c ''payloadType'' 0)"

text \<open>The loop with its counter \<open>mappedSsrc\<close>.\<close>

fun encoding_mappings_from :: "(rat \<Rightarrow> int) \<Rightarrow> 32 word \<Rightarrow> json list \<Rightarrow> encoding_mapping list option" where
  "encoding_mappings_from conv mappedSsrc [] = Some []"
| "encoding_mappings_from conv mappedSsrc (enc # encs) =
     do { rid \<leftarrow> json_opt_string enc ''rid'' [];
          ssrc \<leftarrow> json_optional (json_get_uint32 conv) enc ''ssrc'';
          scal \<leftarrow> json_opt_string enc ''scalabilityMode'' [];
          rest \<leftarrow> encoding_mappings_from conv (mappedSsrc + 1) encs;
          Some (\<lparr>em_rid = rid, em_ssrc = ssrc, em_scalabilityMode = scal, em_mappedSsrc = mappedSsrc\<rparr> # rest) }"

definition buildRtpMappingFromJson :: "(rat \<Rightarrow> int) \<Rightarrow> json \<Rightarrow> rtp_mapping option" where
  "buildRtpMappingFromJson conv j =
     do { codecs \<leftarrow> all_some (map (codec_mapping_from conv) (json_array_at j ''codecs''));
          encs \<leftarrow> encoding_mappings_from conv 100000000 (json_array_at j ''encodings'');
          Some \<lparr>mp_codecs = codecs, mp_encodings = encs\<rparr> }"

definition createProduceRequest ::
  "(rat \<Rightarrow> int) \<Rightarrow> (json \<Rightarrow> string option) \<Rightarrow> 32 word \<Rightarrow> string \<Rightarrow> string \<Rightarrow> string \<Rightarrow> json
     \<Rightarrow> worker_message option" where
  "createProduceRequest conv dump requestId transportId producerId kind rtpParameters =
     do { rtp \<leftarrow> buildRtpParametersFromJson conv dump rtpParameters;
          mapping \<leftarrow> buildRtpMappingFromJson conv rtpParameters;
          Some (To_worker_request requestId TRANSPORT_PRODUCE transportId
            (ProduceRequest \<lparr>pb_producerId = producerId,
               pb_kind = (if kind = ''audio'' then AUDIO_kind else VIDEO_kind),
               pb_rtpParameters = rtp, pb_rtpMapping = mapping, pb_paused = False,
               pb_keyFrameRequestDelay = 0\<rparr>)) }"

definition consumable_encoding :: encoding_parameters where
  "consumable_encoding = \<lparr>en_ssrc = Some 200000000, en_rid = [], en_codecPayloadType = None,
     en_rtx = None, en_dtx = False, en_scalabilityMode = [], en_maxBitrate = None\<rparr>"

definition createConsumeRequest ::
  "(rat \<Rightarrow> int) \<Rightarrow> (json \<Rightarrow> string option) \<Rightarrow> 32 word \<Rightarrow> string \<Rightarrow> string \<Rightarrow> string \<Rightarrow> json
     \<Rightarrow> worker_message option" where
  "createConsumeRequest conv dump requestId transportId consumerId producerId rtpCapabilities =
     map_option (\<lambda>rtp. To_worker_request requestId TRANSPORT_CONSUME transportId
       (ConsumeRequest \<lparr>cb_consumerId = consumerId, cb_producerId = producerId, cb_kind = VIDEO_kind,
          cb_rtpParameters = rtp, cb_type = SIMPLE, cb_consumableRtpEncodings = [consumable_encoding],
          cb_paused = False, cb_ignoreDtx = False\<rparr>))
       (buildRtpParametersFromJson conv dump rtpCapabilities)"

section \<open>Responses\<close>

text \<open>
  What the worker sends, with the optional fields of the tables as options. An algorithm or type
  outside the enumeration is \<open>None\<close>.
\<close>

record ice_candidate =
  ik_foundation :: "string option"
  ik_priority :: "32 word"
  ik_address :: "string option"
  ik_udp :: bool
  ik_port :: "16 word"

record transport_dump =
  dm_ice :: "(string option \<times> string option \<times> bool) option"
  dm_candidates :: "ice_candidate list option"
  dm_dtls :: "(fingerprint_algorithm option \<times> string option) list option option"

record consume_result =
  cr_paused :: bool
  cr_producerPaused :: bool
  cr_preferredLayers :: "(8 word \<times> 8 word option) option"

datatype response_body =
    Other_body
  | Transport_dump_body transport_dump
  | Produce_body "rtp_type option"
  | Consume_body consume_result

record worker_response =
  wr_id :: "32 word"
  wr_accepted :: bool
  wr_reason :: "string option"
  wr_body :: response_body

text \<open>\<open>No_data\<close> is the empty vector that the channel returns when it is closed or times out.\<close>

datatype worker_reply = No_data | Not_a_response | A_response worker_response

definition parseResponse :: "worker_reply \<Rightarrow> 32 word \<Rightarrow> string + worker_response" where
  "parseResponse data expectedId =
     (case data of
        No_data \<Rightarrow> Inl ''empty response''
      | Not_a_response \<Rightarrow> Inl ''not a response message''
      | A_response r \<Rightarrow>
          if wr_id r \<noteq> expectedId
          then Inl (''response ID mismatch: expected '' @ decimal_nat (unat expectedId) @ '' got ''
                      @ decimal_nat (unat (wr_id r)))
          else if \<not> wr_accepted r
          then Inl (case wr_reason r of Some why \<Rightarrow> why | None \<Rightarrow> ''unknown error'')
          else Inr r)"

definition str_or_empty :: "string option \<Rightarrow> json" where
  "str_or_empty s = JString (case s of Some x \<Rightarrow> x | None \<Rightarrow> [])"

definition candidate_json :: "ice_candidate \<Rightarrow> json" where
  "candidate_json c = JObject
     [(''foundation'', str_or_empty (ik_foundation c)), (''priority'', JInt (uint (ik_priority c))),
      (''address'', str_or_empty (ik_address c)), (''port'', JInt (uint (ik_port c))),
      (''protocol'', JString (if ik_udp c then ''udp'' else ''tcp'')), (''type'', JString ''host'')]"

definition algorithm_to :: "fingerprint_algorithm option \<Rightarrow> string" where
  "algorithm_to a =
     (case a of
        Some SHA1 \<Rightarrow> ''sha-1''
      | Some SHA224 \<Rightarrow> ''sha-224''
      | Some SHA256 \<Rightarrow> ''sha-256''
      | Some SHA384 \<Rightarrow> ''sha-384''
      | Some SHA512 \<Rightarrow> ''sha-512''
      | None \<Rightarrow> ''sha-256'')"

definition fingerprint_json :: "fingerprint_algorithm option \<times> string option \<Rightarrow> json" where
  "fingerprint_json f = JObject [(''algorithm'', JString (algorithm_to (fst f))), (''value'', str_or_empty (snd f))]"

text \<open>A response without a dump gives the null value.\<close>

definition parseWebRtcTransportDump :: "worker_response \<Rightarrow> json" where
  "parseWebRtcTransportDump r =
     (case wr_body r of
        Transport_dump_body d \<Rightarrow> JObject
          ((case dm_ice d of
              None \<Rightarrow> []
            | Some (ufrag, pwd, lite) \<Rightarrow>
                [(''iceParameters'', JObject [(''usernameFragment'', str_or_empty ufrag),
                    (''password'', str_or_empty pwd), (''iceLite'', JBool lite)])]) @
           [(''iceCandidates'', JArray (case dm_candidates d of None \<Rightarrow> [] | Some cs \<Rightarrow> map candidate_json cs))] @
           (case dm_dtls d of
              None \<Rightarrow> []
            | Some fps \<Rightarrow>
                [(''dtlsParameters'', JObject [(''role'', JString ''auto''),
                    (''fingerprints'', JArray (case fps of None \<Rightarrow> [] | Some xs \<Rightarrow> map fingerprint_json xs))])]))
      | _ \<Rightarrow> JNull)"

definition parseProduceResponse :: "worker_reply \<Rightarrow> 32 word \<Rightarrow> string option" where
  "parseProduceResponse data expectedId =
     (case data of
        A_response r \<Rightarrow>
          if wr_id r \<noteq> expectedId \<or> \<not> wr_accepted r then None
          else (case wr_body r of
                  Produce_body (Some SIMULCAST) \<Rightarrow> Some ''simulcast''
                | Produce_body (Some SVC) \<Rightarrow> Some ''svc''
                | Produce_body (Some PIPE) \<Rightarrow> Some ''pipe''
                | _ \<Rightarrow> Some ''simple'')
      | _ \<Rightarrow> None)"

definition parseConsumeResponse :: "worker_response \<Rightarrow> json" where
  "parseConsumeResponse r =
     (case wr_body r of
        Consume_body c \<Rightarrow> JObject
          ([(''paused'', JBool (cr_paused c)), (''producerPaused'', JBool (cr_producerPaused c))] @
           (case cr_preferredLayers c of
              None \<Rightarrow> []
            | Some (sp, temporal) \<Rightarrow>
                [(''preferredLayers'', JObject [(''spatialLayer'', JInt (uint sp)),
                    (''temporalLayer'', JInt (case temporal of None \<Rightarrow> 0 | Some t \<Rightarrow> uint t))])]))
      | _ \<Rightarrow> JNull)"

section \<open>What the messages say\<close>

lemma json_at_object [simp]: "json_at (JObject ms) k = map_of ms k"
  by (simp add: json_at_def)

lemma all_some_map: "(\<And>x. x \<in> set xs \<Longrightarrow> f x = Some (g x)) \<Longrightarrow> all_some (map f xs) = Some (map g xs)"
  by (induction xs) simp_all

lemma all_some_SomeD: "all_some xs = Some ys \<Longrightarrow> xs = map Some ys"
  by (induction xs arbitrary: ys rule: all_some.induct) auto

text \<open>The algorithm under which a fingerprint comes back.\<close>

definition returned_algorithm :: "fingerprint_algorithm option \<Rightarrow> fingerprint_algorithm" where
  "returned_algorithm a = (case a of None \<Rightarrow> SHA256 | Some SHA224 \<Rightarrow> SHA256 | Some b \<Rightarrow> b)"

lemma algorithm_from_to: "algorithm_from (algorithm_to a) = returned_algorithm a"
  by (cases a rule: option.exhaust)
    (auto simp: algorithm_from_def algorithm_to_def returned_algorithm_def split: fingerprint_algorithm.split)

text \<open>
  A peer that answers with the security parameters it was given is understood: the
  fingerprints that the server printed from a worker's transport come back into the connect
  request with their values, in order, and with their algorithms, except that SHA-224, which is
  printed but not read, comes back as SHA-256.
\<close>

theorem fingerprints_round_trip:
  "connectTransportRequest i t
     (JObject [(''role'', JString ''auto''), (''fingerprints'', JArray (map fingerprint_json fps))])
   = Some (To_worker_request i WEBRTCTRANSPORT_CONNECT t
       (ConnectRequest (map (\<lambda>(a, v). (returned_algorithm a, case v of None \<Rightarrow> [] | Some s \<Rightarrow> s)) fps) AUTO_role))"
proof -
  have "fingerprint_from (fingerprint_json f)
      = Some (case f of (a, v) \<Rightarrow> (returned_algorithm a, case v of None \<Rightarrow> [] | Some s \<Rightarrow> s))" for f
    by (simp add: fingerprint_from_def fingerprint_json_def json_value_string_def json_get_string_def
        json_at_string_def str_or_empty_def algorithm_from_to split_beta split: option.split)
  then have "all_some (map fingerprint_from (map fingerprint_json fps))
      = Some (map (\<lambda>(a, v). (returned_algorithm a, case v of None \<Rightarrow> [] | Some s \<Rightarrow> s)) fps)"
    by (simp only: map_map comp_def) (rule all_some_map, rule refl)
  then show ?thesis
    by (simp add: connectTransportRequest_def json_items_def json_opt_string_def json_contains_def
        json_at_string_def json_get_string_def role_from_def del: map_map)
qed

lemma encoding_mappings_ssrcs:
  "encoding_mappings_from conv s encs = Some ms
   \<Longrightarrow> map em_mappedSsrc ms = map (\<lambda>i. s + of_nat i) [0..<length encs]"
proof (induction encs arbitrary: s ms)
  case (Cons enc encs)
  then obtain m rest where ms: "ms = m # rest" "em_mappedSsrc m = s"
    and "encoding_mappings_from conv (s + 1) encs = Some rest"
    by (auto simp: Option.bind_eq_Some_conv)
  from Cons.IH [OF this(3)] have "map em_mappedSsrc rest = map (\<lambda>i. s + of_nat i) (map Suc [0..<length encs])"
    by (simp add: ac_simps)
  then show ?case unfolding ms by (simp add: ms map_Suc_upt upt_conv_Cons del: upt_Suc map_map)
qed simp

lemma of_nat_small_inj:
  assumes "i < 2 ^ 32" and "j < 2 ^ 32"
  shows "(of_nat i :: 32 word) = of_nat j \<longleftrightarrow> i = j"
  using assms by (simp add: word_of_nat_eq_iff take_bit_nat_eq_self)

text \<open>
  A viewer is attached to a source that does not exist. A producer's encodings are renamed
  to the consecutive sources 100000000, 100000001, ..., the same for every producer with as many
  encodings; a consumer is told to take its stream from the source 200000000, which is none of
  them, for every producer with at most a hundred million encodings.
\<close>

theorem consumer_source_unknown:
  assumes "buildRtpMappingFromJson conv j = Some m"
    and "length (json_array_at j ''encodings'') \<le> 100000000"
  shows "map em_mappedSsrc (mp_encodings m)
       = map (\<lambda>i. of_nat (100000000 + i)) [0..<length (json_array_at j ''encodings'')]
     \<and> distinct (map em_mappedSsrc (mp_encodings m))
     \<and> en_ssrc consumable_encoding \<notin> Some ` set (map em_mappedSsrc (mp_encodings m))"
proof -
  let ?n = "length (json_array_at j ''encodings'')"
  have "encoding_mappings_from conv 100000000 (json_array_at j ''encodings'') = Some (mp_encodings m)"
    using assms(1) by (auto simp: buildRtpMappingFromJson_def Option.bind_eq_Some_conv)
  from encoding_mappings_ssrcs [OF this]
  have s: "map em_mappedSsrc (mp_encodings m) = map (\<lambda>i. of_nat (100000000 + i)) [0..<?n]" by simp
  have "inj_on (\<lambda>i. of_nat (100000000 + i) :: 32 word) {0..<?n}"
    using assms(2) by (intro inj_onI) (subst (asm) of_nat_small_inj; simp)
  then have "distinct (map (\<lambda>i. of_nat (100000000 + i) :: 32 word) [0..<?n])" by (simp add: distinct_map)
  moreover have "(of_nat (100000000 + i) :: 32 word) \<noteq> 200000000" if "i < ?n" for i
    using of_nat_small_inj [of "100000000 + i" 200000000] that assms(2) by simp
  ultimately show ?thesis by (auto simp: s consumable_encoding_def)
qed

definition two_layers :: json where
  "two_layers = JObject [(''encodings'', JArray [JObject [(''rid'', JString ''l'')], JObject [(''rid'', JString ''h'')]])]"

theorem consumer_source_unknown_witness:
  "map_option (map em_mappedSsrc \<circ> mp_encodings) (buildRtpMappingFromJson (\<lambda>_. 0) two_layers) = Some [100000000, 100000001]"
proof -
  have n: "length (json_array_at two_layers ''encodings'') = 2" by (simp add: two_layers_def json_array_at_def)
  obtain m where m: "buildRtpMappingFromJson (\<lambda>_. 0) two_layers = Some m"
    by (auto simp: buildRtpMappingFromJson_def two_layers_def json_array_at_def json_optional_def
        json_opt_string_def json_contains_def json_at_string_def json_get_string_def)
  from consumer_source_unknown [OF m] n have "map em_mappedSsrc (mp_encodings m) = [100000000, 100000001]"
    by (simp add: upt_rec)
  then show ?thesis by (simp add: m)
qed

text \<open>
  A viewer that offers the capabilities it got from this server gets useless stream
  parameters: the request to the worker has the codecs of the capabilities, but with the payload
  type 0 for each, because the capabilities carry it under another key than the one that is
  read, without any encoding, and as video even for the sound.
\<close>

theorem capabilities_lose_payload_types:
  "case createConsumeRequest conv dump i t c p makeRtpCapabilities of
     Some (To_worker_request i' TRANSPORT_CONSUME t' (ConsumeRequest b)) \<Rightarrow>
       map (\<lambda>x. (cc_mimeType x, cc_payloadType x)) (rp_codecs (cb_rtpParameters b))
         = [(''video/H264'', 0), (''audio/opus'', 0)]
       \<and> rp_encodings (cb_rtpParameters b) = [] \<and> cb_kind b = VIDEO_kind
   | _ \<Rightarrow> False"
  by (simp add: createConsumeRequest_def buildRtpParametersFromJson_def makeRtpCapabilities_def json_array_at_def
      buildCodecFromJson_def json_value_string_def json_value_int_def json_value_uint32_def json_optional_def
      parameter_from_def feedback_from_def json_opt_string_def json_contains_def json_at_string_def
      json_get_string_def json_get_uint32_def json_get_uint8_def json_get_int_def)

text \<open>
  A produce request is consistent in itself: the codec mapping has an entry for each codec
  of the stream, in order, that maps its payload type to itself, and an encoding mapping for
  each encoding with the same name, source and layers.
\<close>

theorem produce_request_consistent:
  assumes "createProduceRequest conv dump i t p kind j = Some (To_worker_request i' meth t' (ProduceRequest b))"
  shows "mp_codecs (pb_rtpMapping b)
       = map (\<lambda>x. (cc_payloadType x, cc_payloadType x)) (rp_codecs (pb_rtpParameters b))
     \<and> map (\<lambda>e. (em_rid e, em_ssrc e, em_scalabilityMode e)) (mp_encodings (pb_rtpMapping b))
       = map (\<lambda>e. (en_rid e, en_ssrc e, en_scalabilityMode e)) (rp_encodings (pb_rtpParameters b))"
proof -
  obtain r m where r: "buildRtpParametersFromJson conv dump j = Some r" and m: "buildRtpMappingFromJson conv j = Some m"
    and b: "pb_rtpParameters b = r" "pb_rtpMapping b = m"
    using assms by (auto simp: createProduceRequest_def Option.bind_eq_Some_conv)
  have codec: "map_option (\<lambda>x. (cc_payloadType x, cc_payloadType x)) (buildCodecFromJson conv dump c)
      = codec_mapping_from conv c" if "buildCodecFromJson conv dump c = Some x" for c x
    using that by (auto simp: buildCodecFromJson_def codec_mapping_from_def Option.bind_eq_Some_conv)
  have codecs: "all_some (map (codec_mapping_from conv) cs) = Some (map (\<lambda>x. (cc_payloadType x, cc_payloadType x)) xs)"
    if "all_some (map (buildCodecFromJson conv dump) cs) = Some xs" for cs xs
    using that
  proof (induction cs arbitrary: xs)
    case (Cons c cs)
    from all_some_SomeD [OF Cons.prems] obtain y ys where xs: "xs = y # ys"
      "buildCodecFromJson conv dump c = Some y" "map (buildCodecFromJson conv dump) cs = map Some ys" by auto
    moreover have "all_some (map Some ys) = Some ys" for ys :: "codec_parameters list" by (induction ys) simp_all
    ultimately show ?case using Cons.IH [of ys] codec [OF xs(2)] by (cases "codec_mapping_from conv c") auto
  qed simp
  have encs: "map (\<lambda>e. (em_rid e, em_ssrc e, em_scalabilityMode e)) ms = map (\<lambda>e. (en_rid e, en_ssrc e, en_scalabilityMode e)) xs"
    if "map (encoding_from conv) es = map Some xs" "encoding_mappings_from conv s es = Some ms" for es xs ms s
    using that
  proof (induction es arbitrary: xs ms s)
    case (Cons e es)
    then obtain x xs' where xs: "xs = x # xs'" "encoding_from conv e = Some x" "map (encoding_from conv) es = map Some xs'"
      by auto
    from Cons.prems(2) obtain rid ssrc scal ms' where
      ms: "ms = \<lparr>em_rid = rid, em_ssrc = ssrc, em_scalabilityMode = scal, em_mappedSsrc = s\<rparr> # ms'"
      and rest: "encoding_mappings_from conv (s + 1) es = Some ms'"
      and m: "json_opt_string e ''rid'' [] = Some rid" "json_optional (json_get_uint32 conv) e ''ssrc'' = Some ssrc"
        "json_opt_string e ''scalabilityMode'' [] = Some scal"
      by (auto simp: Option.bind_eq_Some_conv)
    have "(rid, ssrc, scal) = (en_rid x, en_ssrc x, en_scalabilityMode x)"
      using xs(2) m by (auto simp: encoding_from_def Option.bind_eq_Some_conv)
    with Cons.IH [OF xs(3) rest] show ?case by (simp add: xs ms)
  qed simp
  from r m codecs show ?thesis
    by (auto simp: b buildRtpParametersFromJson_def buildRtpMappingFromJson_def Option.bind_eq_Some_conv
        intro!: encs dest!: all_some_SomeD [of "map (encoding_from conv) _"])
qed

definition sample_stream :: json where
  "sample_stream = JObject
     [(''codecs'', JArray [JObject [(''mimeType'', JString ''video/H264''), (''payloadType'', JInt 96)]]),
      (''encodings'', JArray [JObject [(''ssrc'', JInt 7), (''scalabilityMode'', JString ''S3T1'')]])]"

theorem produce_request_consistent_witness:
  "case createProduceRequest (\<lambda>_. 0) (\<lambda>_. None) 1 ''t'' ''p'' ''video'' sample_stream of
     Some (To_worker_request _ _ _ (ProduceRequest b)) \<Rightarrow> mp_codecs (pb_rtpMapping b) = [(96, 96)]
   | _ \<Rightarrow> False"
proof -
  obtain b where b: "createProduceRequest (\<lambda>_. 0) (\<lambda>_. None) 1 ''t'' ''p'' ''video'' sample_stream
      = Some (To_worker_request 1 TRANSPORT_PRODUCE ''t'' (ProduceRequest b))"
    and "map cc_payloadType (rp_codecs (pb_rtpParameters b)) = [96]"
    by (simp add: createProduceRequest_def buildRtpParametersFromJson_def buildRtpMappingFromJson_def sample_stream_def
        json_array_at_def buildCodecFromJson_def encoding_from_def codec_mapping_from_def json_value_string_def
        json_value_int_def json_value_uint32_def json_value_bool_def json_optional_def json_opt_string_def
        json_contains_def json_at_string_def json_get_string_def json_get_uint32_def json_get_int_def)
  with produce_request_consistent [OF b] show ?thesis by (auto simp: map_eq_Cons_conv)
qed

end
