(* ===== verification/Mediasoup_Backend.thy ===== *)
theory Mediasoup_Backend
  imports Worker_Messages
begin

text \<open>
  The backend of production builds, src/media/MediasoupSfuBackend.cpp: the tables of routers,
  transports, producers and consumers, and the messages it gives to the channels of the workers.
  What the channel of a worker returns for a message is a parameter, as are the random bytes.
  The lemmas show that the tables stay consistent and keep the contract of the room manager,
  that every message goes to the worker that knows its handler, and what closing a transport
  does to the others.
\<close>

section \<open>State\<close>

record media_config =
  mg_numWorkers :: int
  mg_logLevel :: string
  mg_rtcMinPort :: int
  mg_rtcMaxPort :: int
  mg_dtlsCertFile :: string
  mg_dtlsKeyFile :: string

text \<open>
  A worker is an index into the list of channels. \<open>mb_sent\<close> is what has been given to the
  channels, in order. The round-robin counter is an \<^verbatim>\<open>int\<close>, whose overflow after \<open>2 ^ 31\<close> routers
  is undefined and not modelled.
\<close>

record media_backend =
  mb_config :: media_config
  mb_channels :: "channel list"
  mb_sent :: "(nat \<times> worker_message) list"
  mb_routers :: "string \<rightharpoonup> nat"
  mb_transports :: "string \<rightharpoonup> string"
  mb_producers :: "string \<rightharpoonup> string"
  mb_kinds :: "string \<rightharpoonup> string"
  mb_consumers :: "string \<rightharpoonup> string"
  mb_nextWorkerIdx :: nat

text \<open>\<open>cores\<close> is what \<^verbatim>\<open>hardware_concurrency\<close> answers.\<close>

definition worker_count :: "int \<Rightarrow> media_config \<Rightarrow> nat" where
  "worker_count cores cfg =
     (if mg_numWorkers cfg \<le> 0 then (if cores \<le> 0 then 1 else nat cores) else nat (mg_numWorkers cfg))"

definition worker_arguments :: "media_config \<Rightarrow> string list" where
  "worker_arguments cfg =
     [''mediasoup-worker'', ''--logLevel='' @ mg_logLevel cfg,
      ''--rtcMinPort='' @ decimal (mg_rtcMinPort cfg), ''--rtcMaxPort='' @ decimal (mg_rtcMaxPort cfg)]
     @ (if mg_dtlsCertFile cfg \<noteq> [] then [''--dtlsCertificateFile='' @ mg_dtlsCertFile cfg] else [])
     @ (if mg_dtlsKeyFile cfg \<noteq> [] then [''--dtlsPrivateKeyFile='' @ mg_dtlsKeyFile cfg] else [])"

definition new_media :: "int \<Rightarrow> media_config \<Rightarrow> media_backend" where
  "new_media cores cfg =
     \<lparr>mb_config = cfg, mb_channels = replicate (worker_count cores cfg) new_channel, mb_sent = [],
      mb_routers = Map.empty, mb_transports = Map.empty, mb_producers = Map.empty, mb_kinds = Map.empty,
      mb_consumers = Map.empty, mb_nextWorkerIdx = 0\<rparr>"

record media_env =
  me_rnd :: random
  me_reply :: "nat \<Rightarrow> worker_message \<Rightarrow> worker_reply"
  me_conv :: "rat \<Rightarrow> int"
  me_dump :: "json \<Rightarrow> string option"

definition pickWorker :: "media_backend \<Rightarrow> nat option \<times> media_backend" where
  "pickWorker b =
     (if length (mb_channels b) = 0 then (None, b)
      else (Some (mb_nextWorkerIdx b mod length (mb_channels b)),
            b\<lparr>mb_nextWorkerIdx := mb_nextWorkerIdx b + 1\<rparr>))"

definition channelForRouter :: "media_backend \<Rightarrow> string \<Rightarrow> nat option" where
  "channelForRouter b r = mb_routers b r"

definition channelForTransport :: "media_backend \<Rightarrow> string \<Rightarrow> nat option" where
  "channelForTransport b t = (case mb_transports b t of None \<Rightarrow> None | Some r \<Rightarrow> channelForRouter b r)"

definition channelForProducer :: "media_backend \<Rightarrow> string \<Rightarrow> nat option" where
  "channelForProducer b p = (case mb_producers b p of None \<Rightarrow> None | Some t \<Rightarrow> channelForTransport b t)"

definition channelForConsumer :: "media_backend \<Rightarrow> string \<Rightarrow> nat option" where
  "channelForConsumer b c = (case mb_consumers b c of None \<Rightarrow> None | Some t \<Rightarrow> channelForTransport b t)"

text \<open>The next request identifier of a worker's channel, and a message given to it.\<close>

definition next_request :: "nat \<Rightarrow> media_backend \<Rightarrow> 32 word \<times> media_backend" where
  "next_request w b =
     (let (i, c) = genRequestId (mb_channels b ! w) in (i, b\<lparr>mb_channels := (mb_channels b)[w := c]\<rparr>))"

definition give :: "nat \<Rightarrow> worker_message \<Rightarrow> media_backend \<Rightarrow> media_backend" where
  "give w msg b = b\<lparr>mb_sent := mb_sent b @ [(w, msg)]\<rparr>"

text \<open>A request, and the error text that each operation makes of a response that is refused.\<close>

definition ask ::
  "media_env \<Rightarrow> string \<Rightarrow> nat \<Rightarrow> 32 word \<Rightarrow> worker_message \<Rightarrow> media_backend
     \<Rightarrow> worker_response result \<times> media_backend" where
  "ask env what w i msg b =
     (case parseResponse (me_reply env w msg) i of
        Inl reason \<Rightarrow> fail InternalError (''[MediasoupSfuBackend] '' @ what @ '' failed: '' @ reason)
      | Inr r \<Rightarrow> ok r,
      give w msg b)"

section \<open>Operations\<close>

definition ms_createRouter :: "media_env \<Rightarrow> string \<Rightarrow> media_backend \<Rightarrow> string result \<times> media_backend" where
  "ms_createRouter env roomId b =
     (case pickWorker b of
        (None, b1) \<Rightarrow> (fail ServiceUnavailable ''no workers available'', b1)
      | (Some w, b1) \<Rightarrow>
          let (i, b2) = next_request w b1
          in case uuid_result (me_rnd env) of
               Inl e \<Rightarrow> (Inl e, b2)
             | Inr routerId \<Rightarrow>
                 (case ask env ''createRouter'' w i (createRouterRequest i routerId) b2 of
                    (Inl e, b3) \<Rightarrow> (Inl e, b3)
                  | (Inr _, b3) \<Rightarrow> (ok routerId, b3\<lparr>mb_routers := (mb_routers b3)(routerId \<mapsto> w)\<rparr>)))"

text \<open>
  Forgetting the transports that satisfy \<open>P\<close>, given the router they are on, with what is on
  them: the loops over the maps at the end of closing a router and a transport.
\<close>

definition forget_transports :: "(string \<Rightarrow> string \<Rightarrow> bool) \<Rightarrow> media_backend \<Rightarrow> media_backend" where
  "forget_transports P b =
     (let gone = (\<lambda>t. case mb_transports b t of None \<Rightarrow> False | Some r \<Rightarrow> P t r);
          lost = (\<lambda>p. case mb_producers b p of None \<Rightarrow> False | Some t \<Rightarrow> gone t)
      in b\<lparr>mb_kinds := map_keep (\<lambda>p _. \<not> lost p) (mb_kinds b),
           mb_producers := map_keep (\<lambda>_ t. \<not> gone t) (mb_producers b),
           mb_consumers := map_keep (\<lambda>_ t. \<not> gone t) (mb_consumers b),
           mb_transports := map_keep (\<lambda>t _. \<not> gone t) (mb_transports b)\<rparr>)"

definition ms_closeRouter :: "string \<Rightarrow> media_backend \<Rightarrow> media_backend" where
  "ms_closeRouter routerId b =
     (case channelForRouter b routerId of
        None \<Rightarrow> b
      | Some w \<Rightarrow>
          let (i, b1) = next_request w b;
              b2 = give w (closeRouterRequest i routerId) b1;
              b3 = forget_transports (\<lambda>_ r. r = routerId) b2
          in b3\<lparr>mb_routers := (mb_routers b3)(routerId := None)\<rparr>)"

definition ms_getRouterRtpCapabilities :: "string \<Rightarrow> media_backend \<Rightarrow> json result" where
  "ms_getRouterRtpCapabilities routerId b =
     (if mb_routers b routerId = None then fail NotFound (''Router not found: '' @ routerId)
      else ok makeRtpCapabilities)"

text \<open>\<^verbatim>\<open>value\<close> throws when the response carries no dump; the outer \<open>None\<close>.\<close>

definition json_member_or :: "json \<Rightarrow> string \<Rightarrow> json \<Rightarrow> json option" where
  "json_member_or j k dflt =
     (case j of JObject ms \<Rightarrow> Some (case map_of ms k of None \<Rightarrow> dflt | Some v \<Rightarrow> v) | _ \<Rightarrow> None)"

definition dumped_transport :: "string \<Rightarrow> json \<Rightarrow> transport_info option" where
  "dumped_transport transportId dump =
     do { ice \<leftarrow> json_member_or dump ''iceParameters'' (JObject []);
          cands \<leftarrow> json_member_or dump ''iceCandidates'' (JArray []);
          dtls \<leftarrow> json_member_or dump ''dtlsParameters'' (JObject []);
          Some \<lparr>ti_id = transportId, ti_iceParameters = ice, ti_iceCandidates = cands,
            ti_dtlsParameters = dtls, ti_sctpParameters = JNull\<rparr> }"

definition ms_createWebRtcTransport ::
  "media_env \<Rightarrow> string \<Rightarrow> media_backend \<Rightarrow> transport_info result option \<times> media_backend" where
  "ms_createWebRtcTransport env routerId b =
     (case channelForRouter b routerId of
        None \<Rightarrow> (Some (fail NotFound (''Router not found: '' @ routerId)), b)
      | Some w \<Rightarrow>
          let (i, b1) = next_request w b
          in case uuid_result (me_rnd env) of
               Inl e \<Rightarrow> (Some (Inl e), b1)
             | Inr transportId \<Rightarrow>
                 (case ask env ''createWebRtcTransport'' w i
                     (createWebRtcTransportRequest i routerId transportId ''0.0.0.0''
                        (mg_rtcMinPort (mb_config b)) (mg_rtcMaxPort (mb_config b))) b1 of
                    (Inl e, b2) \<Rightarrow> (Some (Inl e), b2)
                  | (Inr r, b2) \<Rightarrow>
                      (case dumped_transport transportId (parseWebRtcTransportDump r) of
                         None \<Rightarrow> (None, b2)
                       | Some info \<Rightarrow>
                           (Some (ok info), b2\<lparr>mb_transports := (mb_transports b2)(transportId \<mapsto> routerId)\<rparr>))))"

definition ms_connectTransport ::
  "media_env \<Rightarrow> string \<Rightarrow> json \<Rightarrow> media_backend \<Rightarrow> unit result option \<times> media_backend" where
  "ms_connectTransport env transportId dtlsParameters b =
     (case channelForTransport b transportId of
        None \<Rightarrow> (Some (fail NotFound (''Transport not found: '' @ transportId)), b)
      | Some w \<Rightarrow>
          let (i, b1) = next_request w b
          in case connectTransportRequest i transportId dtlsParameters of
               None \<Rightarrow> (None, b1)
             | Some msg \<Rightarrow>
                 (case ask env ''connectTransport'' w i msg b1 of
                    (Inl e, b2) \<Rightarrow> (Some (Inl e), b2)
                  | (Inr _, b2) \<Rightarrow>
                      (map_option (\<lambda>_. ok ()) (json_value_string dtlsParameters ''role'' ''<auto>''), b2)))"

definition ms_produce ::
  "media_env \<Rightarrow> string \<Rightarrow> string \<Rightarrow> json \<Rightarrow> media_backend \<Rightarrow> producer_info result option \<times> media_backend" where
  "ms_produce env transportId kind rtpParameters b =
     (case channelForTransport b transportId of
        None \<Rightarrow> (Some (fail NotFound (''Transport not found: '' @ transportId)), b)
      | Some w \<Rightarrow>
          (case uuid_result (me_rnd env) of
             Inl e \<Rightarrow> (Some (Inl e), b)
           | Inr producerId \<Rightarrow>
               let (i, b1) = next_request w b
               in case createProduceRequest (me_conv env) (me_dump env) i transportId producerId kind rtpParameters of
                    None \<Rightarrow> (None, b1)
                  | Some msg \<Rightarrow>
                      (case ask env ''produce'' w i msg b1 of
                         (Inl e, b2) \<Rightarrow> (Some (Inl e), b2)
                       | (Inr r, b2) \<Rightarrow>
                           (Some (ok \<lparr>pi_id = producerId, pi_kind = kind,
                              pi_type = (case parseProduceResponse (A_response r) i of
                                           None \<Rightarrow> ''simple'' | Some ty \<Rightarrow> ty)\<rparr>),
                            b2\<lparr>mb_producers := (mb_producers b2)(producerId \<mapsto> transportId),
                               mb_kinds := (mb_kinds b2)(producerId \<mapsto> kind)\<rparr>))))"

definition ms_consume ::
  "media_env \<Rightarrow> string \<Rightarrow> string \<Rightarrow> json \<Rightarrow> media_backend \<Rightarrow> consumer_info result option \<times> media_backend" where
  "ms_consume env transportId producerId rtpCapabilities b =
     (case channelForTransport b transportId of
        None \<Rightarrow> (Some (fail NotFound (''Transport not found: '' @ transportId)), b)
      | Some w \<Rightarrow>
          (case uuid_result (me_rnd env) of
             Inl e \<Rightarrow> (Some (Inl e), b)
           | Inr consumerId \<Rightarrow>
               let (i, b1) = next_request w b
               in case createConsumeRequest (me_conv env) (me_dump env) i transportId consumerId producerId
                        rtpCapabilities of
                    None \<Rightarrow> (None, b1)
                  | Some msg \<Rightarrow>
                      (case ask env ''consume'' w i msg b1 of
                         (Inl e, b2) \<Rightarrow> (Some (Inl e), b2)
                       | (Inr r, b2) \<Rightarrow>
                           (Some (ok \<lparr>ci_id = consumerId, ci_producerId = producerId,
                              ci_kind = (case mb_kinds b2 producerId of None \<Rightarrow> ''video'' | Some k \<Rightarrow> k),
                              ci_rtpParameters = (case parseConsumeResponse r of JNull \<Rightarrow> rtpCapabilities | d \<Rightarrow> d)\<rparr>),
                            b2\<lparr>mb_consumers := (mb_consumers b2)(consumerId \<mapsto> transportId)\<rparr>))))"

definition ms_closeTransport :: "string \<Rightarrow> media_backend \<Rightarrow> media_backend" where
  "ms_closeTransport transportId b =
     (case channelForTransport b transportId of
        None \<Rightarrow> b
      | Some w \<Rightarrow> forget_transports (\<lambda>t _. t = transportId) (give w (closeTransportNotification transportId) b))"

text \<open>What the four operations on one producer or consumer have in common.\<close>

definition ask_about ::
  "media_env \<Rightarrow> string \<Rightarrow> nat option \<Rightarrow> string \<Rightarrow> (32 word \<Rightarrow> worker_message) \<Rightarrow> media_backend
     \<Rightarrow> unit result \<times> media_backend" where
  "ask_about env what wo missing msg b =
     (case wo of
        None \<Rightarrow> (fail NotFound missing, b)
      | Some w \<Rightarrow>
          let (i, b1) = next_request w b
          in case ask env what w i (msg i) b1 of
               (Inl e, b2) \<Rightarrow> (Inl e, b2)
             | (Inr _, b2) \<Rightarrow> (ok (), b2))"

definition ms_pauseProducer :: "media_env \<Rightarrow> string \<Rightarrow> media_backend \<Rightarrow> unit result \<times> media_backend" where
  "ms_pauseProducer env p b =
     ask_about env ''pauseProducer'' (channelForProducer b p) (''Producer not found: '' @ p)
       (\<lambda>i. createPauseProducerRequest i p) b"

definition ms_resumeProducer :: "media_env \<Rightarrow> string \<Rightarrow> media_backend \<Rightarrow> unit result \<times> media_backend" where
  "ms_resumeProducer env p b =
     ask_about env ''resumeProducer'' (channelForProducer b p) (''Producer not found: '' @ p)
       (\<lambda>i. createResumeProducerRequest i p) b"

definition ms_requestKeyFrame :: "media_env \<Rightarrow> string \<Rightarrow> media_backend \<Rightarrow> unit result \<times> media_backend" where
  "ms_requestKeyFrame env c b =
     ask_about env ''requestKeyFrame'' (channelForConsumer b c) (''Consumer not found: '' @ c)
       (\<lambda>i. createRequestKeyFrameRequest i c) b"

definition ms_setConsumerPreferredLayers ::
  "media_env \<Rightarrow> string \<Rightarrow> int \<Rightarrow> int \<Rightarrow> media_backend \<Rightarrow> unit result \<times> media_backend" where
  "ms_setConsumerPreferredLayers env c spatial temporal b =
     ask_about env ''setConsumerPreferredLayers'' (channelForConsumer b c) (''Consumer not found: '' @ c)
       (\<lambda>i. createSetPreferredLayersRequest i c spatial temporal) b"

section \<open>The tables\<close>

text \<open>
  Every producer and consumer is on a transport, every transport on a router, every router on a
  worker that exists; a producer has a kind.
\<close>

definition media_tables :: "media_backend \<Rightarrow> bool" where
  "media_tables b \<longleftrightarrow>
     mb_channels b \<noteq> [] \<and> ran (mb_routers b) \<subseteq> {..<length (mb_channels b)}
     \<and> ran (mb_transports b) \<subseteq> dom (mb_routers b)
     \<and> ran (mb_producers b) \<subseteq> dom (mb_transports b) \<and> ran (mb_consumers b) \<subseteq> dom (mb_transports b)
     \<and> dom (mb_kinds b) = dom (mb_producers b)"

named_theorems media_frame

lemma next_request_frame [media_frame]:
  "length (mb_channels (snd (next_request w b))) = length (mb_channels b)"
  "mb_routers (snd (next_request w b)) = mb_routers b"
  "mb_transports (snd (next_request w b)) = mb_transports b"
  "mb_producers (snd (next_request w b)) = mb_producers b"
  "mb_kinds (snd (next_request w b)) = mb_kinds b"
  "mb_consumers (snd (next_request w b)) = mb_consumers b"
  "mb_config (snd (next_request w b)) = mb_config b"
  "mb_sent (snd (next_request w b)) = mb_sent b"
  by (simp_all add: next_request_def split_beta)

lemma give_frame [media_frame]:
  "mb_channels (give w msg b) = mb_channels b" "mb_routers (give w msg b) = mb_routers b"
  "mb_transports (give w msg b) = mb_transports b" "mb_producers (give w msg b) = mb_producers b"
  "mb_kinds (give w msg b) = mb_kinds b" "mb_consumers (give w msg b) = mb_consumers b"
  "mb_config (give w msg b) = mb_config b" "mb_sent (give w msg b) = mb_sent b @ [(w, msg)]"
  by (simp_all add: give_def)

lemma pickWorker_frame [media_frame]:
  "mb_channels (snd (pickWorker b)) = mb_channels b" "mb_routers (snd (pickWorker b)) = mb_routers b"
  "mb_transports (snd (pickWorker b)) = mb_transports b" "mb_producers (snd (pickWorker b)) = mb_producers b"
  "mb_kinds (snd (pickWorker b)) = mb_kinds b" "mb_consumers (snd (pickWorker b)) = mb_consumers b"
  "mb_config (snd (pickWorker b)) = mb_config b" "mb_sent (snd (pickWorker b)) = mb_sent b"
  by (simp_all add: pickWorker_def)

text \<open>
  What an operation may do besides drawing a request identifier: \<open>sends\<close> is the message it
  gives, if any. The tables of the state \<open>b1\<close> are those of \<open>b\<close>.
\<close>

definition same_tables :: "media_backend \<Rightarrow> media_backend \<Rightarrow> bool" where
  "same_tables b b1 \<longleftrightarrow> length (mb_channels b1) = length (mb_channels b) \<and> mb_routers b1 = mb_routers b
     \<and> mb_transports b1 = mb_transports b \<and> mb_producers b1 = mb_producers b \<and> mb_kinds b1 = mb_kinds b
     \<and> mb_consumers b1 = mb_consumers b"

lemma same_tables_ops [intro]:
  "same_tables b b" "same_tables b b1 \<Longrightarrow> same_tables b (snd (next_request w b1))"
  "same_tables b b1 \<Longrightarrow> same_tables b (give w msg b1)" "same_tables b (snd (pickWorker b))"
  by (simp_all add: same_tables_def media_frame)

lemma media_tables_same: "same_tables b b1 \<Longrightarrow> media_tables b \<Longrightarrow> media_tables b1"
  unfolding media_tables_def same_tables_def by (metis length_0_conv)

lemma media_tables_iff:
  "media_tables b \<longleftrightarrow> mb_channels b \<noteq> []
     \<and> (\<forall>r w. mb_routers b r = Some w \<longrightarrow> w < length (mb_channels b))
     \<and> (\<forall>t r. mb_transports b t = Some r \<longrightarrow> mb_routers b r \<noteq> None)
     \<and> (\<forall>p t. mb_producers b p = Some t \<longrightarrow> mb_transports b t \<noteq> None)
     \<and> (\<forall>c t. mb_consumers b c = Some t \<longrightarrow> mb_transports b t \<noteq> None)
     \<and> (\<forall>p. mb_kinds b p = None \<longleftrightarrow> mb_producers b p = None)"
proof -
  have ran: "ran m \<subseteq> A \<longleftrightarrow> (\<forall>k v. m k = Some v \<longrightarrow> v \<in> A)" for m :: "string \<rightharpoonup> 'x" and A
    by (auto simp: ran_def)
  have dom: "dom m = dom n \<longleftrightarrow> (\<forall>k. m k = None \<longleftrightarrow> n k = None)" for m n :: "string \<rightharpoonup> string"
    unfolding set_eq_iff domIff by metis
  show ?thesis unfolding media_tables_def ran dom domIff lessThan_iff ..
qed

lemma media_tables_router:
  "media_tables b \<Longrightarrow> w < length (mb_channels b) \<Longrightarrow> media_tables (b\<lparr>mb_routers := (mb_routers b)(r \<mapsto> w)\<rparr>)"
  by (simp add: media_tables_iff)

lemma media_tables_transport:
  "media_tables b \<Longrightarrow> mb_routers b r \<noteq> None \<Longrightarrow> media_tables (b\<lparr>mb_transports := (mb_transports b)(t \<mapsto> r)\<rparr>)"
  by (simp add: media_tables_iff)

lemma media_tables_producer:
  "media_tables b \<Longrightarrow> mb_transports b t \<noteq> None \<Longrightarrow>
   media_tables (b\<lparr>mb_producers := (mb_producers b)(p \<mapsto> t), mb_kinds := (mb_kinds b)(p \<mapsto> k)\<rparr>)"
  by (simp add: media_tables_iff)

lemma media_tables_consumer:
  "media_tables b \<Longrightarrow> mb_transports b t \<noteq> None \<Longrightarrow> media_tables (b\<lparr>mb_consumers := (mb_consumers b)(c \<mapsto> t)\<rparr>)"
  by (simp add: media_tables_iff)

lemma forget_fields [simp]:
  "mb_channels (forget_transports P b) = mb_channels b" "mb_routers (forget_transports P b) = mb_routers b"
  "mb_sent (forget_transports P b) = mb_sent b" "mb_config (forget_transports P b) = mb_config b"
  by (simp_all add: forget_transports_def Let_def)

lemma forget_transports_iff:
  "mb_transports (forget_transports P b) t = Some r \<longleftrightarrow> mb_transports b t = Some r \<and> \<not> P t r"
  "mb_producers (forget_transports P b) p = Some t' \<longleftrightarrow>
     mb_producers b p = Some t' \<and> (case mb_transports b t' of None \<Rightarrow> True | Some r \<Rightarrow> \<not> P t' r)"
  "mb_consumers (forget_transports P b) c = Some t' \<longleftrightarrow>
     mb_consumers b c = Some t' \<and> (case mb_transports b t' of None \<Rightarrow> True | Some r \<Rightarrow> \<not> P t' r)"
  "mb_kinds (forget_transports P b) p = Some k \<longleftrightarrow>
     mb_kinds b p = Some k \<and> (case Option.bind (mb_producers b p) (\<lambda>t. map_option (Pair t) (mb_transports b t)) of
        None \<Rightarrow> True | Some (t, r) \<Rightarrow> \<not> P t r)"
  by (auto simp: forget_transports_def Let_def split: option.splits)

lemma media_tables_forget:
  assumes "media_tables b"
  shows "media_tables (forget_transports P b)"
proof -
  note t = assms [unfolded media_tables_iff]
  have "mb_kinds (forget_transports P b) p = None \<longleftrightarrow> mb_producers (forget_transports P b) p = None" for p
  proof (cases "mb_producers b p")
    case None
    with t have "mb_kinds b p = None" by blast
    with None show ?thesis by (simp add: forget_transports_def Let_def map_keep_def)
  next
    case (Some t')
    with t obtain k r where "mb_kinds b p = Some k" "mb_transports b t' = Some r" by (metis not_None_eq)
    with Some show ?thesis by (simp add: forget_transports_def Let_def map_keep_def)
  qed
  moreover have "mb_transports (forget_transports P b) t' \<noteq> None"
    if "mb_producers (forget_transports P b) p = Some t' \<or> mb_consumers (forget_transports P b) p = Some t'" for p t'
  proof -
    from that have *: "case mb_transports b t' of None \<Rightarrow> True | Some r \<Rightarrow> \<not> P t' r" and "mb_transports b t' \<noteq> None"
      using t by (auto simp: forget_transports_iff)
    then obtain r where "mb_transports b t' = Some r" "\<not> P t' r" by auto
    then have "mb_transports (forget_transports P b) t' = Some r" by (simp add: forget_transports_iff)
    then show ?thesis by simp
  qed
  moreover have "mb_routers b r \<noteq> None" if "mb_transports (forget_transports P b) t' = Some r" for t' r
    using that t unfolding forget_transports_iff by blast
  ultimately show ?thesis using t unfolding media_tables_iff forget_fields by blast
qed

lemma media_tables_no_router:
  assumes "media_tables b"
  shows "media_tables ((forget_transports (\<lambda>_ r'. r' = r) b)\<lparr>mb_routers := (mb_routers b)(r := None)\<rparr>)"
proof -
  let ?b = "forget_transports (\<lambda>_ r'. r' = r) b"
  have "r' \<noteq> r" if "mb_transports ?b t = Some r'" for t r'
    using that unfolding forget_transports_iff by blast
  then show ?thesis using media_tables_forget [OF assms, of "\<lambda>_ r'. r' = r"]
    by (simp add: media_tables_iff)
qed

section \<open>Operations as steps\<close>

datatype media_op =
    Create_router media_env string
  | Close_router string
  | Create_transport media_env string
  | Connect_transport media_env string json
  | Produce_op media_env string string json
  | Consume_op media_env string string json
  | Close_transport string
  | Pause_producer media_env string
  | Resume_producer media_env string
  | Request_key_frame media_env string
  | Set_layers media_env string int int

fun media_step :: "media_op \<Rightarrow> media_backend \<Rightarrow> media_backend" where
  "media_step (Create_router env l) b = snd (ms_createRouter env l b)"
| "media_step (Close_router r) b = ms_closeRouter r b"
| "media_step (Create_transport env r) b = snd (ms_createWebRtcTransport env r b)"
| "media_step (Connect_transport env t j) b = snd (ms_connectTransport env t j b)"
| "media_step (Produce_op env t k j) b = snd (ms_produce env t k j b)"
| "media_step (Consume_op env t p j) b = snd (ms_consume env t p j b)"
| "media_step (Close_transport t) b = ms_closeTransport t b"
| "media_step (Pause_producer env p) b = snd (ms_pauseProducer env p b)"
| "media_step (Resume_producer env p) b = snd (ms_resumeProducer env p b)"
| "media_step (Request_key_frame env c) b = snd (ms_requestKeyFrame env c b)"
| "media_step (Set_layers env c x y) b = snd (ms_setConsumerPreferredLayers env c x y b)"

text \<open>
  What an operation does to the backend, in the abstract: it gives at most one message, to the
  worker of the entity it is about, and changes at most one entry, or forgets a transport or a
  router with everything on it. \<open>fresh\<close> says that a new identifier is not in use.
\<close>

fun message_handler :: "worker_message \<Rightarrow> string option" where
  "message_handler (To_worker_request i WORKER_CREATE_ROUTER h d) = None"
| "message_handler (To_worker_request i meth h d) = Some h"
| "message_handler (To_worker_notification h e) = Some h"

definition owns :: "media_backend \<Rightarrow> nat \<Rightarrow> string \<Rightarrow> bool" where
  "owns b w h \<longleftrightarrow> channelForRouter b h = Some w \<or> channelForTransport b h = Some w
     \<or> channelForProducer b h = Some w \<or> channelForConsumer b h = Some w"

definition addressed :: "media_backend \<Rightarrow> nat \<Rightarrow> worker_message \<Rightarrow> bool" where
  "addressed b w msg = (case message_handler msg of None \<Rightarrow> True | Some h \<Rightarrow> owns b w h)"

inductive media_change :: "bool \<Rightarrow> media_backend \<Rightarrow> media_backend \<Rightarrow> bool" for fresh b where
  mc_quiet: "same_tables b b1 \<Longrightarrow> mb_sent b1 = mb_sent b \<Longrightarrow> media_change fresh b b1"
| mc_told: "same_tables b b1 \<Longrightarrow> mb_sent b1 = mb_sent b @ [(w, msg)] \<Longrightarrow> addressed b w msg
     \<Longrightarrow> media_change fresh b b1"
| mc_router: "same_tables b b1 \<Longrightarrow> mb_sent b1 = mb_sent b @ [(w, createRouterRequest i r)]
     \<Longrightarrow> w < length (mb_channels b) \<Longrightarrow> (fresh \<Longrightarrow> mb_routers b r = None)
     \<Longrightarrow> media_change fresh b (b1\<lparr>mb_routers := (mb_routers b1)(r \<mapsto> w)\<rparr>)"
| mc_transport: "same_tables b b1
     \<Longrightarrow> mb_sent b1 = mb_sent b @ [(w, To_worker_request i ROUTER_CREATE_WEBRTCTRANSPORT r
           (CreateWebRtcTransportRequest t opts))]
     \<Longrightarrow> mb_routers b r = Some w \<Longrightarrow> (fresh \<Longrightarrow> mb_transports b t = None)
     \<Longrightarrow> media_change fresh b (b1\<lparr>mb_transports := (mb_transports b1)(t \<mapsto> r)\<rparr>)"
| mc_producer: "same_tables b b1
     \<Longrightarrow> mb_sent b1 = mb_sent b @ [(w, To_worker_request i TRANSPORT_PRODUCE t (ProduceRequest d))]
     \<Longrightarrow> channelForTransport b t = Some w \<Longrightarrow> p = pb_producerId d
     \<Longrightarrow> media_change fresh b (b1\<lparr>mb_producers := (mb_producers b1)(p \<mapsto> t), mb_kinds := (mb_kinds b1)(p \<mapsto> k)\<rparr>)"
| mc_consumer: "same_tables b b1
     \<Longrightarrow> mb_sent b1 = mb_sent b @ [(w, To_worker_request i TRANSPORT_CONSUME t (ConsumeRequest d))]
     \<Longrightarrow> channelForTransport b t = Some w \<Longrightarrow> c = cb_consumerId d
     \<Longrightarrow> media_change fresh b (b1\<lparr>mb_consumers := (mb_consumers b1)(c \<mapsto> t)\<rparr>)"
| mc_close_transport: "same_tables b b1 \<Longrightarrow> mb_sent b1 = mb_sent b @ [(w, closeTransportNotification t)]
     \<Longrightarrow> channelForTransport b t = Some w
     \<Longrightarrow> media_change fresh b (forget_transports (\<lambda>t' _. t' = t) b1)"
| mc_close_router: "same_tables b b1 \<Longrightarrow> mb_sent b1 = mb_sent b @ [(w, closeRouterRequest i r)]
     \<Longrightarrow> mb_routers b r = Some w
     \<Longrightarrow> media_change fresh b ((forget_transports (\<lambda>_ r'. r' = r) b1)\<lparr>mb_routers := (mb_routers b1)(r := None)\<rparr>)"

definition fresh_media :: "media_op \<Rightarrow> media_backend \<Rightarrow> bool" where
  "fresh_media op b =
     (case op of
        Create_router env _ \<Rightarrow>
          (case generateUuid (me_rnd env) of None \<Rightarrow> True | Some u \<Rightarrow> mb_routers b u = None)
      | Create_transport env _ \<Rightarrow>
          (case generateUuid (me_rnd env) of None \<Rightarrow> True | Some u \<Rightarrow> mb_transports b u = None)
      | _ \<Rightarrow> True)"

lemma ask_snd [simp]: "snd (ask env what w i msg b) = give w msg b"
  by (simp add: ask_def)

lemma uuid_result_Inr: "uuid_result rnd = Inr u \<longleftrightarrow> generateUuid rnd = Some u"
  by (simp add: uuid_result_def ok_def fail_def split: option.split)

lemma owns_transport: "channelForTransport b t = Some w \<Longrightarrow> owns b w t" by (simp add: owns_def)

lemma change_create_router:
  "media_change (fresh_media (Create_router env l) b) b (snd (ms_createRouter env l b))"
proof (cases "mb_channels b = []")
  case True
  then show ?thesis by (auto simp: ms_createRouter_def pickWorker_def intro: mc_quiet)
next
  case False
  define w where "w = mb_nextWorkerIdx b mod length (mb_channels b)"
  have w: "w < length (mb_channels b)" using False by (simp add: w_def)
  obtain b1 where p: "pickWorker b = (Some w, b1)" and b1: "same_tables b b1" "mb_sent b1 = mb_sent b"
    using False same_tables_ops(4) [of b] by (simp add: pickWorker_def w_def same_tables_def)
  obtain i b2 where n: "next_request w b1 = (i, b2)" by force
  then have b2: "same_tables b b2" "mb_sent b2 = mb_sent b"
    using same_tables_ops(2) [OF b1(1), of w] b1(2) media_frame(8) [of w b1] by simp_all
  show ?thesis
  proof (cases "uuid_result (me_rnd env)")
    case (Inl e)
    then show ?thesis using b2 by (auto simp: ms_createRouter_def p n intro: mc_quiet)
  next
    case (Inr r)
    let ?b3 = "give w (createRouterRequest i r) b2"
    have b3: "same_tables b ?b3" "mb_sent ?b3 = mb_sent b @ [(w, createRouterRequest i r)]"
      using b2 by (auto simp: media_frame)
    have "addressed b w (createRouterRequest i r)" by (simp add: addressed_def createRouterRequest_def)
    from mc_told [OF b3 this] have told: "media_change F b ?b3" for F .
    have "fresh_media (Create_router env l) b \<Longrightarrow> mb_routers b r = None"
      using Inr by (simp add: fresh_media_def uuid_result_Inr)
    from mc_router [OF b3 w this] told show ?thesis
      by (auto simp: ms_createRouter_def p n Inr ask_def ok_def fail_def split: sum.split)
  qed
qed

lemma next_requestE:
  obtains i b1 where "next_request w b = (i, b1)" "same_tables b b1" "mb_sent b1 = mb_sent b"
  using same_tables_ops(2) [of b b w] media_frame(8) [of w b] by (cases "next_request w b") auto

lemma change_create_transport:
  "media_change (fresh_media (Create_transport env r) b) b (snd (ms_createWebRtcTransport env r b))"
proof (cases "mb_routers b r")
  case None
  then show ?thesis by (auto simp: ms_createWebRtcTransport_def channelForRouter_def intro: mc_quiet)
next
  case (Some w)
  obtain i b1 where n: "next_request w b = (i, b1)" and b1: "same_tables b b1" "mb_sent b1 = mb_sent b"
    by (rule next_requestE)
  show ?thesis
  proof (cases "uuid_result (me_rnd env)")
    case (Inl e)
    then show ?thesis using b1 by (auto simp: ms_createWebRtcTransport_def channelForRouter_def Some n intro: mc_quiet)
  next
    case (Inr t)
    define msg where "msg = createWebRtcTransportRequest i r t ''0.0.0.0'' (mg_rtcMinPort (mb_config b))
      (mg_rtcMaxPort (mb_config b))"
    obtain opts where m: "msg = To_worker_request i ROUTER_CREATE_WEBRTCTRANSPORT r (CreateWebRtcTransportRequest t opts)"
      by (simp add: msg_def createWebRtcTransportRequest_def)
    have b2: "same_tables b (give w msg b1)" "mb_sent (give w msg b1) = mb_sent b @ [(w, msg)]"
      using b1 by (auto simp: media_frame)
    have "addressed b w msg" by (simp add: addressed_def m owns_def channelForRouter_def Some)
    from mc_told [OF b2 this] have told: "media_change F b (give w msg b1)" for F .
    have "fresh_media (Create_transport env r) b \<Longrightarrow> mb_transports b t = None"
      using Inr by (simp add: fresh_media_def uuid_result_Inr)
    from mc_transport [OF b2 [unfolded m] Some this] told show ?thesis
      by (auto simp: ms_createWebRtcTransport_def channelForRouter_def Some n Inr ask_def ok_def fail_def
          msg_def [symmetric] m split: sum.split option.split)
  qed
qed

lemma change_connect: "media_change F b (snd (ms_connectTransport env t j b))"
proof (cases "channelForTransport b t")
  case None
  then show ?thesis by (auto simp: ms_connectTransport_def intro: mc_quiet)
next
  case (Some w)
  obtain i b1 where n: "next_request w b = (i, b1)" and b1: "same_tables b b1" "mb_sent b1 = mb_sent b"
    by (rule next_requestE)
  show ?thesis
  proof (cases "connectTransportRequest i t j")
    case None
    then show ?thesis using b1 by (auto simp: ms_connectTransport_def Some n intro: mc_quiet)
  next
    case (Some msg)
    have "addressed b w msg"
      using Some \<open>channelForTransport b t = Some w\<close>
      by (auto simp: connectTransportRequest_def Option.bind_eq_Some_conv addressed_def owns_def)
    then have "media_change F b (give w msg b1)"
      using b1 by (intro mc_told) (auto simp: media_frame)
    then show ?thesis
      by (simp add: ms_connectTransport_def n Some \<open>channelForTransport b t = Some w\<close> ask_def split: sum.split)
  qed
qed

lemma createProduceRequest_Some:
  "createProduceRequest conv dump i t p k j = Some msg
   \<Longrightarrow> \<exists>d. msg = To_worker_request i TRANSPORT_PRODUCE t (ProduceRequest d) \<and> p = pb_producerId d"
  by (auto simp: createProduceRequest_def Option.bind_eq_Some_conv)

lemma createConsumeRequest_Some:
  "createConsumeRequest conv dump i t c p j = Some msg
   \<Longrightarrow> \<exists>d. msg = To_worker_request i TRANSPORT_CONSUME t (ConsumeRequest d) \<and> c = cb_consumerId d"
  by (auto simp: createConsumeRequest_def)

lemma change_produce: "media_change F b (snd (ms_produce env t k j b))"
proof (cases "channelForTransport b t")
  case None
  then show ?thesis by (auto simp: ms_produce_def intro: mc_quiet)
next
  case w: (Some w)
  obtain i b1 where n: "next_request w b = (i, b1)" and b1: "same_tables b b1" "mb_sent b1 = mb_sent b"
    by (rule next_requestE)
  show ?thesis
  proof (cases "uuid_result (me_rnd env)")
    case (Inl e)
    then show ?thesis by (auto simp: ms_produce_def w intro: mc_quiet)
  next
    case (Inr p)
    show ?thesis
    proof (cases "createProduceRequest (me_conv env) (me_dump env) i t p k j")
      case None
      then show ?thesis using b1 by (auto simp: ms_produce_def w n Inr intro: mc_quiet)
    next
      case (Some msg)
      from createProduceRequest_Some [OF this] obtain d where
        m: "msg = To_worker_request i TRANSPORT_PRODUCE t (ProduceRequest d)" "p = pb_producerId d" by blast
      have b2: "same_tables b (give w msg b1)" "mb_sent (give w msg b1) = mb_sent b @ [(w, msg)]"
        using b1 by (auto simp: media_frame)
      have "addressed b w msg" by (simp add: addressed_def m owns_def w)
      from mc_told [OF b2 this] mc_producer [OF b2 [unfolded m(1)] w m(2)] show ?thesis
        by (auto simp: ms_produce_def w n Inr Some m(1) ask_def ok_def fail_def split: sum.split)
    qed
  qed
qed

lemma change_consume: "media_change F b (snd (ms_consume env t p j b))"
proof (cases "channelForTransport b t")
  case None
  then show ?thesis by (auto simp: ms_consume_def intro: mc_quiet)
next
  case w: (Some w)
  obtain i b1 where n: "next_request w b = (i, b1)" and b1: "same_tables b b1" "mb_sent b1 = mb_sent b"
    by (rule next_requestE)
  show ?thesis
  proof (cases "uuid_result (me_rnd env)")
    case (Inl e)
    then show ?thesis by (auto simp: ms_consume_def w intro: mc_quiet)
  next
    case (Inr c)
    show ?thesis
    proof (cases "createConsumeRequest (me_conv env) (me_dump env) i t c p j")
      case None
      then show ?thesis using b1 by (auto simp: ms_consume_def w n Inr intro: mc_quiet)
    next
      case (Some msg)
      from createConsumeRequest_Some [OF this] obtain d where
        m: "msg = To_worker_request i TRANSPORT_CONSUME t (ConsumeRequest d)" "c = cb_consumerId d" by blast
      have b2: "same_tables b (give w msg b1)" "mb_sent (give w msg b1) = mb_sent b @ [(w, msg)]"
        using b1 by (auto simp: media_frame)
      have "addressed b w msg" by (simp add: addressed_def m owns_def w)
      from mc_told [OF b2 this] mc_consumer [OF b2 [unfolded m(1)] w m(2)] show ?thesis
        by (auto simp: ms_consume_def w n Inr Some m(1) ask_def ok_def fail_def split: sum.split)
    qed
  qed
qed

lemma change_ask_about:
  assumes "\<And>i. message_handler (msg i) = Some h" and "\<And>w. wo = Some w \<Longrightarrow> owns b w h"
  shows "media_change F b (snd (ask_about env what wo missing msg b))"
proof (cases wo)
  case None
  then show ?thesis by (auto simp: ask_about_def intro: mc_quiet)
next
  case (Some w)
  obtain i b1 where n: "next_request w b = (i, b1)" and b1: "same_tables b b1" "mb_sent b1 = mb_sent b"
    by (rule next_requestE)
  have "media_change F b (give w (msg i) b1)"
    using b1 assms Some by (intro mc_told) (auto simp: media_frame addressed_def)
  then show ?thesis by (simp add: ask_about_def Some n ask_def split: sum.split)
qed

lemma media_step_change: "media_change (fresh_media op b) b (media_step op b)"
proof (cases op)
  case (Close_router r)
  show ?thesis
  proof (cases "mb_routers b r")
    case None
    then show ?thesis by (auto simp: Close_router ms_closeRouter_def channelForRouter_def intro: mc_quiet)
  next
    case (Some w)
    obtain i b1 where n: "next_request w b = (i, b1)" and b1: "same_tables b b1" "mb_sent b1 = mb_sent b"
      by (rule next_requestE)
    have "same_tables b (give w (closeRouterRequest i r) b1)"
      "mb_sent (give w (closeRouterRequest i r) b1) = mb_sent b @ [(w, closeRouterRequest i r)]"
      using b1 by (auto simp: media_frame)
    from mc_close_router [OF this Some] show ?thesis
      by (simp add: Close_router ms_closeRouter_def channelForRouter_def Some n Let_def)
  qed
next
  case (Close_transport t)
  show ?thesis
  proof (cases "channelForTransport b t")
    case None
    then show ?thesis by (auto simp: Close_transport ms_closeTransport_def intro: mc_quiet)
  next
    case (Some w)
    have "same_tables b (give w (closeTransportNotification t) b)"
      "mb_sent (give w (closeTransportNotification t) b) = mb_sent b @ [(w, closeTransportNotification t)]"
      by (auto simp: media_frame)
    from mc_close_transport [OF this Some] show ?thesis
      by (simp add: Close_transport ms_closeTransport_def Some)
  qed
qed (auto simp: change_create_router change_create_transport change_connect change_produce change_consume
    ms_pauseProducer_def ms_resumeProducer_def ms_requestKeyFrame_def ms_setConsumerPreferredLayers_def
    createPauseProducerRequest_def createResumeProducerRequest_def createRequestKeyFrameRequest_def
    createSetPreferredLayersRequest_def owns_def intro!: change_ask_about)

section \<open>Invariants\<close>

lemma same_tables_media: "same_tables b b1 \<Longrightarrow> media_tables b1 \<longleftrightarrow> media_tables b"
  unfolding media_tables_def same_tables_def by (metis length_0_conv)

lemma media_change_tables: "media_change fresh b b' \<Longrightarrow> media_tables b \<Longrightarrow> media_tables b'"
proof (induction rule: media_change.induct)
  case (mc_router b1 w i r)
  then show ?case by (intro media_tables_router) (auto simp: same_tables_media, simp add: same_tables_def)
next
  case (mc_transport b1 w i r t opts)
  then show ?case by (intro media_tables_transport) (auto simp: same_tables_media, simp add: same_tables_def)
next
  case (mc_producer b1 w i t d p k)
  then show ?case
    by (intro media_tables_producer)
      (auto simp: same_tables_media, auto simp: same_tables_def channelForTransport_def split: option.splits)
next
  case (mc_consumer b1 w i t d c)
  then show ?case
    by (intro media_tables_consumer)
      (auto simp: same_tables_media, auto simp: same_tables_def channelForTransport_def split: option.splits)
next
  case (mc_close_router b1 w i r)
  then show ?case by (intro media_tables_no_router) (simp add: same_tables_media)
qed (simp_all add: same_tables_media media_tables_forget)

lemma media_step_tables: "media_tables b \<Longrightarrow> media_tables (media_step op b)"
  by (rule media_change_tables [OF media_step_change])

lemma media_tables_new: "media_tables (new_media cores cfg)"
  by (auto simp: media_tables_def new_media_def worker_count_def ran_def)

text \<open>
  The tables of the backend are consistent after every sequence of operations, whatever the
  workers answer and even if an identifier comes twice: every producer and consumer is on a
  known transport, every transport on a known router, every router on a worker that exists,
  and exactly the producers have a kind.
\<close>

theorem media_tables_consistent:
  "media_tables (fold media_step ops (new_media cores cfg))"
proof -
  have "media_tables b \<Longrightarrow> media_tables (fold media_step ops b)" for b
    by (induction ops arbitrary: b) (simp_all add: media_step_tables)
  then show ?thesis by (simp add: media_tables_new)
qed

text \<open>
  The names a worker has been told of: of routers, transports, producers and consumers. A log is
  routed when each message is about a name that its worker has been told of before.
\<close>

definition introduces :: "worker_message \<Rightarrow> string option" where
  "introduces msg =
     (case msg of
        To_worker_request i meth h d \<Rightarrow>
          (case d of
             CreateRouterRequest r \<Rightarrow> Some r
           | CreateWebRtcTransportRequest t opts \<Rightarrow> Some t
           | ProduceRequest body \<Rightarrow> Some (pb_producerId body)
           | ConsumeRequest body \<Rightarrow> Some (cb_consumerId body)
           | _ \<Rightarrow> None)
      | To_worker_notification h e \<Rightarrow> None)"

definition knows :: "(nat \<times> worker_message) list \<Rightarrow> nat \<Rightarrow> string \<Rightarrow> bool" where
  "knows sent w h = list_ex (\<lambda>(v, msg). v = w \<and> introduces msg = Some h) sent"

fun routed :: "(nat \<times> worker_message) list \<Rightarrow> (nat \<times> worker_message) list \<Rightarrow> bool" where
  "routed seen [] = True"
| "routed seen ((w, msg) # sent) =
     ((case message_handler msg of None \<Rightarrow> True | Some h \<Rightarrow> knows seen w h)
      \<and> routed (seen @ [(w, msg)]) sent)"

lemma knows_append [simp]: "knows (xs @ ys) w h \<longleftrightarrow> knows xs w h \<or> knows ys w h"
  by (simp add: knows_def)

lemma knows_one [simp]: "knows [(v, msg)] w h \<longleftrightarrow> v = w \<and> introduces msg = Some h"
  by (simp add: knows_def)

lemma routed_snoc:
  "routed seen (sent @ [(w, msg)]) \<longleftrightarrow>
     routed seen sent \<and> (case message_handler msg of None \<Rightarrow> True | Some h \<Rightarrow> knows (seen @ sent) w h)"
  by (induction seen sent rule: routed.induct) (auto split: option.splits)

definition routing_inv :: "media_backend \<Rightarrow> bool" where
  "routing_inv b \<longleftrightarrow> routed [] (mb_sent b) \<and> (\<forall>w h. owns b w h \<longrightarrow> knows (mb_sent b) w h)"

lemma same_tables_owns: "same_tables b b1 \<Longrightarrow> owns b1 w h \<longleftrightarrow> owns b w h"
  by (simp add: same_tables_def owns_def channelForRouter_def channelForTransport_def channelForProducer_def
      channelForConsumer_def split: option.split)

lemma owns_forget: "owns (forget_transports P b) w h \<Longrightarrow> owns b w h"
  by (auto simp: owns_def channelForRouter_def channelForTransport_def channelForProducer_def
      channelForConsumer_def forget_transports_iff split: option.splits)

lemma owns_no_router: "owns (b\<lparr>mb_routers := (mb_routers b)(r := None)\<rparr>) w h \<Longrightarrow> owns b w h"
  by (auto simp: owns_def channelForRouter_def channelForTransport_def channelForProducer_def
      channelForConsumer_def split: option.splits if_splits)

lemma owns_new_router:
  assumes "media_tables b" and "mb_routers b r = None" and "owns (b\<lparr>mb_routers := (mb_routers b)(r \<mapsto> v)\<rparr>) w h"
  shows "owns b w h \<or> w = v \<and> h = r"
proof -
  have "mb_transports b t \<noteq> Some r" for t using assms(1,2) by (auto simp: media_tables_def ran_def)
  then show ?thesis using assms(3)
    by (auto simp: owns_def channelForRouter_def channelForTransport_def channelForProducer_def
        channelForConsumer_def split: option.splits if_splits)
qed

lemma owns_new_transport:
  assumes "media_tables b" and "mb_transports b t = None" and "mb_routers b r = Some v"
    and "owns (b\<lparr>mb_transports := (mb_transports b)(t \<mapsto> r)\<rparr>) w h"
  shows "owns b w h \<or> w = v \<and> h = t"
proof -
  have "mb_producers b p \<noteq> Some t" "mb_consumers b p \<noteq> Some t" for p
    using assms(1,2) by (auto simp: media_tables_def ran_def)
  then show ?thesis using assms(3,4)
    by (auto simp: owns_def channelForRouter_def channelForTransport_def channelForProducer_def
        channelForConsumer_def split: option.splits if_splits)
qed

lemma owns_new_flow:
  "owns (b\<lparr>mb_producers := (mb_producers b)(p \<mapsto> t), mb_kinds := ks\<rparr>) w h
   \<Longrightarrow> channelForTransport b t = Some v \<Longrightarrow> owns b w h \<or> w = v \<and> h = p"
  "owns (b\<lparr>mb_consumers := (mb_consumers b)(p \<mapsto> t)\<rparr>) w h
   \<Longrightarrow> channelForTransport b t = Some v \<Longrightarrow> owns b w h \<or> w = v \<and> h = p"
  by (auto simp: owns_def channelForRouter_def channelForTransport_def channelForProducer_def
      channelForConsumer_def split: option.splits if_splits)

lemma routing_told:
  assumes "routing_inv b" and "same_tables b b1" and "mb_sent b1 = mb_sent b @ [(w, msg)]" and "addressed b w msg"
  shows "routing_inv b1"
  using assms by (auto simp: routing_inv_def routed_snoc addressed_def same_tables_owns split: option.splits)

text \<open>A state with the sent of \<open>b1\<close> in which only \<open>n\<close> is new, which the last message introduced.\<close>

lemma routing_new:
  assumes "routing_inv b1" and "mb_sent b2 = mb_sent b1" and "knows (mb_sent b1) v n"
    and "\<And>w h. owns b2 w h \<Longrightarrow> owns b1 w h \<or> w = v \<and> h = n"
  shows "routing_inv b2"
  using assms unfolding routing_inv_def by metis

lemma routing_less:
  assumes "routing_inv b1" and "mb_sent b2 = mb_sent b1" and "\<And>w h. owns b2 w h \<Longrightarrow> owns b1 w h"
  shows "routing_inv b2"
  using assms unfolding routing_inv_def by metis

lemma channelForTransport_same: "same_tables b b1 \<Longrightarrow> channelForTransport b1 t = channelForTransport b t"
  by (simp add: same_tables_def channelForTransport_def channelForRouter_def split: option.split)

lemma media_change_routing:
  assumes "media_change True b b'" and "media_tables b" and "routing_inv b"
  shows "routing_inv b'"
  using assms
proof (induction rule: media_change.induct)
  case (mc_quiet b1)
  then show ?case by (simp add: routing_inv_def same_tables_owns)
next
  case (mc_told b1 w msg)
  then show ?case by (blast intro: routing_told)
next
  case (mc_router b1 w i r)
  have told: "routing_inv b1"
    using mc_router by (intro routing_told [of b b1]) (auto simp: addressed_def createRouterRequest_def)
  have "mb_routers b1 r = None" "media_tables b1"
    using mc_router by (auto simp: same_tables_media) (simp add: same_tables_def)
  then show ?case
    using mc_router(2) owns_new_router
    by (intro routing_new [OF told, of _ w r]) (auto simp: introduces_def createRouterRequest_def)
next
  case (mc_transport b1 w i r t opts)
  have told: "routing_inv b1"
    using mc_transport by (intro routing_told [of b b1]) (auto simp: addressed_def owns_def channelForRouter_def)
  have "mb_transports b1 t = None" "mb_routers b1 r = Some w" "media_tables b1"
    using mc_transport by (auto simp: same_tables_media) (simp_all add: same_tables_def)
  then show ?case
    using mc_transport(2) owns_new_transport
    by (intro routing_new [OF told, of _ w t]) (auto simp: introduces_def)
next
  case (mc_producer b1 w i t d p k)
  have told: "routing_inv b1"
    using mc_producer by (intro routing_told [of b b1]) (auto simp: addressed_def owns_def)
  have "channelForTransport b1 t = Some w" using mc_producer by (simp add: channelForTransport_same)
  then show ?case
    using mc_producer(2,4) owns_new_flow(1)
    by (intro routing_new [OF told, of _ w p]) (auto simp: introduces_def)
next
  case (mc_consumer b1 w i t d c)
  have told: "routing_inv b1"
    using mc_consumer by (intro routing_told [of b b1]) (auto simp: addressed_def owns_def)
  have "channelForTransport b1 t = Some w" using mc_consumer by (simp add: channelForTransport_same)
  then show ?case
    using mc_consumer(2,4) owns_new_flow(2)
    by (intro routing_new [OF told, of _ w c]) (auto simp: introduces_def)
next
  case (mc_close_transport b1 w t)
  have "routing_inv b1"
    using mc_close_transport
    by (intro routing_told [of b b1]) (auto simp: addressed_def owns_def closeTransportNotification_def)
  then show ?case by (rule routing_less) (auto dest: owns_forget)
next
  case (mc_close_router b1 w i r)
  have "routing_inv b1"
    using mc_close_router
    by (intro routing_told [of b b1]) (auto simp: addressed_def owns_def channelForRouter_def closeRouterRequest_def)
  then have "routing_inv (forget_transports (\<lambda>_ r'. r' = r) b1)" by (rule routing_less) (auto dest: owns_forget)
  then show ?case
  proof (rule routing_less)
    let ?b = "(forget_transports (\<lambda>_ r'. r' = r) b1)\<lparr>mb_routers := (mb_routers b1)(r := None)\<rparr>"
    show "mb_sent ?b = mb_sent (forget_transports (\<lambda>_ r'. r' = r) b1)" by simp
    show "owns (forget_transports (\<lambda>_ r'. r' = r) b1) v h" if "owns ?b v h" for v h
      using that owns_no_router [of "forget_transports (\<lambda>_ r'. r' = r) b1" r v h] by simp
  qed
qed

fun fresh_media_run :: "media_op list \<Rightarrow> media_backend \<Rightarrow> bool" where
  "fresh_media_run [] b = True"
| "fresh_media_run (op # ops) b = (fresh_media op b \<and> fresh_media_run ops (media_step op b))"

lemma routing_run:
  "fresh_media_run ops b \<Longrightarrow> media_tables b \<Longrightarrow> routing_inv b \<Longrightarrow> routing_inv (fold media_step ops b)"
proof (induction ops arbitrary: b)
  case (Cons op ops)
  have "media_change True b (media_step op b)" using media_step_change [of op b] Cons.prems(1) by simp
  with Cons show ?case by (simp add: media_step_tables media_change_routing)
qed simp

text \<open>
  C16: No message goes to the wrong worker: in every run in which no new router or transport gets
  an identifier in use, each request and notification given to a worker is about a router,
  transport, producer or consumer that this worker, and not just some worker, was told to create
  by an earlier message.
\<close>

theorem messages_reach_owner:
  assumes "fresh_media_run ops (new_media cores cfg)"
  shows "routed [] (mb_sent (fold media_step ops (new_media cores cfg)))"
proof -
  have "routing_inv (new_media cores cfg)"
    by (auto simp: routing_inv_def new_media_def owns_def channelForRouter_def channelForTransport_def
        channelForProducer_def channelForConsumer_def)
  from routing_run [OF assms media_tables_new this] show ?thesis by (simp add: routing_inv_def)
qed

section \<open>The contract of the room manager\<close>

definition ms_fresh :: "media_env \<Rightarrow> media_backend \<Rightarrow> bool" where
  "ms_fresh env b = (case generateUuid (me_rnd env) of None \<Rightarrow> True | Some u \<Rightarrow> mb_routers b u = None)"

lemma ms_createRouter_result:
  assumes "ms_createRouter env l b = (r, b')"
  shows "(\<exists>e. r = Inl e \<and> mb_routers b' = mb_routers b)
     \<or> (\<exists>u w. r = Inr u \<and> generateUuid (me_rnd env) = Some u \<and> mb_routers b' = (mb_routers b)(u \<mapsto> w))"
proof -
  obtain wo b1 where p: "pickWorker b = (wo, b1)" by force
  have b1: "mb_routers b1 = mb_routers b" using p by (auto simp: pickWorker_def split: if_splits)
  show ?thesis
  proof (cases wo)
    case None
    with assms b1 show ?thesis by (auto simp: ms_createRouter_def p fail_def)
  next
    case (Some w)
    obtain i b2 where n: "next_request w b1 = (i, b2)" and b2: "mb_routers b2 = mb_routers b"
      using next_requestE [of w b1] b1 by (metis same_tables_def)
    with assms Some show ?thesis
      by (auto simp: ms_createRouter_def p n ask_def uuid_result_def ok_def fail_def media_frame
          split: sum.splits option.splits)
  qed
qed

lemma ms_contract:
  "ms_createRouter e l b = (Inr r, b') \<Longrightarrow> ms_fresh e b
     \<Longrightarrow> r \<notin> dom (mb_routers b) \<and> dom (mb_routers b') = insert r (dom (mb_routers b))"
  "ms_createRouter e l b = (Inl x, b') \<Longrightarrow> dom (mb_routers b') = dom (mb_routers b)"
  "dom (mb_routers (ms_closeRouter r b)) = dom (mb_routers b) - {r}"
proof -
  show "ms_createRouter e l b = (Inr r, b') \<Longrightarrow> ms_fresh e b
     \<Longrightarrow> r \<notin> dom (mb_routers b) \<and> dom (mb_routers b') = insert r (dom (mb_routers b))"
    by (drule ms_createRouter_result) (auto simp: ms_fresh_def)
  show "ms_createRouter e l b = (Inl x, b') \<Longrightarrow> dom (mb_routers b') = dom (mb_routers b)"
    by (drule ms_createRouter_result) auto
  show "dom (mb_routers (ms_closeRouter r b)) = dom (mb_routers b) - {r}"
    by (auto simp: ms_closeRouter_def channelForRouter_def Let_def split_beta media_frame split: option.splits)
qed

interpretation production: sfu_routers "\<lambda>b. dom (mb_routers b)" ms_fresh ms_createRouter ms_closeRouter
  by unfold_locales (rule ms_contract; assumption)+

interpretation production_rooms: sfu_rooms "\<lambda>b. dom (mb_routers b)" ms_fresh ms_createRouter ms_closeRouter
  by unfold_locales

text \<open>
  C17: The backend of production builds keeps the same contract as the one of development builds:
  after any sequence of room operations in which no router is created under a name in use,
  whatever the workers answer, the routers that run are exactly those of the rooms, no two rooms
  share one, a room has capabilities exactly when it exists, and the shutdown leaves none.
\<close>

theorem production_rooms_agree:
  fixes ops :: "media_env room_op list"
  assumes "fresh_run ms_fresh ms_createRouter ms_closeRouter ops (new_room_manager (new_media cores cfg))"
  defines "m \<equiv> fold (room_step ms_createRouter ms_closeRouter) ops (new_room_manager (new_media cores cfg))"
  shows "dom (mb_routers (mr_backend m)) = set (room_routers m) \<and> distinct (room_routers m)
     \<and> is_ok (getRtpCapabilities ms_getRouterRtpCapabilities l m) = hasRoom l m
     \<and> mb_routers (mr_backend (shutdown ms_closeRouter m)) = Map.empty"
proof -
  have "room_inv (\<lambda>b. dom (mb_routers b)) (new_room_manager (new_media cores cfg))"
    by (simp add: room_inv_def new_room_manager_def new_media_def room_routers_def)
  then have inv: "room_inv (\<lambda>b. dom (mb_routers b)) m"
    unfolding m_def using assms(1) by (rule production_rooms.room_run_inv)
  then have o: "dom (mb_routers (mr_backend m)) = set (room_routers m)" by (simp add: room_inv_def)
  have "is_ok (getRtpCapabilities ms_getRouterRtpCapabilities l m) = hasRoom l m"
  proof (cases "map_of (mr_rooms m) l")
    case (Some room)
    from map_of_SomeD [OF this] have "ri_routerId room \<in> set (room_routers m)"
      by (force simp: room_routers_def)
    then have "mb_routers (mr_backend m) (ri_routerId room) \<noteq> None" using o by blast
    then show ?thesis using Some
      by (simp add: getRtpCapabilities_def hasRoom_def ms_getRouterRtpCapabilities_def)
  qed (simp add: getRtpCapabilities_def hasRoom_def)
  moreover have "mb_routers (mr_backend (shutdown ms_closeRouter m)) = Map.empty"
    using production_rooms.shutdown_closes [OF inv] by simp
  ultimately show ?thesis using inv by (simp add: room_inv_def)
qed

text \<open>A worker that accepts every request, without a body.\<close>

definition accepting :: "nat \<Rightarrow> worker_message \<Rightarrow> worker_reply" where
  "accepting w msg = A_response \<lparr>wr_id = (case msg of To_worker_request i _ _ _ \<Rightarrow> i | _ \<Rightarrow> 0), wr_accepted = True,
     wr_reason = None, wr_body = (case msg of
        To_worker_request _ ROUTER_CREATE_WEBRTCTRANSPORT _ _ \<Rightarrow>
          Transport_dump_body \<lparr>dm_ice = None, dm_candidates = None, dm_dtls = None\<rparr>
      | _ \<Rightarrow> Other_body)\<rparr>"

definition sample_media_env :: "byte \<Rightarrow> media_env" where
  "sample_media_env v = \<lparr>me_rnd = random_of v, me_reply = accepting, me_conv = (\<lambda>_. 0), me_dump = (\<lambda>_. None)\<rparr>"

definition sample_media_config :: media_config where
  "sample_media_config = \<lparr>mg_numWorkers = 2, mg_logLevel = ''warn'', mg_rtcMinPort = 40000, mg_rtcMaxPort = 49999,
     mg_dtlsCertFile = [], mg_dtlsKeyFile = []\<rparr>"

theorem production_rooms_agree_witness:
  "mb_routers (mr_backend (shutdown ms_closeRouter (fold (room_step ms_createRouter ms_closeRouter)
     [Get_or_create ''lab'' (sample_media_env 1), Destroy_room ''lab'']
     (new_room_manager (new_media 4 sample_media_config))))) = Map.empty"
  by (rule production_rooms_agree [where ops = "[Get_or_create ''lab'' (sample_media_env 1), Destroy_room ''lab'']",
        THEN conjunct2, THEN conjunct2, THEN conjunct2])
    (simp add: new_room_manager_def new_media_def ms_fresh_def split: option.split)

theorem messages_reach_owner_witness:
  "routed [] (mb_sent (fold media_step [Create_router (sample_media_env 1) ''lab'',
     Close_router (uuid_of 1)] (new_media 1 sample_media_config)))"
  by (rule messages_reach_owner)
    (simp add: new_media_def fresh_media_def split: option.split)

section \<open>Closing a transport\<close>

text \<open>What a worker does with a notification that it should close: as its documentation has it.\<close>

definition told_to_close :: "(nat \<times> worker_message) list \<Rightarrow> nat \<Rightarrow> bool" where
  "told_to_close sent w =
     list_ex (\<lambda>(v, msg). v = w \<and> (case msg of To_worker_notification _ WORKER_CLOSE \<Rightarrow> True | _ \<Rightarrow> False)) sent"

text \<open>
  C18: Closing one transport shuts down every room of its worker: what the worker is given is the
  event by which a worker closes, the same that the shutdown of a worker would give it, while
  all routers that live on this worker stay in the tables, offer their capabilities, and take
  new transports, which are asked for from the worker that was told to close.
\<close>

theorem transport_close_closes_worker:
  assumes "channelForTransport b t = Some w" and "mb_routers b r = Some w"
  shows "mb_sent (ms_closeTransport t b) = mb_sent b @ [(w, closeTransportNotification t)]
     \<and> told_to_close (mb_sent (ms_closeTransport t b)) w
     \<and> told_to_close [(w, closeWorkerRequest i)] w
     \<and> ms_getRouterRtpCapabilities r (ms_closeTransport t b) = ok makeRtpCapabilities
     \<and> channelForRouter (ms_closeTransport t b) r = Some w"
  using assms
  by (simp add: ms_closeTransport_def media_frame told_to_close_def closeTransportNotification_def
      closeWorkerRequest_def ms_getRouterRtpCapabilities_def channelForRouter_def)

definition lab_and_hall :: media_backend where
  "lab_and_hall = (new_media 1 sample_media_config)\<lparr>mb_routers := [''lab'' \<mapsto> 0, ''hall'' \<mapsto> 0],
     mb_transports := [''t'' \<mapsto> ''lab'']\<rparr>"

theorem transport_close_closes_worker_witness:
  "told_to_close (mb_sent (ms_closeTransport ''t'' lab_and_hall)) 0
   \<and> channelForRouter (ms_closeTransport ''t'' lab_and_hall) ''hall'' = Some 0"
proof -
  have "channelForTransport lab_and_hall ''t'' = Some 0" "mb_routers lab_and_hall ''hall'' = Some 0"
    by (simp_all add: lab_and_hall_def channelForTransport_def channelForRouter_def)
  from transport_close_closes_worker [OF this, of 1] show ?thesis by blast
qed

text \<open>
  Viewers get no stream parameters: what a consumer of the backend is told is either the
  capabilities it sent itself or an object that names neither codecs nor encodings, never what
  the worker decided.
\<close>

theorem viewer_told_no_codecs:
  assumes "ms_consume env t p caps b = (Some (Inr info), b')"
  shows "ci_rtpParameters info = caps
     \<or> json_at (ci_rtpParameters info) ''codecs'' = None \<and> json_at (ci_rtpParameters info) ''encodings'' = None"
proof -
  have shape: "parseConsumeResponse r = JNull
      \<or> json_at (parseConsumeResponse r) ''codecs'' = None \<and> json_at (parseConsumeResponse r) ''encodings'' = None" for r
    by (auto simp: parseConsumeResponse_def split: response_body.split option.split)
  obtain r where "ci_rtpParameters info = (case parseConsumeResponse r of JNull \<Rightarrow> caps | d \<Rightarrow> d)"
    using assms
    by (auto simp: ms_consume_def ok_def fail_def Let_def split_beta split: option.splits sum.splits prod.splits)
  then show ?thesis using shape [of r] by (cases "parseConsumeResponse r") auto
qed


theorem viewer_told_no_codecs_witness:
  "ci_rtpParameters (case fst (ms_consume (sample_media_env 1) ''t'' ''p'' (JObject []) lab_and_hall) of
      Some (Inr info) \<Rightarrow> info | _ \<Rightarrow> undefined) = JObject []
   \<or> json_at (ci_rtpParameters (case fst (ms_consume (sample_media_env 1) ''t'' ''p'' (JObject []) lab_and_hall) of
      Some (Inr info) \<Rightarrow> info | _ \<Rightarrow> undefined)) ''codecs'' = None"
proof -
  obtain info b' where *: "ms_consume (sample_media_env 1) ''t'' ''p'' (JObject []) lab_and_hall = (Some (Inr info), b')"
  proof -
    have "buildRtpParametersFromJson (\<lambda>_. 0) (\<lambda>_. None) (JObject []) \<noteq> None"
      by (simp add: buildRtpParametersFromJson_def json_array_at_def json_contains_def json_opt_string_def)
    then show "\<And>thesis. (\<And>info b'. ms_consume (sample_media_env 1) ''t'' ''p'' (JObject []) lab_and_hall = (Some (Inr info), b') \<Longrightarrow> thesis) \<Longrightarrow> thesis"
      by (auto simp: ms_consume_def lab_and_hall_def channelForTransport_def channelForRouter_def
         sample_media_env_def createConsumeRequest_def ask_def accepting_def parseResponse_def ok_def fail_def
         Let_def split_beta uuid_result_def generate_random_of next_request_def genRequestId_def)
  qed
  show ?thesis using viewer_told_no_codecs [OF *] by (auto simp: *)
qed

end
