(* ===== verification/Email.thy ===== *)
theory Email
  imports Registration Stream_Endpoints
begin

text \<open>
  The verification mail: src/src/service_email/EmailService.cpp and EmailTemplates.cpp. The
  clock, the counter of the mails and the constant texts of the templates are arguments, and so
  is what libcurl makes of a mail. The lemmas show that a mail carries its parts whole, that a
  name cannot change the markup of the page, and that an address can change the header.
\<close>

unbundle bit_operations_syntax

section \<open>Coding\<close>

record email_message =
  eg_to :: string
  eg_toName :: string
  eg_subject :: string
  eg_bodyText :: string
  eg_bodyHtml :: string

definition table_at :: "32 word \<Rightarrow> char" where
  "table_at i = kBase64Table ! unat i"

text \<open>The four characters of a group; a missing byte counts as 0.\<close>

definition group_chars :: "byte \<Rightarrow> byte \<Rightarrow> byte \<Rightarrow> char list" where
  "group_chars x y z =
     (let b0 = ucast x; b1 = ucast y; b2 = ucast z
      in [table_at (drop_bit 2 b0 AND 0x3F),
          table_at (push_bit 4 (b0 AND 0x03) OR (drop_bit 4 b1 AND 0x0F)),
          table_at (push_bit 2 (b1 AND 0x0F) OR (drop_bit 6 b2 AND 0x03)),
          table_at (b2 AND 0x3F)])"

fun mail_base64 :: "byte list \<Rightarrow> string" where
  "mail_base64 (b0 # b1 # b2 # rest) = group_chars b0 b1 b2 @ mail_base64 rest"
| "mail_base64 [b0, b1] = take 3 (group_chars b0 b1 0) @ ''=''"
| "mail_base64 [b0] = take 2 (group_chars b0 0 0) @ ''==''"
| "mail_base64 [] = []"

definition bytes_of :: "string \<Rightarrow> byte list" where
  "bytes_of s = map byte_of s"

definition encodeSubject :: "string \<Rightarrow> string" where
  "encodeSubject subject = ''=?UTF-8?B?'' @ mail_base64 (bytes_of subject) @ ''?=''"

definition CRLF :: string where "CRLF = [CHR 0x0D, CHR 0x0A]"

definition quoted :: "string \<Rightarrow> string" where "quoted s = [CHR 0x22] @ s @ [CHR 0x22]"

definition mailbox_header :: "string \<Rightarrow> string \<Rightarrow> string" where
  "mailbox_header name address =
     (if name = [] then ''<'' @ address @ ''>'' else quoted name @ '' <'' @ address @ ''>'')"

definition mail_boundary :: "64 word \<Rightarrow> 64 word \<Rightarrow> string" where
  "mail_boundary now counter =
     ''----=_Part_Hub32_'' @ decimal_nat (unat now) @ ''_'' @ decimal_nat (unat counter)"

text \<open>One part of a mail with its lines of header.\<close>

definition mail_part :: "string \<Rightarrow> string \<Rightarrow> string" where
  "mail_part subtype body =
     ''Content-Type: text/'' @ subtype @ ''; charset=UTF-8'' @ CRLF
     @ ''Content-Transfer-Encoding: base64'' @ CRLF @ CRLF
     @ mail_base64 (bytes_of body) @ CRLF"

definition buildEmailPayload ::
  "string \<Rightarrow> 64 word \<Rightarrow> 64 word \<Rightarrow> email_message \<Rightarrow> string \<Rightarrow> string \<Rightarrow> string" where
  "buildEmailPayload date now counter msg fromAddress fromName =
     ''Date: '' @ date @ CRLF
     @ ''From: '' @ mailbox_header fromName fromAddress @ CRLF
     @ ''To: '' @ mailbox_header (eg_toName msg) (eg_to msg) @ CRLF
     @ ''Subject: '' @ encodeSubject (eg_subject msg) @ CRLF
     @ ''MIME-Version: 1.0'' @ CRLF
     @ (if eg_bodyHtml msg = [] then mail_part ''plain'' (eg_bodyText msg)
        else let boundary = mail_boundary now counter
             in ''Content-Type: multipart/alternative; boundary='' @ quoted boundary @ CRLF @ CRLF
                @ ''--'' @ boundary @ CRLF @ mail_part ''plain'' (eg_bodyText msg)
                @ ''--'' @ boundary @ CRLF @ mail_part ''html'' (eg_bodyHtml msg)
                @ ''--'' @ boundary @ ''--'' @ CRLF)"

lemma groups_agree:
  "drop_bit 2 (ucast a) AND 0x3F = drop_bit 18 (triple_of a b c) AND 0x3F"
  "push_bit 4 (ucast a AND 0x03) OR (drop_bit 4 (ucast b) AND 0x0F) = drop_bit 12 (triple_of a b c) AND 0x3F"
  "push_bit 2 (ucast b AND 0x0F) OR (drop_bit 6 (ucast c) AND 0x03) = drop_bit 6 (triple_of a b c) AND 0x3F"
  "ucast c AND 0x3F = drop_bit 0 (triple_of a b c) AND 0x3F"
  unfolding mask6 triple_of_def
  by (rule bit_word_eqI; auto simp: bit_simps not_le not_less dest: bit_imp_le_length)+

lemma group_chars_sextets:
  "group_chars a b c = [sextet 18 (triple_of a b c), sextet 12 (triple_of a b c), sextet 6 (triple_of a b c),
     sextet 0 (triple_of a b c)]"
  unfolding group_chars_def Let_def sextet_def table_at_def groups_agree [where a = a and b = b and c = c] ..

lemma mail_base64_eq: "mail_base64 bs = base64Bytes bs"
  by (induction bs rule: mail_base64.induct) (simp_all add: group_chars_sextets Let_def)

text \<open>
  The coder of the mail service and the coder of the stream endpoints, written separately,
  give the same text for every input, and the server's own decoder gets the input back from it.
\<close>

theorem base64_coders_agree:
  "mail_base64 (bytes_of s) = base64Bytes (bytes_of s)
   \<and> base64Decode (url_safe (mail_base64 (bytes_of s))) = map char_of_byte (bytes_of s)"
  by (simp add: mail_base64_eq base64_alphabets base64_back)

section \<open>Sending\<close>

record email_config =
  ef_host :: string
  ef_port :: "16 word"
  ef_useTls :: bool
  ef_username :: string
  ef_password :: string
  ef_fromAddress :: string
  ef_fromName :: string
  ef_timeoutSec :: int
  ef_verifySsl :: bool

definition kSmtpsPort :: "16 word" where "kSmtpsPort = 465"

definition isConfigured :: "email_config \<Rightarrow> bool" where
  "isConfigured c \<longleftrightarrow> ef_host c \<noteq> [] \<and> ef_username c \<noteq> [] \<and> ef_password c \<noteq> [] \<and> ef_fromAddress c \<noteq> []"

text \<open>What the library is told; \<open>cr_startTls\<close>: whether \<^verbatim>\<open>CURLOPT_USE_SSL\<close> is set.\<close>

record curl_request =
  cu_url :: string
  cu_startTls :: bool
  cu_mailFrom :: string
  cu_rcpt :: "string list"
  cu_payload :: string
  cu_timeout :: int
  cu_verifyPeer :: bool
  cu_verifyHost :: bool

definition curl_request_of ::
  "email_config \<Rightarrow> string \<Rightarrow> 64 word \<Rightarrow> 64 word \<Rightarrow> email_message \<Rightarrow> curl_request" where
  "curl_request_of c date now counter msg =
     \<lparr>cu_url = (if ef_port c = kSmtpsPort then ''smtps://'' else ''smtp://'') @ ef_host c @ '':''
        @ decimal_nat (unat (ef_port c)),
      cu_startTls = (ef_useTls c \<and> ef_port c \<noteq> kSmtpsPort),
      cu_mailFrom = ''<'' @ ef_fromAddress c @ ''>'', cu_rcpt = [''<'' @ eg_to msg @ ''>''],
      cu_payload = buildEmailPayload date now counter msg (ef_fromAddress c) (ef_fromName c),
      cu_timeout = ef_timeoutSec c, cu_verifyPeer = ef_verifySsl c, cu_verifyHost = ef_verifySsl c\<rparr>"

text \<open>
  \<open>handle\<close> and \<open>listed\<close>: whether the library has memory for its handle and its list;
  \<open>perform\<close> is \<open>None\<close> on success and the library's error text otherwise.
\<close>

definition send_email ::
  "bool \<Rightarrow> bool \<Rightarrow> (curl_request \<Rightarrow> string option) \<Rightarrow> email_config \<Rightarrow> string \<Rightarrow> 64 word \<Rightarrow> 64 word
     \<Rightarrow> email_message \<Rightarrow> unit result" where
  "send_email handle listed perform c date now counter msg =
     (if \<not> isConfigured c then fail InvalidConfig ''SMTP not configured''
      else if \<not> handle then fail InternalError ''curl_easy_init() failed''
      else if \<not> listed then fail InternalError ''failed to build SMTP recipient list''
      else case perform (curl_request_of c date now counter msg) of
             None \<Rightarrow> ok ()
           | Some e \<Rightarrow> fail InternalError (''curl SMTP error: '' @ e))"

text \<open>The callback hands out the next piece, at most \<open>size * nmemb\<close> bytes, and moves the offset.\<close>

definition curlReadCallback :: "nat \<Rightarrow> nat \<Rightarrow> string \<Rightarrow> nat \<Rightarrow> string \<times> nat" where
  "curlReadCallback sz nmemb payload offset =
     (let toCopy = min (length payload - offset) (sz * nmemb)
      in (take toCopy (drop offset payload), offset + toCopy))"

fun read_pieces :: "(nat \<times> nat) list \<Rightarrow> string \<Rightarrow> nat \<Rightarrow> string list" where
  "read_pieces [] payload offset = []"
| "read_pieces ((sz, nmemb) # calls) payload offset =
     (let (piece, offset') = curlReadCallback sz nmemb payload offset
      in piece # read_pieces calls payload offset')"

lemma read_pieces_concat:
  "concat (read_pieces calls payload offset) = take (\<Sum>(s, n) \<leftarrow> calls. s * n) (drop offset payload)"
proof (induction calls arbitrary: offset)
  case (Cons c calls)
  obtain s n where c: "c = (s, n)" by force
  have "take (min (length payload - offset) (s * n)) (drop offset payload) = take (s * n) (drop offset payload)"
    by (simp add: min_def)
  moreover have "drop (offset + min (length payload - offset) (s * n)) payload = drop (s * n) (drop offset payload)"
    by (simp add: min_def add.commute)
  ultimately show ?case by (simp add: c curlReadCallback_def Let_def Cons.IH take_add)
qed simp

text \<open>
  The mail goes out whole: however the library sizes its buffers, the pieces it has read are
  a beginning of the mail, in order and without gaps, and they are the whole mail as soon as the
  buffers add up to its length.
\<close>

theorem mail_read_whole:
  "concat (read_pieces calls payload 0) = take (\<Sum>(s, n) \<leftarrow> calls. s * n) payload
   \<and> (length payload > (\<Sum>(s, n) \<leftarrow> calls. s * n) \<or> concat (read_pieces calls payload 0) = payload)"
  by (auto simp: read_pieces_concat)

section \<open>The template\<close>

definition escape_char :: "char \<Rightarrow> string" where
  "escape_char c =
     (if c = CHR ''&'' then ''&amp;'' else if c = CHR ''<'' then ''&lt;'' else if c = CHR ''>'' then ''&gt;''
      else if c = CHR 0x22 then ''&quot;'' else if c = CHR 0x27 then ''&#39;'' else [c])"

definition htmlEscape :: "string \<Rightarrow> string" where
  "htmlEscape s = concat (map escape_char s)"

definition isSafeHttpsUrl :: "string \<Rightarrow> bool" where
  "isSafeHttpsUrl url \<longleftrightarrow> take 7 url = ''http://'' \<or> take 8 url = ''https://''"

text \<open>The constant texts of the source, between which the values are put.\<close>

record mail_texts =
  xt_subject :: string
  xt_greeting :: string
  xt_contact_admin :: string
  xt_visit :: string
  xt_closing :: string
  xt_page :: "string list"

definition html_page :: "string list \<Rightarrow> string \<Rightarrow> string \<Rightarrow> string \<Rightarrow> string" where
  "html_page p orgName url year =
     p ! 0 @ orgName @ p ! 1 @ url @ p ! 2 @ url @ p ! 3 @ url @ p ! 4 @ year @ p ! 5"

definition makeVerificationEmail ::
  "mail_texts \<Rightarrow> string \<Rightarrow> string \<Rightarrow> string \<Rightarrow> string \<Rightarrow> email_message result" where
  "makeVerificationEmail x year toEmail orgName verifyUrl =
     (if toEmail = [] then fail InvalidRequest ''makeVerificationEmail: toEmail is empty''
      else if \<not> isSafeHttpsUrl verifyUrl then
        ok \<lparr>eg_to = toEmail, eg_toName = [], eg_subject = xt_subject x,
            eg_bodyText = xt_greeting x @ orgName @ xt_contact_admin x, eg_bodyHtml = []\<rparr>
      else
        ok \<lparr>eg_to = toEmail, eg_toName = [], eg_subject = xt_subject x,
            eg_bodyText = xt_greeting x @ orgName @ xt_visit x @ verifyUrl @ xt_closing x,
            eg_bodyHtml = html_page (xt_page x) (htmlEscape orgName) (htmlEscape verifyUrl) year\<rparr>)"

text \<open>The characters of which markup is made, and the text a browser makes of an escaped one.\<close>

definition markup :: "char \<Rightarrow> bool" where
  "markup c \<longleftrightarrow> c \<in> {CHR ''<'', CHR ''>'', CHR 0x22, CHR 0x27}"

fun unescape :: "nat \<Rightarrow> string \<Rightarrow> string" where
  "unescape 0 s = s"
| "unescape (Suc n) s =
     (case s of
        [] \<Rightarrow> []
      | c # r \<Rightarrow>
          if take 5 s = ''&amp;'' then CHR ''&'' # unescape n (drop 5 s)
          else if take 4 s = ''&lt;'' then CHR ''<'' # unescape n (drop 4 s)
          else if take 4 s = ''&gt;'' then CHR ''>'' # unescape n (drop 4 s)
          else if take 6 s = ''&quot;'' then CHR 0x22 # unescape n (drop 6 s)
          else if take 5 s = ''&#39;'' then CHR 0x27 # unescape n (drop 5 s)
          else c # unescape n r)"

lemma escape_no_markup: "filter markup (htmlEscape s) = []"
  by (induction s) (auto simp: htmlEscape_def escape_char_def markup_def)

lemma unescape_escape: "length s \<le> n \<Longrightarrow> unescape n (htmlEscape s) = s"
proof (induction s arbitrary: n)
  case Nil
  then show ?case by (cases n) (simp_all add: htmlEscape_def)
next
  case (Cons c s)
  then obtain m where "n = Suc m" "length s \<le> m" by (cases n) auto
  with Cons.IH [of m] show ?case by (auto simp: htmlEscape_def escape_char_def numeral_eq_Suc)
qed

text \<open>
  A name cannot change the page: the markup of the mail, its angle brackets and quotes, is
  that of the template, whatever organisation and link are put in, and what a reader sees of
  them is what was registered.
\<close>

theorem page_markup_fixed:
  assumes "makeVerificationEmail x year toEmail orgName verifyUrl = Inr msg" and "eg_bodyHtml msg \<noteq> []"
  shows "filter markup (eg_bodyHtml msg)
       = concat (map (\<lambda>i. filter markup (xt_page x ! i)) [0, 1, 2, 3, 4]) @ filter markup year
         @ filter markup (xt_page x ! 5)
     \<and> eg_bodyHtml msg = html_page (xt_page x) (htmlEscape orgName) (htmlEscape verifyUrl) year
     \<and> unescape (length orgName) (htmlEscape orgName) = orgName"
proof -
  have "eg_bodyHtml msg = html_page (xt_page x) (htmlEscape orgName) (htmlEscape verifyUrl) year"
    using assms by (auto simp: makeVerificationEmail_def ok_def fail_def split: if_splits)
  then show ?thesis by (simp add: html_page_def escape_no_markup unescape_escape)
qed

definition sample_texts :: mail_texts where
  "sample_texts = \<lparr>xt_subject = ''s'', xt_greeting = [], xt_contact_admin = [], xt_visit = [], xt_closing = [],
     xt_page = [''<b>'', ''</b>'', ''<a>'', ''</a>'', ''<i>'', ''</i>'']\<rparr>"

theorem page_markup_fixed_witness:
  "map_sum (\<lambda>_. ()) (\<lambda>m. filter markup (eg_bodyHtml m))
     (makeVerificationEmail sample_texts ''2026'' ''a@b.c'' ''<script>'' ''https://h'') = Inr ''<><><><><><>''"
proof -
  obtain m where m: "makeVerificationEmail sample_texts ''2026'' ''a@b.c'' ''<script>'' ''https://h'' = Inr m"
    and h: "eg_bodyHtml m \<noteq> []"
    by (simp add: makeVerificationEmail_def isSafeHttpsUrl_def ok_def sample_texts_def html_page_def)
  from page_markup_fixed [OF m h, THEN conjunct1] have "filter markup (eg_bodyHtml m) = ''<><><><><><>''"
    by (simp add: sample_texts_def markup_def)
  then show ?thesis by (simp only: m map_sum.simps)
qed

section \<open>The header\<close>

definition crafted_address :: string where
  "crafted_address = ''a@b.c>'' @ CRLF @ ''Bcc: <x@y.z''"

lemma payload_to:
  obtains rest where "buildEmailPayload date now counter msg from name
    = ''Date: '' @ date @ CRLF @ ''From: '' @ mailbox_header name from @ CRLF @ ''To: ''
      @ mailbox_header (eg_toName msg) (eg_to msg) @ CRLF @ rest"
  by (auto simp: buildEmailPayload_def)

text \<open>
  C39: Who registers writes header lines of the mail: an address with a line break is valid for
  the registration, and in the mail that is built for it the text after the line break is a
  header line of its own, here one that sends a copy of the mail with its link to somebody else.
\<close>

theorem address_injects_header:
  "isValidEmail crafted_address
   \<and> (\<exists>msg. makeVerificationEmail x year crafted_address orgName verifyUrl = Inr msg
        \<and> (\<exists>before after. buildEmailPayload date now counter msg from name
             = before @ CRLF @ ''Bcc: <x@y.z>'' @ CRLF @ after))"
proof
  show "isValidEmail crafted_address"
    by (simp add: isValidEmail_def crafted_address_def CRLF_def cut_first_def cut_last_def)
  obtain msg where msg: "makeVerificationEmail x year crafted_address orgName verifyUrl = Inr msg"
    "eg_to msg = crafted_address" "eg_toName msg = []"
    by (cases "isSafeHttpsUrl verifyUrl") (auto simp: makeVerificationEmail_def ok_def crafted_address_def)
  obtain rest where "buildEmailPayload date now counter msg from name
    = ''Date: '' @ date @ CRLF @ ''From: '' @ mailbox_header name from @ CRLF @ ''To: ''
      @ mailbox_header (eg_toName msg) (eg_to msg) @ CRLF @ rest"
    by (rule payload_to)
  then have "buildEmailPayload date now counter msg from name
     = (''Date: '' @ date @ CRLF @ ''From: '' @ mailbox_header name from @ CRLF @ ''To: <a@b.c>'')
       @ CRLF @ ''Bcc: <x@y.z>'' @ CRLF @ rest"
    by (simp add: msg mailbox_header_def crafted_address_def)
  then show "\<exists>msg. makeVerificationEmail x year crafted_address orgName verifyUrl = Inr msg
        \<and> (\<exists>before after. buildEmailPayload date now counter msg from name
             = before @ CRLF @ ''Bcc: <x@y.z>'' @ CRLF @ after)"
    using msg(1) by blast
qed

end
