(* ===== verification/Color_Conversion.thy ===== *)
theory Color_Conversion
  imports Hub32_Prelude
begin

text \<open>
  The conversion of a captured picture for the encoder, src/agent/src/encode/CpuColorConverter.cpp,
  and the choice of an encoder and a converter, EncoderFactory.cpp. Pixels are bytes B, G, R, A,
  the output has the luma plane followed by interleaved chroma (NV12). The lemmas show that every
  byte of the output buffer is written, that nothing else is, and that the limits of the video
  range hold, so that the clamps never act.
\<close>

section \<open>The converter\<close>

text \<open>Dimensions are \<^verbatim>\<open>int\<close>; a picture is read through \<open>src i\<close>, the byte at offset \<open>i\<close>.\<close>

record converter =
  cv_width :: int
  cv_height :: int

definition converter_initialize :: "int \<Rightarrow> int \<Rightarrow> converter \<Rightarrow> bool \<times> converter" where
  "converter_initialize width height c =
     (if width \<le> 0 \<or> height \<le> 0 \<or> width mod 2 \<noteq> 0 \<or> height mod 2 \<noteq> 0 then (False, c)
      else (True, \<lparr>cv_width = width, cv_height = height\<rparr>))"

definition nv12BufferSize :: "converter \<Rightarrow> int" where
  "nv12BufferSize c = cv_width c * cv_height c * 3 div 2"

definition converter_shutdown :: "converter \<Rightarrow> converter" where
  "converter_shutdown c = \<lparr>cv_width = 0, cv_height = 0\<rparr>"

text \<open>The shift of a negative \<^verbatim>\<open>int\<close> by 8 rounds down.\<close>

definition luma :: "int \<Rightarrow> int \<Rightarrow> int \<Rightarrow> int" where
  "luma r g b = (66 * r + 129 * g + 25 * b + 128) div 256 + 16"

definition chroma_u :: "int \<Rightarrow> int \<Rightarrow> int \<Rightarrow> int" where
  "chroma_u r g b = (- 38 * r - 74 * g + 112 * b + 128) div 256 + 128"

definition chroma_v :: "int \<Rightarrow> int \<Rightarrow> int \<Rightarrow> int" where
  "chroma_v r g b = (112 * r - 94 * g - 18 * b + 128) div 256 + 128"

definition clamp_byte :: "int \<Rightarrow> byte" where
  "clamp_byte v = word_of_int (if v < 0 then 0 else if v > 255 then 255 else v)"

text \<open>One pixel: the writes it makes, offset and byte, in order.\<close>

definition pixel_writes :: "int \<Rightarrow> int \<Rightarrow> int \<Rightarrow> (int \<Rightarrow> byte) \<Rightarrow> int \<Rightarrow> int \<Rightarrow> (int \<times> byte) list" where
  "pixel_writes width height stride src y x =
     (let b = uint (src (y * stride + x * 4)); g = uint (src (y * stride + x * 4 + 1));
          r = uint (src (y * stride + x * 4 + 2)); uvIdx = width * height + y div 2 * width + x
      in (y * width + x, clamp_byte (luma r g b)) #
         (if x mod 2 = 0 \<and> y mod 2 = 0
          then [(uvIdx, clamp_byte (chroma_u r g b)), (uvIdx + 1, clamp_byte (chroma_v r g b))]
          else []))"

definition picture_writes :: "int \<Rightarrow> int \<Rightarrow> int \<Rightarrow> (int \<Rightarrow> byte) \<Rightarrow> (int \<times> byte) list" where
  "picture_writes width height stride src =
     concat (map (\<lambda>y. concat (map (pixel_writes width height stride src y) [0..width - 1])) [0..height - 1])"

definition write_bytes :: "(int \<times> byte) list \<Rightarrow> (int \<Rightarrow> byte) \<Rightarrow> (int \<Rightarrow> byte)" where
  "write_bytes ws out = fold (\<lambda>(i, v) m. m(i := v)) ws out"

text \<open>\<open>None\<close> is a null pointer.\<close>

definition convert_picture ::
  "converter \<Rightarrow> (int \<Rightarrow> byte) option \<Rightarrow> int \<Rightarrow> (int \<Rightarrow> byte) option \<Rightarrow> bool \<times> (int \<Rightarrow> byte) option" where
  "convert_picture c bgraData bgraStride nv12Out =
     (case (bgraData, nv12Out) of
        (Some src, Some out) \<Rightarrow>
          if cv_width c \<le> 0 \<or> cv_height c \<le> 0 then (False, nv12Out)
          else (True, Some (write_bytes (picture_writes (cv_width c) (cv_height c) bgraStride src) out))
      | _ \<Rightarrow> (False, nv12Out))"

section \<open>The range of the values\<close>

lemma luma_range:
  assumes "0 \<le> r" "r \<le> 255" "0 \<le> g" "g \<le> 255" "0 \<le> b" "b \<le> 255"
  shows "luma r g b \<in> {16..235}"
  using assms unfolding luma_def atLeastAtMost_iff by linarith

lemma chroma_range:
  assumes "0 \<le> r" "r \<le> 255" "0 \<le> g" "g \<le> 255" "0 \<le> b" "b \<le> 255"
  shows "chroma_u r g b \<in> {16..240}" and "chroma_v r g b \<in> {16..240}"
  using assms unfolding chroma_u_def chroma_v_def atLeastAtMost_iff by linarith+

text \<open>
  The clamps of the conversion never act and a converted picture is in the video range: for
  every pixel the luma is between 16 and 235 and both chroma values are between 16 and 240, and
  a grey pixel has no colour.
\<close>

theorem video_range:
  fixes r g b :: byte
  shows "luma (uint r) (uint g) (uint b) \<in> {16..235}
     \<and> chroma_u (uint r) (uint g) (uint b) \<in> {16..240}
     \<and> chroma_v (uint r) (uint g) (uint b) \<in> {16..240}
     \<and> chroma_u (uint g) (uint g) (uint g) = 128 \<and> chroma_v (uint g) (uint g) (uint g) = 128"
proof -
  have bounds: "0 \<le> uint w \<and> uint w \<le> 255" for w :: byte
    using uint_lt2p [of w] by simp
  note rgb = bounds [of r] bounds [of g] bounds [of b]
  have "luma (uint r) (uint g) (uint b) \<in> {16..235}" by (rule luma_range) (use rgb in simp_all)
  moreover have "chroma_u (uint r) (uint g) (uint b) \<in> {16..240}" by (rule chroma_range) (use rgb in simp_all)
  moreover have "chroma_v (uint r) (uint g) (uint b) \<in> {16..240}" by (rule chroma_range) (use rgb in simp_all)
  moreover have "chroma_u x x x = 128" "chroma_v x x x = 128" for x by (simp_all add: chroma_u_def chroma_v_def)
  ultimately show ?thesis by blast
qed

lemma clamp_byte_id: "0 \<le> v \<Longrightarrow> v \<le> 255 \<Longrightarrow> uint (clamp_byte v) = v"
  by (simp add: clamp_byte_def uint_word_of_int)

section \<open>The buffer\<close>

lemma mult_add_less:
  fixes a b m n :: int
  assumes "0 \<le> a" "a < m" "0 \<le> b" "b < n"
  shows "a * n + b < m * n" and "0 \<le> a * n + b"
proof -
  have "a * n + b < (a + 1) * n" using assms by (simp add: distrib_right)
  also have "\<dots> \<le> m * n" using assms by (intro mult_right_mono) simp_all
  finally show "a * n + b < m * n" .
  show "0 \<le> a * n + b" using assms by simp
qed

lemma mult_add_inj:
  fixes a b a' b' n :: int
  assumes "0 \<le> b" "b < n" "0 \<le> b'" "b' < n" and "a * n + b = a' * n + b'"
  shows "a = a'" "b = b'"
proof -
  have "(a * n + b) div n = a" "(a' * n + b') div n = a'" using assms(1-4) by simp_all
  then show "a = a'" using assms(5) by simp
  with assms(5) show "b = b'" by simp
qed

lemma div_bounds:
  fixes i m n :: int
  assumes "0 < n" "0 \<le> i" "i < m * n"
  shows "0 \<le> i div n" and "i div n < m"
proof -
  show "0 \<le> i div n" using assms by (simp add: pos_imp_zdiv_nonneg_iff)
  have "i div n * n \<le> i" using assms(1) by (simp add: minus_mod_eq_div_mult [symmetric])
  then have "i div n * n < m * n" using assms(3) by linarith
  then show "i div n < m" using assms(1) by (simp add: mult_less_cancel_right)
qed

lemma UN_two:
  "(\<Union>y \<in> Y. \<Union>x \<in> X. {f x y} \<union> {g x y d | d. P x y d})
     = {f x y | x y. x \<in> X \<and> y \<in> Y} \<union> {g x y d | x y d. x \<in> X \<and> y \<in> Y \<and> P x y d}"
  by blast

text \<open>Where the writes of a picture go: the luma of every pixel, and two chroma values for every block.\<close>

lemma picture_offsets:
  "set (map fst (picture_writes width height stride src)) =
     {y * width + x | x y. 0 \<le> x \<and> x < width \<and> 0 \<le> y \<and> y < height}
     \<union> {width * height + y div 2 * width + x + d | x y d. 0 \<le> x \<and> x < width \<and> 0 \<le> y \<and> y < height
          \<and> x mod 2 = 0 \<and> y mod 2 = 0 \<and> d \<in> {0, 1}}"
proof -
  have pixel: "set (map fst (pixel_writes width height stride src y x))
      = {y * width + x} \<union> {width * height + y div 2 * width + x + d | d. x mod 2 = 0 \<and> y mod 2 = 0 \<and> d \<in> {0, 1}}"
    for x y by (cases "x mod 2 = 0 \<and> y mod 2 = 0") (force simp: pixel_writes_def Let_def)+
  have "set (map fst (picture_writes width height stride src))
      = (\<Union>y \<in> {0..height - 1}. \<Union>x \<in> {0..width - 1}. set (map fst (pixel_writes width height stride src y x)))"
    by (auto simp: picture_writes_def)
  then show ?thesis unfolding pixel UN_two by (simp add: conj_assoc)
qed

text \<open>
  After a successful initialisation the conversion fills exactly the buffer whose size the
  converter reports: it writes each of its bytes, and nothing outside of it.
\<close>

theorem conversion_fills_buffer:
  assumes "converter_initialize width height c = (True, c')"
  shows "set (map fst (picture_writes (cv_width c') (cv_height c') stride src)) = {0..<nv12BufferSize c'}"
proof -
  from assms have w: "0 < width" "width mod 2 = 0" and h: "0 < height" "height mod 2 = 0"
    and c': "cv_width c' = width" "cv_height c' = height"
    by (auto simp: converter_initialize_def split: if_splits)
  obtain k where k: "height = 2 * k" using h(2) by (auto simp: mod_eq_0_iff_dvd elim: dvdE)
  have size: "nv12BufferSize c' = width * height + k * width" by (simp add: nv12BufferSize_def c' k)
  have luma: "{y * width + x | x y. 0 \<le> x \<and> x < width \<and> 0 \<le> y \<and> y < height} = {0..<width * height}"
  proof (intro equalityI subsetI)
    fix i assume "i \<in> {0..<width * height}"
    then have "0 \<le> i div width \<and> i div width < height" "0 \<le> i mod width \<and> i mod width < width"
      using w(1) div_bounds [of width i height] by (auto simp: mult.commute)
    moreover have "i = i div width * width + i mod width" by simp
    ultimately show "i \<in> {y * width + x | x y. 0 \<le> x \<and> x < width \<and> 0 \<le> y \<and> y < height}" by blast
  next
    fix i assume "i \<in> {y * width + x | x y. 0 \<le> x \<and> x < width \<and> 0 \<le> y \<and> y < height}"
    then show "i \<in> {0..<width * height}" using mult_add_less by (fastforce simp: mult.commute)
  qed
  have chroma: "{width * height + y div 2 * width + x + d | x y d. 0 \<le> x \<and> x < width \<and> 0 \<le> y \<and> y < height
        \<and> x mod 2 = 0 \<and> y mod 2 = 0 \<and> d \<in> {0, 1}} = {width * height..<width * height + k * width}" (is "?C = ?R")
  proof (intro equalityI subsetI)
    fix i assume "i \<in> ?C"
    then obtain x y d where "i = width * height + y div 2 * width + x + d \<and> 0 \<le> x \<and> x < width \<and> 0 \<le> y
        \<and> y < height \<and> x mod 2 = 0 \<and> y mod 2 = 0 \<and> d \<in> {0, 1}" by (elim CollectE exE)
    then have i: "i = width * height + (y div 2 * width + (x + d))"
      and xy: "0 \<le> x" "x < width" "0 \<le> y" "y < height" "x mod 2 = 0" "d \<in> {0, 1}" by (simp_all add: add.assoc)
    have "0 \<le> x + d" "x + d < width" using xy w by auto presburger
    moreover have "0 \<le> y div 2" "y div 2 < k" using xy k by simp_all
    ultimately show "i \<in> ?R" using mult_add_less [of "y div 2" k "x + d" width] by (simp add: i)
  next
    fix i assume i: "i \<in> ?R"
    define j where "j = i - width * height"
    define x where "x = j mod width"
    have j: "0 \<le> j" "j < k * width" using i by (simp_all add: j_def)
    have x: "0 \<le> x" "x < width" using w(1) by (simp_all add: x_def)
    have y: "0 \<le> j div width" "j div width < k"
      using j w(1) by (simp_all add: div_bounds)
    have "i = width * height + (2 * (j div width)) div 2 * width + (x - x mod 2) + x mod 2"
      by (simp add: j_def x_def)
    moreover have "0 \<le> x - x mod 2" "x - x mod 2 < width" "(x - x mod 2) mod 2 = 0" "x mod 2 \<in> {0, 1}"
      using x by auto presburger+
    moreover have "0 \<le> 2 * (j div width)" "2 * (j div width) < height" "(2 * (j div width)) mod 2 = 0"
      using y k by simp_all
    ultimately show "i \<in> ?C"
      by (intro CollectI exI [of _ "x - x mod 2"] exI [of _ "2 * (j div width)"] exI [of _ "x mod 2"] conjI) assumption+
  qed
  show ?thesis unfolding picture_offsets c' luma chroma size using w(1) h(1) k by (simp add: ivl_disj_un)
qed

theorem conversion_fills_buffer_witness:
  "set (map fst (picture_writes 4 2 16 (\<lambda>_. 0))) = {0..<12}"
  using conversion_fills_buffer [of 4 2 "\<lparr>cv_width = 0, cv_height = 0\<rparr>" "\<lparr>cv_width = 4, cv_height = 2\<rparr>" 16 "\<lambda>_. 0"]
  by (simp add: converter_initialize_def nv12BufferSize_def)

section \<open>The choice of encoder and converter\<close>

text \<open>\<open>starts n\<close> says whether the encoder of that name initialises with the configuration.\<close>

definition createEncoder :: "bool \<Rightarrow> (string \<Rightarrow> bool) \<Rightarrow> string \<Rightarrow> string option" where
  "createEncoder with_ffmpeg starts name =
     (if with_ffmpeg \<and> name \<in> {''nvenc'', ''qsv'', ''x264''} \<and> starts name then Some name else None)"

definition createBestEncoder :: "bool \<Rightarrow> (string \<Rightarrow> bool) \<Rightarrow> string option" where
  "createBestEncoder with_ffmpeg starts =
     (if \<not> with_ffmpeg then None
      else case createEncoder with_ffmpeg starts ''nvenc'' of
        Some e \<Rightarrow> Some e
      | None \<Rightarrow>
          (case createEncoder with_ffmpeg starts ''qsv'' of
             Some e \<Rightarrow> Some e
           | None \<Rightarrow> createEncoder with_ffmpeg starts ''x264''))"

datatype converter_choice = D3D11_converter | Cpu_converter converter

definition createBestConverter :: "(int \<Rightarrow> int \<Rightarrow> bool) \<Rightarrow> int \<Rightarrow> int \<Rightarrow> converter_choice option" where
  "createBestConverter gpu_starts width height =
     (if gpu_starts width height then Some D3D11_converter
      else case converter_initialize width height \<lparr>cv_width = 0, cv_height = 0\<rparr> of
        (True, c) \<Rightarrow> Some (Cpu_converter c)
      | (False, _) \<Rightarrow> None)"

text \<open>
  The first encoder of NVENC, QSV and x264 that starts is used, none only if none starts or
  the build has no FFmpeg.
\<close>

theorem first_encoder_used:
  "createBestEncoder with_ffmpeg starts
     = (if with_ffmpeg then find starts [''nvenc'', ''qsv'', ''x264''] else None)"
  by (simp add: createBestEncoder_def createEncoder_def)

end
