(* ===== verification/Stream_Pipeline.thy ===== *)
theory Stream_Pipeline
  imports Color_Conversion Agent_Client
begin

text \<open>
  The streaming pipeline of the agent, src/agent/src/pipeline/StreamPipeline.cpp, and the feature
  that starts and stops it, features/StreamControl.cpp: the choice of encoder and converter, the
  adaptation of the quality, the pacing of the capture thread, the conversion of a captured frame.
  What is measured (processor, round trip, loss, the time a capture takes) is an argument, and
  so is which encoder starts. The lemmas show that the quality stays within its steps and reaches the
  lowest one under load, that the time stamps of a stream leave the clock behind, and that a screen
  smaller than the stream is read beyond its end.
\<close>

section \<open>Configuration and quality\<close>

record pipeline_config =
  pf_width :: int
  pf_height :: int
  pf_fps :: int
  pf_bitrateKbps :: int
  pf_monitor :: int
  pf_cpuHighPercent :: int
  pf_cpuLowPercent :: int
  pf_cpuCheckIntervalMs :: int
  pf_cpuThresholdSec :: int
  pf_packetLossHighPercent :: rat
  pf_rttHighMs :: int
  pf_resolutionSteps :: "int list"
  pf_fpsSteps :: "int list"
  pf_bitrateSteps :: "int list"

definition default_pipeline :: pipeline_config where
  "default_pipeline =
     \<lparr>pf_width = 1920, pf_height = 1080, pf_fps = 30, pf_bitrateKbps = 2500, pf_monitor = 0,
      pf_cpuHighPercent = 80, pf_cpuLowPercent = 50, pf_cpuCheckIntervalMs = 5000, pf_cpuThresholdSec = 10,
      pf_packetLossHighPercent = 5, pf_rttHighMs = 200, pf_resolutionSteps = [1920, 1280, 960],
      pf_fpsSteps = [30, 15, 10], pf_bitrateSteps = [2500, 1000, 500]\<rparr>"

record quality_state =
  qs_resolutionIdx :: nat
  qs_fpsIdx :: nat
  qs_bitrateIdx :: nat
  qs_cpuHighSinceMs :: int
  qs_cpuLowSinceMs :: int

definition best_quality :: quality_state where
  "best_quality = \<lparr>qs_resolutionIdx = 0, qs_fpsIdx = 0, qs_bitrateIdx = 0, qs_cpuHighSinceMs = 0, qs_cpuLowSinceMs = 0\<rparr>"

text \<open>The bit rates that a stretch of code tells the encoder and the producer, if there is an encoder.\<close>

definition told_bitrate :: "bool \<Rightarrow> pipeline_config \<Rightarrow> quality_state \<Rightarrow> int list" where
  "told_bitrate encoder cfg q = (if encoder then [pf_bitrateSteps cfg ! qs_bitrateIdx q] else [])"

definition cpu_high :: "bool \<Rightarrow> pipeline_config \<Rightarrow> int \<Rightarrow> quality_state \<Rightarrow> quality_state \<times> int list" where
  "cpu_high encoder cfg now q =
     (let q1 = q\<lparr>qs_cpuHighSinceMs := (if qs_cpuHighSinceMs q = 0 then now else qs_cpuHighSinceMs q),
                 qs_cpuLowSinceMs := 0\<rparr>
      in if now - qs_cpuHighSinceMs q1 < pf_cpuThresholdSec cfg * 1000 then (q1, [])
         else if qs_fpsIdx q1 < 2 then
           (q1\<lparr>qs_fpsIdx := qs_fpsIdx q1 + 1, qs_cpuHighSinceMs := 0\<rparr>, told_bitrate encoder cfg q1)
         else if qs_resolutionIdx q1 < 2 then
           (q1\<lparr>qs_resolutionIdx := qs_resolutionIdx q1 + 1, qs_cpuHighSinceMs := 0\<rparr>, told_bitrate encoder cfg q1)
         else (q1, []))"

definition cpu_low :: "bool \<Rightarrow> pipeline_config \<Rightarrow> int \<Rightarrow> quality_state \<Rightarrow> quality_state \<times> int list" where
  "cpu_low encoder cfg now q =
     (let q1 = q\<lparr>qs_cpuLowSinceMs := (if qs_cpuLowSinceMs q = 0 then now else qs_cpuLowSinceMs q),
                 qs_cpuHighSinceMs := 0\<rparr>
      in if now - qs_cpuLowSinceMs q1 < pf_cpuThresholdSec cfg * 1000 then (q1, [])
         else if 0 < qs_resolutionIdx q1 then
           (q1\<lparr>qs_resolutionIdx := qs_resolutionIdx q1 - 1, qs_cpuLowSinceMs := 0\<rparr>, told_bitrate encoder cfg q1)
         else if 0 < qs_fpsIdx q1 then
           (q1\<lparr>qs_fpsIdx := qs_fpsIdx q1 - 1, qs_cpuLowSinceMs := 0\<rparr>, told_bitrate encoder cfg q1)
         else (q1, []))"

definition loss_step :: "bool \<Rightarrow> pipeline_config \<Rightarrow> rat \<Rightarrow> quality_state \<Rightarrow> quality_state \<times> int list" where
  "loss_step encoder cfg packetLoss q =
     (if pf_packetLossHighPercent cfg < packetLoss then
        if qs_bitrateIdx q < 2
        then (let q1 = q\<lparr>qs_bitrateIdx := qs_bitrateIdx q + 1\<rparr> in (q1, told_bitrate encoder cfg q1))
        else (q, [])
      else if packetLoss < pf_packetLossHighPercent cfg / 2 \<and> 0 < qs_bitrateIdx q
      then (let q1 = q\<lparr>qs_bitrateIdx := qs_bitrateIdx q - 1\<rparr> in (q1, told_bitrate encoder cfg q1))
      else (q, []))"

definition rtt_step :: "pipeline_config \<Rightarrow> int \<Rightarrow> quality_state \<Rightarrow> quality_state" where
  "rtt_step cfg rttMs q =
     (if pf_rttHighMs cfg < rttMs \<and> qs_fpsIdx q < 2 then q\<lparr>qs_fpsIdx := qs_fpsIdx q + 1\<rparr> else q)"

text \<open>One check, at the time \<open>now\<close> of the steady clock.\<close>

definition checkAdaptiveQuality ::
  "bool \<Rightarrow> pipeline_config \<Rightarrow> int \<Rightarrow> int \<Rightarrow> int \<Rightarrow> rat \<Rightarrow> quality_state \<Rightarrow> quality_state \<times> int list" where
  "checkAdaptiveQuality encoder cfg now cpuPercent rttMs packetLoss q =
     (let (q1, t1) =
            (if pf_cpuHighPercent cfg \<le> cpuPercent then cpu_high encoder cfg now q
             else if cpuPercent \<le> pf_cpuLowPercent cfg then cpu_low encoder cfg now q
             else (q\<lparr>qs_cpuHighSinceMs := 0, qs_cpuLowSinceMs := 0\<rparr>, []));
          (q2, t2) = loss_step encoder cfg packetLoss q1
      in (rtt_step cfg rttMs q2, t1 @ t2))"

text \<open>A run of checks: time, processor, round trip and loss of each.\<close>

type_synonym measurement = "int \<times> int \<times> int \<times> rat"

fun quality_run :: "bool \<Rightarrow> pipeline_config \<Rightarrow> measurement list \<Rightarrow> quality_state \<Rightarrow> quality_state \<times> int list" where
  "quality_run encoder cfg [] q = (q, [])"
| "quality_run encoder cfg ((now, cpu, rtt, loss) # ms) q =
     (let (q1, t1) = checkAdaptiveQuality encoder cfg now cpu rtt loss q;
          (q2, t2) = quality_run encoder cfg ms q1
      in (q2, t1 @ t2))"

section \<open>The use of the processor\<close>

record cpu_times =
  ct_initialized :: bool
  ct_idle :: "64 word"
  ct_kernel :: "64 word"
  ct_user :: "64 word"

text \<open>\<open>None\<close> when \<^verbatim>\<open>GetSystemTimes\<close> fails. The cast to \<^verbatim>\<open>int\<close> keeps the low 32 bits.\<close>

definition queryCpuUsage :: "(64 word \<times> 64 word \<times> 64 word) option \<Rightarrow> cpu_times \<Rightarrow> int \<times> cpu_times" where
  "queryCpuUsage sampled s =
     (case sampled of
        None \<Rightarrow> (0, s)
      | Some (idle, kern, user) \<Rightarrow>
          let s1 = \<lparr>ct_initialized = True, ct_idle = idle, ct_kernel = kern, ct_user = user\<rparr>
          in if \<not> ct_initialized s then (0, s1)
             else let deltaIdle = idle - ct_idle s;
                      totalSystem = (kern - ct_kernel s) + (user - ct_user s)
                  in if totalSystem = 0 then (0, s1)
                     else let totalBusy = totalSystem - deltaIdle
                          in (sint (ucast (totalBusy * 100 div totalSystem) :: 32 word), s1))"

section \<open>The pipeline\<close>

datatype pipeline_path = NoPath | FullGpu | MixedGpu | CpuOnly

definition path_to_string :: "pipeline_path \<Rightarrow> string" where
  "path_to_string p = (case p of NoPath \<Rightarrow> ''none'' | FullGpu \<Rightarrow> ''full-gpu'' | MixedGpu \<Rightarrow> ''mixed-gpu'' | CpuOnly \<Rightarrow> ''cpu-only'')"

text \<open>\<open>starts n cfg\<close>: the encoder of that name initialises; \<open>gpu\<close>: the converter on the graphics card does.\<close>

definition probePipeline ::
  "(string \<Rightarrow> pipeline_config \<Rightarrow> bool) \<Rightarrow> (int \<Rightarrow> int \<Rightarrow> bool) \<Rightarrow> pipeline_config
     \<Rightarrow> (pipeline_path \<times> string \<times> converter_choice) option" where
  "probePipeline starts gpu cfg =
     (let conv = createBestConverter gpu (pf_width cfg) (pf_height cfg);
          rest = (case createBestEncoder True (\<lambda>n. starts n cfg) of
                    None \<Rightarrow> None
                  | Some e \<Rightarrow> map_option (\<lambda>c. (CpuOnly, e, c)) conv)
      in case createEncoder True (\<lambda>n. starts n cfg) ''nvenc'' of
           None \<Rightarrow> rest
         | Some e \<Rightarrow>
             (case conv of
                None \<Rightarrow> rest
              | Some D3D11_converter \<Rightarrow> Some (FullGpu, e, D3D11_converter)
              | Some c \<Rightarrow> Some (MixedGpu, e, c)))"

record pipeline =
  pl_running :: bool
  pl_threads :: bool
  pl_config :: pipeline_config
  pl_path :: pipeline_path
  pl_encoder :: "string option"
  pl_converter :: "converter_choice option"
  pl_quality :: quality_state
  pl_cpuInitialized :: bool

definition new_pipeline :: pipeline where
  "new_pipeline = \<lparr>pl_running = False, pl_threads = False, pl_config = default_pipeline, pl_path = NoPath,
     pl_encoder = None, pl_converter = None, pl_quality = best_quality, pl_cpuInitialized = False\<rparr>"

definition start_pipeline ::
  "(string \<Rightarrow> pipeline_config \<Rightarrow> bool) \<Rightarrow> (int \<Rightarrow> int \<Rightarrow> bool) \<Rightarrow> pipeline_config \<Rightarrow> pipeline \<Rightarrow> bool \<times> pipeline" where
  "start_pipeline starts gpu cfg s =
     (if pl_running s then (False, s)
      else case probePipeline starts gpu cfg of
        None \<Rightarrow> (False, s\<lparr>pl_config := cfg\<rparr>)
      | Some (path, e, c) \<Rightarrow>
          (True, \<lparr>pl_running = True, pl_threads = True, pl_config = cfg, pl_path = path, pl_encoder = Some e,
             pl_converter = Some c, pl_quality = best_quality, pl_cpuInitialized = False\<rparr>))"

definition stop_pipeline :: "pipeline \<Rightarrow> pipeline" where
  "stop_pipeline s =
     (if \<not> pl_running s \<and> \<not> pl_threads s then s
      else s\<lparr>pl_running := False, pl_threads := False, pl_encoder := None, pl_converter := None, pl_path := NoPath\<rparr>)"

text \<open>
  The feature. \<open>online\<close> and \<open>connects\<close>: what the WebRTC producer answers; \<open>what\<close>: the text of the
  exception of \<^verbatim>\<open>std::stoi\<close>.
\<close>

definition number_arg :: "(string \<Rightarrow> string) \<Rightarrow> (string \<times> string) list \<Rightarrow> string \<Rightarrow> int \<Rightarrow> string + int" where
  "number_arg what args k dflt =
     (case map_of args k of
        None \<Rightarrow> Inr dflt
      | Some v \<Rightarrow> (case stoi v of None \<Rightarrow> Inl (what v) | Some (i, _) \<Rightarrow> Inr i))"

definition stream_config :: "(string \<Rightarrow> string) \<Rightarrow> (string \<times> string) list \<Rightarrow> string + pipeline_config" where
  "stream_config what args =
     (case number_arg what args ''width'' (pf_width default_pipeline) of
        Inl e \<Rightarrow> Inl e
      | Inr w \<Rightarrow>
          (case number_arg what args ''height'' (pf_height default_pipeline) of
             Inl e \<Rightarrow> Inl e
           | Inr h \<Rightarrow>
               (case number_arg what args ''fps'' (pf_fps default_pipeline) of
                  Inl e \<Rightarrow> Inl e
                | Inr f \<Rightarrow> Inr (default_pipeline\<lparr>pf_width := w, pf_height := h, pf_fps := f\<rparr>))))"

definition quoted_status :: "string \<Rightarrow> string" where
  "quoted_status s = [CHR ''{'', CHR 0x22] @ ''status'' @ [CHR 0x22, CHR '':'', CHR 0x22] @ s @ [CHR 0x22, CHR ''}'']"

definition stream_control_execute ::
  "(json \<Rightarrow> string) \<Rightarrow> (string \<Rightarrow> string) \<Rightarrow> (string \<Rightarrow> pipeline_config \<Rightarrow> bool) \<Rightarrow> (int \<Rightarrow> int \<Rightarrow> bool)
     \<Rightarrow> bool \<Rightarrow> bool \<Rightarrow> string \<Rightarrow> (string \<times> string) list \<Rightarrow> pipeline \<Rightarrow> (string + string) \<times> pipeline" where
  "stream_control_execute dump what starts gpu online connects operation args s =
     (if operation = ''start'' then
        if pl_running s then (Inr (quoted_status ''already_running''), s)
        else if \<not> online \<and> \<not> connects then (Inl ''WebRTC connection failed'', s)
        else case stream_config what args of
          Inl e \<Rightarrow> (Inl e, s)
        | Inr cfg \<Rightarrow>
            (case start_pipeline starts gpu cfg s of
               (False, s1) \<Rightarrow> (Inl ''StreamPipeline start failed'', s1)
             | (True, s1) \<Rightarrow>
                 (Inr (dump (JObject [(''status'', JString ''started''), (''path'', JString (path_to_string (pl_path s1))),
                    (''width'', JInt (pf_width cfg)), (''height'', JInt (pf_height cfg)), (''fps'', JInt (pf_fps cfg))])), s1))
      else if operation = ''stop'' then
        if \<not> pl_running s then (Inr (quoted_status ''not_running''), s)
        else (Inr (quoted_status ''stopped''), stop_pipeline s)
      else if operation = ''status'' then
        (Inr (dump (JObject [(''running'', JBool (pl_running s)), (''path'', JString (path_to_string (pl_path s))),
           (''connected'', JBool online)])), s)
      else (Inl (''unknown stream-control operation: '' @ operation), s))"

section \<open>The threads\<close>

text \<open>
  The capture thread: the interval of the time stamps is computed once from the configured rate,
  \<open>None\<close> is the division by zero; every frame that was captured in \<open>elapsed\<close> microseconds advances
  the time stamp and the clock.
\<close>

definition frame_interval :: "pipeline_config \<Rightarrow> int option" where
  "frame_interval cfg = (if pf_fps cfg = 0 then None
      else Some (if pf_fps cfg < 0 then - (1000000 div - pf_fps cfg) else 1000000 div pf_fps cfg))"

definition target_interval :: "pipeline_config \<Rightarrow> quality_state \<Rightarrow> int" where
  "target_interval cfg q = 1000000 div (pf_fpsSteps cfg ! qs_fpsIdx q)"

definition capture_step :: "int \<Rightarrow> pipeline_config \<Rightarrow> quality_state \<Rightarrow> int \<Rightarrow> int \<times> int \<Rightarrow> int \<times> int" where
  "capture_step interval cfg q elapsed = (\<lambda>(pts, clock).
     (pts + interval, clock + (if elapsed < target_interval cfg q then target_interval cfg q else elapsed)))"

text \<open>The encode thread converts a frame of its own size with the converter of the configured size.\<close>

record raw_frame =
  rf_width :: int
  rf_height :: int
  rf_bgra :: "int \<Rightarrow> byte"

definition frame_bytes :: "raw_frame \<Rightarrow> int" where
  "frame_bytes f = rf_width f * rf_height f * 4"

definition frame_picture :: "converter \<Rightarrow> raw_frame \<Rightarrow> (int \<times> byte) list" where
  "frame_picture c f = picture_writes (cv_width c) (cv_height c) (rf_width f * 4) (rf_bgra f)"


section \<open>The steps of quality\<close>

definition in_steps :: "quality_state \<Rightarrow> bool" where
  "in_steps q \<longleftrightarrow> qs_resolutionIdx q \<le> 2 \<and> qs_fpsIdx q \<le> 2 \<and> qs_bitrateIdx q \<le> 2"

lemma in_steps_best: "in_steps best_quality"
  by (simp add: in_steps_def best_quality_def)

lemma in_steps_timers: "in_steps (q\<lparr>qs_cpuHighSinceMs := a, qs_cpuLowSinceMs := b\<rparr>) = in_steps q"
  by (simp add: in_steps_def)

lemma told_in_steps: "in_steps q \<Longrightarrow> set (told_bitrate encoder default_pipeline q) \<subseteq> {2500, 1000, 500}"
  by (auto simp: told_bitrate_def in_steps_def default_pipeline_def nth_Cons less_Suc_eq_le split: nat.splits)

lemma in_steps_cpu:
  assumes "in_steps q"
  shows "in_steps (fst (cpu_high encoder cfg now q))" "in_steps (fst (cpu_low encoder cfg now q))"
    "set (snd (cpu_high encoder default_pipeline now q)) \<subseteq> {2500, 1000, 500}"
    "set (snd (cpu_low encoder default_pipeline now q)) \<subseteq> {2500, 1000, 500}"
  using assms
  by (auto simp: cpu_high_def cpu_low_def in_steps_def Let_def dest!: subsetD [OF told_in_steps, rotated])

lemma in_steps_loss:
  assumes "in_steps q"
  shows "in_steps (fst (loss_step encoder cfg l q))" "set (snd (loss_step encoder default_pipeline l q)) \<subseteq> {2500, 1000, 500}"
  using assms
  by (auto simp: loss_step_def in_steps_def Let_def dest!: subsetD [OF told_in_steps, rotated])

lemma in_steps_check:
  assumes "in_steps q" and "checkAdaptiveQuality encoder default_pipeline now cpu rtt l q = (q', told)"
  shows "in_steps q' \<and> set told \<subseteq> {2500, 1000, 500}"
proof -
  obtain q1 t1 where c: "(if pf_cpuHighPercent default_pipeline \<le> cpu then cpu_high encoder default_pipeline now q
             else if cpu \<le> pf_cpuLowPercent default_pipeline then cpu_low encoder default_pipeline now q
             else (q\<lparr>qs_cpuHighSinceMs := 0, qs_cpuLowSinceMs := 0\<rparr>, [])) = (q1, t1)" by force
  obtain q2 t2 where l: "loss_step encoder default_pipeline l q1 = (q2, t2)" by force
  have "in_steps (fst (q1, t1)) \<and> set (snd (q1, t1)) \<subseteq> {2500, 1000, 500}"
    unfolding c [symmetric] using in_steps_cpu [OF assms(1)] assms(1) by (simp add: in_steps_timers)
  then have q1: "in_steps q1" "set t1 \<subseteq> {2500, 1000, 500}" by simp_all
  from in_steps_loss [OF q1(1)] l have "in_steps q2" "set t2 \<subseteq> {2500, 1000, 500}" by (metis fst_conv snd_conv)+
  with assms(2) q1 show ?thesis
    by (auto simp: checkAdaptiveQuality_def c l rtt_step_def in_steps_def)
qed

lemma in_steps_run:
  "in_steps q \<Longrightarrow> quality_run encoder default_pipeline ms q = (q', told) \<Longrightarrow> in_steps q' \<and> set told \<subseteq> {2500, 1000, 500}"
proof (induction ms arbitrary: q told)
  case (Cons m ms)
  obtain now cpu rtt l where m: "m = (now, cpu, rtt, l)" by (cases m)
  obtain q1 t1 where c: "checkAdaptiveQuality encoder default_pipeline now cpu rtt l q = (q1, t1)" by force
  obtain t2 where r: "quality_run encoder default_pipeline ms q1 = (q', t2)" and told: "told = t1 @ t2"
    using Cons.prems(2) by (auto simp: m c split: prod.splits)
  from Cons.IH [OF conjunct1 [OF in_steps_check [OF Cons.prems(1) c]] r] in_steps_check [OF Cons.prems(1) c]
  show ?case by (simp add: told)
qed simp

text \<open>
  However the processor and the network behave, the quality stays within its steps: the encoder
  is only ever told one of the three bit rates, and the thread that captures waits for one of
  the three rates.
\<close>

theorem quality_within_steps:
  "(case quality_run encoder default_pipeline ms best_quality of (q, told) \<Rightarrow>
      qs_resolutionIdx q \<le> 2 \<and> qs_fpsIdx q \<le> 2 \<and> qs_bitrateIdx q \<le> 2
      \<and> set told \<subseteq> {2500, 1000, 500} \<and> target_interval default_pipeline q \<in> {33333, 66666, 100000})"
proof -
  obtain q told where r: "quality_run encoder default_pipeline ms best_quality = (q, told)" by force
  from in_steps_run [OF in_steps_best r] have "in_steps q" "set told \<subseteq> {2500, 1000, 500}" by auto
  moreover from this(1) have "target_interval default_pipeline q \<in> {33333, 66666, 100000}"
    by (auto simp: target_interval_def in_steps_def default_pipeline_def nth_Cons less_Suc_eq_le split: nat.splits)
  ultimately show ?thesis by (simp add: r in_steps_def)
qed

text \<open>Checks under load, from \<open>t\<close> on, each at least five seconds after the one before.\<close>

fun loaded :: "int \<Rightarrow> measurement list \<Rightarrow> bool" where
  "loaded t [] = True"
| "loaded t ((now, cpu, rtt, loss) # ms) = (t \<le> now \<and> 80 \<le> cpu \<and> loaded (now + 5000) ms)"

text \<open>Checks of any kind, at times up to \<open>t\<close>.\<close>

definition checked_before :: "int \<Rightarrow> measurement list \<Rightarrow> bool" where
  "checked_before t ms \<longleftrightarrow> (\<forall>(now, cpu, rtt, loss) \<in> set ms. 0 < now \<and> now \<le> t)"

definition timer_ok :: "int \<Rightarrow> quality_state \<Rightarrow> bool" where
  "timer_ok t q \<longleftrightarrow> 0 \<le> qs_cpuHighSinceMs q \<and> qs_cpuHighSinceMs q \<le> t"

lemma loss_keeps:
  "qs_cpuHighSinceMs (fst (loss_step encoder cfg l q)) = qs_cpuHighSinceMs q"
  "qs_fpsIdx (fst (loss_step encoder cfg l q)) = qs_fpsIdx q"
  by (simp_all add: loss_step_def Let_def)

lemma thresholds:
  "pf_cpuHighPercent default_pipeline = 80" "pf_cpuThresholdSec default_pipeline = 10"
  by (simp_all add: default_pipeline_def)

text \<open>The timer is zero or a time at which a check was made.\<close>

lemma timer_check:
  assumes "timer_ok t q" and "0 < now" and "t \<le> u" and "now \<le> u"
  shows "timer_ok u (fst (checkAdaptiveQuality encoder cfg now cpu rtt l q))"
  using assms
  by (auto simp: checkAdaptiveQuality_def split_beta timer_ok_def rtt_step_def loss_keeps cpu_high_def cpu_low_def Let_def)

lemma checked_before_Cons [simp]:
  "checked_before t ((now, cpu, rtt, loss) # ms) \<longleftrightarrow> 0 < now \<and> now \<le> t \<and> checked_before t ms"
  by (auto simp: checked_before_def)

lemma timer_run:
  "timer_ok t q \<Longrightarrow> checked_before t ms \<Longrightarrow> timer_ok t (fst (quality_run encoder cfg ms q))"
proof (induction ms arbitrary: q)
  case (Cons m ms)
  obtain now cpu rtt l where m: "m = (now, cpu, rtt, l)" by (cases m)
  have "timer_ok t (fst (checkAdaptiveQuality encoder cfg now cpu rtt l q))"
    using timer_check [OF Cons.prems(1), of now t encoder cfg cpu rtt l] Cons.prems(2) by (simp add: m)
  from Cons.IH [OF this] Cons.prems(2) show ?case by (simp add: m split_beta)
qed simp

text \<open>
  What one check under load does: it starts the timer, leaves it, or lowers the rate and resets
  it, ten seconds after it was started.
\<close>

lemma loaded_check:
  assumes "in_steps q" and "80 \<le> cpu" and "0 < now"
    and "checkAdaptiveQuality encoder default_pipeline now cpu rtt l q = (q', told)"
  shows "qs_fpsIdx q \<le> qs_fpsIdx q'"
    and "qs_cpuHighSinceMs q = 0 \<Longrightarrow> qs_cpuHighSinceMs q' = now"
    and "qs_cpuHighSinceMs q \<noteq> 0 \<Longrightarrow> now < qs_cpuHighSinceMs q + 10000
           \<Longrightarrow> qs_cpuHighSinceMs q' = qs_cpuHighSinceMs q"
    and "qs_cpuHighSinceMs q \<noteq> 0 \<Longrightarrow> qs_cpuHighSinceMs q + 10000 \<le> now \<Longrightarrow> qs_fpsIdx q < 2
           \<Longrightarrow> qs_cpuHighSinceMs q' = 0 \<and> qs_fpsIdx q < qs_fpsIdx q'"
proof -
  obtain q1 t1 where c: "cpu_high encoder default_pipeline now q = (q1, t1)" by force
  have q': "q' = rtt_step default_pipeline rtt (fst (loss_step encoder default_pipeline l q1))"
    using assms(2,4) thresholds by (auto simp: checkAdaptiveQuality_def c split_beta)
  have s: "qs_cpuHighSinceMs q' = qs_cpuHighSinceMs q1" and f: "qs_fpsIdx q1 \<le> qs_fpsIdx q'"
    by (auto simp: q' rtt_step_def loss_keeps)
  have c2: "(q1, t1) = cpu_high encoder default_pipeline now q" by (simp add: c)
  have thr: "pf_cpuThresholdSec default_pipeline * 1000 = 10000" using thresholds by simp
  have "qs_fpsIdx q \<le> qs_fpsIdx q1" using c2 by (simp add: cpu_high_def Let_def split: if_splits)
  with f show "qs_fpsIdx q \<le> qs_fpsIdx q'" by simp
  show "qs_cpuHighSinceMs q' = now" if "qs_cpuHighSinceMs q = 0"
    using c2 that by (simp add: s cpu_high_def Let_def thr split: if_splits)
  show "qs_cpuHighSinceMs q' = qs_cpuHighSinceMs q"
    if "qs_cpuHighSinceMs q \<noteq> 0" "now < qs_cpuHighSinceMs q + 10000"
    using c2 that by (simp add: s cpu_high_def Let_def thr split: if_splits)
  show "qs_cpuHighSinceMs q' = 0 \<and> qs_fpsIdx q < qs_fpsIdx q'"
    if "qs_cpuHighSinceMs q \<noteq> 0" "qs_cpuHighSinceMs q + 10000 \<le> now" "qs_fpsIdx q < 2"
  proof -
    have "qs_cpuHighSinceMs q1 = 0 \<and> qs_fpsIdx q < qs_fpsIdx q1"
      using c2 that by (auto simp: cpu_high_def Let_def thr split: if_splits)
    then show ?thesis using s f by simp
  qed
qed

text \<open>How many checks, the next of them not before \<open>t\<close>, until the rate is at its lowest.\<close>

definition checks_left :: "int \<Rightarrow> quality_state \<Rightarrow> nat" where
  "checks_left t q =
     (if qs_fpsIdx q \<ge> 2 then 0
      else 3 * (1 - qs_fpsIdx q)
        + (if qs_cpuHighSinceMs q = 0 \<or> t < qs_cpuHighSinceMs q + 5000 then 3
           else if t < qs_cpuHighSinceMs q + 10000 then 2 else 1))"

lemma checks_left_le: "checks_left t q \<le> 6"
  by (auto simp: checks_left_def intro: order_trans [OF add_le_mono [of _ 3]])

lemma loaded_run:
  assumes "in_steps q" and "loaded t ms" and "0 < t" and "timer_ok t q" and "checks_left t q \<le> length ms"
  shows "2 \<le> qs_fpsIdx (fst (quality_run encoder default_pipeline ms q))"
  using assms
proof (induction ms arbitrary: q t)
  case Nil
  then show ?case by (auto simp: checks_left_def split: if_splits)
next
  case (Cons m ms)
  obtain now cpu rtt l where m: "m = (now, cpu, rtt, l)" by (cases m)
  obtain q1 t1 where c: "checkAdaptiveQuality encoder default_pipeline now cpu rtt l q = (q1, t1)" by force
  have now: "t \<le> now" "80 \<le> cpu" "loaded (now + 5000) ms" "0 < now" using Cons.prems(2,3) by (simp_all add: m)
  note chk = loaded_check [OF Cons.prems(1) now(2,4) c]
  have q1: "in_steps q1" using in_steps_check [OF Cons.prems(1) c] by simp
  have timer: "timer_ok (now + 5000) q1"
    using timer_check [OF Cons.prems(4) now(4), of "now + 5000" encoder default_pipeline cpu rtt l] now(1) c by simp
  have "checks_left (now + 5000) q1 \<le> length ms"
  proof (cases "qs_fpsIdx q < 2")
    case True
    then show ?thesis
      using Cons.prems(4,5) chk now(1,4)
      by (cases "qs_cpuHighSinceMs q = 0"; cases "now < qs_cpuHighSinceMs q + 10000")
        (auto simp: checks_left_def timer_ok_def split: if_splits)
  next
    case False
    then show ?thesis using chk(1) by (simp add: checks_left_def)
  qed
  from Cons.IH [OF q1 now(3) _ timer this] now(4) show ?case by (simp add: m c split_beta)
qed

lemma quality_run_append:
  "fst (quality_run encoder cfg (ms @ ms') q) = fst (quality_run encoder cfg ms' (fst (quality_run encoder cfg ms q)))"
  by (induction ms arbitrary: q) (auto simp: split_beta)

text \<open>
  C36: Under load the stream gives way: whatever was measured before, after six checks at least
  five seconds apart that all find the processor at 80 percent or more, whatever the network does,
  the frame rate is at its lowest step and the thread that captures waits a tenth of a second
  for each frame. (The other step that these checks lower, the resolution, is only a number
  that nothing reads.)
\<close>

theorem load_lowers_quality:
  assumes "checked_before t before" and "loaded t ms" and "0 < t" and "6 \<le> length ms"
  shows "target_interval default_pipeline (fst (quality_run encoder default_pipeline (before @ ms) best_quality)) = 100000"
proof -
  let ?earlier = "fst (quality_run encoder default_pipeline before best_quality)"
  let ?q = "fst (quality_run encoder default_pipeline (before @ ms) best_quality)"
  have steps: "in_steps (fst (quality_run encoder default_pipeline xs best_quality))" for xs
    using in_steps_run [OF in_steps_best] by (metis prod.collapse)
  have "timer_ok t best_quality" using assms(3) by (simp add: timer_ok_def best_quality_def)
  then have "timer_ok t ?earlier" using assms(1) by (rule timer_run)
  moreover have "checks_left t ?earlier \<le> length ms" using checks_left_le [of t ?earlier] assms(4) by simp
  ultimately have "2 \<le> qs_fpsIdx ?q"
    unfolding quality_run_append by (intro loaded_run [OF steps assms(2,3)])
  moreover have "qs_fpsIdx ?q \<le> 2" using steps by (simp add: in_steps_def)
  ultimately have "qs_fpsIdx ?q = 2" by simp
  then show ?thesis by (simp add: target_interval_def default_pipeline_def)
qed

text \<open>The first check of a stream finds 0 percent; then the load begins.\<close>

theorem load_lowers_quality_witness:
  "target_interval default_pipeline (fst (quality_run True default_pipeline
     ([(1, 0, 10, 0)] @ map (\<lambda>i. (int i * 5000 + 5001, 95, 10, 0)) [0..<6]) best_quality)) = 100000"
  by (rule load_lowers_quality [where t = 5001]) (simp_all add: upt_rec checked_before_def)


section \<open>Measuring the processor\<close>

lemma counter_delta: "uint (a :: 64 word) = uint b + d \<Longrightarrow> a - b = word_of_int d"
  by (metis add_diff_cancel_left' word_of_int_uint wi_hom_sub)

lemma small_counter: "0 \<le> x \<Longrightarrow> x < 2 ^ 64 \<Longrightarrow> uint (word_of_int x :: 64 word) = x"
  by (simp add: uint_word_of_int)

lemma small_int: "0 \<le> x \<Longrightarrow> x < 2 ^ 31 \<Longrightarrow> sint (word_of_int x :: 32 word) = x"
  by (simp add: sint_uint uint_word_of_int signed_take_bit_int_eq_self)

text \<open>
  The use of the processor is a percentage: between two calls, when the three counters have
  grown, the kernel time at least as much as the idle time it contains, the result is the busy
  part of the time that has passed, rounded down, between 0 and 100.
\<close>

theorem cpu_usage_percent:
  assumes "ct_initialized s"
    and "uint idle = uint (ct_idle s) + di" and "uint kern = uint (ct_kernel s) + dk"
    and "uint user = uint (ct_user s) + du"
    and "0 \<le> di" and "di \<le> dk" and "0 \<le> du" and "0 < dk + du" and "(dk + du) * 100 < 2 ^ 64"
  shows "fst (queryCpuUsage (Some (idle, kern, user)) s) = (dk + du - di) * 100 div (dk + du)
     \<and> fst (queryCpuUsage (Some (idle, kern, user)) s) \<in> {0..100}"
proof -
  let ?p = "(dk + du - di) * 100 div (dk + du)"
  have p: "0 \<le> ?p" "?p \<le> 100"
  proof -
    show "0 \<le> ?p" using assms by (simp add: pos_imp_zdiv_nonneg_iff)
    have "?p \<le> (dk + du) * 100 div (dk + du)" using assms by (intro zdiv_mono1) simp_all
    also have "\<dots> = 100" using assms(8) by (intro nonzero_mult_div_cancel_left) simp
    finally show "?p \<le> 100" .
  qed
  have u1: "uint (word_of_int (dk + du) :: 64 word) = dk + du"
    by (rule small_counter) (use assms in simp_all)
  have u2: "uint (word_of_int ((dk + du - di) * 100) :: 64 word) = (dk + du - di) * 100"
    by (rule small_counter) (use assms in simp_all)
  have nz: "(word_of_int (dk + du) :: 64 word) \<noteq> 0" using u1 assms(8) by auto
  have "uint (word_of_int (dk + du - di) * 100 div word_of_int (dk + du) :: 64 word) = ?p"
    unfolding uint_div_distrib u1 using u2 by simp
  then have "(word_of_int (dk + du - di) * 100 div word_of_int (dk + du) :: 64 word) = word_of_int ?p"
    by (metis word_of_int_uint)
  then have "fst (queryCpuUsage (Some (idle, kern, user)) s) = sint (ucast (word_of_int ?p :: 64 word) :: 32 word)"
    using assms(1) nz by (simp add: queryCpuUsage_def Let_def counter_delta [OF assms(2)] counter_delta [OF assms(3)]
        counter_delta [OF assms(4)])
  also have "\<dots> = ?p"
  proof -
    have "uint (word_of_int ?p :: 64 word) = ?p" by (rule small_counter) (use p in simp_all)
    then have "(ucast (word_of_int ?p :: 64 word) :: 32 word) = word_of_int ?p" by (simp add: ucast_eq)
    then show ?thesis using small_int [of ?p] p by simp
  qed
  finally show ?thesis using p by simp
qed

theorem cpu_usage_percent_witness:
  "fst (queryCpuUsage (Some (150, 400, 100)) \<lparr>ct_initialized = True, ct_idle = 100, ct_kernel = 300, ct_user = 0\<rparr>) = 75"
  using cpu_usage_percent [of "\<lparr>ct_initialized = True, ct_idle = 100, ct_kernel = 300, ct_user = 0\<rparr>" 150 50 400 100 100 100]
  by simp

section \<open>The choice of a path\<close>

text \<open>
  The path that is used: without a converter none; with NVENC the full or the mixed one,
  depending on the converter; otherwise the first of QSV and x264 that starts, under the name
  of the path that uses the processor only.
\<close>

theorem path_chosen:
  "probePipeline starts gpu cfg =
     (case createBestConverter gpu (pf_width cfg) (pf_height cfg) of
        None \<Rightarrow> None
      | Some c \<Rightarrow>
          if starts ''nvenc'' cfg
          then Some (if c = D3D11_converter then FullGpu else MixedGpu, ''nvenc'', c)
          else map_option (\<lambda>e. (CpuOnly, e, c)) (find (\<lambda>e. starts e cfg) [''qsv'', ''x264'']))"
  by (simp add: probePipeline_def createBestEncoder_def createEncoder_def Let_def
      split: option.split converter_choice.split)

section \<open>Time stamps\<close>

text \<open>
  The clock of a stream is not the clock of the screen: a frame advances the time stamp by
  the interval of the configured rate, and the thread that captures waits for the rate of
  the quality step. A stream of fifteen frames a second, what the agent starts by itself, is
  captured thirty times a second at the best quality, and after \<open>n\<close> frames its time stamps
  have run twice as far as the time that has passed.
\<close>

theorem stream_clock_runs_double:
  assumes "list_all (\<lambda>e. e < 33333) elapsed"
    and "frame_interval (default_pipeline\<lparr>pf_fps := 15\<rparr>) = Some interval"
  shows "fold (capture_step interval (default_pipeline\<lparr>pf_fps := 15\<rparr>) best_quality) elapsed (0, 0)
     = (66666 * int (length elapsed), 33333 * int (length elapsed))"
proof -
  have i: "interval = 66666" using assms(2) by (simp add: frame_interval_def)
  have t: "target_interval (default_pipeline\<lparr>pf_fps := 15\<rparr>) best_quality = 33333"
    by (simp add: target_interval_def default_pipeline_def best_quality_def)
  have "fold (capture_step interval (default_pipeline\<lparr>pf_fps := 15\<rparr>) best_quality) elapsed (p, c)
     = (p + 66666 * int (length elapsed), c + 33333 * int (length elapsed))" for p c
    using assms(1)
    by (induction elapsed arbitrary: p c) (simp_all add: capture_step_def t i algebra_simps)
  from this [of 0 0] show ?thesis by simp
qed

theorem stream_clock_runs_double_witness:
  "fold (capture_step 66666 (default_pipeline\<lparr>pf_fps := 15\<rparr>) best_quality) [100, 200] (0, 0) = (133332, 66666)"
  using stream_clock_runs_double [of "[100, 200]" 66666] by (simp add: frame_interval_def)

text \<open>
  A start command with a rate of 0 is accepted, and then the thread that captures divides by
  zero, which ends the agent.
\<close>

theorem zero_rate_accepted:
  assumes "probePipeline starts gpu (default_pipeline\<lparr>pf_fps := 0\<rparr>) = Some chosen" and "\<not> pl_running s"
  shows "isl (fst (stream_control_execute dump what starts gpu True connects ''start'' [(''fps'', ''0'')] s)) = False
     \<and> pl_running (snd (stream_control_execute dump what starts gpu True connects ''start'' [(''fps'', ''0'')] s))
     \<and> frame_interval (pl_config (snd (stream_control_execute dump what starts gpu True connects ''start'' [(''fps'', ''0'')] s)))
         = None"
proof -
  have z: "stoi ''0'' = Some (0, 1)"
    by (simp add: stoi_def sign_split_def is_space_def is_digit_def digits_value_def)
  have d: "default_pipeline\<lparr>pf_width := pf_width default_pipeline, pf_height := pf_height default_pipeline, pf_fps := 0\<rparr>
      = default_pipeline\<lparr>pf_fps := 0\<rparr>" by simp
  have "stream_config what [(''fps'', ''0'')] = Inr (default_pipeline\<lparr>pf_fps := 0\<rparr>)"
    by (simp add: stream_config_def number_arg_def z)
  then show ?thesis using assms
    by (cases chosen) (simp add: stream_control_execute_def start_pipeline_def frame_interval_def)
qed

theorem zero_rate_accepted_witness:
  "frame_interval (pl_config (snd (stream_control_execute (\<lambda>_. []) (\<lambda>_. []) (\<lambda>e _. e = ''x264'') (\<lambda>_ _. True)
     True True ''start'' [(''fps'', ''0'')] new_pipeline))) = None"
  by (rule zero_rate_accepted [where chosen = "(CpuOnly, ''x264'', D3D11_converter)", THEN conjunct2, THEN conjunct2])
    (simp_all add: path_chosen createBestConverter_def new_pipeline_def)

section \<open>Small screens\<close>

lemma concat_map_eq_pointwise:
  assumes "concat (map f xs) = concat (map g xs)" and "\<And>x. x \<in> set xs \<Longrightarrow> length (f x) = length (g x)"
    and "x \<in> set xs"
  shows "f x = g x"
  using assms
proof (induction xs)
  case (Cons a xs)
  then have "f a = g a" "concat (map f xs) = concat (map g xs)" by (auto simp: append_eq_append_conv)
  with Cons show ?case by auto
qed simp

lemma pixel_writes_length: "length (pixel_writes w h st src y x) = (if x mod 2 = 0 \<and> y mod 2 = 0 then 3 else 1)"
  by (simp add: pixel_writes_def Let_def)

lemma picture_pixel:
  assumes "picture_writes w h st src = picture_writes w h st src'" and "0 \<le> x" "x < w" "0 \<le> y" "y < h"
  shows "pixel_writes w h st src y x = pixel_writes w h st src' y x"
proof -
  have "length (concat (map (pixel_writes w h st src y) xs)) = length (concat (map (pixel_writes w h st src' y) xs))" for y xs
    by (induction xs) (simp_all add: pixel_writes_length)
  from concat_map_eq_pointwise [OF assms(1) [unfolded picture_writes_def] this, of y] assms(4,5)
  have "concat (map (pixel_writes w h st src y) [0..w - 1]) = concat (map (pixel_writes w h st src' y) [0..w - 1])" by simp
  from concat_map_eq_pointwise [OF this, of x] assms(2,3) show ?thesis by (simp add: pixel_writes_length)
qed

lemma luma_green: "luma r g b = luma r g' b \<Longrightarrow> \<bar>g - g'\<bar> \<le> 1"
  unfolding luma_def by linarith

text \<open>
  C37: A screen that is not as high as the stream is read beyond its end: the converter has the
  size of the stream, the frame has that of the screen, and the picture that is sent depends
  on bytes behind the frame, whatever these are.
\<close>

theorem small_screen_overread:
  assumes "0 < cv_width c" and "0 < rf_width f" and "0 \<le> rf_height f" and "rf_height f < cv_height c"
  shows "\<exists>bytes. map bytes [0..frame_bytes f - 1] = map (rf_bgra f) [0..frame_bytes f - 1]
     \<and> frame_picture c (f\<lparr>rf_bgra := bytes\<rparr>) \<noteq> frame_picture c f"
proof -
  define y where "y = cv_height c - 1"
  define off where "off = y * (rf_width f * 4) + 1"
  define v where "v = (if uint (rf_bgra f off) < 128 then 255 else 0 :: byte)"
  define bytes where "bytes = (rf_bgra f)(off := v)"
  have y: "0 \<le> y" "y < cv_height c" "rf_height f \<le> y" using assms by (simp_all add: y_def)
  have "rf_height f * (rf_width f * 4) \<le> y * (rf_width f * 4)" using y assms by (intro mult_right_mono) simp_all
  then have off: "frame_bytes f \<le> off" by (simp add: frame_bytes_def off_def mult.assoc mult.left_commute)
  have g: "\<not> \<bar>uint (rf_bgra f off) - uint v\<bar> \<le> 1"
    using uint_lt2p [of "rf_bgra f off"] by (auto simp: v_def)
  have bnd: "0 \<le> uint w \<and> uint w \<le> 255" for w :: byte using uint_lt2p [of w] by simp
  have "pixel_writes (cv_width c) (cv_height c) (rf_width f * 4) (rf_bgra f) y 0
      \<noteq> pixel_writes (cv_width c) (cv_height c) (rf_width f * 4) bytes y 0"
  proof
    let ?r = "uint (rf_bgra f (y * (rf_width f * 4) + 2))" and ?b = "uint (rf_bgra f (y * (rf_width f * 4)))"
    assume "pixel_writes (cv_width c) (cv_height c) (rf_width f * 4) (rf_bgra f) y 0
      = pixel_writes (cv_width c) (cv_height c) (rf_width f * 4) bytes y 0"
    then have "clamp_byte (luma ?r (uint (rf_bgra f off)) ?b) = clamp_byte (luma ?r (uint v) ?b)"
      by (simp add: pixel_writes_def Let_def bytes_def off_def)
    then have "uint (clamp_byte (luma ?r (uint (rf_bgra f off)) ?b)) = uint (clamp_byte (luma ?r (uint v) ?b))" by simp
    moreover have "0 \<le> luma ?r (uint w) ?b \<and> luma ?r (uint w) ?b \<le> 255" for w :: byte
      using luma_range [of ?r "uint w" ?b] bnd by simp
    ultimately have "luma ?r (uint (rf_bgra f off)) ?b = luma ?r (uint v) ?b" by (simp add: clamp_byte_id)
    with g show False using luma_green by blast
  qed
  then have "frame_picture c (f\<lparr>rf_bgra := bytes\<rparr>) \<noteq> frame_picture c f"
    using picture_pixel [of "cv_width c" "cv_height c" "rf_width f * 4" "rf_bgra f" bytes 0 y] y assms(1)
    by (auto simp: frame_picture_def)
  moreover have "map bytes [0..frame_bytes f - 1] = map (rf_bgra f) [0..frame_bytes f - 1]"
    using off by (auto simp: bytes_def)
  ultimately show ?thesis by blast
qed

theorem small_screen_overread_witness:
  "\<exists>bytes. map bytes [0..8 * 4 * 4 - 1] = map (\<lambda>_. 0 :: byte) [0..8 * 4 * 4 - 1]
     \<and> frame_picture \<lparr>cv_width = 8, cv_height = 6\<rparr> \<lparr>rf_width = 8, rf_height = 4, rf_bgra = bytes\<rparr>
         \<noteq> frame_picture \<lparr>cv_width = 8, cv_height = 6\<rparr> \<lparr>rf_width = 8, rf_height = 4, rf_bgra = (\<lambda>_. 0)\<rparr>"
  using small_screen_overread [of "\<lparr>cv_width = 8, cv_height = 6\<rparr>" "\<lparr>rf_width = 8, rf_height = 4, rf_bgra = (\<lambda>_. 0)\<rparr>"]
  unfolding frame_bytes_def by simp

end
