(* ===== verification/Rtp_Packets.thy ===== *)
theory Rtp_Packets
  imports Hub32_Prelude
begin

text \<open>
  The stream on the wire: sendH264 and the reconnection of
  src/agent/src/webrtc/WebRtcProducer.cpp. A picture in H.264 is a byte stream of units after
  start codes; it is cut into units, and these into RTP packets, small units together (STAP-A),
  large ones in fragments (FU-A). The track of the WebRTC library is an argument that says at which
  packet it fails. The lemmas show that a reader who follows the standards gets every unit back,
  that no packet is larger than the limit, and how packets are numbered and marked.
\<close>

unbundle bit_operations_syntax

section \<open>Units\<close>

definition start_code_len :: "byte list \<Rightarrow> nat" where
  "start_code_len s = (if take 4 s = [0, 0, 0, 1] then 4 else if take 3 s = [0, 0, 1] then 3 else 0)"

text \<open>The inner loop: up to the next start code or the end.\<close>

fun until_start_code :: "byte list \<Rightarrow> byte list \<times> byte list" where
  "until_start_code [] = ([], [])"
| "until_start_code (b # s) =
     (if start_code_len (b # s) \<noteq> 0 then ([], b # s)
      else let (n, r) = until_start_code s in (b # n, r))"

lemma until_start_code_length: "until_start_code s = (n, r) \<Longrightarrow> length r \<le> length s"
  by (induction s arbitrary: n r) (auto split: if_splits prod.splits intro: le_SucI)

text \<open>The outer loop. The first byte of a unit is not looked at.\<close>

function find_nal_units :: "byte list \<Rightarrow> byte list list" where
  "find_nal_units [] = []"
| "find_nal_units (b # s) =
     (if start_code_len (b # s) = 0 then find_nal_units s
      else case drop (start_code_len (b # s)) (b # s) of
             [] \<Rightarrow> []
           | c # r \<Rightarrow> let (n, rest) = until_start_code r in (c # n) # find_nal_units rest)"
  by pat_completeness auto
termination
proof (relation "measure length")
  fix b c :: byte and s r n rest p
  assume "drop (start_code_len (b # s)) (b # s) = c # r" and "p = until_start_code r" "(n, rest) = p"
  then have "length rest \<le> length r" and "length (c # r) \<le> length (b # s)"
    using until_start_code_length [of r n rest] by (auto dest: arg_cong [of _ _ length])
  then show "(rest, b # s) \<in> measure length" by simp
qed simp_all

section \<open>Packets\<close>

definition kRtpHeaderSize :: nat where "kRtpHeaderSize = 12"
definition kMaxPayload :: nat where "kMaxPayload = 1188"
definition kFuHeaderSize :: nat where "kFuHeaderSize = 2"
definition kStapSmallLimit :: nat where "kStapSmallLimit = 600"
definition kH264NalFuA :: byte where "kH264NalFuA = 28"
definition kH264NalStapA :: byte where "kH264NalStapA = 24"
definition kRtpPayloadType :: byte where "kRtpPayloadType = 96"

definition build_rtp_header :: "bool \<Rightarrow> 16 word \<Rightarrow> 32 word \<Rightarrow> 32 word \<Rightarrow> byte list" where
  "build_rtp_header marker seqno ts ssrc =
     [push_bit 6 2, (if marker then 0x80 else 0) OR (kRtpPayloadType AND 0x7F),
      ucast (drop_bit 8 seqno), ucast seqno,
      ucast (drop_bit 24 ts), ucast (drop_bit 16 ts), ucast (drop_bit 8 ts), ucast ts,
      ucast (drop_bit 24 ssrc), ucast (drop_bit 16 ssrc), ucast (drop_bit 8 ssrc), ucast ssrc]"

text \<open>The fragments of a large unit, from the payload that remains.\<close>

function fu_packets ::
  "byte \<Rightarrow> bool \<Rightarrow> 32 word \<Rightarrow> 32 word \<Rightarrow> bool \<Rightarrow> 16 word \<Rightarrow> byte list \<Rightarrow> byte list list" where
  "fu_packets nal_hdr last_nal ts ssrc first_frag seqno [] = []"
| "fu_packets nal_hdr last_nal ts ssrc first_frag seqno (x # xs) =
     (let chunk = take (kMaxPayload - kFuHeaderSize) (x # xs);
          remaining = drop (kMaxPayload - kFuHeaderSize) (x # xs);
          last_frag = (remaining = []);
          fu_ind = (nal_hdr AND 0x60) OR kH264NalFuA;
          fu_hdr = (nal_hdr AND 0x1F) OR (if first_frag then 0x80 else 0) OR (if last_frag then 0x40 else 0)
      in (build_rtp_header (last_frag \<and> last_nal) seqno ts ssrc @ [fu_ind, fu_hdr] @ chunk)
         # fu_packets nal_hdr last_nal ts ssrc False (seqno + 1) remaining)"
  by pat_completeness auto
termination by (relation "measure (\<lambda>(_, _, _, _, _, _, p). length p)") (auto simp: kMaxPayload_def kFuHeaderSize_def)

text \<open>How many units from here on go into one aggregate, given the bytes it has.\<close>

fun stap_count :: "nat \<Rightarrow> byte list list \<Rightarrow> nat" where
  "stap_count stap_bytes [] = 0"
| "stap_count stap_bytes (n # ns) =
     (if kStapSmallLimit < length n \<or> kMaxPayload < stap_bytes + 2 + length n then 0
      else Suc (stap_count (stap_bytes + 2 + length n) ns))"

lemma stap_count_le: "stap_count k ns \<le> length ns"
  by (induction ns arbitrary: k) auto

definition stap_unit :: "byte list \<Rightarrow> byte list" where
  "stap_unit n = [of_nat (length n div 256), of_nat (length n)] @ n"

function packets_from :: "32 word \<Rightarrow> 32 word \<Rightarrow> 16 word \<Rightarrow> byte list list \<Rightarrow> byte list list" where
  "packets_from ts ssrc seqno [] = []"
| "packets_from ts ssrc seqno (nal # rest) =
     (if kMaxPayload < length nal then
        let ps = fu_packets (hd nal) (rest = []) ts ssrc True seqno (tl nal)
        in ps @ packets_from ts ssrc (seqno + of_nat (length ps)) rest
      else let k = stap_count 1 (nal # rest)
        in if 1 < k then
             (build_rtp_header (k = length (nal # rest)) seqno ts ssrc
                @ kH264NalStapA # concat (map stap_unit (take k (nal # rest))))
             # packets_from ts ssrc (seqno + 1) (drop k (nal # rest))
           else (build_rtp_header (rest = []) seqno ts ssrc @ nal) # packets_from ts ssrc (seqno + 1) rest)"
  by pat_completeness auto
termination by (relation "measure (\<lambda>(_, _, _, ns). length ns)") auto

text \<open>The sender: the stored parameter sets, the sequence number, the source.\<close>

record rtp_sender =
  rt_connected :: bool
  rt_sps :: "byte list"
  rt_pps :: "byte list"
  rt_seq :: "16 word"
  rt_ssrc :: "32 word"

definition new_sender :: rtp_sender where
  "new_sender = \<lparr>rt_connected = False, rt_sps = [], rt_pps = [], rt_seq = 0, rt_ssrc = 1\<rparr>"

definition nal_type :: "byte list \<Rightarrow> byte" where "nal_type n = hd n AND 0x1F"

definition store_sets :: "byte list list \<Rightarrow> rtp_sender \<Rightarrow> rtp_sender" where
  "store_sets nals s =
     fold (\<lambda>n s. if n = [] then s else if nal_type n = 7 then s\<lparr>rt_sps := n\<rparr>
                 else if nal_type n = 8 then s\<lparr>rt_pps := n\<rparr> else s) nals s"

definition send_queue_of :: "bool \<Rightarrow> byte list list \<Rightarrow> rtp_sender \<Rightarrow> byte list list" where
  "send_queue_of isKeyFrame nals s =
     (if isKeyFrame \<and> rt_sps s \<noteq> [] \<and> rt_pps s \<noteq> [] then [rt_sps s, rt_pps s] else [])
     @ filter (\<lambda>n. n \<noteq> [] \<and> \<not> (isKeyFrame \<and> (nal_type n = 7 \<or> nal_type n = 8))) nals"

text \<open>Time stamps are not negative, so that the division of the code rounds down.\<close>

definition rtp_timestamp :: "int \<Rightarrow> 32 word" where
  "rtp_timestamp timestampUs = word_of_int (timestampUs * 90 div 1000)"

text \<open>\<open>fails k\<close>: sending the packet number \<open>k\<close> throws, which ends the loop.\<close>

fun sent_until :: "(nat \<Rightarrow> bool) \<Rightarrow> nat \<Rightarrow> 'a list \<Rightarrow> 'a list" where
  "sent_until fails k [] = []"
| "sent_until fails k (p # ps) = (if fails k then [] else p # sent_until fails (Suc k) ps)"

definition sendH264 ::
  "(nat \<Rightarrow> bool) \<Rightarrow> byte list \<Rightarrow> int \<Rightarrow> bool \<Rightarrow> rtp_sender \<Rightarrow> byte list list \<times> rtp_sender" where
  "sendH264 fails data timestampUs isKeyFrame s =
     (if \<not> rt_connected s \<or> data = [] then ([], s)
      else let nals = find_nal_units data;
               s1 = (if isKeyFrame then store_sets nals s else s);
               queue = send_queue_of isKeyFrame nals s1
           in if queue = [] then ([], s1)
              else let ps = packets_from (rtp_timestamp timestampUs) (rt_ssrc s1) (rt_seq s1) queue
                   in (sent_until fails 0 ps, s1\<lparr>rt_seq := rt_seq s1 + of_nat (length ps)\<rparr>))"

text \<open>The pause after a packet, in microseconds; the product is one of 32 bits in the code.\<close>

definition pacing_gap :: "int \<Rightarrow> int" where
  "pacing_gap bitrateKbps =
     (let bps = bitrateKbps * 1000 in if bps \<le> 0 then 0 else min (1200 * 8 * 1000000 div bps) 5000)"

section \<open>Reconnecting\<close>

text \<open>The delay of an attempt, from the base delay; the loop counter runs from 1.\<close>

function backoff_loop :: "nat \<Rightarrow> nat \<Rightarrow> int \<Rightarrow> int" where
  "backoff_loop attempts i delayMs =
     (if i < attempts \<and> delayMs < 60000 then backoff_loop attempts (i + 1) (min (delayMs * 2) 60000) else delayMs)"
  by pat_completeness auto
termination by (relation "measure (\<lambda>(a, i, _). a - i)") auto

declare backoff_loop.simps [simp del]

record reconnect_state =
  rn_attempts :: nat
  rn_reconnecting :: bool

text \<open>\<open>Some d\<close>: a thread is started that connects again after \<open>d\<close> milliseconds.\<close>

definition attemptReconnect :: "nat \<Rightarrow> int \<Rightarrow> reconnect_state \<Rightarrow> int option \<times> reconnect_state" where
  "attemptReconnect maxAttempts baseMs s =
     (if maxAttempts \<le> rn_attempts s then (None, s)
      else let n = rn_attempts s + 1
           in if rn_reconnecting s then (None, s\<lparr>rn_attempts := n\<rparr>)
              else (Some (backoff_loop n 1 baseMs), \<lparr>rn_attempts = n, rn_reconnecting = True\<rparr>))"

section \<open>Reading\<close>

text \<open>A reader of packets, as the standards describe them; \<open>acc\<close> is the unit whose fragments have come so far.\<close>

definition rtp_payload :: "byte list \<Rightarrow> byte list" where "rtp_payload p = drop 12 p"

definition rtp_view :: "byte list \<Rightarrow> 16 word \<times> bool \<times> 32 word \<times> 32 word" where
  "rtp_view p =
     (push_bit 8 (ucast (p ! 2)) OR ucast (p ! 3), bit (p ! 1) 7,
      push_bit 24 (ucast (p ! 4)) OR push_bit 16 (ucast (p ! 5)) OR push_bit 8 (ucast (p ! 6)) OR ucast (p ! 7),
      push_bit 24 (ucast (p ! 8)) OR push_bit 16 (ucast (p ! 9)) OR push_bit 8 (ucast (p ! 10)) OR ucast (p ! 11))"

function stap_units :: "byte list \<Rightarrow> byte list list" where
  "stap_units [] = []"
| "stap_units [a] = []"
| "stap_units (a # b # s) = (let n = unat a * 256 + unat b in take n s # stap_units (drop n s))"
  by pat_completeness auto
termination by (relation "measure length") auto

fun read_packets :: "byte list \<Rightarrow> byte list list \<Rightarrow> byte list list" where
  "read_packets acc [] = []"
| "read_packets acc (p # ps) =
     (let d = rtp_payload p; t = hd d AND 0x1F
      in if t = 28 then
           (let u = (if bit (d ! 1) 7 then [(d ! 0 AND 0xE0) OR (d ! 1 AND 0x1F)] else acc) @ drop 2 d
            in if bit (d ! 1) 6 then u # read_packets [] ps else read_packets u ps)
         else if t = 24 then stap_units (tl d) @ read_packets [] ps
         else d # read_packets [] ps)"

lemma byte_all:
  assumes "list_all P (map word_of_nat [0..<256])"
  shows "P (b :: byte)"
proof -
  have "unat b < 256" using unsigned_less [of b] by simp
  moreover have "\<forall>i < 256. P (word_of_nat i)" using assms by (simp add: list_all_iff)
  ultimately have "P (word_of_nat (unat b))" by blast
  then show ?thesis by simp
qed

lemma fu_bytes:
  fixes h :: byte
  shows "((h AND 0x60) OR 28) AND 0x1F = 28"
    and "\<not> bit h 7 \<Longrightarrow> (((h AND 0x60) OR 28) AND 0xE0) OR (((h AND 0x1F) OR 0x80) AND 0x1F) = h"
    and "\<not> bit h 7 \<Longrightarrow> (((h AND 0x60) OR 28) AND 0xE0) OR (((h AND 0x1F) OR 0xC0) AND 0x1F) = h"
    and "bit ((h AND 0x1F) OR 0x80) 7" "bit ((h AND 0x1F) OR 0xC0) 7" "\<not> bit ((h AND 0x1F) OR 0x40) 7"
    and "\<not> bit (h AND 0x1F) 7"
    and "bit ((h AND 0x1F) OR 0x40) 6" "bit ((h AND 0x1F) OR 0xC0) 6" "\<not> bit ((h AND 0x1F) OR 0x80) 6"
    and "\<not> bit (h AND 0x1F) 6"
proof -
  let ?P = "\<lambda>h :: byte. ((h AND 0x60) OR 28) AND 0x1F = 28
     \<and> (bit h 7 \<or> (((h AND 0x60) OR 28) AND 0xE0) OR (((h AND 0x1F) OR 0x80) AND 0x1F) = h
          \<and> (((h AND 0x60) OR 28) AND 0xE0) OR (((h AND 0x1F) OR 0xC0) AND 0x1F) = h)
     \<and> bit ((h AND 0x1F) OR 0x80) 7 \<and> bit ((h AND 0x1F) OR 0xC0) 7 \<and> \<not> bit ((h AND 0x1F) OR 0x40) 7
     \<and> \<not> bit (h AND 0x1F) 7
     \<and> bit ((h AND 0x1F) OR 0x40) 6 \<and> bit ((h AND 0x1F) OR 0xC0) 6 \<and> \<not> bit ((h AND 0x1F) OR 0x80) 6
     \<and> \<not> bit (h AND 0x1F) 6"
  have "?P h" by (rule byte_all [where P = ?P]) code_simp
  then show "((h AND 0x60) OR 28) AND 0x1F = 28"
    and "\<not> bit h 7 \<Longrightarrow> (((h AND 0x60) OR 28) AND 0xE0) OR (((h AND 0x1F) OR 0x80) AND 0x1F) = h"
    and "\<not> bit h 7 \<Longrightarrow> (((h AND 0x60) OR 28) AND 0xE0) OR (((h AND 0x1F) OR 0xC0) AND 0x1F) = h"
    and "bit ((h AND 0x1F) OR 0x80) 7" "bit ((h AND 0x1F) OR 0xC0) 7" "\<not> bit ((h AND 0x1F) OR 0x40) 7"
    and "\<not> bit (h AND 0x1F) 7"
    and "bit ((h AND 0x1F) OR 0x40) 6" "bit ((h AND 0x1F) OR 0xC0) 6" "\<not> bit ((h AND 0x1F) OR 0x80) 6"
    and "\<not> bit (h AND 0x1F) 6" by blast+
qed

lemma header_length [simp]: "length (build_rtp_header m q ts ssrc) = 12"
  by (simp add: build_rtp_header_def)

lemma header_payload [simp]: "rtp_payload (build_rtp_header m q ts ssrc @ d) = d"
  by (simp add: rtp_payload_def)

lemma split_16: "push_bit 8 (ucast (ucast (drop_bit 8 w) :: byte)) OR ucast (ucast w :: byte) = (w :: 16 word)"
  by (rule bit_word_eqI) (auto simp: bit_simps)

lemma split_32:
  "push_bit 24 (ucast (ucast (drop_bit 24 w) :: byte)) OR push_bit 16 (ucast (ucast (drop_bit 16 w) :: byte))
     OR push_bit 8 (ucast (ucast (drop_bit 8 w) :: byte)) OR ucast (ucast w :: byte) = (w :: 32 word)"
proof (rule bit_word_eqI)
  fix n assume "n < LENGTH(32)"
  then consider "n < 8" | "8 \<le> n" "n < 16" | "16 \<le> n" "n < 24" | "24 \<le> n" "n < 32" by fastforce
  then show "bit (push_bit 24 (ucast (ucast (drop_bit 24 w) :: byte)) OR push_bit 16 (ucast (ucast (drop_bit 16 w) :: byte))
     OR push_bit 8 (ucast (ucast (drop_bit 8 w) :: byte)) OR ucast (ucast w :: byte) :: 32 word) n = bit w n"
    by cases (auto simp: bit_simps)
qed

lemma header_view: "rtp_view (build_rtp_header m q ts ssrc @ d) = (q, m, ts, ssrc)"
proof -
  have "bit ((0x80 :: byte) OR (kRtpPayloadType AND 0x7F)) 7" "\<not> bit ((0 :: byte) OR (kRtpPayloadType AND 0x7F)) 7"
    unfolding kRtpPayloadType_def by code_simp+
  then show ?thesis by (auto simp: rtp_view_def build_rtp_header_def split_16 split_32)
qed

section \<open>Every unit comes through\<close>

text \<open>A unit: not empty, its forbidden bit clear, and not itself a packet of units or fragments.\<close>

definition unit_ok :: "byte list \<Rightarrow> bool" where
  "unit_ok n \<longleftrightarrow> n \<noteq> [] \<and> \<not> bit (hd n) 7 \<and> nal_type n \<noteq> 24 \<and> nal_type n \<noteq> 28"

lemma read_fragments:
  "\<not> bit h 7 \<Longrightarrow> p \<noteq> []
     \<Longrightarrow> read_packets acc (fu_packets h ln ts ssrc first q p @ rest) = ((if first then [h] else acc) @ p) # read_packets [] rest"
proof (induction h ln ts ssrc first q p arbitrary: acc rule: fu_packets.induct)
  case (2 h ln ts ssrc first q x xs)
  define rem where "rem = drop (kMaxPayload - kFuHeaderSize) (x # xs)"
  define chunk where "chunk = take (kMaxPayload - kFuHeaderSize) (x # xs)"
  have cut: "chunk @ rem = x # xs" by (simp add: chunk_def rem_def)
  note IH = "2.IH" [OF refl refl refl refl refl, folded rem_def]
  show ?case
  proof (cases "rem = []")
    case True
    then show ?thesis using "2.prems"(1) cut
      by (simp add: Let_def rem_def [symmetric] chunk_def [symmetric] kH264NalFuA_def fu_bytes or.assoc)
  next
    case False
    then show ?thesis using "2.prems"(1) cut IH [OF "2.prems"(1) False]
      by (simp add: Let_def rem_def [symmetric] chunk_def [symmetric] kH264NalFuA_def fu_bytes or.assoc)
  qed
qed simp

lemma stap_count_small: "n \<in> set (take (stap_count k ns) ns) \<Longrightarrow> length n \<le> 600"
  by (induction ns arbitrary: k) (auto simp: kStapSmallLimit_def split: if_splits)

lemma read_stap: "\<forall>n \<in> set ns. length n \<le> 600 \<Longrightarrow> stap_units (concat (map stap_unit ns)) = ns"
proof (induction ns)
  case (Cons n ns)
  have "length n < 256 * 256" using Cons.prems by simp
  then have "length n div 256 < 256" by (simp add: div_less_iff_less_mult)
  then have "unat (of_nat (length n div 256) :: byte) * 256 + unat (of_nat (length n) :: byte) = length n"
    using Cons.prems by (simp add: unat_of_nat)
  with Cons show ?case by (simp add: stap_unit_def Let_def)
qed simp

text \<open>The three cases, as equations.\<close>

lemma packets_large:
  assumes "kMaxPayload < length nal"
  shows "packets_from ts ssrc q (nal # rest) = fu_packets (hd nal) (rest = []) ts ssrc True q (tl nal)
     @ packets_from ts ssrc (q + of_nat (length (fu_packets (hd nal) (rest = []) ts ssrc True q (tl nal)))) rest"
  using assms by (simp add: Let_def)

lemma packets_stap:
  assumes "\<not> kMaxPayload < length nal" and "k = stap_count 1 (nal # rest)" and "1 < k"
  shows "packets_from ts ssrc q (nal # rest)
     = (build_rtp_header (k = length (nal # rest)) q ts ssrc @ kH264NalStapA # concat (map stap_unit (take k (nal # rest))))
       # packets_from ts ssrc (q + 1) (drop k (nal # rest))"
  using assms by (simp add: Let_def del: stap_count.simps One_nat_def)

lemma packets_single:
  assumes "\<not> kMaxPayload < length nal" and "\<not> 1 < stap_count 1 (nal # rest)"
  shows "packets_from ts ssrc q (nal # rest)
     = (build_rtp_header (rest = []) q ts ssrc @ nal) # packets_from ts ssrc (q + 1) rest"
  using assms by (simp add: Let_def del: stap_count.simps One_nat_def)

declare packets_from.simps(2) [simp del] stap_count.simps(2) [simp del]

lemma packets_units:
  "list_all unit_ok ns \<Longrightarrow> read_packets acc (packets_from ts ssrc q ns) = ns"
proof (induction ts ssrc q ns arbitrary: acc rule: packets_from.induct)
  case (2 ts ssrc q nal rest)
  have ok: "nal \<noteq> []" "\<not> bit (hd nal) 7" "hd nal AND 0x1F \<noteq> 24" "hd nal AND 0x1F \<noteq> 28"
    using "2.prems" by (simp_all add: unit_ok_def nal_type_def)
  show ?case
  proof (cases "kMaxPayload < length nal")
    case True
    then have "tl nal \<noteq> []" by (cases nal) (auto simp: kMaxPayload_def)
    from read_fragments [OF ok(2) this] "2.IH"(1) [OF True refl] "2.prems" ok(1)
    show ?thesis by (simp add: packets_large [OF True])
  next
    case False
    define k where "k = stap_count 1 (nal # rest)"
    show ?thesis
    proof (cases "1 < k")
      case True
      have "stap_units (concat (map stap_unit (take k (nal # rest)))) = take k (nal # rest)"
        using stap_count_small [of _ 1 "nal # rest"] by (intro read_stap) (auto simp: k_def)
      moreover have "list_all unit_ok (drop k (nal # rest))"
        using "2.prems" set_drop_subset [of k "nal # rest"] unfolding list_all_iff by blast
      moreover have "(24 :: byte) AND 0x1F = 24" by code_simp
      ultimately show ?thesis
        using "2.IH"(2) [OF False k_def True]
        by (simp add: packets_stap [OF False k_def True] Let_def kH264NalStapA_def)
    next
      case False2: False
      then show ?thesis
        using "2.IH"(3) [OF False k_def False2] "2.prems" False2 ok packets_single [OF False] by (simp add: k_def Let_def del: One_nat_def)
    qed
  qed
qed simp

text \<open>
  Every unit of a picture comes through: whoever reads the packets as the standards describe
  them gets the units that were queued, whole and in order, however small or large they are.
\<close>

theorem packets_carry_units:
  assumes "list_all unit_ok units"
  shows "read_packets [] (packets_from ts ssrc seqno units) = units"
  using assms by (rule packets_units)

theorem packets_carry_units_witness:
  "read_packets [] (packets_from 90 1 65535 [[0x67, 1, 2], [0x68, 3], 0x65 # replicate 2000 7])
     = [[0x67, 1, 2], [0x68, 3], 0x65 # replicate 2000 7]"
proof -
  have "list_all unit_ok [[0x67, 1, 2], [0x68, 3], 0x65 # replicate 2000 7]"
    by (simp add: unit_ok_def nal_type_def)
  then show ?thesis by (rule packets_carry_units)
qed

section \<open>Size, number and mark of a packet\<close>

lemma fu_size: "list_all (\<lambda>p. length p \<le> 1200) (fu_packets h ln ts ssrc first q p)"
  by (induction h ln ts ssrc first q p rule: fu_packets.induct) (simp_all add: Let_def kMaxPayload_def kFuHeaderSize_def)

lemma length_stap_unit [simp]: "length (stap_unit n) = 2 + length n"
  by (simp add: stap_unit_def)

lemma stap_size:
  "b \<le> kMaxPayload \<Longrightarrow> b + length (concat (map stap_unit (take (stap_count b ns) ns))) \<le> kMaxPayload"
proof (induction ns arbitrary: b)
  case (Cons n ns)
  show ?case
  proof (cases "kStapSmallLimit < length n \<or> kMaxPayload < b + 2 + length n")
    case True
    then have "stap_count b (n # ns) = 0" by (subst stap_count.simps(2)) simp
    then show ?thesis using Cons.prems by simp
  next
    case False
    then have "stap_count b (n # ns) = Suc (stap_count (b + 2 + length n) ns)" by (subst stap_count.simps(2)) simp
    moreover have "b + 2 + length n + length (concat (map stap_unit (take (stap_count (b + 2 + length n) ns) ns))) \<le> kMaxPayload"
      using Cons.IH [of "b + 2 + length n"] False by simp
    ultimately show ?thesis by simp
  qed
qed simp

text \<open>
  C21: No packet is larger than 1200 bytes, its header included, whatever units are sent.
\<close>

theorem packets_within_limit:
  "list_all (\<lambda>p. length p \<le> 1200) (packets_from ts ssrc seqno units)"
proof (induction ts ssrc seqno units rule: packets_from.induct)
  case (2 ts ssrc q nal rest)
  consider (large) "kMaxPayload < length nal"
    | (stap) "\<not> kMaxPayload < length nal" "1 < stap_count 1 (nal # rest)"
    | (single) "\<not> kMaxPayload < length nal" "\<not> 1 < stap_count 1 (nal # rest)" by blast
  then show ?case
  proof cases
    case large
    then show ?thesis using "2.IH"(1) [OF large refl] fu_size by (simp add: packets_large)
  next
    case stap
    have "1 + length (concat (map stap_unit (take (stap_count 1 (nal # rest)) (nal # rest)))) \<le> kMaxPayload"
      by (rule stap_size) (simp add: kMaxPayload_def)
    then show ?thesis using "2.IH"(2) [OF stap(1) refl stap(2)]
      by (simp add: packets_stap [OF stap(1) refl stap(2)] kMaxPayload_def del: One_nat_def take_Suc_Cons)
  next
    case single
    then show ?thesis using "2.IH"(3) [OF single(1) refl single(2)]
      by (simp add: packets_single kMaxPayload_def)
  qed
qed simp

text \<open>The views of \<open>n\<close> packets in a row, the last one marked if \<open>fin\<close>.\<close>

definition row :: "32 word \<Rightarrow> 32 word \<Rightarrow> 16 word \<Rightarrow> bool \<Rightarrow> nat \<Rightarrow> (16 word \<times> bool \<times> 32 word \<times> 32 word) list" where
  "row ts ssrc q fin n = map (\<lambda>i. (q + of_nat i, fin \<and> Suc i = n, ts, ssrc)) [0..<n]"

lemma row_Suc: "row ts ssrc q fin (Suc n) = (q, fin \<and> n = 0, ts, ssrc) # row ts ssrc (q + 1) fin n"
  by (simp add: row_def upt_conv_Cons del: upt_Suc) (simp add: map_Suc_upt [symmetric] comp_def add.commute add.left_commute del: upt_Suc)

lemma row_append: "row ts ssrc q False m @ row ts ssrc (q + of_nat m) fin n = row ts ssrc q fin (m + n)" if "n \<noteq> 0"
  using that
proof (induction m arbitrary: q)
  case (Suc m)
  with Suc.IH [of "q + 1"] show ?case by (simp add: row_Suc add.assoc)
qed (simp add: row_def)

lemma fu_row:
  "map rtp_view (fu_packets h ln ts ssrc first q p) = row ts ssrc q ln (length (fu_packets h ln ts ssrc first q p))"
proof (induction h ln ts ssrc first q p rule: fu_packets.induct)
  case (2 h ln ts ssrc first q x xs)
  let ?r = "drop (kMaxPayload - kFuHeaderSize) (x # xs)"
  have "(fu_packets h ln ts ssrc False (q + 1) ?r = []) = (?r = [])" by (cases ?r) (simp_all add: Let_def)
  with "2.IH" [OF refl refl refl refl refl] show ?case
    by (auto simp: Let_def header_view row_Suc)
qed (simp add: row_def)

lemma packets_nonempty: "units \<noteq> [] \<Longrightarrow> packets_from ts ssrc q units \<noteq> []"
proof (cases units)
  case (Cons nal rest)
  show ?thesis
  proof (cases "kMaxPayload < length nal")
    case True
    then obtain x xs where "tl nal = x # xs" by (cases "tl nal") (auto simp: kMaxPayload_def dest: arg_cong [of _ _ length])
    then show ?thesis by (simp add: Cons packets_large [OF True] Let_def)
  next
    case False
    then show ?thesis
      by (cases "1 < stap_count 1 (nal # rest)") (simp_all add: Cons packets_stap packets_single del: One_nat_def)
  qed
qed simp

lemma row_next:
  assumes "map rtp_view ps = row ts ssrc q (rest = []) (length ps)"
    and "map rtp_view qs = row ts ssrc (q + of_nat (length ps)) True (length qs)"
    and "(qs = []) = (rest = [])"
  shows "map rtp_view (ps @ qs) = row ts ssrc q True (length (ps @ qs))"
  using assms row_append [of "length qs" ts ssrc q "length ps" True] by (cases "rest = []") auto

text \<open>
  C20: The packets of a picture are a row: numbered one after the other from the next number on,
  modulo \<open>2 ^ 16\<close>, all with the time stamp and the source of the picture, the last one and no other
  marked.
\<close>

theorem packets_form_a_row:
  "map rtp_view (packets_from ts ssrc seqno units)
     = map (\<lambda>i. (seqno + of_nat i, Suc i = length (packets_from ts ssrc seqno units), ts, ssrc))
         [0..<length (packets_from ts ssrc seqno units)]"
proof -
  have "map rtp_view (packets_from ts ssrc seqno units) = row ts ssrc seqno True (length (packets_from ts ssrc seqno units))"
  proof (induction ts ssrc seqno units rule: packets_from.induct)
    case (2 ts ssrc q nal rest)
    have none: "(packets_from ts ssrc q' ns = []) = (ns = [])" for q' ns
      using packets_nonempty [of ns] by (cases "ns = []") auto
    consider (large) "kMaxPayload < length nal"
      | (stap) "\<not> kMaxPayload < length nal" "1 < stap_count 1 (nal # rest)"
      | (single) "\<not> kMaxPayload < length nal" "\<not> 1 < stap_count 1 (nal # rest)" by blast
    then show ?case
    proof cases
      case large
      from row_next [OF fu_row "2.IH"(1) [OF large refl] none] show ?thesis unfolding packets_large [OF large] .
    next
      case stap
      define k where "k = stap_count 1 (nal # rest)"
      define p where "p = build_rtp_header (k = length (nal # rest)) q ts ssrc @ kH264NalStapA
        # concat (map stap_unit (take k (nal # rest)))"
      have k: "k \<le> length (nal # rest)" unfolding k_def by (rule stap_count_le)
      have "map rtp_view [p] = row ts ssrc q (drop k (nal # rest) = []) (length [p])"
        using k by (auto simp: p_def header_view row_def)
      from row_next [OF this, of "packets_from ts ssrc (q + 1) (drop k (nal # rest))"]
        "2.IH"(2) [OF stap(1) k_def, folded k_def] stap(2) none
      show ?thesis unfolding packets_stap [OF stap(1) k_def stap(2) [folded k_def]] p_def by (simp add: k_def)
    next
      case single
      define p where "p = build_rtp_header (rest = []) q ts ssrc @ nal"
      have "map rtp_view [p] = row ts ssrc q (rest = []) (length [p])" by (simp add: p_def header_view row_def)
      from row_next [OF this, of "packets_from ts ssrc (q + 1) rest"] "2.IH"(3) [OF single(1) refl single(2)] none
      show ?thesis unfolding packets_single [OF single] p_def by simp
    qed
  qed (simp add: row_def)
  then show ?thesis by (simp add: row_def)
qed

section \<open>From the encoder to the reader\<close>

text \<open>The byte stream of an encoder: each unit after a start code of four or three bytes.\<close>

definition code_bytes :: "bool \<Rightarrow> byte list" where
  "code_bytes long = (if long then [0, 0, 0, 1] else [0, 0, 1])"

definition byte_stream :: "(bool \<times> byte list) list \<Rightarrow> byte list" where
  "byte_stream us = concat (map (\<lambda>(long, n). code_bytes long @ n) us)"

fun no_code :: "byte list \<Rightarrow> bool" where
  "no_code [] = True"
| "no_code (b # s) = (take 3 (b # s) \<noteq> [0, 0, 1] \<and> no_code s)"

text \<open>What the standard asks of a unit: no start code inside, no zero at its end.\<close>

definition unit_clean :: "byte list \<Rightarrow> bool" where
  "unit_clean n \<longleftrightarrow> unit_ok n \<and> no_code n \<and> last n \<noteq> 0"

lemma code_start [simp]: "start_code_len (code_bytes long @ s) = (if long then 4 else 3)"
  by (simp add: start_code_len_def code_bytes_def)

lemma stream_start: "s = byte_stream us \<Longrightarrow> s = [] \<or> start_code_len s \<noteq> 0 \<and> take 2 s = [0, 0]"
  by (cases us) (auto simp: byte_stream_def code_bytes_def start_code_len_def split: if_splits)

lemma until_stream:
  assumes "no_code r" and "r = [] \<or> last r \<noteq> 0" and "s = byte_stream us"
  shows "until_start_code (r @ s) = (r, s)"
  using assms(1,2)
proof (induction r)
  case Nil
  then show ?case using stream_start [OF assms(3)] by (cases s) auto
next
  case (Cons b r)
  have r: "no_code r" "r = [] \<or> last r \<noteq> 0" using Cons.prems by (auto split: if_splits)
  have "start_code_len (b # r @ s) = 0"
  proof -
    have "take 3 (b # r @ s) \<noteq> [0, 0, 1]"
    proof
      assume t: "take 3 (b # r @ s) = [0, 0, 1]"
      consider "r = []" | c where "r = [c]" | c d r' where "r = c # d # r'" by (metis list.exhaust)
      then show False using Cons.prems t by cases (auto simp: numeral_eq_Suc)
    qed
    moreover have "take 4 (b # r @ s) \<noteq> [0, 0, 0, 1]"
    proof
      assume t: "take 4 (b # r @ s) = [0, 0, 0, 1]"
      consider "r = []" | c where "r = [c]" | c d where "r = [c, d]" | c d e r' where "r = c # d # e # r'" by (metis list.exhaust)
      then show False using Cons.prems t by cases (auto simp: numeral_eq_Suc)
    qed
    ultimately show ?thesis by (simp add: start_code_len_def)
  qed
  with Cons.IH [OF r] show ?case by simp
qed

lemma find_units: "list_all unit_clean (map snd us) \<Longrightarrow> find_nal_units (byte_stream us) = map snd us"
proof (induction us)
  case (Cons u us)
  obtain long n where u: "u = (long, n)" by force
  obtain c r where n: "n = c # r" using Cons.prems by (cases n) (auto simp: u unit_clean_def unit_ok_def)
  have r: "no_code r" "r = [] \<or> last r \<noteq> 0" using Cons.prems by (auto simp: u n unit_clean_def split: if_splits)
  have s: "byte_stream (u # us) = code_bytes long @ c # r @ byte_stream us" by (simp add: byte_stream_def u n)
  obtain b t where bt: "code_bytes long @ c # r @ byte_stream us = b # t" by (cases long) (simp_all add: code_bytes_def)
  have "drop (start_code_len (b # t)) (b # t) = c # r @ byte_stream us" "start_code_len (b # t) \<noteq> 0"
    unfolding bt [symmetric] by (simp_all only: code_start) (simp_all add: code_bytes_def)
  then have "find_nal_units (b # t) = (c # r) # find_nal_units (byte_stream us)"
    using until_stream [OF r refl, of us] by simp
  moreover have "find_nal_units (byte_stream us) = map snd us" using Cons by simp
  ultimately show ?case unfolding s bt by (simp only: u n list.map snd_conv)
qed (simp add: byte_stream_def)

lemma sent_all [simp]: "sent_until (\<lambda>_. False) k ps = ps"
  by (induction ps arbitrary: k) simp_all

lemma store_sets_kept: "rt_connected (store_sets ns s) = rt_connected s"
  by (induction ns arbitrary: s) (simp_all add: store_sets_def)

lemma store_sets_ok:
  "list_all unit_ok ns \<Longrightarrow> (rt_sps s = [] \<or> unit_ok (rt_sps s)) \<and> (rt_pps s = [] \<or> unit_ok (rt_pps s))
     \<Longrightarrow> (rt_sps (store_sets ns s) = [] \<or> unit_ok (rt_sps (store_sets ns s)))
       \<and> (rt_pps (store_sets ns s) = [] \<or> unit_ok (rt_pps (store_sets ns s)))"
  by (induction ns arbitrary: s) (simp_all add: store_sets_def)

text \<open>
  C19: A picture reaches the viewer: from the byte stream of the encoder the reader of the packets
  gets its units in order, for a key picture with the parameter sets that are in force in front
  and none of its own after them, so that a viewer who joins late can start there; other pictures
  come as they are.
\<close>

theorem picture_reaches_viewer:
  assumes "rt_connected s" and "list_all unit_clean (map snd us)" and "us \<noteq> []"
    and "rt_sps s = [] \<or> unit_ok (rt_sps s)" and "rt_pps s = [] \<or> unit_ok (rt_pps s)"
  shows "read_packets [] (fst (sendH264 (\<lambda>_. False) (byte_stream us) t key s))
     = (if key then
          let s1 = store_sets (map snd us) s; others = filter (\<lambda>n. nal_type n \<notin> {7, 8}) (map snd us)
          in if rt_sps s1 \<noteq> [] \<and> rt_pps s1 \<noteq> [] then rt_sps s1 # rt_pps s1 # others else others
        else map snd us)"
proof -
  have ok: "list_all unit_ok (map snd us)" using assms(2) by (auto simp: list_all_iff unit_clean_def)
  define s1 where "s1 = (if key then store_sets (map snd us) s else s)"
  have sets: "rt_sps s1 = [] \<or> unit_ok (rt_sps s1)" "rt_pps s1 = [] \<or> unit_ok (rt_pps s1)"
    using store_sets_ok [OF ok] assms(4,5) by (simp_all add: s1_def)
  have q: "list_all unit_ok (send_queue_of key (map snd us) s1)"
    using ok sets by (auto simp: send_queue_of_def list_all_iff)
  have d: "byte_stream us \<noteq> []" using assms(3) by (cases us) (auto simp: byte_stream_def code_bytes_def split: if_splits)
  have "read_packets [] (fst (sendH264 (\<lambda>_. False) (byte_stream us) t key s)) = send_queue_of key (map snd us) s1"
    using assms(1) d packets_units [OF q] by (simp add: sendH264_def find_units [OF assms(2)] s1_def [symmetric] Let_def)
  also have "\<dots> = (if key then
          let s1 = store_sets (map snd us) s; others = filter (\<lambda>n. nal_type n \<notin> {7, 8}) (map snd us)
          in if rt_sps s1 \<noteq> [] \<and> rt_pps s1 \<noteq> [] then rt_sps s1 # rt_pps s1 # others else others
        else map snd us)"
  proof -
    have "filter (\<lambda>n. n \<noteq> [] \<and> P n) (map snd us) = filter P (map snd us)" for P
      using ok by (intro filter_cong) (auto simp: list_all_iff unit_ok_def)
    moreover have "filter (\<lambda>n. n \<noteq> []) (map snd us) = map snd us"
      using ok by (intro filter_True) (auto simp: list_all_iff unit_ok_def)
    ultimately show ?thesis by (simp add: send_queue_of_def s1_def Let_def)
  qed
  finally show ?thesis .
qed

definition key_picture :: "(bool \<times> byte list) list" where
  "key_picture = [(True, [0x67, 1]), (True, [0x68, 2]), (False, [0x65, 3, 4])]"

theorem picture_reaches_viewer_witness:
  "read_packets [] (fst (sendH264 (\<lambda>_. False) (byte_stream key_picture) 1000 True (new_sender\<lparr>rt_connected := True\<rparr>)))
     = [[0x67, 1], [0x68, 2], [0x65, 3, 4]]"
proof -
  have t: "(0x67 :: byte) AND 0x1F = 7" "(0x68 :: byte) AND 0x1F = 8" "(0x65 :: byte) AND 0x1F = 5" by code_simp+
  have "list_all unit_clean (map snd key_picture)"
    by code_simp
  then show ?thesis
    using picture_reaches_viewer [of "new_sender\<lparr>rt_connected := True\<rparr>" key_picture 1000 True]
    by (simp add: new_sender_def key_picture_def store_sets_def nal_type_def t)
qed

section \<open>Connecting again\<close>

lemma backoff_value:
  assumes "0 < d" and "d \<le> 60000" and "i \<le> n"
  shows "backoff_loop n i d = min (d * 2 ^ (n - i)) 60000"
  using assms
proof (induction n i d rule: backoff_loop.induct)
  case (1 n i d)
  show ?case
  proof (cases "i < n \<and> d < 60000")
    case True
    then have e: "n - i = Suc (n - (i + 1))" by (simp add: Suc_diff_Suc)
    have m: "min (min (d * 2) 60000 * 2 ^ k) 60000 = min (d * 2 ^ Suc k) (60000 :: int)" for k
    proof (cases "d * 2 \<le> 60000")
      case False
      have p: "(1 :: int) \<le> 2 ^ k" by simp
      then have "60000 \<le> min (d * 2) 60000 * 2 ^ k" using False by simp
      moreover have "d * 1 \<le> d * 2 ^ k" using 1(2) p by (intro mult_left_mono) simp_all
      then have "60000 \<le> 2 * (d * 2 ^ k)" using False by linarith
      then have "60000 \<le> d * 2 ^ Suc k" by (simp only: power_Suc mult.left_commute)
      ultimately show ?thesis by (simp only: min.absorb2)
    qed (simp add: mult.assoc)
    show ?thesis using 1 True e m [of "n - (i + 1)"] by (subst backoff_loop.simps) simp
  next
    case False
    have "d * 1 \<le> d * 2 ^ (n - i)" using 1(2) by (intro mult_left_mono) simp_all
    with False 1(2-4) show ?thesis by (subst backoff_loop.simps) auto
  qed
qed

fun reconnects :: "nat \<Rightarrow> int \<Rightarrow> nat \<Rightarrow> reconnect_state \<Rightarrow> reconnect_state" where
  "reconnects maxAttempts baseMs 0 s = s"
| "reconnects maxAttempts baseMs (Suc k) s = reconnects maxAttempts baseMs k (snd (attemptReconnect maxAttempts baseMs s))"

lemma reconnects_busy:
  "rn_reconnecting s \<Longrightarrow> rn_attempts s \<le> m
     \<Longrightarrow> reconnects m base k s = s\<lparr>rn_attempts := min (rn_attempts s + k) m\<rparr>"
  by (induction k arbitrary: s) (simp_all add: attemptReconnect_def)

text \<open>
  The attempts to connect again wait twice as long each time, a minute at most. But changes of
  state that come while one attempt waits count as attempts of their own: as many of them as
  are allowed use the attempts up, and from then on none is made, although one was tried.
\<close>

theorem waiting_uses_up_attempts:
  assumes "0 < base" and "base \<le> 60000" and "0 < m"
  shows "fst (attemptReconnect m base \<lparr>rn_attempts = 0, rn_reconnecting = False\<rparr>) = Some base
     \<and> (if n < m then fst (attemptReconnect m base \<lparr>rn_attempts = n, rn_reconnecting = False\<rparr>) = Some (min (base * 2 ^ n) 60000)
        else True)
     \<and> fst (attemptReconnect m base ((reconnects m base m \<lparr>rn_attempts = 0, rn_reconnecting = False\<rparr>)
          \<lparr>rn_reconnecting := False\<rparr>)) = None"
proof -
  have "snd (attemptReconnect m base \<lparr>rn_attempts = 0, rn_reconnecting = False\<rparr>)
      = \<lparr>rn_attempts = 1, rn_reconnecting = True\<rparr>"
    using assms(3) by (simp add: attemptReconnect_def)
  moreover obtain k where "m = Suc k" using assms(3) by (cases m) auto
  ultimately have "reconnects m base m \<lparr>rn_attempts = 0, rn_reconnecting = False\<rparr> = \<lparr>rn_attempts = m, rn_reconnecting = True\<rparr>"
    by (simp add: reconnects_busy)
  then show ?thesis
    using assms backoff_value [of base 1 1] backoff_value [of base 1 "n + 1"]
    by (simp add: attemptReconnect_def)
qed

theorem waiting_uses_up_attempts_witness:
  "fst (attemptReconnect 10 3000 ((reconnects 10 3000 10 \<lparr>rn_attempts = 0, rn_reconnecting = False\<rparr>)
     \<lparr>rn_reconnecting := False\<rparr>)) = None"
  using waiting_uses_up_attempts [of 3000 10 0] by simp

end
