(* ===== verification/Spec2Isabelle.thy ===== *)
theory Spec2Isabelle
  imports Registration Router Text_Utils Agent_Registry Connection_Pool Request_Controller Rate_Limit Request_Filters
    Media_Rooms Worker_Channel Sse_Manager Thread_Pool Frame_Queue
    Router_Handlers Agent_Endpoints Computer_Plugin Feature_Plugin Stream_Endpoints Plugin_Registry Audit_Log
    Http_Server Agent_Features Mediasoup_Backend Email Stream_Pipeline Rtp_Packets
begin

text \<open>
  \<^bold>\<open>hub32api\<close> is a server with which teachers watch and control the machines of a school, and an
  agent that runs on these machines. Paths below are under src/; the server is src/src with its
  headers in src/include, the agent is src/agent.

  \<^bold>\<open>How the parts work together.\<close> An HTTP request passes the filters of its route (rate limit, size
  and shape of the body, CORS, token) and reaches a controller. Controllers ask the JWT service who
  calls, read and change the tables of an organisation through the repositories, and reach the
  agents through the agent registry, a board of members and waiting commands: a feature request of a
  teacher becomes a command, the agent polls it, executes it and reports. Streams go through the room
  manager to a media backend, which in production builds talks to worker threads over channels.
  Several threads touch the same state in the worker channel, the thread pool, the audit log, the
  frame queue of the agent and the life of the process; everywhere else one mutex covers a whole call,
  and a call is one function on the state.

  \<^bold>\<open>Theories.\<close> Each opens with what it models. They stand in layers, each importing the ones it uses.

  \<^item> Shared: Hub32_Prelude (types, theorem collections, generic lemmas), Interfaces (the contracts, as
    locales: token store, credential store, queues per member, routers of a backend), Core_Types
    (core/Error.hpp, Result.hpp, Constants.cpp), Text_Utils (utils, core/CryptoUtils.cpp), Http_Types
    (requests, responses, JSON, HttpErrorUtil.cpp), I18n_Catalog (core/I18n.cpp), Json_Text (which
    answers the JSON library can print).
  \<^item> Identity: Token_Store, Jwt_Auth, User_Roles (src/auth), Captcha and Registration
    (RegisterController.cpp), Auth_Requests (AuthController.cpp, AuthMiddleware.cpp), Email
    (src/service_email).
  \<^item> Tables: Sql_Tables, Student_Repository, Teacher_Repository, Tenant_Repository, Request_Tickets,
    Org_Tables (src/db). A table is the list of its rows; what SQLite answers is an argument.
  \<^item> Endpoints: Request_Controller, School_Controllers, People_Controllers, Agent_Endpoints,
    Computer_Endpoints, Stream_Endpoints (src/api), Computer_Plugin, Feature_Plugin, Plugin_Registry
    (src/plugins, core/PluginRegistry.cpp).
  \<^item> The way of a request: Rate_Limit, Request_Filters (src/api/v1/middleware), Route_Patterns,
    Route_Table, Router, Router_Handlers (server/Router.cpp).
  \<^item> Agents: Agent_Registry with its abstract specification Agent_Board (src/agent of the server),
    Agent_Client (AgentClient.cpp, CommandDispatcher.cpp, SignalingClient.cpp), Agent_Features
    (InputLock.cpp, ScreenLock.cpp, PowerControl.cpp, MessageDisplay.cpp), Frame_Queue
    (FrameQueue.hpp), Color_Conversion (CpuColorConverter.cpp, EncoderFactory.cpp), Stream_Pipeline
    (StreamPipeline.cpp, StreamControl.cpp), Rtp_Packets (WebRtcProducer.cpp).
  \<^item> Media: Media_Rooms (RoomManager.cpp, MockSfuBackend.cpp), Worker_Channel (WorkerChannel.cpp),
    Worker_Messages (WorkerMessageBuilder.cpp), Mediasoup_Backend (MediasoupSfuBackend.cpp).
  \<^item> The process: Connection_Pool, Thread_Pool, Sse_Manager, Audit_Log, Server_Config (ServerConfig.cpp,
    ConfigValidator.cpp), Http_Server (HttpServer.cpp, service/main.cpp).

  \<^bold>\<open>How code becomes definitions.\<close> A class is a record of its members, a method a function that
  returns its result and the new state, under the name of the method where no constant of the library
  has it. An error is the left side of a sum; an exception that leaves a function is an outer
  \<open>None\<close>. A hash map is a partial map, and where the code depends on the order of a traversal the
  order is an argument. Times, random bytes, the answers of SQLite, OpenSSL, jwt-cpp, libcurl, the JSON
  parser, the media worker and Windows are arguments; a property that relies on what one of them
  promises has the promise as a hypothesis. Words have the width of the code where a value can
  wrap (request identifiers, ports, bytes, the counters of the metrics, RTP numbers). Threads are step
  relations whose steps are what no other thread can split.

  \<^bold>\<open>What the lemmas show.\<close>

  \<^item> Who can do what: a token authenticates exactly if it is signed, unexpired, complete and not
    revoked; an identity in a token comes from a secret that was shown; only a role that may write
    changes the organisation, and this holds from the route to the tables.
  \<^item> What the tables keep: unique keys and resolving references through every operation and cascade,
    atomic tickets, the binding of a student to a machine.
  \<^item> That commands arrive: the registry refines the abstract board; commands are handed out once and in
    order over all requests; the client reads what the server wrote, and a command that is polled
    ends with its result in the registry if it is run and its report arrives. Text that is not
    UTF-8 is the exception: it empties a queue into a 500, or ends the agent.
  \<^item> That streams are consistent: the contract \<open>sfu_routers\<close> is proved of both backends, the rooms agree
    with the routers of either, and every message to a worker is about something this worker was told to create.
    What the encoder of an agent makes comes through its RTP packets whole and in order.
  \<^item> That threads do not lose work: responses answer their requests, tasks start once and in order, the
    rows of the audit table are made from what was logged, in order, a stop request ends a server that
    listens when its last handler has ended.
  \<^item> Bounds and codings: the rate of admitted requests, the limits of the pool, the size of packets, the
    steps of quality, the buffer of a converted picture, base64, hexadecimal, captcha and token round trips.
  \<^item> Where the code does not do what it means to: statements of this kind are proved like the others. An
    agent never registers with this server, a heartbeat loses commands, closing a transport closes its
    worker, a small screen is read beyond its end, an address can add lines to a mail, a shutdown can miss a thread, an early stop is lost,
    a client that keeps an event stream open keeps the server from stopping.

  \<^bold>\<open>Bounds and fuel.\<close> Loops over data are structural recursion, or have a measure. Fuel appears twice: in
  \<open>unescape\<close> of Email, a reading of markup for a specification, where the length of the text is
  enough, and in \<open>heartbeats\<close> of Router_Handlers, for a stream that may stay open for ever, where
  \<open>None\<close> is a stream still open. Loops that wait for other threads are steps of a relation, and that
  they end is a bound on the number of steps.

  \<^bold>\<open>Not modelled.\<close>

  \<^item> Code that is generated or belongs to others: the FlatBuffers headers under src/src/media/FBS, which are
    most of the lines of the repository's C++, and the libraries named above. The messages are modelled as the
    trees the code hands to these headers.
  \<^item> Calls of an operating system or a codec without logic of their own: the Windows service
    adapters, capturing the screen, the hardware and software encoders, setting up a WebRTC
    connection, the conversion on the graphics card, drawing the lock window.
  \<^item> Log output; the construction of the services in HttpServer.cpp and the creation of the schema
    in DatabaseManager.cpp, whose tables, constraints and cascades are part of the repositories.
  \<^item> Rounding: the arithmetic on floating-point numbers of the rate limiter is exact here. The overflow of the
    round-robin counter of the media backend, undefined after \<open>2 ^ 31\<close> routers, is left out, and so is
    that of the call counter of the rate limiter.
  \<^item> Whether an answer can be printed, outside of the endpoints of the agents: an answer is the value that is to
    be printed, and a text in it that is not UTF-8 makes the HTTP library answer 500 after what the
    handler has done (\<open>printed\<close> in Json_Text). The verification of a registration is one step, although
    the code takes the mutex of the pending table three times.
\<close>

end
